(* ===== verification/Prelude.thy ===== *)
theory Prelude
  imports Main
begin

text \<open>
  Shared vocabulary of the development: Go strings as byte lists with the
  operations of the package \<open>strings\<close> that the components call, the result type
  of a Go function that returns \<open>(T, error)\<close>, and two patterns the source uses
  again and again, each a locale with its lemmas:

  \<^item> \<open>index_table\<close>: a loop that collects rows in a slice and keeps a map from key
    to slice index, merging a row into the one that already has its key
    (\<open>normalizeProjects\<close>, \<open>normalizeHosts\<close>, \<open>normalizeContainers\<close>,
    \<open>normalizeRegistries\<close>, \<open>sanitizeCLIAgentData\<close>);
  \<^item> \<open>row_table\<close>: a slice of rows found by a normalised name, the first match
    winning, updated through a pointer, extended and filtered
    (\<open>getProject\<close>, \<open>getHost\<close>, \<open>getProjectContainer\<close> and their updates).

  Strings are lists of bytes. Space and case tables are the ASCII ones, which is
  what \<open>strings.TrimSpace\<close> and \<open>strings.ToLower\<close> do on ASCII input; the Unicode
  tables beyond that are not modelled.
\<close>

named_theorems table_simps \<open>facts about keyed slices\<close>
named_theorems str_simps \<open>facts about Go string operations\<close>

section \<open>Results of fallible functions\<close>

text \<open>
  An error of \<open>cerr\<close> is a message and, when it wraps another error, its cause; the source
  position that \<open>cerr\<close> records beside them is not part of the model.
\<close>

datatype err = Err (err_message: string) (err_cause: "err option")

type_synonym 'a result = "err + 'a"

abbreviation Ok :: "'a \<Rightarrow> 'a result" where "Ok \<equiv> Inr"
abbreviation NewError :: "string \<Rightarrow> err" where "NewError m \<equiv> Err m None"
abbreviation Fail :: "string \<Rightarrow> 'a result" where "Fail m \<equiv> Inl (NewError m)"

text \<open>\<open>AppendError\<close> and \<open>AppendErrorFmt\<close> keep the error they are given as the cause.\<close>

definition AppendError :: "string \<Rightarrow> err \<Rightarrow> err" where
  "AppendError message e = Err message (Some e)"

text \<open>The common \<open>if err != nil { return cerr.AppendError(m, err) }\<close>.\<close>

definition wrap_error :: "string \<Rightarrow> 'a result \<Rightarrow> 'a result" where
  "wrap_error m r = (case r of Inl e \<Rightarrow> Inl (AppendError m e) | Inr x \<Rightarrow> Inr x)"

definition bind_ok :: "'a result \<Rightarrow> ('a \<Rightarrow> 'b result) \<Rightarrow> 'b result" where
  "bind_ok r f = (case r of Inl e \<Rightarrow> Inl e | Inr x \<Rightarrow> f x)"

lemma wrap_error_simps [simp]:
  "wrap_error m (Inr x) = Inr x" "wrap_error m (Inl e) = Inl (AppendError m e)"
  by (simp_all add: wrap_error_def)

lemma bind_ok_simps [simp]: "bind_ok (Inr x) f = f x" "bind_ok (Inl e) f = Inl e"
  by (simp_all add: bind_ok_def)

lemma wrap_error_ok [simp]: "wrap_error m r = Inr x \<longleftrightarrow> r = Inr x"
  by (cases r) simp_all

lemma bind_ok_Inr: "bind_ok r f = Inr y \<longleftrightarrow> (\<exists>x. r = Inr x \<and> f x = Inr y)"
  by (cases r) simp_all

definition is_ok :: "'a result \<Rightarrow> bool" where
  "is_ok r = (case r of Inl _ \<Rightarrow> False | Inr _ \<Rightarrow> True)"

lemma is_ok_simps [simp]: "is_ok (Inr x)" "\<not> is_ok (Inl e)"
  by (simp_all add: is_ok_def)

lemma is_ok_iff: "is_ok r \<longleftrightarrow> (\<exists>x. r = Inr x)"
  by (cases r) auto

section \<open>Go strings\<close>

abbreviation char_code :: "char \<Rightarrow> nat" where "char_code c \<equiv> of_char c"

definition is_space :: "char \<Rightarrow> bool" where
  "is_space c = (char_code c \<in> {9, 10, 11, 12, 13, 32})"

definition lower_char :: "char \<Rightarrow> char" where
  "lower_char c = (if 65 \<le> char_code c \<and> char_code c \<le> 90 then char_of (char_code c + 32) else c)"

definition trim_left :: "(char \<Rightarrow> bool) \<Rightarrow> string \<Rightarrow> string" where
  "trim_left P s = dropWhile P s"

definition trim_right :: "(char \<Rightarrow> bool) \<Rightarrow> string \<Rightarrow> string" where
  "trim_right P s = rev (dropWhile P (rev s))"

text \<open>\<open>strings.TrimFunc\<close>, \<open>strings.TrimSpace\<close>, \<open>strings.Trim\<close> with a cutset, \<open>strings.ToLower\<close>.\<close>

definition trim_by :: "(char \<Rightarrow> bool) \<Rightarrow> string \<Rightarrow> string" where
  "trim_by P s = trim_right P (trim_left P s)"

definition TrimSpace :: "string \<Rightarrow> string" where
  "TrimSpace s = trim_by is_space s"

definition Trim :: "string \<Rightarrow> string \<Rightarrow> string" where
  "Trim s cutset = trim_by (\<lambda>c. c \<in> set cutset) s"

definition ToLower :: "string \<Rightarrow> string" where
  "ToLower s = map lower_char s"

fun HasPrefix :: "string \<Rightarrow> string \<Rightarrow> bool" where
  "HasPrefix s [] = True"
| "HasPrefix [] (p # ps) = False"
| "HasPrefix (c # cs) (p # ps) = (c = p \<and> HasPrefix cs ps)"

definition HasSuffix :: "string \<Rightarrow> string \<Rightarrow> bool" where
  "HasSuffix s suf = HasPrefix (rev s) (rev suf)"

definition TrimPrefix :: "string \<Rightarrow> string \<Rightarrow> string" where
  "TrimPrefix s p = (if HasPrefix s p then drop (length p) s else s)"

definition TrimSuffix :: "string \<Rightarrow> string \<Rightarrow> string" where
  "TrimSuffix s p = (if HasSuffix s p then take (length s - length p) s else s)"

text \<open>\<open>strings.Contains\<close>.\<close>

fun Contains :: "string \<Rightarrow> string \<Rightarrow> bool" where
  "Contains [] p = (p = [])"
| "Contains (c # cs) p = (HasPrefix (c # cs) p \<or> Contains cs p)"

text \<open>\<open>strings.Split(s, sep)\<close> for a one-byte separator: never an empty slice.\<close>

fun split_on :: "char \<Rightarrow> string \<Rightarrow> string list" where
  "split_on sep [] = [[]]"
| "split_on sep (c # cs) =
     (if c = sep then [] # split_on sep cs
      else (case split_on sep cs of [] \<Rightarrow> [[c]] | w # ws \<Rightarrow> (c # w) # ws))"

text \<open>\<open>strings.Join(parts, sep)\<close>.\<close>

fun Join :: "string list \<Rightarrow> string \<Rightarrow> string" where
  "Join [] sep = []"
| "Join [w] sep = w"
| "Join (w # v # ws) sep = w @ sep @ Join (v # ws) sep"

lemma dropWhile_idem: "dropWhile P (dropWhile P xs) = dropWhile P xs"
  by (induction xs) auto

lemma dropWhile_snoc_last:
  "xs \<noteq> [] \<Longrightarrow> \<not> P (last xs) \<Longrightarrow> dropWhile P xs \<noteq> [] \<and> last (dropWhile P xs) = last xs"
  by (induction xs) (auto split: if_splits)

lemma dropWhile_eq_id: "xs = [] \<or> \<not> P (hd xs) \<Longrightarrow> dropWhile P xs = xs"
  by (cases xs) auto

lemma trim_right_idem: "trim_right P (trim_right P s) = trim_right P s"
  by (simp add: trim_right_def dropWhile_idem)

lemma trim_right_hd: "s \<noteq> [] \<Longrightarrow> \<not> P (hd s) \<Longrightarrow> trim_right P s \<noteq> [] \<and> hd (trim_right P s) = hd s"
  using dropWhile_snoc_last [of "rev s" P] by (auto simp: trim_right_def hd_rev last_rev)

lemma trim_left_trim_by: "trim_left P (trim_by P s) = trim_by P s"
proof (cases "trim_left P s = []")
  case True
  then have "trim_by P s = []" by (simp add: trim_by_def trim_right_def)
  then show ?thesis by (simp add: trim_left_def)
next
  case False
  then have "\<not> P (hd (trim_left P s))" by (simp add: trim_left_def hd_dropWhile)
  with False have "\<not> P (hd (trim_by P s))" by (simp add: trim_by_def trim_right_hd)
  then show ?thesis by (simp add: trim_left_def dropWhile_eq_id)
qed

lemma trim_by_idem: "trim_by P (trim_by P s) = trim_by P s"
proof -
  have "trim_by P (trim_by P s) = trim_right P (trim_by P s)"
    by (simp add: trim_by_def [of P "trim_by P s"] trim_left_trim_by)
  then show ?thesis by (simp add: trim_by_def trim_right_idem)
qed

lemma trim_by_id: "s = [] \<or> \<not> P (hd s) \<and> \<not> P (last s) \<Longrightarrow> trim_by P s = s"
  by (cases "s = []")
    (auto simp: trim_by_def trim_left_def trim_right_def dropWhile_eq_id hd_rev)

lemma TrimSpace_idem [simp, str_simps]: "TrimSpace (TrimSpace s) = TrimSpace s"
  by (simp add: TrimSpace_def trim_by_idem)

lemma TrimSpace_Nil [simp]: "TrimSpace [] = []"
  by (simp add: TrimSpace_def trim_by_def trim_left_def trim_right_def)

lemma ToLower_Nil [simp]: "ToLower [] = []"
  by (simp add: ToLower_def)

lemma ToLower_eq_Nil [simp]: "ToLower s = [] \<longleftrightarrow> s = []"
  by (simp add: ToLower_def)

lemma lower_code: "65 \<le> char_code c \<Longrightarrow> char_code c \<le> 90 \<Longrightarrow> char_code (lower_char c) = char_code c + 32"
  by (simp add: lower_char_def of_char_of)

lemma lower_char_other: "\<not> (65 \<le> char_code c \<and> char_code c \<le> 90) \<Longrightarrow> lower_char c = c"
  unfolding lower_char_def by (rule if_not_P)

lemma lower_char_idem [simp]: "lower_char (lower_char c) = lower_char c"
proof (cases "65 \<le> char_code c \<and> char_code c \<le> 90")
  case True
  then have "char_code (lower_char c) = char_code c + 32" by (simp add: lower_code)
  with True show ?thesis by (intro lower_char_other) simp
next
  case False
  then have "lower_char c = c" by (rule lower_char_other)
  then show ?thesis by simp
qed

lemma is_space_lower [simp]: "is_space (lower_char c) = is_space c"
proof (cases "65 \<le> char_code c \<and> char_code c \<le> 90")
  case True
  then show ?thesis by (simp add: is_space_def lower_code)
next
  case False
  then have "lower_char c = c" by (rule lower_char_other)
  then show ?thesis by simp
qed

lemma ToLower_idem [simp, str_simps]: "ToLower (ToLower s) = ToLower s"
  by (simp add: ToLower_def)

lemma TrimSpace_ToLower [str_simps]: "TrimSpace (ToLower s) = ToLower (TrimSpace s)"
  by (simp add: TrimSpace_def trim_by_def trim_left_def trim_right_def ToLower_def
      dropWhile_map rev_map comp_def)

lemma HasPrefix_iff: "HasPrefix s p \<longleftrightarrow> (\<exists>r. s = p @ r)"
  by (induction s p rule: HasPrefix.induct) auto

lemma Contains_char: "Contains s [c] \<longleftrightarrow> c \<in> set s"
  by (induction s) (auto simp: HasPrefix_iff)

lemma split_on_not_Nil [simp]: "split_on sep s \<noteq> []"
  by (induction s) (auto split: list.splits)

lemma split_on_free: "sep \<notin> set s \<Longrightarrow> split_on sep s = [s]"
  by (induction s) auto

lemma split_on_append: "sep \<notin> set u \<Longrightarrow> split_on sep (u @ sep # v) = u # split_on sep v"
  by (induction u) auto

lemma split_on_sep_free: "w \<in> set (split_on sep s) \<Longrightarrow> sep \<notin> set w"
  by (induction s arbitrary: w) (auto split: if_splits list.splits)

lemma split_on_Join: "Join (split_on sep s) [sep] = s"
proof (induction s)
  case Nil
  show ?case by simp
next
  case (Cons c cs)
  then show ?case
    by (cases "split_on sep cs" rule: list.exhaust; cases "tl (split_on sep cs)") auto
qed

lemma Join_split_on:
  "ws \<noteq> [] \<Longrightarrow> \<forall>w \<in> set ws. sep \<notin> set w \<Longrightarrow> split_on sep (Join ws [sep]) = ws"
  by (induction ws "[sep]" rule: Join.induct) (auto simp: split_on_free split_on_append)

section \<open>Rows collected under an index\<close>

text \<open>
  The loop state is the slice so far and the map from key to index. \<open>xs ! i\<close> is only
  read at an index the map holds, which \<open>idx_inv\<close> keeps in range.
\<close>

type_synonym ('k, 'a) indexed = "'a list \<times> ('k \<rightharpoonup> nat)"

definition index_put :: "('a \<Rightarrow> 'k) \<Rightarrow> ('a \<Rightarrow> 'a \<Rightarrow> 'a) \<Rightarrow> ('k, 'a) indexed \<Rightarrow> 'a \<Rightarrow> ('k, 'a) indexed" where
  "index_put key merge st x =
     (case snd st (key x) of
        Some i \<Rightarrow> ((fst st)[i := merge (fst st ! i) x], snd st)
      | None \<Rightarrow> (fst st @ [x], (snd st)(key x \<mapsto> length (fst st))))"

definition idx_inv :: "('a \<Rightarrow> 'k) \<Rightarrow> ('k, 'a) indexed \<Rightarrow> bool" where
  "idx_inv key st \<longleftrightarrow> distinct (map key (fst st)) \<and>
     (\<forall>k i. snd st k = Some i \<longleftrightarrow> i < length (fst st) \<and> key (fst st ! i) = k)"

locale index_table =
  fixes key :: "'a \<Rightarrow> 'k" and merge :: "'a \<Rightarrow> 'a \<Rightarrow> 'a"
  assumes merge_key: "key a = key b \<Longrightarrow> key (merge a b) = key b"
begin

lemma put_fresh:
  assumes "idx_inv key st" "key x \<notin> key ` set (fst st)"
  shows "fst (index_put key merge st x) = fst st @ [x]"
    "idx_inv key (index_put key merge st x)"
proof -
  have none: "snd st (key x) = None"
  proof (cases "snd st (key x)")
    case (Some i)
    then have "i < length (fst st)" "key (fst st ! i) = key x"
      using assms(1) by (auto simp: idx_inv_def)
    with assms(2) show ?thesis by (metis image_eqI nth_mem)
  qed
  then show "fst (index_put key merge st x) = fst st @ [x]"
    by (simp add: index_put_def)
  show "idx_inv key (index_put key merge st x)"
  proof -
    have ne: "\<And>i. i < length (fst st) \<Longrightarrow> key (fst st ! i) \<noteq> key x"
      using assms(2) by (metis image_eqI nth_mem)
    show ?thesis
      using assms none ne unfolding idx_inv_def index_put_def
      by (auto simp: nth_append less_Suc_eq)
  qed
qed

lemma put_known:
  assumes "idx_inv key st" "key x \<in> key ` set (fst st)"
  obtains i where "i < length (fst st)" "key (fst st ! i) = key x"
    "index_put key merge st x = ((fst st)[i := merge (fst st ! i) x], snd st)"
    "map key (fst (index_put key merge st x)) = map key (fst st)"
proof -
  from assms(2) obtain i where i: "i < length (fst st)" "key (fst st ! i) = key x"
    by (auto simp: in_set_conv_nth)
  with assms(1) have some: "snd st (key x) = Some i" by (auto simp: idx_inv_def)
  then have put: "index_put key merge st x = ((fst st)[i := merge (fst st ! i) x], snd st)"
    by (simp add: index_put_def)
  have "key (merge (fst st ! i) x) = key (fst st ! i)" using i merge_key by simp
  then have "map key ((fst st)[i := merge (fst st ! i) x]) = map key (fst st)"
    using i by (simp add: map_update list_update_same_conv)
  with i put that show thesis by simp
qed

lemma put_inv: "idx_inv key st \<Longrightarrow> idx_inv key (index_put key merge st x)"
proof (cases "key x \<in> key ` set (fst st)")
  case False
  then show "idx_inv key st \<Longrightarrow> ?thesis" by (rule put_fresh(2) [rotated])
next
  case True
  assume inv: "idx_inv key st"
  from put_known [OF inv True] obtain i where
    i: "i < length (fst st)" "index_put key merge st x = ((fst st)[i := merge (fst st ! i) x], snd st)"
    "map key (fst (index_put key merge st x)) = map key (fst st)" by metis
  have nth: "\<And>j. j < length (fst st) \<Longrightarrow> key ((fst st)[i := merge (fst st ! i) x] ! j) = key (fst st ! j)"
    using i by (metis fst_conv length_list_update nth_map)
  show ?thesis
    using inv i nth unfolding idx_inv_def by (auto simp del: map_update)
qed

lemma put_keys:
  assumes "idx_inv key st"
  shows "key ` set (fst (index_put key merge st x)) = insert (key x) (key ` set (fst st))"
proof (cases "key x \<in> key ` set (fst st)")
  case False
  then show ?thesis using put_fresh(1) [OF assms] by auto
next
  case True
  from put_known [OF assms True] have
    "map key (fst (index_put key merge st x)) = map key (fst st)" by metis
  then have "set (map key (fst (index_put key merge st x))) = set (map key (fst st))" by simp
  with True show ?thesis by auto
qed

lemma put_rows:
  assumes "idx_inv key st" "\<forall>y \<in> set (fst st). P y" "P x"
    and "\<And>a b. P a \<Longrightarrow> P b \<Longrightarrow> key a = key b \<Longrightarrow> P (merge a b)"
  shows "\<forall>y \<in> set (fst (index_put key merge st x)). P y"
proof (cases "key x \<in> key ` set (fst st)")
  case False
  then show ?thesis using assms put_fresh(1) [OF assms(1)] by auto
next
  case True
  from put_known [OF assms(1) True] obtain i where i: "i < length (fst st)" "key (fst st ! i) = key x"
    "index_put key merge st x = ((fst st)[i := merge (fst st ! i) x], snd st)" by metis
  then have "P (merge (fst st ! i) x)" using assms by simp
  with i assms(2) show ?thesis by (auto dest!: set_update_subset_insert [THEN subsetD])
qed

text \<open>A property that a row has when it is put in, and that merging keeps, is found under its key.\<close>

lemma put_keeps:
  assumes "idx_inv key st" "y \<in> set (fst st)" "Q y" "\<And>a b. Q a \<Longrightarrow> key a = key b \<Longrightarrow> Q (merge a b)"
  shows "\<exists>z \<in> set (fst (index_put key merge st x)). key z = key y \<and> Q z"
proof (cases "key x \<in> key ` set (fst st)")
  case False
  then show ?thesis using assms put_fresh(1) [OF assms(1)] by auto
next
  case True
  from put_known [OF assms(1) True] obtain i where i: "i < length (fst st)" "key (fst st ! i) = key x"
    "index_put key merge st x = ((fst st)[i := merge (fst st ! i) x], snd st)" by metis
  from assms(2) obtain j where j: "j < length (fst st)" "fst st ! j = y" by (auto simp: in_set_conv_nth)
  show ?thesis
  proof (cases "j = i")
    case True
    then have "key (merge y x) = key y \<and> Q (merge y x)" using i j assms merge_key by metis
    moreover have "merge y x \<in> set (fst (index_put key merge st x))"
      using i j True by (auto intro: set_update_memI)
    ultimately show ?thesis by blast
  next
    case False
    then have "y \<in> set (fst (index_put key merge st x))"
      using i j by (auto simp: in_set_conv_nth intro!: exI [of _ j])
    with assms(3) show ?thesis by blast
  qed
qed

lemma put_adds:
  assumes "idx_inv key st" "Q x" "\<And>a. key a = key x \<Longrightarrow> Q (merge a x)"
  shows "\<exists>z \<in> set (fst (index_put key merge st x)). key z = key x \<and> Q z"
proof (cases "key x \<in> key ` set (fst st)")
  case False
  then show ?thesis using assms put_fresh(1) [OF assms(1)] by auto
next
  case True
  from put_known [OF assms(1) True] obtain i where i: "i < length (fst st)" "key (fst st ! i) = key x"
    "index_put key merge st x = ((fst st)[i := merge (fst st ! i) x], snd st)" by metis
  then have "key (merge (fst st ! i) x) = key x \<and> Q (merge (fst st ! i) x)"
    using assms(3) merge_key by simp
  moreover have "merge (fst st ! i) x \<in> set (fst (index_put key merge st x))"
    using i by (auto intro: set_update_memI)
  ultimately show ?thesis by blast
qed

lemma put_noop:
  assumes "idx_inv key st" "y \<in> set (fst st)" "key y = key x" "merge y x = y"
  shows "index_put key merge st x = st"
proof -
  from assms(2) obtain j where j: "j < length (fst st)" "fst st ! j = y" by (auto simp: in_set_conv_nth)
  with assms(1,3) have "snd st (key x) = Some j" by (simp add: idx_inv_def)
  with j assms(4) show ?thesis by (cases st) (auto simp: index_put_def)
qed

lemma fold_inv: "idx_inv key st \<Longrightarrow> idx_inv key (foldl (index_put key merge) st xs)"
  by (induction xs arbitrary: st) (simp_all add: put_inv)

lemma fold_keys:
  "idx_inv key st \<Longrightarrow>
   key ` set (fst (foldl (index_put key merge) st xs)) = key ` set (fst st) \<union> key ` set xs"
proof (induction xs arbitrary: st)
  case (Cons x xs)
  from Cons.IH [OF put_inv [OF Cons.prems]] put_keys [OF Cons.prems] show ?case by simp
qed simp

lemma fold_rows:
  assumes "\<And>a b. P a \<Longrightarrow> P b \<Longrightarrow> key a = key b \<Longrightarrow> P (merge a b)"
  shows "idx_inv key st \<Longrightarrow> \<forall>y \<in> set (fst st). P y \<Longrightarrow> \<forall>y \<in> set xs. P y \<Longrightarrow>
    \<forall>y \<in> set (fst (foldl (index_put key merge) st xs)). P y"
proof (induction xs arbitrary: st)
  case Nil
  then show ?case by simp
next
  case (Cons x xs)
  then have "\<forall>y \<in> set (fst (index_put key merge st x)). P y"
    by (intro put_rows) (auto intro: assms)
  from Cons.IH [OF put_inv [OF Cons.prems(1)] this] Cons.prems(3) show ?case by simp
qed

lemma fold_distinct_id:
  "idx_inv key st \<Longrightarrow> distinct (map key (fst st @ xs)) \<Longrightarrow>
   fst (foldl (index_put key merge) st xs) = fst st @ xs"
proof (induction xs arbitrary: st)
  case Nil
  then show ?case by simp
next
  case (Cons x xs)
  then have fresh: "key x \<notin> key ` set (fst st)" by auto
  note put = put_fresh [OF Cons.prems(1) fresh]
  have "distinct (map key (fst (index_put key merge st x) @ xs))"
    using Cons.prems(2) by (auto simp: put(1))
  from Cons.IH [OF put(2) this] show ?case by (simp add: put(1))
qed

end

lemma foldl_selected:
  assumes "\<And>st x. step st x = (case sel x of None \<Rightarrow> st | Some y \<Rightarrow> put st y)"
  shows "foldl step st xs = foldl put st (List.map_filter sel xs)"
  by (induction xs arbitrary: st) (simp_all add: assms List.map_filter_simps split: option.splits)

lemma map_filter_all: "\<forall>x \<in> set xs. sel (f x) = Some x \<Longrightarrow> List.map_filter sel (map f xs) = xs"
  by (induction xs) (simp_all add: List.map_filter_simps)

lemma in_map_filter: "y \<in> set (List.map_filter sel xs) \<longleftrightarrow> (\<exists>x \<in> set xs. sel x = Some y)"
  by (induction xs) (auto simp: List.map_filter_simps split: option.splits)

abbreviation empty_index :: "('k, 'a) indexed" where "empty_index \<equiv> ([], \<lambda>_. None)"

lemma idx_inv_empty [simp]: "idx_inv key empty_index"
  by (simp add: idx_inv_def)

section \<open>Rows found by a normalised name\<close>

text \<open>
  A pointer to the first matching row is taken and written through: the model updates
  that row in place.
\<close>

fun update_first :: "('a \<Rightarrow> bool) \<Rightarrow> ('a \<Rightarrow> 'a) \<Rightarrow> 'a list \<Rightarrow> 'a list" where
  "update_first P f [] = []"
| "update_first P f (x # xs) = (if P x then f x # xs else x # update_first P f xs)"

lemma update_first_none: "\<forall>x \<in> set xs. \<not> P x \<Longrightarrow> update_first P f xs = xs"
  by (induction xs) auto

lemma update_first_map:
  "(\<And>x. P x \<Longrightarrow> g (f x) = g x) \<Longrightarrow> map g (update_first P f xs) = map g xs"
  by (induction xs) auto

lemma update_first_all:
  "\<forall>x \<in> set xs. Q x \<Longrightarrow> (\<And>x. Q x \<Longrightarrow> P x \<Longrightarrow> Q (f x)) \<Longrightarrow> \<forall>x \<in> set (update_first P f xs). Q x"
  by (induction xs) auto

lemma length_update_first [simp]: "length (update_first P f xs) = length xs"
  by (induction xs) auto

lemma find_update_first_same:
  "(\<And>x. P x \<Longrightarrow> P (f x)) \<Longrightarrow> find P (update_first P f xs) = map_option f (find P xs)"
  by (induction xs) auto

lemma find_update_first_other:
  "(\<And>x. P x \<Longrightarrow> \<not> Q x \<and> \<not> Q (f x)) \<Longrightarrow> find Q (update_first P f xs) = find Q xs"
  by (induction xs) auto

lemma find_in_extended: "find P (xs @ ys) = (if list_all (\<lambda>x. \<not> P x) xs then find P ys else find P xs)"
  by (induction xs) auto

lemma find_filter_other: "(\<And>x. P x \<Longrightarrow> Q x) \<Longrightarrow> find P (filter Q xs) = find P xs"
  by (induction xs) auto

lemma find_filter_gone: "(\<And>x. P x \<Longrightarrow> \<not> Q x) \<Longrightarrow> find P (filter Q xs) = None"
  by (induction xs) auto

lemma find_Some_set: "find P xs = Some x \<Longrightarrow> x \<in> set xs \<and> P x"
  by (induction xs) (auto split: if_splits)

lemma find_None_set: "find P xs = None \<longleftrightarrow> (\<forall>x \<in> set xs. \<not> P x)"
  by (induction xs) auto

locale row_table =
  fixes key :: "'a \<Rightarrow> string" and norm :: "string \<Rightarrow> string"
  assumes norm_idem: "norm (norm s) = norm s"
begin

definition matches :: "string \<Rightarrow> 'a \<Rightarrow> bool" where
  "matches n x \<longleftrightarrow> norm (key x) = norm n"

definition lookup :: "string \<Rightarrow> 'a list \<Rightarrow> 'a option" where
  "lookup n xs = find (matches n) xs"

lemma matches_norm [simp]: "matches (norm n) = matches n"
  by (simp add: matches_def norm_idem fun_eq_iff)

lemma lookup_norm [simp]: "lookup (norm n) xs = lookup n xs"
  by (simp add: lookup_def)

lemma lookup_update:
  assumes "\<And>x. norm (key (f x)) = norm (key x)"
  shows "lookup m (update_first (matches n) f xs) =
    (if norm m = norm n then map_option f (lookup n xs) else lookup m xs)"
proof (cases "norm m = norm n")
  case True
  then have "matches m = matches n" by (simp add: matches_def fun_eq_iff)
  moreover have "find (matches n) (update_first (matches n) f xs) = map_option f (find (matches n) xs)"
    by (rule find_update_first_same) (simp add: matches_def assms)
  ultimately show ?thesis using True by (simp add: lookup_def)
next
  case False
  then have "find (matches m) (update_first (matches n) f xs) = find (matches m) xs"
    by (intro find_update_first_other) (auto simp: matches_def assms)
  with False show ?thesis by (simp add: lookup_def)
qed

lemma lookup_snoc:
  "lookup n xs = None \<Longrightarrow> norm (key x) = norm n \<Longrightarrow>
   lookup m (xs @ [x]) = (if norm m = norm n then Some x else lookup m xs)"
  by (cases "norm m = norm n")
    (auto simp: lookup_def find_in_extended matches_def find_None_set list_all_iff
      split: option.splits dest: find_Some_set intro!: sym [OF find_None_set [THEN iffD2]])

lemma lookup_remove:
  "lookup m (filter (\<lambda>x. \<not> matches n x) xs) = (if norm m = norm n then None else lookup m xs)"
proof (cases "norm m = norm n")
  case True
  then show ?thesis
    unfolding lookup_def by (auto intro!: find_filter_gone simp: matches_def)
next
  case False
  then show ?thesis
    unfolding lookup_def by (auto intro!: find_filter_other simp: matches_def)
qed

lemma lookup_Some: "lookup n xs = Some x \<Longrightarrow> x \<in> set xs \<and> norm (key x) = norm n"
  unfolding lookup_def by (drule find_Some_set) (simp add: matches_def)

lemma lookup_None: "lookup n xs = None \<longleftrightarrow> (\<forall>x \<in> set xs. norm (key x) \<noteq> norm n)"
  by (simp add: lookup_def find_None_set matches_def)

lemma lookup_distinct:
  "distinct (map (\<lambda>x. norm (key x)) xs) \<Longrightarrow> x \<in> set xs \<Longrightarrow> lookup (key x) xs = Some x"
  by (induction xs) (auto simp: lookup_def matches_def rev_image_eqI)

end

end
