(* ===== verification/Bo.thy ===== *)
theory Bo
  imports Prelude
begin

text \<open>
  The business objects of \<open>internal/bo\<close>: container status and its text form, the
  container record with its port mapping, the container list, and the project
  status shown by \<open>project list\<close>.

  A port mapping is a Go map from the container's port to the host's port; a nil
  map and an empty map are both the empty map here (reading either finds nothing,
  and \<open>AddPort\<close> allocates before it writes).
\<close>

section \<open>Container status\<close>

text \<open>
  \<open>ContainerStatus\<close> is a Go \<open>int\<close>: a value outside the declared constants is
  possible and \<open>FContainerStatus\<close> has a branch for it, so the type has it too.
\<close>

datatype ContainerStatus =
    KContainerStatusRunning | KContainerStatusExited | KContainerStatusDeleted
  | KContainerStatusUnknown | KContainerStatusArchived | KContainerStatusOther int

fun containerStatuses :: "ContainerStatus \<Rightarrow> string option" where
  "containerStatuses KContainerStatusRunning = Some ''running''"
| "containerStatuses KContainerStatusExited = Some ''exited''"
| "containerStatuses KContainerStatusDeleted = Some ''deleted''"
| "containerStatuses KContainerStatusUnknown = Some ''unknown''"
| "containerStatuses KContainerStatusArchived = Some ''archived''"
| "containerStatuses (KContainerStatusOther _) = None"

definition FContainerStatus :: "ContainerStatus \<Rightarrow> string" where
  "FContainerStatus cs = (case containerStatuses cs of None \<Rightarrow> ''unknown'' | Some f \<Rightarrow> f)"

text \<open>
  The Go code ranges over the map in an unspecified order; the five texts differ, so
  at most one entry matches and the order does not matter.
\<close>

definition SContainerStatus :: "string \<Rightarrow> ContainerStatus" where
  "SContainerStatus s =
     (case find (\<lambda>st. containerStatuses st = Some s)
        [KContainerStatusRunning, KContainerStatusExited, KContainerStatusDeleted,
         KContainerStatusUnknown, KContainerStatusArchived] of
        None \<Rightarrow> KContainerStatusUnknown | Some st \<Rightarrow> st)"

lemma containerStatuses_inj:
  "containerStatuses a = Some s \<Longrightarrow> containerStatuses b = Some s \<Longrightarrow> a = b"
  by (cases a; cases b) auto

lemma SContainerStatus_text: "containerStatuses st = Some s \<Longrightarrow> SContainerStatus s = st"
  by (cases st) (auto simp: SContainerStatus_def)

lemma SContainerStatus_unknown:
  "(\<forall>st. containerStatuses st \<noteq> Some s) \<Longrightarrow> SContainerStatus s = KContainerStatusUnknown"
  by (simp add: SContainerStatus_def)

lemma FContainerStatus_trimmed [simp]:
  "TrimSpace (FContainerStatus st) = FContainerStatus st"
  "ToLower (FContainerStatus st) = FContainerStatus st"
  by (cases st; simp add: FContainerStatus_def; code_simp)+

section \<open>Containers\<close>

record Container =
  ct_Id :: string
  ct_Name :: string
  ct_Pmapping :: "string \<rightharpoonup> int"
  ct_Status :: ContainerStatus
  ct_ExpectedStatus :: ContainerStatus
  ct_RemoteUser :: string
  ct_User :: string

text \<open>\<open>bo.Container{}\<close>: the zero status is \<open>KContainerStatusRunning\<close> (iota 0).\<close>

definition zero_Container :: Container where
  "zero_Container = \<lparr>ct_Id = [], ct_Name = [], ct_Pmapping = (\<lambda>_. None),
     ct_Status = KContainerStatusRunning, ct_ExpectedStatus = KContainerStatusRunning,
     ct_RemoteUser = [], ct_User = []\<rparr>"

definition KSSHPortMapping :: string where "KSSHPortMapping = ''22/tcp''"

definition AddPort :: "Container \<Rightarrow> string \<Rightarrow> int \<Rightarrow> Container result" where
  "AddPort c key val =
     (case ct_Pmapping c key of
        Some _ \<Rightarrow> Fail (''attempt to update existing key ('' @ key @ '')'')
      | None \<Rightarrow> Ok (c\<lparr>ct_Pmapping := (ct_Pmapping c)(key \<mapsto> val)\<rparr>))"

text \<open>The \<open>Containers\<close> slice: \<open>Contains\<close>, \<open>ContainsId\<close>, \<open>Get\<close>, \<open>GetById\<close>.\<close>

definition Containers_Contains :: "Container list \<Rightarrow> string \<Rightarrow> bool" where
  "Containers_Contains cs name = (\<exists>c \<in> set cs. ct_Name c = name)"

definition Containers_ContainsId :: "Container list \<Rightarrow> string \<Rightarrow> bool" where
  "Containers_ContainsId cs i = (\<exists>c \<in> set cs. ct_Id c = i)"

fun Containers_Get :: "Container list \<Rightarrow> string \<Rightarrow> Container" where
  "Containers_Get [] name = zero_Container"
| "Containers_Get (c # cs) name = (if ct_Name c = name then c else Containers_Get cs name)"

fun Containers_GetById :: "Container list \<Rightarrow> string \<Rightarrow> Container" where
  "Containers_GetById [] i = zero_Container"
| "Containers_GetById (c # cs) i = (if ct_Id c = i then c else Containers_GetById cs i)"

lemma Containers_Get_contained:
  "Containers_Contains cs name \<Longrightarrow> Containers_Get cs name \<in> set cs \<and> ct_Name (Containers_Get cs name) = name"
  by (induction cs) (auto simp: Containers_Contains_def)

lemma Containers_Get_absent:
  "\<not> Containers_Contains cs name \<Longrightarrow> Containers_Get cs name = zero_Container"
  by (induction cs) (auto simp: Containers_Contains_def)

section \<open>Hosts and projects as seen by callers\<close>

record KeyPair =
  kp_PathToPub :: string
  kp_PathToPrv :: string

record Host =
  bh_Name :: string
  bh_Username :: string
  bh_Password :: string
  bh_KeyPair :: KeyPair
  bh_Port :: int
  bh_IsDefault :: bool

record RegistryInfo =
  bri_State :: string
  bri_Port :: int

record OrchestrationInfo =
  boi_Name :: string
  boi_RegistryInfo :: RegistryInfo
  boi_State :: string

record HostInfo =
  hi_Name :: string
  hi_Username :: string
  hi_PublicKeyPath :: string
  hi_PrivateKeyPath :: string
  hi_Projects :: "string list"
  hi_InUse :: bool
  hi_IsDefault :: bool
  hi_Orchestration :: OrchestrationInfo

record RuntimeInfo =
  rt_Engine :: string
  rt_Version :: string

record AgentOwnership =
  ao_PID :: int
  ao_Address :: string
  ao_Binary :: string
  ao_Manager :: string

record OrchestrationUsage =
  ou_Cluster :: bool
  ou_Registry :: bool

record SrcRepoInfo =
  sr_RepoURI :: string
  sr_RepoRef :: string
  sr_ToClone :: bool

record ContainerInfo =
  ci_Id :: string
  ci_Name :: string
  ci_Status :: string
  ci_ExpectedStatus :: string

record ProjectInfo =
  pi_Name :: string
  pi_Host :: string
  pi_Status :: string
  pi_Current :: bool
  pi_Containers :: "ContainerInfo list"
  pi_OrchestrationUsage :: OrchestrationUsage

fun areAllStatus :: "ContainerInfo list \<Rightarrow> string \<Rightarrow> bool" where
  "areAllStatus [] status = True"
| "areAllStatus (c # cs) status = (if ci_Status c \<noteq> status then False else areAllStatus cs status)"

definition GetProjStatus :: "ContainerInfo list \<Rightarrow> string" where
  "GetProjStatus cs =
     (if length cs = 0 then ''empty''
      else if areAllStatus cs ''running'' then ''running''
      else if areAllStatus cs ''exited'' then ''stopped''
      else ''unknown'')"

lemma areAllStatus_iff: "areAllStatus cs status \<longleftrightarrow> (\<forall>c \<in> set cs. ci_Status c = status)"
  by (induction cs) auto

text \<open>
  The text form of a container status reads back as the status it was written from,
  for every declared status; an undeclared status value and every text that no status
  has both read as unknown. So storing a status as text in the database and parsing it
  again loses nothing, and unknown input never reads as a running container.
\<close>

theorem status_text_round_trip:
  "SContainerStatus (FContainerStatus st) =
     (case st of KContainerStatusOther _ \<Rightarrow> KContainerStatusUnknown | _ \<Rightarrow> st)
   \<and> (SContainerStatus s = KContainerStatusRunning \<longleftrightarrow> s = ''running'')"
proof
  show "SContainerStatus (FContainerStatus st) =
     (case st of KContainerStatusOther _ \<Rightarrow> KContainerStatusUnknown | _ \<Rightarrow> st)"
    by (cases st) (simp_all add: FContainerStatus_def SContainerStatus_def)
  show "SContainerStatus s = KContainerStatusRunning \<longleftrightarrow> s = ''running''"
    by (auto simp: SContainerStatus_def)
qed

end
