(* ===== verification/Global.thy ===== *)
theory Global
  imports Prelude
begin

text \<open>
  The helpers of \<open>internal/global\<close>: the slice helpers of \<open>helpers.go\<close>, each with
  the library function it computes, and the image reference parser of
  \<open>imageParse.go\<close>. \<open>UnmarshalJSON\<close> (\<open>parser.go\<close>) is file and JSON glue and is
  not modelled here.
\<close>

section \<open>Slices\<close>

fun cg_Map :: "('a \<Rightarrow> 'b) \<Rightarrow> 'a list \<Rightarrow> 'b list" where
  "cg_Map f [] = []"
| "cg_Map f (x # xs) = f x # cg_Map f xs"

text \<open>\<open>SliceWithoutElemAt\<close> panics when the index is out of range (Go slices \<open>s[:index]\<close>).\<close>

definition SliceWithoutElemAt :: "'a list \<Rightarrow> nat \<Rightarrow> 'a list option" where
  "SliceWithoutElemAt s i = (if i < length s then Some (take i s @ drop (Suc i) s) else None)"

fun FilterSlice :: "'a list \<Rightarrow> ('a \<Rightarrow> bool) \<Rightarrow> 'a list" where
  "FilterSlice [] P = []"
| "FilterSlice (x # xs) P = (if P x then x # FilterSlice xs P else FilterSlice xs P)"

definition FilterNilFromSlice :: "'a \<Rightarrow> 'a list \<Rightarrow> 'a list" where
  "FilterNilFromSlice zero s = FilterSlice s (\<lambda>e. e \<noteq> zero)"

fun cg_Any :: "'a list \<Rightarrow> ('a \<Rightarrow> bool) \<Rightarrow> bool" where
  "cg_Any [] P = False"
| "cg_Any (x # xs) P = (P x \<or> cg_Any xs P)"

fun cg_Find :: "'a \<Rightarrow> 'a list \<Rightarrow> ('a \<Rightarrow> bool) \<Rightarrow> 'a" where
  "cg_Find zero [] P = zero"
| "cg_Find zero (x # xs) P = (if P x then x else cg_Find zero xs P)"

definition cg_Merge :: "'a list list \<Rightarrow> 'a list" where
  "cg_Merge ss = foldl (\<lambda>acc s. acc @ s) [] ss"

text \<open>\<open>Unique\<close> keeps a set of visited items beside the result.\<close>

definition Unique_step :: "'a list \<times> 'a set \<Rightarrow> 'a \<Rightarrow> 'a list \<times> 'a set" where
  "Unique_step st x = (if x \<in> snd st then st else (fst st @ [x], insert x (snd st)))"

definition Unique :: "'a list \<Rightarrow> 'a list" where
  "Unique s = fst (foldl Unique_step ([], {}) s)"

fun slice_Index :: "'a list \<Rightarrow> 'a \<Rightarrow> nat option" where
  "slice_Index [] v = None"
| "slice_Index (x # xs) v = (if x = v then Some 0 else map_option Suc (slice_Index xs v))"

definition RemoveElemFromSlice :: "'a list \<Rightarrow> 'a \<Rightarrow> 'a list" where
  "RemoveElemFromSlice s v =
     (case slice_Index s v of None \<Rightarrow> s | Some i \<Rightarrow> take i s @ drop (Suc i) s)"

fun FindElemFromSlice :: "'a list \<Rightarrow> ('a \<Rightarrow> bool) \<Rightarrow> 'a option" where
  "FindElemFromSlice [] P = None"
| "FindElemFromSlice (x # xs) P = (if P x then Some x else FindElemFromSlice xs P)"

definition AddElementToSliceIfNotExists :: "'a list \<Rightarrow> 'a \<Rightarrow> 'a list" where
  "AddElementToSliceIfNotExists s v = (case slice_Index s v of Some _ \<Rightarrow> s | None \<Rightarrow> s @ [v])"

definition KLocalhost :: string where "KLocalhost = ''localhost''"

definition VariadicJoin :: "string \<Rightarrow> string list \<Rightarrow> string" where
  "VariadicJoin sep parts = Join parts sep"

definition GetFirstParentDir :: "string \<Rightarrow> string" where
  "GetFirstParentDir path =
     (if path = [] then []
      else (let files = split_on (CHR ''/'') path
            in if hd files = [] \<and> length files > 1 then files ! 1 else hd files))"

lemma cg_Map_map [simp, table_simps]: "cg_Map f xs = map f xs"
  by (induction xs) auto

lemma FilterSlice_filter [simp, table_simps]: "FilterSlice xs P = filter P xs"
  by (induction xs) auto

lemma FindElemFromSlice_find [simp, table_simps]: "FindElemFromSlice xs P = find P xs"
  by (induction xs) auto

lemma cg_Merge_concat [simp]: "cg_Merge ss = concat ss"
proof -
  have "foldl (\<lambda>acc s. acc @ s) acc ss = acc @ concat ss" for acc
    by (induction ss arbitrary: acc) auto
  then show ?thesis by (simp add: cg_Merge_def)
qed

lemma slice_Index_None: "slice_Index xs v = None \<longleftrightarrow> v \<notin> set xs"
  by (induction xs) auto

lemma slice_Index_Some: "slice_Index xs v = Some i \<Longrightarrow> v \<in> set xs"
  using slice_Index_None [of xs v] by auto

lemma RemoveElemFromSlice_remove1 [simp, table_simps]: "RemoveElemFromSlice xs v = remove1 v xs"
proof (induction xs)
  case (Cons x xs)
  show ?case
  proof (cases "slice_Index xs v")
    case None
    then have "remove1 v xs = xs" by (simp add: slice_Index_None remove1_idem)
    with None show ?thesis by (simp add: RemoveElemFromSlice_def)
  next
    case (Some i)
    with Cons.IH show ?thesis by (simp add: RemoveElemFromSlice_def)
  qed
qed (simp add: RemoveElemFromSlice_def)

lemma AddElement_eq [simp, table_simps]:
  "AddElementToSliceIfNotExists xs v = (if v \<in> set xs then xs else xs @ [v])"
  by (cases "slice_Index xs v")
    (auto simp: AddElementToSliceIfNotExists_def dest: slice_Index_Some slice_Index_None [THEN iffD1])

lemma Unique_fold:
  "snd st = set (fst st) \<Longrightarrow> distinct (fst st) \<Longrightarrow>
   (let st' = foldl Unique_step st s
    in snd st' = set (fst st') \<and> distinct (fst st') \<and> set (fst st') = set (fst st) \<union> set s)"
proof (induction s arbitrary: st)
  case (Cons x s)
  have "snd (Unique_step st x) = set (fst (Unique_step st x))" "distinct (fst (Unique_step st x))"
    "set (fst (Unique_step st x)) = insert x (set (fst st))"
    using Cons.prems by (auto simp: Unique_step_def)
  with Cons.IH [of "Unique_step st x"] show ?case by (simp add: Let_def)
qed (simp add: Let_def)

lemma Unique_set: "set (Unique s) = set s" "distinct (Unique s)"
  using Unique_fold [of "([], {})" s] by (simp_all add: Unique_def Let_def)

section \<open>Image references\<close>

definition kLegacyDefaultDomain :: string where "kLegacyDefaultDomain = ''index.docker.io''"
definition kDefaultDomain :: string where "kDefaultDomain = ''docker.io''"
definition kOfficialRepoName :: string where "kOfficialRepoName = ''library''"
definition KLatestTag :: string where "KLatestTag = ''latest''"

record imageData =
  repo :: string
  imageName :: string
  imageTag :: string

text \<open>The byte before the first \<open>sep\<close> and after it: \<open>IndexRune\<close> with the two slices.\<close>

fun cut_at :: "char \<Rightarrow> string \<Rightarrow> (string \<times> string) option" where
  "cut_at sep [] = None"
| "cut_at sep (c # cs) =
     (if c = sep then Some ([], cs) else map_option (apfst (Cons c)) (cut_at sep cs))"

definition docker_remainder :: "string \<Rightarrow> string \<Rightarrow> string \<times> string" where
  "docker_remainder domain remainder =
     (let domain = (if domain = kLegacyDefaultDomain then kDefaultDomain else domain)
      in (domain, if domain = kDefaultDomain \<and> CHR ''/'' \<notin> set remainder
                  then kOfficialRepoName @ ''/'' @ remainder else remainder))"

definition splitDockerDomain :: "string \<Rightarrow> string \<times> string" where
  "splitDockerDomain name =
     (case cut_at (CHR ''/'') name of
        None \<Rightarrow> docker_remainder kDefaultDomain name
      | Some (d, r) \<Rightarrow>
          if CHR ''.'' \<notin> set d \<and> CHR '':'' \<notin> set d \<and> d \<noteq> ''localhost''
          then docker_remainder kDefaultDomain name
          else docker_remainder d r)"

definition ParseImageString :: "string \<Rightarrow> imageData" where
  "ParseImageString imageString =
     (let (domain, remainder) = splitDockerDomain imageString
      in case cut_at (CHR '':'') remainder of
           None \<Rightarrow> \<lparr>repo = domain, imageName = remainder, imageTag = KLatestTag\<rparr>
         | Some (n, t) \<Rightarrow> \<lparr>repo = domain, imageName = n, imageTag = t\<rparr>)"

definition imageData_ToString :: "imageData \<Rightarrow> string" where
  "imageData_ToString d = repo d @ ''/'' @ imageName d @ '':'' @ imageTag d"

definition OverrideTag :: "imageData \<Rightarrow> string \<Rightarrow> imageData" where
  "OverrideTag d tag = d\<lparr>imageTag := tag\<rparr>"

lemma cut_at_None: "cut_at sep s = None \<longleftrightarrow> sep \<notin> set s"
  by (induction s) auto

lemma cut_at_Some: "cut_at sep s = Some (a, b) \<longleftrightarrow> s = a @ sep # b \<and> sep \<notin> set a"
proof (induction s arbitrary: a)
  case (Cons c cs)
  show ?case
  proof (cases a)
    case Nil
    then show ?thesis by (auto split: option.splits)
  next
    case (Cons x xs)
    with Cons.IH [of xs] show ?thesis by auto
  qed
qed simp

definition wf_image :: "imageData \<Rightarrow> bool" where
  "wf_image d \<longleftrightarrow> CHR ''/'' \<notin> set (repo d) \<and> CHR '':'' \<notin> set (imageName d) \<and>
     (CHR ''.'' \<in> set (repo d) \<or> CHR '':'' \<in> set (repo d) \<or> repo d = ''localhost'') \<and>
     repo d \<noteq> kLegacyDefaultDomain \<and>
     (repo d = kDefaultDomain \<longrightarrow> CHR ''/'' \<in> set (imageName d) \<union> set (imageTag d))"

lemma docker_remainder_wf:
  assumes "docker_remainder e q = (d, r)"
  shows "d = (if e = kLegacyDefaultDomain then kDefaultDomain else e)"
    "d \<noteq> kLegacyDefaultDomain" "d = kDefaultDomain \<longrightarrow> CHR ''/'' \<in> set r"
proof -
  have ne: "kDefaultDomain \<noteq> kLegacyDefaultDomain"
    by (simp add: kDefaultDomain_def kLegacyDefaultDomain_def)
  show "d = (if e = kLegacyDefaultDomain then kDefaultDomain else e)"
    using assms by (simp add: docker_remainder_def Let_def split: if_splits)
  then show "d \<noteq> kLegacyDefaultDomain" using ne by simp
  show "d = kDefaultDomain \<longrightarrow> CHR ''/'' \<in> set r"
    using assms by (auto simp: docker_remainder_def Let_def split: if_splits)
qed

lemma default_domain_chars:
  "CHR ''/'' \<notin> set kDefaultDomain" "CHR ''.'' \<in> set kDefaultDomain"
  by (simp_all add: kDefaultDomain_def)

lemma splitDockerDomain_cases:
  assumes "splitDockerDomain s = (d, r)"
  obtains "docker_remainder kDefaultDomain s = (d, r)"
  | e q where "docker_remainder e q = (d, r)" "s = e @ CHR ''/'' # q" "CHR ''/'' \<notin> set e"
      "CHR ''.'' \<in> set e \<or> CHR '':'' \<in> set e \<or> e = ''localhost''"
proof (cases "cut_at (CHR ''/'') s")
  case None
  with assms that(1) show thesis by (simp add: splitDockerDomain_def)
next
  case (Some eq)
  obtain e q where eq: "eq = (e, q)" by (cases eq)
  with Some have "s = e @ CHR ''/'' # q" "CHR ''/'' \<notin> set e" by (simp_all add: cut_at_Some)
  moreover have "splitDockerDomain s =
      (if CHR ''.'' \<notin> set e \<and> CHR '':'' \<notin> set e \<and> e \<noteq> ''localhost''
       then docker_remainder kDefaultDomain s else docker_remainder e q)"
    by (simp add: splitDockerDomain_def Some eq)
  ultimately show thesis using assms that by (metis (full_types))
qed

lemma splitDockerDomain_wf:
  assumes "splitDockerDomain s = (d, r)"
  shows "CHR ''/'' \<notin> set d" "CHR ''.'' \<in> set d \<or> CHR '':'' \<in> set d \<or> d = ''localhost''"
    "d \<noteq> kLegacyDefaultDomain" "d = kDefaultDomain \<longrightarrow> CHR ''/'' \<in> set r"
proof -
  from assms have "CHR ''/'' \<notin> set d \<and> (CHR ''.'' \<in> set d \<or> CHR '':'' \<in> set d \<or> d = ''localhost'')
    \<and> d \<noteq> kLegacyDefaultDomain \<and> (d = kDefaultDomain \<longrightarrow> CHR ''/'' \<in> set r)"
  proof (cases rule: splitDockerDomain_cases)
    case 1
    from docker_remainder_wf [OF 1] show ?thesis
      using default_domain_chars by (metis (full_types))
  next
    case (2 e q)
    from docker_remainder_wf [OF 2(1)] 2 show ?thesis
      using default_domain_chars by (metis (full_types))
  qed
  then show "CHR ''/'' \<notin> set d" "CHR ''.'' \<in> set d \<or> CHR '':'' \<in> set d \<or> d = ''localhost''"
    "d \<noteq> kLegacyDefaultDomain" "d = kDefaultDomain \<longrightarrow> CHR ''/'' \<in> set r" by simp_all
qed

lemma ParseImageString_wf: "wf_image (ParseImageString s)"
proof -
  obtain d r where dr: "splitDockerDomain s = (d, r)" by (cases "splitDockerDomain s")
  note w = splitDockerDomain_wf [OF dr]
  show ?thesis
    using w by (auto simp: ParseImageString_def dr wf_image_def cut_at_None cut_at_Some
        split: option.splits)
qed

lemma ParseImageString_ToString:
  assumes "wf_image d"
  shows "ParseImageString (imageData_ToString d) = d"
proof -
  let ?s = "imageData_ToString d" and ?r = "imageName d @ '':'' @ imageTag d"
  have cut: "cut_at (CHR ''/'') ?s = Some (repo d, ?r)"
    using assms by (simp add: cut_at_Some imageData_ToString_def wf_image_def)
  have rem: "docker_remainder (repo d) ?r = (repo d, ?r)"
    using assms by (auto simp: docker_remainder_def wf_image_def)
  have "splitDockerDomain ?s = (repo d, ?r)"
    using assms unfolding splitDockerDomain_def cut option.case prod.case
    by (subst if_not_P) (use rem in \<open>auto simp: wf_image_def\<close>)
  moreover have "cut_at (CHR '':'') ?r = Some (imageName d, imageTag d)"
    using assms by (simp add: cut_at_Some wf_image_def)
  ultimately show ?thesis by (simp add: ParseImageString_def)
qed

text \<open>
  Parsing an image reference, printing it and parsing it again gives the same
  registry, name and tag, for every input string; and overriding the tag of a parsed
  reference changes the tag that the printed reference parses to and nothing else,
  unless the parsed reference kept its only slash in the tag. The engine relies on
  it: it parses, overrides the tag and prints the reference into the run command.
\<close>

theorem image_reference_round_trip:
  "ParseImageString (imageData_ToString (ParseImageString s)) = ParseImageString s
   \<and> (CHR ''/'' \<in> set (imageName (ParseImageString s)) \<or> repo (ParseImageString s) \<noteq> kDefaultDomain \<longrightarrow>
      ParseImageString (imageData_ToString (OverrideTag (ParseImageString s) t))
        = (ParseImageString s)\<lparr>imageTag := t\<rparr>)"
proof (intro conjI impI)
  have wf: "wf_image (ParseImageString s)" by (rule ParseImageString_wf)
  then show "ParseImageString (imageData_ToString (ParseImageString s)) = ParseImageString s"
    by (rule ParseImageString_ToString)
  assume "CHR ''/'' \<in> set (imageName (ParseImageString s)) \<or> repo (ParseImageString s) \<noteq> kDefaultDomain"
  with wf have "wf_image (OverrideTag (ParseImageString s) t)"
    by (auto simp: wf_image_def OverrideTag_def)
  then show "ParseImageString (imageData_ToString (OverrideTag (ParseImageString s) t))
      = (ParseImageString s)\<lparr>imageTag := t\<rparr>"
    by (simp add: ParseImageString_ToString) (simp add: OverrideTag_def)
qed

theorem image_reference_round_trip_witness:
  "ParseImageString (imageData_ToString (OverrideTag (ParseImageString ''ghcr.io/acme/dev:1'') ''2''))
     = \<lparr>repo = ''ghcr.io'', imageName = ''acme/dev'', imageTag = ''2''\<rparr>"
proof -
  have p: "ParseImageString ''ghcr.io/acme/dev:1''
      = \<lparr>repo = ''ghcr.io'', imageName = ''acme/dev'', imageTag = ''1''\<rparr>"
    by (simp add: ParseImageString_def splitDockerDomain_def docker_remainder_def
        kLegacyDefaultDomain_def kDefaultDomain_def)
  show ?thesis
    using image_reference_round_trip [of "''ghcr.io/acme/dev:1''" "''2''"] by (simp add: p)
qed

end
