(* ===== verification/DbModel.thy ===== *)
theory DbModel
  imports Bo Global
begin

text \<open>
  The data of \<open>internal/db\<close> (\<open>bom.go\<close>): projects, hosts, registries and the current
  project, as the records the JSON file holds.

  A Go slice of pointers can hold nil entries after the file is decoded and before
  \<open>normalize\<close> drops them; nothing else puts a nil in. Decoded data is \<open>raw_data\<close>, whose
  slices hold options, and data in memory is \<open>data\<close>, whose slices hold rows. A nil slice
  and an empty slice are the same empty list: the code only ranges over slices and takes
  their length, and \<open>omitempty\<close> writes neither.
\<close>

record containerInfo =
  c_Id :: string
  c_State :: string
  c_ExpectedState :: string
  c_Name :: string
  c_PortSSH :: int
  c_RemoteUser :: string

record flavourInfo =
  f_Name :: string
  f_OverrideDir :: string
  f_LocalConfDir :: string

record srcRepoInfo =
  s_LocalConfDir :: string
  s_ToClone :: bool
  s_URI :: string
  s_Ref :: string

record orchestrationUsage =
  u_ClusterUse :: bool
  u_RegistryUse :: bool

text \<open>The parameter is the type of a container entry: an option in decoded data.\<close>

record 'c project =
  p_Name :: string
  p_ConfDir :: string
  p_Host :: string
  p_Containers :: "'c list"
  p_NasRequested :: bool
  p_Flavour :: flavourInfo
  p_SrcRepo :: srcRepoInfo
  p_UseSshTunnel :: bool
  p_OverrideImageTag :: string
  p_OrchestrationUsage :: orchestrationUsage

type_synonym prj = "containerInfo project"
type_synonym raw_prj = "containerInfo option project"

record runtimeInfo =
  r_Engine :: string
  r_Version :: string

record agentOwnership =
  a_PID :: int
  a_Address :: string
  a_Binary :: string
  a_Manager :: string

record registryInfo =
  g_State :: string
  g_Port :: int

record orchestrationInfo =
  o_Name :: string
  o_RegistryInfo :: registryInfo
  o_State :: string

text \<open>The embedded \<open>sshInfo\<close> is the last four fields.\<close>

record host =
  h_Name :: string
  h_Projects :: "string list"
  h_InUse :: bool
  h_IsDefault :: bool
  h_OrchestrationInfo :: orchestrationInfo
  h_RuntimeInfo :: runtimeInfo
  h_AgentOwnership :: agentOwnership
  h_Username :: string
  h_UseKey :: bool
  h_PathToKey :: string
  h_PathToPubKey :: string

record registryInstance =
  i_Name :: string

record data =
  d_ProjectContext :: string
  d_Projects :: "prj list"
  d_Hosts :: "host list"
  d_Instances :: "registryInstance list"

record raw_data =
  rd_ProjectContext :: string
  rd_Projects :: "raw_prj option list"
  rd_Hosts :: "host option list"
  rd_Instances :: "registryInstance option list"

section \<open>Zero values\<close>

definition zero_flavourInfo :: flavourInfo where
  "zero_flavourInfo = \<lparr>f_Name = [], f_OverrideDir = [], f_LocalConfDir = []\<rparr>"

definition zero_srcRepoInfo :: srcRepoInfo where
  "zero_srcRepoInfo = \<lparr>s_LocalConfDir = [], s_ToClone = False, s_URI = [], s_Ref = []\<rparr>"

definition zero_project :: "'c project" where
  "zero_project = \<lparr>p_Name = [], p_ConfDir = [], p_Host = [], p_Containers = [],
     p_NasRequested = False, p_Flavour = zero_flavourInfo, p_SrcRepo = zero_srcRepoInfo,
     p_UseSshTunnel = False, p_OverrideImageTag = [],
     p_OrchestrationUsage = \<lparr>u_ClusterUse = False, u_RegistryUse = False\<rparr>\<rparr>"

definition zero_host :: host where
  "zero_host = \<lparr>h_Name = [], h_Projects = [], h_InUse = False, h_IsDefault = False,
     h_OrchestrationInfo = \<lparr>o_Name = [], o_RegistryInfo = \<lparr>g_State = [], g_Port = 0\<rparr>, o_State = []\<rparr>,
     h_RuntimeInfo = \<lparr>r_Engine = [], r_Version = []\<rparr>,
     h_AgentOwnership = \<lparr>a_PID = 0, a_Address = [], a_Binary = [], a_Manager = []\<rparr>,
     h_Username = [], h_UseKey = False, h_PathToKey = [], h_PathToPubKey = []\<rparr>"

definition zero_data :: data where
  "zero_data = \<lparr>d_ProjectContext = [], d_Projects = [], d_Hosts = [], d_Instances = []\<rparr>"

section \<open>Data in memory seen as decoded data\<close>

definition raw_project :: "prj \<Rightarrow> raw_prj" where
  "raw_project p = \<lparr>p_Name = p_Name p, p_ConfDir = p_ConfDir p, p_Host = p_Host p,
     p_Containers = map Some (p_Containers p), p_NasRequested = p_NasRequested p,
     p_Flavour = p_Flavour p, p_SrcRepo = p_SrcRepo p, p_UseSshTunnel = p_UseSshTunnel p,
     p_OverrideImageTag = p_OverrideImageTag p, p_OrchestrationUsage = p_OrchestrationUsage p\<rparr>"

definition raw_of :: "data \<Rightarrow> raw_data" where
  "raw_of d = \<lparr>rd_ProjectContext = d_ProjectContext d,
     rd_Projects = map (\<lambda>p. Some (raw_project p)) (d_Projects d),
     rd_Hosts = map Some (d_Hosts d), rd_Instances = map Some (d_Instances d)\<rparr>"

section \<open>Names\<close>

definition normalizeHostName :: "string \<Rightarrow> string" where
  "normalizeHostName hostName = ToLower (TrimSpace hostName)"

definition normalizeProjectName :: "string \<Rightarrow> string" where
  "normalizeProjectName projectName = TrimSpace projectName"

lemma normalizeHostName_idem [simp]: "normalizeHostName (normalizeHostName n) = normalizeHostName n"
  by (simp add: normalizeHostName_def TrimSpace_ToLower)

lemma normalizeProjectName_idem [simp]:
  "normalizeProjectName (normalizeProjectName n) = normalizeProjectName n"
  by (simp add: normalizeProjectName_def)

lemma normalize_names_Nil [simp]: "normalizeHostName [] = []" "normalizeProjectName [] = []"
  by (simp_all add: normalizeHostName_def normalizeProjectName_def)

interpretation projects_tab: row_table p_Name normalizeProjectName
  by unfold_locales simp

interpretation hosts_tab: row_table h_Name normalizeHostName
  by unfold_locales simp

interpretation containers_tab: row_table c_Name TrimSpace
  by unfold_locales simp

end
