(* ===== verification/DbNormalize.thy ===== *)
theory DbNormalize
  imports DbModel
begin

text \<open>
  \<open>internal/db/normalize.go\<close>: the pass that runs when the database is loaded and
  before it is saved. It drops nil and unnamed rows, puts names in normal form, merges
  rows with the same name into the first of them, rebuilds the host rows from the
  projects that refer to them and clears a current project that does not exist.

  The four loops keep a slice and an index map; each is \<open>index_put\<close> with the source's
  merge function, and the locale \<open>index_table\<close> is interpreted for each.
\<close>

section \<open>Merging\<close>

definition firstNonEmpty :: "string \<Rightarrow> string \<Rightarrow> string" where
  "firstNonEmpty preferred fallback = (if preferred \<noteq> [] then preferred else fallback)"

definition firstNonZero :: "int \<Rightarrow> int \<Rightarrow> int" where
  "firstNonZero preferred fallback = (if preferred \<noteq> 0 then preferred else fallback)"

definition mergeContainer :: "containerInfo \<Rightarrow> containerInfo \<Rightarrow> containerInfo" where
  "mergeContainer existing incoming = incoming
     \<lparr>c_Id := firstNonEmpty (c_Id incoming) (c_Id existing),
      c_State := firstNonEmpty (c_State incoming) (c_State existing),
      c_ExpectedState := firstNonEmpty (c_ExpectedState incoming) (c_ExpectedState existing),
      c_PortSSH := (if c_PortSSH incoming = 0 then c_PortSSH existing else c_PortSSH incoming),
      c_RemoteUser := firstNonEmpty (c_RemoteUser incoming) (c_RemoteUser existing)\<rparr>"

definition mergeFlavour :: "flavourInfo \<Rightarrow> flavourInfo \<Rightarrow> flavourInfo" where
  "mergeFlavour existing incoming =
     \<lparr>f_Name = firstNonEmpty (f_Name incoming) (f_Name existing),
      f_OverrideDir = firstNonEmpty (f_OverrideDir incoming) (f_OverrideDir existing),
      f_LocalConfDir = firstNonEmpty (f_LocalConfDir incoming) (f_LocalConfDir existing)\<rparr>"

definition mergeSrcRepo :: "srcRepoInfo \<Rightarrow> srcRepoInfo \<Rightarrow> srcRepoInfo" where
  "mergeSrcRepo existing incoming =
     \<lparr>s_LocalConfDir = firstNonEmpty (s_LocalConfDir incoming) (s_LocalConfDir existing),
      s_ToClone = (s_ToClone incoming \<or> s_ToClone existing),
      s_URI = firstNonEmpty (s_URI incoming) (s_URI existing),
      s_Ref = firstNonEmpty (s_Ref incoming) (s_Ref existing)\<rparr>"

definition mergeOrchestrationInfo :: "orchestrationInfo \<Rightarrow> orchestrationInfo \<Rightarrow> orchestrationInfo" where
  "mergeOrchestrationInfo existing incoming =
     \<lparr>o_Name = firstNonEmpty (o_Name incoming) (o_Name existing),
      o_RegistryInfo =
        \<lparr>g_State = firstNonEmpty (g_State (o_RegistryInfo incoming)) (g_State (o_RegistryInfo existing)),
         g_Port = firstNonZero (g_Port (o_RegistryInfo incoming)) (g_Port (o_RegistryInfo existing))\<rparr>,
      o_State = firstNonEmpty (o_State incoming) (o_State existing)\<rparr>"

definition appendProjectIfMissing :: "string list \<Rightarrow> string \<Rightarrow> string list" where
  "appendProjectIfMissing projects projectName =
     (if projectName \<in> set projects then projects else projects @ [projectName])"

definition mergeHost :: "host \<Rightarrow> host \<Rightarrow> host" where
  "mergeHost existing incoming = incoming
     \<lparr>h_Username := firstNonEmpty (h_Username incoming) (h_Username existing),
      h_PathToKey := firstNonEmpty (h_PathToKey incoming) (h_PathToKey existing),
      h_PathToPubKey := firstNonEmpty (h_PathToPubKey incoming) (h_PathToPubKey existing),
      h_UseKey := (h_UseKey incoming \<or> h_UseKey existing),
      h_OrchestrationInfo := mergeOrchestrationInfo (h_OrchestrationInfo existing) (h_OrchestrationInfo incoming),
      h_Projects := foldl appendProjectIfMissing (h_Projects existing) (h_Projects incoming)\<rparr>"

section \<open>Containers\<close>

definition norm_container :: "containerInfo \<Rightarrow> containerInfo" where
  "norm_container c = c
     \<lparr>c_Name := TrimSpace (c_Name c),
      c_Id := TrimSpace (c_Id c),
      c_State := ToLower (TrimSpace (c_State c)),
      c_ExpectedState := ToLower (TrimSpace (c_ExpectedState c)),
      c_RemoteUser := TrimSpace (c_RemoteUser c)\<rparr>"

definition normalizeContainers_step ::
  "(string, containerInfo) indexed \<Rightarrow> containerInfo option \<Rightarrow> (string, containerInfo) indexed" where
  "normalizeContainers_step st c =
     (case c of None \<Rightarrow> st
      | Some c \<Rightarrow>
          if c_Name (norm_container c) = [] then st
          else index_put c_Name mergeContainer st (norm_container c))"

definition normalizeContainers :: "containerInfo option list \<Rightarrow> containerInfo list" where
  "normalizeContainers cs = fst (foldl normalizeContainers_step empty_index cs)"

section \<open>Projects\<close>

definition mergeProject :: "prj \<Rightarrow> prj \<Rightarrow> prj" where
  "mergeProject existing incoming = incoming
     \<lparr>p_ConfDir := firstNonEmpty (p_ConfDir incoming) (p_ConfDir existing),
      p_Host := firstNonEmpty (p_Host incoming) (p_Host existing),
      p_Flavour := mergeFlavour (p_Flavour existing) (p_Flavour incoming),
      p_SrcRepo := mergeSrcRepo (p_SrcRepo existing) (p_SrcRepo incoming),
      p_UseSshTunnel := (p_UseSshTunnel existing \<or> p_UseSshTunnel incoming),
      p_NasRequested := (p_NasRequested existing \<or> p_NasRequested incoming),
      p_OverrideImageTag := firstNonEmpty (p_OverrideImageTag incoming) (p_OverrideImageTag existing),
      p_OrchestrationUsage :=
        \<lparr>u_ClusterUse = u_ClusterUse (p_OrchestrationUsage existing) \<or> u_ClusterUse (p_OrchestrationUsage incoming),
         u_RegistryUse = u_RegistryUse (p_OrchestrationUsage existing) \<or> u_RegistryUse (p_OrchestrationUsage incoming)\<rparr>,
      p_Containers := normalizeContainers (map Some (p_Containers existing @ p_Containers incoming))\<rparr>"

definition norm_project :: "raw_prj \<Rightarrow> prj" where
  "norm_project p = \<lparr>p_Name = normalizeProjectName (p_Name p), p_ConfDir = p_ConfDir p,
     p_Host = normalizeHostName (p_Host p), p_Containers = normalizeContainers (p_Containers p),
     p_NasRequested = p_NasRequested p, p_Flavour = p_Flavour p, p_SrcRepo = p_SrcRepo p,
     p_UseSshTunnel = p_UseSshTunnel p, p_OverrideImageTag = p_OverrideImageTag p,
     p_OrchestrationUsage = p_OrchestrationUsage p\<rparr>"

definition normalizeProjects_step ::
  "(string, prj) indexed \<Rightarrow> raw_prj option \<Rightarrow> (string, prj) indexed" where
  "normalizeProjects_step st p =
     (case p of None \<Rightarrow> st
      | Some p \<Rightarrow>
          if p_Name (norm_project p) = [] then st
          else index_put p_Name mergeProject st (norm_project p))"

definition normalizeProjects :: "raw_prj option list \<Rightarrow> prj list" where
  "normalizeProjects ps = fst (foldl normalizeProjects_step empty_index ps)"

section \<open>Hosts\<close>

definition projectNameSet :: "prj list \<Rightarrow> string set" where
  "projectNameSet ps = set (filter (\<lambda>n. n \<noteq> []) (map p_Name ps))"

definition projectHostMap :: "prj list \<Rightarrow> string \<rightharpoonup> string" where
  "projectHostMap ps =
     foldl (\<lambda>m p. if p_Name p = [] \<or> p_Host p = [] then m else m(p_Name p \<mapsto> p_Host p)) (\<lambda>_. None) ps"

definition normalizeProjectList :: "string list \<Rightarrow> string set \<Rightarrow> string list" where
  "normalizeProjectList projects validProjects =
     foldl (\<lambda>acc n.
         if normalizeProjectName n = [] then acc
         else if normalizeProjectName n \<notin> validProjects then acc
         else appendProjectIfMissing acc (normalizeProjectName n)) [] projects"

definition filterHostProjectList :: "string \<Rightarrow> string list \<Rightarrow> (string \<rightharpoonup> string) \<Rightarrow> string list" where
  "filterHostProjectList hostName projects projectHosts =
     foldl (\<lambda>acc n.
         case projectHosts n of
           Some projectHost \<Rightarrow> if projectHost \<noteq> hostName then acc else appendProjectIfMissing acc n
         | None \<Rightarrow> appendProjectIfMissing acc n) [] projects"

definition norm_host :: "string set \<Rightarrow> host \<Rightarrow> host" where
  "norm_host projectNames h = h
     \<lparr>h_Name := normalizeHostName (h_Name h),
      h_Projects := normalizeProjectList (h_Projects h) projectNames\<rparr>"

text \<open>First loop: the rows of the file, and the name of the last row marked as default.\<close>

definition normalizeHosts_step ::
  "string set \<Rightarrow> (string, host) indexed \<times> string \<Rightarrow> host option \<Rightarrow> (string, host) indexed \<times> string" where
  "normalizeHosts_step projectNames st h =
     (case h of None \<Rightarrow> st
      | Some h \<Rightarrow>
          (let h' = norm_host projectNames h
           in if h_Name h' = [] then st
              else (index_put h_Name mergeHost (fst st) h', if h_IsDefault h' then h_Name h' else snd st)))"

text \<open>Second loop: every project's host gets a row that lists the project.\<close>

definition attachProject_step :: "(string, host) indexed \<Rightarrow> prj \<Rightarrow> (string, host) indexed" where
  "attachProject_step st p =
     (if p_Host p = [] then st
      else case snd st (p_Host p) of
        Some i \<Rightarrow>
          ((fst st)[i := (fst st ! i)\<lparr>h_Projects := appendProjectIfMissing (h_Projects (fst st ! i)) (p_Name p)\<rparr>],
           snd st)
      | None \<Rightarrow>
          (fst st @ [zero_host\<lparr>h_Name := p_Host p, h_Projects := [p_Name p]\<rparr>],
           (snd st)(p_Host p \<mapsto> length (fst st))))"

text \<open>Third loop: project lists are filtered and the two derived flags are set.\<close>

definition finishHost :: "string set \<Rightarrow> (string \<rightharpoonup> string) \<Rightarrow> string \<Rightarrow> host \<Rightarrow> host" where
  "finishHost projectNames projectHosts defaultHostName h =
     (let ps = filterHostProjectList (h_Name h) (normalizeProjectList (h_Projects h) projectNames) projectHosts
      in h\<lparr>h_Projects := ps, h_InUse := length ps > 0, h_IsDefault := (h_Name h = defaultHostName)\<rparr>)"

definition normalizeHosts :: "prj list \<Rightarrow> host option list \<Rightarrow> host list" where
  "normalizeHosts ps hs =
     (let projectNames = projectNameSet ps;
          projectHosts = projectHostMap ps;
          (st, defaultHostName) = foldl (normalizeHosts_step projectNames) (empty_index, []) hs;
          st = foldl attachProject_step st ps
      in map (finishHost projectNames projectHosts defaultHostName) (fst st))"

section \<open>Registries and the current project\<close>

definition replaceRegistry :: "registryInstance \<Rightarrow> registryInstance \<Rightarrow> registryInstance" where
  "replaceRegistry existing incoming = incoming"

definition normalizeRegistries_step ::
  "(string, registryInstance) indexed \<Rightarrow> registryInstance option \<Rightarrow> (string, registryInstance) indexed" where
  "normalizeRegistries_step st r =
     (case r of None \<Rightarrow> st
      | Some r \<Rightarrow>
          if TrimSpace (i_Name r) = [] then st
          else index_put i_Name replaceRegistry st (r\<lparr>i_Name := TrimSpace (i_Name r)\<rparr>))"

definition normalizeRegistries :: "registryInstance option list \<Rightarrow> registryInstance list" where
  "normalizeRegistries rs = fst (foldl normalizeRegistries_step empty_index rs)"

definition find_project :: "string \<Rightarrow> prj list \<Rightarrow> prj option" where
  "find_project projectName ps =
     find (\<lambda>p. normalizeProjectName (p_Name p) = normalizeProjectName projectName) ps"

definition normalizeContext :: "prj list \<Rightarrow> string \<Rightarrow> string" where
  "normalizeContext ps ctx =
     (let projectName = normalizeProjectName ctx
      in if projectName = [] then []
         else case find_project projectName ps of None \<Rightarrow> [] | Some _ \<Rightarrow> projectName)"

text \<open>\<open>(d *data) normalize\<close>: projects first, the others read the normalised projects.\<close>

definition normalize :: "raw_data \<Rightarrow> data" where
  "normalize r =
     (let ps = normalizeProjects (rd_Projects r)
      in \<lparr>d_ProjectContext = normalizeContext ps (rd_ProjectContext r), d_Projects = ps,
          d_Hosts = normalizeHosts ps (rd_Hosts r), d_Instances = normalizeRegistries (rd_Instances r)\<rparr>)"

section \<open>Containers: normal form\<close>

interpretation containers_ix: index_table c_Name mergeContainer
  by unfold_locales (simp add: mergeContainer_def)

definition keep_container :: "containerInfo option \<Rightarrow> containerInfo option" where
  "keep_container c =
     (case c of None \<Rightarrow> None
      | Some c \<Rightarrow> if c_Name (norm_container c) = [] then None else Some (norm_container c))"

definition wf_container :: "containerInfo \<Rightarrow> bool" where
  "wf_container c \<longleftrightarrow> c_Name c \<noteq> [] \<and> norm_container c = c"

definition wf_containers :: "containerInfo list \<Rightarrow> bool" where
  "wf_containers cs \<longleftrightarrow> distinct (map c_Name cs) \<and> (\<forall>c \<in> set cs. wf_container c)"

lemma firstNonEmpty_fix: "f a = a \<Longrightarrow> f b = b \<Longrightarrow> f (firstNonEmpty a b) = firstNonEmpty a b"
  by (simp add: firstNonEmpty_def)

lemma norm_container_fix:
  "norm_container c = c \<longleftrightarrow>
     TrimSpace (c_Name c) = c_Name c \<and> TrimSpace (c_Id c) = c_Id c \<and>
     ToLower (TrimSpace (c_State c)) = c_State c \<and>
     ToLower (TrimSpace (c_ExpectedState c)) = c_ExpectedState c \<and>
     TrimSpace (c_RemoteUser c) = c_RemoteUser c"
  by (cases c) (auto simp: norm_container_def)

lemma norm_container_idem [simp]: "norm_container (norm_container c) = norm_container c"
  unfolding norm_container_fix by (simp add: norm_container_def TrimSpace_ToLower)

lemma wf_container_merge: "wf_container a \<Longrightarrow> wf_container b \<Longrightarrow> wf_container (mergeContainer a b)"
  unfolding wf_container_def norm_container_fix
  by (simp add: mergeContainer_def firstNonEmpty_def)

lemma normalizeContainers_fold:
  "normalizeContainers cs =
     fst (foldl (index_put c_Name mergeContainer) empty_index (List.map_filter keep_container cs))"
  unfolding normalizeContainers_def
  by (subst foldl_selected [where sel = keep_container and put = "index_put c_Name mergeContainer"])
    (auto simp: normalizeContainers_step_def keep_container_def split: option.splits)

lemma keep_container_wf: "keep_container c = Some d \<Longrightarrow> wf_container d"
  by (auto simp: keep_container_def wf_container_def split: option.splits if_splits)

lemma normalizeContainers_wf: "wf_containers (normalizeContainers cs)"
proof -
  let ?st = "foldl (index_put c_Name mergeContainer) empty_index (List.map_filter keep_container cs)"
  have "idx_inv c_Name ?st" by (rule containers_ix.fold_inv) simp
  moreover have "\<forall>c \<in> set (fst ?st). wf_container c"
    by (rule containers_ix.fold_rows)
      (auto intro: wf_container_merge keep_container_wf simp: in_map_filter)
  ultimately show ?thesis
    by (simp add: wf_containers_def normalizeContainers_fold idx_inv_def)
qed

lemma normalizeContainers_id: "wf_containers cs \<Longrightarrow> normalizeContainers (map Some cs) = cs"
proof -
  assume wf: "wf_containers cs"
  then have "List.map_filter keep_container (map Some cs) = cs"
    by (intro map_filter_all) (auto simp: wf_containers_def wf_container_def keep_container_def)
  moreover have "fst (foldl (index_put c_Name mergeContainer) empty_index cs) = fst empty_index @ cs"
    using containers_ix.fold_distinct_id [of empty_index cs] wf by (simp add: wf_containers_def)
  ultimately show ?thesis by (simp add: normalizeContainers_fold)
qed

section \<open>Projects: normal form\<close>

interpretation projects_ix: index_table p_Name mergeProject
  by unfold_locales (simp add: mergeProject_def)

definition keep_project :: "raw_prj option \<Rightarrow> prj option" where
  "keep_project p =
     (case p of None \<Rightarrow> None
      | Some p \<Rightarrow> if p_Name (norm_project p) = [] then None else Some (norm_project p))"

definition wf_project :: "prj \<Rightarrow> bool" where
  "wf_project p \<longleftrightarrow> p_Name p \<noteq> [] \<and> normalizeProjectName (p_Name p) = p_Name p \<and>
     normalizeHostName (p_Host p) = p_Host p \<and> wf_containers (p_Containers p)"

definition wf_projects :: "prj list \<Rightarrow> bool" where
  "wf_projects ps \<longleftrightarrow> distinct (map p_Name ps) \<and> (\<forall>p \<in> set ps. wf_project p)"

lemma norm_project_wf: "p_Name (norm_project p) \<noteq> [] \<Longrightarrow> wf_project (norm_project p)"
  by (simp add: wf_project_def norm_project_def normalizeContainers_wf)

lemma norm_project_raw: "wf_project p \<Longrightarrow> norm_project (raw_project p) = p"
  by (cases p) (simp add: wf_project_def norm_project_def raw_project_def normalizeContainers_id)

lemma wf_project_merge: "wf_project a \<Longrightarrow> wf_project b \<Longrightarrow> wf_project (mergeProject a b)"
  by (simp add: wf_project_def mergeProject_def firstNonEmpty_fix normalizeContainers_wf)

lemma normalizeProjects_fold:
  "normalizeProjects ps =
     fst (foldl (index_put p_Name mergeProject) empty_index (List.map_filter keep_project ps))"
  unfolding normalizeProjects_def
  by (subst foldl_selected [where sel = keep_project and put = "index_put p_Name mergeProject"])
    (auto simp: normalizeProjects_step_def keep_project_def split: option.splits)

lemma keep_project_Some:
  "keep_project q = Some p \<longleftrightarrow> (\<exists>r. q = Some r \<and> p = norm_project r \<and> p_Name p \<noteq> [])"
  by (auto simp: keep_project_def split: option.splits)

lemma keep_project_wf: "keep_project p = Some q \<Longrightarrow> wf_project q"
  by (auto simp: keep_project_def norm_project_wf split: option.splits if_splits)

lemma normalizeProjects_wf: "wf_projects (normalizeProjects ps)"
proof -
  let ?st = "foldl (index_put p_Name mergeProject) empty_index (List.map_filter keep_project ps)"
  have "idx_inv p_Name ?st" by (rule projects_ix.fold_inv) simp
  moreover have "\<forall>p \<in> set (fst ?st). wf_project p"
    by (rule projects_ix.fold_rows) (auto intro: wf_project_merge keep_project_wf simp: in_map_filter)
  ultimately show ?thesis
    by (simp add: wf_projects_def normalizeProjects_fold idx_inv_def)
qed

lemma normalizeProjects_id:
  "wf_projects ps \<Longrightarrow> normalizeProjects (map (\<lambda>p. Some (raw_project p)) ps) = ps"
proof -
  assume wf: "wf_projects ps"
  then have "List.map_filter keep_project (map (\<lambda>p. Some (raw_project p)) ps) = ps"
    by (intro map_filter_all) (auto simp: wf_projects_def keep_project_def norm_project_raw wf_project_def)
  moreover have "fst (foldl (index_put p_Name mergeProject) empty_index ps) = fst empty_index @ ps"
    using projects_ix.fold_distinct_id [of empty_index ps] wf by (simp add: wf_projects_def)
  ultimately show ?thesis by (simp add: normalizeProjects_fold)
qed

text \<open>No name is lost: the names after the pass are the non-blank names before it.\<close>

lemma normalizeProjects_names:
  "p_Name ` set (normalizeProjects ps) = {n. n \<noteq> [] \<and> (\<exists>p. Some p \<in> set ps \<and> n = normalizeProjectName (p_Name p))}"
proof -
  have "p_Name ` set (normalizeProjects ps) = p_Name ` set (List.map_filter keep_project ps)"
    unfolding normalizeProjects_fold by (subst projects_ix.fold_keys) simp_all
  also have "\<dots> = {n. n \<noteq> [] \<and> (\<exists>p. Some p \<in> set ps \<and> n = normalizeProjectName (p_Name p))}"
  proof (intro set_eqI iffI)
    fix n assume "n \<in> p_Name ` set (List.map_filter keep_project ps)"
    then show "n \<in> {n. n \<noteq> [] \<and> (\<exists>p. Some p \<in> set ps \<and> n = normalizeProjectName (p_Name p))}"
      by (auto simp: in_map_filter keep_project_Some norm_project_def) metis
  next
    fix n assume "n \<in> {n. n \<noteq> [] \<and> (\<exists>p. Some p \<in> set ps \<and> n = normalizeProjectName (p_Name p))}"
    then obtain p where "Some p \<in> set ps" "n = p_Name (norm_project p)" "n \<noteq> []"
      by (auto simp: norm_project_def)
    then have "norm_project p \<in> set (List.map_filter keep_project ps)"
      by (auto simp: in_map_filter keep_project_Some)
    with \<open>n = _\<close> show "n \<in> p_Name ` set (List.map_filter keep_project ps)" by simp
  qed
  finally show ?thesis .
qed

section \<open>Project lists of hosts\<close>

lemma appendProjectIfMissing_set [simp]:
  "set (appendProjectIfMissing ns n) = insert n (set ns)"
  by (auto simp: appendProjectIfMissing_def)

lemma append_fold_set: "set (foldl appendProjectIfMissing acc ns) = set acc \<union> set ns"
  by (induction ns arbitrary: acc) auto

lemma append_fold_distinct: "distinct acc \<Longrightarrow> distinct (foldl appendProjectIfMissing acc ns)"
  by (induction ns arbitrary: acc) (auto simp: appendProjectIfMissing_def)

lemma append_fold_id: "distinct (acc @ ns) \<Longrightarrow> foldl appendProjectIfMissing acc ns = acc @ ns"
  by (induction ns arbitrary: acc) (auto simp: appendProjectIfMissing_def)

lemma normalizeProjectList_fold:
  "normalizeProjectList ns valid =
     foldl appendProjectIfMissing []
       (filter (\<lambda>n. n \<noteq> [] \<and> n \<in> valid) (map normalizeProjectName ns))"
proof -
  have "foldl (\<lambda>acc n. if normalizeProjectName n = [] then acc
          else if normalizeProjectName n \<notin> valid then acc
          else appendProjectIfMissing acc (normalizeProjectName n)) acc ns
      = foldl appendProjectIfMissing acc
          (filter (\<lambda>n. n \<noteq> [] \<and> n \<in> valid) (map normalizeProjectName ns))" for acc
    by (induction ns arbitrary: acc) auto
  then show ?thesis by (simp add: normalizeProjectList_def)
qed

lemma filterHostProjectList_fold:
  "filterHostProjectList hn ns hosts =
     foldl appendProjectIfMissing [] (filter (\<lambda>n. hosts n = None \<or> hosts n = Some hn) ns)"
proof -
  have "foldl (\<lambda>acc n. case hosts n of
           Some projectHost \<Rightarrow> if projectHost \<noteq> hn then acc else appendProjectIfMissing acc n
         | None \<Rightarrow> appendProjectIfMissing acc n) acc ns
      = foldl appendProjectIfMissing acc (filter (\<lambda>n. hosts n = None \<or> hosts n = Some hn) ns)" for acc
    by (induction ns arbitrary: acc) (auto split: option.splits)
  then show ?thesis by (simp add: filterHostProjectList_def)
qed

lemma normalizeProjectList_set:
  "set (normalizeProjectList ns valid) = {n \<in> normalizeProjectName ` set ns. n \<noteq> [] \<and> n \<in> valid}"
  by (auto simp: normalizeProjectList_fold append_fold_set)

lemma filterHostProjectList_set:
  "set (filterHostProjectList hn ns hosts) = {n \<in> set ns. hosts n = None \<or> hosts n = Some hn}"
  by (auto simp: filterHostProjectList_fold append_fold_set)

lemma filterHostProjectList_distinct: "distinct (filterHostProjectList hn ns hosts)"
  by (simp add: filterHostProjectList_fold append_fold_distinct)

lemma projectNameSet_wf: "wf_projects ps \<Longrightarrow> projectNameSet ps = p_Name ` set ps"
  by (auto simp: projectNameSet_def wf_projects_def wf_project_def)

lemma projectHostMap_fold:
  "foldl (\<lambda>m p. if p_Name p = [] \<or> p_Host p = [] then m else m(p_Name p \<mapsto> p_Host p)) m ps n =
     (case map_of (rev (map (\<lambda>p. (p_Name p, p_Host p)) (filter (\<lambda>p. p_Name p \<noteq> [] \<and> p_Host p \<noteq> []) ps))) n of
        None \<Rightarrow> m n | Some x \<Rightarrow> Some x)"
  by (induction ps arbitrary: m) (auto simp: map_add_def split: option.splits)

lemma projectHostMap_wf:
  assumes "wf_projects ps"
  shows "projectHostMap ps n = Some hn \<longleftrightarrow> (\<exists>p \<in> set ps. p_Name p = n \<and> p_Host p = hn \<and> hn \<noteq> [])"
proof -
  let ?qs = "filter (\<lambda>p. p_Name p \<noteq> [] \<and> p_Host p \<noteq> []) ps"
  have "distinct (rev (map p_Name ?qs))"
    using assms by (simp add: wf_projects_def distinct_map_filter)
  then have d: "distinct (map fst (rev (map (\<lambda>p. (p_Name p, p_Host p)) ?qs)))"
    unfolding rev_map [symmetric] map_map comp_def by simp
  have "projectHostMap ps n = map_of (rev (map (\<lambda>p. (p_Name p, p_Host p)) ?qs)) n"
    unfolding projectHostMap_def projectHostMap_fold by (simp split: option.splits)
  with d show ?thesis
    using assms by (auto simp: map_of_eq_Some_iff wf_projects_def wf_project_def)
qed

section \<open>Hosts: normal form\<close>

interpretation hosts_ix: index_table h_Name mergeHost
  by unfold_locales (simp add: mergeHost_def)

text \<open>The second loop puts a row for the project's host, merged by adding the project.\<close>

definition attachHost :: "host \<Rightarrow> host \<Rightarrow> host" where
  "attachHost existing incoming =
     existing\<lparr>h_Projects := foldl appendProjectIfMissing (h_Projects existing) (h_Projects incoming)\<rparr>"

interpretation attach_ix: index_table h_Name attachHost
  by unfold_locales (simp add: attachHost_def)

definition projectHostRow :: "prj \<Rightarrow> host option" where
  "projectHostRow p =
     (if p_Host p = [] then None else Some (zero_host\<lparr>h_Name := p_Host p, h_Projects := [p_Name p]\<rparr>))"

lemma attach_fold:
  "foldl attachProject_step st ps = foldl (index_put h_Name attachHost) st (List.map_filter projectHostRow ps)"
  by (rule foldl_selected)
    (auto simp: attachProject_step_def projectHostRow_def index_put_def attachHost_def split: option.splits)

definition keep_host :: "string set \<Rightarrow> host option \<Rightarrow> host option" where
  "keep_host names h =
     (case h of None \<Rightarrow> None
      | Some h \<Rightarrow> if h_Name (norm_host names h) = [] then None else Some (norm_host names h))"

lemma keep_host_Some:
  "keep_host names q = Some h \<longleftrightarrow> (\<exists>r. q = Some r \<and> h = norm_host names r \<and> h_Name h \<noteq> [])"
  by (auto simp: keep_host_def split: option.splits)

definition lastDefault :: "string \<Rightarrow> host list \<Rightarrow> string" where
  "lastDefault d hs = foldl (\<lambda>d h. if h_IsDefault h then h_Name h else d) d hs"

lemma hosts_fold:
  "foldl (normalizeHosts_step names) (st, d) hs =
     (foldl (index_put h_Name mergeHost) st (List.map_filter (keep_host names) hs),
      lastDefault d (List.map_filter (keep_host names) hs))"
  by (induction hs arbitrary: st d)
    (auto simp: List.map_filter_simps normalizeHosts_step_def keep_host_def lastDefault_def Let_def
      split: option.splits)

definition host_rows :: "prj list \<Rightarrow> host option list \<Rightarrow> (string, host) indexed" where
  "host_rows ps hs =
     foldl (index_put h_Name attachHost)
       (foldl (index_put h_Name mergeHost) empty_index (List.map_filter (keep_host (projectNameSet ps)) hs))
       (List.map_filter projectHostRow ps)"

lemma normalizeHosts_rows:
  "normalizeHosts ps hs =
     map (finishHost (projectNameSet ps) (projectHostMap ps)
            (lastDefault [] (List.map_filter (keep_host (projectNameSet ps)) hs)))
       (fst (host_rows ps hs))"
  by (simp add: normalizeHosts_def hosts_fold attach_fold host_rows_def Let_def)

text \<open>
  The normal form of the host rows with respect to the projects: a row per name, its
  projects exist, are listed once and on their own host only, a row is in use iff it
  has projects, at most one row is the default, and every project's host has a row
  that lists the project.
\<close>

definition wf_host :: "prj list \<Rightarrow> host \<Rightarrow> bool" where
  "wf_host ps h \<longleftrightarrow> h_Name h \<noteq> [] \<and> normalizeHostName (h_Name h) = h_Name h \<and>
     distinct (h_Projects h) \<and>
     (\<forall>n \<in> set (h_Projects h). \<exists>p \<in> set ps. p_Name p = n \<and> p_Host p \<in> {[], h_Name h}) \<and>
     (h_InUse h \<longleftrightarrow> h_Projects h \<noteq> [])"

definition wf_hosts :: "prj list \<Rightarrow> host list \<Rightarrow> bool" where
  "wf_hosts ps hs \<longleftrightarrow> distinct (map h_Name hs) \<and> (\<forall>h \<in> set hs. wf_host ps h) \<and>
     (\<forall>h \<in> set hs. \<forall>g \<in> set hs. h_IsDefault h \<and> h_IsDefault g \<longrightarrow> h = g) \<and>
     (\<forall>p \<in> set ps. p_Host p \<noteq> [] \<longrightarrow> (\<exists>h \<in> set hs. h_Name h = p_Host p \<and> p_Name p \<in> set (h_Projects h)))"

lemma host_rows_inv:
  "idx_inv h_Name (host_rows ps hs)"
  unfolding host_rows_def by (intro attach_ix.fold_inv hosts_ix.fold_inv) simp

lemma host_rows_names:
  assumes "wf_projects ps"
  shows "\<forall>h \<in> set (fst (host_rows ps hs)). h_Name h \<noteq> [] \<and> normalizeHostName (h_Name h) = h_Name h"
  unfolding host_rows_def
proof (rule attach_ix.fold_rows)
  let ?hs = "List.map_filter (keep_host (projectNameSet ps)) hs"
  let ?st = "foldl (index_put h_Name mergeHost) empty_index ?hs"
  show "idx_inv h_Name ?st" by (rule hosts_ix.fold_inv) simp
  show "\<forall>h \<in> set (fst ?st). h_Name h \<noteq> [] \<and> normalizeHostName (h_Name h) = h_Name h"
    by (rule hosts_ix.fold_rows) (auto simp: mergeHost_def in_map_filter keep_host_Some norm_host_def)
  show "\<forall>h \<in> set (List.map_filter projectHostRow ps). h_Name h \<noteq> [] \<and> normalizeHostName (h_Name h) = h_Name h"
    using assms
    by (auto simp: in_map_filter projectHostRow_def wf_projects_def wf_project_def split: if_splits)
qed (auto simp: attachHost_def)

lemma host_rows_cover:
  assumes "p \<in> set ps" "p_Host p \<noteq> []"
  shows "\<exists>h \<in> set (fst (host_rows ps hs)). h_Name h = p_Host p \<and> p_Name p \<in> set (h_Projects h)"
proof -
  have more: "set (h_Projects (attachHost a b)) = set (h_Projects a) \<union> set (h_Projects b)" for a b
    by (simp add: attachHost_def append_fold_set)
  have cover: "row \<in> set rows \<Longrightarrow> idx_inv h_Name st \<Longrightarrow>
      \<exists>h \<in> set (fst (foldl (index_put h_Name attachHost) st rows)).
        h_Name h = h_Name row \<and> set (h_Projects row) \<subseteq> set (h_Projects h)" for row rows st
  proof (induction rows arbitrary: st rule: rev_induct)
    case (snoc r rows)
    let ?st = "foldl (index_put h_Name attachHost) st rows"
    have inv: "idx_inv h_Name ?st" by (rule attach_ix.fold_inv) (rule snoc.prems)
    show ?case
    proof (cases "row = r")
      case True
      show ?thesis
        using attach_ix.put_adds [OF inv, of "\<lambda>h. set (h_Projects row) \<subseteq> set (h_Projects h)" r] True
        by (auto simp: more)
    next
      case False
      then have "row \<in> set rows" using snoc.prems(1) by auto
      from snoc.IH [OF this snoc.prems(2)] obtain h where h: "h \<in> set (fst ?st)" "h_Name h = h_Name row"
        "set (h_Projects row) \<subseteq> set (h_Projects h)" by blast
      show ?thesis
        using attach_ix.put_keeps [OF inv h(1), of "\<lambda>h. set (h_Projects row) \<subseteq> set (h_Projects h)" r] h
        by (auto simp: more)
    qed
  qed simp
  have "zero_host\<lparr>h_Name := p_Host p, h_Projects := [p_Name p]\<rparr> \<in> set (List.map_filter projectHostRow ps)"
    using assms by (auto simp: in_map_filter projectHostRow_def intro!: bexI [of _ p])
  from cover [OF this, of "foldl (index_put h_Name mergeHost) empty_index
      (List.map_filter (keep_host (projectNameSet ps)) hs)"]
  show ?thesis by (simp add: host_rows_def hosts_ix.fold_inv)
qed

lemma finishHost_projects:
  assumes "wf_projects ps"
  shows "distinct (h_Projects (finishHost (projectNameSet ps) (projectHostMap ps) d h))"
    and "set (h_Projects (finishHost (projectNameSet ps) (projectHostMap ps) d h)) =
      {n \<in> normalizeProjectName ` set (h_Projects h). \<exists>p \<in> set ps. p_Name p = n \<and> p_Host p \<in> {[], h_Name h}}"
proof -
  show "distinct (h_Projects (finishHost (projectNameSet ps) (projectHostMap ps) d h))"
    by (simp add: finishHost_def Let_def filterHostProjectList_distinct)
  have uniq: "p \<in> set ps \<Longrightarrow> q \<in> set ps \<Longrightarrow> p_Name p = p_Name q \<Longrightarrow> p = q" for p q
    using assms by (auto simp: wf_projects_def distinct_map inj_on_def)
  have host: "projectHostMap ps n = None \<or> projectHostMap ps n = Some hn \<longleftrightarrow> p_Host p \<in> {[], hn}"
    if "p \<in> set ps" "p_Name p = n" for p n hn
  proof (cases "projectHostMap ps n")
    case None
    then have "\<And>hn. \<not> (\<exists>p \<in> set ps. p_Name p = n \<and> p_Host p = hn \<and> hn \<noteq> [])"
      by (simp add: projectHostMap_wf [OF assms, symmetric])
    with that None show ?thesis by auto
  next
    case (Some g)
    then have "\<exists>p \<in> set ps. p_Name p = n \<and> p_Host p = g \<and> g \<noteq> []"
      by (simp add: projectHostMap_wf [OF assms])
    with that uniq Some show ?thesis by auto
  qed
  let ?L = "normalizeProjectName ` set (h_Projects h)"
  have names: "n \<noteq> [] \<and> n \<in> projectNameSet ps \<longleftrightarrow> (\<exists>p \<in> set ps. p_Name p = n)" for n
    using assms by (auto simp: projectNameSet_wf wf_projects_def wf_project_def)
  have sel: "(\<exists>p \<in> set ps. p_Name p = n) \<and> (projectHostMap ps n = None \<or> projectHostMap ps n = Some hn)
      \<longleftrightarrow> (\<exists>p \<in> set ps. p_Name p = n \<and> p_Host p \<in> {[], hn})" for n hn
    by (metis host)
  have "set (h_Projects (finishHost (projectNameSet ps) (projectHostMap ps) d h)) =
      {n \<in> {n \<in> ?L. n \<noteq> [] \<and> n \<in> projectNameSet ps}.
         projectHostMap ps n = None \<or> projectHostMap ps n = Some (h_Name h)}"
    by (simp add: finishHost_def Let_def filterHostProjectList_set normalizeProjectList_set)
  also have "\<dots> = {n \<in> ?L. \<exists>p \<in> set ps. p_Name p = n \<and> p_Host p \<in> {[], h_Name h}}"
    unfolding mem_Collect_eq names conj_assoc sel ..
  finally show "set (h_Projects (finishHost (projectNameSet ps) (projectHostMap ps) d h)) =
      {n \<in> ?L. \<exists>p \<in> set ps. p_Name p = n \<and> p_Host p \<in> {[], h_Name h}}" .
qed

lemma finishHost_fields [simp]:
  "h_Name (finishHost names hosts d h) = h_Name h"
  "h_IsDefault (finishHost names hosts d h) = (h_Name h = d)"
  "h_InUse (finishHost names hosts d h) = (h_Projects (finishHost names hosts d h) \<noteq> [])"
  by (simp_all add: finishHost_def Let_def)

lemma normalizeHosts_wf:
  assumes "wf_projects ps"
  shows "wf_hosts ps (normalizeHosts ps hs)"
proof -
  let ?rows = "fst (host_rows ps hs)"
  define d where "d = lastDefault [] (List.map_filter (keep_host (projectNameSet ps)) hs)"
  define fin where "fin = finishHost (projectNameSet ps) (projectHostMap ps) d"
  have eq: "normalizeHosts ps hs = map fin ?rows"
    by (simp add: normalizeHosts_rows d_def fin_def)
  have name: "h_Name (fin h) = h_Name h" for h by (simp add: fin_def)
  have dist: "distinct (map h_Name (map fin ?rows))"
    using host_rows_inv [of ps hs] by (simp add: comp_def name idx_inv_def)
  have rows: "wf_host ps (fin h)" if "h \<in> set ?rows" for h
    using host_rows_names [OF assms] that finishHost_projects [OF assms, of d h]
    by (auto simp: wf_host_def fin_def)
  have one: "g = h" if "g \<in> set (map fin ?rows)" "h \<in> set (map fin ?rows)" "h_Name g = h_Name h" for g h
    using dist that by (metis distinct_map inj_onD)
  have default: "h_IsDefault (fin h) \<longleftrightarrow> h_Name (fin h) = d" for h by (simp add: fin_def)
  have cover: "\<exists>h \<in> set (map fin ?rows). h_Name h = p_Host p \<and> p_Name p \<in> set (h_Projects h)"
    if p: "p \<in> set ps" "p_Host p \<noteq> []" for p
  proof -
    from host_rows_cover [OF p] obtain h where h: "h \<in> set ?rows" "h_Name h = p_Host p"
      "p_Name p \<in> set (h_Projects h)" by blast
    moreover have "normalizeProjectName (p_Name p) = p_Name p"
      using assms p(1) by (simp add: wf_projects_def wf_project_def)
    ultimately have "p_Name p \<in> set (h_Projects (fin h))"
      using p(1) unfolding fin_def finishHost_projects(2) [OF assms] by force
    with h name show ?thesis by auto
  qed
  show ?thesis
    unfolding wf_hosts_def eq using dist rows one default cover by auto
qed

section \<open>Hosts in normal form stay as they are\<close>

lemma lastDefault_keep: "\<forall>h \<in> set hs. \<not> h_IsDefault h \<Longrightarrow> lastDefault d hs = d"
  by (induction hs arbitrary: d) (auto simp: lastDefault_def)

lemma lastDefault_one:
  assumes "\<forall>h \<in> set hs. \<forall>g \<in> set hs. h_IsDefault h \<and> h_IsDefault g \<longrightarrow> h = g"
    "h \<in> set hs" "h_IsDefault h"
  shows "lastDefault d hs = h_Name h"
proof -
  from assms(2) obtain xs ys where hs: "hs = xs @ h # ys" "h \<notin> set ys" by (meson split_list_last)
  then have "\<forall>g \<in> set ys. \<not> h_IsDefault g" using assms by auto
  then have "lastDefault (h_Name h) ys = h_Name h" by (rule lastDefault_keep)
  with hs assms(3) show ?thesis by (simp add: lastDefault_def)
qed

lemma attach_known:
  assumes "idx_inv h_Name st" "\<forall>r \<in> set rows. \<exists>h \<in> set (fst st). h_Name h = h_Name r \<and> set (h_Projects r) \<subseteq> set (h_Projects h)"
  shows "foldl (index_put h_Name attachHost) st rows = st"
  using assms(2)
proof (induction rows)
  case (Cons r rows)
  then obtain h where h: "h \<in> set (fst st)" "h_Name h = h_Name r" "set (h_Projects r) \<subseteq> set (h_Projects h)"
    by auto
  have absorb: "set ns \<subseteq> set acc \<Longrightarrow> foldl appendProjectIfMissing acc ns = acc" for acc ns
    by (induction ns) (auto simp: appendProjectIfMissing_def)
  have "attachHost h r = h" using h(3) by (simp add: attachHost_def absorb)
  with attach_ix.put_noop [OF assms(1) h(1,2)] Cons show ?case by simp
qed simp

lemma normalizeProjectList_id:
  "distinct ns \<Longrightarrow> \<forall>n \<in> set ns. n \<noteq> [] \<and> normalizeProjectName n = n \<and> n \<in> valid \<Longrightarrow>
   normalizeProjectList ns valid = ns"
proof -
  assume ns: "distinct ns" "\<forall>n \<in> set ns. n \<noteq> [] \<and> normalizeProjectName n = n \<and> n \<in> valid"
  then have "map normalizeProjectName ns = ns" by (simp add: map_idI)
  moreover have "filter (\<lambda>n. n \<noteq> [] \<and> n \<in> valid) ns = ns" using ns by (simp add: filter_id_conv)
  ultimately show ?thesis using ns(1) by (simp add: normalizeProjectList_fold append_fold_id)
qed

lemma wf_host_lists:
  assumes "wf_projects ps" "wf_host ps h"
  shows "normalizeProjectList (h_Projects h) (projectNameSet ps) = h_Projects h"
    "filterHostProjectList (h_Name h) (h_Projects h) (projectHostMap ps) = h_Projects h"
proof -
  show "normalizeProjectList (h_Projects h) (projectNameSet ps) = h_Projects h"
    using assms
    by (intro normalizeProjectList_id)
      (fastforce simp: wf_host_def projectNameSet_wf wf_projects_def wf_project_def)+
  have ok: "projectHostMap ps n = None \<or> projectHostMap ps n = Some (h_Name h)"
    if "n \<in> set (h_Projects h)" for n
  proof (cases "projectHostMap ps n")
    case (Some g)
    then have "\<exists>p \<in> set ps. p_Name p = n \<and> p_Host p = g \<and> g \<noteq> []"
      by (simp add: projectHostMap_wf [OF assms(1)])
    with assms that Some show ?thesis
      by (auto simp: wf_host_def wf_projects_def distinct_map inj_on_def) metis
  qed simp
  then have "filter (\<lambda>n. projectHostMap ps n = None \<or> projectHostMap ps n = Some (h_Name h)) (h_Projects h) = h_Projects h"
    by (simp add: filter_id_conv)
  then show "filterHostProjectList (h_Name h) (h_Projects h) (projectHostMap ps) = h_Projects h"
    using assms(2) by (simp add: filterHostProjectList_fold append_fold_id wf_host_def)
qed

lemma normalizeHosts_id:
  assumes ps: "wf_projects ps" and hs: "wf_hosts ps hs"
  shows "normalizeHosts ps (map Some hs) = hs"
proof -
  let ?names = "projectNameSet ps"
  have keep: "List.map_filter (keep_host ?names) (map Some hs) = hs"
  proof (rule map_filter_all, rule ballI)
    fix h assume "h \<in> set hs"
    with hs have wf: "wf_host ps h" by (simp add: wf_hosts_def)
    then have "norm_host ?names h = h"
      by (simp add: norm_host_def wf_host_lists [OF ps] wf_host_def)
    with wf show "keep_host ?names (Some h) = Some h" by (simp add: keep_host_def wf_host_def)
  qed
  define st where "st = foldl (index_put h_Name mergeHost) empty_index hs"
  have inv: "idx_inv h_Name st" unfolding st_def by (rule hosts_ix.fold_inv) simp
  have fst_st: "fst st = hs"
    unfolding st_def using hosts_ix.fold_distinct_id [of empty_index hs] hs by (simp add: wf_hosts_def)
  have "foldl (index_put h_Name attachHost) st (List.map_filter projectHostRow ps) = st"
    by (rule attach_known [OF inv])
      (use hs in \<open>auto simp: wf_hosts_def in_map_filter projectHostRow_def fst_st split: if_splits\<close>)
  then have rows: "fst (host_rows ps (map Some hs)) = hs"
    by (simp add: host_rows_def keep fst_st flip: st_def)
  have "finishHost ?names (projectHostMap ps) (lastDefault [] hs) h = h" if h: "h \<in> set hs" for h
  proof -
    have wf: "wf_host ps h" using hs h by (simp add: wf_hosts_def)
    have "h_IsDefault h \<longleftrightarrow> h_Name h = lastDefault [] hs"
    proof (cases "\<exists>g \<in> set hs. h_IsDefault g")
      case True
      then obtain g where g: "g \<in> set hs" "h_IsDefault g" by blast
      have "lastDefault [] hs = h_Name g"
        by (rule lastDefault_one) (use hs g in \<open>auto simp: wf_hosts_def\<close>)
      moreover have "h_Name h = h_Name g \<longleftrightarrow> h = g"
        using hs h g by (auto simp: wf_hosts_def distinct_map inj_on_def)
      moreover have "h_IsDefault h \<longleftrightarrow> h = g" using hs h g by (auto simp: wf_hosts_def)
      ultimately show ?thesis by simp
    next
      case False
      with h wf show ?thesis by (auto simp: lastDefault_keep wf_host_def)
    qed
    with wf have "finishHost ?names (projectHostMap ps) (lastDefault [] hs) h =
        h\<lparr>h_Projects := h_Projects h, h_InUse := h_InUse h, h_IsDefault := h_IsDefault h\<rparr>"
      by (simp add: finishHost_def Let_def wf_host_lists [OF ps wf] wf_host_def)
    then show ?thesis by simp
  qed
  then show ?thesis by (simp add: normalizeHosts_rows rows keep map_idI)
qed

section \<open>Registries and the whole database\<close>

interpretation registries_ix: index_table i_Name replaceRegistry
  by unfold_locales (simp add: replaceRegistry_def)

definition keep_registry :: "registryInstance option \<Rightarrow> registryInstance option" where
  "keep_registry r =
     (case r of None \<Rightarrow> None
      | Some r \<Rightarrow> if TrimSpace (i_Name r) = [] then None else Some (r\<lparr>i_Name := TrimSpace (i_Name r)\<rparr>))"

lemma keep_registry_Some:
  "keep_registry q = Some r \<longleftrightarrow> (\<exists>o'. q = Some o' \<and> r = o'\<lparr>i_Name := TrimSpace (i_Name o')\<rparr> \<and> i_Name r \<noteq> [])"
  by (auto simp: keep_registry_def split: option.splits)

definition wf_registries :: "registryInstance list \<Rightarrow> bool" where
  "wf_registries rs \<longleftrightarrow> distinct (map i_Name rs) \<and>
     (\<forall>r \<in> set rs. i_Name r \<noteq> [] \<and> TrimSpace (i_Name r) = i_Name r)"

lemma normalizeRegistries_fold:
  "normalizeRegistries rs =
     fst (foldl (index_put i_Name replaceRegistry) empty_index (List.map_filter keep_registry rs))"
  unfolding normalizeRegistries_def
  by (subst foldl_selected [where sel = keep_registry and put = "index_put i_Name replaceRegistry"])
    (auto simp: normalizeRegistries_step_def keep_registry_def split: option.splits)

lemma normalizeRegistries_wf: "wf_registries (normalizeRegistries rs)"
proof -
  let ?st = "foldl (index_put i_Name replaceRegistry) empty_index (List.map_filter keep_registry rs)"
  have "idx_inv i_Name ?st" by (rule registries_ix.fold_inv) simp
  moreover have "\<forall>r \<in> set (fst ?st). i_Name r \<noteq> [] \<and> TrimSpace (i_Name r) = i_Name r"
    by (rule registries_ix.fold_rows)
      (auto simp: replaceRegistry_def in_map_filter keep_registry_Some)
  ultimately show ?thesis by (simp add: wf_registries_def normalizeRegistries_fold idx_inv_def)
qed

lemma normalizeRegistries_id: "wf_registries rs \<Longrightarrow> normalizeRegistries (map Some rs) = rs"
proof -
  assume wf: "wf_registries rs"
  then have "List.map_filter keep_registry (map Some rs) = rs"
    by (intro map_filter_all) (auto simp: wf_registries_def keep_registry_def)
  then show ?thesis
    using registries_ix.fold_distinct_id [of empty_index rs] wf
    by (simp add: normalizeRegistries_fold wf_registries_def)
qed

definition wf_context :: "prj list \<Rightarrow> string \<Rightarrow> bool" where
  "wf_context ps ctx \<longleftrightarrow> ctx = [] \<or> ctx \<in> p_Name ` set ps"

definition wf_data :: "data \<Rightarrow> bool" where
  "wf_data d \<longleftrightarrow> wf_projects (d_Projects d) \<and> wf_hosts (d_Projects d) (d_Hosts d) \<and>
     wf_registries (d_Instances d) \<and> wf_context (d_Projects d) (d_ProjectContext d)"

lemma normalizeContext_wf: "wf_projects ps \<Longrightarrow> wf_context ps (normalizeContext ps ctx)"
  by (auto simp: wf_context_def normalizeContext_def find_project_def Let_def wf_projects_def
      wf_project_def image_iff split: option.splits dest!: find_Some_set) metis

lemma normalizeContext_id:
  assumes "wf_projects ps" "wf_context ps ctx"
  shows "normalizeContext ps ctx = ctx"
proof (cases "ctx = []")
  case False
  with assms obtain p where p: "p \<in> set ps" "p_Name p = ctx" "normalizeProjectName ctx = ctx"
    by (auto simp: wf_context_def wf_projects_def wf_project_def)
  then have "find_project ctx ps \<noteq> None" by (auto simp: find_project_def find_None_set)
  with p False show ?thesis by (auto simp: normalizeContext_def)
qed (simp add: normalizeContext_def)

lemma normalize_wf: "wf_data (normalize r)"
  by (simp add: wf_data_def normalize_def Let_def normalizeProjects_wf normalizeHosts_wf
      normalizeRegistries_wf normalizeContext_wf)

lemma normalize_id: "wf_data d \<Longrightarrow> normalize (raw_of d) = d"
  by (simp add: wf_data_def normalize_def raw_of_def Let_def normalizeProjects_id normalizeHosts_id
      normalizeRegistries_id normalizeContext_id)

text \<open>
  C20. Whatever the database file holds (nil rows, blank or padded names, duplicate rows,
  stale references), the data after \<open>normalize\<close> is in normal form: project, host,
  container and registry names are trimmed, non-empty and unique, every host's project
  list names existing projects of that host once each, \<open>inUse\<close> says whether the list is
  non-empty, at most one host is the default, every project's host has a row that lists
  it, and the current project is none or an existing one.
\<close>

theorem normalize_establishes_normal_form:
  "let d = normalize r
   in distinct (map p_Name (d_Projects d)) \<and> distinct (map h_Name (d_Hosts d)) \<and>
      (\<forall>p. p \<in> set (d_Projects d) \<longrightarrow> p_Name p \<noteq> [] \<and> TrimSpace (p_Name p) = p_Name p \<and>
         distinct (map c_Name (p_Containers p)) \<and>
         (\<forall>c. c \<in> set (p_Containers p) \<longrightarrow> c_Name c \<noteq> [] \<and> norm_container c = c)) \<and>
      (\<forall>h. h \<in> set (d_Hosts d) \<longrightarrow> wf_host (d_Projects d) h) \<and>
      (\<forall>h g. h \<in> set (d_Hosts d) \<and> g \<in> set (d_Hosts d) \<and> h_IsDefault h \<and> h_IsDefault g \<longrightarrow> h = g) \<and>
      (\<forall>p. p \<in> set (d_Projects d) \<and> p_Host p \<noteq> [] \<longrightarrow>
         (\<exists>h \<in> set (d_Hosts d). h_Name h = p_Host p \<and> p_Name p \<in> set (h_Projects h))) \<and>
      (d_ProjectContext d = [] \<or> d_ProjectContext d \<in> p_Name ` set (d_Projects d))"
proof -
  have "wf_data (normalize r)" by (rule normalize_wf)
  then show ?thesis
    unfolding Let_def wf_data_def wf_projects_def wf_hosts_def wf_context_def
    by (auto simp: wf_project_def wf_containers_def wf_container_def normalizeProjectName_def)
qed

text \<open>A file with a nil row, padded and duplicate names, two defaults and a stale context.\<close>

definition sample_raw :: raw_data where
  "sample_raw = \<lparr>rd_ProjectContext = ''gone'',
     rd_Projects = [None, Some (zero_project\<lparr>p_Name := '' web '', p_Host := ''Box''\<rparr>),
       Some (zero_project\<lparr>p_Name := ''web'', p_Containers := [None, Some
         \<lparr>c_Id = [], c_State = ''Running'', c_ExpectedState = [], c_Name = '' dev'', c_PortSSH = 0, c_RemoteUser = []\<rparr>]\<rparr>)],
     rd_Hosts = [Some (zero_host\<lparr>h_Name := ''a'', h_IsDefault := True, h_Projects := [''web'']\<rparr>),
       Some (zero_host\<lparr>h_Name := ''b'', h_IsDefault := True\<rparr>)],
     rd_Instances = []\<rparr>"

theorem normalize_establishes_normal_form_witness:
  "(\<exists>h \<in> set (d_Hosts (normalize sample_raw)). h_Name h = ''box'' \<and> ''web'' \<in> set (h_Projects h))
   \<and> map h_Name (d_Hosts (normalize sample_raw)) = [''a'', ''b'', ''box'']"
proof
  have "map p_Name (d_Projects (normalize sample_raw)) = [''web'']"
    "map p_Host (d_Projects (normalize sample_raw)) = [''box'']" by code_simp+
  then obtain p where "d_Projects (normalize sample_raw) = [p]" "p_Name p = ''web''" "p_Host p = ''box''"
    by (auto simp: map_eq_Cons_conv)
  then show "\<exists>h \<in> set (d_Hosts (normalize sample_raw)). h_Name h = ''box'' \<and> ''web'' \<in> set (h_Projects h)"
    using normalize_establishes_normal_form [of sample_raw] by (simp add: Let_def)
  show "map h_Name (d_Hosts (normalize sample_raw)) = [''a'', ''b'', ''box'']" by code_simp
qed

text \<open>
  C19. Normalising is idempotent through the file: data in normal form that is written
  out and read back is not changed by the next load, and every database that
  \<open>normalize\<close> produced is such data. So loading never rewrites what saving wrote.
\<close>

theorem normalize_idempotent: "normalize (raw_of (normalize r)) = normalize r"
  by (rule normalize_id) (rule normalize_wf)

text \<open>
  Merging duplicates loses no project: the project names after \<open>normalizeProjects\<close>
  are exactly the trimmed non-blank names of the rows before it, each once.
\<close>

theorem normalize_keeps_projects:
  "set (map p_Name (d_Projects (normalize r))) =
     {n. n \<noteq> [] \<and> (\<exists>p. Some p \<in> set (rd_Projects r) \<and> n = TrimSpace (p_Name p))}
   \<and> distinct (map p_Name (d_Projects (normalize r)))"
  using normalizeProjects_names [of "rd_Projects r"] normalizeProjects_wf [of "rd_Projects r"]
  by (simp add: normalize_def Let_def normalizeProjectName_def wf_projects_def)

end
