(* ===== verification/Db.thy ===== *)
theory Db
  imports DbNormalize
begin

text \<open>
  The operations of \<open>internal/db\<close> on the data in memory (\<open>project.go\<close>,
  \<open>project_management.go\<close>, \<open>project_scaffold.go\<close>, \<open>context.go\<close>, \<open>host.go\<close>,
  \<open>host_scaffold.go\<close>). Every exported function takes the store's mutex for its whole body,
  so it is one atomic step on \<open>data\<close>; \<open>RemoveHostFromConfig\<close> alone calls several of them and
  is their composition.

  The pattern \<open>decorateProject.update\<close> (find the first row with the name, write through
  the pointer) is \<open>update_project\<close>; \<open>visitProject.get\<close> is \<open>get_project\<close>; the same for hosts.
\<close>

section \<open>Access to rows\<close>

definition getProject :: "data \<Rightarrow> string \<Rightarrow> prj result" where
  "getProject d projectName =
     (case find_project projectName (d_Projects d) of
        Some p \<Rightarrow> Ok p
      | None \<Rightarrow> Fail (''Failed to get project '' @ projectName @ '' ''))"

definition update_project :: "(prj \<Rightarrow> prj) \<Rightarrow> string \<Rightarrow> data \<Rightarrow> data result" where
  "update_project f projectName d =
     bind_ok (getProject d projectName) (\<lambda>_.
       Ok (d\<lparr>d_Projects := update_first
         (\<lambda>p. normalizeProjectName (p_Name p) = normalizeProjectName projectName) f (d_Projects d)\<rparr>))"

definition get_project :: "(prj \<Rightarrow> 'a) \<Rightarrow> string \<Rightarrow> data \<Rightarrow> 'a result" where
  "get_project v projectName d = bind_ok (getProject d projectName) (\<lambda>p. Ok (v p))"

text \<open>A getter that returns a default on error.\<close>

definition ok_or :: "'a \<Rightarrow> 'a result \<Rightarrow> 'a" where
  "ok_or dflt r = (case r of Inl _ \<Rightarrow> dflt | Inr x \<Rightarrow> x)"

definition removeProjectFromList :: "string \<Rightarrow> data \<Rightarrow> data" where
  "removeProjectFromList projectName d = d\<lparr>d_Projects :=
     filter (\<lambda>p. normalizeProjectName (p_Name p) \<noteq> normalizeProjectName projectName) (d_Projects d)\<rparr>"

definition getProjectContainer :: "prj \<Rightarrow> string \<Rightarrow> containerInfo result" where
  "getProjectContainer p containerName =
     (case find (\<lambda>c. TrimSpace (c_Name c) = TrimSpace containerName) (p_Containers p) of
        Some c \<Rightarrow> Ok c
      | None \<Rightarrow> Fail (''container '' @ containerName @ '' not found''))"

definition getHost :: "data \<Rightarrow> string \<Rightarrow> host result" where
  "getHost d hostName =
     (case FindElemFromSlice (d_Hosts d) (\<lambda>h. normalizeHostName (h_Name h) = normalizeHostName hostName) of
        Some h \<Rightarrow> Ok h
      | None \<Rightarrow> Fail (''Failed to get host '' @ hostName @ '' ''))"

definition update_host :: "(host \<Rightarrow> host) \<Rightarrow> string \<Rightarrow> data \<Rightarrow> data result" where
  "update_host f hostName d =
     bind_ok (getHost d hostName) (\<lambda>_.
       Ok (d\<lparr>d_Hosts := update_first
         (\<lambda>h. normalizeHostName (h_Name h) = normalizeHostName hostName) f (d_Hosts d)\<rparr>))"

definition get_host :: "(host \<Rightarrow> 'a) \<Rightarrow> string \<Rightarrow> data \<Rightarrow> 'a result" where
  "get_host v hostName d = bind_ok (getHost d hostName) (\<lambda>h. Ok (v h))"

section \<open>Projects: registration\<close>

definition add_project_row :: "prj \<Rightarrow> data \<Rightarrow> data result" where
  "add_project_row row d =
     (if p_Name row = [] then Fail ''Project name cannot be empty''
      else case getProject d (p_Name row) of
        Inr _ \<Rightarrow> Fail (''Project '' @ [CHR 0x27] @ p_Name row @ [CHR 0x27] @ '' already exists'')
      | Inl _ \<Rightarrow> Ok (d\<lparr>d_Projects := d_Projects d @ [row]\<rparr>))"

definition AddProjectUsingConfDir :: "string \<Rightarrow> string \<Rightarrow> data \<Rightarrow> data result" where
  "AddProjectUsingConfDir projectName confDir d =
     add_project_row (zero_project\<lparr>p_Name := normalizeProjectName projectName, p_ConfDir := confDir\<rparr>) d"

definition AddProjectUsingFlavour :: "string \<Rightarrow> string \<Rightarrow> string \<Rightarrow> data \<Rightarrow> data result" where
  "AddProjectUsingFlavour projectName flavourName overrideDir d =
     add_project_row (zero_project\<lparr>p_Name := normalizeProjectName projectName,
       p_Flavour := zero_flavourInfo\<lparr>f_Name := flavourName, f_OverrideDir := overrideDir\<rparr>\<rparr>) d"

definition HasProject :: "data \<Rightarrow> string \<Rightarrow> bool" where
  "HasProject d projectName = is_ok (getProject d projectName)"

definition ListProjects :: "data \<Rightarrow> string list" where
  "ListProjects d = map p_Name (d_Projects d)"

definition RemoveProject :: "string \<Rightarrow> data \<Rightarrow> data" where
  "RemoveProject projectName d = removeProjectFromList projectName d"

text \<open>\<open>DeleteProject\<close> also returns the generated configuration directory for the caller to delete.\<close>

definition pathToDelete :: "prj \<Rightarrow> string" where
  "pathToDelete p =
     (if length (p_ConfDir p) = 0
      then (if length (f_LocalConfDir (p_Flavour p)) \<noteq> 0 then f_LocalConfDir (p_Flavour p)
            else if length (s_LocalConfDir (p_SrcRepo p)) \<noteq> 0 then s_LocalConfDir (p_SrcRepo p)
            else [])
      else [])"

definition DeleteProject :: "string \<Rightarrow> data \<Rightarrow> (string \<times> data) result" where
  "DeleteProject projectName d =
     (case getProject d projectName of
        Inl e \<Rightarrow> Inl (AppendError (''Failed to delete project '' @ projectName @ '': project not found'') e)
      | Inr p \<Rightarrow> Ok (pathToDelete p, removeProjectFromList projectName d))"

text \<open>\<open>slices.Compact\<close> drops an element equal to the one before it.\<close>

fun slices_Compact :: "'a list \<Rightarrow> 'a list" where
  "slices_Compact (x # y # xs) = (if x = y then slices_Compact (x # xs) else x # slices_Compact (y # xs))"
| "slices_Compact xs = xs"

definition GetProjectsUsingConfigDir :: "data \<Rightarrow> string \<Rightarrow> string list" where
  "GetProjectsUsingConfigDir d path = slices_Compact (concat (map (\<lambda>p.
     (if p_ConfDir p = path then [p_Name p] else []) @
     (if f_LocalConfDir (p_Flavour p) = path then [p_Name p] else [])) (d_Projects d)))"

section \<open>Projects: attributes\<close>

definition project_setter :: "(prj \<Rightarrow> prj) \<Rightarrow> string \<Rightarrow> data \<Rightarrow> data result" where
  "project_setter f projectName d =
     wrap_error (''Failed to update project '' @ projectName) (update_project f projectName d)"

definition RemoveHostAndContainersFromProject :: "string \<Rightarrow> data \<Rightarrow> data result" where
  "RemoveHostAndContainersFromProject = project_setter (\<lambda>p. p\<lparr>p_Containers := [], p_Host := []\<rparr>)"

definition SetProjectHost :: "string \<Rightarrow> string \<Rightarrow> data \<Rightarrow> data result" where
  "SetProjectHost projectName hostName =
     project_setter (\<lambda>p. p\<lparr>p_Host := normalizeHostName hostName\<rparr>) projectName"

definition SetOrchestrationRequested :: "string \<Rightarrow> data \<Rightarrow> data result" where
  "SetOrchestrationRequested = project_setter (\<lambda>p.
     p\<lparr>p_OrchestrationUsage := (p_OrchestrationUsage p)\<lparr>u_ClusterUse := True\<rparr>\<rparr>)"

definition SetProjectRegistryUsage :: "string \<Rightarrow> data \<Rightarrow> data result" where
  "SetProjectRegistryUsage = project_setter (\<lambda>p.
     p\<lparr>p_OrchestrationUsage := (p_OrchestrationUsage p)\<lparr>u_RegistryUse := True\<rparr>\<rparr>)"

definition SetProjectSshTunnelNeeded :: "string \<Rightarrow> data \<Rightarrow> data result" where
  "SetProjectSshTunnelNeeded = project_setter (\<lambda>p. p\<lparr>p_UseSshTunnel := True\<rparr>)"

definition SetNasRequested :: "string \<Rightarrow> data \<Rightarrow> data result" where
  "SetNasRequested = project_setter (\<lambda>p. p\<lparr>p_NasRequested := True\<rparr>)"

definition SetOverrideImageTag :: "string \<Rightarrow> string \<Rightarrow> data \<Rightarrow> data result" where
  "SetOverrideImageTag projectName overrideTag =
     project_setter (\<lambda>p. p\<lparr>p_OverrideImageTag := overrideTag\<rparr>) projectName"

definition SetProjectSrcRepoInfo :: "string \<Rightarrow> string \<Rightarrow> string \<Rightarrow> bool \<Rightarrow> data \<Rightarrow> data result" where
  "SetProjectSrcRepoInfo projectName repoURI repoRef toClone = project_setter (\<lambda>p.
     p\<lparr>p_SrcRepo := (p_SrcRepo p)\<lparr>s_URI := repoURI, s_Ref := repoRef, s_ToClone := toClone\<rparr>\<rparr>) projectName"

definition SetFlavourLocalConfDir :: "string \<Rightarrow> string \<Rightarrow> data \<Rightarrow> data result" where
  "SetFlavourLocalConfDir projectName localConfDir d =
     wrap_error (''Failed to update flavour local conf dir for project '' @ projectName)
       (update_project (\<lambda>p. p\<lparr>p_Flavour := (p_Flavour p)\<lparr>f_LocalConfDir := localConfDir\<rparr>\<rparr>) projectName d)"

definition IsSshTunnelNeeded :: "data \<Rightarrow> string \<Rightarrow> bool" where
  "IsSshTunnelNeeded d n = ok_or False (get_project p_UseSshTunnel n d)"

definition ProjectConfig :: "data \<Rightarrow> string \<Rightarrow> string" where
  "ProjectConfig d n = ok_or [] (get_project (\<lambda>p.
     if length (p_ConfDir p) \<noteq> 0 then p_ConfDir p
     else if length (f_LocalConfDir (p_Flavour p)) \<noteq> 0 then f_LocalConfDir (p_Flavour p)
     else if length (s_LocalConfDir (p_SrcRepo p)) \<noteq> 0 then s_LocalConfDir (p_SrcRepo p)
     else []) n d)"

definition ProjectSrcRepoInfo :: "data \<Rightarrow> string \<Rightarrow> SrcRepoInfo" where
  "ProjectSrcRepoInfo d n = ok_or \<lparr>sr_RepoURI = [], sr_RepoRef = [], sr_ToClone = False\<rparr>
     (get_project (\<lambda>p. \<lparr>sr_RepoURI = s_URI (p_SrcRepo p), sr_RepoRef = s_Ref (p_SrcRepo p),
        sr_ToClone = s_ToClone (p_SrcRepo p)\<rparr>) n d)"

definition IsProjectConfiguredWithFlavour :: "data \<Rightarrow> string \<Rightarrow> bool" where
  "IsProjectConfiguredWithFlavour d n = ok_or False (get_project (\<lambda>p. p_Flavour p \<noteq> zero_flavourInfo) n d)"

definition ProjectFlavourName :: "data \<Rightarrow> string \<Rightarrow> string" where
  "ProjectFlavourName d n = ok_or [] (get_project (\<lambda>p. f_Name (p_Flavour p)) n d)"

definition ProjectHostName :: "data \<Rightarrow> string \<Rightarrow> string" where
  "ProjectHostName d n = ok_or [] (get_project p_Host n d)"

definition HasProjectSrcRepoToBeCloned :: "data \<Rightarrow> string \<Rightarrow> bool" where
  "HasProjectSrcRepoToBeCloned d n = ok_or False (get_project (\<lambda>p. s_ToClone (p_SrcRepo p)) n d)"

definition IsNasRequested :: "data \<Rightarrow> string \<Rightarrow> bool" where
  "IsNasRequested d n = ok_or False (get_project p_NasRequested n d)"

definition db_OverrideImageTag :: "data \<Rightarrow> string \<Rightarrow> string" where
  "db_OverrideImageTag d n = ok_or [] (get_project p_OverrideImageTag n d)"

definition IsOrchestrationUsed :: "data \<Rightarrow> string \<Rightarrow> bool" where
  "IsOrchestrationUsed d n = ok_or False (get_project (\<lambda>p. u_ClusterUse (p_OrchestrationUsage p)) n d)"

definition IsRegistryUsed :: "data \<Rightarrow> string \<Rightarrow> bool" where
  "IsRegistryUsed d n = ok_or False (get_project (\<lambda>p. u_RegistryUse (p_OrchestrationUsage p)) n d)"

definition ProjectsOrchestrationUsage :: "data \<Rightarrow> string \<Rightarrow> OrchestrationUsage" where
  "ProjectsOrchestrationUsage d n = \<lparr>ou_Cluster = IsOrchestrationUsed d n, ou_Registry = IsRegistryUsed d n\<rparr>"

section \<open>Projects: containers\<close>

definition toContainerInfo :: "Container \<Rightarrow> containerInfo" where
  "toContainerInfo info =
     \<lparr>c_Id = ct_Id info, c_State = FContainerStatus (ct_Status info),
      c_ExpectedState = FContainerStatus (ct_ExpectedStatus info), c_Name = TrimSpace (ct_Name info),
      c_PortSSH = (case ct_Pmapping info KSSHPortMapping of Some val \<Rightarrow> val | None \<Rightarrow> 0),
      c_RemoteUser = TrimSpace (ct_RemoteUser info)\<rparr>"

definition AddContainerInfo :: "string \<Rightarrow> Container \<Rightarrow> data \<Rightarrow> data result" where
  "AddContainerInfo projectName info = project_setter (\<lambda>p.
     let updated = toContainerInfo info
     in if \<exists>c \<in> set (p_Containers p). TrimSpace (c_Name c) = c_Name updated then p
        else p\<lparr>p_Containers := p_Containers p @ [updated]\<rparr>) projectName"

fun replace_or_append :: "containerInfo \<Rightarrow> containerInfo list \<Rightarrow> containerInfo list" where
  "replace_or_append updated [] = [updated]"
| "replace_or_append updated (c # cs) =
     (if TrimSpace (c_Name c) = c_Name updated then updated # cs else c # replace_or_append updated cs)"

definition UpsertProjectContainer :: "string \<Rightarrow> Container \<Rightarrow> data \<Rightarrow> data result" where
  "UpsertProjectContainer projectName info d =
     wrap_error (''Failed to update project '' @ projectName @ '' container '' @ ct_Name info)
       (update_project (\<lambda>p. p\<lparr>p_Containers := replace_or_append (toContainerInfo info) (p_Containers p)\<rparr>)
          projectName d)"

definition RemoveProjectContainers :: "string \<Rightarrow> string list \<Rightarrow> data \<Rightarrow> data result" where
  "RemoveProjectContainers projectName containerNames d =
     wrap_error (''Failed to remove project '' @ projectName @ '' containers'')
       (update_project (\<lambda>p. p\<lparr>p_Containers :=
          filter (\<lambda>c. TrimSpace (c_Name c) \<notin> set (map TrimSpace containerNames)) (p_Containers p)\<rparr>)
          projectName d)"

definition nilPort :: int where "nilPort = -1"

definition ContainerSSHPort :: "data \<Rightarrow> string \<Rightarrow> string \<Rightarrow> int" where
  "ContainerSSHPort d projectName containerName =
     ok_or nilPort (get_project (\<lambda>p. ok_or nilPort
       (bind_ok (getProjectContainer p containerName) (\<lambda>c. Ok (c_PortSSH c)))) projectName d)"

definition ProjectContainersName :: "data \<Rightarrow> string \<Rightarrow> string list" where
  "ProjectContainersName d projectName = ok_or [] (get_project (\<lambda>p.
     map c_Name (filter (\<lambda>c. \<not> (c_State c = FContainerStatus KContainerStatusDeleted \<or>
       c_ExpectedState c = FContainerStatus KContainerStatusDeleted)) (p_Containers p))) projectName d)"

definition ProjectContainerRemoteUser :: "data \<Rightarrow> string \<Rightarrow> string \<Rightarrow> string" where
  "ProjectContainerRemoteUser d projectName containerName =
     ok_or [] (get_project (\<lambda>p. ok_or []
       (bind_ok (getProjectContainer p containerName) (\<lambda>c. Ok (c_RemoteUser c)))) projectName d)"

section \<open>The current project\<close>

definition GetCurrentProject :: "data \<Rightarrow> string" where
  "GetCurrentProject d = d_ProjectContext d"

definition SetProject :: "string \<Rightarrow> data \<Rightarrow> data result" where
  "SetProject projectName d =
     bind_ok (getProject d projectName) (\<lambda>_. Ok (d\<lparr>d_ProjectContext := projectName\<rparr>))"

definition IsCurrentProject :: "data \<Rightarrow> string \<Rightarrow> bool" where
  "IsCurrentProject d projectName = (GetCurrentProject d = projectName)"

definition FlushContext :: "data \<Rightarrow> data" where
  "FlushContext d = d\<lparr>d_ProjectContext := []\<rparr>"

definition zero_ProjectInfo :: ProjectInfo where
  "zero_ProjectInfo = \<lparr>pi_Name = [], pi_Host = [], pi_Status = [], pi_Current = False,
     pi_Containers = [], pi_OrchestrationUsage = \<lparr>ou_Cluster = False, ou_Registry = False\<rparr>\<rparr>"

definition container_row_info :: "containerInfo \<Rightarrow> ContainerInfo" where
  "container_row_info c = \<lparr>ci_Id = c_Id c, ci_Name = c_Name c, ci_Status = c_State c,
     ci_ExpectedStatus = c_ExpectedState c\<rparr>"

definition GetProjectInfo :: "data \<Rightarrow> string \<Rightarrow> ProjectInfo" where
  "GetProjectInfo d projectName =
     (case getProject d projectName of
        Inl _ \<Rightarrow> zero_ProjectInfo\<lparr>pi_Name := projectName\<rparr>
      | Inr p \<Rightarrow>
          \<lparr>pi_Name = p_Name p, pi_Host = p_Host p,
           pi_Status = GetProjStatus (map container_row_info (p_Containers p)),
           pi_Current = (p_Name p = d_ProjectContext d),
           pi_Containers = map container_row_info (p_Containers p),
           pi_OrchestrationUsage = \<lparr>ou_Cluster = u_ClusterUse (p_OrchestrationUsage p),
             ou_Registry = u_RegistryUse (p_OrchestrationUsage p)\<rparr>\<rparr>)"

section \<open>Hosts\<close>

definition ListHostNames :: "data \<Rightarrow> string list" where
  "ListHostNames d = map h_Name (d_Hosts d)"

definition AddHost :: "string \<Rightarrow> string \<Rightarrow> data \<Rightarrow> data" where
  "AddHost hostName username d =
     (let n = normalizeHostName hostName; same = (\<lambda>h. normalizeHostName (h_Name h) = n)
      in if n = [] then d
         else case FindElemFromSlice (d_Hosts d) same of
           Some _ \<Rightarrow> d\<lparr>d_Hosts := update_first same (\<lambda>h. h\<lparr>h_Name := n,
             h_Username := (if username \<noteq> [] then username else h_Username h)\<rparr>) (d_Hosts d)\<rparr>
         | None \<Rightarrow> d\<lparr>d_Hosts := d_Hosts d @ [zero_host\<lparr>h_Name := n, h_Username := username\<rparr>]\<rparr>)"

definition RemoveHostFromHostList :: "string \<Rightarrow> data \<Rightarrow> data" where
  "RemoveHostFromHostList hostName d = d\<lparr>d_Hosts :=
     FilterSlice (d_Hosts d) (\<lambda>h. normalizeHostName (h_Name h) \<noteq> normalizeHostName hostName)\<rparr>"

definition GetDefaultHostName :: "data \<Rightarrow> string" where
  "GetDefaultHostName d = (case find h_IsDefault (d_Hosts d) of Some h \<Rightarrow> h_Name h | None \<Rightarrow> [])"

definition SetHostToDefault :: "string \<Rightarrow> data \<Rightarrow> data" where
  "SetHostToDefault hostName d =
     (let n = normalizeHostName hostName
      in if \<not> (\<exists>h \<in> set (d_Hosts d). normalizeHostName (h_Name h) = n) then d
         else d\<lparr>d_Hosts := map (\<lambda>h. h\<lparr>h_IsDefault := (normalizeHostName (h_Name h) = n)\<rparr>) (d_Hosts d)\<rparr>)"

definition HasHost :: "data \<Rightarrow> string \<Rightarrow> bool" where
  "HasHost d hostName = is_ok (getHost d hostName)"

definition GetHostKey :: "data \<Rightarrow> string \<Rightarrow> string" where
  "GetHostKey d n = ok_or [] (get_host h_PathToKey n d)"

definition GetHostPubKey :: "data \<Rightarrow> string \<Rightarrow> string" where
  "GetHostPubKey d n = ok_or [] (get_host h_PathToPubKey n d)"

definition GetHostUsername :: "data \<Rightarrow> string \<Rightarrow> string" where
  "GetHostUsername d n = ok_or [] (get_host h_Username n d)"

definition ProjectNamesFromHost :: "data \<Rightarrow> string \<Rightarrow> string list" where
  "ProjectNamesFromHost d n = ok_or [] (get_host h_Projects n d)"

definition UpdateHostKey :: "Host \<Rightarrow> data \<Rightarrow> data result" where
  "UpdateHostKey bh d =
     wrap_error (''Failed to update host key for host: '' @ bh_Name bh)
       (update_host (\<lambda>h. h\<lparr>h_UseKey := True, h_PathToKey := kp_PathToPrv (bh_KeyPair bh),
          h_PathToPubKey := kp_PathToPub (bh_KeyPair bh)\<rparr>) (bh_Name bh) d)"

text \<open>The error of \<open>RemoveProjectFromHost\<close> names the project where it says host.\<close>

definition RemoveProjectFromHost :: "string \<Rightarrow> string \<Rightarrow> data \<Rightarrow> data result" where
  "RemoveProjectFromHost hostName projectName d =
     wrap_error (''Failed to update host '' @ projectName)
       (update_host (\<lambda>h.
          let ps = RemoveElemFromSlice (h_Projects h) (normalizeProjectName projectName)
          in h\<lparr>h_Projects := ps, h_InUse := length ps > 0\<rparr>) hostName d)"

definition RegisterProjectInHost :: "string \<Rightarrow> string \<Rightarrow> data \<Rightarrow> data result" where
  "RegisterProjectInHost hostName projectName d =
     (let n = normalizeProjectName projectName
      in bind_ok (wrap_error (''Failed to register project '' @ n @ '' in host '' @ hostName) (getProject d n)) (\<lambda>_.
           wrap_error (''Failed to add register project in host: '' @ hostName)
             (update_host (\<lambda>h. h\<lparr>h_InUse := True, h_Projects := AddElementToSliceIfNotExists (h_Projects h) n\<rparr>)
                hostName d)))"

definition SetOrcInfoName :: "string \<Rightarrow> string \<Rightarrow> data \<Rightarrow> data result" where
  "SetOrcInfoName hostName name d =
     wrap_error (''Failed to update orchestration-info name for host '' @ hostName)
       (update_host (\<lambda>h. h\<lparr>h_OrchestrationInfo := (h_OrchestrationInfo h)\<lparr>o_Name := name\<rparr>\<rparr>) hostName d)"

definition SetOrcInfoStatus :: "string \<Rightarrow> ContainerStatus \<Rightarrow> data \<Rightarrow> data result" where
  "SetOrcInfoStatus hostName status d =
     wrap_error (''Failed to update orchestration-info status for host '' @ hostName)
       (update_host (\<lambda>h. h\<lparr>h_OrchestrationInfo :=
          (h_OrchestrationInfo h)\<lparr>o_State := FContainerStatus status\<rparr>\<rparr>) hostName d)"

definition SetOrcInfoRegistryStatus :: "string \<Rightarrow> ContainerStatus \<Rightarrow> data \<Rightarrow> data result" where
  "SetOrcInfoRegistryStatus hostName status d =
     wrap_error (''Failed to update orchestration-info registry-status for host '' @ hostName)
       (update_host (\<lambda>h. h\<lparr>h_OrchestrationInfo := (h_OrchestrationInfo h)\<lparr>o_RegistryInfo :=
          (o_RegistryInfo (h_OrchestrationInfo h))\<lparr>g_State := FContainerStatus status\<rparr>\<rparr>\<rparr>) hostName d)"

definition SetOrcInfoRegPort :: "string \<Rightarrow> int \<Rightarrow> data \<Rightarrow> data result" where
  "SetOrcInfoRegPort hostName port d =
     wrap_error (''Failed to update orchestration-info registry-port for host '' @ hostName)
       (update_host (\<lambda>h. h\<lparr>h_OrchestrationInfo := (h_OrchestrationInfo h)\<lparr>o_RegistryInfo :=
          (o_RegistryInfo (h_OrchestrationInfo h))\<lparr>g_Port := port\<rparr>\<rparr>\<rparr>) hostName d)"

definition GetRegistryInfoFromHost :: "data \<Rightarrow> string \<Rightarrow> RegistryInfo" where
  "GetRegistryInfoFromHost d n = ok_or \<lparr>bri_State = [], bri_Port = 0\<rparr>
     (get_host (\<lambda>h. \<lparr>bri_State = g_State (o_RegistryInfo (h_OrchestrationInfo h)),
        bri_Port = g_Port (o_RegistryInfo (h_OrchestrationInfo h))\<rparr>) n d)"

definition SetHostRuntime :: "string \<Rightarrow> RuntimeInfo \<Rightarrow> data \<Rightarrow> data result" where
  "SetHostRuntime hostName info d =
     wrap_error (''Failed to update runtime info for host '' @ hostName)
       (update_host (\<lambda>h. h\<lparr>h_RuntimeInfo := \<lparr>r_Engine = rt_Engine info, r_Version = rt_Version info\<rparr>\<rparr>) hostName d)"

definition GetHostRuntime :: "data \<Rightarrow> string \<Rightarrow> RuntimeInfo" where
  "GetHostRuntime d n = ok_or \<lparr>rt_Engine = [], rt_Version = []\<rparr>
     (get_host (\<lambda>h. \<lparr>rt_Engine = r_Engine (h_RuntimeInfo h), rt_Version = r_Version (h_RuntimeInfo h)\<rparr>) n d)"

definition SetHostAgentOwnership :: "string \<Rightarrow> AgentOwnership \<Rightarrow> data \<Rightarrow> data result" where
  "SetHostAgentOwnership hostName ow d =
     wrap_error (''Failed to update agent ownership for host '' @ hostName)
       (update_host (\<lambda>h. h\<lparr>h_AgentOwnership := \<lparr>a_PID = ao_PID ow, a_Address = ao_Address ow,
          a_Binary = ao_Binary ow, a_Manager = ao_Manager ow\<rparr>\<rparr>) hostName d)"

definition zero_AgentOwnership :: AgentOwnership where
  "zero_AgentOwnership = \<lparr>ao_PID = 0, ao_Address = [], ao_Binary = [], ao_Manager = []\<rparr>"

definition GetHostAgentOwnership :: "data \<Rightarrow> string \<Rightarrow> AgentOwnership" where
  "GetHostAgentOwnership d n = ok_or zero_AgentOwnership
     (get_host (\<lambda>h. \<lparr>ao_PID = a_PID (h_AgentOwnership h), ao_Address = a_Address (h_AgentOwnership h),
        ao_Binary = a_Binary (h_AgentOwnership h), ao_Manager = a_Manager (h_AgentOwnership h)\<rparr>) n d)"

definition ClearHostAgentOwnership :: "string \<Rightarrow> data \<Rightarrow> data result" where
  "ClearHostAgentOwnership hostName = SetHostAgentOwnership hostName zero_AgentOwnership"

definition zero_Host :: Host where
  "zero_Host = \<lparr>bh_Name = [], bh_Username = [], bh_Password = [],
     bh_KeyPair = \<lparr>kp_PathToPub = [], kp_PathToPrv = []\<rparr>, bh_Port = 0, bh_IsDefault = False\<rparr>"

definition GetHost :: "data \<Rightarrow> string \<Rightarrow> Host result" where
  "GetHost d hostName = get_host (\<lambda>h. zero_Host\<lparr>bh_Name := h_Name h, bh_Username := h_Username h,
     bh_KeyPair := \<lparr>kp_PathToPub = h_PathToPubKey h, kp_PathToPrv = h_PathToKey h\<rparr>\<rparr>) hostName d"

definition zero_HostInfo :: HostInfo where
  "zero_HostInfo = \<lparr>hi_Name = [], hi_Username = [], hi_PublicKeyPath = [], hi_PrivateKeyPath = [],
     hi_Projects = [], hi_InUse = False, hi_IsDefault = False,
     hi_Orchestration = \<lparr>boi_Name = [], boi_RegistryInfo = \<lparr>bri_State = [], bri_Port = 0\<rparr>, boi_State = []\<rparr>\<rparr>"

definition GetHostInfo :: "data \<Rightarrow> string \<Rightarrow> HostInfo" where
  "GetHostInfo d hostName = ok_or zero_HostInfo (get_host (\<lambda>h.
     \<lparr>hi_Name = h_Name h, hi_Username = h_Username h, hi_PublicKeyPath = h_PathToPubKey h,
      hi_PrivateKeyPath = h_PathToKey h, hi_Projects = h_Projects h, hi_InUse = h_InUse h,
      hi_IsDefault = h_IsDefault h,
      hi_Orchestration = \<lparr>boi_Name = o_Name (h_OrchestrationInfo h),
        boi_RegistryInfo = \<lparr>bri_State = g_State (o_RegistryInfo (h_OrchestrationInfo h)),
          bri_Port = g_Port (o_RegistryInfo (h_OrchestrationInfo h))\<rparr>,
        boi_State = o_State (h_OrchestrationInfo h)\<rparr>\<rparr>) hostName d)"

definition GetHostFromProjectName :: "data \<Rightarrow> string \<Rightarrow> Host" where
  "GetHostFromProjectName d projectName =
     (let projectHost = ProjectHostName d projectName
      in zero_Host\<lparr>bh_Name := projectHost,
           bh_KeyPair := \<lparr>kp_PathToPub = GetHostPubKey d projectHost, kp_PathToPrv = GetHostKey d projectHost\<rparr>,
           bh_Username := GetHostUsername d projectHost\<rparr>)"

text \<open>
  The only operation that is several locked steps: it stops at the first project that
  is gone, with the earlier ones already detached, so the state is returned on both
  branches.
\<close>

fun detach_projects :: "string \<Rightarrow> string list \<Rightarrow> data \<Rightarrow> data \<times> err option" where
  "detach_projects hostName [] d = (RemoveHostFromHostList hostName d, None)"
| "detach_projects hostName (n # ns) d =
     (case SetProjectHost n [] d of
        Inl e \<Rightarrow> (d, Some (AppendError (''Failed to remove host '' @ hostName @ '' from db'') e))
      | Inr d' \<Rightarrow> detach_projects hostName ns d')"

definition RemoveHostFromConfig :: "string \<Rightarrow> data \<Rightarrow> data \<times> err option" where
  "RemoveHostFromConfig hostName d = detach_projects hostName (ProjectNamesFromHost d hostName) d"

section \<open>The store as a transition system\<close>

datatype db_op =
    OpAddProjectUsingConfDir string string
  | OpAddProjectUsingFlavour string string string
  | OpRemoveProject string
  | OpDeleteProject string
  | OpRemoveHostAndContainers string
  | OpSetProjectHost string string
  | OpSetOrchestrationRequested string
  | OpSetProjectRegistryUsage string
  | OpSetProjectSshTunnelNeeded string
  | OpSetNasRequested string
  | OpSetOverrideImageTag string string
  | OpSetProjectSrcRepoInfo string string string bool
  | OpSetFlavourLocalConfDir string string
  | OpAddContainerInfo string Container
  | OpUpsertProjectContainer string Container
  | OpRemoveProjectContainers string "string list"
  | OpSetProject string
  | OpFlushContext
  | OpAddHost string string
  | OpRemoveHost string
  | OpSetHostToDefault string
  | OpUpdateHostKey Host
  | OpRemoveProjectFromHost string string
  | OpRegisterProjectInHost string string
  | OpSetOrcInfoName string string
  | OpSetOrcInfoStatus string ContainerStatus
  | OpSetOrcInfoRegistryStatus string ContainerStatus
  | OpSetOrcInfoRegPort string int
  | OpSetHostRuntime string RuntimeInfo
  | OpSetHostAgentOwnership string AgentOwnership
  | OpNormalize

fun db_run :: "db_op \<Rightarrow> data \<Rightarrow> data result" where
  "db_run (OpAddProjectUsingConfDir n c) d = AddProjectUsingConfDir n c d"
| "db_run (OpAddProjectUsingFlavour n f w) d = AddProjectUsingFlavour n f w d"
| "db_run (OpRemoveProject n) d = Ok (RemoveProject n d)"
| "db_run (OpDeleteProject n) d = bind_ok (DeleteProject n d) (\<lambda>r. Ok (snd r))"
| "db_run (OpRemoveHostAndContainers n) d = RemoveHostAndContainersFromProject n d"
| "db_run (OpSetProjectHost n h) d = SetProjectHost n h d"
| "db_run (OpSetOrchestrationRequested n) d = SetOrchestrationRequested n d"
| "db_run (OpSetProjectRegistryUsage n) d = SetProjectRegistryUsage n d"
| "db_run (OpSetProjectSshTunnelNeeded n) d = SetProjectSshTunnelNeeded n d"
| "db_run (OpSetNasRequested n) d = SetNasRequested n d"
| "db_run (OpSetOverrideImageTag n t) d = SetOverrideImageTag n t d"
| "db_run (OpSetProjectSrcRepoInfo n u r c) d = SetProjectSrcRepoInfo n u r c d"
| "db_run (OpSetFlavourLocalConfDir n c) d = SetFlavourLocalConfDir n c d"
| "db_run (OpAddContainerInfo n c) d = AddContainerInfo n c d"
| "db_run (OpUpsertProjectContainer n c) d = UpsertProjectContainer n c d"
| "db_run (OpRemoveProjectContainers n cs) d = RemoveProjectContainers n cs d"
| "db_run (OpSetProject n) d = SetProject n d"
| "db_run OpFlushContext d = Ok (FlushContext d)"
| "db_run (OpAddHost h u) d = Ok (AddHost h u d)"
| "db_run (OpRemoveHost h) d = Ok (RemoveHostFromHostList h d)"
| "db_run (OpSetHostToDefault h) d = Ok (SetHostToDefault h d)"
| "db_run (OpUpdateHostKey bh) d = UpdateHostKey bh d"
| "db_run (OpRemoveProjectFromHost h n) d = RemoveProjectFromHost h n d"
| "db_run (OpRegisterProjectInHost h n) d = RegisterProjectInHost h n d"
| "db_run (OpSetOrcInfoName h n) d = SetOrcInfoName h n d"
| "db_run (OpSetOrcInfoStatus h s) d = SetOrcInfoStatus h s d"
| "db_run (OpSetOrcInfoRegistryStatus h s) d = SetOrcInfoRegistryStatus h s d"
| "db_run (OpSetOrcInfoRegPort h p) d = SetOrcInfoRegPort h p d"
| "db_run (OpSetHostRuntime h r) d = SetHostRuntime h r d"
| "db_run (OpSetHostAgentOwnership h a) d = SetHostAgentOwnership h a d"
| "db_run OpNormalize d = Ok (normalize (raw_of d))"

text \<open>An operation that fails leaves the data as it was.\<close>

definition db_step :: "db_op \<Rightarrow> data \<Rightarrow> data" where
  "db_step op1 d = (case db_run op1 d of Inl _ \<Rightarrow> d | Inr d' \<Rightarrow> d')"

inductive db_reachable :: "data \<Rightarrow> bool" where
  empty: "db_reachable zero_data"
| loaded: "db_reachable (normalize r)"
| step: "db_reachable d \<Longrightarrow> db_reachable (db_step op1 d)"

section \<open>What every operation keeps\<close>

definition project_ok :: "prj \<Rightarrow> bool" where
  "project_ok p \<longleftrightarrow> p_Name p \<noteq> [] \<and> normalizeProjectName (p_Name p) = p_Name p \<and>
     normalizeHostName (p_Host p) = p_Host p \<and> distinct (map c_Name (p_Containers p)) \<and>
     (\<forall>c \<in> set (p_Containers p). TrimSpace (c_Name c) = c_Name c)"

definition host_ok :: "host \<Rightarrow> bool" where
  "host_ok h \<longleftrightarrow> h_Name h \<noteq> [] \<and> normalizeHostName (h_Name h) = h_Name h \<and>
     distinct (h_Projects h) \<and> (h_InUse h \<longleftrightarrow> h_Projects h \<noteq> [])"

definition one_default :: "host list \<Rightarrow> bool" where
  "one_default hs \<longleftrightarrow> (\<exists>n. \<forall>h \<in> set hs. h_IsDefault h \<longrightarrow> h_Name h = n)"

definition projects_ok :: "prj list \<Rightarrow> bool" where
  "projects_ok ps \<longleftrightarrow> distinct (map p_Name ps) \<and> (\<forall>p \<in> set ps. project_ok p)"

definition hosts_ok :: "host list \<Rightarrow> bool" where
  "hosts_ok hs \<longleftrightarrow> distinct (map h_Name hs) \<and> (\<forall>h \<in> set hs. host_ok h) \<and> one_default hs"

definition db_ok :: "data \<Rightarrow> bool" where
  "db_ok d \<longleftrightarrow> projects_ok (d_Projects d) \<and> hosts_ok (d_Hosts d)"

lemma wf_project_ok: "wf_project p \<Longrightarrow> project_ok p"
  by (auto simp: wf_project_def project_ok_def wf_containers_def wf_container_def norm_container_fix)

lemma wf_hosts_ok: "wf_hosts ps hs \<Longrightarrow> hosts_ok hs"
proof -
  assume wf: "wf_hosts ps hs"
  have "one_default hs"
  proof (cases "\<exists>g \<in> set hs. h_IsDefault g")
    case True
    then obtain g where "g \<in> set hs" "h_IsDefault g" by blast
    with wf have "\<forall>h \<in> set hs. h_IsDefault h \<longrightarrow> h_Name h = h_Name g" by (auto simp: wf_hosts_def)
    then show ?thesis by (auto simp: one_default_def)
  qed (auto simp: one_default_def)
  with wf show ?thesis by (simp add: wf_hosts_def hosts_ok_def host_ok_def wf_host_def)
qed

lemma wf_data_ok: "wf_data d \<Longrightarrow> db_ok d"
  by (auto simp: wf_data_def db_ok_def projects_ok_def wf_projects_def intro: wf_project_ok wf_hosts_ok)

lemma zero_data_ok: "db_ok zero_data"
  by (simp add: db_ok_def projects_ok_def hosts_ok_def one_default_def zero_data_def)

text \<open>Names in the store are in normal form, so a lookup compares them as they are.\<close>

lemma update_projects_ok:
  assumes "projects_ok ps" "\<And>p. project_ok p \<Longrightarrow> project_ok (f p)" "\<And>p. p_Name (f p) = p_Name p"
  shows "projects_ok (update_first P f ps)"
proof -
  have "map p_Name (update_first P f ps) = map p_Name ps"
    by (rule update_first_map) (rule assms(3))
  moreover have "\<forall>p \<in> set (update_first P f ps). project_ok p"
    by (rule update_first_all) (use assms in \<open>auto simp: projects_ok_def\<close>)
  ultimately show ?thesis using assms(1) by (simp add: projects_ok_def)
qed

lemma update_first_default:
  assumes "one_default hs" "\<And>h. h_Name (f h) = h_Name h" "\<And>h. h_IsDefault (f h) = h_IsDefault h"
  shows "one_default (update_first P f hs)"
proof -
  from assms(1) obtain n where "\<forall>h \<in> set hs. h_IsDefault h \<longrightarrow> h_Name h = n" by (auto simp: one_default_def)
  then have "\<forall>h \<in> set (update_first P f hs). h_IsDefault h \<longrightarrow> h_Name h = n"
    by (rule update_first_all) (simp add: assms)
  then show ?thesis by (auto simp: one_default_def)
qed

lemma update_hosts_ok:
  assumes "hosts_ok hs" "\<And>h. host_ok h \<Longrightarrow> host_ok (f h)" "\<And>h. h_Name (f h) = h_Name h"
    "\<And>h. h_IsDefault (f h) = h_IsDefault h"
  shows "hosts_ok (update_first P f hs)"
proof -
  have "map h_Name (update_first P f hs) = map h_Name hs"
    by (rule update_first_map) (rule assms(3))
  moreover have "\<forall>h \<in> set (update_first P f hs). host_ok h"
    by (rule update_first_all) (use assms in \<open>auto simp: hosts_ok_def\<close>)
  moreover have "one_default (update_first P f hs)"
    by (rule update_first_default) (use assms in \<open>simp_all add: hosts_ok_def\<close>)
  ultimately show ?thesis using assms(1) by (simp add: hosts_ok_def)
qed

lemma update_project_ok:
  assumes "update_project f n d = Inr d'" "db_ok d" "\<And>p. project_ok p \<Longrightarrow> project_ok (f p)"
    "\<And>p. p_Name (f p) = p_Name p"
  shows "db_ok d'"
  using assms(1,2) update_projects_ok [OF _ assms(3,4)]
  by (cases "getProject d n") (auto simp: update_project_def db_ok_def)

lemma update_host_ok:
  assumes "update_host f n d = Inr d'" "db_ok d" "\<And>h. host_ok h \<Longrightarrow> host_ok (f h)"
    "\<And>h. h_Name (f h) = h_Name h" "\<And>h. h_IsDefault (f h) = h_IsDefault h"
  shows "db_ok d'"
  using assms(1,2) update_hosts_ok [OF _ assms(3-5)]
  by (cases "getHost d n") (auto simp: update_host_def db_ok_def)

lemma project_setter_ok:
  assumes "project_setter f n d = Inr d'" "db_ok d" "\<And>p. project_ok p \<Longrightarrow> project_ok (f p)"
    "\<And>p. p_Name (f p) = p_Name p"
  shows "db_ok d'"
  using update_project_ok [of f n d d'] assms by (simp add: project_setter_def)

lemma getProject_Inl: "getProject d n = Inl e \<Longrightarrow> p \<in> set (d_Projects d) \<Longrightarrow>
    normalizeProjectName (p_Name p) \<noteq> normalizeProjectName n"
  by (auto simp: getProject_def find_project_def find_None_set split: option.splits)

lemma getProject_Inr: "getProject d n = Inr p \<Longrightarrow> p \<in> set (d_Projects d) \<and>
    normalizeProjectName (p_Name p) = normalizeProjectName n"
  by (auto simp: getProject_def find_project_def split: option.splits dest: find_Some_set)

lemma add_project_row_ok:
  assumes "add_project_row row d = Inr d'" "db_ok d" "p_Name row \<noteq> [] \<Longrightarrow> project_ok row"
  shows "db_ok d'"
proof -
  from assms(1) obtain e where new: "p_Name row \<noteq> []" "getProject d (p_Name row) = Inl e"
    and d': "d' = d\<lparr>d_Projects := d_Projects d @ [row]\<rparr>"
    by (auto simp: add_project_row_def split: if_splits sum.splits)
  have "p_Name row \<notin> p_Name ` set (d_Projects d)"
    using getProject_Inl [OF new(2)] by (metis imageE)
  then show ?thesis
    using assms(2,3) new(1) by (simp add: d' db_ok_def projects_ok_def)
qed

lemma removeProjectFromList_ok: "db_ok d \<Longrightarrow> db_ok (removeProjectFromList n d)"
  by (auto simp: removeProjectFromList_def db_ok_def projects_ok_def distinct_map_filter)

lemma RemoveHostFromHostList_ok: "db_ok d \<Longrightarrow> db_ok (RemoveHostFromHostList n d)"
  by (auto simp: RemoveHostFromHostList_def db_ok_def hosts_ok_def one_default_def distinct_map_filter)

lemma replace_or_append_names:
  "\<forall>c \<in> set cs. TrimSpace (c_Name c) = c_Name c \<Longrightarrow>
   map c_Name (replace_or_append u cs) =
     (if c_Name u \<in> set (map c_Name cs) then map c_Name cs else map c_Name cs @ [c_Name u])"
  by (induction cs) auto

lemma replace_or_append_set: "set (replace_or_append u cs) \<subseteq> insert u (set cs)"
  by (induction cs) auto

lemma toContainerInfo_name [simp]: "TrimSpace (c_Name (toContainerInfo info)) = c_Name (toContainerInfo info)"
  by (simp add: toContainerInfo_def)

lemma upsert_project_ok:
  assumes "project_ok p"
  shows "project_ok (p\<lparr>p_Containers := replace_or_append (toContainerInfo info) (p_Containers p)\<rparr>)"
  using assms replace_or_append_names [of "p_Containers p" "toContainerInfo info"]
    replace_or_append_set [of "toContainerInfo info" "p_Containers p"]
  by (auto simp: project_ok_def)

lemma AddHost_ok: "db_ok d \<Longrightarrow> db_ok (AddHost n u d)"
proof -
  assume ok: "db_ok d"
  let ?n = "normalizeHostName n"
  let ?same = "\<lambda>h. normalizeHostName (h_Name h) = ?n"
  have row: "?n \<noteq> [] \<Longrightarrow> host_ok (zero_host\<lparr>h_Name := ?n, h_Username := u\<rparr>)"
    by (simp add: host_ok_def zero_host_def)
  consider "?n = []" | "?n \<noteq> []" "find ?same (d_Hosts d) = None"
    | "?n \<noteq> []" "find ?same (d_Hosts d) \<noteq> None" by blast
  then show ?thesis
  proof cases
    case 1
    with ok show ?thesis by (simp add: AddHost_def)
  next
    case 2
    then have "?n \<notin> h_Name ` set (d_Hosts d)"
      using ok by (auto simp: find_None_set db_ok_def hosts_ok_def host_ok_def)
    with 2 ok row have "hosts_ok (d_Hosts d @ [zero_host\<lparr>h_Name := ?n, h_Username := u\<rparr>])"
      by (auto simp: db_ok_def hosts_ok_def one_default_def) (auto simp: zero_host_def)
    with 2 ok show ?thesis by (simp add: AddHost_def Let_def db_ok_def)
  next
    case 3
    let ?f = "\<lambda>h. h\<lparr>h_Username := (if u \<noteq> [] then u else h_Username h)\<rparr>"
    let ?g = "\<lambda>h. h\<lparr>h_Name := ?n, h_Username := (if u \<noteq> [] then u else h_Username h)\<rparr>"
    have same: "update_first ?same ?g hs = update_first ?same ?f hs" if "\<forall>h \<in> set hs. normalizeHostName (h_Name h) = h_Name h" for hs
      using that by (induction hs) auto
    have eq: "update_first ?same ?g (d_Hosts d) = update_first ?same ?f (d_Hosts d)"
      by (rule same) (use ok in \<open>simp add: db_ok_def hosts_ok_def host_ok_def\<close>)
    have "hosts_ok (update_first ?same ?f (d_Hosts d))"
      by (rule update_hosts_ok) (use ok in \<open>auto simp: db_ok_def host_ok_def\<close>)
    with 3 ok show ?thesis
      by (auto simp: AddHost_def Let_def db_ok_def eq split: option.splits)
  qed
qed

lemma SetHostToDefault_ok: "db_ok d \<Longrightarrow> db_ok (SetHostToDefault n d)"
proof -
  assume ok: "db_ok d"
  let ?f = "\<lambda>h. h\<lparr>h_IsDefault := (normalizeHostName (h_Name h) = normalizeHostName n)\<rparr>"
  have "host_ok (?f h)" if "host_ok h" for h using that by (simp add: host_ok_def)
  moreover have "h_Name (?f h) = normalizeHostName n" if "h_IsDefault (?f h)" "host_ok h" for h
    using that by (simp add: host_ok_def)
  ultimately have "hosts_ok (map ?f (d_Hosts d))"
    using ok by (auto simp: db_ok_def hosts_ok_def one_default_def comp_def)
  with ok show ?thesis by (simp add: SetHostToDefault_def Let_def db_ok_def)
qed

lemmas project_setters = RemoveHostAndContainersFromProject_def SetProjectHost_def
  SetOrchestrationRequested_def SetProjectRegistryUsage_def SetProjectSshTunnelNeeded_def
  SetNasRequested_def SetOverrideImageTag_def SetProjectSrcRepoInfo_def AddContainerInfo_def

lemmas host_setters = UpdateHostKey_def SetOrcInfoName_def SetOrcInfoStatus_def
  SetOrcInfoRegistryStatus_def SetOrcInfoRegPort_def SetHostRuntime_def SetHostAgentOwnership_def

lemma host_ok_upd [simp]:
  "host_ok (h\<lparr>h_UseKey := b\<rparr>) = host_ok h" "host_ok (h\<lparr>h_PathToKey := s\<rparr>) = host_ok h"
  "host_ok (h\<lparr>h_PathToPubKey := s\<rparr>) = host_ok h" "host_ok (h\<lparr>h_OrchestrationInfo := oi\<rparr>) = host_ok h"
  "host_ok (h\<lparr>h_RuntimeInfo := r\<rparr>) = host_ok h" "host_ok (h\<lparr>h_AgentOwnership := a\<rparr>) = host_ok h"
  by (simp_all add: host_ok_def)

lemma add_container_ok:
  "project_ok p \<Longrightarrow> project_ok (let updated = toContainerInfo info
     in if \<exists>c \<in> set (p_Containers p). TrimSpace (c_Name c) = c_Name updated then p
        else p\<lparr>p_Containers := p_Containers p @ [updated]\<rparr>)"
  by (auto simp: project_ok_def Let_def)

lemma RemoveProjectContainers_ok:
  "RemoveProjectContainers n cs d = Inr d' \<Longrightarrow> db_ok d \<Longrightarrow> db_ok d'"
  unfolding RemoveProjectContainers_def wrap_error_ok
  by (erule update_project_ok) (auto simp: project_ok_def distinct_map_filter)

lemma RegisterProjectInHost_ok: "RegisterProjectInHost h n d = Inr d' \<Longrightarrow> db_ok d \<Longrightarrow> db_ok d'"
proof -
  assume r: "RegisterProjectInHost h n d = Inr d'" and ok: "db_ok d"
  from r have "update_host (\<lambda>h. h\<lparr>h_InUse := True, h_Projects :=
      AddElementToSliceIfNotExists (h_Projects h) (normalizeProjectName n)\<rparr>) h d = Inr d'"
    by (cases "getProject d (normalizeProjectName n)") (simp_all add: RegisterProjectInHost_def Let_def)
  from this ok show ?thesis
    by (rule update_host_ok) (auto simp: host_ok_def)
qed

lemma RemoveProjectFromHost_ok: "RemoveProjectFromHost h n d = Inr d' \<Longrightarrow> db_ok d \<Longrightarrow> db_ok d'"
  unfolding RemoveProjectFromHost_def wrap_error_ok
  by (erule update_host_ok) (auto simp: host_ok_def Let_def)

lemma db_run_ok: "db_run op1 d = Inr d' \<Longrightarrow> db_ok d \<Longrightarrow> db_ok d'"
proof (cases op1)
  case (OpAddContainerInfo n c)
  assume r: "db_run op1 d = Inr d'" and ok: "db_ok d"
  with OpAddContainerInfo show ?thesis
    by (auto simp: AddContainerInfo_def Let_def elim!: project_setter_ok)
      (auto simp: project_ok_def)
next
  case (OpUpsertProjectContainer n c)
  assume r: "db_run op1 d = Inr d'" and ok: "db_ok d"
  with OpUpsertProjectContainer show ?thesis
    by (auto simp: UpsertProjectContainer_def elim!: update_project_ok intro: upsert_project_ok)
next
  case (OpDeleteProject n)
  assume "db_run op1 d = Inr d'" "db_ok d"
  with OpDeleteProject show ?thesis
    by (cases "getProject d n") (auto simp: DeleteProject_def intro: removeProjectFromList_ok)
next
  case (OpSetProject n)
  assume "db_run op1 d = Inr d'" "db_ok d"
  with OpSetProject show ?thesis
    by (cases "getProject d n") (auto simp: SetProject_def db_ok_def)
qed (auto simp: AddProjectUsingConfDir_def AddProjectUsingFlavour_def RemoveProject_def FlushContext_def
    project_setters host_setters SetFlavourLocalConfDir_def
    intro: removeProjectFromList_ok RemoveHostFromHostList_ok AddHost_ok SetHostToDefault_ok
      RemoveProjectContainers_ok RegisterProjectInHost_ok RemoveProjectFromHost_ok wf_data_ok normalize_wf
    elim!: project_setter_ok add_project_row_ok update_host_ok update_project_ok,
    auto simp: project_ok_def zero_project_def db_ok_def)

lemma db_step_ok: "db_ok d \<Longrightarrow> db_ok (db_step op1 d)"
  using db_run_ok [of op1 d] by (auto simp: db_step_def split: sum.splits)

lemma db_reachable_ok: "db_reachable d \<Longrightarrow> db_ok d"
  by (induction rule: db_reachable.induct) (auto intro: zero_data_ok wf_data_ok normalize_wf db_step_ok)

end
