(* ===== verification/DbProps.thy ===== *)
theory DbProps
  imports Db
begin

text \<open>
  What the store promises: an invariant over every sequence of operations, the abstract
  view of the project rows as a map from normalised name to row that each operation
  refines, reads after writes, host removal and its effect on the next save, and
  saving and loading through the JSON codec (\<open>instance.go\<close>).
\<close>

section \<open>The project rows as a map\<close>

definition project_map :: "data \<Rightarrow> string \<rightharpoonup> prj" where
  "project_map d k = (if normalizeProjectName k = k then find_project k (d_Projects d) else None)"

text \<open>The abstract store: an operation changes the row under the normalised name, or nothing.\<close>

definition alter :: "string \<Rightarrow> (prj \<Rightarrow> prj) \<Rightarrow> (string \<rightharpoonup> prj) \<Rightarrow> string \<rightharpoonup> prj" where
  "alter n f m = m(normalizeProjectName n := map_option f (m (normalizeProjectName n)))"

definition register :: "prj \<Rightarrow> (string \<rightharpoonup> prj) \<Rightarrow> string \<rightharpoonup> prj" where
  "register row m = (if p_Name row = [] \<or> m (p_Name row) \<noteq> None then m else m(p_Name row \<mapsto> row))"

fun spec_op :: "db_op \<Rightarrow> (string \<rightharpoonup> prj) \<Rightarrow> string \<rightharpoonup> prj" where
  "spec_op (OpAddProjectUsingConfDir n c) m =
     register (zero_project\<lparr>p_Name := normalizeProjectName n, p_ConfDir := c\<rparr>) m"
| "spec_op (OpAddProjectUsingFlavour n f w) m =
     register (zero_project\<lparr>p_Name := normalizeProjectName n,
       p_Flavour := zero_flavourInfo\<lparr>f_Name := f, f_OverrideDir := w\<rparr>\<rparr>) m"
| "spec_op (OpRemoveProject n) m = m(normalizeProjectName n := None)"
| "spec_op (OpDeleteProject n) m = m(normalizeProjectName n := None)"
| "spec_op (OpRemoveHostAndContainers n) m = alter n (\<lambda>p. p\<lparr>p_Containers := [], p_Host := []\<rparr>) m"
| "spec_op (OpSetProjectHost n h) m = alter n (\<lambda>p. p\<lparr>p_Host := normalizeHostName h\<rparr>) m"
| "spec_op (OpSetOrchestrationRequested n) m =
     alter n (\<lambda>p. p\<lparr>p_OrchestrationUsage := (p_OrchestrationUsage p)\<lparr>u_ClusterUse := True\<rparr>\<rparr>) m"
| "spec_op (OpSetProjectRegistryUsage n) m =
     alter n (\<lambda>p. p\<lparr>p_OrchestrationUsage := (p_OrchestrationUsage p)\<lparr>u_RegistryUse := True\<rparr>\<rparr>) m"
| "spec_op (OpSetProjectSshTunnelNeeded n) m = alter n (\<lambda>p. p\<lparr>p_UseSshTunnel := True\<rparr>) m"
| "spec_op (OpSetNasRequested n) m = alter n (\<lambda>p. p\<lparr>p_NasRequested := True\<rparr>) m"
| "spec_op (OpSetOverrideImageTag n t) m = alter n (\<lambda>p. p\<lparr>p_OverrideImageTag := t\<rparr>) m"
| "spec_op (OpSetProjectSrcRepoInfo n u r c) m =
     alter n (\<lambda>p. p\<lparr>p_SrcRepo := (p_SrcRepo p)\<lparr>s_URI := u, s_Ref := r, s_ToClone := c\<rparr>\<rparr>) m"
| "spec_op (OpSetFlavourLocalConfDir n c) m =
     alter n (\<lambda>p. p\<lparr>p_Flavour := (p_Flavour p)\<lparr>f_LocalConfDir := c\<rparr>\<rparr>) m"
| "spec_op (OpAddContainerInfo n c) m = alter n (\<lambda>p.
     if c_Name (toContainerInfo c) \<in> (\<lambda>x. TrimSpace (c_Name x)) ` set (p_Containers p) then p
     else p\<lparr>p_Containers := p_Containers p @ [toContainerInfo c]\<rparr>) m"
| "spec_op (OpUpsertProjectContainer n c) m =
     alter n (\<lambda>p. p\<lparr>p_Containers := replace_or_append (toContainerInfo c) (p_Containers p)\<rparr>) m"
| "spec_op (OpRemoveProjectContainers n cs) m = alter n (\<lambda>p. p\<lparr>p_Containers :=
     filter (\<lambda>x. TrimSpace (c_Name x) \<notin> TrimSpace ` set cs) (p_Containers p)\<rparr>) m"
| "spec_op _ m = m"

lemma find_project_lookup: "find_project n ps = projects_tab.lookup n ps"
  by (simp add: find_project_def projects_tab.lookup_def projects_tab.matches_def [abs_def])

lemma project_map_cong: "d_Projects d' = d_Projects d \<Longrightarrow> project_map d' = project_map d"
  by (simp add: project_map_def fun_eq_iff)

lemma project_map_norm: "project_map d (normalizeProjectName n) = find_project n (d_Projects d)"
  by (simp add: project_map_def find_project_lookup)

definition ran_update :: "string \<Rightarrow> (prj \<Rightarrow> prj) \<Rightarrow> data \<Rightarrow> data" where
  "ran_update n f d = (case update_project f n d of Inl _ \<Rightarrow> d | Inr d' \<Rightarrow> d')"

lemma ran_update_map:
  assumes "\<And>p. p_Name (f p) = p_Name p"
  shows "project_map (ran_update n f d) = alter n f (project_map d)"
proof (cases "find_project n (d_Projects d)")
  case None
  then have "ran_update n f d = d"
    by (simp add: ran_update_def update_project_def getProject_def)
  with None show ?thesis by (auto simp: alter_def project_map_norm)
next
  case (Some p)
  then have "d_Projects (ran_update n f d) = update_first (projects_tab.matches n) f (d_Projects d)"
    by (simp add: ran_update_def update_project_def getProject_def projects_tab.matches_def [abs_def])
  then show ?thesis
    using projects_tab.lookup_update [of f _ n "d_Projects d"]
    by (auto simp: fun_eq_iff project_map_def find_project_lookup alter_def assms)
qed

lemma db_step_update:
  "db_run op1 d = wrap_error e (update_project f n d) \<Longrightarrow> db_step op1 d = ran_update n f d"
  by (cases "update_project f n d") (simp_all add: db_step_def ran_update_def)

lemma remove_map: "project_map (removeProjectFromList n d) = (project_map d)(normalizeProjectName n := None)"
  using projects_tab.lookup_remove [of _ n "d_Projects d"]
  by (auto simp: fun_eq_iff project_map_def find_project_lookup removeProjectFromList_def projects_tab.matches_def)

lemma add_row_map:
  assumes "normalizeProjectName (p_Name row) = p_Name row" "db_run op1 d = add_project_row row d"
  shows "project_map (db_step op1 d) = register row (project_map d)"
proof (cases "p_Name row = [] \<or> find_project (p_Name row) (d_Projects d) \<noteq> None")
  case True
  then have "db_step op1 d = d"
    by (auto simp: db_step_def assms(2) add_project_row_def getProject_def)
  with True show ?thesis
    using project_map_norm [of d "p_Name row"] by (auto simp: register_def assms(1))
next
  case False
  then have "d_Projects (db_step op1 d) = d_Projects d @ [row]"
    by (simp add: db_step_def assms(2) add_project_row_def getProject_def)
  moreover from False have "register row (project_map d) = (project_map d)(p_Name row \<mapsto> row)"
    using project_map_norm [of d "p_Name row"] by (simp add: register_def assms(1))
  ultimately show ?thesis
    using projects_tab.lookup_snoc [of "p_Name row" "d_Projects d" row] False assms(1)
    by (auto simp: fun_eq_iff project_map_def find_project_lookup)
qed

lemma update_host_projects: "update_host f h d = Inr d' \<Longrightarrow> d_Projects d' = d_Projects d"
  by (cases "getHost d h") (auto simp: update_host_def)

lemma host_op_projects:
  "db_run op1 d = wrap_error e (update_host f h d) \<Longrightarrow> project_map (db_step op1 d) = project_map d"
  by (cases "update_host f h d") (auto simp: db_step_def intro: project_map_cong update_host_projects)

lemma setter_map:
  assumes "db_run op1 d = wrap_error e (update_project f n d)" "\<And>p. p_Name (f p) = p_Name p"
  shows "project_map (db_step op1 d) = alter n f (project_map d)"
  using ran_update_map [OF assms(2)] db_step_update [OF assms(1)] by simp

lemma delete_map: "project_map (db_step (OpDeleteProject n) d) = (project_map d)(normalizeProjectName n := None)"
proof (cases "getProject d n")
  case (Inl e)
  then have "find_project n (d_Projects d) = None" by (simp add: getProject_def split: option.splits)
  with Inl show ?thesis
    using project_map_norm [of d n] by (auto simp: db_step_def DeleteProject_def fun_upd_idem)
next
  case (Inr p)
  then show ?thesis by (simp add: db_step_def DeleteProject_def remove_map)
qed

lemma register_in_host_map: "project_map (db_step (OpRegisterProjectInHost h n) d) = project_map d"
proof (cases "getProject d (normalizeProjectName n)")
  case (Inr p)
  then have "db_run (OpRegisterProjectInHost h n) d =
      wrap_error (''Failed to add register project in host: '' @ h)
        (update_host (\<lambda>x. x\<lparr>h_InUse := True, h_Projects :=
          AddElementToSliceIfNotExists (h_Projects x) (normalizeProjectName n)\<rparr>) h d)"
    by (simp only: db_run.simps RegisterProjectInHost_def Let_def wrap_error_simps bind_ok_simps)
  then show ?thesis by (rule host_op_projects)
qed (simp add: db_step_def RegisterProjectInHost_def Let_def)

lemma db_step_map:
  assumes "op1 \<noteq> OpNormalize"
  shows "project_map (db_step op1 d) = spec_op op1 (project_map d)"
proof (cases op1)
  case (OpAddContainerInfo n c)
  show ?thesis
    unfolding OpAddContainerInfo spec_op.simps
    by (rule setter_map, unfold db_run.simps AddContainerInfo_def project_setter_def)
      (rule arg_cong2 [where f = wrap_error, OF refl], rule arg_cong [where f = "\<lambda>f. update_project f _ _"],
        auto simp: Let_def fun_eq_iff, metis imageI)
next
  case (OpRemoveProjectContainers n cs)
  show ?thesis
    unfolding OpRemoveProjectContainers spec_op.simps
    by (rule setter_map, unfold db_run.simps RemoveProjectContainers_def) simp_all
next
  case (OpSetProject n)
  then show ?thesis
    by (cases "getProject d n") (auto simp: db_step_def SetProject_def intro: project_map_cong)
next
  case (OpAddHost h u)
  then show ?thesis
    by (auto simp: db_step_def AddHost_def Let_def intro!: project_map_cong split: option.splits)
next
  case (OpRegisterProjectInHost h n)
  then show ?thesis by (simp add: register_in_host_map)
next
  case (OpDeleteProject n)
  then show ?thesis by (simp add: delete_map)
next
  case (OpRemoveProject n)
  then show ?thesis by (simp add: db_step_def RemoveProject_def remove_map)
next
  case OpNormalize
  with assms show ?thesis by simp
next
  case (OpAddProjectUsingConfDir n c)
  show ?thesis unfolding OpAddProjectUsingConfDir spec_op.simps
    by (rule add_row_map) (simp_all add: AddProjectUsingConfDir_def)
next
  case (OpAddProjectUsingFlavour n f w)
  show ?thesis unfolding OpAddProjectUsingFlavour spec_op.simps
    by (rule add_row_map) (simp_all add: AddProjectUsingFlavour_def)
next
  case (OpRemoveHost h)
  show ?thesis unfolding OpRemoveHost spec_op.simps
    by (rule project_map_cong) (simp add: db_step_def RemoveHostFromHostList_def)
next
  case (OpSetHostToDefault h)
  show ?thesis unfolding OpSetHostToDefault spec_op.simps
    by (rule project_map_cong) (simp add: db_step_def SetHostToDefault_def Let_def)
next
  case OpFlushContext
  show ?thesis unfolding OpFlushContext spec_op.simps
    by (rule project_map_cong) (simp add: db_step_def FlushContext_def)
qed (simp_all only: spec_op.simps,
     (rule setter_map,
       simp add: project_setters project_setter_def SetFlavourLocalConfDir_def UpsertProjectContainer_def, simp
     | rule host_op_projects, simp add: host_setters RemoveProjectFromHost_def)+)

text \<open>
  C6. Every state that the operations reach from an empty or a loaded database keeps the
  store's invariant: project names and host names are trimmed (host names lower case too),
  non-empty and unique, container names are trimmed and unique within a project, a host is
  in use exactly when its project list is non-empty, the list has no duplicates, and at
  most one host is the default.
\<close>

theorem db_reachable_invariant:
  assumes "db_reachable d"
  shows "distinct (map p_Name (d_Projects d)) \<and> distinct (map h_Name (d_Hosts d))
    \<and> (\<forall>p \<in> set (d_Projects d). p_Name p \<noteq> [] \<and> TrimSpace (p_Name p) = p_Name p \<and>
         distinct (map c_Name (p_Containers p)))
    \<and> (\<forall>h \<in> set (d_Hosts d). h_Name h \<noteq> [] \<and> ToLower (TrimSpace (h_Name h)) = h_Name h \<and>
         distinct (h_Projects h) \<and> (h_InUse h \<longleftrightarrow> h_Projects h \<noteq> []))
    \<and> (\<forall>h \<in> set (d_Hosts d). \<forall>g \<in> set (d_Hosts d). h_IsDefault h \<and> h_IsDefault g \<longrightarrow> h = g)"
proof -
  from assms have ok: "db_ok d" by (rule db_reachable_ok)
  have "h = g" if "h \<in> set (d_Hosts d)" "g \<in> set (d_Hosts d)" "h_IsDefault h" "h_IsDefault g" for h g
    using ok that by (auto simp: db_ok_def hosts_ok_def one_default_def distinct_map inj_on_def)
  with ok show ?thesis
    by (auto simp: db_ok_def projects_ok_def hosts_ok_def project_ok_def host_ok_def
        normalizeProjectName_def normalizeHostName_def)
qed

definition sample_db :: data where
  "sample_db = db_step (OpRegisterProjectInHost ''box'' ''web'')
     (db_step (OpAddHost '' Box '' ''me'') (db_step (OpAddProjectUsingConfDir '' web '' ''/c'') zero_data))"

theorem db_reachable_invariant_witness:
  "distinct (map p_Name (d_Projects sample_db)) \<and> map h_Name (d_Hosts sample_db) = [''box'']"
proof
  have "db_reachable sample_db" unfolding sample_db_def by (intro db_reachable.intros)
  from db_reachable_invariant [OF this] show "distinct (map p_Name (d_Projects sample_db))" by blast
  show "map h_Name (d_Hosts sample_db) = [''box'']" by code_simp
qed

text \<open>
  C5. The list of project rows implements a map from project name to project: whatever the
  data is, each operation other than the normalising pass changes the map exactly as its
  specification says, a failing operation not at all, and operations on hosts and on the
  current project never touch it.
\<close>

theorem db_refines_project_map:
  assumes "op1 \<noteq> OpNormalize"
  shows "project_map (db_step op1 d) = spec_op op1 (project_map d)"
  using assms by (rule db_step_map)

theorem db_refines_project_map_witness:
  "project_map (db_step (OpRemoveProject '' web '') sample_db) = (project_map sample_db)(''web'' := None)"
proof -
  have "normalizeProjectName '' web '' = ''web''" by code_simp
  with db_refines_project_map [of "OpRemoveProject '' web ''" sample_db] show ?thesis by simp
qed

section \<open>Reading what was written\<close>

lemma update_project_find:
  assumes "update_project f n d = Inr d'" "\<And>p. p_Name (f p) = p_Name p"
  shows "find_project m (d_Projects d') =
    (if normalizeProjectName m = normalizeProjectName n then map_option f (find_project n (d_Projects d))
     else find_project m (d_Projects d))"
proof -
  have "d_Projects d' = update_first (projects_tab.matches n) f (d_Projects d)"
    using assms(1) by (cases "getProject d n") (auto simp: update_project_def projects_tab.matches_def [abs_def])
  then show ?thesis
    using projects_tab.lookup_update [of f m n "d_Projects d"] by (simp add: find_project_lookup assms(2))
qed

lemma find_replace_or_append:
  assumes "TrimSpace (c_Name u) = c_Name u"
  shows "find (\<lambda>c. TrimSpace (c_Name c) = TrimSpace m) (replace_or_append u cs) =
    (if TrimSpace m = c_Name u then Some u else find (\<lambda>c. TrimSpace (c_Name c) = TrimSpace m) cs)"
  using assms by (induction cs) auto

text \<open>
  After \<open>UpsertProjectContainer\<close> the SSH port, the remote user and the presence of that
  container read back as written, under any padding of the names, whether the row was new
  or replaced one; every other container of the project and every other project read as
  before.
\<close>

theorem upsert_container_reads_back:
  assumes "UpsertProjectContainer n info d = Inr d'"
  shows "ContainerSSHPort d' n (ct_Name info) = (case ct_Pmapping info ''22/tcp'' of Some p \<Rightarrow> p | None \<Rightarrow> 0)
    \<and> ProjectContainerRemoteUser d' n (ct_Name info) = TrimSpace (ct_RemoteUser info)
    \<and> (\<forall>m. TrimSpace m \<noteq> TrimSpace (ct_Name info) \<longrightarrow>
         ContainerSSHPort d' n m = ContainerSSHPort d n m \<and>
         ProjectContainerRemoteUser d' n m = ProjectContainerRemoteUser d n m)
    \<and> (\<forall>k. normalizeProjectName k \<noteq> normalizeProjectName n \<longrightarrow> getProject d' k = getProject d k)"
proof -
  let ?f = "\<lambda>p. p\<lparr>p_Containers := replace_or_append (toContainerInfo info) (p_Containers p)\<rparr>"
  from assms have up: "update_project ?f n d = Inr d'" by (simp add: UpsertProjectContainer_def)
  then obtain p where p: "find_project n (d_Projects d) = Some p"
    by (cases "find_project n (d_Projects d)") (simp_all add: update_project_def getProject_def)
  have found: "find_project k (d_Projects d') = (if normalizeProjectName k = normalizeProjectName n
      then Some (?f p) else find_project k (d_Projects d))" for k
    using update_project_find [OF up, of k] p by simp
  have row: "getProject d n = Inr p" "getProject d' n = Inr (?f p)"
    using p found by (simp_all add: getProject_def)
  have cont: "getProjectContainer (?f p) m = (if TrimSpace m = TrimSpace (ct_Name info)
      then Inr (toContainerInfo info) else getProjectContainer p m)" for m
    using find_replace_or_append [of "toContainerInfo info" m "p_Containers p"]
    by (simp add: getProjectContainer_def) (simp add: toContainerInfo_def)
  show ?thesis
    by (simp add: ContainerSSHPort_def ProjectContainerRemoteUser_def get_project_def row cont ok_or_def)
      (simp add: toContainerInfo_def KSSHPortMapping_def getProject_def found)
qed

theorem upsert_container_reads_back_witness:
  "\<exists>d'. UpsertProjectContainer ''web'' (zero_Container\<lparr>ct_Name := '' dev'', ct_Pmapping := [''22/tcp'' \<mapsto> 2222]\<rparr>)
      sample_db = Inr d' \<and> ContainerSSHPort d' ''web'' '' dev'' = 2222"
proof -
  let ?info = "zero_Container\<lparr>ct_Name := '' dev'', ct_Pmapping := [''22/tcp'' \<mapsto> 2222]\<rparr>"
  have "HasProject sample_db ''web''" by code_simp
  then obtain d' where d': "UpsertProjectContainer ''web'' ?info sample_db = Inr d'"
    by (auto simp: HasProject_def is_ok_iff UpsertProjectContainer_def update_project_def)
  from upsert_container_reads_back [OF d'] d' show ?thesis by auto
qed

section \<open>Removing hosts\<close>

lemma normalizeHosts_names:
  "h_Name ` set (normalizeHosts ps hs) =
     {n. n \<noteq> [] \<and> (\<exists>h. Some h \<in> set hs \<and> n = normalizeHostName (h_Name h))} \<union>
     {n. n \<noteq> [] \<and> (\<exists>p \<in> set ps. p_Host p = n)}" (is "_ = ?A \<union> ?B")
proof -
  let ?kept = "List.map_filter (keep_host (projectNameSet ps)) hs"
  have "h_Name ` set (normalizeHosts ps hs) = h_Name ` set (fst (host_rows ps hs))"
    by (simp add: normalizeHosts_rows image_image)
  also have "\<dots> = h_Name ` set ?kept \<union> h_Name ` set (List.map_filter projectHostRow ps)"
    unfolding host_rows_def by (simp add: attach_ix.fold_keys hosts_ix.fold_keys hosts_ix.fold_inv)
  also have "h_Name ` set ?kept = ?A"
  proof (intro set_eqI iffI)
    fix n assume "n \<in> h_Name ` set ?kept"
    then show "n \<in> ?A" by (auto simp: in_map_filter keep_host_Some norm_host_def) metis
  next
    fix n assume "n \<in> ?A"
    then obtain h where h: "Some h \<in> set hs" "n = h_Name (norm_host (projectNameSet ps) h)" "n \<noteq> []"
      by (auto simp: norm_host_def)
    then have "norm_host (projectNameSet ps) h \<in> set ?kept" by (auto simp: in_map_filter keep_host_Some)
    with h(2) show "n \<in> h_Name ` set ?kept" by simp
  qed
  also have "h_Name ` set (List.map_filter projectHostRow ps) = ?B"
  proof (intro set_eqI iffI)
    fix n assume "n \<in> h_Name ` set (List.map_filter projectHostRow ps)"
    then show "n \<in> ?B" by (auto simp: in_map_filter projectHostRow_def split: if_splits) blast
  next
    fix n assume "n \<in> ?B"
    then obtain p where p: "p \<in> set ps" "p_Host p = n" "n \<noteq> []" by blast
    then have "zero_host\<lparr>h_Name := n, h_Projects := [p_Name p]\<rparr> \<in> set (List.map_filter projectHostRow ps)"
      by (auto simp: in_map_filter projectHostRow_def intro!: bexI [of _ p])
    then show "n \<in> h_Name ` set (List.map_filter projectHostRow ps)" by force
  qed
  finally show ?thesis .
qed

lemma removed_host_rows:
  "normalizeHostName (h_Name g) = normalizeHostName h \<Longrightarrow> g \<notin> set (d_Hosts (RemoveHostFromHostList h d))"
  by (simp add: RemoveHostFromHostList_def)

text \<open>
  \<open>RemoveHostFromHostList\<close> does not detach projects: after the next save (which
  normalises) the removed host is back, as an empty row, exactly when a project still
  names it. So the delete command that only calls it does not delete a host in use.
\<close>

theorem removed_host_comes_back:
  assumes "wf_data d" "normalizeHostName h \<noteq> []"
  shows "normalizeHostName h \<in> set (ListHostNames (normalize (raw_of (RemoveHostFromHostList h d))))
    \<longleftrightarrow> (\<exists>p \<in> set (d_Projects d). p_Host p = normalizeHostName h)"
proof -
  let ?d = "RemoveHostFromHostList h d"
  have "normalizeProjects (map (\<lambda>p. Some (raw_project p)) (d_Projects d)) = d_Projects d"
    using assms(1) by (simp add: wf_data_def normalizeProjects_id)
  then have "d_Hosts (normalize (raw_of ?d)) = normalizeHosts (d_Projects d) (map Some (d_Hosts ?d))"
    by (simp add: normalize_def raw_of_def Let_def RemoveHostFromHostList_def)
  then have "set (ListHostNames (normalize (raw_of ?d))) =
      {n. n \<noteq> [] \<and> (\<exists>g. Some g \<in> set (map Some (d_Hosts ?d)) \<and> n = normalizeHostName (h_Name g))} \<union>
      {n. n \<noteq> [] \<and> (\<exists>p \<in> set (d_Projects d). p_Host p = n)}"
    by (simp only: ListHostNames_def set_map normalizeHosts_names)
  then show ?thesis using removed_host_rows [of _ h d] assms(2) by auto
qed

definition sample_saved :: data where
  "sample_saved = normalize (raw_of (db_step (OpSetProjectHost ''web'' ''BOX'') sample_db))"

theorem removed_host_comes_back_witness:
  "''box'' \<in> set (ListHostNames (normalize (raw_of (RemoveHostFromHostList ''Box'' sample_saved))))"
proof -
  have "normalizeHostName ''Box'' = ''box''" "map p_Host (d_Projects sample_saved) = [''box'']" by code_simp+
  then show ?thesis
    using removed_host_comes_back [of sample_saved "''Box''"]
    by (simp add: sample_saved_def normalize_wf) (auto simp: map_eq_Cons_conv)
qed

lemma detach_projects_effect:
  assumes "projects_ok (d_Projects d)" "\<forall>n \<in> set ns. n \<in> p_Name ` set (d_Projects d)"
  shows "\<exists>d'. detach_projects h ns d = (d', None) \<and>
     d_Hosts d' = d_Hosts (RemoveHostFromHostList h d) \<and>
     d_Projects d' = map (\<lambda>p. if p_Name p \<in> set ns then p\<lparr>p_Host := []\<rparr> else p) (d_Projects d)"
  using assms
proof (induction ns arbitrary: d)
  case Nil
  then show ?case by (simp add: RemoveHostFromHostList_def)
next
  case (Cons n ns)
  let ?f = "\<lambda>p. p\<lparr>p_Host := normalizeHostName []\<rparr>"
  let ?same = "\<lambda>p. normalizeProjectName (p_Name p) = normalizeProjectName n"
  have norm: "\<forall>p \<in> set (d_Projects d). normalizeProjectName (p_Name p) = p_Name p" "normalizeProjectName n = n"
    using Cons.prems by (auto simp: projects_ok_def project_ok_def)
  have dist: "distinct (map p_Name (d_Projects d))" using Cons.prems(1) by (simp add: projects_ok_def)
  have upd: "update_first ?same ?f ps = map (\<lambda>p. if p_Name p = n then p\<lparr>p_Host := []\<rparr> else p) ps"
    if "distinct (map p_Name ps)" "\<forall>p \<in> set ps. normalizeProjectName (p_Name p) = p_Name p" for ps
    using that
  proof (induction ps)
    case (Cons p ps)
    show ?case
    proof (cases "p_Name p = n")
      case True
      with Cons.prems have "\<forall>q \<in> set ps. p_Name q \<noteq> n" by (metis distinct.simps(2) imageI list.set_map list.simps(9))
      then have "map (\<lambda>p. if p_Name p = n then p\<lparr>p_Host := []\<rparr> else p) ps = ps" by (simp add: map_idI)
      with True show ?thesis by simp
    next
      case False
      with Cons norm(2) show ?thesis by simp
    qed
  qed simp
  obtain p where "getProject d n = Inr p"
    using Cons.prems(2) norm getProject_Inl [of d n] by (cases "getProject d n") auto
  then have set: "SetProjectHost n [] d = Inr (d\<lparr>d_Projects :=
      map (\<lambda>p. if p_Name p = n then p\<lparr>p_Host := []\<rparr> else p) (d_Projects d)\<rparr>)" (is "_ = Inr ?d")
    by (simp add: SetProjectHost_def project_setter_def update_project_def upd [OF dist norm(1), simplified])
  have "project_ok (p\<lparr>p_Host := []\<rparr>) = project_ok p \<or> \<not> project_ok p" for p :: prj
    by (simp add: project_ok_def)
  then have "projects_ok (d_Projects ?d)"
    using Cons.prems(1) by (auto simp: projects_ok_def project_ok_def comp_def if_distrib cong: if_cong)
  moreover have "map p_Name (d_Projects ?d) = map p_Name (d_Projects d)" by simp
  then have "p_Name ` set (d_Projects ?d) = p_Name ` set (d_Projects d)" by (metis list.set_map)
  then have "\<forall>m \<in> set ns. m \<in> p_Name ` set (d_Projects ?d)"
    using Cons.prems(2) by (metis list.set_intros(2))
  ultimately obtain d' where d': "detach_projects h ns ?d = (d', None)"
     "d_Hosts d' = d_Hosts (RemoveHostFromHostList h ?d)"
     "d_Projects d' = map (\<lambda>p. if p_Name p \<in> set ns then p\<lparr>p_Host := []\<rparr> else p) (d_Projects ?d)"
    using Cons.IH by blast
  then show ?case
    by (auto simp: set RemoveHostFromHostList_def comp_def)
qed

text \<open>In normal form a host's list and the projects' host fields agree.\<close>

lemma listed_iff_hosted:
  assumes wf: "wf_data d" and g: "g \<in> set (d_Hosts d)" and p: "p \<in> set (d_Projects d)"
  shows "(if p_Name p \<in> set (h_Projects g) then p\<lparr>p_Host := []\<rparr> else p) =
    (if p_Host p = h_Name g then p\<lparr>p_Host := []\<rparr> else p)"
proof (cases "p_Host p = h_Name g")
  case True
  have ne: "h_Name g \<noteq> []" using wf g by (auto simp: wf_data_def wf_hosts_def wf_host_def)
  then obtain k where k: "k \<in> set (d_Hosts d)" "h_Name k = h_Name g" "p_Name p \<in> set (h_Projects k)"
    using wf p True by (force simp: wf_data_def wf_hosts_def)
  then have "k = g" using wf g by (auto simp: wf_data_def wf_hosts_def distinct_map inj_on_def)
  with True k show ?thesis by simp
next
  case False
  have "p_Host p = []" if "p_Name p \<in> set (h_Projects g)"
  proof -
    have "wf_host (d_Projects d) g" using wf g by (simp add: wf_data_def wf_hosts_def)
    with that obtain q where "q \<in> set (d_Projects d)" "p_Name q = p_Name p" "p_Host q \<in> {[], h_Name g}"
      unfolding wf_host_def by blast
    moreover then have "q = p" using p wf by (auto simp: wf_data_def wf_projects_def distinct_map inj_on_def)
    ultimately show ?thesis using False by simp
  qed
  with False show ?thesis by (cases p) simp
qed

text \<open>
  \<open>RemoveHostFromConfig\<close> does delete a host: on saved data it succeeds for every known
  host, detaches exactly the projects of that host and changes nothing else in any
  project, and the host is absent afterwards, also after the next save.
\<close>

theorem remove_host_from_config_removes:
  assumes wf: "wf_data d" and known: "HasHost d h"
  shows "\<exists>d'. RemoveHostFromConfig h d = (d', None)
    \<and> d_Projects d' = map (\<lambda>p. if p_Host p = normalizeHostName h then p\<lparr>p_Host := []\<rparr> else p) (d_Projects d)
    \<and> \<not> HasHost d' h
    \<and> normalizeHostName h \<notin> set (ListHostNames (normalize (raw_of d')))"
proof -
  let ?ps = "d_Projects d"
  from known obtain g where g: "find (\<lambda>x. normalizeHostName (h_Name x) = normalizeHostName h) (d_Hosts d) = Some g"
    by (auto simp: HasHost_def getHost_def split: option.splits)
  then have g_in: "g \<in> set (d_Hosts d)" "normalizeHostName (h_Name g) = normalizeHostName h"
    by (auto dest: find_Some_set)
  with wf have g_wf: "wf_host ?ps g" "h_Name g = normalizeHostName h"
    by (auto simp: wf_data_def wf_hosts_def wf_host_def)
  then have ne: "normalizeHostName h \<noteq> []" by (metis wf_host_def)
  have list: "ProjectNamesFromHost d h = h_Projects g"
    using g by (simp add: ProjectNamesFromHost_def get_host_def getHost_def ok_or_def)
  from g_wf have "\<forall>n \<in> set (h_Projects g). n \<in> p_Name ` set ?ps" by (fastforce simp: wf_host_def)
  moreover have "projects_ok ?ps" using wf_data_ok [OF wf] by (simp add: db_ok_def)
  ultimately obtain d' where d': "detach_projects h (h_Projects g) d = (d', None)"
    "d_Hosts d' = d_Hosts (RemoveHostFromHostList h d)"
    "d_Projects d' = map (\<lambda>p. if p_Name p \<in> set (h_Projects g) then p\<lparr>p_Host := []\<rparr> else p) ?ps"
    using detach_projects_effect [of d "h_Projects g" h] by blast
  have projects: "d_Projects d' = map (\<lambda>p. if p_Host p = normalizeHostName h then p\<lparr>p_Host := []\<rparr> else p) ?ps"
    unfolding d'(3) by (rule map_cong [OF refl]) (simp only: listed_iff_hosted [OF wf g_in(1)] g_wf(2))
  have gone: "k \<notin> set (d_Hosts d')" if "normalizeHostName (h_Name k) = normalizeHostName h" for k
    unfolding d'(2) using that by (rule removed_host_rows)
  have "wf_projects (d_Projects d')"
    using wf unfolding projects by (auto simp: wf_data_def wf_projects_def comp_def wf_project_def
        if_distrib [of p_Name] cong: if_cong)
  then have "d_Hosts (normalize (raw_of d')) = normalizeHosts (d_Projects d') (map Some (d_Hosts d'))"
    by (simp add: normalize_def raw_of_def Let_def normalizeProjects_id)
  then have "normalizeHostName h \<notin> set (ListHostNames (normalize (raw_of d')))"
    using gone ne by (auto simp: ListHostNames_def normalizeHosts_names simp flip: set_map)
      (auto simp: projects normalizeHosts_names)
  moreover have "\<not> HasHost d' h"
  proof -
    have "find (\<lambda>x. normalizeHostName (h_Name x) = normalizeHostName h) (d_Hosts d') = None"
      using gone by (auto simp: find_None_set)
    then show ?thesis by (simp add: HasHost_def getHost_def)
  qed
  ultimately show ?thesis using d'(1) projects list by (auto simp: RemoveHostFromConfig_def)
qed

theorem remove_host_from_config_removes_witness:
  "\<exists>d'. RemoveHostFromConfig ''BOX'' sample_saved = (d', None) \<and> \<not> HasHost d' ''BOX''"
proof -
  have "HasHost sample_saved ''BOX''" by code_simp
  with remove_host_from_config_removes [of sample_saved "''BOX''"] show ?thesis
    by (auto simp: sample_saved_def normalize_wf)
qed

section \<open>Loading and saving\<close>

text \<open>
  \<open>instance.go\<close>: the package variable \<open>sStore\<close> is an option, the source is what its
  methods return, and the JSON codec of the standard library is a pair of parameters:
  \<open>decode\<close> gives the decoded rows or an error with what was decoded before it, \<open>encode\<close>
  the bytes or an error.
\<close>

record source =
  src_Exists :: "bool result"
  src_Read :: "string result"
  src_Information :: string

type_synonym decoder = "string \<Rightarrow> (err \<times> data) + raw_data"

definition store_instance :: "data option \<Rightarrow> data" where
  "store_instance st = (case st of None \<Rightarrow> zero_data | Some d \<Rightarrow> d)"

definition unmarshall :: "decoder \<Rightarrow> string \<Rightarrow> data \<times> err option" where
  "unmarshall decode content =
     (case decode content of
        Inl (e, partial) \<Rightarrow> (partial, Some (AppendError ''Failed deserialize config'' e))
      | Inr raw \<Rightarrow> (normalize raw, None))"

definition parseSource :: "decoder \<Rightarrow> source \<Rightarrow> data \<times> err option" where
  "parseSource decode src =
     (case src_Read src of
        Inl e \<Rightarrow> (zero_data, Some (AppendError (''Failed to read source ('' @ src_Information src @ '')'') e))
      | Inr content \<Rightarrow>
          (case unmarshall decode content of
             (d, Some e) \<Rightarrow> (d, Some (AppendError (''Failed to deserialize source ('' @ src_Information src @ '')'') e))
           | (d, None) \<Rightarrow> (d, None)))"

definition getDBContent :: "decoder \<Rightarrow> source \<Rightarrow> data option \<Rightarrow> data \<times> err option" where
  "getDBContent decode src st =
     (case st of Some d \<Rightarrow> (d, None)
      | None \<Rightarrow>
          (case src_Exists src of
             Inl e \<Rightarrow> (zero_data, Some (AppendError ''Failed to check db source existence'' e))
           | Inr False \<Rightarrow> (zero_data, None)
           | Inr True \<Rightarrow>
               (case parseSource decode src of
                  (d, Some e) \<Rightarrow> (d, Some (AppendError ''Failed to parse CDS database file'' e))
                | (d, None) \<Rightarrow> (d, None))))"

definition Load :: "decoder \<Rightarrow> source \<Rightarrow> data option \<Rightarrow> data \<times> err option" where
  "Load decode src st =
     (case getDBContent decode src st of
        (d, Some e) \<Rightarrow> (d, Some (AppendError ''Failed to initialize cds configuration'' e))
      | (d, None) \<Rightarrow> (d, None))"

text \<open>The result is the store, the bytes written if a write was issued, and the error.\<close>

definition saveDBContent ::
  "(data \<Rightarrow> string result) \<Rightarrow> (string \<Rightarrow> err option) \<Rightarrow> data option \<Rightarrow> data \<times> string option \<times> err option" where
  "saveDBContent encode write st =
     (let d = normalize (raw_of (store_instance st))
      in case encode d of
           Inl e \<Rightarrow> (d, None, Some (AppendError ''Failed serialize configuration'' e))
         | Inr bytes \<Rightarrow>
             (case write bytes of
                Some e \<Rightarrow> (d, Some bytes, Some (AppendError ''Failed write configuration'' e))
              | None \<Rightarrow> (d, Some bytes, None)))"

definition Save ::
  "(data \<Rightarrow> string result) \<Rightarrow> (string \<Rightarrow> err option) \<Rightarrow> data option \<Rightarrow> data \<times> string option \<times> err option" where
  "Save encode write st =
     (case saveDBContent encode write st of
        (d, b, Some e) \<Rightarrow> (d, b, Some (AppendError ''Failed to save configuration to disk'' e))
      | (d, b, None) \<Rightarrow> (d, b, None))"

text \<open>
  Save then load: when the codec reads back what it wrote, a process that loads the
  file another process saved has exactly the data the first one holds after saving,
  and that data is in normal form.
\<close>

theorem save_then_load:
  assumes codec: "\<And>d bytes. encode d = Inr bytes \<Longrightarrow> decode bytes = Inr (raw_of d)"
    and saved: "Save encode write st = (d, Some bytes, None)"
    and src: "src_Exists src = Inr True" "src_Read src = Inr bytes"
  shows "Load decode src None = (d, None) \<and> wf_data d"
proof -
  have d: "d = normalize (raw_of (store_instance st))" and enc: "encode d = Inr bytes"
    using saved by (auto simp: Save_def saveDBContent_def Let_def split: sum.splits option.splits)
  have "decode bytes = Inr (raw_of d)" using codec enc by blast
  moreover have "normalize (raw_of d) = d" unfolding d by (rule normalize_id) (rule normalize_wf)
  ultimately show ?thesis
    using src by (simp add: Load_def getDBContent_def parseSource_def unmarshall_def) (simp add: d normalize_wf)
qed

text \<open>A codec for the witness: the bytes are the current project, other data does not encode.\<close>

definition context_data :: "string \<Rightarrow> data" where
  "context_data s = zero_data\<lparr>d_ProjectContext := s\<rparr>"

theorem save_then_load_witness:
  "Load (\<lambda>b. Inr (raw_of (context_data b))) \<lparr>src_Exists = Inr True, src_Read = Inr [], src_Information = []\<rparr> None
     = (zero_data, None)"
proof -
  let ?enc = "\<lambda>d. if d = context_data (d_ProjectContext d) then Inr (d_ProjectContext d) else Fail ''no''"
  have norm: "normalize (raw_of zero_data) = zero_data" by (rule normalize_id) (simp add: wf_data_def
      wf_projects_def wf_hosts_def wf_registries_def wf_context_def zero_data_def)
  have "Save ?enc (\<lambda>_. None) None = (zero_data, Some [], None)"
    by (simp add: Save_def saveDBContent_def store_instance_def norm) (simp add: context_data_def zero_data_def)
  moreover have "?enc d = Inr bytes \<Longrightarrow> Inr (raw_of (context_data bytes)) = Inr (raw_of d)" for d bytes
    by (auto split: if_splits)
  ultimately show ?thesis
    using save_then_load [where decode = "\<lambda>b. Inr (raw_of (context_data b))" and encode = ?enc] by force
qed

text \<open>
  A load that failed is not retried: the store it leaves behind makes every later
  \<open>Load\<close> in the process succeed without reading, and a later save of that store, when its
  write succeeds, replaces the file by the normal form of what had been decoded (nothing at
  all when the file could not be read).
\<close>

theorem failed_load_sticks:
  assumes "Load decode src None = (d, Some e)"
  shows "Load decode src' (Some d) = (d, None)
    \<and> (\<forall>e'. src_Exists src = Inr True \<and> src_Read src = Inl e' \<longrightarrow> d = zero_data)
    \<and> fst (Save encode write (Some d)) = normalize (raw_of d)"
  using assms
  by (auto simp: Load_def getDBContent_def parseSource_def Save_def saveDBContent_def store_instance_def Let_def
      split: prod.splits option.splits sum.splits bool.splits)

theorem failed_load_sticks_witness:
  "Load (\<lambda>_. Inr (raw_of zero_data)) \<lparr>src_Exists = Inr True, src_Read = Inr [], src_Information = []\<rparr>
     (Some (fst (Load (\<lambda>_. Inr (raw_of zero_data))
       \<lparr>src_Exists = Fail ''io'', src_Read = Inr [], src_Information = []\<rparr> None))) = (zero_data, None)"
proof -
  let ?dec = "\<lambda>_. Inr (raw_of zero_data)"
  let ?src = "\<lparr>src_Exists = Fail ''io'', src_Read = Inr [], src_Information = []\<rparr>"
  have "Load ?dec ?src None = (zero_data, Some (AppendError ''Failed to initialize cds configuration''
      (AppendError ''Failed to check db source existence'' (NewError ''io''))))"
    by (simp add: Load_def getDBContent_def)
  from failed_load_sticks [OF this] show ?thesis by (simp add: Load_def getDBContent_def)
qed

end
