(* ===== verification/GoPath.thy ===== *)
theory GoPath
  imports Prelude
begin

text \<open>
  The functions of \<open>path\<close>, \<open>path/filepath\<close> (on Unix) and \<open>net/url\<close> that the components
  call, on byte strings: \<open>Clean\<close>, \<open>Join\<close>, \<open>Base\<close>, \<open>Rel\<close>, \<open>PathEscape\<close>, \<open>PathUnescape\<close>.
  A path is split at its slashes and processed with a stack, as the documentation of
  \<open>path.Clean\<close> describes it.
\<close>

section \<open>Paths\<close>

definition clean_step :: "bool \<Rightarrow> string list \<Rightarrow> string \<Rightarrow> string list" where
  "clean_step rooted st seg =
     (if seg = [] \<or> seg = ''.'' then st
      else if seg = ''..'' then
        (case st of
           [] \<Rightarrow> if rooted then [] else [seg]
         | t # r \<Rightarrow> if t = ''..'' then seg # st else r)
      else seg # st)"

definition clean_segs :: "bool \<Rightarrow> string list \<Rightarrow> string list" where
  "clean_segs rooted segs = rev (foldl (clean_step rooted) [] segs)"

definition rooted :: "string \<Rightarrow> bool" where
  "rooted p = HasPrefix p ''/''"

definition of_segs :: "bool \<Rightarrow> string list \<Rightarrow> string" where
  "of_segs r segs =
     (if segs = [] then (if r then ''/'' else ''.'')
      else (if r then ''/'' else []) @ Join segs ''/'')"

definition path_Clean :: "string \<Rightarrow> string" where
  "path_Clean p = of_segs (rooted p) (clean_segs (rooted p) (split_on (CHR ''/'') p))"

definition path_Join :: "string list \<Rightarrow> string" where
  "path_Join elems =
     (case dropWhile (\<lambda>e. e = []) elems of [] \<Rightarrow> [] | es \<Rightarrow> path_Clean (Join es ''/''))"

definition path_Base :: "string \<Rightarrow> string" where
  "path_Base p =
     (if p = [] then ''.''
      else (let q = trim_right (\<lambda>c. c = CHR ''/'') p
            in if q = [] then ''/'' else last (split_on (CHR ''/'') q)))"

text \<open>Unix \<open>filepath.Rel\<close>, on the segments of the cleaned paths.\<close>

fun rel_segs :: "string list \<Rightarrow> string list \<Rightarrow> string list option" where
  "rel_segs (b # bs) (t # ts) =
     (if b = t then rel_segs bs ts
      else if b = ''..'' then None
      else Some (replicate (length (b # bs)) ''..'' @ t # ts))"
| "rel_segs [] ts = Some ts"
| "rel_segs (b # bs) [] = (if b = ''..'' then None else Some (replicate (length (b # bs)) ''..''))"

definition path_segs :: "string \<Rightarrow> string list" where
  "path_segs p = clean_segs (rooted p) (split_on (CHR ''/'') p)"

definition filepath_Rel :: "string \<Rightarrow> string \<Rightarrow> string option" where
  "filepath_Rel base targ =
     (if rooted base \<noteq> rooted targ then None
      else map_option (of_segs False) (rel_segs (path_segs base) (path_segs targ)))"

text \<open>A normal segment names a directory entry.\<close>

definition normal_seg :: "string \<Rightarrow> bool" where
  "normal_seg s \<longleftrightarrow> s \<noteq> [] \<and> s \<noteq> ''.'' \<and> s \<noteq> ''..'' \<and> CHR ''/'' \<notin> set s"

lemma normal_segD: "normal_seg s \<Longrightarrow> s \<noteq> [] \<and> CHR ''/'' \<notin> set s"
  by (simp add: normal_seg_def)

lemma clean_step_normal [simp]: "normal_seg s \<Longrightarrow> clean_step r st s = s # st"
  by (simp add: clean_step_def normal_seg_def)

lemma clean_fold_normal: "\<forall>s \<in> set segs. normal_seg s \<Longrightarrow> foldl (clean_step r) st segs = rev segs @ st"
  by (induction segs arbitrary: st) auto

lemma clean_segs_normal: "\<forall>s \<in> set segs. normal_seg s \<Longrightarrow> clean_segs r segs = segs"
  by (simp add: clean_segs_def clean_fold_normal)

text \<open>After cleaning: normal segments, behind leading \<open>..\<close> segments on an unrooted path only.\<close>

definition clean_stack :: "bool \<Rightarrow> string list \<Rightarrow> bool" where
  "clean_stack r st \<longleftrightarrow>
     (\<exists>ns k. st = ns @ replicate k ''..'' \<and> (\<forall>s \<in> set ns. normal_seg s) \<and> (r \<longrightarrow> k = 0))"

lemma clean_stackI: "\<forall>s \<in> set ns. normal_seg s \<Longrightarrow> (r \<longrightarrow> k = 0) \<Longrightarrow> clean_stack r (ns @ replicate k ''..'')"
  by (auto simp: clean_stack_def)

lemma clean_step_stack:
  assumes "clean_stack r st" "CHR ''/'' \<notin> set seg"
  shows "clean_stack r (clean_step r st seg)"
proof -
  from assms(1) obtain ns k where st: "st = ns @ replicate k ''..''" and ns: "\<forall>s \<in> set ns. normal_seg s"
    and r: "r \<longrightarrow> k = 0" by (auto simp: clean_stack_def)
  consider "seg = [] \<or> seg = ''.''" | "normal_seg seg" | "seg = ''..''"
    using assms(2) by (auto simp: normal_seg_def)
  then show ?thesis
  proof cases
    case 1
    with assms(1) show ?thesis by (auto simp: clean_step_def)
  next
    case 2
    then show ?thesis using clean_stackI [of "seg # ns" r k] ns r st by auto
  next
    case 3
    show ?thesis
    proof (cases ns)
      case Nil
      then have "clean_step r st seg = [] @ replicate (if r then 0 else Suc k) ''..''"
        using 3 st r by (cases k) (auto simp: clean_step_def)
      moreover have "clean_stack r ([] @ replicate (if r then 0 else Suc k) ''..'')"
        by (rule clean_stackI) auto
      ultimately show ?thesis by simp
    next
      case (Cons n ms)
      then have "clean_step r st seg = ms @ replicate k ''..''"
        using 3 st ns by (auto simp: clean_step_def normal_seg_def)
      then show ?thesis using clean_stackI [of ms r k] ns r Cons by auto
    qed
  qed
qed

lemma clean_fold_stack:
  "clean_stack r st \<Longrightarrow> \<forall>s \<in> set segs. CHR ''/'' \<notin> set s \<Longrightarrow> clean_stack r (foldl (clean_step r) st segs)"
  by (induction segs arbitrary: st) (auto intro: clean_step_stack)

lemma path_segs_shape:
  "\<exists>k ns. path_segs p = replicate k ''..'' @ ns \<and> (\<forall>s \<in> set ns. normal_seg s) \<and> (rooted p \<longrightarrow> k = 0)"
proof -
  have "clean_stack (rooted p) (foldl (clean_step (rooted p)) [] (split_on (CHR ''/'') p))"
    by (rule clean_fold_stack)
      (auto simp: clean_stack_def dest: split_on_sep_free)
  then obtain ns k where "foldl (clean_step (rooted p)) [] (split_on (CHR ''/'') p) = ns @ replicate k ''..''"
    "\<forall>s \<in> set ns. normal_seg s" "rooted p \<longrightarrow> k = 0" by (auto simp: clean_stack_def)
  then have "path_segs p = replicate k ''..'' @ rev ns \<and> (\<forall>s \<in> set (rev ns). normal_seg s) \<and> (rooted p \<longrightarrow> k = 0)"
    by (simp add: path_segs_def clean_segs_def)
  then show ?thesis by blast
qed

lemma path_Clean_segs: "path_Clean p = of_segs (rooted p) (path_segs p)"
  by (simp add: path_Clean_def path_segs_def)

lemma Join_Cons: "ws \<noteq> [] \<Longrightarrow> Join (w # ws) sep = w @ sep @ Join ws sep"
  by (cases ws) simp_all

lemma Join_append: "us \<noteq> [] \<Longrightarrow> vs \<noteq> [] \<Longrightarrow> Join (us @ vs) sep = Join us sep @ sep @ Join vs sep"
  by (induction us sep rule: Join.induct) (simp_all add: Join_Cons)

lemma rooted_Join_normal: "ws \<noteq> [] \<Longrightarrow> normal_seg (hd ws) \<Longrightarrow> \<not> rooted (Join ws ''/'')"
  by (cases "hd ws"; cases ws rule: remdups_adj.cases)
    (auto simp: rooted_def normal_seg_def HasPrefix_iff)

lemma split_normal: "ws \<noteq> [] \<Longrightarrow> \<forall>s \<in> set ws. normal_seg s \<Longrightarrow> split_on (CHR ''/'') (Join ws ''/'') = ws"
  by (rule Join_split_on) (auto simp: normal_seg_def)

lemma segs_normal:
  assumes "ws \<noteq> []" "\<forall>s \<in> set ws. normal_seg s"
  shows "path_segs (Join ws ''/'') = ws" "path_Clean (Join ws ''/'') = Join ws ''/''"
proof -
  show "path_segs (Join ws ''/'') = ws"
    using assms by (simp add: path_segs_def split_normal clean_segs_normal)
  moreover have "\<not> rooted (Join ws ''/'')" using assms by (intro rooted_Join_normal) auto
  ultimately show "path_Clean (Join ws ''/'') = Join ws ''/''"
    using assms by (simp add: path_Clean_segs of_segs_def)
qed

lemma split_glue: "split_on c (x @ c # y) = split_on c x @ split_on c y"
proof (induction c x rule: split_on.induct)
  case (2 sep c cs)
  then show ?case by (cases "split_on sep cs") auto
qed simp

text \<open>Appending normal segments to a path appends them to its cleaned form.\<close>

lemma segs_append:
  assumes "\<forall>s \<in> set ws. normal_seg s" "p \<noteq> []"
  shows "path_segs (Join (p # ws) ''/'') = path_segs p @ ws" "rooted (Join (p # ws) ''/'') = rooted p"
proof -
  have split: "split_on (CHR ''/'') (Join (p # ws) ''/'') = split_on (CHR ''/'') p @ ws"
  proof (cases "ws = []")
    case False
    have "Join (split_on (CHR ''/'') p @ ws) ''/'' = Join (p # ws) ''/''"
      using False by (simp add: Join_append Join_Cons split_on_Join)
    moreover have "split_on (CHR ''/'') (Join (split_on (CHR ''/'') p @ ws) ''/'') = split_on (CHR ''/'') p @ ws"
      using assms(1) by (intro Join_split_on) (auto simp: normal_seg_def dest: split_on_sep_free)
    ultimately show ?thesis by simp
  qed simp
  show root: "rooted (Join (p # ws) ''/'') = rooted p"
    using assms(2) by (cases ws; cases p) (auto simp: rooted_def)
  show "path_segs (Join (p # ws) ''/'') = path_segs p @ ws"
    by (simp add: path_segs_def split root clean_segs_def clean_fold_normal assms(1))
qed

text \<open>Cleaning is idempotent.\<close>

lemma clean_fold_dots: "foldl (clean_step False) (replicate j ''..'') (replicate k ''..'') = replicate (k + j) ''..''"
proof (induction k arbitrary: j)
  case (Suc k)
  have "clean_step False (replicate j ''..'') ''..'' = replicate (Suc j) ''..''"
    by (cases j) (simp_all add: clean_step_def)
  with Suc.IH [of "Suc j"] show ?case by simp
qed simp

lemma clean_segs_shape:
  assumes "\<forall>s \<in> set ns. normal_seg s" "r \<longrightarrow> k = 0"
  shows "clean_segs r (replicate k ''..'' @ ns) = replicate k ''..'' @ ns"
  using assms clean_fold_dots [of 0 k]
  by (cases r) (simp_all add: clean_segs_def clean_fold_normal)

lemma of_segs_rooted:
  assumes "\<forall>s \<in> set segs. s \<noteq> [] \<and> CHR ''/'' \<notin> set s"
  shows "rooted (of_segs r segs) = r"
proof (cases segs)
  case Nil
  then show ?thesis by (simp add: rooted_def of_segs_def)
next
  case (Cons w ws)
  with assms obtain c cs where "w = c # cs" "c \<noteq> CHR ''/''" by (cases w) auto
  with Cons show ?thesis by (cases ws) (simp_all add: rooted_def of_segs_def)
qed

lemma of_segs_split:
  assumes "\<forall>s \<in> set segs. s \<noteq> [] \<and> CHR ''/'' \<notin> set s" "segs \<noteq> []"
  shows "split_on (CHR ''/'') (of_segs r segs) = (if r then [] # segs else segs)"
  using assms Join_split_on [of segs "CHR ''/''"] by (simp add: of_segs_def)

lemma path_segs_of_segs:
  assumes "segs = replicate k ''..'' @ ns" "\<forall>s \<in> set ns. normal_seg s" "r \<longrightarrow> k = 0"
  shows "path_segs (of_segs r segs) = segs" "rooted (of_segs r segs) = r"
proof -
  have ok: "\<forall>s \<in> set segs. s \<noteq> [] \<and> CHR ''/'' \<notin> set s"
    unfolding assms(1) set_append ball_Un using assms(2) by (auto dest: normal_segD)
  show root: "rooted (of_segs r segs) = r" by (rule of_segs_rooted [OF ok])
  show "path_segs (of_segs r segs) = segs"
  proof (cases "segs = []")
    case True
    then show ?thesis
      by (cases r) (simp_all add: path_segs_def of_segs_def rooted_def clean_segs_def clean_step_def)
  next
    case False
    have "clean_segs r (if r then [] # segs else segs) = clean_segs r segs"
      by (simp add: clean_segs_def clean_step_def)
    then show ?thesis
      unfolding path_segs_def root of_segs_split [OF ok False]
      using clean_segs_shape [OF assms(2,3)] by (simp only: assms(1))
  qed
qed

lemma path_segs_Clean [simp]: "path_segs (path_Clean p) = path_segs p" "rooted (path_Clean p) = rooted p"
proof -
  obtain k ns where "path_segs p = replicate k ''..'' @ ns" "\<forall>s \<in> set ns. normal_seg s" "rooted p \<longrightarrow> k = 0"
    using path_segs_shape by blast
  from path_segs_of_segs [OF this] show "path_segs (path_Clean p) = path_segs p" "rooted (path_Clean p) = rooted p"
    by (simp_all only: path_Clean_segs)
qed

lemma Join_ne: "ws \<noteq> [] \<Longrightarrow> hd ws \<noteq> [] \<Longrightarrow> Join ws sep \<noteq> []"
  by (cases ws; cases "tl ws") auto

lemma path_Clean_ne [simp]: "path_Clean p \<noteq> []"
proof (cases "path_segs p")
  case Nil
  then show ?thesis by (simp add: path_Clean_segs of_segs_def)
next
  case (Cons w ws)
  obtain k ns where "path_segs p = replicate k ''..'' @ ns" "\<forall>s \<in> set ns. normal_seg s"
    using path_segs_shape by blast
  with Cons have "w \<in> set (replicate k ''..'') \<or> w \<in> set ns"
    by (metis Un_iff list.set_intros(1) set_append)
  then have "w \<noteq> []" using \<open>\<forall>s \<in> set ns. normal_seg s\<close> by (auto dest: normal_segD)
  then have "Join (w # ws) ''/'' \<noteq> []" by (intro Join_ne) auto
  then show ?thesis by (simp add: path_Clean_segs of_segs_def Cons)
qed

lemma path_Join_ne: "p \<noteq> [] \<Longrightarrow> path_Join (p # ws) \<noteq> []"
  by (simp add: path_Join_def)

lemma path_Join_normal:
  assumes "\<forall>s \<in> set ws. normal_seg s" "p \<noteq> []"
  shows "path_Join (p # ws) = of_segs (rooted p) (path_segs p @ ws)"
  using assms segs_append [OF assms] by (simp add: path_Join_def path_Clean_segs)

lemma rel_segs_prefix: "rel_segs bs (bs @ ts) = Some ts"
  by (induction bs) auto

section \<open>URL path segments\<close>

definition hex_digit :: "nat \<Rightarrow> char" where
  "hex_digit n = (if n < 10 then char_of (48 + n) else char_of (55 + n))"

definition unhex :: "char \<Rightarrow> nat option" where
  "unhex c =
     (let n = char_code c
      in if 48 \<le> n \<and> n \<le> 57 then Some (n - 48)
         else if 97 \<le> n \<and> n \<le> 102 then Some (n - 87)
         else if 65 \<le> n \<and> n \<le> 70 then Some (n - 55)
         else None)"

text \<open>\<open>shouldEscape(c, encodePathSegment)\<close>: letters, digits and \<open>-_.~$&+:=@\<close> stay.\<close>

definition is_alnum :: "char \<Rightarrow> bool" where
  "is_alnum c = (let n = char_code c in (97 \<le> n \<and> n \<le> 122) \<or> (65 \<le> n \<and> n \<le> 90) \<or> (48 \<le> n \<and> n \<le> 57))"

definition should_escape :: "char \<Rightarrow> bool" where
  "should_escape c = (\<not> is_alnum c \<and> c \<notin> set ''-_.~$&+:=@'')"

definition escape_char :: "char \<Rightarrow> string" where
  "escape_char c =
     (if should_escape c then [CHR ''%'', hex_digit (char_code c div 16), hex_digit (char_code c mod 16)] else [c])"

definition PathEscape :: "string \<Rightarrow> string" where
  "PathEscape s = concat (map escape_char s)"

fun PathUnescape :: "string \<Rightarrow> string result" where
  "PathUnescape [] = Ok []"
| "PathUnescape (c # cs) =
     (if c = CHR ''%'' then
        (case cs of
           a # b # r \<Rightarrow>
             (case (unhex a, unhex b) of
                (Some x, Some y) \<Rightarrow> bind_ok (PathUnescape r) (\<lambda>t. Ok (char_of (16 * x + y) # t))
              | _ \<Rightarrow> Fail (''invalid URL escape'' @ CHR '' '' # c # a # [b]))
         | _ \<Rightarrow> Fail (''invalid URL escape'' @ CHR '' '' # c # cs))
      else bind_ok (PathUnescape cs) (\<lambda>t. Ok (c # t)))"

lemma code_less: "char_code c < 256"
  by (rule nat_of_char_less_256)

lemma unhex_table: "list_all (\<lambda>n. unhex (hex_digit n) = Some n) [0..<16]"
  by (simp add: upt_rec unhex_def hex_digit_def)

lemma unhex_digit: "n < 16 \<Longrightarrow> unhex (hex_digit n) = Some n"
  using unhex_table by (simp add: list_all_iff)

lemma hex_digit_plain: "n < 16 \<Longrightarrow> hex_digit n \<noteq> CHR ''/'' \<and> \<not> is_space (hex_digit n)"
proof -
  assume "n < 16"
  then have "char_code (hex_digit n) \<ge> 48" by (simp add: hex_digit_def)
  moreover have "char_code (CHR ''/'') = 47" by simp
  ultimately show ?thesis by (auto simp: is_space_def)
qed

lemma slash_escaped: "should_escape (CHR ''/'')" "should_escape (CHR ''%'')"
  by (simp_all add: should_escape_def is_alnum_def)

lemma space_escaped: "is_space c \<Longrightarrow> should_escape c"
  by (auto simp: should_escape_def is_alnum_def is_space_def)

lemma PathUnescape_char: "PathUnescape (escape_char c @ s) = bind_ok (PathUnescape s) (\<lambda>t. Ok (c # t))"
proof (cases "should_escape c")
  case True
  have "char_code c div 16 < 16" "char_code c mod 16 < 16" using code_less [of c] by (simp_all add: div_less_iff_less_mult)
  moreover have "char_of (16 * (char_code c div 16) + char_code c mod 16) = c" by simp
  ultimately show ?thesis using True by (simp add: escape_char_def unhex_digit del: of_char_of)
next
  case False
  then have "c \<noteq> CHR ''%''" using slash_escaped(2) by metis
  with False show ?thesis by (simp add: escape_char_def)
qed

lemma PathUnescape_PathEscape [simp]: "PathUnescape (PathEscape s) = Ok s"
  by (induction s) (simp_all add: PathEscape_def PathUnescape_char)

lemma PathEscape_inj: "PathEscape a = PathEscape b \<Longrightarrow> a = b"
  by (metis PathUnescape_PathEscape sum.inject(2))

lemma escape_char_plain: "x \<in> set (escape_char c) \<Longrightarrow> x \<noteq> CHR ''/'' \<and> \<not> is_space x"
proof -
  assume x: "x \<in> set (escape_char c)"
  have "char_code c div 16 < 16" "char_code c mod 16 < 16" using code_less [of c] by (simp_all add: div_less_iff_less_mult)
  note plain = hex_digit_plain [OF this(1)] hex_digit_plain [OF this(2)]
  show ?thesis
  proof (cases "should_escape c")
    case True
    with x have "x = CHR ''%'' \<or> x = hex_digit (char_code c div 16) \<or> x = hex_digit (char_code c mod 16)"
      by (simp add: escape_char_def)
    with plain show ?thesis by (auto simp: is_space_def)
  next
    case False
    with x have "x = c" by (simp add: escape_char_def)
    with False show ?thesis using slash_escaped(1) space_escaped by metis
  qed
qed

lemma PathEscape_plain: "x \<in> set (PathEscape s) \<Longrightarrow> x \<noteq> CHR ''/'' \<and> \<not> is_space x"
  by (auto simp: PathEscape_def dest: escape_char_plain)

lemma escape_char_ne [simp]: "escape_char c \<noteq> []"
  by (simp add: escape_char_def)

lemma PathEscape_ne: "PathEscape s = [] \<longleftrightarrow> s = []"
  by (cases s) (simp_all add: PathEscape_def)

lemma PathEscape_dots: "PathEscape s = ''.'' \<longleftrightarrow> s = ''.''" "PathEscape s = ''..'' \<longleftrightarrow> s = ''..''"
proof -
  have "PathEscape ''.'' = ''.''" "PathEscape ''..'' = ''..''" by code_simp+
  then show "PathEscape s = ''.'' \<longleftrightarrow> s = ''.''" "PathEscape s = ''..'' \<longleftrightarrow> s = ''..''"
    by (metis PathEscape_inj)+
qed

lemma PathEscape_normal: "s \<noteq> [] \<Longrightarrow> s \<noteq> ''.'' \<Longrightarrow> s \<noteq> ''..'' \<Longrightarrow> normal_seg (PathEscape s)"
  using PathEscape_plain [of "CHR ''/''" s] by (auto simp: normal_seg_def PathEscape_ne PathEscape_dots)

end
