(* ===== verification/Identifier.thy ===== *)
theory Identifier
  imports GoPath
begin

text \<open>
  \<open>internal/containerconf\<close>: the canonical identifiers of deploy resources
  (\<open>identifier.go\<close>), which the client and the agent compute independently, and the
  collectors that list the artifacts a configuration needs (\<open>collector_config_file.go\<close>,
  \<open>collector_default.go\<close>, \<open>client_artifacts.go\<close>).

  The parsed configuration is viper's; the model reads it through a function from key
  path to value. The environment and the file system of the client are a record of what
  the calls return. In messages \<open>%q\<close> puts quotes around the text; the escapes it makes
  inside are not modelled.
\<close>

definition Quote :: "string \<Rightarrow> string" where
  "Quote s = [CHR 0x22] @ s @ [CHR 0x22]"

section \<open>Identifiers\<close>

definition ResourceNamespace :: string where "ResourceNamespace = ''resource''"
definition KindPubKey :: string where "KindPubKey = ''pub_key''"
definition KindSharedKey :: string where "KindSharedKey = ''shared_key''"
definition KindAuthFile :: string where "KindAuthFile = ''auth''"
definition KindDockerfile :: string where "KindDockerfile = ''dockerfile''"

datatype ResourceType = ResourceTypeUnknown | ResourceTypeFile | ResourceTypeFeature | ResourceTypeLocal

definition normalizeResourceKind :: "string \<Rightarrow> string result" where
  "normalizeResourceKind kind =
     (let normalized = TrimSpace kind
      in if normalized = [] then Fail ''artifact kind is required''
         else if normalized = ''.'' \<or> normalized = ''..'' then Fail (''artifact kind '' @ Quote kind @ '' is invalid'')
         else if Contains normalized ''/''
           then Fail (''artifact kind '' @ Quote kind @ '' must not contain path separators'')
         else Ok normalized)"

definition resourceIdentifier :: "string \<Rightarrow> string \<Rightarrow> string result" where
  "resourceIdentifier kind logicalName =
     bind_ok (normalizeResourceKind kind) (\<lambda>normalizedKind.
       if TrimSpace logicalName = [] then Fail ''artifact logical name is required''
       else Ok (path_Join [ResourceNamespace, normalizedKind, PathEscape logicalName]))"

definition ResourceIdentifier :: "string \<Rightarrow> string \<Rightarrow> string result" where
  "ResourceIdentifier kind logicalName = resourceIdentifier kind logicalName"

definition SingletonIdentifier :: "string \<Rightarrow> string result" where
  "SingletonIdentifier kind = resourceIdentifier kind kind"

definition normalizeIdentifier :: "string \<Rightarrow> string result" where
  "normalizeIdentifier ident =
     (let identifier = TrimSpace ident
      in if identifier = [] then Fail ''artifact identifier is required''
         else if HasPrefix identifier (ResourceNamespace @ ''/'') then
           (let parts = split_on (CHR ''/'') identifier
            in if length parts \<noteq> 3
               then Fail (''artifact identifier '' @ Quote identifier @ '' must use '' @ ResourceNamespace
                      @ ''/<kind>/<logical-name>'')
               else bind_ok (normalizeResourceKind (parts ! 1)) (\<lambda>kind.
                      bind_ok (wrap_error (''artifact identifier '' @ Quote identifier
                          @ '' contains an invalid escaped logical name'') (PathUnescape (parts ! 2))) (\<lambda>logicalName.
                        if logicalName = [] then Fail ''artifact logical name is required''
                        else resourceIdentifier kind logicalName)))
         else
           (let normalized = path_Clean identifier
            in if normalized = ''.'' then Fail ''artifact identifier is required''
               else if HasPrefix normalized ''/''
                 then Fail (''artifact identifier '' @ Quote identifier @ '' must be relative'')
               else if normalized = ''..'' \<or> HasPrefix normalized ''../''
                 then Fail (''artifact identifier '' @ Quote identifier @ '' escapes the staging directory'')
               else Ok normalized))"

definition NormalizeIdentifier :: "string \<Rightarrow> string result" where
  "NormalizeIdentifier identifier = normalizeIdentifier identifier"

record localArtifactReference =
  lar_sourcePath :: string
  lar_identifier :: string

definition newDockerfileReference :: "string \<Rightarrow> localArtifactReference result" where
  "newDockerfileReference dockerfilePath =
     (let logicalName = path_Base (map (\<lambda>c. if c = CHR 0x5C then CHR ''/'' else c) dockerfilePath)
      in if logicalName = ''.'' \<or> logicalName = ''/'' \<or> TrimSpace logicalName = []
         then Fail ''build.dockerfile must resolve to a file name''
         else bind_ok (resourceIdentifier KindDockerfile logicalName) (\<lambda>identifier.
                Ok \<lparr>lar_sourcePath = dockerfilePath, lar_identifier = identifier\<rparr>))"

section \<open>Collectors\<close>

datatype cfg_value = CfgString string | CfgBool bool | CfgNumber int | CfgArray "cfg_value list" | CfgObject "(string \<times> cfg_value) list"

type_synonym Config = "string list \<Rightarrow> cfg_value option"

datatype SourceType = SourceTypeLocalFS | SourceTypeInline

record SourceRef =
  sr_Type :: SourceType
  sr_Ref :: string
  sr_Data :: string

record RequiredArtifact =
  ra_Identifier :: string
  ra_Source :: SourceRef

datatype file_stat = NotExist | StatError err | IsDir | IsFile

record client_env =
  ce_RegistryAuthFile :: string
  ce_ConfigAuthFile :: string
  ce_UserHomeDir :: "string result"
  ce_Stat :: "string \<Rightarrow> file_stat"
  ce_Exists :: "string \<Rightarrow> bool"
  ce_ReadFile :: "string \<Rightarrow> string result"

definition configPathName :: "string list \<Rightarrow> string result" where
  "configPathName key =
     (if length key = 0 then Fail ''config path is required''
      else if \<exists>part \<in> set key. TrimSpace part = [] then Fail ''config path is required''
      else Ok (Join key ''.''))"

definition configString :: "Config \<Rightarrow> string list \<Rightarrow> string result" where
  "configString config key =
     bind_ok (configPathName key) (\<lambda>name.
       case config key of
         Some (CfgString value) \<Rightarrow>
           if TrimSpace value = [] then Fail (name @ '' must not be empty'') else Ok value
       | _ \<Rightarrow> Fail (name @ '' must be a string''))"

definition DockerfileIdentifier :: "Config \<Rightarrow> string result" where
  "DockerfileIdentifier config =
     bind_ok (configString config [''build'', ''dockerfile'']) (\<lambda>dockerfilePath.
       bind_ok (newDockerfileReference dockerfilePath) (\<lambda>reference. Ok (lar_identifier reference)))"

definition resolveLocalArtifactSource :: "string \<Rightarrow> string \<Rightarrow> SourceRef result" where
  "resolveLocalArtifactSource configDir source =
     (if HasPrefix source ''/''
      then Ok \<lparr>sr_Type = SourceTypeLocalFS, sr_Ref = path_Clean source, sr_Data = []\<rparr>
      else if configDir = []
        then Fail (''config directory is required to resolve relative artifact source '' @ Quote source)
      else Ok \<lparr>sr_Type = SourceTypeLocalFS, sr_Ref = path_Clean (path_Join [configDir, source]), sr_Data = []\<rparr>)"

definition configFile_Collect ::
  "string list \<Rightarrow> (string \<Rightarrow> localArtifactReference result) \<Rightarrow> Config \<Rightarrow> string \<Rightarrow> RequiredArtifact list result" where
  "configFile_Collect configPath newReference config configDir =
     (if length configPath = 0 then Fail ''collector config path is required''
      else if config configPath = None then Ok []
      else bind_ok (configString config configPath) (\<lambda>sourcePath.
        bind_ok (newReference sourcePath) (\<lambda>reference.
          bind_ok (resolveLocalArtifactSource configDir (lar_sourcePath reference)) (\<lambda>source.
            Ok [\<lparr>ra_Identifier = lar_identifier reference, ra_Source = source\<rparr>]))))"

text \<open>A source factory says there is no source with \<open>None\<close> (its second result false).\<close>

definition source_Collect :: "string \<Rightarrow> SourceRef option result \<Rightarrow> RequiredArtifact list result" where
  "source_Collect kind newSource =
     bind_ok newSource (\<lambda>source.
       case source of None \<Rightarrow> Ok []
       | Some s \<Rightarrow> bind_ok (SingletonIdentifier kind) (\<lambda>identifier.
           Ok [\<lparr>ra_Identifier = identifier, ra_Source = s\<rparr>]))"

definition localFileSource :: "client_env \<Rightarrow> string \<Rightarrow> bool \<Rightarrow> SourceRef option result" where
  "localFileSource env sourcePath required =
     (let p = path_Clean sourcePath
      in case ce_Stat env p of
           NotExist \<Rightarrow> if required then Fail (''default artifact source '' @ Quote p @ '' does not exist'') else Ok None
         | StatError e \<Rightarrow> Inl e
         | IsDir \<Rightarrow> Fail (''default artifact source '' @ Quote p @ '' is a directory'')
         | IsFile \<Rightarrow> Ok (Some \<lparr>sr_Type = SourceTypeLocalFS, sr_Ref = p, sr_Data = []\<rparr>))"

definition defaultAuthFileSource :: "client_env \<Rightarrow> SourceRef option result" where
  "defaultAuthFileSource env =
     (let sourcePath = TrimSpace (ce_RegistryAuthFile env)
      in if sourcePath \<noteq> [] then localFileSource env sourcePath True
         else localFileSource env (ce_ConfigAuthFile env) False)"

definition defaultAuthorizedKeysSource :: "client_env \<Rightarrow> SourceRef option result" where
  "defaultAuthorizedKeysSource env =
     bind_ok (ce_UserHomeDir env) (\<lambda>homeDir.
       case find (ce_Exists env) (map (\<lambda>f. path_Join [homeDir, ''.ssh'', f]) [''id_rsa.pub'', ''id_ed25519.pub'']) of
         None \<Rightarrow> Ok None
       | Some publicKeyPath \<Rightarrow>
           (case ce_Stat env publicKeyPath of
              NotExist \<Rightarrow> Fail ''file does not exist''
            | StatError e \<Rightarrow> Inl e
            | IsDir \<Rightarrow> Fail (''default SSH public key source '' @ Quote publicKeyPath @ '' is a directory'')
            | IsFile \<Rightarrow> bind_ok (ce_ReadFile env publicKeyPath) (\<lambda>content.
                let line = TrimSpace content
                in if line = [] then Fail (''default SSH public key source '' @ Quote publicKeyPath @ '' is empty'')
                   else Ok (Some \<lparr>sr_Type = SourceTypeInline, sr_Ref = ''authorized_keys'',
                          sr_Data = line @ [CHR 0x0A]\<rparr>))))"

text \<open>
  \<open>runCollectors\<close>: a collector is its kind and what its \<open>Collect\<close> returns for the
  context. \<open>seen\<close> maps an identifier to the kind that produced it.
\<close>

fun add_artifacts ::
  "string \<Rightarrow> RequiredArtifact list \<Rightarrow> RequiredArtifact list \<times> (string \<rightharpoonup> string) \<Rightarrow>
   (RequiredArtifact list \<times> (string \<rightharpoonup> string)) result" where
  "add_artifacts kind [] st = Ok st"
| "add_artifacts kind (a # as) (acc, seen) =
     (case seen (ra_Identifier a) of
        Some prev \<Rightarrow> Fail (''artifact identifier '' @ Quote (ra_Identifier a) @ '' produced by both ''
                       @ Quote prev @ '' and '' @ Quote kind @ '' collectors'')
      | None \<Rightarrow> add_artifacts kind as (acc @ [a], seen(ra_Identifier a \<mapsto> kind)))"

fun run_from ::
  "(string \<times> RequiredArtifact list result) list \<Rightarrow> RequiredArtifact list \<times> (string \<rightharpoonup> string) \<Rightarrow>
   RequiredArtifact list result" where
  "run_from [] st = Ok (fst st)"
| "run_from ((kind, got) # cs) st =
     bind_ok (wrap_error kind got) (\<lambda>as. bind_ok (add_artifacts kind as st) (run_from cs))"

definition runCollectors :: "(string \<times> RequiredArtifact list result) list \<Rightarrow> RequiredArtifact list result" where
  "runCollectors collectors = run_from collectors ([], \<lambda>_. None)"

definition defaultCollectors ::
  "client_env \<Rightarrow> Config \<Rightarrow> string \<Rightarrow> (string \<times> RequiredArtifact list result) list" where
  "defaultCollectors env config configDir =
     [(KindDockerfile, configFile_Collect [''build'', ''dockerfile''] newDockerfileReference config configDir),
      (KindAuthFile, source_Collect KindAuthFile (defaultAuthFileSource env)),
      (KindPubKey, source_Collect KindPubKey (defaultAuthorizedKeysSource env))]"

definition CollectArtifacts :: "client_env \<Rightarrow> Config \<Rightarrow> string \<Rightarrow> RequiredArtifact list result" where
  "CollectArtifacts env config configDir = runCollectors (defaultCollectors env config configDir)"

section \<open>Shape of identifiers\<close>

lemma normalizeResourceKind_Ok:
  "normalizeResourceKind kind = Inr nk \<Longrightarrow> nk = TrimSpace kind \<and> normal_seg nk"
  by (auto simp: normalizeResourceKind_def normal_seg_def Contains_char Let_def split: if_splits)

lemma normalizeResourceKind_again: "normalizeResourceKind kind = Inr nk \<Longrightarrow> normalizeResourceKind nk = Inr nk"
  by (auto simp: normalizeResourceKind_def Let_def split: if_splits)

lemma resource_seg: "normal_seg ResourceNamespace"
  by (simp add: normal_seg_def ResourceNamespace_def)

lemma resource_join:
  assumes "normal_seg nk" "n \<noteq> []"
  shows "path_Join [ResourceNamespace, nk, PathEscape n] =
    Join (if n = ''.'' then [ResourceNamespace, nk] else if n = ''..'' then [ResourceNamespace]
          else [ResourceNamespace, nk, PathEscape n]) ''/''"
proof -
  let ?ws = "[ResourceNamespace, nk, PathEscape n]"
  have ne: "ResourceNamespace \<noteq> []" by (simp add: ResourceNamespace_def)
  have "split_on (CHR ''/'') (Join ?ws ''/'') = ?ws"
    using assms resource_seg PathEscape_plain [of "CHR ''/''" n]
    by (intro Join_split_on) (auto simp: normal_seg_def)
  moreover have "\<not> rooted (Join ?ws ''/'')" by (intro rooted_Join_normal) (simp_all add: resource_seg)
  moreover have "clean_segs False ?ws = (if n = ''.'' then [ResourceNamespace, nk]
      else if n = ''..'' then [ResourceNamespace] else ?ws)"
    using assms resource_seg PathEscape_normal [of n] PathEscape_dots [of n]
    by (auto simp: clean_segs_def) (simp_all add: clean_step_def normal_seg_def)
  ultimately show ?thesis by (simp add: path_Join_def ne path_Clean_def of_segs_def)
qed

lemma resourceIdentifier_Ok:
  assumes "resourceIdentifier kind n = Inr x"
  shows "\<exists>nk. normalizeResourceKind kind = Inr nk \<and> TrimSpace n \<noteq> [] \<and>
    x = Join (if n = ''.'' then [ResourceNamespace, nk] else if n = ''..'' then [ResourceNamespace]
          else [ResourceNamespace, nk, PathEscape n]) ''/''"
proof (cases "normalizeResourceKind kind")
  case (Inr nk)
  with assms have n: "TrimSpace n \<noteq> []" "x = path_Join [ResourceNamespace, nk, PathEscape n]"
    by (auto simp: resourceIdentifier_def split: if_splits)
  then have "n \<noteq> []" by auto
  with n Inr show ?thesis using resource_join [of nk n] normalizeResourceKind_Ok [OF Inr] by auto
qed (use assms in \<open>simp add: resourceIdentifier_def\<close>)

lemma HasPrefix_of_segs: "HasPrefix (of_segs True segs) ''/''"
  by (simp add: of_segs_def HasPrefix_iff)

lemma clean_relative:
  assumes "path_Clean p \<noteq> ''.''" "\<not> HasPrefix (path_Clean p) ''/''"
    "path_Clean p \<noteq> ''..''" "\<not> HasPrefix (path_Clean p) ''../''"
  shows "path_segs p \<noteq> [] \<and> (\<forall>s \<in> set (path_segs p). normal_seg s) \<and> path_Clean p = Join (path_segs p) ''/''"
proof -
  have r: "\<not> rooted p"
    using assms(2) HasPrefix_of_segs [of "path_segs p"] by (cases "rooted p") (simp_all add: path_Clean_segs)
  with assms(1) have ne: "path_segs p \<noteq> []" by (auto simp: path_Clean_segs of_segs_def)
  with r have eq: "path_Clean p = Join (path_segs p) ''/''" by (simp add: path_Clean_segs of_segs_def)
  obtain k ns where kns: "path_segs p = replicate k ''..'' @ ns" "\<forall>s \<in> set ns. normal_seg s"
    using path_segs_shape by blast
  have "k = 0"
  proof (cases k)
    case (Suc j)
    then have "path_segs p = ''..'' # (replicate j ''..'' @ ns)" using kns by simp
    then have "path_Clean p = ''..'' \<or> HasPrefix (path_Clean p) ''../''"
      by (cases "replicate j ''..'' @ ns") (auto simp: eq)
    with assms show ?thesis by blast
  qed
  with ne eq kns show ?thesis by auto
qed

lemma normalizeIdentifier_shape:
  assumes "normalizeIdentifier s = Inr x"
  shows "\<exists>ws. ws \<noteq> [] \<and> (\<forall>w \<in> set ws. normal_seg w) \<and> x = Join ws ''/''"
proof (cases "HasPrefix (TrimSpace s) (ResourceNamespace @ ''/'')")
  case True
  with assms obtain kind n where "resourceIdentifier kind n = Inr x"
    by (auto simp: normalizeIdentifier_def Let_def bind_ok_def split: if_splits sum.splits)
  from resourceIdentifier_Ok [OF this] obtain nk where nk: "normalizeResourceKind kind = Inr nk" "TrimSpace n \<noteq> []"
    "x = Join (if n = ''.'' then [ResourceNamespace, nk] else if n = ''..'' then [ResourceNamespace]
          else [ResourceNamespace, nk, PathEscape n]) ''/''" by blast
  then have "normal_seg nk" "n \<noteq> []" using normalizeResourceKind_Ok by auto
  with nk resource_seg PathEscape_normal [of n] show ?thesis
    by (intro exI [of _ "if n = ''.'' then [ResourceNamespace, nk] else if n = ''..'' then [ResourceNamespace]
          else [ResourceNamespace, nk, PathEscape n]"]) auto
next
  case False
  with assms have "x = path_Clean (TrimSpace s)" "path_Clean (TrimSpace s) \<noteq> ''.''"
    "\<not> HasPrefix (path_Clean (TrimSpace s)) ''/''" "path_Clean (TrimSpace s) \<noteq> ''..''"
    "\<not> HasPrefix (path_Clean (TrimSpace s)) ''../''"
    by (auto simp: normalizeIdentifier_def Let_def split: if_splits)
  with clean_relative [of "TrimSpace s"] show ?thesis by blast
qed

lemma resource_identifier_again:
  assumes "resourceIdentifier kind n = Inr x" "n \<noteq> ''.''" "n \<noteq> ''..''"
  shows "normalizeIdentifier x = Inr x"
proof -
  from resourceIdentifier_Ok [OF assms(1)] assms(2,3) obtain nk where
    nk: "normalizeResourceKind kind = Inr nk" "TrimSpace n \<noteq> []"
    "x = Join [ResourceNamespace, nk, PathEscape n] ''/''" by auto
  then have n: "n \<noteq> []" "PathEscape n \<noteq> []" "normal_seg nk" using normalizeResourceKind_Ok by (auto simp: PathEscape_ne)
  have x: "x = ''resource/'' @ nk @ ''/'' @ PathEscape n" by (simp add: nk(3) ResourceNamespace_def)
  have "\<not> is_space (last x)" using n(2) PathEscape_plain [of "last (PathEscape n)" n] by (simp add: x)
  moreover have "\<not> is_space (hd x)" by (simp add: x is_space_def)
  ultimately have trim: "TrimSpace x = x" by (simp add: TrimSpace_def trim_by_id)
  have pre: "HasPrefix x (ResourceNamespace @ ''/'')" by (simp add: x ResourceNamespace_def)
  have parts: "split_on (CHR ''/'') x = [ResourceNamespace, nk, PathEscape n]"
    unfolding nk(3) using n(1,3) assms(2,3) resource_seg PathEscape_normal by (intro split_normal) auto
  have "resourceIdentifier nk n = Inr x"
    using assms(1) nk(1) normalizeResourceKind_again [OF nk(1)] by (simp add: resourceIdentifier_def)
  moreover have "x \<noteq> []" by (simp add: x)
  ultimately show ?thesis
    using normalizeResourceKind_again [OF nk(1)] n(1)
    by (simp add: normalizeIdentifier_def trim pre parts Let_def)
qed

text \<open>
  A normalised identifier never escapes the directory it is joined to: it is relative,
  non-empty, and its segments are names, none of them empty, \<open>.\<close> or \<open>..\<close>. For every input,
  also those that mix escapes, dots and the resource namespace.
\<close>

theorem normalized_identifier_stays_inside:
  assumes "NormalizeIdentifier s = Inr x"
  shows "x \<noteq> [] \<and> hd x \<noteq> CHR ''/'' \<and>
    (\<forall>seg \<in> set (split_on (CHR ''/'') x). seg \<notin> {[], ''.'', ''..''})"
proof -
  from assms normalizeIdentifier_shape obtain ws where
    ws: "ws \<noteq> []" "\<forall>w \<in> set ws. normal_seg w" "x = Join ws ''/''"
    unfolding NormalizeIdentifier_def by blast
  then have split: "split_on (CHR ''/'') x = ws" by (simp add: split_normal)
  have ne: "x \<noteq> []"
  proof
    assume "x = []"
    with split have "ws = [[]]" by simp
    with ws(2) show False by (simp add: normal_seg_def)
  qed
  have "\<not> rooted x" using ws(1,2) unfolding ws(3) by (intro rooted_Join_normal) auto
  with ne have "hd x \<noteq> CHR ''/''" by (cases x) (auto simp: rooted_def)
  moreover have "\<forall>seg \<in> set ws. seg \<notin> {[], ''.'', ''..''}" using ws(2) by (auto simp: normal_seg_def)
  ultimately show ?thesis using ne split by simp
qed

theorem normalized_identifier_stays_inside_witness:
  "\<exists>x. NormalizeIdentifier ''resource/d/..%2Fe'' = Inr x
     \<and> (\<forall>seg \<in> set (split_on (CHR ''/'') x). seg \<notin> {[], ''.'', ''..''})"
proof -
  have "NormalizeIdentifier ''resource/d/..%2Fe'' = Inr ''resource/d/..%2Fe''"
    by code_simp
  from normalized_identifier_stays_inside [OF this] this show ?thesis by blast
qed

text \<open>
  Client and agent agree on resource identifiers: the identifier of a kind and a
  logical name normalises to itself on the other side, and no other kind (up to spaces
  around it) or logical name has the same identifier. The logical names \<open>.\<close> and \<open>..\<close> are
  excepted, escaping leaves them as they are.
\<close>

theorem resource_identifier_faithful:
  assumes "ResourceIdentifier kind n = Inr x" "n \<notin> {''.'', ''..''}"
  shows "NormalizeIdentifier x = Inr x \<and>
    (\<forall>kind' n'. ResourceIdentifier kind' n' = Inr x \<and> n' \<notin> {''.'', ''..''} \<longrightarrow>
       TrimSpace kind' = TrimSpace kind \<and> n' = n)"
proof (intro conjI allI impI)
  show "NormalizeIdentifier x = Inr x"
    using assms by (simp add: ResourceIdentifier_def NormalizeIdentifier_def resource_identifier_again)
  have parts: "split_on (CHR ''/'') x = [ResourceNamespace, TrimSpace k, PathEscape m]"
    if r: "ResourceIdentifier k m = Inr x" "m \<notin> {''.'', ''..''}" for k m
  proof -
    from resourceIdentifier_Ok [OF r(1) [unfolded ResourceIdentifier_def]] r(2) obtain nk where
      nk: "normalizeResourceKind k = Inr nk" "TrimSpace m \<noteq> []"
      "x = Join [ResourceNamespace, nk, PathEscape m] ''/''" by auto
    then have "nk = TrimSpace k" "normal_seg nk" "m \<noteq> []" using normalizeResourceKind_Ok by auto
    with nk(3) r(2) resource_seg PathEscape_normal [of m] show ?thesis
      using split_normal [of "[ResourceNamespace, nk, PathEscape m]"] by simp
  qed
  fix kind' n' assume "ResourceIdentifier kind' n' = Inr x \<and> n' \<notin> {''.'', ''..''}"
  with parts [of kind' n'] parts [of kind n] assms
  have "TrimSpace kind' = TrimSpace kind" "PathEscape n' = PathEscape n" by simp_all
  then show "TrimSpace kind' = TrimSpace kind" "n' = n" by (auto dest: PathEscape_inj)
qed

theorem resource_identifier_faithful_witness:
  "\<exists>x. ResourceIdentifier ''d'' ''../D f'' = Inr x \<and> NormalizeIdentifier x = Inr x"
proof -
  have "ResourceIdentifier ''d'' ''../D f'' = Inr ''resource/d/..%2FD%20f''"
    by (simp add: ResourceIdentifier_def resourceIdentifier_def normalizeResourceKind_def) code_simp
  from resource_identifier_faithful [OF this] this show ?thesis by simp
qed

section \<open>What the collectors return\<close>

lemma add_artifacts_Ok:
  assumes "add_artifacts kind as (acc, seen) = Inr (acc', seen')"
    "distinct (map ra_Identifier acc)" "dom seen = ra_Identifier ` set acc"
  shows "acc' = acc @ as \<and> distinct (map ra_Identifier acc') \<and> dom seen' = ra_Identifier ` set acc'"
  using assms
proof (induction as arbitrary: acc seen)
  case (Cons a as)
  then have none: "seen (ra_Identifier a) = None" by (auto split: option.splits)
  then have "ra_Identifier a \<notin> ra_Identifier ` set acc" using Cons.prems(3) by (metis domIff)
  then have d: "distinct (map ra_Identifier (acc @ [a]))"
    "dom (seen(ra_Identifier a \<mapsto> kind)) = ra_Identifier ` set (acc @ [a])"
    using Cons.prems(2,3) by auto
  have "add_artifacts kind as (acc @ [a], seen(ra_Identifier a \<mapsto> kind)) = Inr (acc', seen')"
    using Cons.prems(1) none by simp
  from Cons.IH [OF this d] show ?case by (metis append.assoc append_Cons append_Nil)
qed auto

lemma run_from_Ok:
  assumes "run_from cs (acc, seen) = Inr as"
    "distinct (map ra_Identifier acc)" "dom seen = ra_Identifier ` set acc"
  shows "distinct (map ra_Identifier as) \<and>
    (\<exists>gots. list_all2 (\<lambda>c got. snd c = Inr got) cs gots \<and> as = acc @ concat gots)"
  using assms
proof (induction cs arbitrary: acc seen)
  case (Cons c cs)
  obtain kind g where c: "c = (kind, g)" by (cases c)
  with Cons.prems obtain got acc' seen' where got: "g = Inr got" "add_artifacts kind got (acc, seen) = Inr (acc', seen')"
    "run_from cs (acc', seen') = Inr as"
    by (auto simp: bind_ok_def wrap_error_def split: sum.splits)
  from add_artifacts_Ok [OF got(2) Cons.prems(2,3)] Cons.IH [OF got(3)]
  obtain gots where "distinct (map ra_Identifier as)" "list_all2 (\<lambda>c got. snd c = Inr got) cs gots"
    "acc' = acc @ got" "as = acc' @ concat gots" by blast
  then show ?case using c got(1) by (auto intro!: exI [of _ "got # gots"])
qed auto

lemma source_Collect_id:
  assumes "source_Collect kind src = Inr as" "a \<in> set as" "kind \<noteq> ''.''" "kind \<noteq> ''..''"
  shows "normalizeIdentifier (ra_Identifier a) = Inr (ra_Identifier a)"
proof -
  from assms(1,2) have "SingletonIdentifier kind = Inr (ra_Identifier a)"
    by (auto simp: source_Collect_def bind_ok_def split: sum.splits option.splits)
  with assms(3,4) show ?thesis by (auto simp: SingletonIdentifier_def intro: resource_identifier_again)
qed

lemma newDockerfileReference_id:
  assumes "newDockerfileReference p = Inr r"
  shows "lar_identifier r = ''resource'' \<or> normalizeIdentifier (lar_identifier r) = Inr (lar_identifier r)"
proof -
  let ?n = "path_Base (map (\<lambda>c. if c = CHR 0x5C then CHR ''/'' else c) p)"
  from assms have r: "resourceIdentifier KindDockerfile ?n = Inr (lar_identifier r)" "?n \<noteq> ''.''"
    by (auto simp: newDockerfileReference_def Let_def bind_ok_def split: if_splits sum.splits)
  show ?thesis
  proof (cases "?n = ''..''")
    case True
    have "resourceIdentifier KindDockerfile ''..'' = Inr ''resource''" by code_simp
    with r True show ?thesis by simp
  qed (use r in \<open>auto intro: resource_identifier_again\<close>)
qed

lemma collected_shape:
  assumes "CollectArtifacts env config configDir = Inr as"
  shows "distinct (map ra_Identifier as)
    \<and> (config [''build'', ''dockerfile''] \<noteq> None \<longrightarrow>
         as \<noteq> [] \<and> DockerfileIdentifier config = Inr (ra_Identifier (hd as)))
    \<and> (\<forall>a \<in> set as. NormalizeIdentifier (ra_Identifier a) = Inr (ra_Identifier a) \<or> ra_Identifier a = ''resource'')"
proof -
  let ?d = "configFile_Collect [''build'', ''dockerfile''] newDockerfileReference config configDir"
  from run_from_Ok [of "defaultCollectors env config configDir" "[]" "\<lambda>_. None" as] assms
  obtain gots where dist: "distinct (map ra_Identifier as)" and all: "as = concat gots"
    "list_all2 (\<lambda>c got. snd c = Inr got) (defaultCollectors env config configDir) gots"
    by (auto simp: CollectArtifacts_def runCollectors_def)
  then obtain d a b where got: "as = d @ a @ b" "?d = Inr d"
    "source_Collect KindAuthFile (defaultAuthFileSource env) = Inr a"
    "source_Collect KindPubKey (defaultAuthorizedKeysSource env) = Inr b"
    by (auto simp: defaultCollectors_def list_all2_Cons1)
  have docker: "config [''build'', ''dockerfile''] = None \<and> d = [] \<or>
      (\<exists>x p r. d = [x] \<and> DockerfileIdentifier config = Inr (ra_Identifier x) \<and>
         newDockerfileReference p = Inr r \<and> ra_Identifier x = lar_identifier r)"
    using got(2)
    by (auto simp: configFile_Collect_def DockerfileIdentifier_def bind_ok_def split: if_splits sum.splits) blast
  have "normalizeIdentifier (ra_Identifier x) = Inr (ra_Identifier x) \<or> ra_Identifier x = ''resource''"
    if x: "x \<in> set as" for x
  proof -
    consider "x \<in> set d" | "x \<in> set a" | "x \<in> set b" using x got(1) by auto
    then show ?thesis
    proof cases
      case 1
      with docker newDockerfileReference_id show ?thesis by fastforce
    qed (use source_Collect_id [OF got(3)] source_Collect_id [OF got(4)] in
      \<open>auto simp: KindAuthFile_def KindPubKey_def\<close>)
  qed
  with dist docker got(1) show ?thesis by (auto simp: NormalizeIdentifier_def)
qed

text \<open>
  What the client collects for a configuration: no two artifacts share an identifier;
  when the configuration names a Dockerfile, the first artifact has exactly the identifier
  the agent's engine computes for it; and every identifier survives the agent's
  normalisation, but for a Dockerfile path that ends in \<open>..\<close>, whose identifier is the bare
  namespace.
\<close>

theorem collected_artifacts_match_agent:
  assumes "CollectArtifacts env config configDir = Inr as"
  shows "distinct (map ra_Identifier as)
    \<and> (config [''build'', ''dockerfile''] \<noteq> None \<longrightarrow>
         as \<noteq> [] \<and> DockerfileIdentifier config = Inr (ra_Identifier (hd as)))
    \<and> (\<forall>a \<in> set as. NormalizeIdentifier (ra_Identifier a) = Inr (ra_Identifier a) \<or> ra_Identifier a = ''resource'')"
  by (rule collected_shape [OF assms])

definition sample_env :: client_env where
  "sample_env = \<lparr>ce_RegistryAuthFile = [], ce_ConfigAuthFile = ''/c/auth.json'', ce_UserHomeDir = Inr ''/h'',
     ce_Stat = (\<lambda>p. IsFile), ce_Exists = (\<lambda>p. True), ce_ReadFile = (\<lambda>p. Inr ''ssh-rsa k'')\<rparr>"

definition sample_config :: Config where
  "sample_config key = (if key = [''build'', ''dockerfile''] then Some (CfgString ''../D'') else None)"

theorem collected_artifacts_match_agent_witness:
  "\<exists>as. CollectArtifacts sample_env sample_config ''/p'' = Inr as
     \<and> DockerfileIdentifier sample_config = Inr (ra_Identifier (hd as)) \<and> length as = 3"
proof -
  have ok: "is_ok (CollectArtifacts sample_env sample_config ''/p'')" by code_simp
  then obtain as where as: "CollectArtifacts sample_env sample_config ''/p'' = Inr as"
    by (auto simp: is_ok_iff)
  have "(case CollectArtifacts sample_env sample_config ''/p'' of Inr as \<Rightarrow> length as | _ \<Rightarrow> 0) = 3" by code_simp
  with as collected_artifacts_match_agent [OF as] show ?thesis by (auto simp: sample_config_def)
qed

end
