(* ===== verification/Format.thy ===== *)
theory Format
  imports Identifier
begin

text \<open>
  The parts of Go's \<open>fmt\<close>, \<open>strconv\<close> and \<open>strings\<close> that build and read command
  lines, and the piece of the POSIX shell that reads them back:

  \<^item> \<open>Sprintf\<close> with the verbs the engine's templates use (\<open>%v %s %d %o %q\<close>, explicit
    indexes \<open>%[n]v\<close>, and the texts Go puts for a missing or an extra argument);
  \<^item> \<open>Itoa\<close> and \<open>Atoi\<close> with the 64-bit range check;
  \<^item> \<open>ReplaceAll\<close> for a non-empty pattern;
  \<^item> \<open>sh_words\<close>: how a POSIX shell splits a simple command into words (blanks,
    single quotes, backslash); a character with any other meaning to the shell
    gives \<open>None\<close>. It is the specification the quoting functions are proved against.
\<close>

section \<open>Characters that are awkward inside string literals\<close>

abbreviation SQ :: char where "SQ \<equiv> CHR 0x27"
abbreviation DQ :: char where "DQ \<equiv> CHR 0x22"
abbreviation BSL :: char where "BSL \<equiv> CHR 0x5C"
abbreviation NL :: char where "NL \<equiv> CHR 0x0A"
abbreviation TAB :: char where "TAB \<equiv> CHR 0x09"

section \<open>Numbers\<close>

definition digit_char :: "nat \<Rightarrow> char" where "digit_char d = char_of (48 + d)"

fun nat_text :: "nat \<Rightarrow> nat \<Rightarrow> string" where
  "nat_text b n = (if b < 2 \<or> n < b then [digit_char n] else nat_text b (n div b) @ [digit_char (n mod b)])"

declare nat_text.simps [simp del]

definition Itoa :: "int \<Rightarrow> string" where
  "Itoa i = (if i < 0 then CHR ''-'' # nat_text 10 (nat (- i)) else nat_text 10 (nat i))"

definition is_digit :: "char \<Rightarrow> bool" where
  "is_digit c = (48 \<le> char_code c \<and> char_code c \<le> 57)"

definition digits_value :: "string \<Rightarrow> nat" where
  "digits_value s = foldl (\<lambda>acc c. 10 * acc + (char_code c - 48)) 0 s"

definition parse_digits :: "string \<Rightarrow> nat option" where
  "parse_digits s = (if s \<noteq> [] \<and> list_all is_digit s then Some (digits_value s) else None)"

text \<open>\<open>strconv.Atoi\<close>: an optional sign, decimal digits, and the range of a 64-bit \<open>int\<close>.\<close>

definition Atoi :: "string \<Rightarrow> int option" where
  "Atoi s =
     (let neg = (s \<noteq> [] \<and> hd s = CHR ''-'');
          body = (if s \<noteq> [] \<and> (hd s = CHR ''-'' \<or> hd s = CHR ''+'') then tl s else s)
      in case parse_digits body of
           None \<Rightarrow> None
         | Some n \<Rightarrow>
             (let v = (if neg then - int n else int n)
              in if - (2 ^ 63) \<le> v \<and> v < 2 ^ 63 then Some v else None))"

lemma digit_char_code: "d < 10 \<Longrightarrow> char_code (digit_char d) = 48 + d"
  by (simp add: digit_char_def of_char_of)

lemma digit_char_is_digit: "d < 10 \<Longrightarrow> is_digit (digit_char d)"
  by (simp add: is_digit_def digit_char_code)

lemma nat_text_small: "n < 10 \<Longrightarrow> nat_text 10 n = [digit_char n]"
  by (simp add: nat_text.simps)

lemma nat_text_step: "\<not> n < 10 \<Longrightarrow> nat_text 10 n = nat_text 10 (n div 10) @ [digit_char (n mod 10)]"
  by (subst nat_text.simps) simp

lemma nat_text_digits: "list_all is_digit (nat_text 10 n) \<and> nat_text 10 n \<noteq> []"
proof (induction n rule: less_induct)
  case (less n)
  show ?case
  proof (cases "n < 10")
    case True
    then show ?thesis by (simp add: nat_text_small digit_char_is_digit)
  next
    case False
    then have "list_all is_digit (nat_text 10 (n div 10))" using less by simp
    with False show ?thesis by (simp add: nat_text_step digit_char_is_digit)
  qed
qed

lemma digits_value_snoc: "digits_value (s @ [c]) = 10 * digits_value s + (char_code c - 48)"
  by (simp add: digits_value_def)

lemma digits_value_nat_text: "digits_value (nat_text 10 n) = n"
proof (induction n rule: less_induct)
  case (less n)
  show ?case
  proof (cases "n < 10")
    case True
    then show ?thesis by (simp add: nat_text_small digits_value_def digit_char_code)
  next
    case False
    then have "digits_value (nat_text 10 (n div 10)) = n div 10" using less by simp
    with False show ?thesis by (simp add: nat_text_step digits_value_snoc digit_char_code)
  qed
qed

lemma parse_digits_nat_text: "parse_digits (nat_text 10 n) = Some n"
  by (simp add: parse_digits_def nat_text_digits digits_value_nat_text)

lemma nat_text_hd: "is_digit (hd (nat_text 10 n))" "nat_text 10 n \<noteq> []"
  using nat_text_digits [of n] by (cases "nat_text 10 n"; simp)+

lemma Atoi_Itoa: "- (2 ^ 63) \<le> i \<Longrightarrow> i < 2 ^ 63 \<Longrightarrow> Atoi (Itoa i) = Some i"
proof -
  assume b: "- (2 ^ 63) \<le> i" "i < 2 ^ 63"
  have no: "hd (nat_text 10 n) \<noteq> CHR ''-''" "hd (nat_text 10 n) \<noteq> CHR ''+''" for n
    using nat_text_hd(1) [of n] by (auto simp: is_digit_def)
  show ?thesis
    using b by (cases "i < 0")
      (simp_all add: Atoi_def Itoa_def Let_def parse_digits_nat_text no nat_text_hd(2))
qed

lemma Itoa_digits: "c \<in> set (Itoa i) \<Longrightarrow> is_digit c \<or> c = CHR ''-''"
  using nat_text_digits [of "nat i"] nat_text_digits [of "nat (- i)"]
  by (auto simp: Itoa_def list_all_iff split: if_splits)

lemma Itoa_not_Nil: "Itoa i \<noteq> []"
  by (simp add: Itoa_def nat_text_hd(2))

section \<open>Sprintf\<close>

datatype fmt_arg = FStr string | FNum nat

definition fmt_verb :: "char \<Rightarrow> fmt_arg \<Rightarrow> string" where
  "fmt_verb v a =
     (case a of
        FStr s \<Rightarrow>
          if v = CHR ''q'' then Quote s
          else if v = CHR ''d'' \<or> v = CHR ''o'' then ''%!'' @ [v] @ ''(string='' @ s @ '')'' else s
      | FNum n \<Rightarrow> if v = CHR ''o'' then nat_text 8 n else nat_text 10 n)"

definition fmt_type :: "fmt_arg \<Rightarrow> string" where
  "fmt_type a = (case a of FStr s \<Rightarrow> ''string='' @ s | FNum n \<Rightarrow> ''fs.FileMode='' @ nat_text 10 n)"

text \<open>
  \<open>args\<close> all arguments, \<open>n\<close> the next one to use, \<open>reordered\<close> whether an explicit
  index was seen (Go then does not report the arguments left over).
\<close>

fun sprintf_from :: "fmt_arg list \<Rightarrow> nat \<Rightarrow> bool \<Rightarrow> string \<Rightarrow> string" where
  "sprintf_from args n reordered [] =
     (if reordered \<or> length args \<le> n then []
      else ''%!(EXTRA '' @ Join (map fmt_type (drop n args)) '', '' @ '')'')"
| "sprintf_from args n reordered (c # cs) =
     (if c \<noteq> CHR ''%'' then c # sprintf_from args n reordered cs
      else (case cs of
          [] \<Rightarrow> ''%!(NOVERB)''
        | v # rest \<Rightarrow>
            (if v = CHR ''['' \<and> length rest \<ge> 3 \<and> is_digit (rest ! 0) \<and> rest ! 1 = CHR '']'' then
               (let i = char_code (rest ! 0) - 49; verb = rest ! 2
                in (if i < length args then fmt_verb verb (args ! i) else ''%!'' @ [verb] @ ''(BADINDEX)'')
                   @ sprintf_from args (Suc i) True (drop 3 rest))
             else (if n < length args then fmt_verb v (args ! n) else ''%!'' @ [v] @ ''(MISSING)'')
                   @ sprintf_from args (Suc n) reordered rest)))"

definition Sprintf :: "string \<Rightarrow> fmt_arg list \<Rightarrow> string" where
  "Sprintf format args = sprintf_from args 0 False format"

section \<open>Replacing\<close>

text \<open>\<open>strings.ReplaceAll\<close>; the callers never pass an empty pattern.\<close>

function ReplaceAll :: "string \<Rightarrow> string \<Rightarrow> string \<Rightarrow> string" where
  "ReplaceAll [] old new = []"
| "ReplaceAll (c # cs) old new =
     (if old \<noteq> [] \<and> HasPrefix (c # cs) old then new @ ReplaceAll (drop (length old) (c # cs)) old new
      else c # ReplaceAll cs old new)"
  by pat_completeness auto
termination
proof (relation "measure (\<lambda>(s, old, new). length s)", goal_cases)
  case (2 c cs old new)
  then show ?case by (cases old) auto
qed auto

lemma ReplaceAll_char: "ReplaceAll s [a] new = concat (map (\<lambda>c. if c = a then new else [c]) s)"
  by (induction s) auto

lemma ReplaceAll_absent: "old \<noteq> [] \<Longrightarrow> hd old \<notin> set s \<Longrightarrow> ReplaceAll s old new = s"
  by (induction s) (auto simp: HasPrefix_iff neq_Nil_conv)

section \<open>How the shell reads words\<close>

definition sh_special :: "char \<Rightarrow> bool" where
  "sh_special c = (c \<in> set [DQ, NL, CHR ''|'', CHR ''&'', CHR '';'', CHR ''<'', CHR ''>'', CHR ''('',
     CHR '')'', CHR ''$'', CHR 0x60, CHR ''*'', CHR ''?'', CHR ''['', CHR ''#'', CHR ''~'', CHR ''='', CHR ''%'',
     CHR ''{'', CHR ''}'', CHR ''!''])"

datatype sh_mode = Unquoted | SingleQuoted

text \<open>
  \<open>cur\<close> is the word being read, \<open>None\<close> between words, so that \<open>''\<close> in the input is an
  empty word and not nothing.
\<close>

fun sh_scan :: "sh_mode \<Rightarrow> string option \<Rightarrow> string \<Rightarrow> string list option" where
  "sh_scan Unquoted cur [] = Some (case cur of None \<Rightarrow> [] | Some w \<Rightarrow> [w])"
| "sh_scan SingleQuoted cur [] = None"
| "sh_scan SingleQuoted cur (c # cs) =
     (if c = SQ then sh_scan Unquoted cur cs
      else sh_scan SingleQuoted (Some (case cur of None \<Rightarrow> [c] | Some w \<Rightarrow> w @ [c])) cs)"
| "sh_scan Unquoted cur (c # cs) =
     (if c = SQ then sh_scan SingleQuoted (Some (case cur of None \<Rightarrow> [] | Some w \<Rightarrow> w)) cs
      else if c = BSL then
        (case cs of [] \<Rightarrow> None
         | d # ds \<Rightarrow> if d = NL then None
                    else sh_scan Unquoted (Some (case cur of None \<Rightarrow> [d] | Some w \<Rightarrow> w @ [d])) ds)
      else if c = CHR '' '' \<or> c = TAB then
        (case cur of None \<Rightarrow> sh_scan Unquoted None cs
         | Some w \<Rightarrow> map_option (\<lambda>ws. w # ws) (sh_scan Unquoted None cs))
      else if sh_special c then None
      else sh_scan Unquoted (Some (case cur of None \<Rightarrow> [c] | Some w \<Rightarrow> w @ [c])) cs)"

definition sh_words :: "string \<Rightarrow> string list option" where
  "sh_words s = sh_scan Unquoted None s"

definition plain_word :: "string \<Rightarrow> bool" where
  "plain_word w = (w \<noteq> [] \<and> (\<forall>c \<in> set w. \<not> sh_special c \<and> c \<notin> {SQ, BSL, CHR '' '', TAB}))"

section \<open>Quoting\<close>

definition shellSingleQuote :: "string \<Rightarrow> string" where
  "shellSingleQuote value = [SQ] @ ReplaceAll value [SQ] [SQ, BSL, SQ, SQ] @ [SQ]"

text \<open>The engine has the same function under a second name.\<close>

definition quoteShellArg :: "string \<Rightarrow> string" where
  "quoteShellArg value = [SQ] @ ReplaceAll value [SQ] [SQ, BSL, SQ, SQ] @ [SQ]"

lemma sh_scan_quoted:
  "sh_scan SingleQuoted (Some w) (ReplaceAll v [SQ] [SQ, BSL, SQ, SQ] @ SQ # rest) = sh_scan Unquoted (Some (w @ v)) rest"
  by (induction v arbitrary: w) (auto simp: ReplaceAll_char)

lemma sh_scan_quote_start:
  "sh_scan Unquoted cur (shellSingleQuote v @ rest)
   = sh_scan Unquoted (Some ((case cur of None \<Rightarrow> [] | Some w \<Rightarrow> w) @ v)) rest"
  by (cases cur) (simp_all add: shellSingleQuote_def sh_scan_quoted)

lemma quoteShellArg_eq: "quoteShellArg v = shellSingleQuote v"
  by (simp add: quoteShellArg_def shellSingleQuote_def)

lemma sh_scan_plain:
  "plain_word w \<Longrightarrow> sh_scan Unquoted (Some p) (w @ rest) = sh_scan Unquoted (Some (p @ w)) rest"
proof (induction w arbitrary: p)
  case (Cons c w)
  then show ?case by (cases "w = []") (auto simp: plain_word_def)
qed simp

lemma sh_scan_plain_start:
  "plain_word w \<Longrightarrow> sh_scan Unquoted None (w @ rest) = sh_scan Unquoted (Some w) rest"
proof (induction w)
  case (Cons c w)
  then show ?case
    by (cases "w = []") (auto simp: plain_word_def sh_scan_plain [unfolded plain_word_def])
qed (simp add: plain_word_def)

lemma sh_scan_blank:
  "sh_scan Unquoted (Some w) (CHR '' '' # rest) = map_option (\<lambda>ws. w # ws) (sh_scan Unquoted None rest)"
  "sh_scan Unquoted None (CHR '' '' # rest) = sh_scan Unquoted None rest"
  by simp_all

text \<open>A plain word, then a blank: the shell takes the word and goes on.\<close>

lemma sh_word_step:
  "plain_word w \<Longrightarrow> sh_scan Unquoted None (w @ CHR '' '' # rest) = map_option (\<lambda>ws. w # ws) (sh_scan Unquoted None rest)"
  by (simp only: sh_scan_plain_start sh_scan_blank)

lemma sh_words_quoted: "sh_scan Unquoted None (shellSingleQuote v) = Some [v]"
  using sh_scan_quote_start [of None v "[]"] by simp

end
