(* ===== verification/Staging.thy ===== *)
theory Staging
  imports Identifier
begin

text \<open>
  Where the agent keeps staged artifacts: \<open>internal/agent/names.go\<close>, \<open>staging_path.go\<close> and
  \<open>staging_provider.go\<close>. A project's artifacts are files under \<open>stagingDir/projectName\<close>, at
  the normalised identifier.
\<close>

text \<open>gRPC status codes that the handlers return, with the message.\<close>

datatype rpc_code = InvalidArgument | Internal | DataLoss | NotFound | FailedPrecondition | Unimplemented | Unavailable

datatype rpc_error = RpcErr rpc_code string

text \<open>The pattern \<open>^[a-zA-Z0-9][a-zA-Z0-9_.-]*$\<close>.\<close>

definition agentNamePattern :: "string \<Rightarrow> bool" where
  "agentNamePattern v =
     (case v of [] \<Rightarrow> False | c # cs \<Rightarrow> is_alnum c \<and> (\<forall>x \<in> set cs. is_alnum x \<or> x \<in> set ''_.-''))"

definition validateAgentName :: "string \<Rightarrow> string \<Rightarrow> err option" where
  "validateAgentName fld val =
     (if TrimSpace val = [] then Some (NewError (fld @ '' is required''))
      else if \<not> agentNamePattern val then Some (NewError (fld @ '' '' @ Quote val @ '' is invalid''))
      else None)"

definition validateRPCName :: "string \<Rightarrow> string \<Rightarrow> rpc_error option" where
  "validateRPCName fld val = map_option (\<lambda>e. RpcErr InvalidArgument (err_message e)) (validateAgentName fld val)"

record stagedArtifact =
  sa_identifier :: string
  sa_path :: string

definition projectStagingRoot :: "string \<Rightarrow> string \<Rightarrow> string result" where
  "projectStagingRoot stagingDir projectName =
     (case validateAgentName ''project_name'' projectName of
        Some e \<Rightarrow> Inl e
      | None \<Rightarrow> Ok (path_Join [stagingDir, projectName]))"

definition resolveProjectArtifact :: "string \<Rightarrow> string \<Rightarrow> string \<Rightarrow> stagedArtifact result" where
  "resolveProjectArtifact stagingDir projectName identifier =
     bind_ok (projectStagingRoot stagingDir projectName) (\<lambda>root.
       bind_ok (NormalizeIdentifier identifier) (\<lambda>normalized.
         let resolvedPath = path_Join (root # split_on (CHR ''/'') normalized)
         in case filepath_Rel root resolvedPath of
              None \<Rightarrow> Fail (''resolve artifact staging path for '' @ Quote identifier)
            | Some relativePath \<Rightarrow>
                if relativePath = ''..'' \<or> HasPrefix relativePath ''../''
                then Fail (''artifact identifier '' @ Quote identifier @ '' escapes the project staging directory'')
                else Ok \<lparr>sa_identifier = normalized, sa_path = resolvedPath\<rparr>))"

section \<open>The provider that the engine reads from\<close>

text \<open>\<open>read\<close> is \<open>os.ReadFile\<close>, \<open>exists\<close> is \<open>os.Stat\<close> without error.\<close>

record stagingResourceProvider =
  srp_stagingDir :: string
  srp_projectName :: string

definition srp_path :: "stagingResourceProvider \<Rightarrow> string \<Rightarrow> string result" where
  "srp_path p identifier =
     bind_ok (resolveProjectArtifact (srp_stagingDir p) (srp_projectName p) identifier) (\<lambda>a. Ok (sa_path a))"

definition FetchFile ::
  "(string \<Rightarrow> string result) \<Rightarrow> stagingResourceProvider \<Rightarrow> ResourceType \<Rightarrow> string \<Rightarrow> string result" where
  "FetchFile read p rt identifier =
     (if rt \<noteq> ResourceTypeFile then Fail ''staging resource type is not supported''
      else bind_ok (wrap_error (''invalid staging resource '' @ Quote identifier) (srp_path p identifier)) (\<lambda>f.
             wrap_error (''staging resource '' @ Quote identifier @ '' not found'') (read f)))"

definition FileExists ::
  "(string \<Rightarrow> bool) \<Rightarrow> stagingResourceProvider \<Rightarrow> ResourceType \<Rightarrow> string \<Rightarrow> bool" where
  "FileExists exists p rt identifier =
     (if rt \<noteq> ResourceTypeFile then False
      else case srp_path p identifier of Inl _ \<Rightarrow> False | Inr f \<Rightarrow> exists f)"

section \<open>Paths of staged artifacts\<close>

lemma agent_name_normal: "validateAgentName fld n = None \<Longrightarrow> normal_seg n"
  by (cases n)
    (auto simp: validateAgentName_def agentNamePattern_def normal_seg_def is_alnum_def split: if_splits)

lemma resolve_Ok:
  assumes "resolveProjectArtifact dir proj i = Inr a"
  shows "\<exists>ws. validateAgentName ''project_name'' proj = None \<and> NormalizeIdentifier i = Inr (sa_identifier a) \<and>
    ws \<noteq> [] \<and> (\<forall>w \<in> set ws. normal_seg w) \<and> sa_identifier a = Join ws ''/'' \<and>
    sa_path a = of_segs (rooted dir) (path_segs dir @ proj # ws)"
proof -
  from assms obtain root x where v: "validateAgentName ''project_name'' proj = None"
    and root: "root = path_Join [dir, proj]" and x: "NormalizeIdentifier i = Inr x"
    and a: "sa_identifier a = x" "sa_path a = path_Join (root # split_on (CHR ''/'') x)"
    by (auto simp: resolveProjectArtifact_def projectStagingRoot_def bind_ok_def Let_def
        split: option.splits sum.splits if_splits)
  from x obtain ws where ws: "ws \<noteq> []" "\<forall>w \<in> set ws. normal_seg w" "x = Join ws ''/''"
    using normalizeIdentifier_shape by (auto simp: NormalizeIdentifier_def)
  note proj = agent_name_normal [OF v]
  have root_segs: "path_segs root = path_segs dir @ [proj] \<and> rooted root = rooted dir \<and> root \<noteq> []"
  proof (cases "dir = []")
    case True
    then have "root = path_Clean proj" "path_segs dir = []" "\<not> rooted dir"
      using proj by (auto simp: root path_Join_def normal_seg_def path_segs_def rooted_def clean_segs_def clean_step_def)
    then show ?thesis
      using proj segs_normal(1) [of "[proj]"] rooted_Join_normal [of "[proj]"] by simp
  next
    case False
    then show ?thesis
      using segs_append [of "[proj]" dir] proj by (simp add: root path_Join_def del: Join.simps)
  qed
  have "sa_path a = of_segs (rooted root) (path_segs root @ ws)"
    using a(2) ws root_segs path_Join_normal [of ws root] by (simp add: split_normal)
  with v x a ws root_segs show ?thesis by auto
qed

lemma resolve_path_segs:
  assumes "resolveProjectArtifact dir proj i = Inr a"
  shows "path_segs (sa_path a) = path_segs dir @ proj # split_on (CHR ''/'') (sa_identifier a)"
proof -
  from resolve_Ok [OF assms] obtain ws where
    v: "validateAgentName ''project_name'' proj = None" and ws: "ws \<noteq> []" "\<forall>w \<in> set ws. normal_seg w"
    "sa_identifier a = Join ws ''/''" "sa_path a = of_segs (rooted dir) (path_segs dir @ proj # ws)" by blast
  obtain k ns where dir: "path_segs dir = replicate k ''..'' @ ns" "\<forall>s \<in> set ns. normal_seg s" "rooted dir \<longrightarrow> k = 0"
    using path_segs_shape by blast
  have "path_segs (of_segs (rooted dir) (path_segs dir @ proj # ws)) = path_segs dir @ proj # ws"
    by (rule path_segs_of_segs(1) [of _ k "ns @ proj # ws"])
      (use dir ws agent_name_normal [OF v] in auto)
  with ws show ?thesis by (simp add: split_normal)
qed

text \<open>
  C18. A staged artifact of a project is always inside that project's own directory: the
  segments of its path are those of the staging directory, then the project's name, then
  the segments of its identifier, whatever identifier the client sent. Two artifacts have
  the same path only if they are the same identifier of the same project.
\<close>

theorem staged_paths_isolate_projects:
  assumes "resolveProjectArtifact dir proj i = Inr a" "resolveProjectArtifact dir proj' i' = Inr a'"
  shows "path_segs (sa_path a) = path_segs dir @ proj # split_on (CHR ''/'') (sa_identifier a)
    \<and> ''..'' \<notin> set (split_on (CHR ''/'') (sa_identifier a))
    \<and> (sa_path a = sa_path a' \<longrightarrow> proj = proj' \<and> sa_identifier a = sa_identifier a')"
proof (intro conjI impI)
  note segs = resolve_path_segs [OF assms(1)] resolve_path_segs [OF assms(2)]
  show "path_segs (sa_path a) = path_segs dir @ proj # split_on (CHR ''/'') (sa_identifier a)" by (rule segs(1))
  from resolve_Ok [OF assms(1)] obtain ws where "ws \<noteq> []" "\<forall>w \<in> set ws. normal_seg w" "sa_identifier a = Join ws ''/''" by blast
  then show "''..'' \<notin> set (split_on (CHR ''/'') (sa_identifier a))" by (auto simp: split_normal normal_seg_def)
  assume "sa_path a = sa_path a'"
  with segs have eq: "proj = proj'" "split_on (CHR ''/'') (sa_identifier a) = split_on (CHR ''/'') (sa_identifier a')"
    by simp_all
  show "proj = proj'" by (rule eq(1))
  show "sa_identifier a = sa_identifier a'" using eq(2) split_on_Join by metis
qed

theorem staged_paths_isolate_projects_witness:
  "\<exists>a. resolveProjectArtifact ''/s'' ''p'' ''a/../b'' = Inr a \<and> path_segs (sa_path a) = [''s'', ''p'', ''b'']"
proof -
  have r: "resolveProjectArtifact ''/s'' ''p'' ''a/../b'' = Inr \<lparr>sa_identifier = ''b'', sa_path = ''/s/p/b''\<rparr>"
    by code_simp
  have "path_segs ''/s'' = [''s'']" by code_simp
  with staged_paths_isolate_projects [OF r r] r show ?thesis by simp
qed

lemma staged_path_total:
  assumes "validateAgentName ''project_name'' proj = None" "NormalizeIdentifier i = Inr x"
  shows "\<exists>a. resolveProjectArtifact dir proj i = Inr a \<and> sa_identifier a = x"
proof -
  from assms(2) obtain ws where ws: "ws \<noteq> []" "\<forall>w \<in> set ws. normal_seg w" "x = Join ws ''/''"
    using normalizeIdentifier_shape by (auto simp: NormalizeIdentifier_def)
  let ?root = "path_Join [dir, proj]"
  have ne: "?root \<noteq> []"
    using agent_name_normal [OF assms(1)] by (cases "dir = []") (auto simp: path_Join_def normal_seg_def)
  obtain k ns where root: "path_segs ?root = replicate k ''..'' @ ns" "\<forall>s \<in> set ns. normal_seg s" "rooted ?root \<longrightarrow> k = 0"
    using path_segs_shape by blast
  have p: "path_Join (?root # ws) = of_segs (rooted ?root) (path_segs ?root @ ws)"
    by (rule path_Join_normal [OF ws(2) ne])
  have "path_segs (path_Join (?root # ws)) = path_segs ?root @ ws" "rooted (path_Join (?root # ws)) = rooted ?root"
    unfolding p by (rule path_segs_of_segs [of _ k "ns @ ws"]; use root ws in auto)+
  then have rel: "filepath_Rel ?root (path_Join (?root # ws)) = Some x"
    using ws by (simp add: filepath_Rel_def rel_segs_prefix of_segs_def)
  have "x \<noteq> ''..'' \<and> \<not> HasPrefix x ''../''"
  proof -
    have split: "split_on (CHR ''/'') x = ws" using ws by (simp add: split_normal)
    have "''..'' \<notin> set ws" using ws(2) by (auto simp: normal_seg_def)
    moreover have "x = ''..'' \<or> HasPrefix x ''../'' \<Longrightarrow> ''..'' \<in> set (split_on (CHR ''/'') x)"
      by (auto simp: HasPrefix_iff)
    ultimately show ?thesis using split by auto
  qed
  with assms rel ws show ?thesis
    by (simp add: resolveProjectArtifact_def projectStagingRoot_def split_normal)
qed

text \<open>
  The check of \<open>resolveProjectArtifact\<close> against escaping the project directory never
  fires: a valid project name and an identifier that normalises always resolve. So the
  normalisation alone is what keeps identifiers inside, and no legal identifier is refused.
\<close>

theorem resolve_total_on_valid_names:
  assumes "validateAgentName ''project_name'' proj = None" "NormalizeIdentifier i = Inr x"
  shows "\<exists>a. resolveProjectArtifact dir proj i = Inr a \<and> sa_identifier a = x"
  by (rule staged_path_total [OF assms])

theorem resolve_total_on_valid_names_witness:
  "\<exists>a. resolveProjectArtifact ''../s'' ''p.1'' ''resource/k/x'' = Inr a \<and> sa_identifier a = ''resource/k/x''"
  by (rule resolve_total_on_valid_names) code_simp+

end
