(* ===== verification/EngineCore.thy ===== *)
theory EngineCore
  imports Format Staging Global Bo "HOL-Library.AList"
begin

text \<open>
  \<open>internal/engine\<close>, first part: the enumerations of \<open>engine.go\<close>, the table of
  command templates (\<open>executeMap\<close>, \<open>actionMap\<close>), the event that carries a command
  line, the \<open>ContainersEngine\<close> with its setters, and the operations that put one
  command line in it: \<open>cp\<close>, the handlers of \<open>execute\<close>, \<open>inspect\<close>, \<open>ps\<close>, the generic
  actions and the network commands. The devcontainer \<open>run\<close> is in \<open>EngineRun\<close>.

  The Go enumerations are \<open>int\<close>s. Where a \<open>switch\<close> has a \<open>default\<close> that returns an
  error for a value that is no constant (\<open>Execute_t\<close>, \<open>Copy_t\<close>) the type has a
  constructor for it. The tables indexed by a constant out of range panic in Go and
  have no equation here (\<open>engineAction K_ACTION_NaN\<close>). An event pointer is an
  \<open>option\<close>: \<open>gitConfigHandler\<close> returns a nil one. A Go map that is ranged over is the
  list of its entries in the order of that iteration. Log calls are left out.
\<close>

section \<open>Enumerations\<close>

datatype Action_t = K_ACTION_CP | K_ACTION_EXE | K_ACTION_INSPECT | K_ACTION_PS | K_ACTION_RUN
  | K_ACTION_START | K_ACTION_STOP | K_ACTION_REMOVE | K_ACTION_SYSTEM | K_ACTION_RENAME
  | K_ACTION_NETWORK | K_ACTION_BUILD | K_ACTION_NaN

datatype EngineName_t = K_PODMAN | K_DOCKER

datatype Format_t = K_FPORT | K_FCONTAINER_ID_STATUS | K_FNetworks

datatype Execute_t = K_EXEC_CMD_SSH | K_EXEC_CMD_HOMEDIR | K_EXEC_CMD_CLONE_SRC_REPO
  | K_EXEC_CMD_ID | K_EXEC_CMD_CHOWN | K_EXEC_CMD_MKDIR | K_EXEC_CMD_GET_KIND_KUBECONF
  | K_EXEC_CMD_GET_KIND_CLUSTER_STATUS | K_EXEC_CMD_RSH | K_EXEC_CMD_GIT_CONFIG
  | K_EXEC_CMD_SECURE_REGISTRY | K_EXEC_CMD_CHECK_PATH_EXISTS | K_EXEC_CMD_CHECK_SECRET_EXISTS
  | K_EXEC_CMD_CREATE_SECRET | K_EXEC_CMD_CHECK_SERVICE_ACCOUNT_EXISTS
  | K_EXEC_CMD_PATCH_SERVICE_ACCOUNT | K_EXEC_CMD_ENV | K_EXEC_CMD_APPLY_INGRESS
  | K_EXEC_CMD_CHMOD_DEST_FILE | K_EXEC_HELM_ADD_REPO | K_EXEC_HELM_INSTALL_CHART
  | K_EXEC_HELM_UNINSTALL_CHART | K_EXEC_ORC_GET_CONFIG_MAP | K_EXEC_HELM_CHECK_DEPLOYED_RELEASE
  | K_EXEC_ORC_GET_NAMESPACES | K_EXEC_CMD_CHECK_ORC_REACHABLE_FROM_DEVCONTAINER
  | K_EXEC_ORC_CREATE_NAMESPACE | K_EXEC_CUSTOM_CMD | K_EXEC_CMD_GET_ENV_VARIABLE
  | K_EXEC_CMD_WAIT_FOR_ORC_NODE | K_EXEC_CMD_WAIT_FOR_INGRESS
  | K_EXEC_CMD_CHECK_INGRESS_CONTROLLER_STATUS | K_EXEC_CMD_BYPASS_PROXY_IN_AZURE
  | K_EXEC_SHARE_SSH | K_EXEC_UNSHARE_SSH | K_EXEC_OTHER int

datatype Network_t = K_NETWORK_CONNECT | K_NETWORK_CREATE | K_NETWORK_DISCONNECT | K_NETWORK_EXISTS
  | K_NETWORK_INSPECT | K_NETWORK_LIST | K_NETWORK_PRUNE | K_NETWORK_RELOAD | K_NETWORK_REMOVE
  | K_NETWORK_UPDATE

datatype Copy_t = K_CP_DEFAULT | K_CP_OTHER int

datatype Run_t = K_RUN_DEV_CONTAINER | K_RUN_GEN

text \<open>The value a constant has, as \<open>%v\<close> prints it in the error messages.\<close>

fun action_number :: "Action_t \<Rightarrow> int" where
  "action_number K_ACTION_CP = 0"
| "action_number K_ACTION_EXE = 1"
| "action_number K_ACTION_INSPECT = 2"
| "action_number K_ACTION_PS = 3"
| "action_number K_ACTION_RUN = 4"
| "action_number K_ACTION_START = 5"
| "action_number K_ACTION_STOP = 6"
| "action_number K_ACTION_REMOVE = 7"
| "action_number K_ACTION_SYSTEM = 8"
| "action_number K_ACTION_RENAME = 9"
| "action_number K_ACTION_NETWORK = 10"
| "action_number K_ACTION_BUILD = 11"
| "action_number K_ACTION_NaN = 12"

fun engineAction :: "Action_t \<Rightarrow> string" where
  "engineAction K_ACTION_CP = ''cp''"
| "engineAction K_ACTION_EXE = ''exec''"
| "engineAction K_ACTION_INSPECT = ''inspect''"
| "engineAction K_ACTION_PS = ''ps''"
| "engineAction K_ACTION_RUN = ''run''"
| "engineAction K_ACTION_START = ''start''"
| "engineAction K_ACTION_STOP = ''stop''"
| "engineAction K_ACTION_REMOVE = ''rm''"
| "engineAction K_ACTION_SYSTEM = ''system''"
| "engineAction K_ACTION_RENAME = ''rename''"
| "engineAction K_ACTION_NETWORK = ''network''"
| "engineAction K_ACTION_BUILD = ''build''"

fun networkAction :: "Network_t \<Rightarrow> string" where
  "networkAction K_NETWORK_CONNECT = ''connect''"
| "networkAction K_NETWORK_CREATE = ''create''"
| "networkAction K_NETWORK_DISCONNECT = ''disconnect''"
| "networkAction K_NETWORK_EXISTS = ''exists''"
| "networkAction K_NETWORK_INSPECT = ''inspect''"
| "networkAction K_NETWORK_LIST = ''list''"
| "networkAction K_NETWORK_PRUNE = ''prune''"
| "networkAction K_NETWORK_RELOAD = ''reload''"
| "networkAction K_NETWORK_REMOVE = ''remove''"
| "networkAction K_NETWORK_UPDATE = ''update''"

definition formatActionName :: "string \<Rightarrow> string" where "formatActionName a = a"

fun engineName :: "EngineName_t \<Rightarrow> string" where
  "engineName K_PODMAN = ''podman''"
| "engineName K_DOCKER = ''docker''"

fun goTemplate :: "Format_t \<Rightarrow> string" where
  \<open>goTemplate K_FPORT = [SQ] @ ''{{range $port, $port_obj := .NetworkSettings.Ports}}'' @ [DQ] @
  ''{{ $port }}'' @ [DQ] @ '':{{ range $pval := $port_obj }}'' @ [DQ] @ ''{{ $pval.HostPort }}'' @ [DQ] @
  '',{{end}}{{end}}'' @ [SQ]\<close>
| \<open>goTemplate K_FCONTAINER_ID_STATUS = [SQ] @
  ''{{ range . }}ID={{ .ID }},Name={{ .Names }},Status={{ .Status }};{{ end }}'' @ [SQ]\<close>
| \<open>goTemplate K_FNetworks = [SQ] @ ''{{ range $networkName, $networkData := .NetworkSettings.Networks }}{{ $networkName }},{{ end }}'' @ [SQ]\<close>

definition preComputedFormat :: "Format_t \<Rightarrow> string" where
  "preComputedFormat f = VariadicJoin '' '' [''--format'', goTemplate f]"

section \<open>Events and command templates\<close>

record RunEvent =
  re_cmd :: string
  re_rollback :: string
  re_canRecover :: bool
  re_continueProcess :: bool
  re_eventInfo :: string

definition zero_RunEvent :: RunEvent where
  "zero_RunEvent = \<lparr>re_cmd = [], re_rollback = [], re_canRecover = False, re_continueProcess = False, re_eventInfo = []\<rparr>"

definition mapped_event :: "string \<Rightarrow> string \<Rightarrow> RunEvent" where
  "mapped_event cmd eventInfo = zero_RunEvent\<lparr>re_cmd := cmd, re_eventInfo := eventInfo\<rparr>"

definition KRootUsr :: string where "KRootUsr = ''root''"
definition kPathNotExists :: string where "kPathNotExists = ''Path does not exist''"
definition kNetworkExistsVerb :: string where "kNetworkExistsVerb = ''exists''"
definition KOrchestrationDefaultNamespace :: string where "KOrchestrationDefaultNamespace = ''default''"

fun executeMap :: "Execute_t \<Rightarrow> RunEvent" where
  \<open>executeMap K_EXEC_CMD_SSH =
     mapped_event (''/bin/sh -c 'set -e; user='' @ [DQ] @ ''%[1]s'' @ [DQ] @ ''; key='' @ [DQ] @ ''%[2]s'' @
       [DQ] @ ''; if ! id '' @ [DQ] @ ''$user'' @ [DQ] @
       '' >/dev/null 2>&1; then if command -v useradd >/dev/null 2>&1; then useradd -m -s /bin/bash '' @
       [DQ] @ ''$user'' @ [DQ] @ ''; elif command -v adduser >/dev/null 2>&1; then adduser -D '' @ [DQ] @
       ''$user'' @ [DQ] @ ''; fi; fi; home_dir='' @ [DQ] @ ''$(getent passwd '' @ [DQ] @ ''$user'' @ [DQ] @
       '' | cut -d: -f6)'' @ [DQ] @ ''; if [ -z '' @ [DQ] @ ''$home_dir'' @ [DQ] @ '' ]; then home_dir='' @
       [DQ] @ ''/home/$user'' @ [DQ] @ ''; fi; mkdir -p '' @ [DQ] @ ''$home_dir/.ssh'' @ [DQ] @
       ''; chmod 700 '' @ [DQ] @ ''$home_dir/.ssh'' @ [DQ] @ ''; touch '' @ [DQ] @
       ''$home_dir/.ssh/authorized_keys'' @ [DQ] @ ''; grep -Fxq '' @ [DQ] @ ''$key'' @ [DQ] @ '' '' @ [DQ] @
       ''$home_dir/.ssh/authorized_keys'' @ [DQ] @ '' || echo '' @ [DQ] @ ''$key'' @ [DQ] @ '' >> '' @ [DQ] @
       ''$home_dir/.ssh/authorized_keys'' @ [DQ] @ ''; chmod 600 '' @ [DQ] @
       ''$home_dir/.ssh/authorized_keys'' @ [DQ] @ ''; chown -R '' @ [DQ] @ ''$user:$(id -gn '' @ [DQ] @
       ''$user'' @ [DQ] @ '')'' @ [DQ] @ '' '' @ [DQ] @ ''$home_dir/.ssh'' @ [DQ, SQ])
       (''Install SSH public key in container'')\<close>
| \<open>executeMap K_EXEC_CMD_HOMEDIR =
     mapped_event (''/bin/sh -c 'echo $HOME'' @ [SQ])
       (''Get $HOME'')\<close>
| \<open>executeMap K_EXEC_CMD_CLONE_SRC_REPO =
     mapped_event (''/bin/sh -c 'if [ -d /workspace/%v ]; then echo '' @ [DQ] @
       ''directory (%v) exists. Nothing much to do!'' @ [DQ] @
       ''; else mkdir -p /workspace && cd /workspace && git clone --recurse-submodules %v %v; fi'' @ [SQ])
       (''Clone source repository in container'')\<close>
| \<open>executeMap K_EXEC_CMD_ID =
     mapped_event (''/bin/sh -c 'id'' @ [SQ])
       (''Get user UID and GID'')\<close>
| \<open>executeMap K_EXEC_CMD_CHOWN =
     mapped_event (''/bin/sh -c 'chown %v:%v %v'' @ [SQ])
       (''Chown file'')\<close>
| \<open>executeMap K_EXEC_CMD_MKDIR =
     mapped_event (''/bin/sh -c 'mkdir -p %v'' @ [SQ])
       (''Create directory'')\<close>
| \<open>executeMap K_EXEC_CMD_GET_KIND_KUBECONF =
     mapped_event (''kubectl config view --minify --flatten'')
       (''Get kind kube configuration'')\<close>
| \<open>executeMap K_EXEC_CMD_GET_KIND_CLUSTER_STATUS =
     mapped_event (''kubectl get --raw='' @ [DQ] @ ''/readyz?verbose'' @ [DQ] @ '' || true'')
       (''Get kind cluster status'')\<close>
| \<open>executeMap K_EXEC_CMD_RSH =
     mapped_event (''bash -l'')
       (''Attach to a container'')\<close>
| \<open>executeMap K_EXEC_CMD_GIT_CONFIG =
     mapped_event (''/bin/sh -c 'git config --global user.name '' @ [DQ] @ ''%v'' @ [DQ] @
       '' && git config --global user.email '' @ [DQ] @ ''%v'' @ [DQ, SQ])
       (''Setting the global git configuration file in the container'')\<close>
| \<open>executeMap K_EXEC_CMD_SECURE_REGISTRY =
     mapped_event (''/bin/sh -c 'kubectl get secret/cdsregistrycred || kubectl create secret docker-registry cdsregistrycred --docker-server=cds.sec.io --docker-username=user --docker-password=password;sleep 10;kubectl patch serviceaccount default -p '' @ [BSL, BSL, SQ] @ ''{'' @ [DQ] @ ''imagePullSecrets'' @ [DQ] @ '': [{'' @ [DQ] @ ''name'' @ [DQ] @ '': '' @ [DQ] @ ''cdsregistrycred'' @ [DQ] @ ''}]}'' @ [BSL, BSL, SQ, SQ])
       (''Create cdsregistrycred secret in K8s cluster'')\<close>
| \<open>executeMap K_EXEC_CMD_CHECK_PATH_EXISTS =
     mapped_event (''/bin/sh -c 'ls %v || echo '' @ [DQ] @ ''%v'' @ [DQ, SQ])
       (''Check if path exists'')\<close>
| \<open>executeMap K_EXEC_CMD_CHECK_SECRET_EXISTS =
     mapped_event (''/bin/sh -c 'kubectl get secret/cdsregistrycred --no-headers || true'' @ [SQ])
       (''Check if secret (cdsregistrycred) exists'')\<close>
| \<open>executeMap K_EXEC_CMD_CREATE_SECRET =
     mapped_event (''/bin/sh -c 'kubectl create secret docker-registry cdsregistrycred --docker-server=cds.sec.io --docker-username=user --docker-password=password'' @ [SQ])
       (''Create secret (cdsregistrycred)'')\<close>
| \<open>executeMap K_EXEC_CMD_CHECK_SERVICE_ACCOUNT_EXISTS =
     mapped_event (''/bin/sh -c 'kubectl get serviceaccount default --no-headers || true'' @ [SQ])
       (''Check if service account (default) exists'')\<close>
| \<open>executeMap K_EXEC_CMD_PATCH_SERVICE_ACCOUNT =
     mapped_event (''/bin/sh -c 'kubectl patch serviceaccount default -p '' @ [BSL, BSL, SQ] @ ''{'' @ [DQ] @
       ''imagePullSecrets'' @ [DQ] @ '': [{'' @ [DQ] @ ''name'' @ [DQ] @ '': '' @ [DQ] @
       ''cdsregistrycred'' @ [DQ] @ ''}]}'' @ [BSL, BSL, SQ, SQ])
       (''Patch service account (default) with secret (cdsregistrycred)'')\<close>
| \<open>executeMap K_EXEC_CMD_ENV =
     mapped_event (''/bin/sh -c '%s'' @ [SQ])
       (''Set env variables'')\<close>
| \<open>executeMap K_EXEC_CMD_APPLY_INGRESS =
     mapped_event (''sh -c '' @ [DQ] @ ''unset HTTP_PROXY HTTPS_PROXY http_proxy https_proxy; kubectl apply -f https://raw.githubusercontent.com/kubernetes/ingress-nginx/controller-v1.10.1/deploy/static/provider/kind/deploy.yaml'' @ [DQ])
       (''Applying Nginx Ingress'')\<close>
| \<open>executeMap K_EXEC_CMD_CHMOD_DEST_FILE =
     mapped_event (''/bin/sh -c 'chmod %o %s'' @ [SQ])
       (''Apply permission to a given file in the container'')\<close>
| \<open>executeMap K_EXEC_HELM_ADD_REPO =
     mapped_event (''/bin/sh -c 'helm repo add %s %s && helm repo update'' @ [SQ])
       (''Adding a helm repository to the helm config on the devcontainer'')\<close>
| \<open>executeMap K_EXEC_HELM_INSTALL_CHART =
     mapped_event (''/bin/sh -c 'helm install %s %s/%s --namespace %s --set cds.namespace=%s'' @ [SQ])
       (''Installing helm chart'')\<close>
| \<open>executeMap K_EXEC_HELM_UNINSTALL_CHART =
     mapped_event (''/bin/sh -c 'helm uninstall %s --namespace %s'' @ [SQ])
       (''Uninstalling helm chart'')\<close>
| \<open>executeMap K_EXEC_ORC_GET_CONFIG_MAP =
     mapped_event (''/bin/sh -c 'kubectl get cm --selector=config-map-type=%s -o yaml  --namespace %s'' @
       [SQ])
       (''Getting config map from orchestration engine'')\<close>
| \<open>executeMap K_EXEC_HELM_CHECK_DEPLOYED_RELEASE =
     mapped_event (''/bin/sh -c 'helm list --deployed -o yaml -f ^%s$ --namespace %s'' @ [SQ])
       (''Check if release is deployed'')\<close>
| \<open>executeMap K_EXEC_ORC_GET_NAMESPACES =
     mapped_event (''/bin/sh -c '' @ [DQ] @
       ''kubectl get namespaces -o=jsonpath='{.items[*].metadata.name}'' @ [SQ, DQ])
       (''Get all namespace available in orchestration engine'')\<close>
| \<open>executeMap K_EXEC_CMD_CHECK_ORC_REACHABLE_FROM_DEVCONTAINER =
     mapped_event (''/bin/sh -c '' @ [DQ] @ ''kubectl get service/kubernetes -o name || true'' @ [DQ])
       (''Check that orchestration engine is reachable from devcontainer'')\<close>
| \<open>executeMap K_EXEC_ORC_CREATE_NAMESPACE =
     mapped_event (''/bin/sh -c '' @ [DQ] @ ''kubectl create namespace %s'' @ [DQ])
       (''Create namespace'')\<close>
| \<open>executeMap K_EXEC_CUSTOM_CMD =
     mapped_event (''/bin/sh -c %s'')
       ([])\<close>
| \<open>executeMap K_EXEC_CMD_GET_ENV_VARIABLE =
     mapped_event (''/bin/zsh -c 'echo $%s'' @ [SQ])
       (''Getting env variable value'')\<close>
| \<open>executeMap K_EXEC_CMD_WAIT_FOR_ORC_NODE =
     mapped_event (''/bin/sh -c 'kubectl wait --for=condition=Ready nodes --all --timeout=100s'' @ [SQ])
       (''Wait for orchestration to be ready'')\<close>
| \<open>executeMap K_EXEC_CMD_WAIT_FOR_INGRESS =
     mapped_event (''/bin/sh -c 'kubectl wait --namespace ingress-nginx --for=condition=ready pod --selector=app.kubernetes.io/component=controller --timeout=120s'' @ [SQ])
       (''Wait for Ingress controller to be ready'')\<close>
| \<open>executeMap K_EXEC_CMD_CHECK_INGRESS_CONTROLLER_STATUS =
     mapped_event (''/bin/sh -c 'kubectl get -n ingress-nginx pod --selector=app.kubernetes.io/component=controller --template '' @ [DQ] @ ''{{range .items}}{{.status.phase}}{{'' @ [BSL, DQ, BSL] @ ''n'' @ [BSL, DQ] @ ''}}{{end}}'' @ [DQ, SQ])
       (''Check ingress-nginx controller pod status'')\<close>
| \<open>executeMap K_EXEC_CMD_BYPASS_PROXY_IN_AZURE =
     mapped_event (''/bin/sh -c 'grep '' @ [DQ] @ ''^NO_PROXY=|^no_proxy='' @ [DQ] @
       '' /etc/environment && sed -i '' @ [DQ] @ ''s/'' @ [BSL] @ ''(^NO_PROXY=.*'' @ [BSL] @ '')/'' @
       [BSL] @ ''1,%[1]v/g'' @ [DQ] @ '' /etc/environment && sed -i '' @ [DQ] @ ''s/'' @ [BSL] @
       ''(^no_proxy=.*'' @ [BSL] @ '')/'' @ [BSL] @ ''1,%[1]v/g'' @ [DQ] @ '' /etc/environment || echo '' @
       [DQ] @ ''NO_PROXY=$NO_PROXY,%[1]v'' @ [DQ] @ '' >> /etc/environment && echo '' @ [DQ] @
       ''no_proxy=$no_proxy,%[1]v'' @ [DQ] @ '' >> /etc/environment'' @ [SQ])
       (''Bypassing HTTP/S proxy in Azure'')\<close>
| \<open>executeMap K_EXEC_SHARE_SSH =
     mapped_event (''/bin/sh -c 'echo '' @ [DQ] @ ''%v'' @ [DQ] @ '' >> ~%v/.ssh/authorized_keys'' @ [SQ])
       (''Add temporal shared SSH public key in container'')\<close>
| \<open>executeMap K_EXEC_UNSHARE_SSH =
     mapped_event (''/bin/sh -c 'grep -v '' @ [DQ] @ ''%v'' @ [DQ] @
       '' ~%v/.ssh/authorized_keys > ~%v/.ssh/authorized_keys_temp && mv ~%v/.ssh/authorized_keys_temp ~%v/.ssh/authorized_keys'' @ [SQ])
       (''Remove temporal shared SSH public key in container'')\<close>
| \<open>executeMap (K_EXEC_OTHER _) = zero_RunEvent\<close>

text \<open>A missing key of \<open>actionMap\<close> is told apart from a present one.\<close>

fun actionMap :: "Action_t \<Rightarrow> RunEvent option" where
  "actionMap K_ACTION_START = Some (mapped_event [] ''Starting container '')"
| "actionMap K_ACTION_STOP = Some (mapped_event [] ''Stopping container '')"
| "actionMap K_ACTION_REMOVE = Some (mapped_event [] ''Removing container '')"
| "actionMap K_ACTION_SYSTEM = Some (mapped_event [] ''System '')"
| "actionMap K_ACTION_RENAME = Some (mapped_event [] ''Renaming container '')"
| "actionMap K_ACTION_BUILD = Some (mapped_event [] ''Building image '')"
| "actionMap _ = None"

declare executeMap.simps [simp del] goTemplate.simps [simp del]

section \<open>The engine\<close>

record containerUser =
  cu_uid :: string
  cu_gid :: string
  cu_file :: string

record containersEngineUser =
  eu_remoteUsr :: string
  eu_containerUsr :: string
  eu_targetUsr :: containerUser

record containersScmInfo =
  scm_uri :: string
  scm_branch :: string

record HelmRepository =
  hr_Name :: string
  hr_Url :: string

record HelmChart =
  hc_Name :: string
  hc_RepositoryName :: string

record ExecPlan =
  ep_Files :: "string list"
  ep_As :: string

record ResolvedFeature =
  rf_Name :: string
  rf_Version :: string
  rf_OnHost :: ExecPlan
  rf_OnContainer :: ExecPlan

text \<open>The interface \<open>resourceProvider\<close>: the staging provider of the agent is one.\<close>

record resourceProvider =
  rp_FetchFile :: "ResourceType \<Rightarrow> string \<Rightarrow> string result"
  rp_FileExists :: "ResourceType \<Rightarrow> string \<Rightarrow> bool"

definition newUnimplementedResourceProvider :: resourceProvider where
  "newUnimplementedResourceProvider =
     \<lparr>rp_FetchFile = (\<lambda>rt i. Fail ''Unimplemented resource provider''), rp_FileExists = (\<lambda>rt i. False)\<rparr>"

record ContainersEngine =
  ce_name :: EngineName_t
  ce_action :: Action_t
  ce_args :: "string list"
  ce_flags :: "string \<Rightarrow> string list"
  ce_cmds :: "RunEvent option list"
  ce_user :: containersEngineUser
  ce_containerName :: string
  ce_format :: Format_t
  ce_execCmd :: Execute_t
  ce_fileCopyActionType :: Copy_t
  ce_sourceToCopy :: string
  ce_copyDestination :: string
  ce_pathToCheck :: string
  ce_runType :: Run_t
  ce_repository :: containersScmInfo
  ce_envVars :: "(string \<times> string) list"
  ce_destinationFilePerm :: nat
  ce_helmRepository :: HelmRepository
  ce_helmChart :: HelmChart
  ce_configMapType :: string
  ce_helmRelease :: string
  ce_customCommand :: string
  ce_envVarName :: string
  ce_orcNamespace :: string
  ce_azureDomainName :: string
  ce_networkCmd :: Network_t
  ce_networkName :: string
  ce_containerLabels :: "(string \<times> string) list"
  ce_config :: "Config option"
  ce_resourceProvider :: resourceProvider
  ce_resolvedFeatures :: "ResolvedFeature list"

text \<open>
  \<open>NewContainerEngine()\<close> without options: the zero values, both users the default of a
  nil configuration, the provider that has nothing. With options it is
  \<open>NewContainerEngine\<close> of \<open>EngineRun\<close>.
\<close>

definition empty_engine :: ContainersEngine where
  "empty_engine =
     \<lparr>ce_name = K_PODMAN, ce_action = K_ACTION_CP, ce_args = [], ce_flags = (\<lambda>_. []), ce_cmds = [],
      ce_user = \<lparr>eu_remoteUsr = KRootUsr, eu_containerUsr = KRootUsr,
        eu_targetUsr = \<lparr>cu_uid = [], cu_gid = [], cu_file = []\<rparr>\<rparr>,
      ce_containerName = [], ce_format = K_FPORT, ce_execCmd = K_EXEC_CMD_SSH,
      ce_fileCopyActionType = K_CP_DEFAULT, ce_sourceToCopy = [], ce_copyDestination = [],
      ce_pathToCheck = [], ce_runType = K_RUN_DEV_CONTAINER,
      ce_repository = \<lparr>scm_uri = [], scm_branch = []\<rparr>, ce_envVars = [], ce_destinationFilePerm = 0,
      ce_helmRepository = \<lparr>hr_Name = [], hr_Url = []\<rparr>, ce_helmChart = \<lparr>hc_Name = [], hc_RepositoryName = []\<rparr>,
      ce_configMapType = [], ce_helmRelease = [], ce_customCommand = [], ce_envVarName = [],
      ce_orcNamespace = [], ce_azureDomainName = [], ce_networkCmd = K_NETWORK_CONNECT, ce_networkName = [],
      ce_containerLabels = [], ce_config = None, ce_resourceProvider = newUnimplementedResourceProvider,
      ce_resolvedFeatures = []\<rparr>"

subsection \<open>Setters\<close>

definition SetContainerName :: "string \<Rightarrow> ContainersEngine \<Rightarrow> ContainersEngine" where
  "SetContainerName x ce = ce\<lparr>ce_containerName := x\<rparr>"

definition SetName :: "EngineName_t \<Rightarrow> ContainersEngine \<Rightarrow> ContainersEngine" where
  "SetName x ce = ce\<lparr>ce_name := x\<rparr>"

definition SetAction :: "Action_t \<Rightarrow> ContainersEngine \<Rightarrow> ContainersEngine" where
  "SetAction x ce = ce\<lparr>ce_action := x\<rparr>"

definition SetFormat :: "Format_t \<Rightarrow> ContainersEngine \<Rightarrow> ContainersEngine" where
  "SetFormat x ce = ce\<lparr>ce_format := x\<rparr>"

definition SetExecuteCmd :: "Execute_t \<Rightarrow> ContainersEngine \<Rightarrow> ContainersEngine" where
  "SetExecuteCmd x ce = ce\<lparr>ce_execCmd := x\<rparr>"

definition SetCopyActionType :: "Copy_t \<Rightarrow> ContainersEngine \<Rightarrow> ContainersEngine" where
  "SetCopyActionType x ce = ce\<lparr>ce_fileCopyActionType := x\<rparr>"

definition SetSourceCopyPath :: "string \<Rightarrow> ContainersEngine \<Rightarrow> ContainersEngine" where
  "SetSourceCopyPath x ce = ce\<lparr>ce_sourceToCopy := x\<rparr>"

definition SetCopyFinalDestinationOnContainer :: "string \<Rightarrow> ContainersEngine \<Rightarrow> ContainersEngine" where
  "SetCopyFinalDestinationOnContainer x ce = ce\<lparr>ce_copyDestination := x\<rparr>"

definition SetPathToCheck :: "string \<Rightarrow> ContainersEngine \<Rightarrow> ContainersEngine" where
  "SetPathToCheck x ce = ce\<lparr>ce_pathToCheck := x\<rparr>"

definition SetRunType :: "Run_t \<Rightarrow> ContainersEngine \<Rightarrow> ContainersEngine" where
  "SetRunType x ce = ce\<lparr>ce_runType := x\<rparr>"

definition SetEnvVariables :: "(string \<times> string) list \<Rightarrow> ContainersEngine \<Rightarrow> ContainersEngine" where
  "SetEnvVariables x ce = ce\<lparr>ce_envVars := x\<rparr>"

definition SetDestinationFilePerm :: "nat \<Rightarrow> ContainersEngine \<Rightarrow> ContainersEngine" where
  "SetDestinationFilePerm x ce = ce\<lparr>ce_destinationFilePerm := x\<rparr>"

definition SetHelmChart :: "HelmChart \<Rightarrow> ContainersEngine \<Rightarrow> ContainersEngine" where
  "SetHelmChart x ce = ce\<lparr>ce_helmChart := x\<rparr>"

definition SetHelmRepository :: "HelmRepository \<Rightarrow> ContainersEngine \<Rightarrow> ContainersEngine" where
  "SetHelmRepository x ce = ce\<lparr>ce_helmRepository := x\<rparr>"

definition SetConfigMapType :: "string \<Rightarrow> ContainersEngine \<Rightarrow> ContainersEngine" where
  "SetConfigMapType x ce = ce\<lparr>ce_configMapType := x\<rparr>"

definition SetHelmRelease :: "string \<Rightarrow> ContainersEngine \<Rightarrow> ContainersEngine" where
  "SetHelmRelease x ce = ce\<lparr>ce_helmRelease := x\<rparr>"

definition SetCustomCommand :: "string \<Rightarrow> ContainersEngine \<Rightarrow> ContainersEngine" where
  "SetCustomCommand x ce = ce\<lparr>ce_customCommand := x\<rparr>"

definition SetEnvVarName :: "string \<Rightarrow> ContainersEngine \<Rightarrow> ContainersEngine" where
  "SetEnvVarName x ce = ce\<lparr>ce_envVarName := x\<rparr>"

definition SetOrcNamespace :: "string \<Rightarrow> ContainersEngine \<Rightarrow> ContainersEngine" where
  "SetOrcNamespace x ce = ce\<lparr>ce_orcNamespace := x\<rparr>"

definition SetAzureDomainName :: "string \<Rightarrow> ContainersEngine \<Rightarrow> ContainersEngine" where
  "SetAzureDomainName x ce = ce\<lparr>ce_azureDomainName := x\<rparr>"

definition SetNetworkName :: "string \<Rightarrow> ContainersEngine \<Rightarrow> ContainersEngine" where
  "SetNetworkName x ce = ce\<lparr>ce_networkName := x\<rparr>"

definition SetNetworkCmd :: "Network_t \<Rightarrow> ContainersEngine \<Rightarrow> ContainersEngine" where
  "SetNetworkCmd x ce = ce\<lparr>ce_networkCmd := x\<rparr>"

definition SetFlag :: "string \<Rightarrow> string \<Rightarrow> ContainersEngine \<Rightarrow> ContainersEngine" where
  "SetFlag key val ce = ce\<lparr>ce_flags := (ce_flags ce)(key := ce_flags ce key @ [val])\<rparr>"

definition SetRemoteUser :: "string \<Rightarrow> ContainersEngine \<Rightarrow> ContainersEngine" where
  "SetRemoteUser rUser ce = ce\<lparr>ce_user := (ce_user ce)\<lparr>eu_remoteUsr := rUser\<rparr>\<rparr>"

definition SetTargetUserOnContainer :: "string \<Rightarrow> string \<Rightarrow> ContainersEngine \<Rightarrow> ContainersEngine" where
  "SetTargetUserOnContainer userId groupId ce =
     ce\<lparr>ce_user := (ce_user ce)\<lparr>eu_targetUsr := \<lparr>cu_uid = userId, cu_gid = groupId, cu_file = []\<rparr>\<rparr>\<rparr>"

definition SetTargetUserFileOnContainer :: "string \<Rightarrow> ContainersEngine \<Rightarrow> ContainersEngine" where
  "SetTargetUserFileOnContainer file_name ce =
     ce\<lparr>ce_user := (ce_user ce)\<lparr>eu_targetUsr := (eu_targetUsr (ce_user ce))\<lparr>cu_file := file_name\<rparr>\<rparr>\<rparr>"

definition AddArg :: "string list \<Rightarrow> ContainersEngine \<Rightarrow> ContainersEngine" where
  "AddArg args ce = ce\<lparr>ce_args := ce_args ce @ args\<rparr>"

definition SetSourceRepoInfo :: "string \<Rightarrow> string \<Rightarrow> ContainersEngine \<Rightarrow> ContainersEngine" where
  "SetSourceRepoInfo uri branch ce = ce\<lparr>ce_repository := \<lparr>scm_uri = uri, scm_branch = branch\<rparr>\<rparr>"

text \<open>A key that is already there gets the new value in place.\<close>

definition AddContainerLabels :: "(string \<times> string) list \<Rightarrow> ContainersEngine \<Rightarrow> ContainersEngine" where
  "AddContainerLabels labels ce =
     ce\<lparr>ce_containerLabels := foldl (\<lambda>acc (k, v). AList.update k v acc) (ce_containerLabels ce) labels\<rparr>"

definition SetEngineName :: "string \<Rightarrow> ContainersEngine \<Rightarrow> ContainersEngine" where
  "SetEngineName name ce = (if name = ''docker'' then SetName K_DOCKER ce else SetName K_PODMAN ce)"

definition getRemoteUser :: "ContainersEngine \<Rightarrow> string" where "getRemoteUser ce = eu_remoteUsr (ce_user ce)"
definition getContainerUser :: "ContainersEngine \<Rightarrow> string" where "getContainerUser ce = eu_containerUsr (ce_user ce)"
definition getTargetUserOnContainer :: "ContainersEngine \<Rightarrow> containerUser" where
  "getTargetUserOnContainer ce = eu_targetUsr (ce_user ce)"

text \<open>The getter stores the default it gives.\<close>

definition getOrcNamespace :: "ContainersEngine \<Rightarrow> string \<times> ContainersEngine" where
  "getOrcNamespace ce =
     (if ce_orcNamespace ce = [] then (KOrchestrationDefaultNamespace, ce\<lparr>ce_orcNamespace := KOrchestrationDefaultNamespace\<rparr>)
      else (ce_orcNamespace ce, ce))"

definition configGet :: "ContainersEngine \<Rightarrow> string list \<Rightarrow> cfg_value option" where
  "configGet ce key = (case ce_config ce of None \<Rightarrow> None | Some config \<Rightarrow> config key)"

definition configIsSet :: "ContainersEngine \<Rightarrow> string list \<Rightarrow> bool" where
  "configIsSet ce key = (case ce_config ce of None \<Rightarrow> False | Some config \<Rightarrow> config key \<noteq> None)"

definition append_cmd :: "RunEvent option \<Rightarrow> ContainersEngine \<Rightarrow> ContainersEngine" where
  "append_cmd e ce = ce\<lparr>ce_cmds := ce_cmds ce @ [e]\<rparr>"

section \<open>Execution handlers\<close>

text \<open>
  Every handler formats \<open>%v %v -u %v -i %v %v\<close> with the engine, the action, the user,
  the container and the body it made from its template; the two interactive ones use
  \<open>-it\<close>. A dereferenced nil pointer is a panic, which the model gives as this error.
\<close>

definition nil_dereference :: err where
  "nil_dereference = NewError ''invalid memory address or nil pointer dereference''"

type_synonym event_result = "RunEvent option result"

definition exec_line :: "ContainersEngine \<Rightarrow> string \<Rightarrow> string \<Rightarrow> string \<Rightarrow> string" where
  "exec_line ce user flag body =
     engineName (ce_name ce) @ '' '' @ formatActionName (engineAction K_ACTION_EXE) @ '' -u '' @ user @ '' '' @ flag
     @ '' '' @ ce_containerName ce @ '' '' @ body"

definition mapped_exec :: "Execute_t \<Rightarrow> string \<Rightarrow> event_result" where
  "mapped_exec k line = Ok (Some ((executeMap k)\<lparr>re_cmd := line, re_continueProcess := True\<rparr>))"

definition template :: "Execute_t \<Rightarrow> string list \<Rightarrow> string" where
  "template k args = Sprintf (re_cmd (executeMap k)) (map FStr args)"

definition sshKeyHandler :: "ContainersEngine \<Rightarrow> event_result" where
  "sshKeyHandler ce =
     bind_ok (wrap_error ''Failed to resolve public key identifier'' (SingletonIdentifier KindPubKey)) (\<lambda>identifier.
     bind_ok (wrap_error ''Failed reading public key to configure ssh''
         (rp_FetchFile (ce_resourceProvider ce) ResourceTypeFile identifier)) (\<lambda>pubKey.
       mapped_exec K_EXEC_CMD_SSH
         (exec_line ce ''root'' ''-i'' (template K_EXEC_CMD_SSH [getRemoteUser ce, Trim pubKey ('' '' @ [NL])]))))"

definition addTempSharedKey :: "ContainersEngine \<Rightarrow> event_result" where
  "addTempSharedKey ce =
     bind_ok (wrap_error ''Failed to resolve shared key identifier'' (SingletonIdentifier KindSharedKey)) (\<lambda>identifier.
     bind_ok (wrap_error ''Failed reading temp shared public key to configure ssh''
         (rp_FetchFile (ce_resourceProvider ce) ResourceTypeFile identifier)) (\<lambda>pubKey.
       mapped_exec K_EXEC_SHARE_SSH
         (exec_line ce (getRemoteUser ce) ''-i'' (template K_EXEC_SHARE_SSH [Trim pubKey ('' '' @ [NL]), getRemoteUser ce]))))"

definition removeSharedKeys :: "ContainersEngine \<Rightarrow> event_result" where
  "removeSharedKeys ce =
     mapped_exec K_EXEC_UNSHARE_SSH
       (exec_line ce (getRemoteUser ce) ''-i''
         (template K_EXEC_UNSHARE_SSH [''TODO'', getRemoteUser ce, getRemoteUser ce, getRemoteUser ce, getRemoteUser ce]))"

text \<open>
  \<open>ParseGitRepositoryUrl\<close> of \<open>internal/scm\<close> is the parameter \<open>parseRepo\<close>: the repository
  name or an error. The handler drops the error and calls \<open>Name\<close> on the nil interface.
\<close>

definition cloneHandler :: "(string \<Rightarrow> string result) \<Rightarrow> ContainersEngine \<Rightarrow> event_result" where
  "cloneHandler parseRepo ce =
     (let branchOption = (if scm_branch (ce_repository ce) = [] then [] else ''--branch '' @ scm_branch (ce_repository ce))
      in case parseRepo (scm_uri (ce_repository ce)) of
           Inl _ \<Rightarrow> Inl nil_dereference
         | Inr name \<Rightarrow>
             (let repoName = Trim name ('' '' @ [NL])
              in mapped_exec K_EXEC_CMD_CLONE_SRC_REPO
                   (exec_line ce (getRemoteUser ce) ''-i''
                     (template K_EXEC_CMD_CLONE_SRC_REPO
                       [repoName, repoName, Trim (scm_uri (ce_repository ce)) ('' '' @ [NL]), branchOption]))))"

definition gitConfigHandler :: "ContainersEngine \<Rightarrow> event_result" where
  "gitConfigHandler ce = Ok None"

definition checkPathExistsHandler :: "ContainersEngine \<Rightarrow> event_result" where
  "checkPathExistsHandler ce =
     mapped_exec K_EXEC_CMD_CHECK_PATH_EXISTS
       (exec_line ce (getRemoteUser ce) ''-i'' (template K_EXEC_CMD_CHECK_PATH_EXISTS [ce_pathToCheck ce, kPathNotExists]))"

text \<open>The handlers that pass the text of the map as it is.\<close>

definition executeRaw :: "RunEvent \<Rightarrow> ContainersEngine \<Rightarrow> event_result" where
  "executeRaw rEvent ce =
     Ok (Some (rEvent\<lparr>re_cmd := exec_line ce (getRemoteUser ce) ''-i'' (re_cmd rEvent), re_continueProcess := True\<rparr>))"

definition checkSecretExistsHandler :: "ContainersEngine \<Rightarrow> event_result" where
  "checkSecretExistsHandler ce = executeRaw (executeMap K_EXEC_CMD_CHECK_SECRET_EXISTS) ce"

definition createSecretHandler :: "ContainersEngine \<Rightarrow> event_result" where
  "createSecretHandler ce = executeRaw (executeMap K_EXEC_CMD_CREATE_SECRET) ce"

definition checkServiceAccountExistsHandler :: "ContainersEngine \<Rightarrow> event_result" where
  "checkServiceAccountExistsHandler ce = executeRaw (executeMap K_EXEC_CMD_CHECK_SERVICE_ACCOUNT_EXISTS) ce"

definition patchServiceAccountHandler :: "ContainersEngine \<Rightarrow> event_result" where
  "patchServiceAccountHandler ce = executeRaw (executeMap K_EXEC_CMD_PATCH_SERVICE_ACCOUNT) ce"

definition checkIngressControllerStatusHandler :: "ContainersEngine \<Rightarrow> event_result" where
  "checkIngressControllerStatusHandler ce = executeRaw (executeMap K_EXEC_CMD_CHECK_INGRESS_CONTROLLER_STATUS) ce"

definition homeDirHandler :: "ContainersEngine \<Rightarrow> event_result" where
  "homeDirHandler ce =
     mapped_exec K_EXEC_CMD_HOMEDIR (exec_line ce (getRemoteUser ce) ''-i'' (re_cmd (executeMap K_EXEC_CMD_HOMEDIR)))"

definition kubeRegistrySecretHandler :: "ContainersEngine \<Rightarrow> event_result" where
  "kubeRegistrySecretHandler ce =
     mapped_exec K_EXEC_CMD_SECURE_REGISTRY (exec_line ce (getRemoteUser ce) ''-i'' (re_cmd (executeMap K_EXEC_CMD_SECURE_REGISTRY)))"

definition idHandler :: "ContainersEngine \<Rightarrow> event_result" where
  "idHandler ce =
     mapped_exec K_EXEC_CMD_ID (exec_line ce (getRemoteUser ce) ''-i'' (re_cmd (executeMap K_EXEC_CMD_ID)))"

definition getKindKubeConfHandler :: "ContainersEngine \<Rightarrow> event_result" where
  "getKindKubeConfHandler ce =
     mapped_exec K_EXEC_CMD_GET_KIND_KUBECONF (exec_line ce (getRemoteUser ce) ''-i'' (re_cmd (executeMap K_EXEC_CMD_GET_KIND_KUBECONF)))"

definition getKindClusterStatusHandler :: "ContainersEngine \<Rightarrow> event_result" where
  "getKindClusterStatusHandler ce =
     mapped_exec K_EXEC_CMD_GET_KIND_CLUSTER_STATUS (exec_line ce (getRemoteUser ce) ''-i'' (re_cmd (executeMap K_EXEC_CMD_GET_KIND_CLUSTER_STATUS)))"

definition attachContainerHandler :: "ContainersEngine \<Rightarrow> event_result" where
  "attachContainerHandler ce =
     mapped_exec K_EXEC_CMD_RSH (exec_line ce (getRemoteUser ce) ''-it'' (re_cmd (executeMap K_EXEC_CMD_RSH)))"

definition applyIngressHandler :: "ContainersEngine \<Rightarrow> event_result" where
  "applyIngressHandler ce =
     mapped_exec K_EXEC_CMD_APPLY_INGRESS (exec_line ce (getRemoteUser ce) ''-it'' (re_cmd (executeMap K_EXEC_CMD_APPLY_INGRESS)))"

definition getAllNamespaces :: "ContainersEngine \<Rightarrow> event_result" where
  "getAllNamespaces ce =
     mapped_exec K_EXEC_ORC_GET_NAMESPACES (exec_line ce (getRemoteUser ce) ''-i'' (re_cmd (executeMap K_EXEC_ORC_GET_NAMESPACES)))"

definition chekOrchestrationIsReachable :: "ContainersEngine \<Rightarrow> event_result" where
  "chekOrchestrationIsReachable ce =
     mapped_exec K_EXEC_CMD_CHECK_ORC_REACHABLE_FROM_DEVCONTAINER (exec_line ce (getRemoteUser ce) ''-i'' (re_cmd (executeMap K_EXEC_CMD_CHECK_ORC_REACHABLE_FROM_DEVCONTAINER)))"

definition waitForIngressController :: "ContainersEngine \<Rightarrow> event_result" where
  "waitForIngressController ce =
     mapped_exec K_EXEC_CMD_WAIT_FOR_INGRESS (exec_line ce (getRemoteUser ce) ''-i'' (re_cmd (executeMap K_EXEC_CMD_WAIT_FOR_INGRESS)))"

definition waitForOrcNode :: "ContainersEngine \<Rightarrow> event_result" where
  "waitForOrcNode ce =
     mapped_exec K_EXEC_CMD_WAIT_FOR_ORC_NODE (exec_line ce (getRemoteUser ce) ''-i'' (re_cmd (executeMap K_EXEC_CMD_WAIT_FOR_ORC_NODE)))"

text \<open>\<open>envVariablesHandler\<close> works for root only; for another user it gives an empty event and no error.\<close>

definition export_entry :: "string \<times> string \<Rightarrow> string" where
  "export_entry kv =
     (let entry = ''echo '' @ [DQ] @ ''export '' @ fst kv @ ''='' @ snd kv @ [DQ]
      in entry @ '' >> /etc/profile && '' @ entry @ '' >> /etc/zshenv;'')"

definition envVariablesHandler :: "ContainersEngine \<Rightarrow> event_result" where
  "envVariablesHandler ce =
     (if getRemoteUser ce \<noteq> KRootUsr then Ok (Some zero_RunEvent)
      else (let exportVariablesStr = concat (map export_entry (ce_envVars ce))
            in mapped_exec K_EXEC_CMD_ENV
                 (exec_line ce (getRemoteUser ce) ''-i'' (template K_EXEC_CMD_ENV [exportVariablesStr]))))"

definition chownHandler :: "ContainersEngine \<Rightarrow> event_result" where
  "chownHandler ce =
     (let targetUsr = getTargetUserOnContainer ce
      in mapped_exec K_EXEC_CMD_CHOWN
           (exec_line ce (getRemoteUser ce) ''-i''
             (template K_EXEC_CMD_CHOWN [cu_uid targetUsr, cu_gid targetUsr, cu_file targetUsr])))"

definition chmodHandler :: "ContainersEngine \<Rightarrow> event_result" where
  "chmodHandler ce =
     (let targetUsr = getTargetUserOnContainer ce
      in mapped_exec K_EXEC_CMD_CHMOD_DEST_FILE
           (exec_line ce (getRemoteUser ce) ''-i''
             (Sprintf (re_cmd (executeMap K_EXEC_CMD_CHMOD_DEST_FILE))
               [FNum (ce_destinationFilePerm ce), FStr (cu_file targetUsr)])))"

definition mkdirHanlder :: "ContainersEngine \<Rightarrow> event_result" where
  "mkdirHanlder ce =
     (let targetUsr = getTargetUserOnContainer ce
      in mapped_exec K_EXEC_CMD_MKDIR
           (exec_line ce (getRemoteUser ce) ''-i'' (template K_EXEC_CMD_MKDIR [cu_file targetUsr])))"

definition addHelmRepo :: "ContainersEngine \<Rightarrow> event_result" where
  "addHelmRepo ce =
     mapped_exec K_EXEC_HELM_ADD_REPO
       (exec_line ce (getRemoteUser ce) ''-i'' (template K_EXEC_HELM_ADD_REPO [hr_Name (ce_helmRepository ce), hr_Url (ce_helmRepository ce)]))"

definition handleCustomCommand :: "ContainersEngine \<Rightarrow> event_result" where
  "handleCustomCommand ce =
     mapped_exec K_EXEC_CUSTOM_CMD
       (exec_line ce (getRemoteUser ce) ''-i'' (template K_EXEC_CUSTOM_CMD [quoteShellArg (ce_customCommand ce)]))"

definition getEnvVariableValue :: "ContainersEngine \<Rightarrow> event_result" where
  "getEnvVariableValue ce =
     mapped_exec K_EXEC_CMD_GET_ENV_VARIABLE
       (exec_line ce (getRemoteUser ce) ''-i'' (template K_EXEC_CMD_GET_ENV_VARIABLE [ce_envVarName ce]))"

definition bypassProxyInAzure :: "ContainersEngine \<Rightarrow> event_result" where
  "bypassProxyInAzure ce =
     mapped_exec K_EXEC_CMD_BYPASS_PROXY_IN_AZURE
       (exec_line ce (getRemoteUser ce) ''-i'' (template K_EXEC_CMD_BYPASS_PROXY_IN_AZURE [ce_azureDomainName ce]))"

text \<open>These ask for the namespace, and so may set it.\<close>

definition installHelmChart :: "ContainersEngine \<Rightarrow> event_result \<times> ContainersEngine" where
  "installHelmChart ce =
     (let (helmNs, ce1) = getOrcNamespace ce
      in (mapped_exec K_EXEC_HELM_INSTALL_CHART
            (exec_line ce1 (getRemoteUser ce1) ''-i'' (template K_EXEC_HELM_INSTALL_CHART [hc_Name (ce_helmChart ce1), hc_RepositoryName (ce_helmChart ce1),
               hc_Name (ce_helmChart ce1), helmNs, helmNs])), ce1))"

definition uninstallHelmChart :: "ContainersEngine \<Rightarrow> event_result \<times> ContainersEngine" where
  "uninstallHelmChart ce =
     (let (helmNs, ce1) = getOrcNamespace ce
      in (mapped_exec K_EXEC_HELM_UNINSTALL_CHART
            (exec_line ce1 (getRemoteUser ce1) ''-i'' (template K_EXEC_HELM_UNINSTALL_CHART [hc_Name (ce_helmChart ce1), helmNs])), ce1))"

definition getConfigMap :: "ContainersEngine \<Rightarrow> event_result \<times> ContainersEngine" where
  "getConfigMap ce =
     (let (helmNs, ce1) = getOrcNamespace ce
      in (mapped_exec K_EXEC_ORC_GET_CONFIG_MAP
            (exec_line ce1 (getRemoteUser ce1) ''-i'' (template K_EXEC_ORC_GET_CONFIG_MAP [ce_configMapType ce1, helmNs])), ce1))"

definition checkHelmReleaseDeployed :: "ContainersEngine \<Rightarrow> event_result \<times> ContainersEngine" where
  "checkHelmReleaseDeployed ce =
     (let (helmNs, ce1) = getOrcNamespace ce
      in (mapped_exec K_EXEC_HELM_CHECK_DEPLOYED_RELEASE
            (exec_line ce1 (getRemoteUser ce1) ''-i'' (template K_EXEC_HELM_CHECK_DEPLOYED_RELEASE [ce_helmRelease ce1, helmNs])), ce1))"

definition createOrcNamespace :: "ContainersEngine \<Rightarrow> event_result \<times> ContainersEngine" where
  "createOrcNamespace ce =
     (let (helmNs, ce1) = getOrcNamespace ce
      in (mapped_exec K_EXEC_ORC_CREATE_NAMESPACE
            (exec_line ce1 (getRemoteUser ce1) ''-i'' (template K_EXEC_ORC_CREATE_NAMESPACE [helmNs])), ce1))"

text \<open>\<open>execute\<close>: the switch over the handlers, then one event more in \<open>cmds\<close>.\<close>

fun exec_handler :: "(string \<Rightarrow> string result) \<Rightarrow> Execute_t \<Rightarrow> ContainersEngine \<Rightarrow> event_result \<times> ContainersEngine" where
  "exec_handler parseRepo K_EXEC_CMD_SSH ce = (sshKeyHandler ce, ce)"
| "exec_handler parseRepo K_EXEC_CMD_HOMEDIR ce = (homeDirHandler ce, ce)"
| "exec_handler parseRepo K_EXEC_CMD_CLONE_SRC_REPO ce = (cloneHandler parseRepo ce, ce)"
| "exec_handler parseRepo K_EXEC_CMD_ID ce = (idHandler ce, ce)"
| "exec_handler parseRepo K_EXEC_CMD_CHOWN ce = (chownHandler ce, ce)"
| "exec_handler parseRepo K_EXEC_CMD_MKDIR ce = (mkdirHanlder ce, ce)"
| "exec_handler parseRepo K_EXEC_CMD_GET_KIND_KUBECONF ce = (getKindKubeConfHandler ce, ce)"
| "exec_handler parseRepo K_EXEC_CMD_GET_KIND_CLUSTER_STATUS ce = (getKindClusterStatusHandler ce, ce)"
| "exec_handler parseRepo K_EXEC_CMD_RSH ce = (attachContainerHandler ce, ce)"
| "exec_handler parseRepo K_EXEC_CMD_GIT_CONFIG ce = (gitConfigHandler ce, ce)"
| "exec_handler parseRepo K_EXEC_CMD_SECURE_REGISTRY ce = (kubeRegistrySecretHandler ce, ce)"
| "exec_handler parseRepo K_EXEC_CMD_CHECK_PATH_EXISTS ce = (checkPathExistsHandler ce, ce)"
| "exec_handler parseRepo K_EXEC_CMD_CHECK_SECRET_EXISTS ce = (checkSecretExistsHandler ce, ce)"
| "exec_handler parseRepo K_EXEC_CMD_CREATE_SECRET ce = (createSecretHandler ce, ce)"
| "exec_handler parseRepo K_EXEC_CMD_CHECK_SERVICE_ACCOUNT_EXISTS ce = (checkServiceAccountExistsHandler ce, ce)"
| "exec_handler parseRepo K_EXEC_CMD_PATCH_SERVICE_ACCOUNT ce = (patchServiceAccountHandler ce, ce)"
| "exec_handler parseRepo K_EXEC_CMD_ENV ce = (envVariablesHandler ce, ce)"
| "exec_handler parseRepo K_EXEC_CMD_APPLY_INGRESS ce = (applyIngressHandler ce, ce)"
| "exec_handler parseRepo K_EXEC_CMD_CHMOD_DEST_FILE ce = (chmodHandler ce, ce)"
| "exec_handler parseRepo K_EXEC_CMD_CHECK_ORC_REACHABLE_FROM_DEVCONTAINER ce = (chekOrchestrationIsReachable ce, ce)"
| "exec_handler parseRepo K_EXEC_HELM_ADD_REPO ce = (addHelmRepo ce, ce)"
| "exec_handler parseRepo K_EXEC_HELM_INSTALL_CHART ce = installHelmChart ce"
| "exec_handler parseRepo K_EXEC_HELM_UNINSTALL_CHART ce = uninstallHelmChart ce"
| "exec_handler parseRepo K_EXEC_ORC_GET_CONFIG_MAP ce = getConfigMap ce"
| "exec_handler parseRepo K_EXEC_HELM_CHECK_DEPLOYED_RELEASE ce = checkHelmReleaseDeployed ce"
| "exec_handler parseRepo K_EXEC_ORC_GET_NAMESPACES ce = (getAllNamespaces ce, ce)"
| "exec_handler parseRepo K_EXEC_ORC_CREATE_NAMESPACE ce = createOrcNamespace ce"
| "exec_handler parseRepo K_EXEC_CUSTOM_CMD ce = (handleCustomCommand ce, ce)"
| "exec_handler parseRepo K_EXEC_CMD_GET_ENV_VARIABLE ce = (getEnvVariableValue ce, ce)"
| "exec_handler parseRepo K_EXEC_CMD_WAIT_FOR_ORC_NODE ce = (waitForOrcNode ce, ce)"
| "exec_handler parseRepo K_EXEC_CMD_WAIT_FOR_INGRESS ce = (waitForIngressController ce, ce)"
| "exec_handler parseRepo K_EXEC_CMD_CHECK_INGRESS_CONTROLLER_STATUS ce = (checkIngressControllerStatusHandler ce, ce)"
| "exec_handler parseRepo K_EXEC_CMD_BYPASS_PROXY_IN_AZURE ce = (bypassProxyInAzure ce, ce)"
| "exec_handler parseRepo K_EXEC_SHARE_SSH ce = (addTempSharedKey ce, ce)"
| "exec_handler parseRepo K_EXEC_UNSHARE_SSH ce = (removeSharedKeys ce, ce)"
| "exec_handler parseRepo (K_EXEC_OTHER i) ce =
     (Fail (''Failed to execute container engine command, action '' @ [SQ] @ Itoa i @ [SQ] @ '' is not implemented''), ce)"

definition append_result :: "event_result \<times> ContainersEngine \<Rightarrow> err option \<times> ContainersEngine" where
  "append_result r = (case fst r of Inl e \<Rightarrow> (Some e, snd r) | Inr rEvent \<Rightarrow> (None, append_cmd rEvent (snd r)))"

definition execute :: "(string \<Rightarrow> string result) \<Rightarrow> ContainersEngine \<Rightarrow> err option \<times> ContainersEngine" where
  "execute parseRepo ce = append_result (exec_handler parseRepo (ce_execCmd ce) ce)"

section \<open>The other one-line actions\<close>

definition copyHandler :: "ContainersEngine \<Rightarrow> event_result" where
  "copyHandler ce =
     (let srcFilePath = ce_sourceToCopy ce
      in Ok (Some (zero_RunEvent\<lparr>
           re_cmd := engineName (ce_name ce) @ '' '' @ engineAction K_ACTION_CP @ '' '' @ srcFilePath @ '' ''
             @ ce_containerName ce @ '':'' @ Trim (ce_copyDestination ce) ('' '' @ [NL]),
           re_continueProcess := True,
           re_eventInfo := ''Copy '' @ srcFilePath @ '' file to container''\<rparr>)))"

definition cp :: "ContainersEngine \<Rightarrow> err option \<times> ContainersEngine" where
  "cp ce =
     (case ce_fileCopyActionType ce of
        K_CP_DEFAULT \<Rightarrow> append_result (copyHandler ce, ce)
      | K_CP_OTHER _ \<Rightarrow> (Some (NewError ''Unhandled copy command for container engine''), ce))"

definition inspect :: "ContainersEngine \<Rightarrow> err option \<times> ContainersEngine" where
  "inspect ce =
     (None, append_cmd (Some (zero_RunEvent\<lparr>
        re_cmd := VariadicJoin '' '' [engineName (ce_name ce), engineAction K_ACTION_INSPECT, ce_containerName ce,
          preComputedFormat (ce_format ce)],
        re_eventInfo := ''Inspecting container '' @ [SQ] @ ce_containerName ce @ [SQ],
        re_continueProcess := True\<rparr>)) ce)"

definition ps :: "ContainersEngine \<Rightarrow> err option \<times> ContainersEngine" where
  "ps ce =
     (None, append_cmd (Some (zero_RunEvent\<lparr>
        re_cmd := VariadicJoin '' '' [engineName (ce_name ce), engineAction (ce_action ce), ''-a'',
          preComputedFormat (ce_format ce)],
        re_eventInfo := ''Listing containers'',
        re_continueProcess := True\<rparr>)) ce)"

definition genericRun :: "ContainersEngine \<Rightarrow> err option \<times> ContainersEngine" where
  "genericRun ce =
     (None, append_cmd (Some (zero_RunEvent\<lparr>
        re_cmd := VariadicJoin '' '' [engineName (ce_name ce), engineAction (ce_action ce), VariadicJoin '' '' (ce_args ce)],
        re_eventInfo := ''Creating container'',
        re_continueProcess := True\<rparr>)) ce)"

text \<open>\<open>start\<close>, \<open>stop\<close>, \<open>remove\<close>, \<open>system\<close>, \<open>rename\<close> and \<open>build\<close> are this.\<close>

definition genericContainerAction :: "ContainersEngine \<Rightarrow> err option \<times> ContainersEngine" where
  "genericContainerAction ce =
     (case actionMap (ce_action ce) of
        None \<Rightarrow> (Some (AppendError ''Failed to find action in actionMap''
            (NewError (''seems like action '' @ Itoa (action_number (ce_action ce)) @ '' does not have a mapped action''))), ce)
      | Some rEvent \<Rightarrow>
          (None, append_cmd (Some (rEvent\<lparr>
             re_cmd := VariadicJoin '' '' [engineName (ce_name ce), engineAction (ce_action ce), VariadicJoin '' '' (ce_args ce)],
             re_eventInfo := re_eventInfo rEvent @ VariadicJoin '' '' (ce_args ce)\<rparr>)) ce))"

definition connectNetwork :: "ContainersEngine \<Rightarrow> event_result" where
  "connectNetwork ce =
     Ok (Some (zero_RunEvent\<lparr>
       re_cmd := VariadicJoin '' '' [engineName (ce_name ce), engineAction (ce_action ce), networkAction (ce_networkCmd ce),
         ce_networkName ce, ce_containerName ce],
       re_eventInfo := ''Connecting container '' @ [SQ] @ ce_containerName ce @ [SQ] @ '' to network '' @ [SQ]
         @ ce_networkName ce @ [SQ],
       re_continueProcess := True\<rparr>))"

definition createNetwork :: "ContainersEngine \<Rightarrow> event_result" where
  "createNetwork ce =
     Ok (Some (zero_RunEvent\<lparr>
       re_cmd := VariadicJoin '' '' [engineName (ce_name ce), engineAction (ce_action ce), networkAction (ce_networkCmd ce),
         ce_networkName ce],
       re_eventInfo := ''Creating network '' @ [SQ] @ ce_networkName ce @ [SQ],
       re_continueProcess := True\<rparr>))"

definition networkExists :: "ContainersEngine \<Rightarrow> event_result" where
  "networkExists ce =
     Ok (Some (zero_RunEvent\<lparr>
       re_cmd := VariadicJoin '' '' [engineName (ce_name ce), engineAction (ce_action ce), networkAction (ce_networkCmd ce),
         ce_networkName ce, ''&& echo '' @ kNetworkExistsVerb @ '' || true''],
       re_eventInfo := ''Checking if network '' @ [SQ] @ ce_networkName ce @ [SQ] @ '' exists'',
       re_continueProcess := True\<rparr>))"

definition disconnectFromNetwork :: "ContainersEngine \<Rightarrow> event_result" where
  "disconnectFromNetwork ce =
     Ok (Some (zero_RunEvent\<lparr>
       re_cmd := VariadicJoin '' '' [engineName (ce_name ce), engineAction (ce_action ce), networkAction K_NETWORK_DISCONNECT,
         ce_networkName ce, ce_containerName ce],
       re_eventInfo := ''Disconnecting container '' @ [SQ] @ ce_containerName ce @ [SQ] @ '' from network '' @ [SQ]
         @ ce_networkName ce @ [SQ],
       re_continueProcess := True\<rparr>))"

definition network :: "ContainersEngine \<Rightarrow> err option \<times> ContainersEngine" where
  "network ce =
     (case ce_networkCmd ce of
        K_NETWORK_CONNECT \<Rightarrow> append_result (connectNetwork ce, ce)
      | K_NETWORK_CREATE \<Rightarrow> append_result (createNetwork ce, ce)
      | K_NETWORK_EXISTS \<Rightarrow> append_result (networkExists ce, ce)
      | K_NETWORK_DISCONNECT \<Rightarrow> append_result (disconnectFromNetwork ce, ce)
      | other \<Rightarrow> (Some (NewError (''Failed to execute network command, action '' @ [SQ] @ networkAction other @ [SQ]
          @ '' is not implemented'')), ce))"

section \<open>BuildCommands without the devcontainer run\<close>

text \<open>
  \<open>build_action run\<close> is the switch of \<open>BuildCommands\<close>, with the handler of \<open>K_ACTION_RUN\<close> as
  an argument: the devcontainer run builds a second engine and executes its commands,
  but never one whose action is \<open>K_ACTION_RUN\<close>. \<open>simple_run\<close> is \<open>run\<close> up to the point
  where it needs the outside.
\<close>

definition build_action ::
  "(string \<Rightarrow> string result) \<Rightarrow> (ContainersEngine \<Rightarrow> err option \<times> ContainersEngine) \<Rightarrow> ContainersEngine \<Rightarrow>
   err option \<times> ContainersEngine" where
  "build_action parseRepo run ce =
     (case ce_action ce of
        K_ACTION_CP \<Rightarrow> cp ce
      | K_ACTION_EXE \<Rightarrow> execute parseRepo ce
      | K_ACTION_INSPECT \<Rightarrow> inspect ce
      | K_ACTION_PS \<Rightarrow> ps ce
      | K_ACTION_RUN \<Rightarrow> run ce
      | K_ACTION_NETWORK \<Rightarrow> network ce
      | K_ACTION_NaN \<Rightarrow> (None, ce\<lparr>ce_cmds := []\<rparr>)
      | _ \<Rightarrow> genericContainerAction ce)"

definition simple_run :: "ContainersEngine \<Rightarrow> err option \<times> ContainersEngine" where
  "simple_run ce =
     (if ce_runType ce = K_RUN_GEN then genericRun ce
      else (Some (NewError ''container configuration is required for devcontainer run''), ce))"

definition built :: "err option \<times> ContainersEngine \<Rightarrow> RunEvent option list result" where
  "built r =
     (case fst r of
        Some e \<Rightarrow> Inl (AppendError (''Error while building commands for '' @ Itoa (action_number (ce_action (snd r)))) e)
      | None \<Rightarrow> Ok (ce_cmds (snd r)))"

text \<open>\<open>BuildCommands\<close> of an engine that needs nothing outside: every action but the devcontainer run.\<close>

definition BuildSimple :: "(string \<Rightarrow> string result) \<Rightarrow> ContainersEngine \<Rightarrow> RunEvent option list result" where
  "BuildSimple parseRepo ce = built (build_action parseRepo simple_run ce)"

end
