(* ===== verification/EngineProps.thy ===== *)
theory EngineProps
  imports EngineCore
begin

text \<open>
  What the one-line actions of the engine promise: a command of \<open>execute\<close> always runs
  inside the engine's container as root or as the remote user, each call adds one
  command and keeps the earlier ones, and a custom command reaches the shell of the
  container as one argument whatever bytes it has.
\<close>

lemma exec_line_eq:
  "exec_line ce user flag body =
     engineName (ce_name ce) @ '' exec -u '' @ user @ '' '' @ flag @ '' '' @ ce_containerName ce @ '' '' @ body"
  by (simp add: exec_line_def formatActionName_def)

definition runs_in_container :: "ContainersEngine \<Rightarrow> RunEvent \<Rightarrow> bool" where
  "runs_in_container ce ev =
     (re_continueProcess ev \<and>
      (\<exists>user flag body. user \<in> {KRootUsr, getRemoteUser ce} \<and> flag \<in> {''-i'', ''-it''} \<and>
         re_cmd ev = exec_line ce user flag body))"

lemma runs_in_containerI:
  "re_continueProcess ev \<Longrightarrow> user \<in> {KRootUsr, getRemoteUser ce} \<Longrightarrow> flag \<in> {''-i'', ''-it''} \<Longrightarrow>
   re_cmd ev = exec_line ce user flag body \<Longrightarrow> runs_in_container ce ev"
  unfolding runs_in_container_def by blast

lemma event_runs:
  assumes "user \<in> {KRootUsr, getRemoteUser ce}" "flag \<in> {''-i'', ''-it''}"
  shows "runs_in_container ce (r\<lparr>re_cmd := exec_line ce user flag body, re_continueProcess := True\<rparr>)"
  by (rule runs_in_containerI [OF _ assms, where body = body]) simp_all

lemma runs_in_container_cong:
  "ce_name ce1 = ce_name ce \<Longrightarrow> ce_containerName ce1 = ce_containerName ce \<Longrightarrow> getRemoteUser ce1 = getRemoteUser ce \<Longrightarrow>
   runs_in_container ce1 = runs_in_container ce"
  unfolding runs_in_container_def exec_line_def by (simp only:)

lemma orc_namespace_frame:
  assumes "getOrcNamespace ce = (n, ce1)"
  shows "ce_cmds ce1 = ce_cmds ce \<and> ce_action ce1 = ce_action ce \<and> runs_in_container ce1 = runs_in_container ce"
proof -
  have "ce_cmds ce1 = ce_cmds ce" "ce_action ce1 = ce_action ce" "ce_name ce1 = ce_name ce"
    "ce_containerName ce1 = ce_containerName ce" "getRemoteUser ce1 = getRemoteUser ce"
    using assms by (auto simp: getOrcNamespace_def getRemoteUser_def split: if_splits)
  then show ?thesis using runs_in_container_cong by blast
qed

definition handler_ok :: "ContainersEngine \<Rightarrow> event_result \<times> ContainersEngine \<Rightarrow> bool" where
  "handler_ok ce r =
     (ce_cmds (snd r) = ce_cmds ce \<and> ce_action (snd r) = ce_action ce \<and>
      (\<forall>e. fst r = Inr e \<longrightarrow> (\<forall>ev. e = Some ev \<longrightarrow> ev = zero_RunEvent \<or> runs_in_container ce ev)))"

lemma handler_okI:
  "(\<And>ev. r = Inr (Some ev) \<Longrightarrow> ev = zero_RunEvent \<or> runs_in_container ce ev) \<Longrightarrow> handler_ok ce (r, ce)"
  by (auto simp: handler_ok_def)

lemma handler_ok_zero: "handler_ok ce (Inr (Some zero_RunEvent), ce)" "handler_ok ce (Inr None, ce)"
  by (simp_all add: handler_ok_def)

lemma handler_ok_err: "handler_ok ce (Inl e, ce)"
  by (simp add: handler_ok_def)

lemma handler_ok_mapped:
  "user \<in> {KRootUsr, getRemoteUser ce} \<Longrightarrow> flag \<in> {''-i'', ''-it''} \<Longrightarrow>
   handler_ok ce (mapped_exec k (exec_line ce user flag body), ce)"
  unfolding mapped_exec_def
  by (rule handler_okI) (simp only: sum.inject option.inject, metis event_runs)

lemma handler_ok_raw: "handler_ok ce (executeRaw r ce, ce)"
  unfolding executeRaw_def by (rule handler_okI) (auto intro: event_runs)

lemma handler_ok_bind:
  "(\<And>x. handler_ok ce (f x, ce)) \<Longrightarrow> handler_ok ce (bind_ok r f, ce)"
  by (cases r) (auto simp: handler_ok_def)

lemma handler_ok_namespace:
  assumes "\<And>n ce1. handler_ok ce1 (f n ce1, ce1)"
  shows "handler_ok ce (let (n, ce1) = getOrcNamespace ce in (f n ce1, ce1))"
proof -
  obtain n ce1 where g: "getOrcNamespace ce = (n, ce1)" by fastforce
  show ?thesis using assms [of ce1 n] orc_namespace_frame [OF g] by (simp add: g handler_ok_def)
qed

lemmas raw_handler_defs =
  homeDirHandler_def kubeRegistrySecretHandler_def idHandler_def getKindKubeConfHandler_def
  getKindClusterStatusHandler_def attachContainerHandler_def applyIngressHandler_def getAllNamespaces_def
  chekOrchestrationIsReachable_def waitForIngressController_def waitForOrcNode_def
  checkPathExistsHandler_def removeSharedKeys_def addHelmRepo_def handleCustomCommand_def
  getEnvVariableValue_def bypassProxyInAzure_def chownHandler_def chmodHandler_def mkdirHanlder_def

lemmas table_handler_defs =
  checkSecretExistsHandler_def createSecretHandler_def checkServiceAccountExistsHandler_def
  patchServiceAccountHandler_def checkIngressControllerStatusHandler_def

lemma exec_handler_ok: "handler_ok ce (exec_handler parseRepo k ce)"
proof -
  have ssh: "handler_ok ce (sshKeyHandler ce, ce)" "handler_ok ce (addTempSharedKey ce, ce)"
    unfolding sshKeyHandler_def addTempSharedKey_def
    by (intro handler_ok_bind handler_ok_mapped; simp add: KRootUsr_def)+
  have clone: "handler_ok ce (cloneHandler parseRepo ce, ce)"
    by (cases "parseRepo (scm_uri (ce_repository ce))")
      (simp_all add: cloneHandler_def Let_def handler_ok_mapped handler_ok_err)
  have env: "handler_ok ce (envVariablesHandler ce, ce)"
    by (simp add: envVariablesHandler_def Let_def handler_ok_mapped handler_ok_zero)
  have names: "handler_ok ce (installHelmChart ce)" "handler_ok ce (uninstallHelmChart ce)"
    "handler_ok ce (getConfigMap ce)" "handler_ok ce (checkHelmReleaseDeployed ce)" "handler_ok ce (createOrcNamespace ce)"
    unfolding installHelmChart_def uninstallHelmChart_def getConfigMap_def checkHelmReleaseDeployed_def createOrcNamespace_def
    by (rule handler_ok_namespace, rule handler_ok_mapped; simp)+
  show ?thesis
    by (cases k)
      (simp_all add: ssh clone env names raw_handler_defs table_handler_defs handler_ok_mapped handler_ok_raw Let_def
         gitConfigHandler_def handler_ok_zero handler_ok_err)
qed


section \<open>Custom commands\<close>

lemma plain_engine: "plain_word (engineName n)" "plain_word ''exec''" "plain_word ''-u''" "plain_word ''-i''"
    "plain_word ''/bin/sh''" "plain_word ''-c''" "plain_word ''-it''" "plain_word ''root''"
  by (cases n; simp add: plain_word_def sh_special_def)+

text \<open>A command line of \<open>execute\<close> read by the shell: the engine's words, then those of the body.\<close>

lemma sh_words_exec_line:
  assumes "plain_word user" "plain_word flag" "plain_word (ce_containerName ce)"
  shows "sh_words (exec_line ce user flag body) =
    map_option (\<lambda>ws. [engineName (ce_name ce), ''exec'', ''-u'', user, flag, ce_containerName ce] @ ws)
      (sh_scan Unquoted None body)"
proof -
  have e: "exec_line ce user flag body =
     engineName (ce_name ce) @ CHR '' '' # ''exec'' @ CHR '' '' # ''-u'' @ CHR '' '' # user @ CHR '' '' # flag
     @ CHR '' '' # ce_containerName ce @ CHR '' '' # body"
    by (simp add: exec_line_eq)
  show ?thesis
    unfolding sh_words_def e sh_word_step [OF plain_engine(1)] sh_word_step [OF plain_engine(2)]
      sh_word_step [OF plain_engine(3)] sh_word_step [OF assms(1)] sh_word_step [OF assms(2)] sh_word_step [OF assms(3)]
    by (simp add: option.map_comp comp_def)
qed

lemma sh_scan_sh_c:
  "sh_scan Unquoted None (''/bin/sh -c '' @ shellSingleQuote v) = Some [''/bin/sh'', ''-c'', v]"
  using sh_word_step [OF plain_engine(5)] sh_word_step [OF plain_engine(6)] sh_words_quoted [of v] by simp

lemma custom_template: "template K_EXEC_CUSTOM_CMD [x] = ''/bin/sh -c '' @ x"
  by (simp add: template_def executeMap.simps mapped_event_def Sprintf_def fmt_verb_def)

text \<open>
  C24. A custom command is one argument of the container's shell: for any text at all,
  quotes and newlines included, the command line that is built splits into the
  engine's \<open>exec\<close> words, \<open>/bin/sh\<close>, \<open>-c\<close> and that text unchanged. Nothing in it can
  leave the quotes and reach the shell of the host.
\<close>

theorem custom_command_is_one_argument:
  assumes "ce_action ce = K_ACTION_EXE" "ce_execCmd ce = K_EXEC_CUSTOM_CMD" "ce_cmds ce = []"
    and "plain_word (getRemoteUser ce)" "plain_word (ce_containerName ce)"
  shows "\<exists>ev. BuildSimple parseRepo ce = Ok [Some ev] \<and>
    sh_words (re_cmd ev) = Some [engineName (ce_name ce), ''exec'', ''-u'', getRemoteUser ce, ''-i'', ce_containerName ce,
      ''/bin/sh'', ''-c'', ce_customCommand ce]"
proof -
  have "sh_words (exec_line ce (getRemoteUser ce) ''-i'' (''/bin/sh -c '' @ shellSingleQuote (ce_customCommand ce)))
    = Some [engineName (ce_name ce), ''exec'', ''-u'', getRemoteUser ce, ''-i'', ce_containerName ce,
      ''/bin/sh'', ''-c'', ce_customCommand ce]"
    using assms(4,5) by (simp only: sh_words_exec_line plain_engine sh_scan_sh_c) simp
  then show ?thesis
    using assms(1,2,3)
    by (simp add: BuildSimple_def build_action_def execute_def append_result_def append_cmd_def built_def
        handleCustomCommand_def mapped_exec_def custom_template quoteShellArg_eq)
qed

definition sample_custom :: ContainersEngine where
  "sample_custom = SetCustomCommand ([SQ] @ ''; rm -rf / #'') (SetContainerName ''dev''
     (SetExecuteCmd K_EXEC_CUSTOM_CMD (SetAction K_ACTION_EXE empty_engine)))"

theorem custom_command_is_one_argument_witness:
  "\<exists>ev. BuildSimple (\<lambda>_. Fail []) sample_custom = Ok [Some ev] \<and>
     sh_words (re_cmd ev) = Some [''podman'', ''exec'', ''-u'', ''root'', ''-i'', ''dev'', ''/bin/sh'', ''-c'',
       [SQ] @ ''; rm -rf / #'']"
  using custom_command_is_one_argument [of sample_custom "\<lambda>_. Fail []"]
  by (simp add: sample_custom_def empty_engine_def SetCustomCommand_def SetContainerName_def SetExecuteCmd_def
      SetAction_def getRemoteUser_def KRootUsr_def plain_word_def sh_special_def)

section \<open>One command per action\<close>

lemma append_result_cmds:
  "append_result (r, ce) = (None, ce1) \<Longrightarrow> \<exists>ev. ce_cmds ce1 = ce_cmds ce @ [ev]"
  "append_result (r, ce) = (Some e, ce1) \<Longrightarrow> ce_cmds ce1 = ce_cmds ce"
  by (cases r; auto simp: append_result_def append_cmd_def)+

lemma append_result_action: "append_result (r, ce) = (x, ce1) \<Longrightarrow> ce_action ce1 = ce_action ce"
  by (cases r) (auto simp: append_result_def append_cmd_def)

lemma append_cmd_cmds [simp]: "ce_cmds (append_cmd ev ce) = ce_cmds ce @ [ev]" "ce_action (append_cmd ev ce) = ce_action ce"
  by (simp_all add: append_cmd_def)

definition adds_one :: "ContainersEngine \<Rightarrow> err option \<times> ContainersEngine \<Rightarrow> bool" where
  "adds_one ce r =
     (ce_action (snd r) = ce_action ce \<and>
      (case fst r of Some e \<Rightarrow> ce_cmds (snd r) = ce_cmds ce | None \<Rightarrow> \<exists>ev. ce_cmds (snd r) = ce_cmds ce @ [ev]))"

lemma adds_one_append: "adds_one ce (append_result (r, ce))"
  by (cases r) (simp_all add: adds_one_def append_result_def)

lemma adds_one_execute: "adds_one ce (execute parseRepo ce)"
proof -
  obtain r ce1 where h: "exec_handler parseRepo (ce_execCmd ce) ce = (r, ce1)" by fastforce
  have "handler_ok ce (r, ce1)" using exec_handler_ok [of ce parseRepo "ce_execCmd ce"] h by simp
  then show ?thesis by (cases r) (simp_all add: adds_one_def execute_def append_result_def h handler_ok_def)
qed

lemma adds_one_simple:
  "adds_one ce (cp ce)" "adds_one ce (inspect ce)" "adds_one ce (ps ce)" "adds_one ce (genericRun ce)"
  "adds_one ce (simple_run ce)" "adds_one ce (genericContainerAction ce)" "adds_one ce (network ce)"
proof -
  show run: "adds_one ce (genericRun ce)" by (simp add: adds_one_def genericRun_def)
  show "adds_one ce (cp ce)"
    by (cases "ce_fileCopyActionType ce") (simp_all add: cp_def adds_one_append, simp add: adds_one_def)
  show "adds_one ce (inspect ce)" "adds_one ce (ps ce)" by (simp_all add: adds_one_def inspect_def ps_def)
  show "adds_one ce (simple_run ce)"
    using run by (cases "ce_runType ce = K_RUN_GEN") (simp_all add: simple_run_def, simp add: adds_one_def)
  show "adds_one ce (genericContainerAction ce)"
    by (cases "actionMap (ce_action ce)") (simp_all add: genericContainerAction_def adds_one_def)
  show "adds_one ce (network ce)"
    by (cases "ce_networkCmd ce") (simp_all add: network_def adds_one_append, simp_all add: adds_one_def)
qed

text \<open>
  Building an engine's commands gives the commands it already had and exactly one
  more. So a fresh engine builds one command, and an engine that is built twice runs its
  first command again: \<open>BuildCommands\<close> does not start from an empty list.
\<close>

theorem build_appends_one_command:
  assumes "ce_action ce \<noteq> K_ACTION_NaN" "BuildSimple parseRepo ce = Ok cmds"
  shows "\<exists>ev. cmds = ce_cmds ce @ [ev]"
proof -
  have "adds_one ce (build_action parseRepo simple_run ce)"
    using assms(1) by (cases "ce_action ce") (simp_all add: build_action_def adds_one_simple adds_one_execute)
  with assms(2) show ?thesis
    by (auto simp: BuildSimple_def built_def adds_one_def split: option.splits)
qed

theorem build_appends_one_command_witness:
  "\<exists>ev. [Some zero_RunEvent, Some (mapped_event ''podman start c'' ''Starting container c'')] = [Some zero_RunEvent, ev]"
proof -
  define ce where "ce = AddArg [''c''] (SetAction K_ACTION_START empty_engine)\<lparr>ce_cmds := [Some zero_RunEvent]\<rparr>"
  have "BuildSimple (\<lambda>_. Fail []) ce = Ok [Some zero_RunEvent, Some (mapped_event ''podman start c'' ''Starting container c'')]"
    by (simp add: ce_def AddArg_def SetAction_def empty_engine_def BuildSimple_def build_action_def built_def
        genericContainerAction_def mapped_event_def VariadicJoin_def append_cmd_def)
  from build_appends_one_command [OF _ this] show ?thesis
    by (simp add: ce_def AddArg_def SetAction_def empty_engine_def)
qed

end
