(* ===== verification/EngineExpand.thy ===== *)
theory EngineExpand
  imports EngineProps GoPath
begin

text \<open>
  \<open>internal/engine\<close>, second part: running command lines on the host
  (\<open>shexec/shell.go\<close>), \<open>ExecuteCommand\<close>, and the expansion of \<open>${localEnv:X}\<close> and
  \<open>${containerEnv:X}\<close> in configuration values with the table of values already asked
  for (\<open>envVars\<close>).

  What the engine needs from outside is the record \<open>engine_env\<close>: \<open>bash -c\<close>, the
  temporary files, writing a file, the home directory, and the parser of repository
  addresses. The state that is passed through is the table and the outside world.
\<close>

section \<open>The outside\<close>

record 'w engine_env =
  env_bash :: "string \<Rightarrow> 'w \<Rightarrow> (string \<times> string \<times> err option) \<times> 'w"
  env_CreateTempFile :: "string \<Rightarrow> 'w \<Rightarrow> string result \<times> 'w"
  env_RemoveTempFile :: "string \<Rightarrow> 'w \<Rightarrow> err option \<times> 'w"
  env_WriteFile :: "string \<Rightarrow> string \<Rightarrow> 'w \<Rightarrow> err option \<times> 'w"
  env_HomeDir :: string
  env_parseRepo :: "string \<Rightarrow> string result"

definition failed_command :: "string \<Rightarrow> string \<Rightarrow> string \<Rightarrow> err \<Rightarrow> err" where
  "failed_command cmd stdout stderr e =
     AppendError (''Failed to execute commands locally, command ('' @ cmd @ '') failed'' @ [NL] @ ''stdout: '' @ stdout
       @ [NL] @ ''stderr: '' @ stderr) e"

fun RunLocalCmds :: "'w engine_env \<Rightarrow> RunEvent option list \<Rightarrow> 'w \<Rightarrow> err option \<times> 'w" where
  "RunLocalCmds env [] w = (None, w)"
| "RunLocalCmds env (None # cmds) w = (Some nil_dereference, w)"
| "RunLocalCmds env (Some cmd # cmds) w =
     (case env_bash env (re_cmd cmd) w of
        ((stdout, stderr, Some e), w1) \<Rightarrow> (Some (failed_command (re_cmd cmd) stdout stderr e), w1)
      | ((stdout, stderr, None), w1) \<Rightarrow> RunLocalCmds env cmds w1)"

text \<open>
  The one command whose output is read is the first of the slice: an empty slice panics,
  and so does a nil event. On a failure the text that is returned is the standard error.
\<close>

definition RunLocalCmdWithOutput ::
  "'w engine_env \<Rightarrow> RunEvent option list \<Rightarrow> 'w \<Rightarrow> (string \<times> err option) \<times> 'w" where
  "RunLocalCmdWithOutput env cmds w =
     (case cmds of
        [] \<Rightarrow> (([], Some (NewError ''index out of range [0] with length 0'')), w)
      | None # _ \<Rightarrow> (([], Some nil_dereference), w)
      | Some cmd # _ \<Rightarrow>
          (case env_bash env (re_cmd cmd) w of
             ((stdout, stderr, Some e), w1) \<Rightarrow> ((stderr, Some (failed_command (re_cmd cmd) stdout stderr e)), w1)
           | ((stdout, stderr, None), w1) \<Rightarrow> ((stdout, None), w1)))"

text \<open>
  More than one command with no error from the build: \<open>AppendError\<close> is given a nil error
  and dereferences it.
\<close>

definition ExecuteCommand ::
  "RunEvent option list result \<Rightarrow> (RunEvent option list \<Rightarrow> 'w \<Rightarrow> (string \<times> err option) \<times> 'w) \<Rightarrow> 'w \<Rightarrow>
   (string \<times> err option) \<times> 'w" where
  "ExecuteCommand built_cmds exec w =
     (case built_cmds of
        Inl e \<Rightarrow> (([], Some (AppendError ''Failed to build command ([])'' e)), w)
      | Inr cmds \<Rightarrow> if length cmds > 1 then (([], Some nil_dereference), w) else exec cmds w)"

definition ExecuteCommands ::
  "RunEvent option list result \<Rightarrow> (RunEvent option list \<Rightarrow> 'w \<Rightarrow> err option \<times> 'w) \<Rightarrow> 'w \<Rightarrow> err option \<times> 'w" where
  "ExecuteCommands built_cmds exec w =
     (case built_cmds of
        Inl e \<Rightarrow> (Some (AppendError ''Failed to build commands ([])'' e), w)
      | Inr cmds \<Rightarrow> exec cmds w)"

text \<open>What every helper of the package does: build the engine's command and run it here.\<close>

definition run_engine :: "'w engine_env \<Rightarrow> ContainersEngine \<Rightarrow> 'w \<Rightarrow> (string \<times> err option) \<times> 'w" where
  "run_engine env ce w = ExecuteCommand (BuildSimple (env_parseRepo env) ce) (RunLocalCmdWithOutput env) w"

section \<open>Finding the parts to expand\<close>

text \<open>
  Leftmost matches that do not overlap, as \<open>FindAll\<close> finds them. The pattern at one
  position is a function that gives the match and how many further characters it takes.
\<close>

fun scan_matches :: "(string \<Rightarrow> ('m \<times> nat) option) \<Rightarrow> string \<Rightarrow> 'm list" where
  "scan_matches m [] = []"
| "scan_matches m (c # cs) =
     (case m (c # cs) of
        None \<Rightarrow> scan_matches m cs
      | Some (x, k) \<Rightarrow> x # scan_matches m (drop k cs))"

definition env_letter :: "char \<Rightarrow> bool" where
  "env_letter c = ((65 \<le> char_code c \<and> char_code c \<le> 90) \<or> (97 \<le> char_code c \<and> char_code c \<le> 122) \<or> c = CHR ''_'')"

definition env_char :: "char \<Rightarrow> bool" where "env_char c = (env_letter c \<or> is_digit c)"

record evaluableEnvVar =
  ev_fullMatch :: string
  ev_envName :: string
  ev_varName :: string

text \<open>
  \<open>kDevContainerVarRegXp\<close>: a dollar, a brace, letters, a colon, letters or digits, a brace.
  Neither class contains the character that follows it, so taking all there is is the
  only way to match.
\<close>

definition var_at :: "string \<Rightarrow> (evaluableEnvVar \<times> nat) option" where
  "var_at s =
     (if \<not> HasPrefix s ''${'' then None
      else let env = takeWhile env_letter (drop 2 s);
               rest = dropWhile env_letter (drop 2 s)
           in if env = [] \<or> rest = [] \<or> hd rest \<noteq> CHR '':'' then None
              else let var = takeWhile env_char (tl rest);
                       rest2 = dropWhile env_char (tl rest)
                   in if var = [] \<or> rest2 = [] \<or> hd rest2 \<noteq> CHR ''}'' then None
                      else let full = ''${'' @ env @ '':'' @ var @ ''}''
                           in Some (\<lparr>ev_fullMatch = full, ev_envName = env, ev_varName = var\<rparr>, length full - 1))"

definition FindExpandablePartInString :: "string \<Rightarrow> evaluableEnvVar list" where
  "FindExpandablePartInString text = scan_matches var_at text"

section \<open>Values of variables\<close>

type_synonym 'w engine_state = "(string \<rightharpoonup> string) \<times> 'w"

definition localEnv :: string where "localEnv = ''localEnv''"
definition containerEnv :: string where "containerEnv = ''containerEnv''"

definition fromMemoizeMap :: "(string \<rightharpoonup> string) \<Rightarrow> string \<Rightarrow> string option" where
  "fromMemoizeMap envVars varName = envVars varName"

definition addVarToMap :: "string \<Rightarrow> string \<Rightarrow> (string \<rightharpoonup> string) \<Rightarrow> (string \<rightharpoonup> string)" where
  "addVarToMap key val envVars = envVars(key \<mapsto> val)"

definition echo_event :: "string \<Rightarrow> RunEvent" where
  "echo_event varName = zero_RunEvent\<lparr>re_cmd := ''echo $'' @ varName,
     re_eventInfo := ''Retrieving env variable '' @ [SQ] @ varName @ [SQ], re_continueProcess := True\<rparr>"

definition getEnvValueFromHost :: "'w engine_env \<Rightarrow> string \<Rightarrow> 'w engine_state \<Rightarrow> string result \<times> 'w engine_state" where
  "getEnvValueFromHost env varName st =
     (case fromMemoizeMap (fst st) varName of
        Some val \<Rightarrow> (Ok val, st)
      | None \<Rightarrow>
          (case RunLocalCmdWithOutput env [Some (echo_event varName)] (snd st) of
             ((out, Some e), w1) \<Rightarrow> (Inl (AppendError (''Failed to get local env variable ('' @ varName @ '')'') e), (fst st, w1))
           | ((out, None), w1) \<Rightarrow>
               (let stdout = Trim out [NL] in (Ok stdout, (addVarToMap varName stdout (fst st), w1)))))"

definition container_env_engine :: "string \<Rightarrow> string \<Rightarrow> Container \<Rightarrow> ContainersEngine" where
  "container_env_engine varName engine_name containerInfo =
     SetEnvVarName varName (SetRemoteUser (ct_RemoteUser containerInfo) (SetContainerName (ct_Name containerInfo)
       (SetExecuteCmd K_EXEC_CMD_GET_ENV_VARIABLE (SetAction K_ACTION_EXE (SetEngineName engine_name empty_engine)))))"

definition getEnvValueFromContainer ::
  "'w engine_env \<Rightarrow> string \<Rightarrow> string \<Rightarrow> Container \<Rightarrow> 'w engine_state \<Rightarrow> string result \<times> 'w engine_state" where
  "getEnvValueFromContainer env varName engine_name containerInfo st =
     (case run_engine env (container_env_engine varName engine_name containerInfo) (snd st) of
        ((out, Some e), w1) \<Rightarrow>
          (Inl (AppendError (''Failed to get environment variable '' @ varName @ '' from container'') e), (fst st, w1))
      | ((out, None), w1) \<Rightarrow> (Ok out, (fst st, w1)))"

definition GetVariableValue ::
  "'w engine_env \<Rightarrow> evaluableEnvVar \<Rightarrow> string \<Rightarrow> Container \<Rightarrow> 'w engine_state \<Rightarrow> string result \<times> 'w engine_state" where
  "GetVariableValue env envVar engine_name containerInfo st =
     (let (value, st1) =
        (if ev_envName envVar = localEnv then getEnvValueFromHost env (ev_varName envVar) st
         else if ev_envName envVar = containerEnv
           then getEnvValueFromContainer env (ev_varName envVar) engine_name containerInfo st
         else (Fail (''Unknown environment variable type '' @ [SQ] @ ev_envName envVar @ [SQ]), st))
      in (wrap_error (''Failed to retrieve value of environment variable '' @ ev_varName envVar) value, st1))"

text \<open>The text \<open>%v\<close> gives for a configuration value; the entries of an object come in key order.\<close>

fun cfg_text :: "cfg_value \<Rightarrow> string" where
  "cfg_text (CfgString s) = s"
| "cfg_text (CfgBool b) = (if b then ''true'' else ''false'')"
| "cfg_text (CfgNumber n) = Itoa n"
| "cfg_text (CfgArray vs) = ''['' @ Join (map cfg_text vs) '' '' @ '']''"
| "cfg_text (CfgObject kvs) = ''map['' @ Join (map (\<lambda>kv. fst kv @ '':'' @ cfg_text (snd kv)) kvs) '' '' @ '']''"

definition any_text :: "cfg_value option \<Rightarrow> string" where
  "any_text a = (case a of None \<Rightarrow> ''<nil>'' | Some v \<Rightarrow> cfg_text v)"

text \<open>One match: its value replaces every occurrence, a value that cannot be had leaves it.\<close>

definition expand_step ::
  "'w engine_env \<Rightarrow> string \<times> 'w engine_state \<Rightarrow> evaluableEnvVar \<Rightarrow> string \<times> 'w engine_state" where
  "expand_step env vs match =
     (case GetVariableValue env match [] zero_Container (snd vs) of
        (Inl e, st1) \<Rightarrow> (fst vs, st1)
      | (Inr envVarVal, st1) \<Rightarrow> (ReplaceAll (fst vs) (ev_fullMatch match) envVarVal, st1))"

definition expand :: "'w engine_env \<Rightarrow> cfg_value option \<Rightarrow> 'w engine_state \<Rightarrow> string result \<times> 'w engine_state" where
  "expand env a st =
     (case a of
        Some (CfgString val) \<Rightarrow>
          (let (val1, st1) = foldl (expand_step env) (val, st) (FindExpandablePartInString val) in (Ok val1, st1))
      | _ \<Rightarrow> (Fail (''Failed to expand value ('' @ any_text a @ ''), incorrect cast to string''), st))"

definition ExpandAttributeValue :: "'w engine_env \<Rightarrow> string \<Rightarrow> 'w engine_state \<Rightarrow> string \<times> 'w engine_state" where
  "ExpandAttributeValue env txt st =
     (case expand env (Some (CfgString txt)) st of (Inl e, st1) \<Rightarrow> ([], st1) | (Inr val, st1) \<Rightarrow> (val, st1))"

definition GetHostHomeDir :: "'w engine_env \<Rightarrow> 'w engine_state \<Rightarrow> string \<times> 'w engine_state" where
  "GetHostHomeDir env st =
     (case getEnvValueFromHost env ''HOME'' st of (Inl e, st1) \<Rightarrow> ([], st1) | (Inr v, st1) \<Rightarrow> (v, st1))"

section \<open>Users of a configuration\<close>

definition kDefaultUser :: string where "kDefaultUser = ''root''"

definition ResolveRemoteUserFromConfig ::
  "'w engine_env \<Rightarrow> Config option \<Rightarrow> 'w engine_state \<Rightarrow> string \<times> 'w engine_state" where
  "ResolveRemoteUserFromConfig env config st =
     (case config of
        None \<Rightarrow> (kDefaultUser, st)
      | Some c \<Rightarrow> (case expand env (c [''remoteUser'']) st of (Inr u, st1) \<Rightarrow> (u, st1) | (Inl e, st1) \<Rightarrow> (kDefaultUser, st1)))"

definition ResolveContainerUserFromConfig ::
  "'w engine_env \<Rightarrow> Config option \<Rightarrow> 'w engine_state \<Rightarrow> string \<times> 'w engine_state" where
  "ResolveContainerUserFromConfig env config st =
     (case config of
        None \<Rightarrow> (kDefaultUser, st)
      | Some c \<Rightarrow> (case expand env (c [''containerUser'']) st of (Inr u, st1) \<Rightarrow> (u, st1) | (Inl e, st1) \<Rightarrow> (kDefaultUser, st1)))"

definition newContainersEngineUser ::
  "'w engine_env \<Rightarrow> Config option \<Rightarrow> 'w engine_state \<Rightarrow> containersEngineUser \<times> 'w engine_state" where
  "newContainersEngineUser env config st =
     (let (remoteUsr, st1) = ResolveRemoteUserFromConfig env config st;
          (containerUsr, st2) = ResolveContainerUserFromConfig env config st1
      in (\<lparr>eu_remoteUsr = remoteUsr, eu_containerUsr = containerUsr,
           eu_targetUsr = \<lparr>cu_uid = [], cu_gid = [], cu_file = []\<rparr>\<rparr>, st2))"

definition WithContainerConfig :: "Config \<Rightarrow> ContainersEngine \<Rightarrow> ContainersEngine" where
  "WithContainerConfig config ce = ce\<lparr>ce_config := Some config\<rparr>"

definition WithResourceProvider :: "resourceProvider \<Rightarrow> ContainersEngine \<Rightarrow> ContainersEngine" where
  "WithResourceProvider rp ce = ce\<lparr>ce_resourceProvider := rp\<rparr>"

definition WithResolvedFeatures :: "ResolvedFeature list \<Rightarrow> ContainersEngine \<Rightarrow> ContainersEngine" where
  "WithResolvedFeatures rf ce = ce\<lparr>ce_resolvedFeatures := rf\<rparr>"

text \<open>
  The empty engine stands for the zero struct: its users are overwritten, and a provider
  that was not set is the unimplemented one.
\<close>

definition NewContainerEngine ::
  "'w engine_env \<Rightarrow> (ContainersEngine \<Rightarrow> ContainersEngine) list \<Rightarrow> 'w engine_state \<Rightarrow> ContainersEngine \<times> 'w engine_state" where
  "NewContainerEngine env opts st =
     (let ce = foldl (\<lambda>c opt. opt c) empty_engine opts;
          (user, st1) = newContainersEngineUser env (ce_config ce) st
      in (ce\<lparr>ce_user := user\<rparr>, st1))"

lemma NewContainerEngine_plain: "NewContainerEngine env [] st = (empty_engine, st)"
  by (simp add: NewContainerEngine_def newContainersEngineUser_def ResolveRemoteUserFromConfig_def
      ResolveContainerUserFromConfig_def empty_engine_def kDefaultUser_def KRootUsr_def)

section \<open>Asking the host once\<close>

text \<open>A name is known when its value is in the table or it cannot be looked up on the host.\<close>

definition answered :: "(string \<rightharpoonup> string) \<Rightarrow> evaluableEnvVar \<Rightarrow> bool" where
  "answered memo m = (ev_envName m = localEnv \<and> memo (ev_varName m) \<noteq> None)"

lemma GetVariableValue_known:
  "answered (fst st) m \<Longrightarrow> GetVariableValue env m e c st = (Inr (the (fst st (ev_varName m))), st)"
  by (auto simp: answered_def GetVariableValue_def getEnvValueFromHost_def fromMemoizeMap_def)

lemma GetVariableValue_memo:
  assumes "GetVariableValue env m e c st = (r, st1)"
  shows "fst st \<subseteq>\<^sub>m fst st1" and "ev_envName m = localEnv \<Longrightarrow> r = Inr v \<Longrightarrow> fst st1 (ev_varName m) = Some v"
proof -
  have host: "\<And>r1 st1. getEnvValueFromHost env (ev_varName m) st = (r1, st1) \<Longrightarrow>
      fst st \<subseteq>\<^sub>m fst st1 \<and> (\<forall>v. r1 = Inr v \<longrightarrow> fst st1 (ev_varName m) = Some v)"
    by (auto simp: getEnvValueFromHost_def fromMemoizeMap_def addVarToMap_def Let_def map_le_def
        split: option.splits prod.splits)
  have cont: "\<And>r1 st1. getEnvValueFromContainer env (ev_varName m) e c st = (r1, st1) \<Longrightarrow> fst st1 = fst st"
    by (auto simp: getEnvValueFromContainer_def split: option.splits prod.splits)
  obtain r0 s0 where g: "r = wrap_error (''Failed to retrieve value of environment variable '' @ ev_varName m) r0" "st1 = s0"
    "(r0, s0) = (if ev_envName m = localEnv then getEnvValueFromHost env (ev_varName m) st
         else if ev_envName m = containerEnv then getEnvValueFromContainer env (ev_varName m) e c st
         else (Fail (''Unknown environment variable type '' @ [SQ] @ ev_envName m @ [SQ]), st))"
    using assms unfolding GetVariableValue_def Let_def by (auto split: prod.splits)
  show "fst st \<subseteq>\<^sub>m fst st1"
    using g(2,3) host [of r0 s0] cont [of r0 s0] by (auto split: if_splits)
  show "ev_envName m = localEnv \<Longrightarrow> r = Inr v \<Longrightarrow> fst st1 (ev_varName m) = Some v"
    using g host [of r0 s0] by (cases r0) (auto split: if_splits)
qed

end
