(* ===== verification/EngineRun.thy ===== *)
theory EngineRun
  imports EngineExpand
begin

text \<open>
  \<open>internal/engine/containersengine.go\<close>, the devcontainer run: what happens on the host
  before the container exists (\<open>preServer\<close>, \<open>preContainerRun\<close>), the image
  (\<open>prepareImage\<close>), the run command itself (\<open>containerRun\<close>), the configured users, the
  post-create command and the features, composed by \<open>run\<close> in the order of the code, and
  \<open>BuildCommands\<close> with it.

  Every step takes the engine and the state (table of variables, outside world) and
  gives back both with the error it returns. A type assertion without its \<open>ok\<close> that
  does not hold panics; the model gives \<open>type_assertion\<close>. The report of several errors
  has their messages without the source positions.
\<close>

definition type_assertion :: err where
  "type_assertion = NewError ''interface conversion: interface {} is not string''"

fun err_text :: "err \<Rightarrow> string" where
  "err_text (Err m None) = m"
| "err_text (Err m (Some e)) = m @ ''. From: '' @ err_text e"

definition AppendMultipleErrors :: "string \<Rightarrow> err list \<Rightarrow> err" where
  "AppendMultipleErrors title es =
     NewError (title @ [NL] @ concat (map (\<lambda>(i, e). ''Error '' @ nat_text 10 i @ '': '' @ err_text e @ '' '' @ [NL])
       (enumerate 0 es)))"

type_synonym 'w step = "ContainersEngine \<Rightarrow> 'w engine_state \<Rightarrow> err option \<times> ContainersEngine \<times> 'w engine_state"

text \<open>\<open>if err := step(); err != nil { return cerr.AppendError(m, err) }\<close>, then the rest.\<close>

definition and_then :: "string \<Rightarrow> 'w step \<Rightarrow> 'w step \<Rightarrow> 'w step" where
  "and_then m step rest ce st =
     (case step ce st of
        (Some e, ce1, st1) \<Rightarrow> (Some (AppendError m e), ce1, st1)
      | (None, ce1, st1) \<Rightarrow> rest ce1 st1)"

section \<open>Templates in feature files\<close>

text \<open>\<open>kConfAttregExp\<close>: a brace, a dot, letters, a brace.\<close>

definition attr_at :: "string \<Rightarrow> ((string \<times> string) \<times> nat) option" where
  "attr_at s =
     (if \<not> HasPrefix s ''{.'' then None
      else let name = takeWhile env_letter (drop 2 s);
               rest = dropWhile env_letter (drop 2 s)
           in if name = [] \<or> rest = [] \<or> hd rest \<noteq> CHR ''}'' then None
              else Some ((''{.'' @ name @ ''}'', name), length name + 2))"

text \<open>\<open>ReplaceAllString(att, "$1")\<close>: each match becomes the name in it.\<close>

fun trim_from :: "nat \<Rightarrow> string \<Rightarrow> string" where
  "trim_from skip [] = []"
| "trim_from (Suc k) (c # cs) = trim_from k cs"
| "trim_from 0 (c # cs) =
     (case attr_at (c # cs) of
        None \<Rightarrow> c # trim_from 0 cs
      | Some ((full, name), k) \<Rightarrow> name @ trim_from k cs)"

definition trimAttribute :: "string \<Rightarrow> string" where "trimAttribute att = trim_from 0 att"

definition engineAttribute :: "string \<Rightarrow> bool" where
  "engineAttribute s = (s = ''defaultShell'')"

definition getProfileAttributeValue :: "ContainersEngine \<Rightarrow> string \<Rightarrow> string" where
  "getProfileAttributeValue ce att =
     (let profileDefaultShell = (case configGet ce [''cds'', ''defaultShell''] of Some (CfgString s) \<Rightarrow> s | _ \<Rightarrow> [])
      in if engineAttribute (trimAttribute att) then profileDefaultShell else [])"

definition getConfAttributeValue ::
  "'w engine_env \<Rightarrow> ContainersEngine \<Rightarrow> string \<Rightarrow> 'w engine_state \<Rightarrow> string \<times> 'w engine_state" where
  "getConfAttributeValue env ce s st =
     (case configGet ce [trimAttribute s] of
        None \<Rightarrow> ([], st)
      | Some v \<Rightarrow> (case expand env (Some v) st of (Inl e, st1) \<Rightarrow> ([], st1) | (Inr r, st1) \<Rightarrow> (r, st1)))"

definition resolveAttributeValue ::
  "'w engine_env \<Rightarrow> ContainersEngine \<Rightarrow> string \<Rightarrow> 'w engine_state \<Rightarrow> string \<times> 'w engine_state" where
  "resolveAttributeValue env ce s st =
     (let attributeValue = getProfileAttributeValue ce s
      in if attributeValue \<noteq> [] then (attributeValue, st) else getConfAttributeValue env ce s st)"

definition format_step ::
  "'w engine_env \<Rightarrow> ContainersEngine \<Rightarrow> string \<times> 'w engine_state \<Rightarrow> string \<Rightarrow> string \<times> 'w engine_state" where
  "format_step env ce ds match =
     (let (attributeValue, st1) = resolveAttributeValue env ce match (snd ds)
      in (ReplaceAll (fst ds) match attributeValue, st1))"

definition formatContent ::
  "'w engine_env \<Rightarrow> ContainersEngine \<Rightarrow> string \<Rightarrow> string \<Rightarrow> 'w engine_state \<Rightarrow> string \<times> 'w engine_state" where
  "formatContent env ce content filename st =
     (if \<not> HasSuffix filename ''.tmpl'' then (content, st)
      else foldl (format_step env ce) (content, st) (map fst (scan_matches attr_at content)))"

section \<open>On the host, before\<close>

definition executeFileOnHost :: "string \<Rightarrow> ContainersEngine \<Rightarrow> ContainersEngine" where
  "executeFileOnHost fileLocationForExec ce =
     (let quotedPath = shellSingleQuote fileLocationForExec
      in append_cmd (Some (zero_RunEvent\<lparr>
           re_cmd := ''bash '' @ quotedPath @ ''; rc=$?; rm -f '' @ quotedPath @ ''; exit $rc'',
           re_eventInfo := ''Running feature'' @ [SQ] @ ''s onHost'',
           re_continueProcess := True\<rparr>)) ce)"

definition addHostConfigurationFiles :: "'w engine_env \<Rightarrow> 'w step" where
  "addHostConfigurationFiles env ce st =
     (case SingletonIdentifier KindAuthFile of
        Inl e \<Rightarrow> (Some (AppendError ''Failed to resolve auth file identifier'' e), ce, st)
      | Inr identifier \<Rightarrow>
          if \<not> rp_FileExists (ce_resourceProvider ce) ResourceTypeFile identifier then (None, ce, st)
          else (case rp_FetchFile (ce_resourceProvider ce) ResourceTypeFile identifier of
              Inl e \<Rightarrow> (Some (AppendError ''Failed to read auth file data to copy host container configuration file'' e), ce, st)
            | Inr authFileData \<Rightarrow>
                (let authFilePath = path_Join [env_HomeDir env, ''.config'', ''containers'', ''auth.json'']
                 in case env_WriteFile env authFilePath authFileData (snd st) of
                      (Some e, w1) \<Rightarrow>
                        (Some (AppendError (''Failed to write auth file at '' @ [SQ] @ authFilePath @ [SQ]
                           @ '' to copy host container configuration file'') e), ce, (fst st, w1))
                    | (None, w1) \<Rightarrow> (None, ce, (fst st, w1)))))"

text \<open>\<open>FeatureFileIdentifier\<close> of \<open>internal/features\<close>.\<close>

definition FeatureFileIdentifier :: "string \<Rightarrow> string \<Rightarrow> string \<Rightarrow> string" where
  "FeatureFileIdentifier name version relPath = VariadicJoin '';'' [name, version, relPath]"

text \<open>One file of \<open>OnHost\<close>: a failure is logged and the loop goes on.\<close>

definition host_file ::
  "'w engine_env \<Rightarrow> ResolvedFeature \<Rightarrow> ContainersEngine \<times> 'w engine_state \<Rightarrow> string \<Rightarrow> ContainersEngine \<times> 'w engine_state" where
  "host_file env f acc relPath =
     (let (ce, st) = acc
      in case rp_FetchFile (ce_resourceProvider ce) ResourceTypeFeature (FeatureFileIdentifier (rf_Name f) (rf_Version f) relPath) of
           Inl e \<Rightarrow> (ce, st)
         | Inr content \<Rightarrow>
             (let (processed, st1) = formatContent env ce content relPath st
              in case env_CreateTempFile env processed (snd st1) of
                   (Inl e, w2) \<Rightarrow> (ce, (fst st1, w2))
                 | (Inr tmpPath, w2) \<Rightarrow> (executeFileOnHost tmpPath ce, (fst st1, w2))))"

definition preServer :: "'w engine_env \<Rightarrow> 'w step" where
  "preServer env =
     and_then ''Failed to copy configuration files'' (addHostConfigurationFiles env) (\<lambda>ce st.
       (None, foldl (\<lambda>acc f. foldl (host_file env f) acc (ep_Files (rf_OnHost f))) (ce, st) (ce_resolvedFeatures ce)))"

definition kDefaultDevboxConfDir :: string where
  "kDefaultDevboxConfDir = ''${localEnv:HOME}/.devbox''"

definition devbox_step :: "'w engine_env \<Rightarrow> ContainersEngine \<Rightarrow> 'w engine_state \<Rightarrow> ContainersEngine \<times> 'w engine_state" where
  "devbox_step env ce st =
     (case expand env (Some (CfgString kDefaultDevboxConfDir)) st of
        (Inl e, st1) \<Rightarrow> (ce, st1)
      | (Inr dir, st1) \<Rightarrow>
          (append_cmd (Some (zero_RunEvent\<lparr>re_cmd := ''mkdir -p '' @ path_Clean dir,
             re_eventInfo := ''Creating default devbox configuration directory''\<rparr>)) ce, st1))"

definition preContainerRun :: "'w engine_env \<Rightarrow> 'w step" where
  "preContainerRun env ce st =
     (let (ce1, st1) = devbox_step env ce st
      in if \<not> configIsSet ce1 [''initializeCommand''] then (None, ce1, st1)
         else (case expand env (configGet ce1 [''initializeCommand'']) st1 of
             (Inl e, st2) \<Rightarrow> (Some (AppendError ''Failed to resolve initializeCommand'' e), ce1, st2)
           | (Inr ic, st2) \<Rightarrow>
               if ic = [] then (None, ce1, st2)
               else (None, append_cmd (Some (zero_RunEvent\<lparr>
                       re_cmd := ''/bin/sh -c '' @ [SQ] @ ic @ [SQ] @ '' '',
                       re_eventInfo := ''Running devcontainer initializeCommand''\<rparr>)) ce1, st2)))"

section \<open>The image\<close>

definition build_engine :: "string \<Rightarrow> string \<Rightarrow> ContainersEngine" where
  "build_engine path name = AddArg [''-t'', name, ''-f'', path] (SetAction K_ACTION_BUILD empty_engine)"

definition buildDockerfile :: "'w engine_env \<Rightarrow> string \<Rightarrow> string \<Rightarrow> 'w \<Rightarrow> err option \<times> 'w" where
  "buildDockerfile env path name w =
     (case run_engine env (build_engine path name) w of
        ((out, Some e), w1) \<Rightarrow> (Some (AppendError (''Failed to build dockerfile image '' @ name @ '' at '' @ path) e), w1)
      | ((out, None), w1) \<Rightarrow> (None, w1))"

text \<open>The temporary file is removed on the way out, whatever happened after it was made.\<close>

definition prepareImage :: "'w engine_env \<Rightarrow> ContainersEngine \<Rightarrow> 'w engine_state \<Rightarrow> string result \<times> 'w engine_state" where
  "prepareImage env ce st =
     (case configGet ce [''image''] of
        Some img \<Rightarrow> expand env (Some img) st
      | None \<Rightarrow>
          if \<not> configIsSet ce [''build'', ''dockerfile''] then (Fail ''No image specified'', st)
          else (case wrap_error ''Failed to resolve dockerfile identifier'' (DockerfileIdentifier (the (ce_config ce))) of
              Inl e \<Rightarrow> (Inl e, st)
            | Inr identifier \<Rightarrow>
                (case rp_FetchFile (ce_resourceProvider ce) ResourceTypeFile identifier of
                   Inl e \<Rightarrow> (Inl (AppendError ''Failed to read dockerfile data to prepare image'' e), st)
                 | Inr dockerFileData \<Rightarrow>
                     (case env_CreateTempFile env dockerFileData (snd st) of
                        (Inl e, w1) \<Rightarrow> (Inl (AppendError ''Failed to create temporary dockerfile'' e), (fst st, w1))
                      | (Inr dockerFilePath, w1) \<Rightarrow>
                          (let imageName = ToLower (ce_containerName ce);
                               (e, w2) = buildDockerfile env dockerFilePath imageName w1;
                               (ignored, w3) = env_RemoveTempFile env dockerFilePath w2
                           in (case e of
                                 Some err \<Rightarrow> Inl (AppendError ''Failed to build dockerfile'' err)
                               | None \<Rightarrow> Ok (KLocalhost @ ''/'' @ imageName), (fst st, w3)))))))"

section \<open>The options of the run command\<close>

definition validateRunArg :: "ContainersEngine \<Rightarrow> string \<Rightarrow> err option" where
  "validateRunArg ce arg =
     (if arg = ''--userns=keep-id'' then
        (case configGet ce [''features''] of
           Some (CfgObject kvs) \<Rightarrow> if ''userns-keepid'' \<in> fst ` set kvs then None
             else Some (NewError (''missing feature '' @ [SQ] @ ''userns-keepid'' @ [SQ]))
         | _ \<Rightarrow> Some (NewError (''missing feature '' @ [SQ] @ ''userns-keepid'' @ [SQ])))
      else None)"

fun run_args :: "ContainersEngine \<Rightarrow> cfg_value list \<Rightarrow> string list result" where
  "run_args ce [] = Ok []"
| "run_args ce (CfgString arg # args) =
     (case validateRunArg ce arg of
        Some e \<Rightarrow> run_args ce args
      | None \<Rightarrow> bind_ok (run_args ce args) (\<lambda>rest. Ok (arg # rest)))"
| "run_args ce (_ # args) = Inl type_assertion"

fun port_specs :: "cfg_value list \<Rightarrow> string list" where
  "port_specs [] = []"
| "port_specs (CfgString p # vs) = p # port_specs vs"
| "port_specs (_ # vs) = port_specs vs"

definition portSpecPublishesContainerPort :: "string \<Rightarrow> string \<Rightarrow> bool" where
  "portSpecPublishesContainerPort portSpec containerPort =
     (let parts = split_on (CHR '':'') (TrimSpace portSpec)
      in TrimSuffix (TrimSpace (last parts)) ''/tcp'' = containerPort)"

definition configPublishesContainerPort :: "Config option \<Rightarrow> string \<Rightarrow> bool" where
  "configPublishesContainerPort config containerPort =
     (case config of
        None \<Rightarrow> False
      | Some c \<Rightarrow> (case c [''appPort''] of
            Some (CfgArray appPorts) \<Rightarrow> list_ex (\<lambda>p. portSpecPublishesContainerPort p containerPort) (port_specs appPorts)
          | _ \<Rightarrow> False))"

definition KPersistentVolumeMount :: string where
  "KPersistentVolumeMount = ''source=/srv/data/home/${localEnv:USER}/workspace/kind-mount,target=/kind-mount,type=bind''"

definition defaultMounts :: "cfg_value list" where
  "defaultMounts = [CfgString (''source='' @ kDefaultDevboxConfDir @ '',target=/devbox,type=bind'')]"

definition mountsFromConfig :: "ContainersEngine \<Rightarrow> cfg_value list result" where
  "mountsFromConfig ce =
     (case configGet ce [''mounts''] of
        None \<Rightarrow> Ok []
      | Some (CfgArray ms) \<Rightarrow> Ok ms
      | _ \<Rightarrow> Fail ''Failed to retrieve mounts from config'')"

definition mountsFromOrchestration :: "ContainersEngine \<Rightarrow> cfg_value list" where
  "mountsFromOrchestration ce =
     (if configGet ce [''orchestration'', ''pvc''] = Some (CfgBool True) then [CfgString KPersistentVolumeMount] else [])"

definition mounts :: "ContainersEngine \<Rightarrow> cfg_value list result" where
  "mounts ce = bind_ok (mountsFromConfig ce) (\<lambda>fromConfig. Ok (defaultMounts @ fromConfig @ mountsFromOrchestration ce))"

text \<open>The argument for one expanded mount, or nothing when the code skips it with a warning.\<close>

definition mount_arg :: "string \<Rightarrow> string option" where
  "mount_arg expandedMount =
     (let srcDst = split_on (CHR '','') expandedMount
      in if length srcDst < 2 then None
         else let src = split_on (CHR ''='') (srcDst ! 0);
                  dst = split_on (CHR ''='') (srcDst ! 1)
              in if length src \<noteq> 2 \<or> length dst \<noteq> 2 then None
                 else if src ! 1 = [] \<or> dst ! 1 = [] then None
                 else Some (''-v '' @ src ! 1 @ '':'' @ dst ! 1))"

definition mount_step ::
  "'w engine_env \<Rightarrow> string list \<times> 'w engine_state \<Rightarrow> cfg_value \<Rightarrow> string list \<times> 'w engine_state" where
  "mount_step env acc mount =
     (let (expanded, st1) = expand env (Some mount) (snd acc);
          expandedMount = (case expanded of Inl e \<Rightarrow> [] | Inr s \<Rightarrow> s)
      in case mount_arg expandedMount of
           None \<Rightarrow> (fst acc, st1)
         | Some a \<Rightarrow> if a \<in> set (fst acc) then (fst acc, st1) else (fst acc @ [a], st1))"

definition getMountOptions ::
  "'w engine_env \<Rightarrow> ContainersEngine \<Rightarrow> 'w engine_state \<Rightarrow> string list result \<times> 'w engine_state" where
  "getMountOptions env ce st =
     (case mounts ce of
        Inl e \<Rightarrow> (Inl (AppendError ''Failed to retrieve mounts from configuration and/or orchestration'' e), st)
      | Inr ms \<Rightarrow> (let (opts, st1) = foldl (mount_step env) ([], st) ms in (Ok opts, st1)))"

definition config_IsNasRequested :: "Config \<Rightarrow> bool" where
  "config_IsNasRequested config = (config [''cds'', ''mount_nas''] = Some (CfgBool True))"

definition kPodmanNetwork :: string where "kPodmanNetwork = ''podman''"

definition fixed_options :: "ContainersEngine \<Rightarrow> string list" where
  "fixed_options ce =
     [''--name '' @ ce_containerName ce, ''--detach'', ''-u '' @ KRootUsr, ''--network='' @ kPodmanNetwork]
     @ map (\<lambda>(labelKey, labelValue). ''--label '' @ labelKey @ ''='' @ labelValue) (ce_containerLabels ce)"

definition config_run_args :: "ContainersEngine \<Rightarrow> string list result" where
  "config_run_args ce = (case configGet ce [''runArgs''] of Some (CfgArray args) \<Rightarrow> run_args ce args | _ \<Rightarrow> Ok [])"

definition port_options :: "ContainersEngine \<Rightarrow> string list" where
  "port_options ce =
     (case configGet ce [''appPort''] of Some (CfgArray vs) \<Rightarrow> map (\<lambda>p. ''-p '' @ p) (port_specs vs) | _ \<Rightarrow> [])
     @ (if configPublishesContainerPort (ce_config ce) ''22'' then [] else [''-p 22''])"

definition nas_options :: "ContainersEngine \<Rightarrow> string list" where
  "nas_options ce =
     (case ce_config ce of None \<Rightarrow> [] | Some c \<Rightarrow> if config_IsNasRequested c then [''-v /remote:/remote:ro''] else [])"

definition run_options ::
  "'w engine_env \<Rightarrow> ContainersEngine \<Rightarrow> 'w engine_state \<Rightarrow> string list result \<times> 'w engine_state" where
  "run_options env ce st =
     (case config_run_args ce of
        Inl e \<Rightarrow> (Inl e, st)
      | Inr runArgs \<Rightarrow>
          (let (mountsOptions, st1) = getMountOptions env ce st
           in (Ok (fixed_options ce @ runArgs @ port_options ce
                @ (case mountsOptions of Inl e \<Rightarrow> [] | Inr ms \<Rightarrow> ms) @ nas_options ce @ ce_args ce), st1)))"

definition override_image :: "ContainersEngine \<Rightarrow> imageData \<Rightarrow> imageData" where
  "override_image ce parsedImage =
     (case configGet ce [''overrideImageTag''] of
        Some (CfgString tag) \<Rightarrow> if tag \<noteq> [] then OverrideTag parsedImage tag else parsedImage
      | _ \<Rightarrow> parsedImage)"

definition sleep_command :: string where
  "sleep_command = ''/bin/sh -c '' @ [SQ] @ ''while sleep 1000; do :; done'' @ [SQ]"

definition run_event :: "ContainersEngine \<Rightarrow> string list \<Rightarrow> imageData \<Rightarrow> RunEvent" where
  "run_event ce options img =
     zero_RunEvent\<lparr>
       re_cmd := VariadicJoin '' '' [VariadicJoin '' '' [engineName (ce_name ce), engineAction (ce_action ce)],
         VariadicJoin '' '' options, imageData_ToString img, sleep_command],
       re_eventInfo := ''Creating container '' @ [SQ] @ ce_containerName ce @ [SQ]\<rparr>"

definition containerRun :: "'w engine_env \<Rightarrow> 'w step" where
  "containerRun env ce st =
     (case prepareImage env ce st of
        (Inl e, st1) \<Rightarrow> (Some (AppendError ''Failed to expand image name from configuration'' e), ce, st1)
      | (Inr img, st1) \<Rightarrow>
          (case run_options env ce st1 of
             (Inl e, st2) \<Rightarrow> (Some e, ce, st2)
           | (Inr options, st2) \<Rightarrow>
               (None, append_cmd (Some (run_event ce options (override_image ce (ParseImageString img)))) ce, st2)))"

section \<open>Users\<close>

definition unique_user :: "string list \<times> string set \<Rightarrow> string \<Rightarrow> string list \<times> string set" where
  "unique_user acc user0 =
     (let user = TrimSpace user0
      in if user = [] \<or> user = KRootUsr then acc
         else if user \<in> snd acc then acc
         else (fst acc @ [user], insert user (snd acc)))"

definition uniqueNonRootUsers :: "string list \<Rightarrow> string list" where
  "uniqueNonRootUsers users = fst (foldl unique_user ([], {}) users)"

definition ensureContainerUserScript :: "string \<Rightarrow> string" where
  \<open>ensureContainerUserScript user =
     ''set -eu'' @ [NL] @ ''user='' @ shellSingleQuote user @ [NL] @ ''if ! id -u '' @ [DQ] @ ''$user'' @
       [DQ] @ '' >/dev/null 2>&1; then'' @ [NL, TAB] @ ''if command -v useradd >/dev/null 2>&1; then'' @
       [NL, TAB, TAB] @ ''useradd -m -s /bin/sh '' @ [DQ] @ ''$user'' @ [DQ, NL, TAB] @
       ''elif command -v adduser >/dev/null 2>&1; then'' @ [NL, TAB, TAB] @ ''adduser -D -s /bin/sh '' @
       [DQ] @ ''$user'' @ [DQ, NL, TAB] @ ''else'' @ [NL, TAB, TAB] @ ''echo '' @ [DQ] @
       ''Unable to create user '$user': useradd/adduser is not available'' @ [DQ] @ '' >&2'' @
       [NL, TAB, TAB] @ ''exit 1'' @ [NL, TAB] @ ''fi'' @ [NL] @ ''fi'' @ [NL] @
       ''home_dir=$(awk -F: -v user='' @ [DQ] @ ''$user'' @ [DQ] @
       '' '$1 == user { print $6 }' /etc/passwd)'' @ [NL] @ ''if [ -z '' @ [DQ] @ ''$home_dir'' @ [DQ] @
       '' ]; then'' @ [NL, TAB] @ ''home_dir='' @ [DQ] @ ''/home/$user'' @ [DQ, NL] @ ''fi'' @ [NL] @
       ''mkdir -p '' @ [DQ] @ ''$home_dir'' @ [DQ, NL] @ ''chown '' @ [DQ] @ ''$user'' @ [DQ] @ '' '' @
       [DQ] @ ''$home_dir'' @ [DQ, NL] @ ''chmod u+rwx '' @ [DQ] @ ''$home_dir'' @ [DQ, NL] @ ''ssh_dir='' @
       [DQ] @ ''$home_dir/.ssh'' @ [DQ, NL] @ ''mkdir -p '' @ [DQ] @ ''$ssh_dir'' @ [DQ, NL] @ ''touch '' @
       [DQ] @ ''$ssh_dir/authorized_keys'' @ [DQ, NL] @ ''chown '' @ [DQ] @ ''$user'' @ [DQ] @ '' '' @ [DQ] @
       ''$ssh_dir'' @ [DQ] @ '' '' @ [DQ] @ ''$ssh_dir/authorized_keys'' @ [DQ, NL] @ ''chmod 700 '' @ [DQ] @
       ''$ssh_dir'' @ [DQ, NL] @ ''chmod 600 '' @ [DQ] @ ''$ssh_dir/authorized_keys'' @ [DQ]\<close>

definition user_event :: "ContainersEngine \<Rightarrow> string \<Rightarrow> RunEvent" where
  "user_event ce user =
     zero_RunEvent\<lparr>
       re_cmd := exec_line ce KRootUsr ''-i'' (''/bin/sh -c '' @ shellSingleQuote (ensureContainerUserScript user)),
       re_continueProcess := True,
       re_eventInfo := ''Ensuring container user '' @ [SQ] @ user @ [SQ] @ '' exists''\<rparr>"

definition ensureConfiguredUsers :: "ContainersEngine \<Rightarrow> ContainersEngine" where
  "ensureConfiguredUsers ce =
     foldl (\<lambda>c user. append_cmd (Some (user_event c user)) c) ce (uniqueNonRootUsers [getContainerUser ce, getRemoteUser ce])"

section \<open>In the container, after\<close>

definition postContainerRun :: "'w engine_env \<Rightarrow> 'w step" where
  "postContainerRun env ce st =
     (if \<not> configIsSet ce [''postCreateCommand''] then (None, ce, st)
      else (case expand env (configGet ce [''postCreateCommand'']) st of
          (Inl e, st1) \<Rightarrow> (Some (AppendError ''Failed to resolve postCreateCommand'' e), ce, st1)
        | (Inr pcc, st1) \<Rightarrow>
            if pcc = [] then (None, ce, st1)
            else (None, append_cmd (Some (zero_RunEvent\<lparr>
                    re_cmd := exec_line ce (getContainerUser ce) ''-i'' (''/bin/sh -c '' @ [SQ] @ pcc @ [SQ] @ '' ''),
                    re_continueProcess := True,
                    re_eventInfo := ''Running devcontainer postCreateCommand''\<rparr>)) ce, st1)))"

definition script_user :: "ContainersEngine \<Rightarrow> string \<Rightarrow> string" where
  "script_user ce user =
     (if user = ''remoteUser'' then getRemoteUser ce
      else if user = ''containerUser'' then getContainerUser ce
      else if user = KRootUsr then KRootUsr else [])"

definition executeScriptOnContainerFromHost :: "string \<Rightarrow> string \<Rightarrow> ContainersEngine \<Rightarrow> ContainersEngine" where
  "executeScriptOnContainerFromHost pathOnHost user ce =
     (let quotedPath = shellSingleQuote pathOnHost
      in append_cmd (Some (zero_RunEvent\<lparr>
           re_cmd := exec_line ce (script_user ce user) ''-i''
             (''/bin/sh -l < '' @ quotedPath @ ''; rc=$?; rm -f '' @ quotedPath @ ''; exit $rc''),
           re_eventInfo := ''Running feature'' @ [SQ] @ ''s onContainer'',
           re_continueProcess := True\<rparr>)) ce)"

text \<open>One file of \<open>OnContainer\<close>: the errors are collected.\<close>

definition container_file ::
  "'w engine_env \<Rightarrow> ResolvedFeature \<Rightarrow> err list \<times> ContainersEngine \<times> 'w engine_state \<Rightarrow> string \<Rightarrow>
   err list \<times> ContainersEngine \<times> 'w engine_state" where
  "container_file env f acc relPath =
     (let (errs, ce, st) = acc
      in case rp_FetchFile (ce_resourceProvider ce) ResourceTypeFeature (FeatureFileIdentifier (rf_Name f) (rf_Version f) relPath) of
           Inl e \<Rightarrow> (errs @ [AppendError (''Failed to fetch file '' @ Quote relPath) e], ce, st)
         | Inr content \<Rightarrow>
             (let (processed, st1) = formatContent env ce content relPath st
              in case env_CreateTempFile env processed (snd st1) of
                   (Inl e, w2) \<Rightarrow> (errs @ [AppendError (''Failed to create temporary file '' @ Quote relPath) e], ce, (fst st1, w2))
                 | (Inr tmpPath, w2) \<Rightarrow>
                     (errs, executeScriptOnContainerFromHost tmpPath (ep_As (rf_OnContainer f)) ce, (fst st1, w2))))"

definition executeFeatureOnContainer :: "'w engine_env \<Rightarrow> ResolvedFeature \<Rightarrow> 'w step" where
  "executeFeatureOnContainer env f ce st =
     (let (errs, ce1, st1) = foldl (container_file env f) ([], ce, st) (ep_Files (rf_OnContainer f))
      in (if errs = [] then None else Some (AppendMultipleErrors ''Failed to execute feature'' errs), ce1, st1))"

text \<open>Every feature is executed, also after one that failed.\<close>

definition feature_step ::
  "'w engine_env \<Rightarrow> err list \<times> ContainersEngine \<times> 'w engine_state \<Rightarrow> ResolvedFeature \<Rightarrow>
   err list \<times> ContainersEngine \<times> 'w engine_state" where
  "feature_step env acc f =
     (let (errs, ce, st) = acc;
          (e, ce1, st1) = executeFeatureOnContainer env f ce st
      in (errs @ (case e of None \<Rightarrow> [] | Some err \<Rightarrow> [err]), ce1, st1))"

definition featuresRun :: "'w engine_env \<Rightarrow> 'w step" where
  "featuresRun env ce st =
     (let (errs, ce1, st1) = foldl (feature_step env) ([], ce, st) (ce_resolvedFeatures ce)
      in (if errs = [] then None else Some (AppendMultipleErrors ''Failed to execute features on container'' errs), ce1, st1))"

section \<open>The run and BuildCommands\<close>

definition devcontainer_run :: "'w engine_env \<Rightarrow> 'w step" where
  "devcontainer_run env =
     and_then ''Failed to run pre server step of container run'' (preServer env) (
     and_then ''Failed to run pre container step of container run'' (preContainerRun env) (
     and_then ''Failed to run podman run step of container run'' (containerRun env) (
     and_then ''Failed to run user setup step of container run'' (\<lambda>ce st. (None, ensureConfiguredUsers ce, st)) (
     and_then ''Failed to run post container step of container run'' (postContainerRun env) (
     and_then ''Failed to run features step of container run'' (featuresRun env) (\<lambda>ce st. (None, ce, st)))))))"

definition run :: "'w engine_env \<Rightarrow> 'w step" where
  "run env ce st =
     (if ce_runType ce = K_RUN_GEN then (let (e, ce1) = genericRun ce in (e, ce1, st))
      else if ce_config ce = None
        then (Some (NewError ''container configuration is required for devcontainer run''), ce, st)
      else devcontainer_run env ce st)"

definition BuildCommands ::
  "'w engine_env \<Rightarrow> ContainersEngine \<Rightarrow> 'w engine_state \<Rightarrow> RunEvent option list result \<times> ContainersEngine \<times> 'w engine_state" where
  "BuildCommands env ce st =
     (if ce_action ce = K_ACTION_RUN then
        (let (e, ce1, st1) = run env ce st in (built (e, ce1), ce1, st1))
      else (let r = build_action (env_parseRepo env) simple_run ce in (built r, snd r, st)))"

text \<open>Outside the devcontainer run nothing is asked of the outside: \<open>BuildSimple\<close> is \<open>BuildCommands\<close>.\<close>

lemma BuildCommands_simple:
  "ce_action ce \<noteq> K_ACTION_RUN \<or> ce_runType ce = K_RUN_GEN \<or> ce_config ce = None \<Longrightarrow>
   fst (BuildCommands env ce st) = BuildSimple (env_parseRepo env) ce \<and> snd (snd (BuildCommands env ce st)) = st"
  by (auto simp: BuildCommands_def BuildSimple_def build_action_def run_def simple_run_def Let_def split: prod.splits)

end
