(* ===== verification/EngineSubst.thy ===== *)
theory EngineSubst
  imports EngineExpand
begin

text \<open>
  What \<open>expand\<close> computes: the code looks the matches up one after the other and replaces
  each in the text it has so far; the theorem says that this is substitution of every
  variable at once, and that the host is asked for a variable that is not in the table
  only. The text is given as pieces, literal text and variables.
\<close>

datatype piece = Lit string | Var string string

definition var_text :: "string \<Rightarrow> string \<Rightarrow> string" where
  "var_text e v = ''${'' @ e @ '':'' @ v @ ''}''"

fun piece_text :: "piece \<Rightarrow> string" where
  "piece_text (Lit s) = s"
| "piece_text (Var e v) = var_text e v"

definition var_names :: "string \<Rightarrow> string \<Rightarrow> bool" where
  "var_names e v = (e \<noteq> [] \<and> v \<noteq> [] \<and> (\<forall>c \<in> set e. env_letter c) \<and> (\<forall>c \<in> set v. env_char c))"

fun wf_piece :: "piece \<Rightarrow> bool" where
  "wf_piece (Lit s) = (CHR ''$'' \<notin> set s)"
| "wf_piece (Var e v) = var_names e v"

definition pieces_text :: "piece list \<Rightarrow> string" where
  "pieces_text pieces = concat (map piece_text pieces)"

fun piece_match :: "piece \<Rightarrow> evaluableEnvVar list" where
  "piece_match (Lit s) = []"
| "piece_match (Var e v) = [\<lparr>ev_fullMatch = var_text e v, ev_envName = e, ev_varName = v\<rparr>]"

subsection \<open>The matches of a text\<close>

lemma letter_marks: "env_letter c \<Longrightarrow> c \<noteq> CHR '':'' \<and> c \<noteq> CHR ''$'' \<and> c \<noteq> CHR ''}''"
  by (auto simp: env_letter_def)

lemma env_char_marks: "env_char c \<Longrightarrow> c \<noteq> CHR ''}'' \<and> c \<noteq> CHR ''$''"
  by (auto simp: env_char_def is_digit_def dest: letter_marks)

lemma takeWhile_stop:
  "\<forall>c \<in> set xs. P c \<Longrightarrow> \<not> P y \<Longrightarrow> takeWhile P (xs @ y # ys) = xs \<and> dropWhile P (xs @ y # ys) = y # ys"
  by (induction xs) auto

lemma var_at_text:
  assumes "var_names e v"
  shows "var_at (var_text e v @ rest)
    = Some (\<lparr>ev_fullMatch = var_text e v, ev_envName = e, ev_varName = v\<rparr>, length (var_text e v) - 1)"
proof -
  have nl: "\<not> env_letter (CHR '':'')" "\<not> env_char (CHR ''}'')"
    by (auto simp: env_letter_def env_char_def is_digit_def)
  have d: "drop 2 (var_text e v @ rest) = e @ CHR '':'' # v @ CHR ''}'' # rest" by (simp add: var_text_def)
  have a: "takeWhile env_letter (e @ CHR '':'' # v @ CHR ''}'' # rest) = e"
    "dropWhile env_letter (e @ CHR '':'' # v @ CHR ''}'' # rest) = CHR '':'' # v @ CHR ''}'' # rest"
    using takeWhile_stop [of e env_letter "CHR '':''"] assms nl by (simp_all add: var_names_def)
  have b: "takeWhile env_char (v @ CHR ''}'' # rest) = v" "dropWhile env_char (v @ CHR ''}'' # rest) = CHR ''}'' # rest"
    using takeWhile_stop [of v env_char "CHR ''}''"] assms nl by (simp_all add: var_names_def)
  have p: "HasPrefix (var_text e v @ rest) ''${''" by (simp add: var_text_def)
  show ?thesis
    using p assms unfolding var_at_def d Let_def a b list.sel by (simp add: var_names_def var_text_def)
qed

lemma var_text_Cons: "var_text e v = CHR ''$'' # CHR ''{'' # e @ '':'' @ v @ ''}''"
  by (simp add: var_text_def)

lemma var_text_one_dollar: "var_names e v \<Longrightarrow> CHR ''$'' \<notin> set (tl (var_text e v))"
  using letter_marks env_char_marks by (auto simp: var_text_def var_names_def)

lemma scan_literal: "CHR ''$'' \<notin> set s \<Longrightarrow> scan_matches var_at (s @ t) = scan_matches var_at t"
  by (induction s) (auto simp: var_at_def)

lemma scan_var:
  assumes "var_names e v"
  shows "scan_matches var_at (var_text e v @ t)
    = \<lparr>ev_fullMatch = var_text e v, ev_envName = e, ev_varName = v\<rparr> # scan_matches var_at t"
proof -
  let ?r = "CHR ''{'' # e @ '':'' @ v @ ''}''"
  let ?m = "\<lparr>ev_fullMatch = var_text e v, ev_envName = e, ev_varName = v\<rparr>"
  have e: "var_text e v @ t = CHR ''$'' # (?r @ t)" by (simp add: var_text_Cons)
  have d: "drop (length (var_text e v) - 1) (?r @ t) = t" by (simp add: var_text_def)
  have "var_at (CHR ''$'' # (?r @ t)) = Some (?m, length (var_text e v) - 1)"
    using var_at_text [OF assms, of t] unfolding e .
  then have "scan_matches var_at (CHR ''$'' # (?r @ t)) = ?m # scan_matches var_at (drop (length (var_text e v) - 1) (?r @ t))"
    by (simp only: scan_matches.simps option.case prod.case)
  then show ?thesis unfolding e d .
qed

lemma matches_of_pieces:
  "list_all wf_piece pieces \<Longrightarrow> FindExpandablePartInString (pieces_text pieces) = concat (map piece_match pieces)"
proof (induction pieces)
  case (Cons p pieces)
  then show ?case
    by (cases p) (simp_all add: FindExpandablePartInString_def pieces_text_def scan_literal scan_var)
qed (simp add: FindExpandablePartInString_def pieces_text_def)

subsection \<open>Replacing one variable\<close>

lemma ReplaceAll_skip:
  "old \<noteq> [] \<Longrightarrow> hd old \<notin> set s \<Longrightarrow> ReplaceAll (s @ t) old new = s @ ReplaceAll t old new"
  by (induction s) (auto simp: HasPrefix_iff neq_Nil_conv)

lemma ReplaceAll_hit: "old \<noteq> [] \<Longrightarrow> ReplaceAll (old @ t) old new = new @ ReplaceAll t old new"
proof (cases old)
  case (Cons a l)
  have "HasPrefix (a # (l @ t)) (a # l)" by (simp add: HasPrefix_iff)
  then show ?thesis by (simp add: Cons)
qed simp

lemma ReplaceAll_other_var:
  assumes "var_names e v" "var_names e0 v0" "(e, v) \<noteq> (e0, v0)"
  shows "ReplaceAll (var_text e v @ t) (var_text e0 v0) new = var_text e v @ ReplaceAll t (var_text e0 v0) new"
proof -
  have no: "\<not> HasPrefix (var_text e v @ t) (var_text e0 v0)"
  proof
    assume "HasPrefix (var_text e v @ t) (var_text e0 v0)"
    then obtain r where "var_text e v @ t = var_text e0 v0 @ r" by (auto simp: HasPrefix_iff)
    then have "var_at (var_text e v @ t) = var_at (var_text e0 v0 @ r)" by simp
    with assms show False by (simp add: var_at_text)
  qed
  obtain u where u: "var_text e v = CHR ''$'' # u" by (simp add: var_text_Cons)
  have "CHR ''$'' \<notin> set u" using var_text_one_dollar [OF assms(1)] unfolding u by simp
  then have u2: "ReplaceAll (u @ t) (var_text e0 v0) new = u @ ReplaceAll t (var_text e0 v0) new"
    by (intro ReplaceAll_skip) (simp_all add: var_text_Cons)
  have "\<not> HasPrefix (CHR ''$'' # (u @ t)) (var_text e0 v0)" using no u by (metis append_Cons)
  then have "ReplaceAll (CHR ''$'' # (u @ t)) (var_text e0 v0) new = CHR ''$'' # ReplaceAll (u @ t) (var_text e0 v0) new"
    by (simp only: ReplaceAll.simps simp_thms if_False)
  then show ?thesis unfolding u u2 by simp
qed

text \<open>The text when the variables of \<open>D\<close> have been replaced by their values.\<close>

fun piece_now :: "(string \<times> string) set \<Rightarrow> (string \<Rightarrow> string) \<Rightarrow> piece \<Rightarrow> string" where
  "piece_now D \<sigma> (Lit s) = s"
| "piece_now D \<sigma> (Var e v) = (if (e, v) \<in> D then \<sigma> v else var_text e v)"

definition piece_value :: "(string \<Rightarrow> string) \<Rightarrow> piece \<Rightarrow> string" where
  "piece_value \<sigma> p = (case p of Lit s \<Rightarrow> s | Var e v \<Rightarrow> \<sigma> v)"

lemma ReplaceAll_pieces:
  assumes "list_all wf_piece pieces" "\<forall>x. CHR ''$'' \<notin> set (\<sigma> x)" "var_names e v" "(e, v) \<notin> D"
  shows "ReplaceAll (concat (map (piece_now D \<sigma>) pieces)) (var_text e v) (\<sigma> v)
    = concat (map (piece_now (insert (e, v) D) \<sigma>) pieces)"
  using assms(1)
proof (induction pieces)
  case (Cons p pieces)
  have h: "var_text e v \<noteq> []" "hd (var_text e v) = CHR ''$''" by (simp_all add: var_text_Cons)
  show ?case
  proof (cases p)
    case (Lit s)
    with Cons h show ?thesis by (simp add: ReplaceAll_skip)
  next
    case (Var e1 v1)
    with Cons h assms show ?thesis
      by (auto simp: ReplaceAll_skip ReplaceAll_hit ReplaceAll_other_var)
  qed
qed simp

lemma ReplaceAll_gone:
  assumes "list_all wf_piece pieces" "\<forall>x. CHR ''$'' \<notin> set (\<sigma> x)" "var_names e v" "(e, v) \<in> D"
  shows "ReplaceAll (concat (map (piece_now D \<sigma>) pieces)) (var_text e v) (\<sigma> v) = concat (map (piece_now D \<sigma>) pieces)"
  using assms(1)
proof (induction pieces)
  case (Cons p pieces)
  have h: "var_text e v \<noteq> []" "hd (var_text e v) = CHR ''$''" by (simp_all add: var_text_Cons)
  show ?case
  proof (cases p)
    case (Lit s)
    with Cons h show ?thesis by (simp add: ReplaceAll_skip)
  next
    case (Var e1 v1)
    show ?thesis
    proof (cases "(e1, v1) \<in> D")
      case True
      with Var Cons h assms show ?thesis by (simp add: ReplaceAll_skip)
    next
      case False
      with assms(4) have "(e1, v1) \<noteq> (e, v)" by auto
      with Var Cons False assms(3) show ?thesis by (simp add: ReplaceAll_other_var)
    qed
  qed
qed simp

subsection \<open>Looking a variable up on the host\<close>

text \<open>
  What the shell does with \<open>echo $X\<close>: the value and a newline on standard output. \<open>\<sigma>\<close>
  is the environment of the host, \<open>upd\<close> what running the command does to the world.
\<close>

definition echoes :: "'w engine_env \<Rightarrow> (string \<Rightarrow> string) \<Rightarrow> (string \<Rightarrow> 'w \<Rightarrow> 'w) \<Rightarrow> bool" where
  "echoes env \<sigma> upd = (\<forall>x w. env_bash env (''echo $'' @ x) w = ((\<sigma> x @ [NL], [], None), upd x w))"

definition trimmed_values :: "(string \<Rightarrow> string) \<Rightarrow> bool" where
  "trimmed_values \<sigma> = (\<forall>x. CHR ''$'' \<notin> set (\<sigma> x) \<and> NL \<notin> set (\<sigma> x))"

lemma Trim_newline: "NL \<notin> set s \<Longrightarrow> Trim (s @ [NL]) [NL] = s"
proof -
  assume a: "NL \<notin> set s"
  have same: "dropWhile (\<lambda>c. c = NL) xs = xs" if "NL \<notin> set xs" for xs
    using that by (cases xs) auto
  have "dropWhile (\<lambda>c. c = NL) (s @ [NL]) = (if s = [] then [] else s @ [NL])"
    using a by (cases s) auto
  then show ?thesis
    using a same [of "rev s"] by (simp add: Trim_def trim_by_def trim_left_def trim_right_def)
qed

definition ask :: "(string \<Rightarrow> string) \<Rightarrow> (string \<Rightarrow> 'w \<Rightarrow> 'w) \<Rightarrow> 'w engine_state \<Rightarrow> string \<Rightarrow> 'w engine_state" where
  "ask \<sigma> upd st x = (if fst st x = None then ((fst st)(x \<mapsto> \<sigma> x), upd x (snd st)) else st)"

definition memo_ok :: "(string \<Rightarrow> string) \<Rightarrow> (string \<rightharpoonup> string) \<Rightarrow> bool" where
  "memo_ok \<sigma> memo = (\<forall>x v. memo x = Some v \<longrightarrow> v = \<sigma> x)"

lemma getEnvValueFromHost_ask:
  assumes "echoes env \<sigma> upd" "trimmed_values \<sigma>" "memo_ok \<sigma> (fst st)"
  shows "getEnvValueFromHost env x st = (Inr (\<sigma> x), ask \<sigma> upd st x)"
proof (cases "fst st x")
  case None
  have "env_bash env (re_cmd (echo_event x)) (snd st) = ((\<sigma> x @ [NL], [], None), upd x (snd st))"
    using assms(1) unfolding echoes_def echo_event_def by simp
  moreover have "Trim (\<sigma> x @ [NL]) [NL] = \<sigma> x" using assms(2) by (simp add: trimmed_values_def Trim_newline)
  ultimately show ?thesis
    using None by (simp add: getEnvValueFromHost_def fromMemoizeMap_def RunLocalCmdWithOutput_def ask_def addVarToMap_def Let_def)
next
  case (Some v)
  then show ?thesis using assms(3) by (simp add: getEnvValueFromHost_def fromMemoizeMap_def ask_def memo_ok_def)
qed

lemma memo_ok_ask: "memo_ok \<sigma> (fst st) \<Longrightarrow> memo_ok \<sigma> (fst (ask \<sigma> upd st x))"
  by (auto simp: memo_ok_def ask_def)

lemma expand_step_var:
  assumes "echoes env \<sigma> upd" "trimmed_values \<sigma>" "memo_ok \<sigma> (fst st)"
  shows "expand_step env (val, st) \<lparr>ev_fullMatch = var_text localEnv v, ev_envName = localEnv, ev_varName = v\<rparr>
    = (ReplaceAll val (var_text localEnv v) (\<sigma> v), ask \<sigma> upd st v)"
  using getEnvValueFromHost_ask [OF assms, of v] by (simp add: expand_step_def GetVariableValue_def)

fun local_var :: "piece \<Rightarrow> string list" where
  "local_var (Lit s) = []"
| "local_var (Var e v) = [v]"

definition local_piece :: "piece \<Rightarrow> bool" where
  "local_piece p = (wf_piece p \<and> (case p of Lit s \<Rightarrow> True | Var e v \<Rightarrow> e = localEnv))"

lemma expand_fold:
  assumes "echoes env \<sigma> upd" "trimmed_values \<sigma>" "list_all wf_piece pcs" "list_all local_piece pieces" "memo_ok \<sigma> (fst st)"
  shows "foldl (expand_step env) (concat (map (piece_now D \<sigma>) pcs), st) (concat (map piece_match pieces))
    = (concat (map (piece_now (D \<union> {(localEnv, v) |v. v \<in> set (concat (map local_var pieces))}) \<sigma>) pcs),
       foldl (ask \<sigma> upd) st (concat (map local_var pieces)))"
  using assms(4,5)
proof (induction pieces arbitrary: D st)
  case (Cons p pieces)
  show ?case
  proof (cases p)
    case (Lit s)
    with Cons show ?thesis by simp
  next
    case (Var e v)
    then have e: "e = localEnv" "var_names localEnv v" using Cons.prems by (auto simp: local_piece_def)
    have dollar: "\<forall>x. CHR ''$'' \<notin> set (\<sigma> x)" using assms(2) by (simp add: trimmed_values_def)
    have r: "ReplaceAll (concat (map (piece_now D \<sigma>) pcs)) (var_text localEnv v) (\<sigma> v)
        = concat (map (piece_now (insert (localEnv, v) D) \<sigma>) pcs)"
      using ReplaceAll_pieces [OF assms(3) dollar e(2), of D] ReplaceAll_gone [OF assms(3) dollar e(2), of D]
      by (cases "(localEnv, v) \<in> D") (simp_all add: insert_absorb)
    have s: "insert (localEnv, v) D \<union> {(localEnv, u) |u. u \<in> set (concat (map local_var pieces))}
        = D \<union> {(localEnv, u) |u. u \<in> set (concat (map local_var (p # pieces)))}"
      using Var by auto
    have "foldl (expand_step env) (concat (map (piece_now D \<sigma>) pcs), st) (concat (map piece_match (p # pieces)))
      = foldl (expand_step env) (concat (map (piece_now (insert (localEnv, v) D) \<sigma>) pcs), ask \<sigma> upd st v)
          (concat (map piece_match pieces))"
      using Cons.prems(2) by (simp add: Var e(1) expand_step_var [OF assms(1,2)] r)
    also have "\<dots> = (concat (map (piece_now (insert (localEnv, v) D \<union> {(localEnv, u) |u. u \<in> set (concat (map local_var pieces))}) \<sigma>) pcs),
       foldl (ask \<sigma> upd) (ask \<sigma> upd st v) (concat (map local_var pieces)))"
      using Cons.prems by (intro Cons.IH memo_ok_ask) simp_all
    also note s
    finally show ?thesis by (simp add: Var)
  qed
qed simp

lemma piece_now_done:
  "list_all local_piece pieces \<Longrightarrow>
   map (piece_now {(localEnv, v) |v. v \<in> set (concat (map local_var pieces))} \<sigma>) pieces = map (piece_value \<sigma>) pieces"
  by (rule map_cong [OF refl])
    (force simp: list_all_iff local_piece_def piece_value_def split: piece.splits)

lemma piece_now_start: "map (piece_now {} \<sigma>) pieces = map piece_text pieces"
proof -
  have "piece_now {} \<sigma> p = piece_text p" for p by (cases p) simp_all
  then show ?thesis by simp
qed


definition sample_home :: "string \<Rightarrow> string" where
  "sample_home x = (if x = ''HOME'' then ''/root'' else [])"

definition sample_shell :: "string list engine_env" where
  "sample_shell = \<lparr>env_bash = (\<lambda>cmd w. ((sample_home (drop 6 cmd) @ [NL], [], None), w @ [drop 6 cmd])),
     env_CreateTempFile = (\<lambda>c w. (Ok ''/tmp/f'', w)), env_RemoveTempFile = (\<lambda>p w. (None, w)),
     env_WriteFile = (\<lambda>p c w. (None, w)), env_HomeDir = ''/root'', env_parseRepo = (\<lambda>u. Fail [])\<rparr>"


end
