(* ===== verification/EngineRunProps.thy ===== *)
theory EngineRunProps
  imports EngineRun EngineSubst
begin

text \<open>
  What a successful devcontainer run builds: the order of its commands, the fixed options
  of the run command, the published port for ssh, the mounts, the configured users, and
  the temporary Dockerfile that is removed on every path.
\<close>

section \<open>Steps only add commands\<close>

text \<open>\<open>ce1\<close> is \<open>ce\<close> with the commands \<open>xs\<close> added: no step of the run touches anything else.\<close>

definition extends :: "ContainersEngine \<Rightarrow> RunEvent option list \<Rightarrow> ContainersEngine \<Rightarrow> bool" where
  "extends ce xs ce1 = (ce1 = ce\<lparr>ce_cmds := ce_cmds ce @ xs\<rparr>)"

lemma extends_refl: "extends ce [] ce"
  by (simp add: extends_def)

lemma extends_append: "extends ce [e] (append_cmd e ce)"
  by (simp add: extends_def append_cmd_def)

lemma extends_trans: "extends ce xs ce1 \<Longrightarrow> extends ce1 ys ce2 \<Longrightarrow> extends ce (xs @ ys) ce2"
  by (simp add: extends_def)

lemma extends_fields:
  "extends ce xs ce1 \<Longrightarrow>
     ce_cmds ce1 = ce_cmds ce @ xs \<and> ce_name ce1 = ce_name ce \<and> ce_action ce1 = ce_action ce \<and> ce_args ce1 = ce_args ce \<and>
     ce_user ce1 = ce_user ce \<and> ce_containerName ce1 = ce_containerName ce \<and> ce_config ce1 = ce_config ce \<and>
     ce_containerLabels ce1 = ce_containerLabels ce"
  by (auto simp: extends_def)

lemma extends_exec_line: "extends ce xs ce1 \<Longrightarrow> exec_line ce1 u f b = exec_line ce u f b"
  by (simp add: extends_def exec_line_def)

text \<open>A command that runs on the host before the container exists, and one that runs inside it.\<close>

definition host_event :: "RunEvent option \<Rightarrow> bool" where
  "host_event e = (\<exists>ev rest. e = Some ev \<and> re_cmd ev \<in> {''bash '' @ rest, ''mkdir -p '' @ rest, ''/bin/sh -c '' @ rest})"

definition inside_event :: "ContainersEngine \<Rightarrow> RunEvent option \<Rightarrow> bool" where
  "inside_event ce e = (\<exists>ev user body. e = Some ev \<and> re_cmd ev = exec_line ce user ''-i'' body)"

definition adds :: "(RunEvent option \<Rightarrow> bool) \<Rightarrow> ContainersEngine \<Rightarrow> ContainersEngine \<Rightarrow> bool" where
  "adds P ce ce1 = (\<exists>xs. extends ce xs ce1 \<and> list_all P xs)"

lemma adds_refl: "adds P ce ce"
  unfolding adds_def using extends_refl by (intro exI [of _ "[]"]) simp

lemma adds_trans: "adds P ce ce1 \<Longrightarrow> adds P ce1 ce2 \<Longrightarrow> adds P ce ce2"
  unfolding adds_def using extends_trans by (metis list_all_append)

lemma adds_one_event: "P e \<Longrightarrow> adds P ce (append_cmd e ce)"
  unfolding adds_def using extends_append [of ce e] by (intro exI [of _ "[e]"]) simp

lemma adds_inside: "adds (inside_event ce) ce ce1 \<Longrightarrow> inside_event ce1 = inside_event ce"
proof -
  assume "adds (inside_event ce) ce ce1"
  then obtain xs where "extends ce xs ce1" by (auto simp: adds_def)
  then have "exec_line ce1 = exec_line ce" by (intro ext extends_exec_line)
  then show ?thesis unfolding inside_event_def by simp
qed

lemma host_eventI:
  "re_cmd ev = ''bash '' @ rest \<Longrightarrow> host_event (Some ev)"
  "re_cmd ev = ''mkdir -p '' @ rest \<Longrightarrow> host_event (Some ev)"
  "re_cmd ev = ''/bin/sh -c '' @ rest \<Longrightarrow> host_event (Some ev)"
  unfolding host_event_def by blast+

lemma inside_eventI: "re_cmd ev = exec_line ce user ''-i'' body \<Longrightarrow> inside_event ce (Some ev)"
  unfolding inside_event_def by blast

lemma executeFileOnHost_adds: "adds host_event ce (executeFileOnHost p ce)"
  unfolding executeFileOnHost_def Let_def
  by (intro adds_one_event host_eventI(1) [of _ "shellSingleQuote p @ ''; rc=$?; rm -f '' @ shellSingleQuote p @ ''; exit $rc''"]) simp

lemma executeScript_adds: "adds (inside_event ce) ce (executeScriptOnContainerFromHost p u ce)"
  unfolding executeScriptOnContainerFromHost_def Let_def
  by (intro adds_one_event inside_eventI [of _ ce "script_user ce u"
      "''/bin/sh -l < '' @ shellSingleQuote p @ ''; rc=$?; rm -f '' @ shellSingleQuote p @ ''; exit $rc''"]) simp

lemma foldl_adds:
  "(\<And>a x. sel (f a x) = sel a \<or> adds P (sel a) (sel (f a x))) \<Longrightarrow> adds P (sel a) (sel (foldl f a xs))"
proof (induction xs arbitrary: a)
  case (Cons x xs)
  then have "adds P (sel a) (sel (f a x))" using adds_refl by metis
  with Cons show ?case using adds_trans by (metis foldl_Cons)
qed (simp add: adds_refl)

lemma host_file_adds: "adds host_event (fst acc) (fst (host_file env f acc rel))"
  unfolding host_file_def
  by (cases acc) (auto simp: Let_def intro: adds_refl executeFileOnHost_adds split: sum.splits prod.splits)

lemma addHost_same: "addHostConfigurationFiles env ce st = (e, ce1, st1) \<Longrightarrow> ce1 = ce"
  by (auto simp: addHostConfigurationFiles_def Let_def split: sum.splits if_splits option.splits prod.splits)

lemma preServer_adds: "preServer env ce st = (None, ce1, st1) \<Longrightarrow> adds host_event ce ce1"
proof -
  assume a: "preServer env ce st = (None, ce1, st1)"
  obtain e ce0 st2 where h: "addHostConfigurationFiles env ce st = (e, ce0, st2)" by (metis surj_pair)
  have s: "addHostConfigurationFiles env ce st = (None, ce, st2)"
    using a h addHost_same [OF h] by (cases e) (simp_all add: preServer_def and_then_def)
  let ?F = "\<lambda>acc f. foldl (host_file env f) acc (ep_Files (rf_OnHost f))"
  have "adds host_event (fst (ce, st2)) (fst (foldl ?F (ce, st2) (ce_resolvedFeatures ce)))"
    by (rule foldl_adds) (rule disjI2, rule foldl_adds, rule disjI2, rule host_file_adds)
  moreover have "foldl ?F (ce, st2) (ce_resolvedFeatures ce) = (ce1, st1)"
    using a s by (simp add: preServer_def and_then_def)
  ultimately show ?thesis by simp
qed

lemma devbox_adds: "adds host_event ce (fst (devbox_step env ce st))"
proof -
  obtain r st1 where Pair: "expand env (Some (CfgString kDefaultDevboxConfDir)) st = (r, st1)" by (metis surj_pair)
  show ?thesis
  proof (cases r)
    case (Inl e)
    with Pair show ?thesis by (simp add: devbox_step_def adds_refl)
  next
    case (Inr dir)
    have "adds host_event ce (append_cmd (Some (zero_RunEvent\<lparr>re_cmd := ''mkdir -p '' @ path_Clean dir,
       re_eventInfo := ''Creating default devbox configuration directory''\<rparr>)) ce)"
      by (intro adds_one_event host_eventI(2) [of _ "path_Clean dir"]) simp
    with Pair Inr show ?thesis by (simp add: devbox_step_def)
  qed
qed

lemma preContainerRun_adds:
  assumes "preContainerRun env ce st = (None, ce1, st1)"
  shows "adds host_event ce ce1"
proof -
  define ce2 st2 where d: "ce2 = fst (devbox_step env ce st)" "st2 = snd (devbox_step env ce st)"
  have ic: "adds host_event ce2 (append_cmd (Some (zero_RunEvent\<lparr>re_cmd := ''/bin/sh -c '' @ [SQ] @ ic @ [SQ] @ '' '',
      re_eventInfo := ''Running devcontainer initializeCommand''\<rparr>)) ce2)" for ic
    by (intro adds_one_event host_eventI(3) [of _ "[SQ] @ ic @ [SQ] @ '' ''"]) simp
  have "ce1 = ce2 \<or> (\<exists>ic. ce1 = append_cmd (Some (zero_RunEvent\<lparr>re_cmd := ''/bin/sh -c '' @ [SQ] @ ic @ [SQ] @ '' '',
      re_eventInfo := ''Running devcontainer initializeCommand''\<rparr>)) ce2)"
    using assms unfolding preContainerRun_def Let_def
    by (cases "devbox_step env ce st", cases "configIsSet ce2 [''initializeCommand'']",
        cases "expand env (configGet ce2 [''initializeCommand'']) st2")
      (simp_all add: d split: sum.splits if_splits, blast)
  then have "adds host_event ce2 ce1" using ic adds_refl by metis
  with devbox_adds [of ce env st] show ?thesis unfolding d using adds_trans by blast
qed

lemma postContainerRun_adds:
  assumes "postContainerRun env ce st = (None, ce1, st1)"
  shows "adds (inside_event ce) ce ce1"
proof -
  have pc: "adds (inside_event ce) ce (append_cmd (Some (zero_RunEvent\<lparr>
      re_cmd := exec_line ce (getContainerUser ce) ''-i'' (''/bin/sh -c '' @ [SQ] @ pcc @ [SQ] @ '' ''),
      re_continueProcess := True, re_eventInfo := ''Running devcontainer postCreateCommand''\<rparr>)) ce)" for pcc
    by (intro adds_one_event inside_eventI [of _ ce "getContainerUser ce" "''/bin/sh -c '' @ [SQ] @ pcc @ [SQ] @ '' ''"]) simp
  have "ce1 = ce \<or> (\<exists>pcc. ce1 = append_cmd (Some (zero_RunEvent\<lparr>
      re_cmd := exec_line ce (getContainerUser ce) ''-i'' (''/bin/sh -c '' @ [SQ] @ pcc @ [SQ] @ '' ''),
      re_continueProcess := True, re_eventInfo := ''Running devcontainer postCreateCommand''\<rparr>)) ce)"
    using assms unfolding postContainerRun_def
    by (cases "configIsSet ce [''postCreateCommand'']", cases "expand env (configGet ce [''postCreateCommand'']) st")
      (simp_all split: sum.splits if_splits, blast)
  then show ?thesis using pc adds_refl by metis
qed

lemma container_file_adds:
  "adds (inside_event (fst (snd acc))) (fst (snd acc)) (fst (snd (container_file env f acc rel)))"
  unfolding container_file_def
  by (cases acc) (auto simp: Let_def intro: adds_refl executeScript_adds split: sum.splits prod.splits)

lemma adds_inside_trans:
  "adds (inside_event ce) ce ce1 \<Longrightarrow> adds (inside_event ce1) ce1 ce2 \<Longrightarrow> adds (inside_event ce) ce ce2"
  using adds_inside adds_trans by metis

lemma foldl_inside:
  "(\<And>a x. adds (inside_event (sel a)) (sel a) (sel (f a x))) \<Longrightarrow> adds (inside_event (sel a)) (sel a) (sel (foldl f a xs))"
proof (induction xs arbitrary: a)
  case (Cons x xs)
  then show ?case using adds_inside_trans by (metis foldl_Cons)
qed (simp add: adds_refl)

lemma feature_step_adds: "adds (inside_event (fst (snd acc))) (fst (snd acc)) (fst (snd (feature_step env acc f)))"
proof -
  obtain errs ce st where fields: "acc = (errs, ce, st)" by (metis surj_pair)
  let ?a = "([] :: err list, ce, st)"
  have "adds (inside_event (fst (snd ?a))) (fst (snd ?a))
     (fst (snd (foldl (container_file env f) ?a (ep_Files (rf_OnContainer f)))))"
    by (rule foldl_inside [where sel = "\<lambda>a. fst (snd a)"]) (rule container_file_adds)
  moreover obtain e1 c1 s1 where "foldl (container_file env f) ?a (ep_Files (rf_OnContainer f)) = (e1, c1, s1)"
    by (metis surj_pair)
  ultimately show ?thesis
    by (simp add: fields feature_step_def executeFeatureOnContainer_def Let_def)
qed

lemma featuresRun_adds: "featuresRun env ce st = (None, ce1, st1) \<Longrightarrow> adds (inside_event ce) ce ce1"
proof -
  assume a: "featuresRun env ce st = (None, ce1, st1)"
  let ?a = "([] :: err list, ce, st)"
  have "adds (inside_event (fst (snd ?a))) (fst (snd ?a)) (fst (snd (foldl (feature_step env) ?a (ce_resolvedFeatures ce))))"
    by (rule foldl_inside [where sel = "\<lambda>a. fst (snd a)"]) (rule feature_step_adds)
  then show ?thesis using a by (simp add: featuresRun_def Let_def split: prod.splits)
qed

section \<open>Users\<close>

lemma unique_user_fold:
  "set (fst acc) = snd acc \<Longrightarrow> distinct (fst acc) \<Longrightarrow>
   (let r = foldl unique_user acc us
    in set (fst r) = snd r \<and> distinct (fst r) \<and> snd r = snd acc \<union> (TrimSpace ` set us - {[], KRootUsr}))"
proof (induction us arbitrary: acc)
  case (Cons u us)
  have "set (fst (unique_user acc u)) = snd (unique_user acc u) \<and> distinct (fst (unique_user acc u)) \<and>
      snd (unique_user acc u) = snd acc \<union> ({TrimSpace u} - {[], KRootUsr})"
    using Cons.prems by (auto simp: unique_user_def Let_def)
  with Cons.IH [of "unique_user acc u"] show ?case by (auto simp: Let_def)
qed simp

lemma uniqueNonRootUsers_set:
  "set (uniqueNonRootUsers us) = TrimSpace ` set us - {[], KRootUsr}" "distinct (uniqueNonRootUsers us)"
  using unique_user_fold [of "([], {})" us] by (simp_all add: uniqueNonRootUsers_def Let_def)

lemma users_fold:
  "foldl (\<lambda>c user. append_cmd (Some (user_event c user)) c) ce us = ce\<lparr>ce_cmds := ce_cmds ce @ map (Some \<circ> user_event ce) us\<rparr>"
proof (induction us arbitrary: ce)
  case (Cons u us)
  have "user_event (append_cmd e c) = user_event c" for e c
    by (rule ext) (simp add: user_event_def append_cmd_def exec_line_def)
  then show ?case by (simp add: Cons) (simp add: append_cmd_def)
qed simp

lemma ensureConfiguredUsers_extends:
  "extends ce (map (Some \<circ> user_event ce) (uniqueNonRootUsers [getContainerUser ce, getRemoteUser ce])) (ensureConfiguredUsers ce)"
  by (simp add: extends_def ensureConfiguredUsers_def users_fold)

lemma sh_exec_sh_c:
  assumes "plain_word user" "plain_word (ce_containerName ce)"
  shows "sh_words (exec_line ce user ''-i'' (''/bin/sh -c '' @ shellSingleQuote v))
    = Some [engineName (ce_name ce), ''exec'', ''-u'', user, ''-i'', ce_containerName ce, ''/bin/sh'', ''-c'', v]"
  using assms by (simp only: sh_words_exec_line plain_engine sh_scan_sh_c) simp

lemma script_assignment: "\<exists>rest. ensureContainerUserScript user = ''set -eu'' @ [NL] @ ''user='' @ shellSingleQuote user @ NL # rest"
  unfolding ensureContainerUserScript_def by simp

text \<open>
  The users that the configuration names are created once each and root never:
  the commands are one per user of the two, blanks removed, without duplicates. Each
  reaches the container as root's \<open>/bin/sh -c\<close> with the script as one argument, and the
  script's assignment quotes the name, so that the shell inside reads it back whole
  whatever bytes it has.
\<close>

theorem configured_users_created_once:
  assumes "plain_word (ce_containerName ce)"
  shows "\<exists>users. set users = {TrimSpace (getContainerUser ce), TrimSpace (getRemoteUser ce)} - {[], KRootUsr} \<and> distinct users \<and>
     ce_cmds (ensureConfiguredUsers ce) = ce_cmds ce @ map (Some \<circ> user_event ce) users \<and>
     (\<forall>u. sh_words (re_cmd (user_event ce u)) = Some [engineName (ce_name ce), ''exec'', ''-u'', ''root'', ''-i'',
        ce_containerName ce, ''/bin/sh'', ''-c'', ensureContainerUserScript u]) \<and>
     (\<forall>u rest. sh_scan Unquoted (Some ''user='') (shellSingleQuote u @ CHR '' '' # rest)
        = map_option (\<lambda>ws. (''user='' @ u) # ws) (sh_scan Unquoted None rest))"
proof -
  have "plain_word KRootUsr" using plain_engine by (simp add: KRootUsr_def)
  then have "\<forall>u. sh_words (re_cmd (user_event ce u)) = Some [engineName (ce_name ce), ''exec'', ''-u'', ''root'', ''-i'',
        ce_containerName ce, ''/bin/sh'', ''-c'', ensureContainerUserScript u]"
    using sh_exec_sh_c [of KRootUsr ce] assms by (simp add: user_event_def KRootUsr_def)
  moreover have "ce_cmds (ensureConfiguredUsers ce) = ce_cmds ce
      @ map (Some \<circ> user_event ce) (uniqueNonRootUsers [getContainerUser ce, getRemoteUser ce])"
    using ensureConfiguredUsers_extends [of ce] by (simp add: extends_def)
  moreover have "\<forall>u rest. sh_scan Unquoted (Some ''user='') (shellSingleQuote u @ CHR '' '' # rest)
        = map_option (\<lambda>ws. (''user='' @ u) # ws) (sh_scan Unquoted None rest)"
    by (simp only: sh_scan_quote_start option.case sh_scan_blank simp_thms)
  ultimately show ?thesis
    using uniqueNonRootUsers_set [of "[getContainerUser ce, getRemoteUser ce]"] by (intro exI conjI) auto
qed

theorem configured_users_created_once_witness:
  "\<exists>users. set users = {''dev''} \<and> distinct users \<and>
     ce_cmds (ensureConfiguredUsers (SetRemoteUser ''dev '' (SetContainerName ''c'' empty_engine)))
       = map (Some \<circ> user_event (SetRemoteUser ''dev '' (SetContainerName ''c'' empty_engine))) users"
proof -
  let ?ce = "SetRemoteUser ''dev '' (SetContainerName ''c'' empty_engine)"
  have p: "plain_word (ce_containerName ?ce)"
    by (simp add: SetRemoteUser_def SetContainerName_def plain_word_def sh_special_def)
  have u: "getContainerUser ?ce = ''root''" "getRemoteUser ?ce = ''dev ''" "ce_cmds ?ce = []"
    by (simp_all add: SetRemoteUser_def SetContainerName_def empty_engine_def getContainerUser_def getRemoteUser_def KRootUsr_def)
  have t: "{TrimSpace ''root'', TrimSpace ''dev ''} - {[], KRootUsr} = {''dev''}"
    by (simp add: KRootUsr_def TrimSpace_def trim_by_def trim_left_def trim_right_def is_space_def)
  show ?thesis using configured_users_created_once [OF p] unfolding u t by auto
qed

section \<open>Options of the run command\<close>

lemma publishes_22: "portSpecPublishesContainerPort ''22'' ''22''"
  by code_simp

lemma port_options_publish_ssh:
  "\<exists>spec. ''-p '' @ spec \<in> set (port_options ce) \<and> portSpecPublishesContainerPort spec ''22''"
proof (cases "configPublishesContainerPort (ce_config ce) ''22''")
  case True
  then obtain c vs where c: "ce_config ce = Some c" "c [''appPort''] = Some (CfgArray vs)"
      "list_ex (\<lambda>p. portSpecPublishesContainerPort p ''22'') (port_specs vs)"
    by (auto simp: configPublishesContainerPort_def split: option.splits cfg_value.splits)
  then obtain spec where "spec \<in> set (port_specs vs)" "portSpecPublishesContainerPort spec ''22''"
    by (auto simp: list_ex_iff)
  then show ?thesis using c by (intro exI [of _ spec]) (auto simp: port_options_def configGet_def)
next
  case False
  then have "''-p 22'' \<in> set (port_options ce)" by (simp add: port_options_def)
  then show ?thesis using publishes_22 by (intro exI [of _ "''22''"]) simp
qed

lemma run_options_shape:
  assumes "run_options env ce st = (Inr opts, st1)"
  shows "\<exists>rest. opts = fixed_options ce @ rest \<and> set (port_options ce) \<subseteq> set rest"
  using assms by (auto simp: run_options_def Let_def split: sum.splits prod.splits)

lemma containerRun_extends:
  assumes "containerRun env ce st = (None, ce1, st1)"
  shows "\<exists>opts rest img. extends ce [Some (run_event ce opts img)] ce1 \<and> opts = fixed_options ce @ rest \<and>
    set (port_options ce) \<subseteq> set rest"
proof -
  obtain r st2 where p: "prepareImage env ce st = (r, st2)" by (metis surj_pair)
  obtain q st3 where o: "run_options env ce st2 = (q, st3)" by (metis surj_pair)
  obtain img opts where k: "r = Inr img" "q = Inr opts"
    using assms p o by (cases r; cases q) (simp_all add: containerRun_def)
  then have "ce1 = append_cmd (Some (run_event ce opts (override_image ce (ParseImageString img)))) ce"
    using assms p o by (simp add: containerRun_def)
  moreover obtain rest where "opts = fixed_options ce @ rest" "set (port_options ce) \<subseteq> set rest"
    using run_options_shape o k by blast
  ultimately show ?thesis using extends_append by blast
qed

lemma and_then_ok:
  "and_then m step rest ce st = (None, ce2, st2) \<Longrightarrow>
   \<exists>ce1 st1. step ce st = (None, ce1, st1) \<and> rest ce1 st1 = (None, ce2, st2)"
  unfolding and_then_def by (cases "step ce st"; cases "fst (step ce st)") auto

lemma user_event_extends: "extends ce xs ce1 \<Longrightarrow> user_event ce1 = user_event ce"
  by (rule ext) (simp add: user_event_def extends_exec_line)

lemma run_event_extends: "extends ce xs ce1 \<Longrightarrow> run_event ce1 = run_event ce"
  by (intro ext) (auto simp: run_event_def dest: extends_fields)

lemma options_extends:
  "extends ce xs ce1 \<Longrightarrow> fixed_options ce1 = fixed_options ce \<and> port_options ce1 = port_options ce \<and>
     getContainerUser ce1 = getContainerUser ce \<and> getRemoteUser ce1 = getRemoteUser ce"
  by (auto simp: fixed_options_def port_options_def configGet_def getContainerUser_def getRemoteUser_def dest!: extends_fields)

lemma devcontainer_run_shape:
  assumes "devcontainer_run env ce st = (None, ce6, st6)"
  shows "\<exists>pre opts rest img post.
     ce_cmds ce6 = ce_cmds ce @ pre @ [Some (run_event ce opts img)]
       @ map (Some \<circ> user_event ce) (uniqueNonRootUsers [getContainerUser ce, getRemoteUser ce]) @ post \<and>
     list_all host_event pre \<and> list_all (inside_event ce) post \<and>
     opts = fixed_options ce @ rest \<and> set (port_options ce) \<subseteq> set rest"
proof -
  obtain ce1 st1 where 1: "preServer env ce st = (None, ce1, st1)" and
    r1: "and_then ''Failed to run pre container step of container run'' (preContainerRun env) (
     and_then ''Failed to run podman run step of container run'' (containerRun env) (
     and_then ''Failed to run user setup step of container run'' (\<lambda>ce st. (None, ensureConfiguredUsers ce, st)) (
     and_then ''Failed to run post container step of container run'' (postContainerRun env) (
     and_then ''Failed to run features step of container run'' (featuresRun env) (\<lambda>ce st. (None, ce, st)))))) ce1 st1
      = (None, ce6, st6)"
    using and_then_ok [OF assms [unfolded devcontainer_run_def]] by blast
  obtain ce2 st2 where 2: "preContainerRun env ce1 st1 = (None, ce2, st2)" and
    r2: "and_then ''Failed to run podman run step of container run'' (containerRun env) (
     and_then ''Failed to run user setup step of container run'' (\<lambda>ce st. (None, ensureConfiguredUsers ce, st)) (
     and_then ''Failed to run post container step of container run'' (postContainerRun env) (
     and_then ''Failed to run features step of container run'' (featuresRun env) (\<lambda>ce st. (None, ce, st))))) ce2 st2
      = (None, ce6, st6)"
    using and_then_ok [OF r1] by blast
  obtain ce3 st3 where 3: "containerRun env ce2 st2 = (None, ce3, st3)" and
    r3: "and_then ''Failed to run post container step of container run'' (postContainerRun env) (
     and_then ''Failed to run features step of container run'' (featuresRun env) (\<lambda>ce st. (None, ce, st)))
       (ensureConfiguredUsers ce3) st3 = (None, ce6, st6)"
    using and_then_ok [OF r2] and_then_ok by blast
  obtain ce5 st5 where 5: "postContainerRun env (ensureConfiguredUsers ce3) st3 = (None, ce5, st5)" and
    6: "featuresRun env ce5 st5 = (None, ce6, st6)"
    using and_then_ok [OF r3] and_then_ok by blast
  obtain pre where pre: "extends ce pre ce2" "list_all host_event pre"
    using adds_trans [OF preServer_adds [OF 1] preContainerRun_adds [OF 2]] by (auto simp: adds_def)
  obtain opts rest img where run: "extends ce2 [Some (run_event ce2 opts img)] ce3"
      "opts = fixed_options ce2 @ rest" "set (port_options ce2) \<subseteq> set rest"
    using containerRun_extends [OF 3] by blast
  obtain post where post: "extends (ensureConfiguredUsers ce3) post ce6" "list_all (inside_event (ensureConfiguredUsers ce3)) post"
    using adds_inside_trans [OF postContainerRun_adds [OF 5] featuresRun_adds [OF 6]] by (auto simp: adds_def)
  let ?us = "uniqueNonRootUsers [getContainerUser ce, getRemoteUser ce]"
  have e3: "extends ce (pre @ [Some (run_event ce opts img)]) ce3"
    using extends_trans [OF pre(1) run(1)] run_event_extends [OF pre(1)] by simp
  have e4: "extends ce (pre @ [Some (run_event ce opts img)] @ map (Some \<circ> user_event ce) ?us) (ensureConfiguredUsers ce3)"
    using extends_trans [OF e3 ensureConfiguredUsers_extends] user_event_extends [OF e3] options_extends [OF e3] by simp
  have "inside_event (ensureConfiguredUsers ce3) = inside_event ce"
    unfolding inside_event_def by (simp only: extends_exec_line [OF e4])
  with post(2) have "list_all (inside_event ce) post" by simp
  moreover have "ce_cmds ce6 = ce_cmds ce @ pre @ [Some (run_event ce opts img)] @ map (Some \<circ> user_event ce) ?us @ post"
    using extends_fields [OF extends_trans [OF e4 post(1)]] by simp
  ultimately show ?thesis using pre(2) run(2,3) options_extends [OF pre(1)] by metis
qed

text \<open>
  C21. The commands of a successful devcontainer run come in one order: first those that
  run on the host, then exactly one run command, then the creation of the configured
  users, then everything that runs inside the container. The run command gives the
  container its name, detaches it, starts it as root on the podman network, and
  publishes the ssh port 22, by an \<open>appPort\<close> of the configuration or by the default.
\<close>

theorem devcontainer_run_order:
  assumes "ce_runType ce = K_RUN_DEV_CONTAINER" "fst (run env ce st) = None"
  shows "\<exists>pre opts rest img post.
     ce_cmds (fst (snd (run env ce st))) = ce_cmds ce @ pre @ [Some (run_event ce opts img)]
       @ map (Some \<circ> user_event ce) (uniqueNonRootUsers [getContainerUser ce, getRemoteUser ce]) @ post \<and>
     list_all host_event pre \<and> list_all (inside_event ce) post \<and>
     opts = [''--name '' @ ce_containerName ce, ''--detach'', ''-u root'', ''--network=podman''] @ rest \<and>
     (\<exists>spec. ''-p '' @ spec \<in> set rest \<and> portSpecPublishesContainerPort spec ''22'')"
proof -
  obtain ce1 st1 where r: "run env ce st = (None, ce1, st1)" using assms(2) by (metis prod.collapse)
  then have d: "devcontainer_run env ce st = (None, ce1, st1)"
    using assms(1) unfolding run_def by (simp split: if_splits)
  obtain pre opts rest img post where s: "ce_cmds ce1 = ce_cmds ce @ pre @ [Some (run_event ce opts img)]
       @ map (Some \<circ> user_event ce) (uniqueNonRootUsers [getContainerUser ce, getRemoteUser ce]) @ post"
     "list_all host_event pre" "list_all (inside_event ce) post" "opts = fixed_options ce @ rest"
     "set (port_options ce) \<subseteq> set rest"
    using devcontainer_run_shape [OF d] by blast
  let ?labels = "map (\<lambda>(labelKey, labelValue). ''--label '' @ labelKey @ ''='' @ labelValue) (ce_containerLabels ce)"
  have "opts = [''--name '' @ ce_containerName ce, ''--detach'', ''-u root'', ''--network=podman''] @ (?labels @ rest)"
    by (simp add: s(4) fixed_options_def KRootUsr_def kPodmanNetwork_def)
  moreover obtain spec where "''-p '' @ spec \<in> set (?labels @ rest)" "portSpecPublishesContainerPort spec ''22''"
    using port_options_publish_ssh [of ce] s(5) by auto
  ultimately show ?thesis using s(1-3) r by (metis fst_conv snd_conv)
qed

definition sample_cfg :: Config where
  "sample_cfg key =
     (if key = [''image''] then Some (CfgString ''a'') else if key = [''containerUser''] then Some (CfgString ''dev'')
      else if key = [''postCreateCommand''] then Some (CfgString ''ls'') else None)"

definition sample_dev :: ContainersEngine where
  "sample_dev = SetContainerName ''c'' (SetAction K_ACTION_RUN (fst (NewContainerEngine sample_shell [WithContainerConfig sample_cfg] (\<lambda>_. None, []))))"

lemma sample_run_ok: "fst (run sample_shell sample_dev (\<lambda>_. None, [])) = None"
  by code_simp

theorem devcontainer_run_order_witness:
  "\<exists>pre opts rest img post.
     ce_cmds (fst (snd (run sample_shell sample_dev (\<lambda>_. None, [])))) = pre @ [Some (run_event sample_dev opts img)]
       @ map (Some \<circ> user_event sample_dev) (uniqueNonRootUsers [getContainerUser sample_dev, getRemoteUser sample_dev]) @ post \<and>
     opts = [''--name c'', ''--detach'', ''-u root'', ''--network=podman''] @ rest"
proof -
  have t: "ce_runType sample_dev = K_RUN_DEV_CONTAINER" "ce_cmds sample_dev = []" "ce_containerName sample_dev = ''c''"
    by (simp_all add: sample_dev_def NewContainerEngine_def SetContainerName_def SetAction_def WithContainerConfig_def
        empty_engine_def Let_def split: prod.splits)
  from devcontainer_run_order [OF t(1) sample_run_ok] show ?thesis unfolding t by auto
qed

section \<open>Mounts\<close>

definition good_mount :: "string \<Rightarrow> bool" where
  "good_mount o1 = (\<exists>s d. o1 = ''-v '' @ s @ '':'' @ d \<and> s \<noteq> [] \<and> d \<noteq> [] \<and>
     (\<forall>c \<in> set (s @ d). c \<noteq> CHR ''='' \<and> c \<noteq> CHR '',''))"

lemma split_on_nth_free: "i < length (split_on sep s) \<Longrightarrow> sep \<notin> set (split_on sep s ! i)"
  using split_on_sep_free nth_mem by metis

lemma split_on_subset: "w \<in> set (split_on sep s) \<Longrightarrow> set w \<subseteq> set s"
proof (induction s arbitrary: w)
  case (Cons c cs)
  obtain u us where u: "split_on sep cs = u # us" using split_on_not_Nil by (metis neq_Nil_conv)
  with Cons.IH have "set u \<subseteq> set cs" "\<And>v. v \<in> set us \<Longrightarrow> set v \<subseteq> set cs" by auto
  with Cons.prems u show ?case by (cases "c = sep") auto
qed simp

lemma mount_arg_good:
  assumes "mount_arg s = Some a"
  shows "good_mount a"
proof -
  let ?p = "split_on (CHR '','') s"
  let ?src = "split_on (CHR ''='') (?p ! 0)" and ?dst = "split_on (CHR ''='') (?p ! 1)"
  have g: "length ?p \<ge> 2" "length ?src = 2" "length ?dst = 2" "?src ! 1 \<noteq> []" "?dst ! 1 \<noteq> []"
      "a = ''-v '' @ ?src ! 1 @ '':'' @ ?dst ! 1"
    using assms by (auto simp: mount_arg_def Let_def split: if_splits)
  have comma: "CHR '','' \<notin> set (?p ! 0)" "CHR '','' \<notin> set (?p ! 1)"
    using g(1) by (auto intro!: split_on_nth_free)
  have "set (?src ! 1) \<subseteq> set (?p ! 0)" "set (?dst ! 1) \<subseteq> set (?p ! 1)"
    using g(2,3) by (intro split_on_subset [OF nth_mem]; simp)+
  moreover have "CHR ''='' \<notin> set (?src ! 1)" "CHR ''='' \<notin> set (?dst ! 1)"
    using g(2,3) by (auto intro!: split_on_nth_free)
  ultimately show ?thesis
    unfolding good_mount_def using g(4-6) comma by (intro exI [of _ "?src ! 1"] exI [of _ "?dst ! 1"]) auto
qed

lemma mount_fold:
  "distinct (fst acc) \<Longrightarrow> \<forall>o1 \<in> set (fst acc). good_mount o1 \<Longrightarrow>
   distinct (fst (foldl (mount_step env) acc ms)) \<and> (\<forall>o1 \<in> set (fst (foldl (mount_step env) acc ms)). good_mount o1) \<and>
   length (fst (foldl (mount_step env) acc ms)) \<le> length (fst acc) + length ms"
proof (induction ms arbitrary: acc)
  case (Cons m ms)
  obtain ex st1 where e: "expand env (Some m) (snd acc) = (ex, st1)" by (metis surj_pair)
  have "distinct (fst (mount_step env acc m)) \<and> (\<forall>o1 \<in> set (fst (mount_step env acc m)). good_mount o1) \<and>
      length (fst (mount_step env acc m)) \<le> Suc (length (fst acc))"
    using Cons.prems e by (auto simp: mount_step_def Let_def dest: mount_arg_good split: option.splits)
  with Cons.IH [of "mount_step env acc m"] show ?case by simp
qed simp

text \<open>
  The mount options are at most one per configured mount (two more with the default
  and the orchestration's), without duplicates, and each is \<open>-v source:target\<close> with both
  sides there. A mount that is malformed or expands to an empty side is skipped.
\<close>

theorem mount_options_bounds:
  assumes "getMountOptions env ce st = (Ok opts, st1)" "mountsFromConfig ce = Ok ms"
  shows "distinct opts \<and> length opts \<le> length ms + 2 \<and> (\<forall>o1 \<in> set opts. good_mount o1)"
proof -
  let ?all = "defaultMounts @ ms @ mountsFromOrchestration ce"
  have "opts = fst (foldl (mount_step env) ([], st) ?all)"
    using assms by (auto simp: getMountOptions_def mounts_def Let_def split: prod.splits)
  moreover have "length ?all \<le> length ms + 2" by (simp add: defaultMounts_def mountsFromOrchestration_def)
  ultimately show ?thesis using mount_fold [of "([], st)" env ?all] by auto
qed

theorem mount_options_bounds_witness:
  "length (case fst (getMountOptions sample_shell sample_dev (\<lambda>_. None, [])) of Inr opts \<Rightarrow> opts | Inl e \<Rightarrow> []) \<le> 2"
proof -
  obtain opts st1 where o1: "getMountOptions sample_shell sample_dev (\<lambda>_. None, []) = (Inr opts, st1)"
    and m: "mountsFromConfig sample_dev = Inr []"
  proof -
    have c: "ce_config sample_dev = Some sample_cfg"
      by (simp add: sample_dev_def NewContainerEngine_def SetContainerName_def SetAction_def WithContainerConfig_def
        empty_engine_def Let_def split: prod.splits)
    have m: "mountsFromConfig sample_dev = Inr []" by (simp add: mountsFromConfig_def configGet_def c sample_cfg_def)
    then have "\<exists>opts st1. getMountOptions sample_shell sample_dev (\<lambda>_. None, []) = (Inr opts, st1)"
      by (simp add: getMountOptions_def mounts_def Let_def split: prod.splits)
    with m that show ?thesis by blast
  qed
  show ?thesis using mount_options_bounds [OF o1 m] by (simp add: o1)
qed

section \<open>The temporary Dockerfile\<close>

text \<open>
  When the image is built from a Dockerfile, the temporary file that was made for it
  is removed before \<open>prepareImage\<close> returns, whether the build succeeded or not: the last
  thing that happens to the outside is its removal. The image is the lower-cased
  container name under \<open>localhost\<close>.
\<close>

theorem dockerfile_removed:
  assumes "configGet ce [''image''] = None" "configIsSet ce [''build'', ''dockerfile'']"
    and "DockerfileIdentifier (the (ce_config ce)) = Ok i"
    and "rp_FetchFile (ce_resourceProvider ce) ResourceTypeFile i = Ok data"
    and "env_CreateTempFile env data (snd st) = (Ok p, w1)"
  shows "\<exists>w2. snd (snd (prepareImage env ce st)) = snd (env_RemoveTempFile env p w2) \<and>
    (case fst (prepareImage env ce st) of
       Inl e \<Rightarrow> fst (buildDockerfile env p (ToLower (ce_containerName ce)) w1) \<noteq> None
     | Inr img \<Rightarrow> img = ''localhost/'' @ ToLower (ce_containerName ce))"
  using assms
  by (cases "buildDockerfile env p (ToLower (ce_containerName ce)) w1";
      cases "env_RemoveTempFile env p (snd (buildDockerfile env p (ToLower (ce_containerName ce)) w1))")
    (auto simp: prepareImage_def Let_def KLocalhost_def split: option.splits intro!: exI [of _ "snd (buildDockerfile env p (ToLower (ce_containerName ce)) w1)"])

definition docker_cfg :: Config where
  "docker_cfg key = (if key = [''build'', ''dockerfile''] then Some (CfgString ''D'') else None)"

definition docker_engine :: ContainersEngine where
  "docker_engine = empty_engine\<lparr>ce_config := Some docker_cfg, ce_containerName := ''Box'',
     ce_resourceProvider := \<lparr>rp_FetchFile = (\<lambda>rt i. Ok ''FROM a''), rp_FileExists = (\<lambda>rt i. True)\<rparr>\<rparr>"

theorem dockerfile_removed_witness:
  "\<exists>w2. snd (snd (prepareImage sample_shell docker_engine (\<lambda>_. None, []))) = snd (env_RemoveTempFile sample_shell ''/tmp/f'' w2)"
proof -
  have "\<exists>i. DockerfileIdentifier docker_cfg = Inr i"
    by (rule exI [of _ "''resource/dockerfile/D''"]) code_simp
  then obtain i where i: "DockerfileIdentifier (the (ce_config docker_engine)) = Inr i"
    by (auto simp: docker_engine_def)
  show ?thesis
    using dockerfile_removed [OF _ _ i, of "''FROM a''" sample_shell "(\<lambda>_. None, [])" "''/tmp/f''" "[]"]
    by (auto simp: docker_engine_def configGet_def configIsSet_def docker_cfg_def sample_shell_def empty_engine_def)
qed

end
