(* ===== verification/EngineParse.thy ===== *)
theory EngineParse
  imports EngineCore
begin

text \<open>
  \<open>internal/engine/engine.go\<close>, the readers of what \<open>podman\<close> prints for the formats of
  \<open>preComputedFormat\<close>: the list of containers (\<open>parsePsFormattedOutput\<close>), and the port
  mapping of one container (\<open>parseInspectFormattedOutput\<close>). For each there is the text
  the Go template prints, and the theorem that reading it gives back what was printed.
\<close>

section \<open>The list of containers\<close>

definition parseValue :: "string \<Rightarrow> string" where
  "parseValue s = (let val = split_on (CHR ''='') s in if length val \<noteq> 2 then [] else val ! 1)"

definition raw_elem :: "Container \<Rightarrow> string \<Rightarrow> Container" where
  "raw_elem c elem =
     (let val = parseValue elem
      in if HasPrefix elem ''ID'' then c\<lparr>ct_Id := val\<rparr>
         else if HasPrefix elem ''Name'' then c\<lparr>ct_Name := val\<rparr>
         else if HasPrefix elem ''Status'' then
           (if HasPrefix val ''Up'' then c\<lparr>ct_Status := KContainerStatusRunning\<rparr>
            else if HasPrefix val ''Exited'' then c\<lparr>ct_Status := KContainerStatusExited\<rparr>
            else c)
         else c)"

definition parseContainerRawData :: "string list \<Rightarrow> Container" where
  "parseContainerRawData crd = foldl raw_elem zero_Container crd"

text \<open>The loop after the last piece of the split has been dropped.\<close>

fun ps_rows :: "string list \<Rightarrow> Container list" where
  "ps_rows [] = []"
| "ps_rows (cRawData # rest) =
     (if cRawData = [] then ps_rows rest
      else parseContainerRawData (split_on (CHR '','') cRawData) # ps_rows rest)"

definition parsePsFormattedOutput :: "string \<Rightarrow> Container list result" where
  "parsePsFormattedOutput raw = Ok (ps_rows (butlast (split_on (CHR '';'') raw)))"

definition ParseContainersInfo :: "string \<Rightarrow> Format_t \<Rightarrow> Container list result" where
  "ParseContainersInfo raw f =
     (case f of
        K_FCONTAINER_ID_STATUS \<Rightarrow> parsePsFormattedOutput raw
      | K_FPORT \<Rightarrow> Fail ''Format of value 0 is not handled''
      | K_FNetworks \<Rightarrow> Fail ''Format of value 2 is not handled'')"

text \<open>
  What the template prints for a row: \<open>ID={{ .ID }},Name={{ .Names }},Status={{ .Status }};\<close>,
  the status a text such as \<open>Up 2 hours\<close>. The output ends in a newline.
\<close>

record ps_row =
  pr_ID :: string
  pr_Names :: string
  pr_Status :: string

definition row_body :: "ps_row \<Rightarrow> string" where
  "row_body r = ''ID='' @ pr_ID r @ '',Name='' @ pr_Names r @ '',Status='' @ pr_Status r"

definition print_row :: "ps_row \<Rightarrow> string" where "print_row r = row_body r @ '';''"

definition print_ps :: "ps_row list \<Rightarrow> string" where
  "print_ps rows = concat (map print_row rows) @ [NL]"

definition field_text :: "string \<Rightarrow> bool" where
  "field_text s = (CHR ''='' \<notin> set s \<and> CHR '','' \<notin> set s \<and> CHR '';'' \<notin> set s)"

definition row_fields :: "ps_row \<Rightarrow> bool" where
  "row_fields r = (field_text (pr_ID r) \<and> field_text (pr_Names r) \<and> field_text (pr_Status r))"

definition read_row :: "ps_row \<Rightarrow> Container" where
  "read_row r = zero_Container\<lparr>ct_Id := pr_ID r, ct_Name := pr_Names r,
     ct_Status := (if HasPrefix (pr_Status r) ''Up'' then KContainerStatusRunning
       else if HasPrefix (pr_Status r) ''Exited'' then KContainerStatusExited
       else ct_Status zero_Container)\<rparr>"

lemma parseValue_field:
  "CHR ''='' \<notin> set k \<Longrightarrow> CHR ''='' \<notin> set v \<Longrightarrow> parseValue (k @ CHR ''='' # v) = v"
  by (simp add: parseValue_def split_on_append split_on_free)

lemma raw_elem_fields:
  assumes "field_text v"
  shows "raw_elem c (''ID='' @ v) = c\<lparr>ct_Id := v\<rparr>"
    "raw_elem c (''Name='' @ v) = c\<lparr>ct_Name := v\<rparr>"
    "raw_elem c (''Status='' @ v) =
       (if HasPrefix v ''Up'' then c\<lparr>ct_Status := KContainerStatusRunning\<rparr>
        else if HasPrefix v ''Exited'' then c\<lparr>ct_Status := KContainerStatusExited\<rparr> else c)"
  using parseValue_field [of "''ID''" v] parseValue_field [of "''Name''" v] parseValue_field [of "''Status''" v] assms
  by (simp_all add: raw_elem_def field_text_def)

lemma split_row:
  assumes "row_fields r"
  shows "split_on (CHR '','') (row_body r) =
    [''ID='' @ pr_ID r, ''Name='' @ pr_Names r, ''Status='' @ pr_Status r]"
proof -
  have a: "CHR '','' \<notin> set (''ID='' @ pr_ID r)" "CHR '','' \<notin> set (''Name='' @ pr_Names r)"
    "CHR '','' \<notin> set (''Status='' @ pr_Status r)"
    using assms by (auto simp: row_fields_def field_text_def)
  show ?thesis
    using split_on_append [OF a(1), of "''Name='' @ pr_Names r @ '',Status='' @ pr_Status r"]
      split_on_append [OF a(2), of "''Status='' @ pr_Status r"] split_on_free [OF a(3)]
    by (simp add: row_body_def)
qed

lemma parse_row:
  assumes "row_fields r"
  shows "parseContainerRawData (split_on (CHR '','') (row_body r)) = read_row r"
proof -
  have f: "field_text (pr_ID r)" "field_text (pr_Names r)" "field_text (pr_Status r)"
    using assms by (simp_all add: row_fields_def)
  show ?thesis
    unfolding split_row [OF assms] parseContainerRawData_def foldl.simps
      raw_elem_fields(1) [OF f(1)] raw_elem_fields(2) [OF f(2)] raw_elem_fields(3) [OF f(3)]
    by (simp add: read_row_def zero_Container_def)
qed

lemma split_rows:
  "\<forall>r \<in> set rows. row_fields r \<Longrightarrow> split_on (CHR '';'') (print_ps rows) = map row_body rows @ [[NL]]"
proof (induction rows)
  case Nil
  then show ?case by (simp add: print_ps_def)
next
  case (Cons r rows)
  have "CHR '';'' \<notin> set (row_body r)"
    using Cons.prems by (auto simp: row_fields_def field_text_def row_body_def)
  from split_on_append [OF this, of "print_ps rows"] Cons show ?case
    by (simp add: print_ps_def print_row_def)
qed

lemma row_body_not_Nil: "row_body r \<noteq> []"
  by (simp add: row_body_def)

text \<open>
  Reading the output of \<open>podman ps\<close> gives, for every container in the order printed,
  its id, its name and its status: running when the status text starts with \<open>Up\<close>, exited
  when it starts with \<open>Exited\<close>. A status that is neither (\<open>Created\<close>, \<open>Paused\<close>) reads as
  the zero value of the status, which is running.
\<close>

theorem ps_output_round_trip:
  assumes "\<forall>r \<in> set rows. row_fields r"
  shows "ParseContainersInfo (print_ps rows) K_FCONTAINER_ID_STATUS = Ok (map read_row rows)"
proof -
  have "ps_rows (map row_body rows) = map read_row rows"
    using assms by (induction rows) (simp_all add: parse_row row_body_not_Nil)
  with assms show ?thesis
    by (simp add: ParseContainersInfo_def parsePsFormattedOutput_def split_rows)
qed

theorem ps_output_round_trip_witness:
  "ParseContainersInfo (print_ps [\<lparr>pr_ID = ''a1'', pr_Names = ''dev'', pr_Status = ''Up 2 hours''\<rparr>,
       \<lparr>pr_ID = ''b2'', pr_Names = ''db'', pr_Status = ''Exited (0)''\<rparr>,
       \<lparr>pr_ID = ''c3'', pr_Names = ''new'', pr_Status = ''Created''\<rparr>]) K_FCONTAINER_ID_STATUS
   = Ok [zero_Container\<lparr>ct_Id := ''a1'', ct_Name := ''dev'', ct_Status := KContainerStatusRunning\<rparr>,
         zero_Container\<lparr>ct_Id := ''b2'', ct_Name := ''db'', ct_Status := KContainerStatusExited\<rparr>,
         zero_Container\<lparr>ct_Id := ''c3'', ct_Name := ''new'', ct_Status := KContainerStatusRunning\<rparr>]"
  by (subst ps_output_round_trip) (simp_all add: row_fields_def field_text_def read_row_def zero_Container_def)

section \<open>The port mapping\<close>

definition inspect_entry :: "string \<Rightarrow> Container \<Rightarrow> string \<Rightarrow> Container result" where
  "inspect_entry raw info mapping =
     (let ports = split_on (CHR '':'') mapping
      in if length ports \<noteq> 2 then Fail (''Unable to parse raw data: ('' @ raw @ '')'')
         else (let cPort = Trim (ports ! 0) [DQ]
               in case Atoi (Trim (ports ! 1) [DQ, CHR '','']) of
                    None \<Rightarrow> Fail (''Unable to parse host port from raw data: ('' @ raw @ '')'')
                  | Some hPort \<Rightarrow> AddPort info cPort hPort))"

text \<open>The mapping is updated in place, so what was added before an error stays: the container is returned beside it.\<close>

fun inspect_entries :: "string \<Rightarrow> string list \<Rightarrow> Container \<Rightarrow> err option \<times> Container" where
  "inspect_entries raw [] info = (None, info)"
| "inspect_entries raw (mapping # rest) info =
     (if mapping = [] then inspect_entries raw rest info
      else (case inspect_entry raw info mapping of
              Inl e \<Rightarrow> (Some e, info)
            | Inr info1 \<Rightarrow> inspect_entries raw rest info1))"

definition parseInspectFormattedOutput :: "string \<Rightarrow> Container \<Rightarrow> err option \<times> Container" where
  "parseInspectFormattedOutput raw info = inspect_entries raw (butlast (split_on (CHR '','') raw)) info"

definition ParseContainerInfo :: "string \<Rightarrow> Container \<Rightarrow> Format_t \<Rightarrow> err option \<times> Container" where
  "ParseContainerInfo raw info f = (case f of K_FPORT \<Rightarrow> parseInspectFormattedOutput raw info | _ \<Rightarrow> (None, info))"

text \<open>
  What the template prints for a port: its key, then one \<open>"host port",\<close> for each binding
  (nothing for a port that is exposed and not published).
\<close>

type_synonym port_row = "string \<times> int list"

definition print_port :: "port_row \<Rightarrow> string" where
  "print_port r = [DQ] @ fst r @ [DQ, CHR '':''] @ concat (map (\<lambda>p. [DQ] @ Itoa p @ [DQ, CHR '','']) (snd r))"

definition print_ports :: "port_row list \<Rightarrow> string" where
  "print_ports rows = concat (map print_port rows) @ [NL]"

definition port_key :: "string \<Rightarrow> bool" where
  "port_key k = (k \<noteq> [] \<and> CHR '':'' \<notin> set k \<and> CHR '','' \<notin> set k \<and> DQ \<notin> set k)"

definition port_number :: "int \<Rightarrow> bool" where "port_number p = (0 \<le> p \<and> p < 65536)"

definition bound_once :: "port_row \<Rightarrow> bool" where
  "bound_once r = (port_key (fst r) \<and> (\<exists>p. snd r = [p] \<and> port_number p))"

lemma Trim_wrapped:
  "s \<noteq> [] \<Longrightarrow> \<forall>c \<in> set s. c \<notin> set cs \<Longrightarrow> q \<in> set cs \<Longrightarrow> Trim (q # s @ [q]) cs = s"
  by (simp add: Trim_def trim_by_def trim_left_def trim_right_def dropWhile_eq_id hd_rev)

lemma is_digit_marks: "is_digit c \<Longrightarrow> c \<notin> {DQ, CHR '','', CHR '':'', NL, CHR ''-''}"
  by (auto simp: is_digit_def)

lemma Itoa_port: "port_number p \<Longrightarrow> c \<in> set (Itoa p) \<Longrightarrow> is_digit c"
  using nat_text_digits [of "nat p"] by (auto simp: Itoa_def port_number_def list_all_iff)

lemma inspect_entry_bound:
  assumes "port_key k" "port_number p"
  shows "inspect_entry raw info ([DQ] @ k @ [DQ, CHR '':'', DQ] @ Itoa p @ [DQ]) = AddPort info k p"
proof -
  have d: "\<forall>c \<in> set (Itoa p). c \<notin> {DQ, CHR '','', CHR '':'', NL, CHR ''-''}"
    using Itoa_port [OF assms(2)] is_digit_marks by blast
  have s: "split_on (CHR '':'') ((DQ # k @ [DQ]) @ CHR '':'' # (DQ # Itoa p @ [DQ])) = [DQ # k @ [DQ], DQ # Itoa p @ [DQ]]"
    using assms(1) d by (subst split_on_append, force simp: port_key_def, subst split_on_free) auto
  have t: "Trim (DQ # k @ [DQ]) [DQ] = k"
    using assms(1) by (intro Trim_wrapped) (auto simp: port_key_def)
  have u: "Trim (DQ # Itoa p @ [DQ]) [DQ, CHR '',''] = Itoa p"
    using d by (intro Trim_wrapped) (auto simp: Itoa_not_Nil)
  have a: "Atoi (Itoa p) = Some p" using assms(2) by (intro Atoi_Itoa) (auto simp: port_number_def)
  show ?thesis using s by (simp add: inspect_entry_def Let_def t u a)
qed

text \<open>What one bound port leaves before the comma of the split.\<close>

definition port_body :: "port_row \<Rightarrow> string" where
  "port_body r = [DQ] @ fst r @ [DQ, CHR '':'', DQ] @ Itoa (hd (snd r)) @ [DQ]"

lemma print_port_bound: "bound_once r \<Longrightarrow> print_port r = port_body r @ '',''"
  by (auto simp: bound_once_def print_port_def port_body_def)

lemma port_body_no_comma: "bound_once r \<Longrightarrow> CHR '','' \<notin> set (port_body r)"
  using Itoa_port is_digit_marks by (fastforce simp: bound_once_def port_body_def port_key_def)

lemma split_ports:
  "\<forall>r \<in> set rows. bound_once r \<Longrightarrow> split_on (CHR '','') (print_ports rows) = map port_body rows @ [[NL]]"
proof (induction rows)
  case Nil
  then show ?case by (simp add: print_ports_def)
next
  case (Cons r rows)
  then have "split_on (CHR '','') (port_body r @ CHR '','' # print_ports rows) = port_body r # split_on (CHR '','') (print_ports rows)"
    by (intro split_on_append port_body_no_comma) simp
  with Cons show ?case by (simp add: print_ports_def print_port_bound)
qed

definition port_pair :: "port_row \<Rightarrow> string \<times> int" where "port_pair r = (fst r, hd (snd r))"

lemma inspect_body:
  "bound_once r \<Longrightarrow> inspect_entry raw info (port_body r) = AddPort info (fst r) (hd (snd r))"
  by (auto simp: bound_once_def port_body_def inspect_entry_bound [simplified])

lemma inspect_fresh:
  assumes "\<forall>r \<in> set rows. bound_once r" "distinct (map fst rows)" "\<forall>r \<in> set rows. ct_Pmapping info (fst r) = None"
  shows "inspect_entries raw (map port_body rows) info =
    (None, info\<lparr>ct_Pmapping := ct_Pmapping info ++ map_of (map port_pair rows)\<rparr>)"
  using assms
proof (induction rows arbitrary: info)
  case (Cons r rows)
  let ?i1 = "info\<lparr>ct_Pmapping := (ct_Pmapping info)(fst r \<mapsto> hd (snd r))\<rparr>"
  have b: "bound_once r" using Cons.prems by simp
  have one: "inspect_entry raw info (port_body r) = Inr ?i1"
    using Cons.prems(3) by (simp add: inspect_body [OF b] AddPort_def)
  have nn: "port_body r \<noteq> []" by (simp add: port_body_def)
  have "inspect_entries raw (map port_body (r # rows)) info = inspect_entries raw (map port_body rows) ?i1"
    using nn by (simp add: one)
  also have "\<dots> = (None, ?i1\<lparr>ct_Pmapping := ct_Pmapping ?i1 ++ map_of (map port_pair rows)\<rparr>)"
    using Cons.prems by (intro Cons.IH) (auto simp: image_iff)
  also have "\<dots> = (None, info\<lparr>ct_Pmapping := (ct_Pmapping info)(fst r \<mapsto> hd (snd r)) ++ map_of (map port_pair rows)\<rparr>)"
    by simp
  also have "(ct_Pmapping info)(fst r \<mapsto> hd (snd r)) ++ map_of (map port_pair rows)
      = ct_Pmapping info ++ map_of (map port_pair (r # rows))"
  proof -
    have "fst r \<notin> dom (map_of (map port_pair rows))"
      using Cons.prems(2) by (auto simp: dom_map_of_conv_image_fst port_pair_def image_iff)
    then show ?thesis by (auto simp: map_add_def port_pair_def fun_eq_iff split: option.splits)
  qed
  finally show ?case .
qed simp

text \<open>
  Reading the inspected ports of a container gives exactly the mapping that was
  printed, when every port has one host binding.
\<close>

theorem port_mapping_round_trip:
  assumes "\<forall>r \<in> set rows. bound_once r" "distinct (map fst rows)" "\<forall>r \<in> set rows. ct_Pmapping info (fst r) = None"
  shows "ParseContainerInfo (print_ports rows) info K_FPORT =
    (None, info\<lparr>ct_Pmapping := ct_Pmapping info ++ map_of (map port_pair rows)\<rparr>)"
  using inspect_fresh [OF assms] assms(1)
  by (simp add: ParseContainerInfo_def parseInspectFormattedOutput_def split_ports)

theorem port_mapping_round_trip_witness:
  "ParseContainerInfo (print_ports [(''22/tcp'', [2222]), (''80/tcp'', [8080])]) zero_Container K_FPORT =
    (None, zero_Container\<lparr>ct_Pmapping := [''80/tcp'' \<mapsto> 8080, ''22/tcp'' \<mapsto> 2222]\<rparr>)"
  using port_mapping_round_trip [of "[(''22/tcp'', [2222]), (''80/tcp'', [8080])]" zero_Container]
  by (simp add: bound_once_def port_key_def port_number_def zero_Container_def port_pair_def)

text \<open>
  A port that the image exposes and the container does not publish makes the whole
  reading fail, and the mapping of every port printed after it is lost: the template
  prints its key with nothing behind the colon, so the next port runs into it.
\<close>

theorem exposed_port_breaks_mapping:
  assumes "port_key k" "bound_once r"
  shows "fst (ParseContainerInfo (print_ports ((k, []) # r # rows)) info K_FPORT) \<noteq> None \<and>
         snd (ParseContainerInfo (print_ports ((k, []) # r # rows)) info K_FPORT) = info"
proof -
  let ?m = "[DQ] @ k @ [DQ, CHR '':''] @ port_body r"
  have nc: "CHR '','' \<notin> set ?m"
    using assms port_body_no_comma [OF assms(2)] by (auto simp: port_key_def)
  have sp: "split_on (CHR '','') (print_ports ((k, []) # r # rows)) = ?m # split_on (CHR '','') (print_ports rows)"
    using split_on_append [OF nc, of "print_ports rows"] assms(2)
    by (simp add: print_ports_def print_port_bound) (simp add: print_port_def)
  have three: "length (split_on (CHR '':'') ?m) = 3"
  proof -
    obtain p where p: "snd r = [p]" "port_number p" "port_key (fst r)" using assms(2) by (auto simp: bound_once_def)
    have d: "CHR '':'' \<notin> set (Itoa p)" using Itoa_port [OF p(2)] is_digit_marks by blast
    have "split_on (CHR '':'') ((DQ # k @ [DQ]) @ CHR '':'' # ((DQ # fst r @ [DQ]) @ CHR '':'' # (DQ # Itoa p @ [DQ])))
       = [DQ # k @ [DQ], DQ # fst r @ [DQ], DQ # Itoa p @ [DQ]]"
      using assms(1) p(3) d by (subst split_on_append, force simp: port_key_def)
        (subst split_on_append, force simp: port_key_def, subst split_on_free, auto)
    then show ?thesis by (simp add: port_body_def p(1))
  qed
  show ?thesis
    using three by (simp add: ParseContainerInfo_def parseInspectFormattedOutput_def sp inspect_entry_def Let_def)
qed

theorem exposed_port_breaks_mapping_witness:
  "fst (ParseContainerInfo (print_ports [(''8080/tcp'', []), (''22/tcp'', [2222])]) zero_Container K_FPORT) \<noteq> None"
  using exposed_port_breaks_mapping [of "''8080/tcp''" "(''22/tcp'', [2222])" "[]" zero_Container]
  by (simp add: bound_once_def port_key_def port_number_def)

end
