(* ===== verification/EngineOps.thy ===== *)
theory EngineOps
  imports EngineParse EngineExpand
begin

text \<open>
  The operations of \<open>internal/engine\<close> that the agent calls: start, stop, delete, rename
  and status of a container, its networks (\<open>containersengine.go\<close>), and copying a file
  into it, its users and its readiness (\<open>engine_wrapper.go\<close>). Each makes a fresh engine,
  builds its one command and runs it; the state is the outside world.
\<close>

section \<open>Life cycle\<close>

text \<open>\<open>run_or\<close>: run the engine and wrap its error; the output is not used.\<close>

definition run_or :: "'w engine_env \<Rightarrow> string \<Rightarrow> ContainersEngine \<Rightarrow> 'w \<Rightarrow> err option \<times> 'w" where
  "run_or env m ce w =
     (case run_engine env ce w of
        ((out, Some e), w1) \<Rightarrow> (Some (AppendError m e), w1)
      | ((out, None), w1) \<Rightarrow> (None, w1))"

definition StartContainer :: "'w engine_env \<Rightarrow> string \<Rightarrow> 'w \<Rightarrow> err option \<times> 'w" where
  "StartContainer env containerName =
     run_or env (''Failed to start container '' @ containerName) (AddArg [containerName] (SetAction K_ACTION_START empty_engine))"

definition StopContainer :: "'w engine_env \<Rightarrow> string \<Rightarrow> 'w \<Rightarrow> err option \<times> 'w" where
  "StopContainer env containerName =
     run_or env (''Failed to stop container '' @ containerName) (AddArg [containerName] (SetAction K_ACTION_STOP empty_engine))"

definition DeleteContainer :: "'w engine_env \<Rightarrow> string \<Rightarrow> 'w \<Rightarrow> err option \<times> 'w" where
  "DeleteContainer env containerName =
     run_or env (''Failed to delete container '' @ containerName)
       (AddArg [containerName] (AddArg [''-f''] (SetAction K_ACTION_REMOVE empty_engine)))"

definition RenameContainer :: "'w engine_env \<Rightarrow> string \<Rightarrow> string \<Rightarrow> 'w \<Rightarrow> err option \<times> 'w" where
  "RenameContainer env containerName newContainerName =
     run_or env (''Failed to rename container '' @ containerName @ '' to '' @ newContainerName)
       (AddArg [containerName, newContainerName] (SetAction K_ACTION_RENAME empty_engine))"

fun found_status :: "Container list \<Rightarrow> string \<Rightarrow> ContainerStatus" where
  "found_status [] containerName = KContainerStatusDeleted"
| "found_status (c # cs) containerName =
     (if ct_Name c = containerName then ct_Status c else found_status cs containerName)"

definition status_engine :: "string \<Rightarrow> ContainersEngine" where
  "status_engine engine_name =
     SetFormat K_FCONTAINER_ID_STATUS (SetAction K_ACTION_PS (SetEngineName engine_name empty_engine))"

definition GetContainerStatus ::
  "'w engine_env \<Rightarrow> string \<Rightarrow> string \<Rightarrow> 'w \<Rightarrow> (ContainerStatus \<times> err option) \<times> 'w" where
  "GetContainerStatus env containerName containerEngineName w =
     (case run_engine env (status_engine containerEngineName) w of
        ((out, Some e), w1) \<Rightarrow> ((KContainerStatusUnknown, Some (AppendError ''Failed to get registry container info'' e)), w1)
      | ((out, None), w1) \<Rightarrow>
          (case ParseContainersInfo out K_FCONTAINER_ID_STATUS of
             Inl e \<Rightarrow> ((KContainerStatusUnknown, Some (AppendError ''Failed to get registry container info'' e)), w1)
           | Inr cs \<Rightarrow> ((found_status cs containerName, None), w1)))"

definition CheckPathExistsInContainer ::
  "'w engine_env \<Rightarrow> string \<Rightarrow> string \<Rightarrow> string \<Rightarrow> 'w \<Rightarrow> (bool \<times> err option) \<times> 'w" where
  "CheckPathExistsInContainer env path containerName user w =
     (case run_engine env (SetRemoteUser user (SetContainerName containerName (SetPathToCheck path
         (SetExecuteCmd K_EXEC_CMD_CHECK_PATH_EXISTS (SetAction K_ACTION_EXE empty_engine))))) w of
        ((stdout, Some e), w1) \<Rightarrow> ((False, Some e), w1)
      | ((stdout, None), w1) \<Rightarrow> ((\<not> Contains stdout kPathNotExists, None), w1))"

definition BypassHTTPProxyInAzure :: "'w engine_env \<Rightarrow> string \<Rightarrow> string \<Rightarrow> string \<Rightarrow> 'w \<Rightarrow> err option \<times> 'w" where
  "BypassHTTPProxyInAzure env engine_name containerName domainName =
     run_or env ''Failed to bypass HTTP/HTTPS proxy for Azure''
       (SetAzureDomainName domainName (SetRemoteUser KRootUsr (SetContainerName containerName
         (SetExecuteCmd K_EXEC_CMD_BYPASS_PROXY_IN_AZURE (SetAction K_ACTION_EXE (SetEngineName engine_name empty_engine))))))"

definition AddTempSharedKeys :: "'w engine_env \<Rightarrow> string \<Rightarrow> string \<Rightarrow> string \<Rightarrow> 'w \<Rightarrow> err option \<times> 'w" where
  "AddTempSharedKeys env projectName engine_name containerName =
     run_or env ''Failed to add temp key to authorised_keys''
       (SetContainerName containerName (SetExecuteCmd K_EXEC_SHARE_SSH (SetAction K_ACTION_EXE (SetEngineName engine_name empty_engine))))"

definition DeleteSharedKeys :: "'w engine_env \<Rightarrow> string \<Rightarrow> string \<Rightarrow> string \<Rightarrow> 'w \<Rightarrow> err option \<times> 'w" where
  "DeleteSharedKeys env projectName engine_name containerName =
     run_or env ''Failed to add temp key to authorised_keys''
       (SetContainerName containerName (SetExecuteCmd K_EXEC_UNSHARE_SSH (SetAction K_ACTION_EXE (SetEngineName engine_name empty_engine))))"

section \<open>Networks\<close>

definition GetContainerNetworks :: "'w engine_env \<Rightarrow> string \<Rightarrow> string \<Rightarrow> 'w \<Rightarrow> string list result \<times> 'w" where
  "GetContainerNetworks env engine_name containerName w =
     (case run_engine env (SetFormat K_FNetworks (SetContainerName containerName
         (SetAction K_ACTION_INSPECT (SetEngineName engine_name empty_engine)))) w of
        ((out, Some e), w1) \<Rightarrow> (Inl (AppendError (''Failed to list networks for container '' @ containerName) e), w1)
      | ((out, None), w1) \<Rightarrow> (Ok (FilterNilFromSlice [] (split_on (CHR '','') (TrimSpace out))), w1))"

definition network_engine :: "string \<Rightarrow> Network_t \<Rightarrow> string \<Rightarrow> ContainersEngine" where
  "network_engine engine_name cmd networkName =
     SetNetworkName networkName (SetNetworkCmd cmd (SetAction K_ACTION_NETWORK (SetEngineName engine_name empty_engine)))"

text \<open>These put the output, which is the standard error, into the message.\<close>

definition run_report :: "'w engine_env \<Rightarrow> string \<Rightarrow> ContainersEngine \<Rightarrow> 'w \<Rightarrow> err option \<times> 'w" where
  "run_report env m ce w =
     (case run_engine env ce w of
        ((out, Some e), w1) \<Rightarrow> (Some (AppendError (m @ ''. Output: '' @ out) e), w1)
      | ((out, None), w1) \<Rightarrow> (None, w1))"

definition ConnectContainerToNetwork :: "'w engine_env \<Rightarrow> string \<Rightarrow> string \<Rightarrow> string \<Rightarrow> 'w \<Rightarrow> err option \<times> 'w" where
  "ConnectContainerToNetwork env engine_name containerName networkName =
     run_report env (''Failed to add container '' @ containerName @ '' to network '' @ networkName)
       (SetContainerName containerName (network_engine engine_name K_NETWORK_CONNECT networkName))"

definition CreateNetwork :: "'w engine_env \<Rightarrow> string \<Rightarrow> string \<Rightarrow> 'w \<Rightarrow> err option \<times> 'w" where
  "CreateNetwork env engine_name networkName =
     run_report env (''Failed to create network '' @ networkName) (network_engine engine_name K_NETWORK_CREATE networkName)"

definition NetworkExists :: "'w engine_env \<Rightarrow> string \<Rightarrow> string \<Rightarrow> 'w \<Rightarrow> bool \<times> 'w" where
  "NetworkExists env engine_name networkName w =
     (case run_engine env (network_engine engine_name K_NETWORK_EXISTS networkName) w of
        ((out, e), w1) \<Rightarrow> (Contains out kNetworkExistsVerb, w1))"

definition DisconnectContainerFromNetwork :: "'w engine_env \<Rightarrow> string \<Rightarrow> string \<Rightarrow> string \<Rightarrow> 'w \<Rightarrow> err option \<times> 'w" where
  "DisconnectContainerFromNetwork env engine_name containerName networkName =
     run_report env (''Failed to disconnect container '' @ containerName @ '' from network '' @ networkName)
       (SetContainerName containerName (network_engine engine_name K_NETWORK_DISCONNECT networkName))"

fun disconnect_others :: "'w engine_env \<Rightarrow> string \<Rightarrow> string \<Rightarrow> string \<Rightarrow> string list \<Rightarrow> 'w \<Rightarrow> err option \<times> 'w" where
  "disconnect_others env engine_name containerName networkName [] w = (None, w)"
| "disconnect_others env engine_name containerName networkName (n # ns) w =
     (if n = networkName then disconnect_others env engine_name containerName networkName ns w
      else (case DisconnectContainerFromNetwork env engine_name containerName n w of
              (Some e, w1) \<Rightarrow> (Some (AppendError (''Couldn'' @ [SQ] @ ''t disconnect '' @ [SQ] @ containerName @ [SQ]
                  @ '' from network '' @ [SQ] @ n @ [SQ]) e), w1)
            | (None, w1) \<Rightarrow> disconnect_others env engine_name containerName networkName ns w1))"

definition ReplaceCurrentNetworks :: "'w engine_env \<Rightarrow> string \<Rightarrow> string \<Rightarrow> string \<Rightarrow> 'w \<Rightarrow> err option \<times> 'w" where
  "ReplaceCurrentNetworks env engine_name containerName networkName w =
     (case GetContainerNetworks env engine_name containerName w of
        (Inl e, w1) \<Rightarrow> (Some (AppendError (''Failed to get current networks for container '' @ containerName) e), w1)
      | (Inr networks, w1) \<Rightarrow>
          (let (e, w2) = (if networkName \<in> set networks then (None, w1)
                          else ConnectContainerToNetwork env engine_name containerName networkName w1)
           in case e of
                Some e1 \<Rightarrow> (Some (AppendError (''Couldn'' @ [SQ] @ ''t connect '' @ [SQ] @ containerName @ [SQ]
                    @ '' to network '' @ [SQ] @ networkName @ [SQ]) e1), w2)
              | None \<Rightarrow> disconnect_others env engine_name containerName networkName networks w2))"

section \<open>Files and users in the container\<close>

definition chownFileInTarget ::
  "'w engine_env \<Rightarrow> string \<Rightarrow> string \<Rightarrow> string \<Rightarrow> string \<Rightarrow> string \<Rightarrow> string \<Rightarrow> 'w \<Rightarrow> err option \<times> 'w" where
  "chownFileInTarget env engine_name containerName user remoteUserUID remoteUserGID targetFile =
     run_or env (Sprintf (''Failed to change .netrc file permissions in container (%s) for user (%s)'' @ [NL] @ ''%s'')
         [FStr containerName, FStr user])
       (SetRemoteUser KRootUsr (SetContainerName containerName (SetTargetUserFileOnContainer targetFile
         (SetTargetUserOnContainer remoteUserUID remoteUserGID (SetExecuteCmd K_EXEC_CMD_CHOWN
           (SetAction K_ACTION_EXE (SetEngineName engine_name empty_engine)))))))"

definition chmodFileInTarget ::
  "'w engine_env \<Rightarrow> string \<Rightarrow> string \<Rightarrow> string \<Rightarrow> string \<Rightarrow> nat \<Rightarrow> 'w \<Rightarrow> err option \<times> 'w" where
  "chmodFileInTarget env engine_name containerName user targetFile filePerm =
     run_or env (Sprintf (''Failed to change file permissions to (%d) for file (%s) in container (%s) '' @ [NL])
         [FStr targetFile, FStr containerName])
       (SetDestinationFilePerm filePerm (SetRemoteUser KRootUsr (SetContainerName containerName
         (SetTargetUserFileOnContainer targetFile (SetExecuteCmd K_EXEC_CMD_CHMOD_DEST_FILE
           (SetAction K_ACTION_EXE (SetEngineName engine_name empty_engine)))))))"

definition MkdirInTarget :: "'w engine_env \<Rightarrow> string \<Rightarrow> string \<Rightarrow> string \<Rightarrow> 'w \<Rightarrow> err option \<times> 'w" where
  "MkdirInTarget env engine_name containerName targetDir =
     run_or env (Sprintf (''Failed to create directory '' @ [SQ, SQ] @ '' in container '' @ [SQ] @ ''%s'' @ [SQ])
         [FStr targetDir, FStr containerName])
       (SetContainerName containerName (SetTargetUserFileOnContainer targetDir (SetExecuteCmd K_EXEC_CMD_MKDIR
         (SetAction K_ACTION_EXE (SetEngineName engine_name empty_engine)))))"

text \<open>
  \<open>getUserUidGid\<close>: the pattern \<open>uid=(\d+)\([\w|\-|\.]+\) gid=(\d+)\([\w|\-|\.]+\).+\<close> on the
  output of \<open>id\<close>, the leftmost match. The class inside the brackets has the letters,
  digits, underscore, bar, minus and dot.
\<close>

definition id_name_char :: "char \<Rightarrow> bool" where
  "id_name_char c = (env_char c \<or> c \<in> {CHR ''|'', CHR ''-'', CHR ''.''})"

definition id_field :: "string \<Rightarrow> string \<Rightarrow> (string \<times> string) option" where
  "id_field label s =
     (if \<not> HasPrefix s label then None
      else let num = takeWhile is_digit (drop (length label) s);
               rest = dropWhile is_digit (drop (length label) s)
           in if num = [] \<or> rest = [] \<or> hd rest \<noteq> CHR ''('' then None
              else let name = takeWhile id_name_char (tl rest);
                       rest2 = dropWhile id_name_char (tl rest)
                   in if name = [] \<or> rest2 = [] \<or> hd rest2 \<noteq> CHR '')'' then None
                      else Some (num, tl rest2))"

definition id_match :: "string \<Rightarrow> (string \<times> string) option" where
  "id_match s =
     (case id_field ''uid='' s of
        None \<Rightarrow> None
      | Some (uid, rest) \<Rightarrow>
          (case id_field '' gid='' rest of
             None \<Rightarrow> None
           | Some (gid, rest2) \<Rightarrow> if rest2 = [] \<or> hd rest2 = NL then None else Some (uid, gid)))"

fun id_search :: "string \<Rightarrow> (string \<times> string) option" where
  "id_search [] = None"
| "id_search (c # cs) = (case id_match (c # cs) of Some r \<Rightarrow> Some r | None \<Rightarrow> id_search cs)"

text \<open>An error of the command is logged only: its output, the standard error, is parsed all the same.\<close>

definition getUserUidGid :: "'w engine_env \<Rightarrow> string \<Rightarrow> string \<Rightarrow> string \<Rightarrow> 'w \<Rightarrow> (string \<times> string) result \<times> 'w" where
  "getUserUidGid env engine_name containerName user w =
     (case run_engine env (SetRemoteUser user (SetContainerName containerName (SetExecuteCmd K_EXEC_CMD_ID
         (SetAction K_ACTION_EXE (SetEngineName engine_name empty_engine))))) w of
        ((idOutput, e), w1) \<Rightarrow>
          (case id_search idOutput of
             None \<Rightarrow> (Ok ([], []), w1)
           | Some r \<Rightarrow> (Ok r, w1)))"

definition copyFileToTarget ::
  "'w engine_env \<Rightarrow> string \<Rightarrow> string \<Rightarrow> string \<Rightarrow> string \<Rightarrow> string \<Rightarrow> 'w \<Rightarrow> err option \<times> 'w" where
  "copyFileToTarget env sourceOnTargetHost destinationOnContainer engine_name containerName user w =
     (case ExecuteCommands (BuildSimple (env_parseRepo env)
         (SetRemoteUser user (SetContainerName containerName (SetCopyFinalDestinationOnContainer destinationOnContainer
           (SetSourceCopyPath sourceOnTargetHost (SetCopyActionType K_CP_DEFAULT (SetAction K_ACTION_CP
             (SetEngineName engine_name empty_engine)))))))) (RunLocalCmds env) w of
        (Some e, w1) \<Rightarrow> (Some (AppendError (Sprintf (''Failed to copy file to container (%s)'' @ [NL] @ ''%s'') [FStr containerName]) e), w1)
      | (None, w1) \<Rightarrow> (None, w1))"

text \<open>\<open>if err := step(); err != nil { return cerr.AppendErrorFmt(m, err) }\<close>\<close>

definition then_on :: "string \<Rightarrow> ('w \<Rightarrow> err option \<times> 'w) \<Rightarrow> ('w \<Rightarrow> err option \<times> 'w) \<Rightarrow> 'w \<Rightarrow> err option \<times> 'w" where
  "then_on m step rest w = (case step w of (Some e, w1) \<Rightarrow> (Some (AppendError m e), w1) | (None, w1) \<Rightarrow> rest w1)"

definition copy_destination :: "string \<Rightarrow> string \<Rightarrow> string \<Rightarrow> string" where
  "copy_destination pathToSource destDir destFileName =
     path_Join [''/'', Trim destDir ('' '' @ [NL]), (if destFileName \<noteq> [] then destFileName else path_Base pathToSource)]"

definition CopyFileFromHostToContainer ::
  "'w engine_env \<Rightarrow> string \<Rightarrow> string \<Rightarrow> string \<Rightarrow> string \<Rightarrow> Container \<Rightarrow> nat \<Rightarrow> 'w \<Rightarrow> err option \<times> 'w" where
  "CopyFileFromHostToContainer env pathToSource destDir destFileName engine_name containerInfo filePerm =
     (let containerName = ct_Name containerInfo;
          fileName = (if destFileName \<noteq> [] then destFileName else path_Base pathToSource);
          destination = copy_destination pathToSource destDir destFileName
      in then_on (''Failed to create directory '' @ [SQ] @ destDir @ [SQ] @ '' in container '' @ [SQ] @ containerName @ [SQ])
           (MkdirInTarget env engine_name containerName destDir)
        (then_on (Sprintf (''Failed to copy %s file to container (%s)'' @ [NL] @ ''%s'') [FStr fileName, FStr containerName])
           (copyFileToTarget env pathToSource destination engine_name containerName (ct_RemoteUser containerInfo))
         (\<lambda>w. case getUserUidGid env engine_name containerName (ct_RemoteUser containerInfo) w of
              (Inl e, w1) \<Rightarrow> (Some (AppendError (''Failed to retrieve uid/gid of user '' @ [SQ] @ ct_RemoteUser containerInfo @ [SQ]
                  @ '' in container '' @ [SQ] @ containerName @ [SQ]) e), w1)
            | (Inr (uid, gid), w1) \<Rightarrow>
                then_on (''Failed to change ownership of file '' @ [SQ] @ destination @ [SQ] @ '' in container '' @ [SQ] @ containerName @ [SQ])
                  (chownFileInTarget env engine_name containerName (ct_RemoteUser containerInfo) uid gid destination)
                (then_on (Sprintf (''Failed to change file permission of file '' @ [SQ] @ ''%s'' @ [SQ] @ '' to %d in container '' @ [SQ] @ ''%s'' @ [SQ])
                    [FStr fileName, FNum filePerm, FStr containerName])
                  (chmodFileInTarget env engine_name containerName (ct_RemoteUser containerInfo) destination filePerm)
                 (\<lambda>w2. (None, w2))) w1)))"

definition GetRemoteUserHomeDirOnContainer ::
  "'w engine_env \<Rightarrow> string \<Rightarrow> string \<Rightarrow> string \<Rightarrow> 'w \<Rightarrow> string result \<times> 'w" where
  "GetRemoteUserHomeDirOnContainer env engine_name containerName user w =
     (case run_engine env (SetRemoteUser user (SetExecuteCmd K_EXEC_CMD_HOMEDIR (SetContainerName containerName
         (SetAction K_ACTION_EXE (SetEngineName engine_name empty_engine))))) w of
        ((out, Some e), w1) \<Rightarrow> (Inl (AppendError (''Failed to get HomeDir for user '' @ user @ '' on container ('' @ containerName @ '')'') e), w1)
      | ((out, None), w1) \<Rightarrow> (Ok (TrimSpace out), w1))"

definition validHomeDir :: "string \<Rightarrow> string \<Rightarrow> bool" where
  "validHomeDir homeDir remoteUser =
     (if remoteUser = KRootUsr then HasPrefix homeDir ''/root'' else HasPrefix homeDir ''/home'')"

definition IsContainerReady :: "'w engine_env \<Rightarrow> string \<Rightarrow> string \<Rightarrow> 'w \<Rightarrow> bool \<times> 'w" where
  "IsContainerReady env containerName user w =
     (case GetContainerStatus env containerName [] w of
        ((status, Some e), w1) \<Rightarrow> (False, w1)
      | ((status, None), w1) \<Rightarrow>
          if status \<noteq> KContainerStatusRunning then (False, w1)
          else (case GetRemoteUserHomeDirOnContainer env [] containerName user w1 of
              (Inl e, w2) \<Rightarrow> (False, w2)
            | (Inr homeDir, w2) \<Rightarrow> (validHomeDir homeDir user, w2)))"

definition IsOrchestrationReachableFromContainer :: "'w engine_env \<Rightarrow> string \<Rightarrow> string \<Rightarrow> 'w \<Rightarrow> bool \<times> 'w" where
  "IsOrchestrationReachableFromContainer env containerName user w =
     (case run_engine env (SetRemoteUser user (SetExecuteCmd K_EXEC_CMD_CHECK_ORC_REACHABLE_FROM_DEVCONTAINER
         (SetContainerName containerName (SetAction K_ACTION_EXE (SetEngineName [] empty_engine))))) w of
        ((serviceName, Some e), w1) \<Rightarrow> (False, w1)
      | ((serviceName, None), w1) \<Rightarrow> (ToLower (TrimSpace serviceName) = ToLower ''service/kubernetes'', w1))"

end
