(* ===== verification/EngineOpsProps.thy ===== *)
theory EngineOpsProps
  imports EngineOps
begin

text \<open>
  What the container operations achieve, against a contract of the container engine: the
  networks of a container after \<open>ReplaceCurrentNetworks\<close>, and the status that is
  reported for it.
\<close>

definition engine_word :: "string \<Rightarrow> string" where
  "engine_word engine_name = engineName (ce_name (SetEngineName engine_name empty_engine))"

text \<open>Running a one-command engine is one call of the shell.\<close>

lemma run_engine_one:
  assumes "BuildSimple (env_parseRepo env) ce = Inr [Some ev]"
  shows "run_engine env ce w =
    (case env_bash env (re_cmd ev) w of
       ((stdout, stderr, Some e), w1) \<Rightarrow> ((stderr, Some (failed_command (re_cmd ev) stdout stderr e)), w1)
     | ((stdout, stderr, None), w1) \<Rightarrow> ((stdout, None), w1))"
  by (simp add: run_engine_def ExecuteCommand_def assms RunLocalCmdWithOutput_def)

lemmas engine_setup =
  SetEngineName_def SetName_def SetAction_def SetFormat_def SetContainerName_def SetNetworkName_def SetNetworkCmd_def
  network_engine_def status_engine_def empty_engine_def

section \<open>Networks of a container\<close>

definition net_command :: "string \<Rightarrow> string \<Rightarrow> string \<Rightarrow> string \<Rightarrow> string" where
  "net_command engine_name verb networkName containerName =
     VariadicJoin '' '' [engine_word engine_name, ''network'', verb, networkName, containerName]"

definition inspect_networks :: "string \<Rightarrow> string \<Rightarrow> string" where
  "inspect_networks engine_name containerName =
     VariadicJoin '' '' [engine_word engine_name, ''inspect'', containerName, preComputedFormat K_FNetworks]"

definition net_name :: "string \<Rightarrow> bool" where
  "net_name n = (n \<noteq> [] \<and> (\<forall>c \<in> set n. c \<noteq> CHR '','' \<and> \<not> is_space c))"

definition print_networks :: "string list \<Rightarrow> string" where
  "print_networks ns = concat (map (\<lambda>n. n @ '','') ns) @ [NL]"

text \<open>
  The documented behaviour of the engine, for the networks \<open>nets\<close> of the container: inspecting
  prints them with the format and changes nothing, a connect that succeeds adds the
  network, a disconnect that succeeds takes it away, and a call that fails changes nothing.
\<close>

definition network_contract ::
  "'w engine_env \<Rightarrow> string \<Rightarrow> string \<Rightarrow> ('w \<Rightarrow> string list) \<Rightarrow> bool" where
  "network_contract env engine_name containerName nets =
     ((\<forall>w n. n \<in> set (nets w) \<longrightarrow> net_name n) \<and>
      (\<forall>w. case env_bash env (inspect_networks engine_name containerName) w of
         ((out, err, e), w1) \<Rightarrow> nets w1 = nets w \<and> (e = None \<longrightarrow> out = print_networks (nets w))) \<and>
      (\<forall>w n. case env_bash env (net_command engine_name ''connect'' n containerName) w of
         ((out, err, e), w1) \<Rightarrow> nets w1 = (if e = None then nets w @ [n] else nets w)) \<and>
      (\<forall>w n. case env_bash env (net_command engine_name ''disconnect'' n containerName) w of
         ((out, err, e), w1) \<Rightarrow> nets w1 = (if e = None then filter (\<lambda>m. m \<noteq> n) (nets w) else nets w)))"

lemma split_networks:
  "\<forall>n \<in> set ns. net_name n \<Longrightarrow> split_on (CHR '','') (concat (map (\<lambda>n. n @ '','') ns)) = ns @ [[]]"
proof (induction ns)
  case (Cons n ns)
  have "split_on (CHR '','') (n @ CHR '','' # concat (map (\<lambda>n. n @ '','') ns)) = n # split_on (CHR '','') (concat (map (\<lambda>n. n @ '','') ns))"
    using Cons.prems by (intro split_on_append) (auto simp: net_name_def)
  with Cons show ?case by simp
qed simp

lemma trim_networks:
  assumes "\<forall>n \<in> set ns. net_name n"
  shows "TrimSpace (print_networks ns) = concat (map (\<lambda>n. n @ '','') ns)"
proof (cases ns rule: rev_cases)
  case Nil
  then show ?thesis
    by (simp add: print_networks_def TrimSpace_def trim_by_def trim_left_def trim_right_def is_space_def)
next
  case (snoc ms m)
  let ?t = "concat (map (\<lambda>n. n @ '','') ns)"
  have l: "?t = concat (map (\<lambda>n. n @ '','') ms) @ m @ [CHR '','']" by (simp add: snoc)
  obtain k ks where ns: "ns = k # ks" using snoc neq_Nil_conv [of ns] by auto
  then obtain c cs where k: "k = c # cs" "\<not> is_space c" using assms by (cases k) (auto simp: net_name_def)
  have hd: "?t @ [NL] = c # (cs @ '','' @ concat (map (\<lambda>n. n @ '','') ks) @ [NL])" by (simp add: ns k)
  have "dropWhile is_space (?t @ [NL]) = ?t @ [NL]" unfolding hd using k by simp
  moreover have "is_space NL" "\<not> is_space (CHR '','')" by (simp_all add: is_space_def)
  ultimately show ?thesis
    by (simp add: print_networks_def TrimSpace_def trim_by_def trim_left_def trim_right_def l)
qed

lemma read_networks:
  "\<forall>n \<in> set ns. net_name n \<Longrightarrow> FilterNilFromSlice [] (split_on (CHR '','') (TrimSpace (print_networks ns))) = ns"
proof -
  assume a: "\<forall>n \<in> set ns. net_name n"
  then have "filter (\<lambda>e. e \<noteq> []) ns = ns" by (auto simp: filter_id_conv net_name_def)
  with a show ?thesis by (simp add: FilterNilFromSlice_def trim_networks split_networks)
qed

lemma built_network:
  "BuildSimple p (SetFormat K_FNetworks (SetContainerName c (SetAction K_ACTION_INSPECT (SetEngineName eng empty_engine))))
   = Inr [Some (zero_RunEvent\<lparr>re_cmd := inspect_networks eng c,
        re_eventInfo := ''Inspecting container '' @ [SQ] @ c @ [SQ], re_continueProcess := True\<rparr>)]"
  by (simp add: BuildSimple_def build_action_def built_def inspect_def append_cmd_def engine_setup
      inspect_networks_def engine_word_def)

lemma built_connect:
  "\<exists>ev. BuildSimple p (SetContainerName c (network_engine eng K_NETWORK_CONNECT n)) = Inr [Some ev] \<and>
     re_cmd ev = net_command eng ''connect'' n c"
  "\<exists>ev. BuildSimple p (SetContainerName c (network_engine eng K_NETWORK_DISCONNECT n)) = Inr [Some ev] \<and>
     re_cmd ev = net_command eng ''disconnect'' n c"
  by (simp_all add: BuildSimple_def build_action_def built_def network_def append_result_def append_cmd_def
      connectNetwork_def disconnectFromNetwork_def engine_setup net_command_def engine_word_def)

lemma GetContainerNetworks_contract:
  assumes "network_contract env eng c nets" "GetContainerNetworks env eng c w = (r, w1)"
  shows "nets w1 = nets w \<and> (\<forall>ns. r = Inr ns \<longrightarrow> ns = nets w)"
proof -
  obtain out err1 e w2 where b: "env_bash env (inspect_networks eng c) w = ((out, err1, e), w2)" by (metis surj_pair)
  have "case env_bash env (inspect_networks eng c) w of
         ((out, err, e), w1) \<Rightarrow> nets w1 = nets w \<and> (e = None \<longrightarrow> out = print_networks (nets w))"
    by (rule assms(1) [unfolded network_contract_def, THEN conjunct2, THEN conjunct1, THEN spec])
  then have k: "nets w2 = nets w \<and> (e = None \<longrightarrow> out = print_networks (nets w))" unfolding b by simp
  have n: "\<forall>n \<in> set (nets w). net_name n" using assms(1) by (auto simp: network_contract_def)
  show ?thesis
    using assms(2) b k read_networks [OF n]
    by (cases e) (auto simp: GetContainerNetworks_def run_engine_one [OF built_network])
qed

lemma connect_contract:
  assumes "network_contract env eng c nets" "ConnectContainerToNetwork env eng c n w = (e, w1)"
  shows "nets w1 = (if e = None then nets w @ [n] else nets w)"
proof -
  obtain ev where ev: "BuildSimple (env_parseRepo env) (SetContainerName c (network_engine eng K_NETWORK_CONNECT n)) = Inr [Some ev]"
    "re_cmd ev = net_command eng ''connect'' n c" using built_connect by blast
  obtain out err1 e1 w2 where b: "env_bash env (net_command eng ''connect'' n c) w = ((out, err1, e1), w2)" by (metis surj_pair)
  have "nets w2 = (if e1 = None then nets w @ [n] else nets w)"
    using assms(1) b unfolding network_contract_def by (auto split: prod.splits)
  then show ?thesis
    using assms(2) b by (cases e1) (auto simp: ConnectContainerToNetwork_def run_report_def run_engine_one [OF ev(1)] ev(2))
qed

lemma disconnect_contract:
  assumes "network_contract env eng c nets" "DisconnectContainerFromNetwork env eng c n w = (e, w1)"
  shows "nets w1 = (if e = None then filter (\<lambda>m. m \<noteq> n) (nets w) else nets w)"
proof -
  obtain ev where ev: "BuildSimple (env_parseRepo env) (SetContainerName c (network_engine eng K_NETWORK_DISCONNECT n)) = Inr [Some ev]"
    "re_cmd ev = net_command eng ''disconnect'' n c" using built_connect by blast
  obtain out err1 e1 w2 where b: "env_bash env (net_command eng ''disconnect'' n c) w = ((out, err1, e1), w2)" by (metis surj_pair)
  have "nets w2 = (if e1 = None then filter (\<lambda>m. m \<noteq> n) (nets w) else nets w)"
    using assms(1) b unfolding network_contract_def by (auto split: prod.splits)
  then show ?thesis
    using assms(2) b by (cases e1) (auto simp: DisconnectContainerFromNetwork_def run_report_def run_engine_one [OF ev(1)] ev(2))
qed

lemma connect_ok:
  "env_bash env (net_command eng ''connect'' n c) w = ((o1, e1, None), w1) \<Longrightarrow>
   ConnectContainerToNetwork env eng c n w = (None, w1)"
  using built_connect(1) [of "env_parseRepo env" c eng n]
  by (auto simp: ConnectContainerToNetwork_def run_report_def run_engine_one)

lemma disconnect_ok:
  "env_bash env (net_command eng ''disconnect'' n c) w = ((o1, e1, None), w1) \<Longrightarrow>
   DisconnectContainerFromNetwork env eng c n w = (None, w1)"
  using built_connect(2) [of "env_parseRepo env" c eng n]
  by (auto simp: DisconnectContainerFromNetwork_def run_report_def run_engine_one)

lemma disconnect_others_contract:
  assumes "network_contract env eng c nets"
  shows "disconnect_others env eng c n ns w = (e, w1) \<Longrightarrow>
    (n \<in> set (nets w) \<longrightarrow> n \<in> set (nets w1)) \<and>
    (e = None \<longrightarrow> set (nets w1) = {m \<in> set (nets w). m \<notin> set ns \<or> m = n})"
proof (induction ns arbitrary: w)
  case (Cons m ns)
  show ?case
  proof (cases "m = n")
    case True
    with Cons show ?thesis by auto
  next
    case False
    obtain e2 w2 where d: "DisconnectContainerFromNetwork env eng c m w = (e2, w2)" by fastforce
    note k = disconnect_contract [OF assms d]
    show ?thesis
    proof (cases e2)
      case None
      with Cons.prems False d have "disconnect_others env eng c n ns w2 = (e, w1)" by simp
      from Cons.IH [OF this] k None False show ?thesis by auto
    next
      case (Some x)
      with Cons.prems False d k show ?thesis by auto
    qed
  qed
qed auto

text \<open>
  C29. When \<open>ReplaceCurrentNetworks\<close> succeeds, the container is on the wanted network and on
  no other. The new network is joined before any old one is left, so at no failure is
  the container without both: after an error it is on the wanted network, or its networks
  are what they were.
\<close>

theorem networks_replaced:
  assumes "network_contract env engine_name c nets" "ReplaceCurrentNetworks env engine_name c n w = (e, w1)"
  shows "(e = None \<longrightarrow> set (nets w1) = {n}) \<and> (e \<noteq> None \<longrightarrow> n \<in> set (nets w1) \<or> nets w1 = nets w)"
proof -
  obtain r w2 where g: "GetContainerNetworks env engine_name c w = (r, w2)" by fastforce
  note gn = GetContainerNetworks_contract [OF assms(1) g]
  show ?thesis
  proof (cases r)
    case (Inl x)
    with assms(2) g gn show ?thesis by (auto simp: ReplaceCurrentNetworks_def)
  next
    case (Inr ns)
    then have ns: "ns = nets w" "nets w2 = nets w" using gn by simp_all
    obtain e3 w3 where c: "(if n \<in> set ns then (None, w2) else ConnectContainerToNetwork env engine_name c n w2) = (e3, w3)" by fastforce
    have cn: "nets w3 = (if e3 = None \<and> n \<notin> set ns then nets w @ [n] else nets w)"
      using c ns connect_contract [OF assms(1), of n w2 e3 w3] by (auto split: if_splits)
    show ?thesis
    proof (cases e3)
      case None
      have d: "disconnect_others env engine_name c n ns w3 = (e, w1)"
        using assms(2) g Inr c None by (auto simp: ReplaceCurrentNetworks_def)
      have m: "n \<in> set (nets w3)" using cn None ns by auto
      have s: "set (nets w3) = insert n (set ns)" using cn None ns by auto
      show ?thesis using disconnect_others_contract [OF assms(1) d] m s by auto
    next
      case (Some x)
      with assms(2) g Inr c cn show ?thesis by (auto simp: ReplaceCurrentNetworks_def)
    qed
  qed
qed

text \<open>A container engine that keeps the networks of the container \<open>c\<close> and obeys.\<close>

definition sample_podman :: "string list engine_env" where
  "sample_podman = \<lparr>env_bash = (\<lambda>cmd w.
       if HasPrefix cmd ''podman network connect '' then
         (let n = take (length cmd - 25) (drop 23 cmd)
          in if net_name n then (([], [], None), w @ [n]) else (([], [], Some (NewError [])), w))
       else if HasPrefix cmd ''podman network disconnect '' then
         (let n = take (length cmd - 28) (drop 26 cmd) in (([], [], None), filter (\<lambda>m. m \<noteq> n) w))
       else ((print_networks (filter net_name w), [], None), w)),
     env_CreateTempFile = (\<lambda>c w. (Ok [], w)), env_RemoveTempFile = (\<lambda>p w. (None, w)),
     env_WriteFile = (\<lambda>p c w. (None, w)), env_HomeDir = [], env_parseRepo = (\<lambda>u. Fail [])\<rparr>"

lemma sample_podman_runs:
  "env_bash sample_podman (net_command [] ''connect'' n ''c'') w
     = (if net_name n then (([], [], None), w @ [n]) else (([], [], Some (NewError [])), w))"
  "env_bash sample_podman (net_command [] ''disconnect'' n ''c'') w = (([], [], None), filter (\<lambda>m. m \<noteq> n) w)"
  "env_bash sample_podman (inspect_networks [] ''c'') w = ((print_networks (filter net_name w), [], None), w)"
  by (simp_all add: sample_podman_def Let_def net_command_def inspect_networks_def engine_word_def engine_setup
      VariadicJoin_def preComputedFormat_def)

lemma sample_podman_contract: "network_contract sample_podman [] ''c'' (filter net_name)"
proof -
  have "filter net_name (filter (\<lambda>m. m \<noteq> n) w) = filter (\<lambda>m. m \<noteq> n) (filter net_name w)" for n w
    by (simp add: conj_commute)
  then show ?thesis unfolding network_contract_def sample_podman_runs by (simp del: filter_filter)
qed

theorem networks_replaced_witness:
  "\<exists>w1. ReplaceCurrentNetworks sample_podman [] ''c'' ''b'' [''a''] = (None, w1) \<and> set (filter net_name w1) = {''b''}"
proof -
  have n: "net_name ''a''" "net_name ''b''" by (simp_all add: net_name_def is_space_def)
  have g: "GetContainerNetworks sample_podman [] ''c'' [''a''] = (Inr [''a''], [''a''])"
    using read_networks [of "[''a'']"] n
    by (simp add: GetContainerNetworks_def run_engine_one [OF built_network] sample_podman_runs del: split_on.simps)
  have c: "ConnectContainerToNetwork sample_podman [] ''c'' ''b'' [''a''] = (None, [''a'', ''b''])"
    using n by (intro connect_ok [of _ _ _ _ _ "[]" "[]"]) (simp add: sample_podman_runs)
  have d: "DisconnectContainerFromNetwork sample_podman [] ''c'' ''a'' [''a'', ''b''] = (None, [''b''])"
    by (intro disconnect_ok [of _ _ _ _ _ "[]" "[]"]) (simp add: sample_podman_runs)
  have r: "ReplaceCurrentNetworks sample_podman [] ''c'' ''b'' [''a''] = (None, [''b''])"
    unfolding ReplaceCurrentNetworks_def g by (simp add: c d)
  have "set (filter net_name [''b'']) = {''b''}"
    using conjunct1 [OF networks_replaced [OF sample_podman_contract r]] by (rule mp) (rule refl)
  with r show ?thesis by blast
qed

section \<open>Status of a container\<close>

lemma built_status:
  "\<exists>ev. BuildSimple p (status_engine eng) = Inr [Some ev] \<and>
     re_cmd ev = VariadicJoin '' '' [engine_word eng, ''ps'', ''-a'', preComputedFormat K_FCONTAINER_ID_STATUS]"
  by (simp add: BuildSimple_def build_action_def built_def ps_def append_cmd_def engine_setup engine_word_def)

text \<open>
  \<open>IsContainerReady\<close> says yes only to a container that the engine lists as running and
  whose user has its home under \<open>/root\<close> or \<open>/home\<close>: when the listing fails, the container
  is not in it, its status is another, or the home cannot be had, the answer is no.
\<close>

theorem ready_means_running:
  assumes "IsContainerReady env c user w = (True, w2)"
  shows "\<exists>w1 home. GetContainerStatus env c [] w = ((KContainerStatusRunning, None), w1) \<and>
    GetRemoteUserHomeDirOnContainer env [] c user w1 = (Ok home, w2) \<and>
    HasPrefix home (if user = ''root'' then ''/root'' else ''/home'')"
  using assms
  by (auto simp: IsContainerReady_def validHomeDir_def KRootUsr_def split: prod.splits option.splits sum.splits if_splits)

theorem ready_means_running_witness:
  "\<exists>w. IsContainerReady (sample_podman\<lparr>env_bash := (\<lambda>cmd w. ((if HasPrefix cmd ''podman ps'' then ''ID=1,Name=c,Status=Up;x'' else ''/root'', [], None), w))\<rparr>)
     ''c'' ''root'' [] = (True, w) \<and>
     (\<exists>w1 home. GetContainerStatus (sample_podman\<lparr>env_bash := (\<lambda>cmd w. ((if HasPrefix cmd ''podman ps'' then ''ID=1,Name=c,Status=Up;x'' else ''/root'', [], None), w))\<rparr>)
       ''c'' [] [] = ((KContainerStatusRunning, None), w1) \<and> HasPrefix home ''/root'')"
proof -
  let ?env = "sample_podman\<lparr>env_bash := (\<lambda>cmd w. ((if HasPrefix cmd ''podman ps'' then ''ID=1,Name=c,Status=Up;x'' else ''/root'', [], None), w))\<rparr>"
  have r: "IsContainerReady ?env ''c'' ''root'' [] = (True, [])" by code_simp
  show ?thesis using ready_means_running [OF r] r by auto
qed

end
