(* ===== verification/AgentContainers.thy ===== *)
theory AgentContainers
  imports EngineRun EngineOps "HOL-Library.Word"
begin

text \<open>
  \<open>internal/agent/container_service.go\<close>: the interface \<open>ContainerOps\<close> with its default on
  the engine, the RPC handlers of the container service, and the deployment with its
  stream of events; and the client's side of that stream and of the container message
  (\<open>receiveDeployResponse\<close>, \<open>protoContainerToBO\<close> in \<open>internal/command/project_agent.go\<close>).

  The state of an operation is the engine's state. The response stream is the list of
  events sent so far; \<open>refuses\<close> says when \<open>Send\<close> fails, given what was sent. An error made
  by \<open>fmt.Errorf\<close> with \<open>%w\<close> keeps the wrapped one as its cause. The configuration parser
  (viper) and the host name are parameters.
\<close>

section \<open>The operations\<close>

record deployContainerSpec =
  ds_projectName :: string
  ds_containerName :: string
  ds_labels :: "(string \<times> string) list"
  ds_config :: Config
  ds_resourceProvider :: "resourceProvider option"

record deployProgress =
  dp_phase :: string
  dp_message :: string

record deployContainerResult =
  dr_containerName :: string
  dr_output :: string

text \<open>An error of a deployment: one of the program, or the status error of a failed report.\<close>

datatype deploy_error = DeployErr err | ReportErr rpc_error

datatype deploy_event = Progress string string | Response string string string

type_synonym 'w deploy_state = "'w engine_state \<times> deploy_event list"

type_synonym 'w reporter = "deployProgress \<Rightarrow> 'w deploy_state \<Rightarrow> rpc_error option \<times> 'w deploy_state"

record 'w ContainerOps =
  op_ListContainers :: "'w engine_state \<Rightarrow> Container list result \<times> 'w engine_state"
  op_GetContainer :: "string \<Rightarrow> 'w engine_state \<Rightarrow> Container result \<times> 'w engine_state"
  op_StartContainer :: "string \<Rightarrow> 'w engine_state \<Rightarrow> err option \<times> 'w engine_state"
  op_StopContainer :: "string \<Rightarrow> 'w engine_state \<Rightarrow> err option \<times> 'w engine_state"
  op_DeleteContainer :: "string \<Rightarrow> 'w engine_state \<Rightarrow> err option \<times> 'w engine_state"
  op_RenameContainer :: "string \<Rightarrow> string \<Rightarrow> 'w engine_state \<Rightarrow> err option \<times> 'w engine_state"
  op_ExecuteInContainer :: "string \<Rightarrow> string \<Rightarrow> string \<Rightarrow> 'w engine_state \<Rightarrow> (string \<times> int \<times> err option) \<times> 'w engine_state"
  op_DeployContainer :: "deployContainerSpec \<Rightarrow> 'w reporter \<Rightarrow> 'w deploy_state \<Rightarrow>
     (deployContainerResult \<times> deploy_error option) \<times> 'w deploy_state"

text \<open>An operation of the engine on the world, beside the table of variables it does not touch.\<close>

definition on_world :: "('w \<Rightarrow> 'a \<times> 'w) \<Rightarrow> 'w engine_state \<Rightarrow> 'a \<times> 'w engine_state" where
  "on_world f st = (let (a, w1) = f (snd st) in (a, (fst st, w1)))"

definition default_ListContainers :: "'w engine_env \<Rightarrow> 'w \<Rightarrow> Container list result \<times> 'w" where
  "default_ListContainers env w =
     (case run_engine env (SetFormat K_FCONTAINER_ID_STATUS (SetAction K_ACTION_PS empty_engine)) w of
        ((out, Some e), w1) \<Rightarrow> (Inl (AppendError ''failed to list containers'' e), w1)
      | ((out, None), w1) \<Rightarrow>
          (wrap_error ''failed to parse containers info'' (ParseContainersInfo out K_FCONTAINER_ID_STATUS), w1))"

definition default_GetContainer :: "'w engine_env \<Rightarrow> string \<Rightarrow> 'w \<Rightarrow> Container result \<times> 'w" where
  "default_GetContainer env name w =
     (case run_engine env (SetFormat K_FPORT (SetContainerName name (SetAction K_ACTION_INSPECT empty_engine))) w of
        ((out, Some e), w1) \<Rightarrow> (Inl (AppendError (''failed to inspect container '' @ name) e), w1)
      | ((out, None), w1) \<Rightarrow>
          (case ParseContainerInfo out (zero_Container\<lparr>ct_Name := name\<rparr>) K_FPORT of
             (Some e, c) \<Rightarrow> (Inl (AppendError (''failed to parse container info for '' @ name) e), w1)
           | (None, c) \<Rightarrow>
               (case GetContainerStatus env name [] w1 of
                  ((status, Some e), w2) \<Rightarrow> (Inl (AppendError (''failed to get container status for '' @ name) e), w2)
                | ((status, None), w2) \<Rightarrow> (Ok (c\<lparr>ct_Status := status\<rparr>), w2))))"

definition exec_custom_engine :: "string \<Rightarrow> string \<Rightarrow> string \<Rightarrow> ContainersEngine" where
  "exec_custom_engine containerName command user =
     (let es = SetCustomCommand command (SetContainerName containerName
                 (SetExecuteCmd K_EXEC_CUSTOM_CMD (SetAction K_ACTION_EXE empty_engine)))
      in if user \<noteq> [] then SetRemoteUser user es else es)"

definition default_ExecuteInContainer ::
  "'w engine_env \<Rightarrow> string \<Rightarrow> string \<Rightarrow> string \<Rightarrow> 'w \<Rightarrow> (string \<times> int \<times> err option) \<times> 'w" where
  "default_ExecuteInContainer env containerName command user w =
     (case run_engine env (exec_custom_engine containerName command user) w of
        ((out, Some e), w1) \<Rightarrow> ((out, 1, Some e), w1)
      | ((out, None), w1) \<Rightarrow> ((out, 0, None), w1))"

section \<open>Deployment\<close>

text \<open>
  \<open>buildSSHKeyInstallCommands\<close>: nothing when there is no key. Resolving the remote user
  asks for it a second time, after the constructor did.
\<close>

definition buildSSHKeyInstallCommands ::
  "'w engine_env \<Rightarrow> deployContainerSpec \<Rightarrow> 'w engine_state \<Rightarrow> RunEvent option list result \<times> 'w engine_state" where
  "buildSSHKeyInstallCommands env spec st =
     (case SingletonIdentifier KindPubKey of
        Inl e \<Rightarrow> (Inl e, st)
      | Inr identifier \<Rightarrow>
          (case ds_resourceProvider spec of
             None \<Rightarrow> (Ok [], st)
           | Some rp \<Rightarrow>
               if \<not> rp_FileExists rp ResourceTypeFile identifier then (Ok [], st)
               else (let (ce, st1) = NewContainerEngine env [WithContainerConfig (ds_config spec), WithResourceProvider rp] st;
                         (usr, st2) = ResolveRemoteUserFromConfig env (Some (ds_config spec)) st1;
                         (cmds, ce1, st3) = BuildCommands env (SetRemoteUser usr (SetContainerName (ds_containerName spec)
                            (SetExecuteCmd K_EXEC_CMD_SSH (SetAction K_ACTION_EXE ce)))) st2
                     in (cmds, st3))))"

definition deployCommandDescription :: "RunEvent \<Rightarrow> string" where
  "deployCommandDescription cmd =
     (let description = TrimSpace (re_eventInfo cmd)
      in if description \<noteq> [] then description else ''Running deploy command'')"

text \<open>
  The loop over the commands: report, run, collect the output (the standard error of the
  one that fails too), stop at the first failure. A nil event panics when its description
  is read.
\<close>

fun deploy_loop ::
  "'w engine_env \<Rightarrow> 'w reporter \<Rightarrow> RunEvent option list \<Rightarrow> string \<Rightarrow> 'w deploy_state \<Rightarrow>
   (string \<times> deploy_error option) \<times> 'w deploy_state" where
  "deploy_loop env report [] out ds = ((out, None), ds)"
| "deploy_loop env report (None # cmds) out ds = ((out, Some (DeployErr nil_dereference)), ds)"
| "deploy_loop env report (Some cmd # cmds) out ds =
     (case report \<lparr>dp_phase = ''execute'', dp_message = deployCommandDescription cmd\<rparr> ds of
        (Some e, ds1) \<Rightarrow> ((out, Some (ReportErr e)), ds1)
      | (None, ds1) \<Rightarrow>
          (case RunLocalCmdWithOutput env [Some cmd] (snd (fst ds1)) of
             ((stdout, Some e), w2) \<Rightarrow>
               ((out @ stdout, Some (DeployErr (AppendError ''failed to execute deploy command'' e))),
                ((fst (fst ds1), w2), snd ds1))
           | ((stdout, None), w2) \<Rightarrow> deploy_loop env report cmds (out @ stdout) ((fst (fst ds1), w2), snd ds1)))"

definition deploy_engine :: "deployContainerSpec \<Rightarrow> ContainersEngine \<Rightarrow> ContainersEngine" where
  "deploy_engine spec ce =
     AddContainerLabels (ds_labels spec) (SetContainerName (ds_containerName spec)
       (SetRunType K_RUN_DEV_CONTAINER (SetAction K_ACTION_RUN ce)))"

definition spec_options :: "deployContainerSpec \<Rightarrow> (ContainersEngine \<Rightarrow> ContainersEngine) list" where
  "spec_options spec =
     WithContainerConfig (ds_config spec)
     # (case ds_resourceProvider spec of None \<Rightarrow> [] | Some rp \<Rightarrow> [WithResourceProvider rp])"

definition default_DeployContainer ::
  "'w engine_env \<Rightarrow> deployContainerSpec \<Rightarrow> 'w reporter \<Rightarrow> 'w deploy_state \<Rightarrow>
   (deployContainerResult \<times> deploy_error option) \<times> 'w deploy_state" where
  "default_DeployContainer env spec report ds =
     (let (ce, st1) = NewContainerEngine env (spec_options spec) (fst ds);
          (built_cmds, ce1, st2) = BuildCommands env (deploy_engine spec ce) st1;
          failed = \<lparr>dr_containerName = ds_containerName spec, dr_output = []\<rparr>
      in case built_cmds of
           Inl e \<Rightarrow> ((failed, Some (DeployErr (AppendError ''failed to build deploy commands'' e))), (st2, snd ds))
         | Inr cmds \<Rightarrow>
             (let (ssh, st3) = buildSSHKeyInstallCommands env spec st2
              in case ssh of
                   Inl e \<Rightarrow> ((failed, Some (DeployErr (AppendError ''failed to build SSH key install commands'' e))), (st3, snd ds))
                 | Inr sshKeyCommands \<Rightarrow>
                     (let ((out, e), ds4) = deploy_loop env report (cmds @ sshKeyCommands) [] (st3, snd ds)
                      in ((\<lparr>dr_containerName = ds_containerName spec, dr_output = out\<rparr>, e), ds4))))"

definition defaultContainerOps :: "'w engine_env \<Rightarrow> 'w ContainerOps" where
  "defaultContainerOps env =
     \<lparr>op_ListContainers = on_world (default_ListContainers env),
      op_GetContainer = (\<lambda>name. on_world (default_GetContainer env name)),
      op_StartContainer = (\<lambda>name. on_world (StartContainer env name)),
      op_StopContainer = (\<lambda>name. on_world (StopContainer env name)),
      op_DeleteContainer = (\<lambda>name. on_world (DeleteContainer env name)),
      op_RenameContainer = (\<lambda>name newName. on_world (RenameContainer env name newName)),
      op_ExecuteInContainer = (\<lambda>c command user. on_world (default_ExecuteInContainer env c command user)),
      op_DeployContainer = default_DeployContainer env\<rparr>"

section \<open>The container message\<close>

record pb_Container =
  pb_Id :: string
  pb_Name :: string
  pb_Status :: string
  pb_Host :: string
  pb_PortMapping :: "string \<rightharpoonup> 32 word"

text \<open>A Go conversion to \<open>int32\<close> keeps the low 32 bits.\<close>

definition boContainerToProto :: "Container \<Rightarrow> string \<Rightarrow> pb_Container" where
  "boContainerToProto c hostname =
     \<lparr>pb_Id = ct_Id c, pb_Name = ct_Name c, pb_Status = FContainerStatus (ct_Status c), pb_Host = hostname,
      pb_PortMapping = (\<lambda>k. map_option word_of_int (ct_Pmapping c k))\<rparr>"

definition protoContainerToBO :: "pb_Container \<Rightarrow> string \<Rightarrow> Container" where
  "protoContainerToBO container remoteUser =
     (let status = SContainerStatus (pb_Status container)
      in \<lparr>ct_Id = pb_Id container, ct_Name = pb_Name container,
          ct_Pmapping = (\<lambda>k. map_option sint (pb_PortMapping container k)),
          ct_Status = status, ct_ExpectedStatus = status, ct_RemoteUser = remoteUser, ct_User = []\<rparr>)"

section \<open>The handlers\<close>

definition internal_error :: "string \<Rightarrow> err \<Rightarrow> rpc_error" where
  "internal_error m e = RpcErr Internal (m @ '': '' @ err_text e)"

type_synonym ('a, 'w) rpc = "'w engine_state \<Rightarrow> (rpc_error + 'a) \<times> 'w engine_state"

definition ListContainers :: "'w ContainerOps \<Rightarrow> string \<Rightarrow> (pb_Container list, 'w) rpc" where
  "ListContainers ops hostname st =
     (case op_ListContainers ops st of
        (Inl e, st1) \<Rightarrow> (Inl (internal_error ''list containers'' e), st1)
      | (Inr cs, st1) \<Rightarrow> (Inr (map (\<lambda>c. boContainerToProto c hostname) cs), st1))"

definition GetContainer :: "'w ContainerOps \<Rightarrow> string \<Rightarrow> string \<Rightarrow> (pb_Container, 'w) rpc" where
  "GetContainer ops hostname name st =
     (case validateRPCName ''container_name'' name of
        Some e \<Rightarrow> (Inl e, st)
      | None \<Rightarrow>
          (case op_GetContainer ops name st of
             (Inl e, st1) \<Rightarrow> (Inl (internal_error (''get container '' @ name) e), st1)
           | (Inr c, st1) \<Rightarrow> (Inr (boContainerToProto c hostname), st1)))"

text \<open>Start and stop: validate, run, answer.\<close>

definition rpc_StartContainer :: "'w ContainerOps \<Rightarrow> string \<Rightarrow> (string, 'w) rpc" where
  "rpc_StartContainer ops name st =
     (case validateRPCName ''container_name'' name of
        Some e \<Rightarrow> (Inl e, st)
      | None \<Rightarrow>
          (case op_StartContainer ops name st of
             (Some e, st1) \<Rightarrow> (Inl (internal_error (''start container '' @ name) e), st1)
           | (None, st1) \<Rightarrow> (Inr (''Container '' @ name @ '' started''), st1)))"

definition rpc_StopContainer :: "'w ContainerOps \<Rightarrow> string \<Rightarrow> (string, 'w) rpc" where
  "rpc_StopContainer ops name st =
     (case validateRPCName ''container_name'' name of
        Some e \<Rightarrow> (Inl e, st)
      | None \<Rightarrow>
          (case op_StopContainer ops name st of
             (Some e, st1) \<Rightarrow> (Inl (internal_error (''stop container '' @ name) e), st1)
           | (None, st1) \<Rightarrow> (Inr (''Container '' @ name @ '' stopped''), st1)))"

text \<open>\<open>os.RemoveAll\<close> is the parameter \<open>rmAll\<close>.\<close>

definition deleteProjectStaging ::
  "(string \<Rightarrow> 'w \<Rightarrow> err option \<times> 'w) \<Rightarrow> string \<Rightarrow> string \<Rightarrow> 'w \<Rightarrow> err option \<times> 'w" where
  "deleteProjectStaging rmAll stagingDir projectName w =
     (case projectStagingRoot stagingDir projectName of Inl e \<Rightarrow> (Some e, w) | Inr root \<Rightarrow> rmAll root w)"

definition rpc_DeleteContainer ::
  "'w ContainerOps \<Rightarrow> (string \<Rightarrow> 'w \<Rightarrow> err option \<times> 'w) \<Rightarrow> string \<Rightarrow> string \<Rightarrow> string \<Rightarrow> (string, 'w) rpc" where
  "rpc_DeleteContainer ops rmAll stagingDir name projectName st =
     (case validateRPCName ''container_name'' name of
        Some e \<Rightarrow> (Inl e, st)
      | None \<Rightarrow>
          (case (if projectName \<noteq> [] then validateRPCName ''project_name'' projectName else None) of
             Some e \<Rightarrow> (Inl e, st)
           | None \<Rightarrow>
               (case op_DeleteContainer ops name st of
                  (Some e, st1) \<Rightarrow> (Inl (internal_error (''delete container '' @ name) e), st1)
                | (None, st1) \<Rightarrow>
                    if projectName = [] then (Inr (''Container '' @ name @ '' deleted''), st1)
                    else (case on_world (deleteProjectStaging rmAll stagingDir projectName) st1 of
                        (Some e, st2) \<Rightarrow> (Inl (internal_error (''delete cached state for project '' @ projectName) e), st2)
                      | (None, st2) \<Rightarrow> (Inr (''Container '' @ name @ '' deleted''), st2)))))"

definition rpc_RenameContainer :: "'w ContainerOps \<Rightarrow> string \<Rightarrow> string \<Rightarrow> (string, 'w) rpc" where
  "rpc_RenameContainer ops name newName st =
     (case validateRPCName ''container_name'' name of
        Some e \<Rightarrow> (Inl e, st)
      | None \<Rightarrow>
          (case validateRPCName ''new_container_name'' newName of
             Some e \<Rightarrow> (Inl e, st)
           | None \<Rightarrow>
               (case op_RenameContainer ops name newName st of
                  (Some e, st1) \<Rightarrow> (Inl (internal_error (''rename container '' @ name @ '' to '' @ newName) e), st1)
                | (None, st1) \<Rightarrow> (Inr (''Container '' @ name @ '' renamed to '' @ newName), st1))))"

text \<open>A command that fails is no RPC error: its output and exit code are the answer.\<close>

definition rpc_ExecuteInContainer ::
  "'w ContainerOps \<Rightarrow> string \<Rightarrow> string \<Rightarrow> string \<Rightarrow> (string \<times> int, 'w) rpc" where
  "rpc_ExecuteInContainer ops name command user st =
     (case validateRPCName ''container_name'' name of
        Some e \<Rightarrow> (Inl e, st)
      | None \<Rightarrow>
          if command = [] then (Inl (RpcErr InvalidArgument ''command is required''), st)
          else (case op_ExecuteInContainer ops name command user st of
              ((out, code, e), st1) \<Rightarrow> (Inr (out, code), st1)))"

definition rpc_RebuildContainer :: "string \<Rightarrow> rpc_error" where
  "rpc_RebuildContainer name =
     (case validateRPCName ''container_name'' name of
        Some e \<Rightarrow> e
      | None \<Rightarrow> RpcErr Unimplemented ''rebuild pipeline is not wired to cached deploy state yet'')"

section \<open>The deploy stream\<close>

type_synonym stream = "deploy_event list \<Rightarrow> deploy_event \<Rightarrow> err option"

definition send_event :: "stream \<Rightarrow> string \<Rightarrow> deploy_event \<Rightarrow> deploy_event list \<Rightarrow> rpc_error option \<times> deploy_event list" where
  "send_event refuses m ev sent =
     (case refuses sent ev of
        Some e \<Rightarrow> (Some (RpcErr Internal (m @ '': '' @ err_text e)), sent)
      | None \<Rightarrow> (None, sent @ [ev]))"

definition sendDeployProgress :: "stream \<Rightarrow> string \<Rightarrow> string \<Rightarrow> deploy_event list \<Rightarrow> rpc_error option \<times> deploy_event list" where
  "sendDeployProgress refuses phase message = send_event refuses ''failed to send progress'' (Progress phase message)"

definition sendDeployResponse ::
  "stream \<Rightarrow> deployContainerResult \<Rightarrow> err option \<Rightarrow> deploy_event list \<Rightarrow> rpc_error option \<times> deploy_event list" where
  "sendDeployResponse refuses result deployErr =
     send_event refuses ''failed to send deploy response''
       (Response (dr_containerName result) (dr_output result) (case deployErr of None \<Rightarrow> [] | Some e \<Rightarrow> err_text e))"

definition parseDeployContainerConfig :: "(string \<Rightarrow> Config result) \<Rightarrow> string \<Rightarrow> rpc_error + Config" where
  "parseDeployContainerConfig parse raw =
     (case parse raw of
        Inl e \<Rightarrow> Inl (RpcErr InvalidArgument (''invalid devcontainer_config: '' @ err_text e))
      | Inr config \<Rightarrow> Inr config)"

definition stream_reporter :: "stream \<Rightarrow> 'w reporter" where
  "stream_reporter refuses progress ds =
     (let (e, sent) = sendDeployProgress refuses (dp_phase progress) (dp_message progress) (snd ds) in (e, (fst ds, sent)))"

record DeployContainerRequest =
  dq_ProjectName :: string
  dq_ContainerName :: string
  dq_Labels :: "(string \<times> string) list"
  dq_DevcontainerConfig :: string

text \<open>\<open>newStagingResourceProvider\<close> as the engine sees it, on the files of the agent.\<close>

definition staging_provider :: "(string \<Rightarrow> string result) \<Rightarrow> (string \<Rightarrow> bool) \<Rightarrow> string \<Rightarrow> string \<Rightarrow> resourceProvider" where
  "staging_provider read exists stagingDir projectName =
     \<lparr>rp_FetchFile = FetchFile read \<lparr>srp_stagingDir = stagingDir, srp_projectName = projectName\<rparr>,
      rp_FileExists = FileExists exists \<lparr>srp_stagingDir = stagingDir, srp_projectName = projectName\<rparr>\<rparr>"

definition request_spec :: "resourceProvider \<Rightarrow> DeployContainerRequest \<Rightarrow> Config \<Rightarrow> deployContainerSpec" where
  "request_spec rp req config =
     \<lparr>ds_projectName = dq_ProjectName req, ds_containerName = dq_ContainerName req, ds_labels = dq_Labels req,
      ds_config = config, ds_resourceProvider = Some rp\<rparr>"

definition rpc_DeployContainer ::
  "'w ContainerOps \<Rightarrow> (string \<Rightarrow> Config result) \<Rightarrow> (string \<Rightarrow> resourceProvider) \<Rightarrow> stream \<Rightarrow> DeployContainerRequest \<Rightarrow>
   'w engine_state \<Rightarrow> rpc_error option \<times> 'w deploy_state" where
  "rpc_DeployContainer ops parse provider refuses req st =
     (case validateRPCName ''container_name'' (dq_ContainerName req) of
        Some e \<Rightarrow> (Some e, (st, []))
      | None \<Rightarrow>
     (case validateRPCName ''project_name'' (dq_ProjectName req) of
        Some e \<Rightarrow> (Some e, (st, []))
      | None \<Rightarrow>
     (case parseDeployContainerConfig parse (dq_DevcontainerConfig req) of
        Inl e \<Rightarrow> (Some e, (st, []))
      | Inr config \<Rightarrow>
     (case sendDeployProgress refuses ''init'' (''Starting deployment of container '' @ dq_ContainerName req) [] of
        (Some e, sent) \<Rightarrow> (Some e, (st, sent))
      | (None, sent) \<Rightarrow>
     (case op_DeployContainer ops (request_spec (provider (dq_ProjectName req)) req config) (stream_reporter refuses) (st, sent) of
        ((result, Some (ReportErr e)), ds) \<Rightarrow> (Some e, ds)
      | ((result, Some (DeployErr e)), ds) \<Rightarrow>
          (let (r, sent2) = sendDeployResponse refuses result (Some e) (snd ds) in (r, (fst ds, sent2)))
      | ((result, None), ds) \<Rightarrow>
          (let (r, sent2) = sendDeployResponse refuses result None (snd ds) in (r, (fst ds, sent2))))))))"

text \<open>
  The client: the last response of the stream counts; the stream ends with \<open>io.EOF\<close>
  when the handler returned no error, and with that error otherwise.
\<close>

fun last_response :: "(string \<times> string \<times> string) option \<Rightarrow> deploy_event list \<Rightarrow> (string \<times> string \<times> string) option" where
  "last_response r [] = r"
| "last_response r (Progress p m # evs) = last_response r evs"
| "last_response r (Response n out e # evs) = last_response (Some (n, out, e)) evs"

definition receiveDeployResponse :: "deploy_event list \<Rightarrow> err option \<Rightarrow> (string \<times> string \<times> string) result" where
  "receiveDeployResponse evs stream_end =
     (case stream_end of
        Some e \<Rightarrow> Inl (AppendError ''Failed to receive deploy progress'' e)
      | None \<Rightarrow>
          (case last_response None evs of
             None \<Rightarrow> Fail ''agent deploy finished without a final response''
           | Some r \<Rightarrow> Ok r))"

end
