(* ===== verification/Upload.thy ===== *)
theory Upload
  imports Staging
begin

text \<open>
  Artifact staging between client and agent: the agent's \<open>artifact_service.go\<close>
  (\<open>PrepareArtifacts\<close>, \<open>UploadArtifact\<close>) and the client's side of it in
  \<open>internal/command/project_agent.go\<close> (\<open>stageProjectArtifacts\<close>, \<open>uploadArtifact\<close>).

  The agent's disk is a map from path to the bytes of a regular file; directories are not
  part of it. The operating system's answers are the record \<open>upload_io\<close>, SHA-256 is a
  function parameter that gives the printed digest. What the stream delivers is the list
  of results of \<open>Recv\<close>; its end is \<open>io.EOF\<close>. Status messages are without the numbers and
  the cause that some of them end with.
\<close>

type_synonym files = "string \<rightharpoonup> string"

record ArtifactDescriptor =
  ad_Identifier :: string
  ad_Type :: string
  ad_Size :: int
  ad_Digest :: string

record UploadArtifactChunk =
  ch_ProjectName :: string
  ch_UploadId :: string
  ch_Descriptor :: "ArtifactDescriptor option"
  ch_Offset :: int
  ch_Content :: string
  ch_Finish :: bool

datatype recv = RecvChunk UploadArtifactChunk | RecvError err

text \<open>\<open>io_CreateTemp\<close> sees the existing files; \<open>io_Write\<close> sees what was written before.\<close>

record upload_io =
  io_MkdirAll :: "string \<Rightarrow> err option"
  io_CreateTemp :: "files \<Rightarrow> string \<Rightarrow> string result"
  io_Write :: "string \<Rightarrow> string \<Rightarrow> nat \<times> err option"
  io_Close :: "err option"
  io_Open :: "string \<Rightarrow> err option"
  io_Rename :: "string \<Rightarrow> string \<Rightarrow> err option"

definition filepath_Dir :: "string \<Rightarrow> string" where
  "filepath_Dir p = path_Clean (trim_right (\<lambda>c. c \<noteq> CHR ''/'') p)"

definition artifactPath :: "string \<Rightarrow> string \<Rightarrow> string \<Rightarrow> string result" where
  "artifactPath stagingDir projectName identifier =
     bind_ok (resolveProjectArtifact stagingDir projectName identifier) (\<lambda>a. Ok (sa_path a))"

definition fileSHA256 :: "upload_io \<Rightarrow> (string \<Rightarrow> string) \<Rightarrow> files \<Rightarrow> string \<Rightarrow> string result" where
  "fileSHA256 io sha fs path =
     (case io_Open io path of Some e \<Rightarrow> Inl e
      | None \<Rightarrow> (case fs path of None \<Rightarrow> Fail ''no such file'' | Some c \<Rightarrow> Ok (sha c)))"

definition fileMatchesDescriptor ::
  "upload_io \<Rightarrow> (string \<Rightarrow> string) \<Rightarrow> files \<Rightarrow> string \<Rightarrow> ArtifactDescriptor \<Rightarrow> bool" where
  "fileMatchesDescriptor io sha fs path desc =
     (case fs path of None \<Rightarrow> False
      | Some c \<Rightarrow>
          if ad_Size desc > 0 \<and> int (length c) \<noteq> ad_Size desc then False
          else if ad_Digest desc \<noteq> []
            then (case fileSHA256 io sha fs path of Inl _ \<Rightarrow> False | Inr digest \<Rightarrow> digest = ad_Digest desc)
          else True)"

section \<open>PrepareArtifacts\<close>

definition bad_identifier :: "string \<Rightarrow> rpc_error" where
  "bad_identifier i = RpcErr InvalidArgument (''invalid artifact identifier '' @ Quote i)"

fun prepare_from ::
  "string \<Rightarrow> upload_io \<Rightarrow> (string \<Rightarrow> string) \<Rightarrow> files \<Rightarrow> string \<Rightarrow> ArtifactDescriptor option list \<Rightarrow>
   ArtifactDescriptor list \<Rightarrow> ArtifactDescriptor list \<Rightarrow>
   rpc_error + ArtifactDescriptor list \<times> ArtifactDescriptor list" where
  "prepare_from dir io sha fs proj [] found missing = Inr (found, missing)"
| "prepare_from dir io sha fs proj (None # ds) found missing =
     Inl (RpcErr InvalidArgument ''descriptor is required'')"
| "prepare_from dir io sha fs proj (Some desc # ds) found missing =
     (case NormalizeIdentifier (ad_Identifier desc) of
        Inl _ \<Rightarrow> Inl (bad_identifier (ad_Identifier desc))
      | Inr normalizedIdentifier \<Rightarrow>
          (case artifactPath dir proj normalizedIdentifier of
             Inl _ \<Rightarrow> Inl (bad_identifier (ad_Identifier desc))
           | Inr path \<Rightarrow>
               (let normalizedDesc = desc\<lparr>ad_Identifier := normalizedIdentifier\<rparr>
                in if fileMatchesDescriptor io sha fs path normalizedDesc
                   then prepare_from dir io sha fs proj ds (found @ [normalizedDesc]) missing
                   else prepare_from dir io sha fs proj ds found (missing @ [normalizedDesc]))))"

definition PrepareArtifacts ::
  "string \<Rightarrow> upload_io \<Rightarrow> (string \<Rightarrow> string) \<Rightarrow> files \<Rightarrow> string \<Rightarrow> ArtifactDescriptor option list \<Rightarrow>
   rpc_error + ArtifactDescriptor list \<times> ArtifactDescriptor list" where
  "PrepareArtifacts dir io sha fs proj descs =
     (case validateRPCName ''project_name'' proj of
        Some e \<Rightarrow> Inl e
      | None \<Rightarrow> prepare_from dir io sha fs proj descs [] [])"

section \<open>UploadArtifact\<close>

record upload_state =
  us_projectName :: string
  us_uploadID :: string
  us_desc :: ArtifactDescriptor
  us_identifier :: string
  us_destPath :: string
  us_tempPath :: string
  us_totalWritten :: int

text \<open>The branch \<open>file == nil\<close>: the first chunk names the artifact and opens the temporary file.\<close>

definition first_chunk ::
  "string \<Rightarrow> upload_io \<Rightarrow> UploadArtifactChunk \<Rightarrow> files \<Rightarrow> rpc_error + upload_state \<times> files" where
  "first_chunk dir io chunk fs =
     (if ch_ProjectName chunk = [] then Inl (RpcErr InvalidArgument ''project_name is required on first chunk'')
      else case validateRPCName ''project_name'' (ch_ProjectName chunk) of
        Some e \<Rightarrow> Inl e
      | None \<Rightarrow>
      (case ch_Descriptor chunk of
        None \<Rightarrow> Inl (RpcErr InvalidArgument ''descriptor with identifier is required on first chunk'')
      | Some desc \<Rightarrow>
         if ad_Identifier desc = []
           then Inl (RpcErr InvalidArgument ''descriptor with identifier is required on first chunk'')
         else if ad_Size desc < 0 then Inl (RpcErr InvalidArgument ''artifact size must not be negative'')
         else case NormalizeIdentifier (ad_Identifier desc) of
           Inl _ \<Rightarrow> Inl (bad_identifier (ad_Identifier desc))
         | Inr normalizedIdentifier \<Rightarrow>
         (case artifactPath dir (ch_ProjectName chunk) normalizedIdentifier of
           Inl _ \<Rightarrow> Inl (bad_identifier (ad_Identifier desc))
         | Inr destPath \<Rightarrow>
         (case io_MkdirAll io (filepath_Dir destPath) of
           Some e \<Rightarrow> Inl (RpcErr Internal (''create staging directory: '' @ err_message e))
         | None \<Rightarrow>
         (case io_CreateTemp io fs (filepath_Dir destPath) of
           Inl e \<Rightarrow> Inl (RpcErr Internal (''create temporary staging file: '' @ err_message e))
         | Inr tempPath \<Rightarrow>
             Inr (\<lparr>us_projectName = ch_ProjectName chunk, us_uploadID = ch_UploadId chunk, us_desc = desc,
                   us_identifier = normalizedIdentifier, us_destPath = destPath, us_tempPath = tempPath,
                   us_totalWritten = 0\<rparr>, fs(tempPath \<mapsto> [])))))))"

definition later_chunk :: "UploadArtifactChunk \<Rightarrow> upload_state \<Rightarrow> rpc_error option" where
  "later_chunk chunk st =
     (if ch_ProjectName chunk \<noteq> [] \<and> ch_ProjectName chunk \<noteq> us_projectName st
        then Some (RpcErr InvalidArgument ''project_name cannot change during upload'')
      else if ch_UploadId chunk \<noteq> [] \<and> us_uploadID st \<noteq> [] \<and> ch_UploadId chunk \<noteq> us_uploadID st
        then Some (RpcErr InvalidArgument ''upload_id cannot change during upload'')
      else if ch_Descriptor chunk \<noteq> None
        then Some (RpcErr InvalidArgument ''descriptor must only be sent on first chunk'')
      else None)"

definition open_or_check ::
  "string \<Rightarrow> upload_io \<Rightarrow> UploadArtifactChunk \<Rightarrow> upload_state option \<Rightarrow> files \<Rightarrow> rpc_error + upload_state \<times> files" where
  "open_or_check dir io chunk st fs =
     (case st of
        None \<Rightarrow> first_chunk dir io chunk fs
      | Some s \<Rightarrow> (case later_chunk chunk s of Some e \<Rightarrow> Inl e | None \<Rightarrow> Inr (s, fs)))"

text \<open>
  The receive loop returns the temporary path that the deferred function removes, the
  files, and the status or the state at the end of the stream.
\<close>

fun recv_loop ::
  "string \<Rightarrow> upload_io \<Rightarrow> recv list \<Rightarrow> upload_state option \<Rightarrow> files \<Rightarrow>
   string option \<times> files \<times> (rpc_error + upload_state option)" where
  "recv_loop dir io [] st fs = (map_option us_tempPath st, fs, Inr st)"
| "recv_loop dir io (RecvError e # evs) st fs =
     (map_option us_tempPath st, fs, Inl (RpcErr Internal (''receive chunk: '' @ err_message e)))"
| "recv_loop dir io (RecvChunk chunk # evs) st fs =
     (case open_or_check dir io chunk st fs of
        Inl e \<Rightarrow> (map_option us_tempPath st, fs, Inl e)
      | Inr (s, fs1) \<Rightarrow>
          (let temp = us_tempPath s; content = ch_Content chunk; before = (case fs1 temp of None \<Rightarrow> [] | Some b \<Rightarrow> b)
           in if ch_Offset chunk \<noteq> us_totalWritten s
              then (Some temp, fs1, Inl (RpcErr InvalidArgument ''chunk offset does not match expected offset''))
              else case io_Write io before content of
                (n, Some e) \<Rightarrow> (Some temp, fs1(temp \<mapsto> before @ take n content),
                               Inl (RpcErr Internal (''write chunk: '' @ err_message e)))
              | (n, None) \<Rightarrow>
                  if n \<noteq> length content
                  then (Some temp, fs1(temp \<mapsto> before @ take n content), Inl (RpcErr Internal ''write chunk: short write''))
                  else (let s' = s\<lparr>us_totalWritten := us_totalWritten s + int n\<rparr>;
                            fs2 = fs1(temp \<mapsto> before @ content)
                        in if ch_Finish chunk then (Some temp, fs2, Inr (Some s'))
                           else recv_loop dir io evs (Some s') fs2)))"

text \<open>After the loop: close, check size and digest, rename into place.\<close>

definition commit_upload ::
  "upload_io \<Rightarrow> (string \<Rightarrow> string) \<Rightarrow> upload_state \<Rightarrow> files \<Rightarrow>
   string option \<times> files \<times> (rpc_error + ArtifactDescriptor)" where
  "commit_upload io sha s fs =
     (let temp = us_tempPath s; desc = us_desc s
      in case io_Close io of
        Some e \<Rightarrow> (Some temp, fs, Inl (RpcErr Internal (''close staging file: '' @ err_message e)))
      | None \<Rightarrow>
          if ad_Size desc > 0 \<and> ad_Size desc \<noteq> us_totalWritten s
          then (Some temp, fs, Inl (RpcErr DataLoss ''artifact size mismatch''))
          else case fileSHA256 io sha fs temp of
            Inl e \<Rightarrow> (Some temp, fs, Inl (RpcErr Internal (''compute staging digest: '' @ err_message e)))
          | Inr digest \<Rightarrow>
              if ad_Digest desc \<noteq> [] \<and> ad_Digest desc \<noteq> digest
              then (Some temp, fs, Inl (RpcErr DataLoss ''artifact digest mismatch''))
              else case io_Rename io temp (us_destPath s) of
                Some e \<Rightarrow> (Some temp, fs, Inl (RpcErr Internal (''commit staging file: '' @ err_message e)))
              | None \<Rightarrow> (None, (fs(temp := None))(us_destPath s := fs temp),
                  Inr \<lparr>ad_Identifier = us_identifier s, ad_Type = ad_Type desc,
                       ad_Size = us_totalWritten s, ad_Digest = digest\<rparr>))"

text \<open>The deferred function removes the temporary file when its path is still set.\<close>

definition remove_temp :: "string option \<Rightarrow> files \<Rightarrow> files" where
  "remove_temp temp fs = (case temp of None \<Rightarrow> fs | Some t \<Rightarrow> fs(t := None))"

definition UploadArtifact ::
  "string \<Rightarrow> upload_io \<Rightarrow> (string \<Rightarrow> string) \<Rightarrow> recv list \<Rightarrow> files \<Rightarrow> files \<times> (rpc_error + ArtifactDescriptor)" where
  "UploadArtifact dir io sha evs fs =
     (case recv_loop dir io evs None fs of
        (temp, fs1, Inl e) \<Rightarrow> (remove_temp temp fs1, Inl e)
      | (temp, fs1, Inr None) \<Rightarrow> (remove_temp temp fs1, Inl (RpcErr InvalidArgument ''upload stream is empty''))
      | (temp, fs1, Inr (Some s)) \<Rightarrow>
          (case commit_upload io sha s fs1 of (temp', fs2, r) \<Rightarrow> (remove_temp temp' fs2, r)))"

section \<open>An upload commits everything or nothing\<close>

text \<open>The bytes of a stream up to the chunk that finishes it.\<close>

fun received :: "recv list \<Rightarrow> string" where
  "received [] = []"
| "received (RecvError e # evs) = []"
| "received (RecvChunk c # evs) = ch_Content c @ (if ch_Finish c then [] else received evs)"

definition fresh_temp :: "upload_io \<Rightarrow> bool" where
  "fresh_temp io \<longleftrightarrow> (\<forall>fs dir t. io_CreateTemp io fs dir = Inr t \<longrightarrow> fs t = None)"

lemma recv_loop_open:
  assumes "recv_loop dir io evs (Some s) fs = (t, fs', r)" "fs (us_tempPath s) = Some c"
    "us_totalWritten s = int (length c)"
  shows "\<exists>c'. t = Some (us_tempPath s) \<and> fs' = fs(us_tempPath s \<mapsto> c') \<and>
    (\<forall>st. r = Inr st \<longrightarrow> c' = c @ received evs \<and> st = Some (s\<lparr>us_totalWritten := int (length c')\<rparr>))"
  using assms
proof (induction evs arbitrary: s c fs)
  case Nil
  then show ?case by (auto intro!: exI [of _ c])
next
  case (Cons ev evs)
  show ?case
  proof (cases ev)
    case (RecvError e)
    with Cons.prems show ?thesis by (auto intro!: exI [of _ c])
  next
    case (RecvChunk chunk)
    show ?thesis
    proof (cases "later_chunk chunk s")
      case (Some e)
      with RecvChunk Cons.prems show ?thesis by (auto simp: open_or_check_def intro!: exI [of _ c])
    next
      case None
      obtain n e where w: "io_Write io c (ch_Content chunk) = (n, e)" by (cases "io_Write io c (ch_Content chunk)")
      let ?s' = "s\<lparr>us_totalWritten := us_totalWritten s + int n\<rparr>"
      note simps = open_or_check_def Let_def None w RecvChunk Cons.prems(2)
      consider "ch_Offset chunk \<noteq> us_totalWritten s"
        | "ch_Offset chunk = us_totalWritten s" "e \<noteq> None \<or> n \<noteq> length (ch_Content chunk)"
        | "ch_Offset chunk = us_totalWritten s" "e = None" "n = length (ch_Content chunk)"
        by blast
      then show ?thesis
      proof cases
        case 1
        with Cons.prems(1) have "t = Some (us_tempPath s)" "fs' = fs" "\<exists>x. r = Inl x" by (auto simp: simps)
        with Cons.prems(2) show ?thesis by (auto intro!: exI [of _ c])
      next
        case 2
        with Cons.prems(1) have "t = Some (us_tempPath s)"
          "fs' = fs(us_tempPath s \<mapsto> c @ take n (ch_Content chunk))" "\<exists>x. r = Inl x"
          by (cases e; auto simp: simps)+
        then show ?thesis by auto
      next
        case 3
        let ?fs2 = "fs(us_tempPath s \<mapsto> c @ ch_Content chunk)"
        show ?thesis
        proof (cases "ch_Finish chunk")
          case True
          with 3 Cons.prems(1) have "t = Some (us_tempPath s)" "fs' = ?fs2" "r = Inr (Some ?s')"
            by (simp_all add: simps)
          with 3 True Cons.prems(3) RecvChunk show ?thesis by auto
        next
          case False
          with 3 Cons.prems(1) have "recv_loop dir io evs (Some ?s') ?fs2 = (t, fs', r)" by (simp add: simps)
          moreover have "?fs2 (us_tempPath ?s') = Some (c @ ch_Content chunk)"
            "us_totalWritten ?s' = int (length (c @ ch_Content chunk))" using 3 Cons.prems(3) by simp_all
          ultimately obtain c' where c': "t = Some (us_tempPath ?s')" "fs' = ?fs2(us_tempPath ?s' \<mapsto> c')"
            "\<forall>st. r = Inr st \<longrightarrow> c' = (c @ ch_Content chunk) @ received evs \<and>
               st = Some (?s'\<lparr>us_totalWritten := int (length c')\<rparr>)"
            using Cons.IH by blast
          have "fs' = fs(us_tempPath s \<mapsto> c')" unfolding c'(2) by (rule ext) simp
          with c'(1,3) False RecvChunk show ?thesis by (intro exI [of _ c']) auto
        qed
      qed
    qed
  qed
qed

lemma first_chunk_Inr:
  assumes "first_chunk dir io chunk fs = Inr (s, fs1)"
  shows "\<exists>desc. ch_Descriptor chunk = Some desc \<and> us_desc s = desc \<and> us_totalWritten s = 0 \<and> 0 \<le> ad_Size desc \<and>
    us_projectName s = ch_ProjectName chunk \<and> NormalizeIdentifier (ad_Identifier desc) = Inr (us_identifier s) \<and>
    artifactPath dir (ch_ProjectName chunk) (us_identifier s) = Inr (us_destPath s) \<and>
    io_CreateTemp io fs (filepath_Dir (us_destPath s)) = Inr (us_tempPath s) \<and> fs1 = fs(us_tempPath s \<mapsto> [])"
  using assms
  by (auto simp: first_chunk_def split: if_splits option.splits sum.splits)

lemma recv_loop_first:
  "first_chunk dir io chunk fs = Inr (s, fs1) \<Longrightarrow>
   recv_loop dir io (RecvChunk chunk # rest) None fs =
   recv_loop dir io (RecvChunk (chunk\<lparr>ch_ProjectName := [], ch_UploadId := [], ch_Descriptor := None\<rparr>) # rest) (Some s) fs1"
  by (simp add: open_or_check_def later_chunk_def Let_def split: prod.split option.split)

lemma recv_loop_start:
  assumes "fresh_temp io" "recv_loop dir io evs None fs = (t, fs', r)"
  shows "remove_temp t fs' = fs \<and> (\<forall>s. r = Inr (Some s) \<longrightarrow>
    fs' = fs(us_tempPath s \<mapsto> received evs) \<and> t = Some (us_tempPath s) \<and> fs (us_tempPath s) = None \<and>
    us_totalWritten s = int (length (received evs)) \<and>
    (\<exists>chunk rest desc. evs = RecvChunk chunk # rest \<and> ch_Descriptor chunk = Some desc \<and> us_desc s = desc \<and> 0 \<le> ad_Size desc \<and>
       NormalizeIdentifier (ad_Identifier desc) = Inr (us_identifier s) \<and>
       artifactPath dir (ch_ProjectName chunk) (us_identifier s) = Inr (us_destPath s)))"
proof (cases evs)
  case Nil
  with assms show ?thesis by (auto simp: remove_temp_def)
next
  case (Cons ev rest)
  show ?thesis
  proof (cases ev)
    case (RecvError e)
    with assms Cons show ?thesis by (auto simp: remove_temp_def)
  next
    case (RecvChunk chunk)
    show ?thesis
    proof (cases "first_chunk dir io chunk fs")
      case (Inl e)
      with assms Cons RecvChunk show ?thesis by (auto simp: open_or_check_def remove_temp_def)
    next
      case (Inr sf)
      obtain s fs1 where sf: "sf = (s, fs1)" by (cases sf)
      from first_chunk_Inr [OF Inr [unfolded sf]] obtain desc where
        f: "ch_Descriptor chunk = Some desc" "us_desc s = desc" "us_totalWritten s = 0" "0 \<le> ad_Size desc"
        "NormalizeIdentifier (ad_Identifier desc) = Inr (us_identifier s)"
        "artifactPath dir (ch_ProjectName chunk) (us_identifier s) = Inr (us_destPath s)"
        "io_CreateTemp io fs (filepath_Dir (us_destPath s)) = Inr (us_tempPath s)" "fs1 = fs(us_tempPath s \<mapsto> [])"
        by blast
      then have fresh: "fs (us_tempPath s) = None" using assms(1) by (simp add: fresh_temp_def)
      from assms(2) Cons RecvChunk recv_loop_first [OF Inr [unfolded sf]] f(8)
      have "recv_loop dir io (RecvChunk (chunk\<lparr>ch_ProjectName := [], ch_UploadId := [], ch_Descriptor := None\<rparr>) # rest)
          (Some s) (fs(us_tempPath s \<mapsto> [])) = (t, fs', r)" by simp
      from recv_loop_open [OF this, of "[]"] f(3) obtain c where
        c: "t = Some (us_tempPath s)" "fs' = fs(us_tempPath s \<mapsto> c)"
        "\<forall>st. r = Inr st \<longrightarrow> c = received evs \<and> st = Some (s\<lparr>us_totalWritten := int (length c)\<rparr>)"
        using Cons RecvChunk by auto
      have rt: "remove_temp t fs' = fs" using c(1,2) fresh by (auto simp: remove_temp_def)
      show ?thesis
      proof (cases r)
        case (Inr st)
        with c(3) have "c = received evs" "st = Some (s\<lparr>us_totalWritten := int (length (received evs))\<rparr>)" by auto
        with Inr rt c(1,2) fresh f(1,2,4,5,6) Cons RecvChunk show ?thesis by simp
      qed (use rt in simp)
    qed
  qed
qed


text \<open>A disk on which nothing fails.\<close>

definition good_io :: upload_io where
  "good_io = \<lparr>io_MkdirAll = (\<lambda>_. None), io_CreateTemp = (\<lambda>fs dir. if fs (dir @ ''/.t'') = None then Inr (dir @ ''/.t'') else Fail ''busy''),
     io_Write = (\<lambda>_ c. (length c, None)), io_Close = None, io_Open = (\<lambda>_. None), io_Rename = (\<lambda>_ _. None)\<rparr>"

lemma good_io_fresh: "fresh_temp good_io"
  by (simp add: fresh_temp_def good_io_def)


section \<open>The client's side\<close>

record artifactCandidate =
  ac_descriptor :: ArtifactDescriptor
  ac_data :: string

definition artifactUploadChunkSize :: nat where
  "artifactUploadChunkSize = 1024 * 1024"

text \<open>
  The chunks that \<open>uploadArtifact\<close> sends from an offset on: at least one, also for empty
  data, the first with the project and the descriptor.
\<close>

function client_chunks :: "string \<Rightarrow> string \<Rightarrow> artifactCandidate \<Rightarrow> nat \<Rightarrow> UploadArtifactChunk list" where
  "client_chunks proj uploadID cand offset =
     (let total = length (ac_data cand); end = min (offset + artifactUploadChunkSize) total;
          chunk = \<lparr>ch_ProjectName = (if offset = 0 then proj else []), ch_UploadId = uploadID,
            ch_Descriptor = (if offset = 0 then Some (ac_descriptor cand) else None),
            ch_Offset = int offset, ch_Content = drop offset (take end (ac_data cand)), ch_Finish = (end = total)\<rparr>
      in if end = total then [chunk] else chunk # client_chunks proj uploadID cand end)"
  by pat_completeness auto

termination
  by (relation "measure (\<lambda>(_, _, cand, offset). length (ac_data cand) - offset)")
    (auto simp: artifactUploadChunkSize_def min_def split: if_splits)

declare client_chunks.simps [simp del]

text \<open>
  \<open>uploadArtifact\<close> over a stream whose sends succeed: the agent's handler runs on the chunks
  and the client compares the digest in the response.
\<close>

definition uploadArtifact ::
  "string \<Rightarrow> upload_io \<Rightarrow> (string \<Rightarrow> string) \<Rightarrow> string \<Rightarrow> string \<Rightarrow> artifactCandidate \<Rightarrow> files \<Rightarrow> files \<times> err option" where
  "uploadArtifact dir io sha proj uploadID cand fs =
     (case UploadArtifact dir io sha (map RecvChunk (client_chunks proj uploadID cand 0)) fs of
        (fs', Inl (RpcErr c m)) \<Rightarrow>
          (fs', Some (AppendError (''Failed to finish artifact upload '' @ ad_Identifier (ac_descriptor cand)) (NewError m)))
      | (fs', Inr d) \<Rightarrow>
          (fs', if ad_Digest d \<noteq> ad_Digest (ac_descriptor cand)
                then Some (NewError (''artifact '' @ ad_Identifier (ac_descriptor cand) @ '' digest mismatch after upload''))
                else None))"

text \<open>
  \<open>stageProjectArtifacts\<close>: prepare, then upload what the agent says is missing, in that
  order, until one fails. \<open>candidatesByID\<close> is the map of the loop, a later candidate
  replacing an earlier one. The upload identifier is made from the clock; it is a parameter.
\<close>

definition candidatesByID :: "artifactCandidate list \<Rightarrow> string \<rightharpoonup> artifactCandidate" where
  "candidatesByID cands = foldl (\<lambda>m c. m(ad_Identifier (ac_descriptor c) \<mapsto> c)) (\<lambda>_. None) cands"

fun upload_missing ::
  "string \<Rightarrow> upload_io \<Rightarrow> (string \<Rightarrow> string) \<Rightarrow> string \<Rightarrow> (string \<Rightarrow> string) \<Rightarrow> (string \<rightharpoonup> artifactCandidate) \<Rightarrow>
   ArtifactDescriptor list \<Rightarrow> files \<Rightarrow> files \<times> err option" where
  "upload_missing dir io sha proj uid byID [] fs = (fs, None)"
| "upload_missing dir io sha proj uid byID (m # ms) fs =
     (case byID (ad_Identifier m) of
        None \<Rightarrow> (fs, Some (NewError (''agent requested unknown artifact '' @ Quote (ad_Identifier m))))
      | Some cand \<Rightarrow>
          (case uploadArtifact dir io sha proj (uid (ad_Identifier (ac_descriptor cand))) cand fs of
             (fs', Some e) \<Rightarrow> (fs', Some e)
           | (fs', None) \<Rightarrow> upload_missing dir io sha proj uid byID ms fs'))"

definition stageProjectArtifacts ::
  "string \<Rightarrow> upload_io \<Rightarrow> (string \<Rightarrow> string) \<Rightarrow> string \<Rightarrow> (string \<Rightarrow> string) \<Rightarrow> artifactCandidate list \<Rightarrow>
   files \<Rightarrow> files \<times> err option" where
  "stageProjectArtifacts dir io sha proj uid cands fs =
     (if length cands = 0 then (fs, None)
      else case PrepareArtifacts dir io sha fs proj (map (\<lambda>c. Some (ac_descriptor c)) cands) of
        Inl (RpcErr c m) \<Rightarrow> (fs, Some (AppendError ''Failed to prepare artifact staging'' (NewError m)))
      | Inr (found, missing) \<Rightarrow> upload_missing dir io sha proj uid (candidatesByID cands) missing fs)"

section \<open>An upload by the client arrives whole\<close>

definition sound_io :: "upload_io \<Rightarrow> bool" where
  "sound_io io \<longleftrightarrow> fresh_temp io \<and> (\<forall>d. io_MkdirAll io d = None) \<and> (\<forall>fs d. finite (dom fs) \<longrightarrow> (\<exists>t. io_CreateTemp io fs d = Inr t)) \<and>
     (\<forall>b c. io_Write io b c = (length c, None)) \<and> io_Close io = None \<and> (\<forall>p. io_Open io p = None) \<and>
     (\<forall>a b. io_Rename io a b = None)"

lemma received_client:
  "offset \<le> length (ac_data cand) \<Longrightarrow>
   received (map RecvChunk (client_chunks proj uid cand offset)) = drop offset (ac_data cand)"
proof (induction proj uid cand offset rule: client_chunks.induct)
  case (1 proj uid cand offset)
  let ?n = "min (offset + artifactUploadChunkSize) (length (ac_data cand))"
  show ?case
  proof (cases "?n = length (ac_data cand)")
    case True
    then show ?thesis by (subst client_chunks.simps) (simp add: Let_def)
  next
    case False
    have "received (map RecvChunk (client_chunks proj uid cand ?n)) = drop ?n (ac_data cand)"
      using 1(1) [OF refl refl refl False] by simp
    moreover have "drop offset (take ?n xs) @ drop ?n xs = drop offset xs" if "offset \<le> ?n" for xs :: string
    proof -
      have "drop offset xs = drop offset (take ?n xs @ drop ?n xs)" by simp
      also have "\<dots> = drop offset (take ?n xs) @ drop (offset - length (take ?n xs)) (drop ?n xs)" by (rule drop_append)
      also have "drop (offset - length (take ?n xs)) (drop ?n xs) = drop ?n xs"
        using that by (cases "?n \<le> length xs") auto
      finally show ?thesis by simp
    qed
    ultimately show ?thesis using 1(2) False by (subst client_chunks.simps) (simp add: Let_def)
  qed
qed

lemma recv_step_ok:
  assumes "later_chunk chunk s = None" "ch_Offset chunk = us_totalWritten s" "fs (us_tempPath s) = Some c"
    "sound_io io"
  shows "recv_loop dir io (RecvChunk chunk # evs) (Some s) fs =
    (let s' = s\<lparr>us_totalWritten := us_totalWritten s + int (length (ch_Content chunk))\<rparr>;
         fs2 = fs(us_tempPath s \<mapsto> c @ ch_Content chunk)
     in if ch_Finish chunk then (Some (us_tempPath s), fs2, Inr (Some s')) else recv_loop dir io evs (Some s') fs2)"
  using assms by (simp add: open_or_check_def Let_def sound_io_def)

text \<open>On a sound disk the loop does not fail on chunks that continue the upload.\<close>

lemma recv_loop_client:
  assumes "sound_io io" "offset \<le> length (ac_data cand)" "0 < offset" "us_totalWritten s = int offset"
    "us_uploadID s = uid" "fs (us_tempPath s) = Some c"
  shows "\<exists>fs' s'. recv_loop dir io (map RecvChunk (client_chunks proj uid cand offset)) (Some s) fs =
    (Some (us_tempPath s), fs', Inr (Some s'))"
  using assms
proof (induction proj uid cand offset arbitrary: s fs c rule: client_chunks.induct)
  case (1 proj uid cand offset)
  let ?n = "min (offset + artifactUploadChunkSize) (length (ac_data cand))"
  let ?body = "drop offset (take ?n (ac_data cand))"
  have len: "offset + length ?body = ?n" using 1(3) by simp
  let ?chunk = "\<lparr>ch_ProjectName = [], ch_UploadId = uid, ch_Descriptor = None, ch_Offset = int offset,
      ch_Content = ?body, ch_Finish = (?n = length (ac_data cand))\<rparr>"
  have chunks: "client_chunks proj uid cand offset =
      (if ?n = length (ac_data cand) then [?chunk] else ?chunk # client_chunks proj uid cand ?n)"
    using 1(4) by (subst client_chunks.simps) (simp add: Let_def)
  note step = recv_step_ok [of ?chunk s fs c io dir, OF _ _ 1(7,2), unfolded Let_def]
  show ?case
  proof (cases "?n = length (ac_data cand)")
    case True
    with chunks step 1(5,6) show ?thesis by (simp add: later_chunk_def)
  next
    case False
    let ?s' = "s\<lparr>us_totalWritten := int ?n\<rparr>" and ?fs = "fs(us_tempPath s \<mapsto> c @ ?body)"
    have "\<exists>fs' s'. recv_loop dir io (map RecvChunk (client_chunks proj uid cand ?n)) (Some ?s') ?fs =
        (Some (us_tempPath ?s'), fs', Inr (Some s'))"
      by (rule 1(1) [OF refl refl refl False 1(2)]) (use 1 in auto)
    moreover have "s\<lparr>us_totalWritten := int offset + int (length ?body)\<rparr> = ?s'"
      using len by (simp only: of_nat_add [symmetric])
    ultimately show ?thesis
      unfolding chunks if_not_P [OF False] list.map
      by (subst step) (use False 1(5,6) in \<open>simp_all add: later_chunk_def del: length_drop length_take\<close>)
  qed
qed

text \<open>A candidate as the client builds it: its identifier is normal, size and digest are its data's.\<close>

definition good_candidate :: "string \<Rightarrow> (string \<Rightarrow> string) \<Rightarrow> string \<Rightarrow> artifactCandidate \<Rightarrow> string \<Rightarrow> bool" where
  "good_candidate dir sha proj cand dest \<longleftrightarrow>
     validateAgentName ''project_name'' proj = None \<and>
     NormalizeIdentifier (ad_Identifier (ac_descriptor cand)) = Inr (ad_Identifier (ac_descriptor cand)) \<and>
     artifactPath dir proj (ad_Identifier (ac_descriptor cand)) = Inr dest \<and>
     ad_Size (ac_descriptor cand) = int (length (ac_data cand)) \<and>
     ad_Digest (ac_descriptor cand) = sha (ac_data cand)"

lemma client_loop_ok:
  assumes io: "sound_io io" and fin: "finite (dom fs)" and good: "good_candidate dir sha proj cand dest"
  shows "\<exists>t fs' s. recv_loop dir io (map RecvChunk (client_chunks proj uid cand 0)) None fs = (Some t, fs', Inr (Some s))
    \<and> us_destPath s = dest"
proof -
  let ?n = "min artifactUploadChunkSize (length (ac_data cand))"
  let ?chunk = "\<lparr>ch_ProjectName = proj, ch_UploadId = uid, ch_Descriptor = Some (ac_descriptor cand), ch_Offset = 0,
      ch_Content = take ?n (ac_data cand), ch_Finish = (?n = length (ac_data cand))\<rparr>"
  let ?bare = "?chunk\<lparr>ch_ProjectName := [], ch_UploadId := [], ch_Descriptor := None\<rparr>"
  obtain t where t: "io_CreateTemp io fs (filepath_Dir dest) = Inr t" using io fin unfolding sound_io_def by blast
  have "proj \<noteq> []" "ad_Identifier (ac_descriptor cand) \<noteq> []"
    using good by (auto simp: good_candidate_def validateAgentName_def NormalizeIdentifier_def normalizeIdentifier_def)
  then obtain s where first: "first_chunk dir io ?chunk fs = Inr (s, fs(t \<mapsto> []))"
    and s: "us_totalWritten s = 0" "us_uploadID s = uid" "us_tempPath s = t" "us_destPath s = dest"
    using good io t by (simp add: first_chunk_def good_candidate_def validateRPCName_def sound_io_def)
  have chunks: "client_chunks proj uid cand 0 =
      (if ?n = length (ac_data cand) then [?chunk] else ?chunk # client_chunks proj uid cand ?n)"
    by (subst client_chunks.simps) (simp add: Let_def)
  have bare: "later_chunk ?bare s = None" "ch_Offset ?bare = us_totalWritten s" by (simp_all add: later_chunk_def s)
  note step = recv_step_ok [OF bare _ io, of "fs(t \<mapsto> [])" "[]", unfolded s(3), OF fun_upd_same, unfolded Let_def]
  show ?thesis
  proof (cases "?n = length (ac_data cand)")
    case True
    then show ?thesis unfolding chunks if_P [OF True] list.map recv_loop_first [OF first] step by (simp add: s)
  next
    case False
    let ?s' = "s\<lparr>us_totalWritten := int ?n\<rparr>"
    have n: "0 < ?n" "length (take ?n (ac_data cand)) = ?n"
      using False by (auto simp: artifactUploadChunkSize_def min_def split: if_splits)
    let ?fs2 = "fs(t \<mapsto> take ?n (ac_data cand))"
    have state: "s\<lparr>us_totalWritten := us_totalWritten s + int (length (ch_Content ?bare))\<rparr> = ?s'"
      using n(2) by (simp add: s)
    have files: "fs(t \<mapsto> [], t \<mapsto> [] @ ch_Content ?bare) = ?fs2" by simp
    have pre: "us_totalWritten ?s' = int ?n" "us_uploadID ?s' = uid" "?fs2 (us_tempPath ?s') = Some (take ?n (ac_data cand))"
      by (simp_all add: s)
    obtain fs' s' where loop: "recv_loop dir io (map RecvChunk (client_chunks proj uid cand ?n)) (Some ?s') ?fs2
        = (Some (us_tempPath ?s'), fs', Inr (Some s'))"
      using recv_loop_client [of io ?n cand ?s' uid ?fs2 "take ?n (ac_data cand)" dir proj] io n(1) pre by auto
    from recv_loop_open [OF loop pre(3)] n(2) obtain x where "s' = ?s'\<lparr>us_totalWritten := x\<rparr>" by auto
    then have "us_destPath s' = dest" by (simp add: s)
    moreover have "\<not> ch_Finish ?bare" using False by simp
    ultimately show ?thesis
      unfolding chunks if_not_P [OF False] list.map recv_loop_first [OF first] step state files
      using loop by auto
  qed
qed

lemma client_upload_ok:
  assumes io: "sound_io io" and fin: "finite (dom fs)" and good: "good_candidate dir sha proj cand dest"
  shows "uploadArtifact dir io sha proj uid cand fs = (fs(dest \<mapsto> ac_data cand), None)"
proof -
  let ?evs = "map RecvChunk (client_chunks proj uid cand 0)"
  obtain t fs1 s where loop: "recv_loop dir io ?evs None fs = (Some t, fs1, Inr (Some s))" "us_destPath s = dest"
    using client_loop_ok [OF io fin good] by blast
  have data: "received ?evs = ac_data cand" using received_client [of 0 cand] by simp
  have "\<exists>chunk rest. client_chunks proj uid cand 0 = chunk # rest \<and> ch_Descriptor chunk = Some (ac_descriptor cand)"
    by (subst client_chunks.simps) (simp add: Let_def)
  then obtain chunk rest where evs: "?evs = RecvChunk chunk # rest" "ch_Descriptor chunk = Some (ac_descriptor cand)"
    by auto
  have "fresh_temp io" using io by (simp add: sound_io_def)
  from recv_loop_start [OF this loop(1), THEN conjunct2, THEN spec, THEN mp, OF refl]
  have s: "fs1 = fs(us_tempPath s \<mapsto> ac_data cand)" "fs (us_tempPath s) = None"
    "us_totalWritten s = int (length (ac_data cand))" "us_desc s = ac_descriptor cand"
    unfolding data using evs by auto
  have "commit_upload io sha s fs1 = (None, fs(dest \<mapsto> ac_data cand),
      Inr \<lparr>ad_Identifier = us_identifier s, ad_Type = ad_Type (ac_descriptor cand),
           ad_Size = us_totalWritten s, ad_Digest = sha (ac_data cand)\<rparr>)"
    using io good s(2) by (auto simp: commit_upload_def Let_def sound_io_def good_candidate_def fileSHA256_def s loop(2))
  with loop good show ?thesis
    by (simp add: uploadArtifact_def UploadArtifact_def remove_temp_def good_candidate_def)
qed

section \<open>Staging completes and stays complete\<close>

definition staged ::
  "string \<Rightarrow> upload_io \<Rightarrow> (string \<Rightarrow> string) \<Rightarrow> string \<Rightarrow> files \<Rightarrow> ArtifactDescriptor \<Rightarrow> bool" where
  "staged dir io sha proj fs d \<longleftrightarrow>
     (case artifactPath dir proj (ad_Identifier d) of
        Inl _ \<Rightarrow> False | Inr p \<Rightarrow> fileMatchesDescriptor io sha fs p d)"

definition good_plan :: "string \<Rightarrow> (string \<Rightarrow> string) \<Rightarrow> string \<Rightarrow> artifactCandidate list \<Rightarrow> bool" where
  "good_plan dir sha proj cands \<longleftrightarrow> distinct (map (\<lambda>c. ad_Identifier (ac_descriptor c)) cands) \<and>
     (\<forall>c \<in> set cands. \<exists>dest. good_candidate dir sha proj c dest)"

lemma artifactPath_inj:
  assumes "artifactPath dir proj i = Inr d" "artifactPath dir proj j = Inr d"
    "NormalizeIdentifier i = Inr i" "NormalizeIdentifier j = Inr j"
  shows "i = j"
proof -
  from assms(1,2) obtain a b where ab: "resolveProjectArtifact dir proj i = Inr a" "resolveProjectArtifact dir proj j = Inr b"
    "sa_path a = d" "sa_path b = d" by (auto simp: artifactPath_def bind_ok_def split: sum.splits)
  then have "sa_identifier a = i" "sa_identifier b = j"
    using resolve_Ok [OF ab(1)] resolve_Ok [OF ab(2)] assms(3,4) by auto
  moreover have "split_on (CHR ''/'') (sa_identifier a) = split_on (CHR ''/'') (sa_identifier b)"
    using resolve_path_segs [OF ab(1)] resolve_path_segs [OF ab(2)] ab(3,4) by simp
  ultimately show ?thesis by (metis split_on_Join)
qed

lemma prepare_good:
  assumes "\<forall>d \<in> set ds. NormalizeIdentifier (ad_Identifier d) = Inr (ad_Identifier d) \<and>
     (\<exists>p. artifactPath dir proj (ad_Identifier d) = Inr p)"
  shows "prepare_from dir io sha fs proj (map Some ds) found missing =
    Inr (found @ filter (staged dir io sha proj fs) ds, missing @ filter (\<lambda>d. \<not> staged dir io sha proj fs d) ds)"
  using assms
proof (induction ds arbitrary: found missing)
  case (Cons d ds)
  then obtain p where "NormalizeIdentifier (ad_Identifier d) = Inr (ad_Identifier d)"
    "artifactPath dir proj (ad_Identifier d) = Inr p" by auto
  moreover have "d\<lparr>ad_Identifier := ad_Identifier d\<rparr> = d" by simp
  ultimately show ?case using Cons by (simp add: staged_def Let_def)
qed simp

lemma candidatesByID_distinct:
  "distinct (map (\<lambda>c. ad_Identifier (ac_descriptor c)) cands) \<Longrightarrow> c \<in> set cands \<Longrightarrow>
   candidatesByID cands (ad_Identifier (ac_descriptor c)) = Some c"
proof (induction cands rule: rev_induct)
  case (snoc x xs)
  then show ?case by (auto simp: candidatesByID_def rev_image_eqI)
qed simp

lemma fileMatches_local:
  assumes "fs p = fs' p"
  shows "fileMatchesDescriptor io sha fs p d = fileMatchesDescriptor io sha fs' p d"
proof -
  have eq: "fileSHA256 io sha fs p = fileSHA256 io sha fs' p" unfolding fileSHA256_def assms by (rule refl)
  show ?thesis unfolding fileMatchesDescriptor_def assms eq by (rule refl)
qed

lemma staged_after_upload:
  assumes io: "sound_io io" and c: "good_candidate dir sha proj c dest" and c': "good_candidate dir sha proj c' dest'"
  shows "staged dir io sha proj (fs(dest \<mapsto> ac_data c)) (ac_descriptor c)"
    "ad_Identifier (ac_descriptor c') \<noteq> ad_Identifier (ac_descriptor c) \<Longrightarrow>
     staged dir io sha proj (fs(dest \<mapsto> ac_data c)) (ac_descriptor c') = staged dir io sha proj fs (ac_descriptor c')"
proof -
  show "staged dir io sha proj (fs(dest \<mapsto> ac_data c)) (ac_descriptor c)"
    using io c by (simp add: staged_def good_candidate_def fileMatchesDescriptor_def fileSHA256_def sound_io_def)
  assume "ad_Identifier (ac_descriptor c') \<noteq> ad_Identifier (ac_descriptor c)"
  then have "dest' \<noteq> dest" using c c' artifactPath_inj by (auto simp: good_candidate_def)
  then show "staged dir io sha proj (fs(dest \<mapsto> ac_data c)) (ac_descriptor c') = staged dir io sha proj fs (ac_descriptor c')"
    using c' by (simp add: staged_def good_candidate_def fileMatches_local [of "fs(dest \<mapsto> ac_data c)" dest' fs])
qed

lemma upload_missing_ok:
  assumes io: "sound_io io" and plan: "good_plan dir sha proj cands"
  shows "set ms \<subseteq> ac_descriptor ` set cands \<Longrightarrow> finite (dom fs) \<Longrightarrow>
    \<exists>fs'. finite (dom fs') \<and> upload_missing dir io sha proj uid (candidatesByID cands) ms fs = (fs', None) \<and>
      (\<forall>c \<in> set cands. ac_descriptor c \<in> set ms \<or> staged dir io sha proj fs (ac_descriptor c) \<longrightarrow>
         staged dir io sha proj fs' (ac_descriptor c)) \<and>
      (\<forall>p. (\<forall>c \<in> set cands. artifactPath dir proj (ad_Identifier (ac_descriptor c)) \<noteq> Inr p) \<longrightarrow> fs' p = fs p)"
proof (induction ms arbitrary: fs)
  case (Cons m ms)
  then obtain c where c: "c \<in> set cands" "m = ac_descriptor c" by auto
  with plan obtain dest where good: "good_candidate dir sha proj c dest" by (auto simp: good_plan_def)
  have byID: "candidatesByID cands (ad_Identifier m) = Some c"
    using plan c candidatesByID_distinct by (auto simp: good_plan_def)
  let ?fs = "fs(dest \<mapsto> ac_data c)"
  have step: "upload_missing dir io sha proj uid (candidatesByID cands) (m # ms) fs =
      upload_missing dir io sha proj uid (candidatesByID cands) ms ?fs"
    using client_upload_ok [OF io Cons.prems(2) good] byID by simp
  have keep: "staged dir io sha proj ?fs (ac_descriptor x)"
    if x: "x \<in> set cands" "ac_descriptor x = m \<or> staged dir io sha proj fs (ac_descriptor x)" for x
  proof (cases "ad_Identifier (ac_descriptor x) = ad_Identifier m")
    case True
    then have "x = c" using candidatesByID_distinct [of cands x] plan x(1) byID by (simp add: good_plan_def)
    then show ?thesis using staged_after_upload(1) [OF io good good] by simp
  next
    case False
    obtain dest' where g: "good_candidate dir sha proj x dest'" using plan x(1) by (auto simp: good_plan_def)
    have "staged dir io sha proj fs (ac_descriptor x)" using x(2) False by blast
    then show ?thesis using staged_after_upload(2) [OF io good g, of fs] False unfolding c(2) by blast
  qed
  have "set ms \<subseteq> ac_descriptor ` set cands" "finite (dom ?fs)" using Cons.prems by simp_all
  from Cons.IH [OF this] obtain fs' where fin': "finite (dom fs')" and fs': "upload_missing dir io sha proj uid (candidatesByID cands) ms ?fs = (fs', None)"
    "\<forall>c \<in> set cands. ac_descriptor c \<in> set ms \<or> staged dir io sha proj ?fs (ac_descriptor c) \<longrightarrow>
         staged dir io sha proj fs' (ac_descriptor c)"
    "\<forall>p. (\<forall>c \<in> set cands. artifactPath dir proj (ad_Identifier (ac_descriptor c)) \<noteq> Inr p) \<longrightarrow> fs' p = ?fs p"
    by blast
  have dest: "artifactPath dir proj (ad_Identifier (ac_descriptor c)) = Inr dest" using good by (simp add: good_candidate_def)
  have "staged dir io sha proj fs' (ac_descriptor x)"
    if "x \<in> set cands" "ac_descriptor x \<in> set (m # ms) \<or> staged dir io sha proj fs (ac_descriptor x)" for x
  proof -
    from that(2) have "ac_descriptor x \<in> set ms \<or> (ac_descriptor x = m \<or> staged dir io sha proj fs (ac_descriptor x))" by auto
    then have "ac_descriptor x \<in> set ms \<or> staged dir io sha proj ?fs (ac_descriptor x)"
      using keep [OF that(1)] by blast
    with fs'(2) that(1) show ?thesis by blast
  qed
  moreover have "fs' p = fs p"
    if p: "\<forall>c \<in> set cands. artifactPath dir proj (ad_Identifier (ac_descriptor c)) \<noteq> Inr p" for p
  proof -
    have "p \<noteq> dest" using p c(1) dest by blast
    with fs'(3) p show ?thesis by simp
  qed
  ultimately show ?case unfolding step using fin' fs'(1) by blast
qed simp

text \<open>What the agent answers about a plan, and the files left by staging it.\<close>

lemma prepare_plan:
  assumes "good_plan dir sha proj cands" "cands \<noteq> []"
  shows "PrepareArtifacts dir io sha fs proj (map (\<lambda>c. Some (ac_descriptor c)) cands) =
    Inr (filter (staged dir io sha proj fs) (map ac_descriptor cands),
         filter (\<lambda>d. \<not> staged dir io sha proj fs d) (map ac_descriptor cands))"
proof -
  have "\<forall>d \<in> set (map ac_descriptor cands). NormalizeIdentifier (ad_Identifier d) = Inr (ad_Identifier d) \<and>
     (\<exists>p. artifactPath dir proj (ad_Identifier d) = Inr p)" "validateAgentName ''project_name'' proj = None"
    using assms by (auto simp: good_plan_def good_candidate_def) (meson list.set_sel(1))
  then show ?thesis
    using prepare_good [of "map ac_descriptor cands" dir proj io sha fs "[]" "[]"]
    by (simp add: PrepareArtifacts_def validateRPCName_def comp_def)
qed

lemma staging_uploads:
  assumes "sound_io io" "good_plan dir sha proj cands" "finite (dom fs)"
  shows "\<exists>ms fs'. stageProjectArtifacts dir io sha proj uid cands fs = (fs', None) \<and> set ms \<subseteq> ac_descriptor ` set cands \<and>
    upload_missing dir io sha proj uid (candidatesByID cands) ms fs = (fs', None) \<and>
    (\<forall>c \<in> set cands. staged dir io sha proj fs' (ac_descriptor c)) \<and>
    (\<forall>p. (\<forall>c \<in> set cands. artifactPath dir proj (ad_Identifier (ac_descriptor c)) \<noteq> Inr p) \<longrightarrow> fs' p = fs p)"
proof (cases "cands = []")
  case True
  then show ?thesis by (intro exI [of _ "[]"] exI [of _ fs]) (simp add: stageProjectArtifacts_def)
next
  case False
  let ?ms = "filter (\<lambda>d. \<not> staged dir io sha proj fs d) (map ac_descriptor cands)"
  have ms: "set ?ms \<subseteq> ac_descriptor ` set cands" by auto
  obtain fs' where fs': "upload_missing dir io sha proj uid (candidatesByID cands) ?ms fs = (fs', None)"
    "\<forall>c \<in> set cands. ac_descriptor c \<in> set ?ms \<or> staged dir io sha proj fs (ac_descriptor c) \<longrightarrow>
       staged dir io sha proj fs' (ac_descriptor c)"
    "\<forall>p. (\<forall>c \<in> set cands. artifactPath dir proj (ad_Identifier (ac_descriptor c)) \<noteq> Inr p) \<longrightarrow> fs' p = fs p"
    using upload_missing_ok [OF assms(1,2) ms assms(3), of uid] by blast
  have "stageProjectArtifacts dir io sha proj uid cands fs = (fs', None)"
    using False fs'(1) prepare_plan [OF assms(2) False] by (simp add: stageProjectArtifacts_def)
  moreover have "\<forall>c \<in> set cands. staged dir io sha proj fs' (ac_descriptor c)" using fs'(2) by auto
  ultimately show ?thesis using ms fs'(1,3) by blast
qed

text \<open>Nothing is uploaded that the client did not send: every file is an earlier one or one of the plan.\<close>

lemma upload_missing_content:
  assumes io: "sound_io io" and plan: "good_plan dir sha proj cands"
  shows "set ms \<subseteq> ac_descriptor ` set cands \<Longrightarrow> finite (dom fs) \<Longrightarrow>
    upload_missing dir io sha proj uid (candidatesByID cands) ms fs = (fs', None) \<Longrightarrow> fs' p = Some x \<Longrightarrow>
    fs p = Some x \<or> (\<exists>c \<in> set cands. good_candidate dir sha proj c p \<and> x = ac_data c)"
proof (induction ms arbitrary: fs)
  case (Cons m ms)
  then obtain c where c: "c \<in> set cands" "m = ac_descriptor c" by auto
  with plan obtain dest where good: "good_candidate dir sha proj c dest" by (auto simp: good_plan_def)
  have byID: "candidatesByID cands (ad_Identifier m) = Some c"
    using plan c candidatesByID_distinct by (auto simp: good_plan_def)
  have rest: "upload_missing dir io sha proj uid (candidatesByID cands) ms (fs(dest \<mapsto> ac_data c)) = (fs', None)"
    using Cons.prems(3) client_upload_ok [OF io Cons.prems(2) good] byID by simp
  have ms: "set ms \<subseteq> ac_descriptor ` set cands" "finite (dom (fs(dest \<mapsto> ac_data c)))" using Cons.prems by simp_all
  from Cons.IH [OF ms rest Cons.prems(4)]
  have "(fs(dest \<mapsto> ac_data c)) p = Some x \<or> (\<exists>c \<in> set cands. good_candidate dir sha proj c p \<and> x = ac_data c)" .
  then show ?case using c(1) good by (auto split: if_splits)
qed simp

lemma staging_content:
  assumes io: "sound_io io" and plan: "good_plan dir sha proj cands" and fin: "finite (dom fs)"
    and sha: "\<forall>c \<in> set cands. sha (ac_data c) \<noteq> [] \<and> (\<forall>p x. fs p = Some x \<and> sha x = sha (ac_data c) \<longrightarrow> x = ac_data c)"
  shows "\<exists>fs'. stageProjectArtifacts dir io sha proj uid cands fs = (fs', None) \<and>
    (\<forall>c \<in> set cands. \<exists>p. artifactPath dir proj (ad_Identifier (ac_descriptor c)) = Inr p \<and> fs' p = Some (ac_data c))"
proof -
  obtain ms fs' where s: "stageProjectArtifacts dir io sha proj uid cands fs = (fs', None)" "set ms \<subseteq> ac_descriptor ` set cands"
    "upload_missing dir io sha proj uid (candidatesByID cands) ms fs = (fs', None)"
    "\<forall>c \<in> set cands. staged dir io sha proj fs' (ac_descriptor c)"
    using staging_uploads [OF io plan fin, of uid] by blast
  have "\<exists>p. artifactPath dir proj (ad_Identifier (ac_descriptor c)) = Inr p \<and> fs' p = Some (ac_data c)" if c: "c \<in> set cands" for c
  proof -
    obtain p where good: "good_candidate dir sha proj c p" using plan c by (auto simp: good_plan_def)
    then have p: "artifactPath dir proj (ad_Identifier (ac_descriptor c)) = Inr p"
      and digest: "ad_Digest (ac_descriptor c) = sha (ac_data c)" by (simp_all add: good_candidate_def)
    have "staged dir io sha proj fs' (ac_descriptor c)" using s(4) c by blast
    then obtain x where x: "fs' p = Some x" "sha x = sha (ac_data c)"
      using io sha c p digest
      by (auto simp: staged_def fileMatchesDescriptor_def fileSHA256_def sound_io_def split: option.splits if_splits)
    have "x = ac_data c"
    proof (cases "fs p = Some x")
      case True
      then show ?thesis using sha c x(2) by blast
    next
      case False
      then obtain d where d: "d \<in> set cands" "good_candidate dir sha proj d p" "x = ac_data d"
        using upload_missing_content [OF io plan s(2) fin s(3) x(1)] by blast
      then have "ad_Identifier (ac_descriptor d) = ad_Identifier (ac_descriptor c)"
        using good artifactPath_inj [of dir proj _ p] by (auto simp: good_candidate_def)
      moreover have "distinct (map (\<lambda>c. ad_Identifier (ac_descriptor c)) cands)" using plan by (simp add: good_plan_def)
      ultimately have "d = c" using d(1) c candidatesByID_distinct by (metis option.inject)
      then show ?thesis using d(3) by simp
    qed
    with p x show ?thesis by blast
  qed
  with s(1) show ?thesis by blast
qed

text \<open>
  C2. Client and agent together: staging a plan whose artifacts are described rightly, on a
  disk that does not fail, succeeds from any earlier state of the staging area; afterwards
  the agent reports nothing of the plan as missing, so staging again uploads nothing, and
  no file of another artifact or project was touched.
\<close>

theorem staging_reaches_complete_state:
  assumes "sound_io io" "good_plan dir sha proj cands" "finite (dom fs)"
  shows "\<exists>fs'. stageProjectArtifacts dir io sha proj uid cands fs = (fs', None)
    \<and> (cands \<noteq> [] \<longrightarrow> (\<exists>found. PrepareArtifacts dir io sha fs' proj (map (\<lambda>c. Some (ac_descriptor c)) cands)
          = Inr (found, []) \<and> length found = length cands))
    \<and> stageProjectArtifacts dir io sha proj uid cands fs' = (fs', None)
    \<and> (\<forall>p. (\<forall>c \<in> set cands. artifactPath dir proj (ad_Identifier (ac_descriptor c)) \<noteq> Inr p) \<longrightarrow> fs' p = fs p)"
proof -
  obtain fs' where fs': "stageProjectArtifacts dir io sha proj uid cands fs = (fs', None)"
    "\<forall>c \<in> set cands. staged dir io sha proj fs' (ac_descriptor c)"
    "\<forall>p. (\<forall>c \<in> set cands. artifactPath dir proj (ad_Identifier (ac_descriptor c)) \<noteq> Inr p) \<longrightarrow> fs' p = fs p"
    using staging_uploads [OF assms, of uid] by blast
  then have "filter (staged dir io sha proj fs') (map ac_descriptor cands) = map ac_descriptor cands"
    "filter (\<lambda>d. \<not> staged dir io sha proj fs' d) (map ac_descriptor cands) = []"
    by (simp_all add: filter_id_conv filter_empty_conv)
  then have prep: "cands \<noteq> [] \<Longrightarrow> PrepareArtifacts dir io sha fs' proj (map (\<lambda>c. Some (ac_descriptor c)) cands)
     = Inr (map ac_descriptor cands, [])" using prepare_plan [OF assms(2), of io fs'] by simp
  then have "stageProjectArtifacts dir io sha proj uid cands fs' = (fs', None)"
    by (cases "cands = []") (simp_all add: stageProjectArtifacts_def)
  with fs' prep show ?thesis by auto
qed

text \<open>A disk for the witness: a temporary name longer than every name in use.\<close>

definition temp_io :: upload_io where
  "temp_io = \<lparr>io_MkdirAll = (\<lambda>_. None),
     io_CreateTemp = (\<lambda>fs dir. if finite (dom fs) then Ok (replicate (Suc (Max (insert 0 (length ` dom fs)))) CHR ''t'') else Fail ''full''),
     io_Write = (\<lambda>_ c. (length c, None)), io_Close = None, io_Open = (\<lambda>_. None), io_Rename = (\<lambda>_ _. None)\<rparr>"

lemma temp_io_sound: "sound_io temp_io"
proof -
  have "fs (replicate (Suc (Max (insert 0 (length ` dom fs)))) CHR ''t'') = None" if "finite (dom fs)" for fs :: files
  proof (rule ccontr)
    let ?t = "replicate (Suc (Max (insert 0 (length ` dom fs)))) CHR ''t''"
    assume "fs ?t \<noteq> None"
    then have "length ?t \<in> insert 0 (length ` dom fs)" by blast
    with that have "length ?t \<le> Max (insert 0 (length ` dom fs))" by (intro Max_ge) auto
    then show False by simp
  qed
  then show ?thesis by (auto simp: sound_io_def temp_io_def fresh_temp_def split: if_splits)
qed

definition sample_candidate :: artifactCandidate where
  "sample_candidate = \<lparr>ac_descriptor = \<lparr>ad_Identifier = ''resource/d/D'', ad_Type = [], ad_Size = 2, ad_Digest = ''yx''\<rparr>,
     ac_data = ''xy''\<rparr>"

theorem staging_reaches_complete_state_witness:
  "\<exists>fs'. stageProjectArtifacts ''/s'' temp_io rev ''p'' (\<lambda>_. ''u'') [sample_candidate] (\<lambda>_. None) = (fs', None)
     \<and> stageProjectArtifacts ''/s'' temp_io rev ''p'' (\<lambda>_. ''u'') [sample_candidate] fs' = (fs', None)"
proof -
  have "validateAgentName ''project_name'' ''p'' = None"
    "NormalizeIdentifier ''resource/d/D'' = Inr ''resource/d/D''"
    "artifactPath ''/s'' ''p'' ''resource/d/D'' = Inr ''/s/p/resource/d/D''" by code_simp+
  then have "good_plan ''/s'' rev ''p'' [sample_candidate]"
    by (simp add: good_plan_def good_candidate_def sample_candidate_def)
  from staging_reaches_complete_state [OF temp_io_sound this, of "\<lambda>_. None" "\<lambda>_. ''u''"] show ?thesis by auto
qed

end
