(* ===== verification/AgentProps.thy ===== *)
theory AgentProps
  imports AgentContainers EngineOpsProps Upload
begin

text \<open>
  Properties of the container service: the container message and its 32-bit ports, the
  requests that change a container as the one command each runs, the protocol of the
  deployment stream between agent and client (over the locale \<open>deployer\<close>, interpreted on
  the engine's deployment), and the files an upload staged as the engine reads them.
\<close>

section \<open>The container message\<close>

definition wrap32 :: "int \<Rightarrow> int" where "wrap32 v = (v + 2 ^ 31) mod 2 ^ 32 - 2 ^ 31"

lemma sint_word_wrap32: "sint (word_of_int v :: 32 word) = wrap32 v"
  by (simp add: int_word_sint wrap32_def)

lemma wrap32_id: "- (2 ^ 31) \<le> v \<Longrightarrow> v < 2 ^ 31 \<Longrightarrow> wrap32 v = v"
  by (simp add: wrap32_def)

text \<open>
  A container sent by the agent and read by the client keeps its id, name, ports and
  status. Each port is cut to 32 bits with sign, so a real port number is unchanged; a
  status outside the declared ones reads as unknown. The expected status becomes the actual
  one and the remote user the client's.
\<close>

theorem proto_container_round_trip:
  "let c' = protoContainerToBO (boContainerToProto c hostname) remoteUser in
     ct_Id c' = ct_Id c \<and> ct_Name c' = ct_Name c \<and> ct_RemoteUser c' = remoteUser \<and>
     ct_Status c' = (if containerStatuses (ct_Status c) = None then KContainerStatusUnknown else ct_Status c) \<and>
     ct_ExpectedStatus c' = ct_Status c' \<and>
     (\<forall>k. ct_Pmapping c' k = map_option wrap32 (ct_Pmapping c k)) \<and>
     (\<forall>k p. ct_Pmapping c k = Some p \<and> 0 \<le> p \<and> p < 65536 \<longrightarrow> ct_Pmapping c' k = Some p)"
proof -
  have s: "SContainerStatus (FContainerStatus st) = (if containerStatuses st = None then KContainerStatusUnknown else st)" for st
    by (cases st) (simp_all add: FContainerStatus_def SContainerStatus_def)
  have w: "0 \<le> p \<Longrightarrow> p < 65536 \<Longrightarrow> wrap32 p = p" for p by (rule wrap32_id) simp_all
  show ?thesis
    by (simp add: Let_def protoContainerToBO_def boContainerToProto_def s option.map_comp comp_def sint_word_wrap32 w)
qed

theorem proto_container_round_trip_witness:
  "ct_Pmapping (protoContainerToBO (boContainerToProto (zero_Container\<lparr>ct_Pmapping := [''22/tcp'' \<mapsto> 40022]\<rparr>) ''h'') ''u'') ''22/tcp''
    = Some 40022"
  using proto_container_round_trip [of "zero_Container\<lparr>ct_Pmapping := [''22/tcp'' \<mapsto> 40022]\<rparr>" "''h''" "''u''"]
  by (simp add: Let_def wrap32_def)

section \<open>Requests that change a container\<close>

text \<open>The four requests, the names they carry, and the command each stands for.\<close>

datatype lifecycle = StartReq string | StopReq string | DeleteReq string | RenameReq string string

fun lifecycle_names :: "lifecycle \<Rightarrow> string list" where
  "lifecycle_names (StartReq n) = [n]"
| "lifecycle_names (StopReq n) = [n]"
| "lifecycle_names (DeleteReq n) = [n]"
| "lifecycle_names (RenameReq n m) = [n, m]"

fun lifecycle_words :: "lifecycle \<Rightarrow> string list" where
  "lifecycle_words (StartReq n) = [''podman'', ''start'', n]"
| "lifecycle_words (StopReq n) = [''podman'', ''stop'', n]"
| "lifecycle_words (DeleteReq n) = [''podman'', ''rm'', ''-f'', n]"
| "lifecycle_words (RenameReq n m) = [''podman'', ''rename'', n, m]"

fun lifecycle_handler :: "'w ContainerOps \<Rightarrow> lifecycle \<Rightarrow> (string, 'w) rpc" where
  "lifecycle_handler ops (StartReq n) = rpc_StartContainer ops n"
| "lifecycle_handler ops (StopReq n) = rpc_StopContainer ops n"
| "lifecycle_handler ops (DeleteReq n) = rpc_DeleteContainer ops (\<lambda>_ w. (None, w)) [] n []"
| "lifecycle_handler ops (RenameReq n m) = rpc_RenameContainer ops n m"

definition valid_name :: "string \<Rightarrow> bool" where
  "valid_name n = (validateAgentName ''container_name'' n = None)"

lemma validate_any_field:
  "validateAgentName fld n = None \<longleftrightarrow> valid_name n"
  by (simp add: valid_name_def validateAgentName_def)

lemma validateRPC_valid:
  "valid_name n \<Longrightarrow> validateRPCName fld n = None"
  "\<not> valid_name n \<Longrightarrow> \<exists>m. validateRPCName fld n = Some (RpcErr InvalidArgument m)"
  using validate_any_field [of fld n] by (auto simp: validateRPCName_def)

lemma valid_name_plain: "valid_name n \<Longrightarrow> plain_word n"
proof -
  have special: "\<forall>c \<in> set [DQ, NL, CHR ''|'', CHR ''&'', CHR '';'', CHR ''<'', CHR ''>'', CHR ''('', CHR '')'', CHR ''$'',
      CHR 0x60, CHR ''*'', CHR ''?'', CHR ''['', CHR ''#'', CHR ''~'', CHR ''='', CHR ''%'', CHR ''{'', CHR ''}'', CHR ''!''].
      \<not> is_alnum c \<and> c \<notin> set ''_.-''" by code_simp
  have quotes: "\<forall>c \<in> set [SQ, BSL, CHR '' '', TAB]. \<not> is_alnum c \<and> c \<notin> set ''_.-''" by code_simp
  have ok: "\<not> sh_special c \<and> c \<notin> set [SQ, BSL, CHR '' '', TAB]" if "is_alnum c \<or> c \<in> set ''_.-''" for c
    using that special quotes unfolding sh_special_def by meson
  assume "valid_name n"
  then obtain c cs where n: "n = c # cs" "\<forall>x \<in> set (c # cs). is_alnum x \<or> x \<in> set ''_.-''"
    unfolding valid_name_def validateAgentName_def agentNamePattern_def
    by (cases n) (simp_all only: list.case set_simps ball_simps split: if_splits, blast+)
  then show ?thesis unfolding plain_word_def using ok by (simp only: list.set) blast
qed

lemma sh_words_plain:
  "\<forall>w \<in> set ws. plain_word w \<Longrightarrow> ws \<noteq> [] \<Longrightarrow> sh_words (VariadicJoin '' '' ws) = Some ws"
proof (induction ws)
  case (Cons w ws)
  show ?case
  proof (cases "ws = []")
    case True
    then show ?thesis using Cons.prems sh_scan_plain_start [of w "[]"] by (simp add: sh_words_def VariadicJoin_def)
  next
    case False
    then have j: "VariadicJoin '' '' (w # ws) = w @ CHR '' '' # VariadicJoin '' '' ws"
      by (cases ws) (simp_all add: VariadicJoin_def)
    show ?thesis using Cons False unfolding j sh_words_def by (simp add: sh_word_step)
  qed
qed simp

text \<open>The one command of the generic actions, and running it for its effect.\<close>

lemma run_or_generic:
  assumes "actionMap a = Some ev0" "a \<in> {K_ACTION_START, K_ACTION_STOP, K_ACTION_REMOVE, K_ACTION_RENAME}"
    and "ce_action ce = a" "ce_cmds ce = []" "ce_name ce = K_PODMAN"
    and "env_bash env (VariadicJoin '' '' [''podman'', engineAction a, VariadicJoin '' '' (ce_args ce)]) w = ((out, er, e), w1)"
  shows "snd (run_or env m ce w) = w1 \<and> (fst (run_or env m ce w) = None \<longleftrightarrow> e = None)"
proof -
  obtain ev where ev: "BuildSimple (env_parseRepo env) ce = Inr [Some ev]"
    "re_cmd ev = VariadicJoin '' '' [''podman'', engineAction a, VariadicJoin '' '' (ce_args ce)]"
    using assms(1-5)
    by (cases a) (auto simp: BuildSimple_def build_action_def built_def genericContainerAction_def append_cmd_def)
  show ?thesis using assms(6) by (cases e) (simp_all add: run_or_def run_engine_one [OF ev(1)] ev(2))
qed

fun lifecycle_engine :: "lifecycle \<Rightarrow> ContainersEngine" where
  "lifecycle_engine (StartReq n) = AddArg [n] (SetAction K_ACTION_START empty_engine)"
| "lifecycle_engine (StopReq n) = AddArg [n] (SetAction K_ACTION_STOP empty_engine)"
| "lifecycle_engine (DeleteReq n) = AddArg [n] (AddArg [''-f''] (SetAction K_ACTION_REMOVE empty_engine))"
| "lifecycle_engine (RenameReq n m) = AddArg [n, m] (SetAction K_ACTION_RENAME empty_engine)"

definition lifecycle_command :: "lifecycle \<Rightarrow> string" where
  "lifecycle_command r = VariadicJoin '' '' (lifecycle_words r)"

lemma lifecycle_engine_run:
  assumes "env_bash env (lifecycle_command r) w = ((out, er, e), w1)"
  shows "snd (run_or env m (lifecycle_engine r) w) = w1 \<and> (fst (run_or env m (lifecycle_engine r) w) = None \<longleftrightarrow> e = None)"
proof -
  let ?ce = "lifecycle_engine r"
  have "VariadicJoin '' '' [''podman'', engineAction (ce_action ?ce), VariadicJoin '' '' (ce_args ?ce)] = lifecycle_command r"
    by (cases r) (simp_all add: lifecycle_command_def VariadicJoin_def AddArg_def SetAction_def empty_engine_def)
  moreover have "\<exists>ev0. actionMap (ce_action ?ce) = Some ev0"
    "ce_action ?ce \<in> {K_ACTION_START, K_ACTION_STOP, K_ACTION_REMOVE, K_ACTION_RENAME}"
    "ce_cmds ?ce = []" "ce_name ?ce = K_PODMAN"
    by (cases r; simp add: AddArg_def SetAction_def empty_engine_def)+
  ultimately show ?thesis using run_or_generic [of "ce_action ?ce" _ ?ce] assms by metis
qed

lemma lifecycle_words_read:
  "\<forall>n \<in> set (lifecycle_names r). valid_name n \<Longrightarrow> sh_words (lifecycle_command r) = Some (lifecycle_words r)"
proof -
  assume a: "\<forall>n \<in> set (lifecycle_names r). valid_name n"
  have k: "plain_word ''podman''" "plain_word ''start''" "plain_word ''stop''" "plain_word ''rm''" "plain_word ''-f''" "plain_word ''rename''"
    by (simp_all add: plain_word_def sh_special_def)
  have "\<forall>v \<in> set (lifecycle_words r). plain_word v" using a k by (cases r) (simp_all add: valid_name_plain)
  then show ?thesis unfolding lifecycle_command_def by (rule sh_words_plain) (cases r; simp)
qed

text \<open>A handler runs its engine and turns the error into a status.\<close>

lemma lifecycle_handler_valid:
  assumes "\<forall>n \<in> set (lifecycle_names r). valid_name n" "env_bash env (lifecycle_command r) w = ((out, er, e), w1)"
  shows "snd (lifecycle_handler (defaultContainerOps env) r (vars, w)) = (vars, w1) \<and>
    ((\<exists>reply. fst (lifecycle_handler (defaultContainerOps env) r (vars, w)) = Inr reply) \<longleftrightarrow> e = None)"
proof -
  note rpc_defs = rpc_StartContainer_def rpc_StopContainer_def rpc_DeleteContainer_def rpc_RenameContainer_def
    defaultContainerOps_def on_world_def StartContainer_def StopContainer_def DeleteContainer_def RenameContainer_def
  have v: "\<forall>n \<in> set (lifecycle_names r). \<forall>fld. validateRPCName fld n = None" using assms validateRPC_valid(1) by blast
  have R: "\<forall>m. snd (run_or env m (lifecycle_engine r) w) = w1 \<and> (fst (run_or env m (lifecycle_engine r) w) = None \<longleftrightarrow> e = None)"
    using lifecycle_engine_run [OF assms(2)] by blast
  show ?thesis
    using v R by (cases r; cases e) (auto simp: rpc_defs case_prod_beta split: option.splits)
qed

lemma lifecycle_handler_invalid:
  assumes "\<not> (\<forall>n \<in> set (lifecycle_names r). valid_name n)"
  shows "snd (lifecycle_handler ops r st) = st \<and> (\<exists>m. fst (lifecycle_handler ops r st) = Inl (RpcErr InvalidArgument m))"
proof (cases r)
  case (RenameReq n k)
  have "validateRPCName ''container_name'' n = None \<or> (\<exists>m. validateRPCName ''container_name'' n = Some (RpcErr InvalidArgument m))"
    using validateRPC_valid by metis
  moreover have "valid_name n \<Longrightarrow> \<exists>m. validateRPCName ''new_container_name'' k = Some (RpcErr InvalidArgument m)"
    using assms RenameReq validateRPC_valid(2) [of k "''new_container_name''"] by auto
  moreover have "valid_name n \<longleftrightarrow> validateRPCName ''container_name'' n = None"
    by (simp add: validateRPCName_def validate_any_field)
  ultimately show ?thesis using RenameReq by (auto simp: rpc_RenameContainer_def)
qed (use assms validateRPC_valid(2) [of _ "''container_name''"] in
  \<open>fastforce simp: rpc_StartContainer_def rpc_StopContainer_def rpc_DeleteContainer_def\<close>)+



section \<open>The deployment stream\<close>

text \<open>A report that reaches the stream is the next event; one that does not leaves it as it was.\<close>

definition stream_report :: "'w reporter \<Rightarrow> bool" where
  "stream_report report =
     (\<forall>p ds. fst (snd (report p ds)) = fst ds \<and>
        snd (snd (report p ds)) = snd ds @ (if fst (report p ds) = None then [Progress (dp_phase p) (dp_message p)] else []))"

lemma stream_reporter_reports: "stream_report (stream_reporter refuses)"
  by (auto simp: stream_report_def stream_reporter_def sendDeployProgress_def send_event_def split: option.splits)

text \<open>
  What the deploy handler relies on in a deployment: the result names the container that
  was asked for, and the stream only grows by reports of the phase \<open>execute\<close>.
\<close>

locale deployer =
  fixes deploy :: "deployContainerSpec \<Rightarrow> 'w reporter \<Rightarrow> 'w deploy_state \<Rightarrow>
    (deployContainerResult \<times> deploy_error option) \<times> 'w deploy_state"
  assumes names_container: "deploy spec report ds = ((res, e), ds') \<Longrightarrow> dr_containerName res = ds_containerName spec"
    and only_reports: "stream_report report \<Longrightarrow> deploy spec report ds = ((res, e), ds') \<Longrightarrow>
      \<exists>ms. snd ds' = snd ds @ map (Progress ''execute'') ms"
begin

lemma handler_stream:
  assumes "op_DeployContainer ops = deploy" "rpc_DeployContainer ops parse provider refuses req st = (r, (st', sent))"
  shows "(sent = [] \<and> r \<noteq> None) \<or>
    (\<exists>ms final. sent = Progress ''init'' (''Starting deployment of container '' @ dq_ContainerName req)
         # map (Progress ''execute'') ms @ final \<and>
       (if r = None then \<exists>out e. final = [Response (dq_ContainerName req) out e] else final = []))"
proof -
  let ?init = "Progress ''init'' (''Starting deployment of container '' @ dq_ContainerName req)"
  show ?thesis
  proof (cases "\<exists>config. validateRPCName ''container_name'' (dq_ContainerName req) = None \<and>
      validateRPCName ''project_name'' (dq_ProjectName req) = None \<and>
      parseDeployContainerConfig parse (dq_DevcontainerConfig req) = Inr config \<and> refuses [] ?init = None")
    case False
    then show ?thesis
      using assms(2) by (auto simp: rpc_DeployContainer_def sendDeployProgress_def send_event_def split: option.splits sum.splits)
  next
    case True
    then obtain config where v: "validateRPCName ''container_name'' (dq_ContainerName req) = None"
      "validateRPCName ''project_name'' (dq_ProjectName req) = None"
      "parseDeployContainerConfig parse (dq_DevcontainerConfig req) = Inr config" "refuses [] ?init = None" by blast
    let ?spec = "request_spec (provider (dq_ProjectName req)) req config"
    obtain res e ds where d: "deploy ?spec (stream_reporter refuses) (st, [?init]) = ((res, e), ds)" by (metis surj_pair)
    obtain ms where ms: "snd ds = ?init # map (Progress ''execute'') ms"
      using only_reports [OF stream_reporter_reports d] by auto
    have n: "dr_containerName res = dq_ContainerName req" using names_container [OF d] by (simp add: request_spec_def)
    have h: "rpc_DeployContainer ops parse provider refuses req st =
      (case e of Some (ReportErr x) \<Rightarrow> (Some x, ds)
       | Some (DeployErr x) \<Rightarrow> (let (r, sent2) = sendDeployResponse refuses res (Some x) (snd ds) in (r, (fst ds, sent2)))
       | None \<Rightarrow> (let (r, sent2) = sendDeployResponse refuses res None (snd ds) in (r, (fst ds, sent2))))"
      using v d assms(1)
      by (simp add: rpc_DeployContainer_def sendDeployProgress_def send_event_def split: option.split deploy_error.split)
    have "\<exists>final. sent = snd ds @ final \<and>
       (if r = None then \<exists>out e. final = [Response (dq_ContainerName req) out e] else final = [])"
      using assms(2) n unfolding h
      by (auto simp: sendDeployResponse_def send_event_def split: option.splits deploy_error.splits if_splits)
    with ms show ?thesis by (metis append_Cons append_assoc)
  qed
qed

end

lemma deploy_loop_reports:
  "stream_report report \<Longrightarrow> deploy_loop env report cmds out ds = (r, ds') \<Longrightarrow>
   \<exists>ms. snd ds' = snd ds @ map (Progress ''execute'') ms"
proof (induction env report cmds out ds rule: deploy_loop.induct)
  case (3 env report cmd cmds out ds)
  let ?p = "\<lparr>dp_phase = ''execute'', dp_message = deployCommandDescription cmd\<rparr>"
  obtain x ds1 where x: "report ?p ds = (x, ds1)" by (metis surj_pair)
  then have s: "snd ds1 = snd ds @ (if x = None then [Progress ''execute'' (deployCommandDescription cmd)] else [])"
    using 3(2) unfolding stream_report_def by (metis deployProgress.select_convs fst_conv snd_conv)
  show ?case
  proof (cases x)
    case (Some e)
    then have "ds' = ds1" using 3(3) x by simp
    then show ?thesis using s Some by (intro exI [of _ "[]"]) simp
  next
    case None
    obtain stdout y w2 where y: "RunLocalCmdWithOutput env [Some cmd] (snd (fst ds1)) = ((stdout, y), w2)" by (metis surj_pair)
    let ?d = "deployCommandDescription cmd"
    show ?thesis
    proof (cases y)
      case (Some e)
      then have "snd ds' = snd ds @ map (Progress ''execute'') [?d]" using 3(3) x y None s by auto
      then show ?thesis by blast
    next
      case None
      note x' = x [unfolded \<open>x = None\<close>] and y' = y [unfolded None]
      have "deploy_loop env report cmds (out @ stdout) ((fst (fst ds1), w2), snd ds1) = (r, ds')"
        using 3(3) x' y' by simp
      then obtain ms where "snd ds' = snd ds1 @ map (Progress ''execute'') ms"
        using 3(1) [OF x' [symmetric] refl y' [symmetric] refl refl 3(2)] by auto
      then have "snd ds' = snd ds @ map (Progress ''execute'') (?d # ms)" using s \<open>x = None\<close> by simp
      then show ?thesis by blast
    qed
  qed
qed auto

interpretation engine_deploy: deployer "default_DeployContainer env"
proof
  fix spec and report :: "'a reporter" and ds res e ds'
  assume d: "default_DeployContainer env spec report ds = ((res, e), ds')"
  obtain ce st1 where 1: "NewContainerEngine env (spec_options spec) (fst ds) = (ce, st1)" by (metis surj_pair)
  obtain bc ce1 st2 where 2: "BuildCommands env (deploy_engine spec ce) st1 = (bc, ce1, st2)" by (metis surj_pair)
  obtain ssh st3 where 3: "buildSSHKeyInstallCommands env spec st2 = (ssh, st3)" by (metis surj_pair)
  have shape: "(case bc of Inl e \<Rightarrow> ((\<lparr>dr_containerName = ds_containerName spec, dr_output = []\<rparr>,
        Some (DeployErr (AppendError ''failed to build deploy commands'' e))), (st2, snd ds))
     | Inr cmds \<Rightarrow> (case ssh of
         Inl e \<Rightarrow> ((\<lparr>dr_containerName = ds_containerName spec, dr_output = []\<rparr>,
           Some (DeployErr (AppendError ''failed to build SSH key install commands'' e))), (st3, snd ds))
       | Inr keys \<Rightarrow> (case deploy_loop env report (cmds @ keys) [] (st3, snd ds) of
           ((out, e), ds4) \<Rightarrow> ((\<lparr>dr_containerName = ds_containerName spec, dr_output = out\<rparr>, e), ds4)))) = ((res, e), ds')"
    using d unfolding default_DeployContainer_def Let_def 1 prod.case 2 3
    by (auto split: sum.splits prod.splits)
  show "dr_containerName res = ds_containerName spec"
    using shape by (auto split: sum.splits prod.splits)
  assume r: "stream_report report"
  show "\<exists>ms. snd ds' = snd ds @ map (Progress ''execute'') ms"
  proof (cases "\<exists>cmds keys. bc = Inr cmds \<and> ssh = Inr keys")
    case True
    then obtain cmds keys where k: "bc = Inr cmds" "ssh = Inr keys" by blast
    then have "\<exists>x. deploy_loop env report (cmds @ keys) [] (st3, snd ds) = (x, ds')"
      using shape by (auto split: prod.splits)
    then show ?thesis using deploy_loop_reports [OF r] by fastforce
  next
    case False
    then have "snd ds' = snd ds" using shape by (cases bc; cases ssh) auto
    then show ?thesis by (intro exI [of _ "[]"]) simp
  qed
qed

lemma last_response_progress: "last_response r (map (Progress p) ms @ evs) = last_response r evs"
  by (induction ms) simp_all

text \<open>
  C13. The deployment stream, agent and client together: whatever the commands do and however
  sending fails, the stream holds either nothing or the initial report, then reports of
  commands, then at most one response, which names the container. The client that reads it
  gets a response exactly when the handler ended well, and it is the one that was sent.
\<close>

theorem deploy_stream_protocol:
  "let (r, (st', sent)) = rpc_DeployContainer (defaultContainerOps env) parse provider refuses req st in
    ((sent = [] \<and> r \<noteq> None) \<or>
      (\<exists>ms final. sent = Progress ''init'' (''Starting deployment of container '' @ dq_ContainerName req)
         # map (Progress ''execute'') ms @ final \<and>
       (if r = None then \<exists>out e. final = [Response (dq_ContainerName req) out e] else final = []))) \<and>
    (r = None \<longleftrightarrow> (\<exists>out e. sent \<noteq> [] \<and> last sent = Response (dq_ContainerName req) out e \<and>
      receiveDeployResponse sent (map_option status_error r) = Ok (dq_ContainerName req, out, e)))"
proof -
  have ops: "op_DeployContainer (defaultContainerOps env) = default_DeployContainer env" by (simp add: defaultContainerOps_def)
  obtain r st' sent where run: "rpc_DeployContainer (defaultContainerOps env) parse provider refuses req st = (r, (st', sent))"
    by (metis surj_pair)
  note h = engine_deploy.handler_stream [OF ops run]
  have "r = None \<longleftrightarrow> (\<exists>out e. sent \<noteq> [] \<and> last sent = Response (dq_ContainerName req) out e \<and>
      receiveDeployResponse sent (map_option status_error r) = Ok (dq_ContainerName req, out, e))"
  proof (cases r)
    case None
    with h obtain ms out e where "sent = Progress ''init'' (''Starting deployment of container '' @ dq_ContainerName req)
         # map (Progress ''execute'') ms @ [Response (dq_ContainerName req) out e]" by auto
    then show ?thesis using None by (simp add: receiveDeployResponse_def last_response_progress)
  qed (simp add: receiveDeployResponse_def)
  with h show ?thesis by (simp only: run Let_def prod.case)
qed

section \<open>The commands of a deployment\<close>

text \<open>Running command lines one after the other, with what each returned.\<close>

type_synonym bash_result = "string \<times> string \<times> err option"

fun run_lines :: "'w engine_env \<Rightarrow> string list \<Rightarrow> 'w \<Rightarrow> bash_result list \<times> 'w" where
  "run_lines env [] w = ([], w)"
| "run_lines env (c # cs) w =
     (let (x, w1) = env_bash env c w; (xs, w2) = run_lines env cs w1 in (x # xs, w2))"

definition bash_ok :: "bash_result \<Rightarrow> bool" where "bash_ok x = (snd (snd x) = None)"

text \<open>What is kept of a command: its standard output, or the standard error when it failed.\<close>

definition bash_text :: "bash_result \<Rightarrow> string" where
  "bash_text x = (if bash_ok x then fst x else fst (snd x))"

text \<open>
  C14. A deployment runs its commands in order and stops at the first that fails: with a
  stream that accepts every report, there is a prefix of the commands that ran, one report
  each, the output is what they left, and the deployment succeeds exactly when all ran and
  all succeeded; otherwise the last one that ran is the only one that failed.
\<close>

theorem deploy_stops_at_first_failure:
  assumes "stream_report report" "\<forall>p ds. fst (report p ds) = None"
    and "deploy_loop env report (map Some cmds) out ((vars, w), sent) = ((out', e), ((vars', w'), sent'))"
  shows "\<exists>n xs. n \<le> length cmds \<and> run_lines env (map re_cmd (take n cmds)) w = (xs, w') \<and> vars' = vars \<and>
     sent' = sent @ map (\<lambda>c. Progress ''execute'' (deployCommandDescription c)) (take n cmds) \<and>
     out' = out @ concat (map bash_text xs) \<and>
     (\<forall>x \<in> set (butlast xs). bash_ok x) \<and>
     (if e = None then n = length cmds \<and> (\<forall>x \<in> set xs. bash_ok x) else xs \<noteq> [] \<and> \<not> bash_ok (last xs))"
  using assms(3)
proof (induction cmds arbitrary: out w sent)
  case (Cons c cmds)
  let ?p = "\<lparr>dp_phase = ''execute'', dp_message = deployCommandDescription c\<rparr>"
  have r: "report ?p ((vars, w), sent) = (None, ((vars, w), sent @ [Progress ''execute'' (deployCommandDescription c)]))"
    using assms(1) [unfolded stream_report_def, THEN spec, THEN spec, of ?p "((vars, w), sent)"] assms(2)
    by (cases "report ?p ((vars, w), sent)") (auto simp: prod_eq_iff)
  obtain o1 er x w1 where b: "env_bash env (re_cmd c) w = ((o1, er, x), w1)" by (metis surj_pair)
  show ?case
  proof (cases x)
    case (Some y)
    then show ?thesis using Cons.prems r b
      by (intro exI [of _ 1] exI [of _ "[(o1, er, x)]"]) (auto simp: RunLocalCmdWithOutput_def bash_ok_def bash_text_def)
  next
    case None
    then have "deploy_loop env report (map Some cmds) (out @ o1) ((vars, w1), sent @ [Progress ''execute'' (deployCommandDescription c)])
        = ((out', e), ((vars', w'), sent'))"
      using Cons.prems r b by (simp add: RunLocalCmdWithOutput_def)
    from Cons.IH [OF this] obtain n xs where n: "n \<le> length cmds" "run_lines env (map re_cmd (take n cmds)) w1 = (xs, w')" "vars' = vars"
      "sent' = (sent @ [Progress ''execute'' (deployCommandDescription c)])
         @ map (\<lambda>c. Progress ''execute'' (deployCommandDescription c)) (take n cmds)"
      "out' = (out @ o1) @ concat (map bash_text xs)" "\<forall>x \<in> set (butlast xs). bash_ok x"
      "if e = None then n = length cmds \<and> (\<forall>x \<in> set xs. bash_ok x) else xs \<noteq> [] \<and> \<not> bash_ok (last xs)"
      by (elim exE conjE)
    have x: "bash_ok (o1, er, x)" "bash_text (o1, er, x) = o1" using None by (simp_all add: bash_ok_def bash_text_def)
    have r: "run_lines env (map re_cmd (take (Suc n) (c # cmds))) w = ((o1, er, x) # xs, w')" using b n(2) by simp
    have bl: "\<forall>y \<in> set (butlast ((o1, er, x) # xs)). bash_ok y" using x n(6) by simp
    have fin: "if e = None then Suc n = length (c # cmds) \<and> (\<forall>y \<in> set ((o1, er, x) # xs). bash_ok y)
        else (o1, er, x) # xs \<noteq> [] \<and> \<not> bash_ok (last ((o1, er, x) # xs))"
      using x n(7) by (simp split: if_splits)
    have "Suc n \<le> length (c # cmds)" "out' = out @ concat (map bash_text ((o1, er, x) # xs))"
      "sent' = sent @ map (\<lambda>c. Progress ''execute'' (deployCommandDescription c)) (take (Suc n) (c # cmds))"
      using n x by simp_all
    with r bl fin n(3) show ?thesis by blast
  qed
qed simp

text \<open>Two commands of which the first fails: only that one runs, and its standard error is the output.\<close>

definition logging_env :: "(string \<Rightarrow> bash_result) \<Rightarrow> string list engine_env" where
  "logging_env answer = \<lparr>env_bash = \<lambda>c log. (answer c, log @ [c]), env_CreateTempFile = \<lambda>_ w. (Fail [], w),
     env_RemoveTempFile = \<lambda>_ w. (None, w), env_WriteFile = \<lambda>_ _ w. (None, w), env_HomeDir = [], env_parseRepo = \<lambda>_. Fail []\<rparr>"

theorem deploy_stops_at_first_failure_witness:
  "\<exists>out e w sent. deploy_loop (logging_env (\<lambda>c. ([], ''no'', Some (NewError []))))
      (stream_reporter (\<lambda>_ _. None)) (map Some [zero_RunEvent\<lparr>re_cmd := ''a''\<rparr>, zero_RunEvent\<lparr>re_cmd := ''b''\<rparr>]) []
      ((\<lambda>_. None, []), []) = ((out, e), ((\<lambda>_. None, w), sent)) \<and> w = [''a''] \<and> out = ''no'' \<and> length sent = 1"
proof -
  let ?env = "logging_env (\<lambda>c. ([], ''no'', Some (NewError [])))"
  let ?cmds = "[zero_RunEvent\<lparr>re_cmd := ''a''\<rparr>, zero_RunEvent\<lparr>re_cmd := ''b''\<rparr>]"
  let ?rep = "stream_reporter (\<lambda>_ _. None) :: string list reporter"
  obtain out e vars w sent where d: "deploy_loop ?env ?rep (map Some ?cmds) [] ((\<lambda>_. None, []), []) = ((out, e), ((vars, w), sent))"
    by (metis surj_pair)
  have a: "\<forall>p ds. fst (?rep p ds) = None" by (simp add: stream_reporter_def sendDeployProgress_def send_event_def)
  obtain n xs where n: "n \<le> length ?cmds" "run_lines ?env (map re_cmd (take n ?cmds)) [] = (xs, w)" "vars = (\<lambda>_. None)"
    "sent = [] @ map (\<lambda>c. Progress ''execute'' (deployCommandDescription c)) (take n ?cmds)"
    "out = [] @ concat (map bash_text xs)" "\<forall>x \<in> set (butlast xs). bash_ok x"
    "if e = None then n = length ?cmds \<and> (\<forall>x \<in> set xs. bash_ok x) else xs \<noteq> [] \<and> \<not> bash_ok (last xs)"
    using deploy_stops_at_first_failure [OF stream_reporter_reports a d] by (elim exE conjE)
  have "n = 0 \<or> n = 1 \<or> n = 2" using n(1) by auto
  then have "n = 1"
    using n(2,6,7) by (auto simp: logging_env_def bash_ok_def numeral_2_eq_2 split: if_splits)
  then have "w = [''a'']" "out = ''no''" "length sent = 1"
    using n(2,4,5) by (auto simp: logging_env_def bash_text_def bash_ok_def)
  with d n(3) show ?thesis by blast
qed

section \<open>From the client's files to the engine\<close>

text \<open>
  C12. The artifacts reach the engine: after the client has staged a plan, fetching an
  artifact by its identifier through the provider a deployment is given returns exactly the
  client's bytes, also for what was staged earlier. Needed are a working disk and a digest that
  tells an earlier file from the plan's data.
\<close>

theorem staged_data_reaches_engine:
  assumes "sound_io io" "good_plan dir sha proj cands" "finite (dom fs)"
    and "\<forall>c \<in> set cands. sha (ac_data c) \<noteq> [] \<and> (\<forall>p x. fs p = Some x \<and> sha x = sha (ac_data c) \<longrightarrow> x = ac_data c)"
  shows "\<exists>fs'. stageProjectArtifacts dir io sha proj uid cands fs = (fs', None) \<and>
    (\<forall>c \<in> set cands. let rp = staging_provider (\<lambda>p. case fs' p of None \<Rightarrow> Fail ''no such file'' | Some x \<Rightarrow> Ok x)
                                (\<lambda>p. fs' p \<noteq> None) dir proj; i = ad_Identifier (ac_descriptor c) in
       rp_FileExists rp ResourceTypeFile i \<and> rp_FetchFile rp ResourceTypeFile i = Ok (ac_data c))"
proof -
  obtain fs' where fs': "stageProjectArtifacts dir io sha proj uid cands fs = (fs', None)"
    "\<forall>c \<in> set cands. \<exists>p. artifactPath dir proj (ad_Identifier (ac_descriptor c)) = Inr p \<and> fs' p = Some (ac_data c)"
    using staging_content [OF assms, of uid] by blast
  have "srp_path \<lparr>srp_stagingDir = dir, srp_projectName = proj\<rparr> i = artifactPath dir proj i" for i
    by (simp add: srp_path_def artifactPath_def)
  with fs' show ?thesis
    by (intro exI [of _ fs']) (auto simp: Let_def staging_provider_def FetchFile_def FileExists_def)
qed

theorem staged_data_reaches_engine_witness:
  "\<exists>fs'. stageProjectArtifacts ''/s'' temp_io rev ''p'' (\<lambda>_. ''u'') [sample_candidate] (\<lambda>_. None) = (fs', None) \<and>
     rp_FetchFile (staging_provider (\<lambda>p. case fs' p of None \<Rightarrow> Fail ''no such file'' | Some x \<Rightarrow> Ok x) (\<lambda>p. fs' p \<noteq> None) ''/s'' ''p'')
       ResourceTypeFile ''resource/d/D'' = Ok ''xy''"
proof -
  have "validateAgentName ''project_name'' ''p'' = None"
    "NormalizeIdentifier ''resource/d/D'' = Inr ''resource/d/D''"
    "artifactPath ''/s'' ''p'' ''resource/d/D'' = Inr ''/s/p/resource/d/D''" by code_simp+
  then have g: "good_plan ''/s'' rev ''p'' [sample_candidate]"
    by (simp add: good_plan_def good_candidate_def sample_candidate_def)
  have d: "\<forall>c \<in> set [sample_candidate]. rev (ac_data c) \<noteq> [] \<and> (\<forall>p x. (\<lambda>_. None) p = Some x \<and> rev x = rev (ac_data c) \<longrightarrow> x = ac_data c)"
    by (simp add: sample_candidate_def)
  from staged_data_reaches_engine [OF temp_io_sound g _ d, of "\<lambda>_. ''u''"] show ?thesis
    by (auto simp: Let_def sample_candidate_def)
qed

end
