(* ===== verification/Address.thy ===== *)
theory Address
  imports Global Identifier
begin

text \<open>
  Server addresses: \<open>net.SplitHostPort\<close> and \<open>net.JoinHostPort\<close> of the standard library as
  \<open>internal/config/cli.go\<close> and \<open>internal/command/client_grpc.go\<close> use them, and the functions
  of these files that normalise an address and find its host.

  Of \<open>net/url\<close> the code uses four operations on a parsed URL; they are the record
  \<open>url_lib\<close>, with \<open>'u\<close> the type of a parsed URL.
\<close>

section \<open>Host and port\<close>

definition missingPort :: err where "missingPort = NewError ''missing port in address''"
definition tooManyColons :: err where "tooManyColons = NewError ''too many colons in address''"

text \<open>The port is what follows the last colon.\<close>

definition after_last_colon :: "string \<Rightarrow> string" where
  "after_last_colon s = rev (takeWhile (\<lambda>c. c \<noteq> CHR '':'') (rev s))"

definition before_last_colon :: "string \<Rightarrow> string" where
  "before_last_colon s = take (length s - length (after_last_colon s) - 1) s"

definition SplitHostPort :: "string \<Rightarrow> (string \<times> string) result" where
  "SplitHostPort s =
     (if CHR '':'' \<notin> set s then Inl missingPort
      else let port = after_last_colon s in
        if hd s = CHR ''[''
        then if CHR '']'' \<notin> set s then Fail ''missing ']' in address''
             else let host = takeWhile (\<lambda>c. c \<noteq> CHR '']'') (tl s); behind = drop (length host + 2) s in
               if behind = [] then Inl missingPort
               else if behind = CHR '':'' # port
               then if CHR ''['' \<in> set (tl s) then Fail ''unexpected '[' in address''
                    else if CHR '']'' \<in> set behind then Fail ''unexpected ']' in address''
                    else Ok (host, port)
               else if hd behind = CHR '':'' then Inl tooManyColons
               else Inl missingPort
        else if CHR '':'' \<in> set (before_last_colon s) then Inl tooManyColons
        else if CHR ''['' \<in> set s then Fail ''unexpected '[' in address''
        else if CHR '']'' \<in> set s then Fail ''unexpected ']' in address''
        else Ok (before_last_colon s, port))"

definition JoinHostPort :: "string \<Rightarrow> string \<Rightarrow> string" where
  "JoinHostPort host port =
     (if CHR '':'' \<in> set host then ''['' @ host @ '']:'' @ port else host @ '':'' @ port)"

section \<open>URLs\<close>

record 'u url_lib =
  url_Parse :: "string \<Rightarrow> 'u option"
  url_Hostname :: "'u \<Rightarrow> string"
  url_lower_host :: "'u \<Rightarrow> 'u"
  url_String :: "'u \<Rightarrow> string"

section \<open>Addresses\<close>

definition url_of :: "'u url_lib \<Rightarrow> string \<Rightarrow> 'u option" where
  "url_of lib s =
     (if Contains s ''://'' then
        case url_Parse lib s of None \<Rightarrow> None | Some u \<Rightarrow> if url_Hostname lib u = [] then None else Some u
      else None)"

definition normalizeTargetServer :: "'u url_lib \<Rightarrow> string \<Rightarrow> string result" where
  "normalizeTargetServer lib targetServer =
     (let normalized = TrimSpace targetServer in
      if normalized = [] then Fail ''target server is required''
      else case url_of lib normalized of
        Some u \<Rightarrow> Ok (url_String lib (url_lower_host lib u))
      | None \<Rightarrow>
          (case SplitHostPort normalized of
             Inr (host, port) \<Rightarrow> if host = [] then Ok normalized else Ok (JoinHostPort (ToLower host) port)
           | Inl _ \<Rightarrow> Ok (ToLower normalized)))"

definition targetServerHostname :: "'u url_lib \<Rightarrow> string \<Rightarrow> string" where
  "targetServerHostname lib targetServer =
     (let normalized = TrimSpace targetServer in
      if normalized = [] then []
      else if HasPrefix normalized '':'' then KLocalhost
      else case url_of lib normalized of
        Some u \<Rightarrow> ToLower (url_Hostname lib u)
      | None \<Rightarrow>
          (case SplitHostPort normalized of
             Inr (host, port) \<Rightarrow> if host = [] then KLocalhost else ToLower host
           | Inl _ \<Rightarrow> ToLower normalized))"

definition cfg_normalizeHostName :: "'u url_lib \<Rightarrow> string \<Rightarrow> string" where
  "cfg_normalizeHostName lib hostname =
     (if TrimSpace hostname = [] then KLocalhost else targetServerHostname lib (TrimSpace hostname))"

text \<open>\<open>addressHost\<close> (\<open>client_grpc.go\<close>) keeps the case, and takes a URL with an empty host as it is.\<close>

definition addressHost :: "'u url_lib \<Rightarrow> string \<Rightarrow> string" where
  "addressHost lib address =
     (let normalized = TrimSpace address in
      if normalized = [] \<or> HasPrefix normalized '':'' then KLocalhost
      else case (if Contains normalized ''://'' then url_Parse lib normalized else None) of
        Some u \<Rightarrow> url_Hostname lib u
      | None \<Rightarrow>
          (case SplitHostPort normalized of
             Inr (host, port) \<Rightarrow> if host = [] then KLocalhost else host
           | Inl _ \<Rightarrow> normalized))"

definition normalizeAgentHostName :: "string \<Rightarrow> string" where
  "normalizeAgentHostName hostName = (if TrimSpace hostName = [] then KLocalhost else TrimSpace hostName)"

end
