(* ===== verification/Config.thy ===== *)
theory Config
  imports Address
begin

text \<open>
  \<open>internal/config\<close>: the manifest that says where each configuration file is
  (\<open>manifest.go\<close>), the client's registry of agents (\<open>cli.go\<close>) and the agent's registry of
  clients (\<open>agent.go\<close>); with the sources they are read from (\<open>internal/source\<close>).

  The files are a state \<open>'w\<close> behind the record \<open>fs_io\<close> (package \<open>cos\<close>); the YAML package
  is the record \<open>yaml\<close>. A nil list of agents and an empty one are the same list.
\<close>

section \<open>Sources\<close>

record 'w fs_io =
  fs_Abs :: "string \<Rightarrow> string result"
  fs_IsDir :: "string \<Rightarrow> 'w \<Rightarrow> bool result"
  fs_Exists :: "string \<Rightarrow> 'w \<Rightarrow> bool"
  fs_ReadFile :: "string \<Rightarrow> 'w \<Rightarrow> string result"
  fs_EnsureDir :: "string \<Rightarrow> 'w \<Rightarrow> err option \<times> 'w"
  fs_WriteFile :: "string \<Rightarrow> string \<Rightarrow> 'w \<Rightarrow> err option \<times> 'w"
  fs_RemoveAll :: "string \<Rightarrow> 'w \<Rightarrow> err option \<times> 'w"
  fs_EnsureConfigDir :: "string \<Rightarrow> 'w \<Rightarrow> err option \<times> 'w"

datatype backendType = Undefined | LocalFS | SCM | Artifactory

definition SourceTypeFromString :: "string \<Rightarrow> backendType" where
  "SourceTypeFromString s =
     (if ToLower s = ''localfs'' then LocalFS
      else if ToLower s = ''scm'' then SCM
      else if ToLower s = ''artifactory'' then Artifactory
      else Undefined)"

fun SourceType_String :: "backendType \<Rightarrow> string" where
  "SourceType_String Undefined = ''Undefined''"
| "SourceType_String LocalFS = ''LocalFS''"
| "SourceType_String SCM = ''SCM''"
| "SourceType_String Artifactory = ''Artifactory''"

text \<open>A source of a repository overrides no operation: each is the default that fails.\<close>

datatype source = localSource string | scmSource string string string

definition NewLocalSource :: "'w fs_io \<Rightarrow> string \<Rightarrow> source result" where
  "NewLocalSource io path = bind_ok (wrap_error ''failed to resolve absolute path'' (fs_Abs io path)) (\<lambda>p. Ok (localSource p))"

definition NewSCMSource :: "string \<Rightarrow> string \<Rightarrow> string \<Rightarrow> source result" where
  "NewSCMSource repoUrl ref path = Ok (scmSource repoUrl ref path)"

definition no_support :: "backendType \<Rightarrow> string \<Rightarrow> err" where
  "no_support t what = NewError (''source type '' @ Quote (SourceType_String t) @ '' has no '' @ what @ '' support'')"

fun source_Read :: "'w fs_io \<Rightarrow> source \<Rightarrow> 'w \<Rightarrow> string result" where
  "source_Read io (localSource path) w =
     bind_ok (wrap_error ''failed to stat source'' (fs_IsDir io path w)) (\<lambda>isDir.
       if isDir then Fail (''source is a directory, not a file: '' @ path)
       else wrap_error ''failed to read file'' (fs_ReadFile io path w))"
| "source_Read io (scmSource _ _ _) w = Inl (no_support SCM ''Read'')"

fun source_Write :: "'w fs_io \<Rightarrow> source \<Rightarrow> string \<Rightarrow> 'w \<Rightarrow> err option \<times> 'w" where
  "source_Write io (localSource path) content w =
     (case fs_EnsureDir io path w of
        (Some e, w1) \<Rightarrow> (Some (AppendError ''failed to ensure parent directories existance'' e), w1)
      | (None, w1) \<Rightarrow>
          (case fs_WriteFile io path content w1 of
             (Some e, w2) \<Rightarrow> (Some (AppendError ''failed to write file'' e), w2)
           | (None, w2) \<Rightarrow> (None, w2)))"
| "source_Write io (scmSource _ _ _) content w = (Some (no_support SCM ''Write''), w)"

fun source_Exists :: "'w fs_io \<Rightarrow> source \<Rightarrow> 'w \<Rightarrow> bool result" where
  "source_Exists io (localSource path) w = Ok (fs_Exists io path w)"
| "source_Exists io (scmSource _ _ _) w = Inl (no_support SCM ''Exists'')"

fun source_IsDir :: "'w fs_io \<Rightarrow> source \<Rightarrow> 'w \<Rightarrow> bool result" where
  "source_IsDir io (localSource path) w =
     (if \<not> fs_Exists io path w then Fail (''path does not exist: '' @ path)
      else wrap_error ''failed to stat path'' (fs_IsDir io path w))"
| "source_IsDir io (scmSource _ _ _) w = Inl (no_support SCM ''IsDir'')"

section \<open>The data\<close>

record manifestRef =
  sf_Type :: string
  sf_Ref :: string

record Manifest =
  mf_APIVersion :: string
  mf_Sources :: "string \<rightharpoonup> manifestRef"

record tlssecret =
  tls_CA :: string
  tls_Cert :: string
  tls_Key :: string

record agent =
  ag_Certs :: tlssecret
  ag_SshTunnel :: bool
  ag_TargetSrv :: string

record cliAgentData =
  cd_APIVersion :: string
  cd_Agents :: "agent list"

record client =
  cl_Name :: string
  cl_Certs :: tlssecret

record agentClientData =
  acd_APIVersion :: string
  acd_Clients :: "client list"

record yaml =
  y_read_manifest :: "string \<Rightarrow> Manifest result"
  y_write_manifest :: "Manifest \<Rightarrow> string result"
  y_read_cli :: "string \<Rightarrow> cliAgentData result"
  y_write_cli :: "cliAgentData \<Rightarrow> string result"
  y_read_agent :: "string \<Rightarrow> agentClientData result"
  y_write_agent :: "agentClientData \<Rightarrow> string result"

text \<open>The environment of the package: files, YAML, URLs and the paths of the configuration directory.\<close>

record ('w, 'u) config_env =
  ce_io :: "'w fs_io"
  ce_yaml :: yaml
  ce_url :: "'u url_lib"
  ce_ConfigFile :: "string \<Rightarrow> string"
  ce_ClientConfigDir :: "string \<Rightarrow> string"
  ce_AgentConfigDir :: "string \<Rightarrow> string"

section \<open>The manifest\<close>

definition SourceKeyCLIAgentConfig :: string where "SourceKeyCLIAgentConfig = ''cliagentconfig''"
definition SourceKeyProfile :: string where "SourceKeyProfile = ''profile''"
definition SourceKeyDB :: string where "SourceKeyDB = ''db''"
definition kManifestFileName :: string where "kManifestFileName = ''cdsconfig.yaml''"

definition defaultManifest :: "(string \<Rightarrow> string) \<Rightarrow> Manifest" where
  "defaultManifest cfg =
     \<lparr>mf_APIVersion = ''v1'', mf_Sources = [
       SourceKeyCLIAgentConfig \<mapsto> \<lparr>sf_Type = ''localfs'', sf_Ref = cfg ''cliconfig.yaml''\<rparr>,
       SourceKeyProfile \<mapsto> \<lparr>sf_Type = ''localfs'', sf_Ref = cfg ''profile.json''\<rparr>,
       SourceKeyDB \<mapsto> \<lparr>sf_Type = ''localfs'', sf_Ref = cfg ''db.json''\<rparr>]\<rparr>"

definition LoadManifest :: "('w, 'u) config_env \<Rightarrow> 'w \<Rightarrow> Manifest result \<times> 'w" where
  "LoadManifest env w =
     (case wrap_error ''failed to create manifest source'' (NewLocalSource (ce_io env) (ce_ConfigFile env kManifestFileName)) of
        Inl e \<Rightarrow> (Inl e, w)
      | Inr src \<Rightarrow>
     (case wrap_error ''failed to check manifest existence'' (source_Exists (ce_io env) src w) of
        Inl e \<Rightarrow> (Inl e, w)
      | Inr False \<Rightarrow>
          (let m = defaultManifest (ce_ConfigFile env) in
           case wrap_error ''failed to serialize manifest'' (y_write_manifest (ce_yaml env) m) of
             Inl e \<Rightarrow> (Inl e, w)
           | Inr bytes \<Rightarrow>
               (case source_Write (ce_io env) src bytes w of
                  (Some e, w1) \<Rightarrow> (Inl (AppendError ''failed to bootstrap manifest'' e), w1)
                | (None, w1) \<Rightarrow> (Ok m, w1)))
      | Inr True \<Rightarrow>
          (bind_ok (wrap_error ''failed to read manifest file'' (source_Read (ce_io env) src w)) (\<lambda>r.
             wrap_error ''failed to parse manifest'' (y_read_manifest (ce_yaml env) r)), w)))"

text \<open>\<open>filepath.IsAbs\<close> on a Unix path.\<close>

definition Manifest_Resolve :: "'w fs_io \<Rightarrow> Manifest \<Rightarrow> string \<Rightarrow> source result" where
  "Manifest_Resolve io m name =
     (case mf_Sources m name of
        None \<Rightarrow> Fail (''manifest: unknown source key '' @ Quote name)
      | Some ref \<Rightarrow>
          (case SourceTypeFromString (sf_Type ref) of
             LocalFS \<Rightarrow>
               if \<not> HasPrefix (sf_Ref ref) ''/''
               then Fail (''manifest: localfs ref must be an absolute path, got '' @ Quote (sf_Ref ref))
               else NewLocalSource io (sf_Ref ref)
           | SCM \<Rightarrow> NewSCMSource (sf_Ref ref) [] []
           | _ \<Rightarrow> Fail (''manifest: source type '' @ Quote (sf_Type ref) @ '' is not yet supported'')))"

definition EnsureSourceWithDefault :: "'w fs_io \<Rightarrow> source \<Rightarrow> string \<Rightarrow> 'w \<Rightarrow> err option \<times> 'w" where
  "EnsureSourceWithDefault io src defaultContent w =
     (case source_Exists io src w of
        Inl e \<Rightarrow> (Some e, w)
      | Inr True \<Rightarrow> (None, w)
      | Inr False \<Rightarrow> source_Write io src defaultContent w)"

definition manifestSource :: "('w, 'u) config_env \<Rightarrow> string \<Rightarrow> 'w \<Rightarrow> source result \<times> 'w" where
  "manifestSource env key w =
     (case LoadManifest env w of
        (Inl e, w1) \<Rightarrow> (Inl (AppendError ''failed to load manifest'' e), w1)
      | (Inr m, w1) \<Rightarrow> (Manifest_Resolve (ce_io env) m key, w1))"

text \<open>\<open>ensured_source\<close>: the shape that \<open>cliConfigSource\<close> and \<open>dbSource\<close> share.\<close>

definition ensured_source ::
  "('w, 'u) config_env \<Rightarrow> string \<Rightarrow> string \<Rightarrow> string \<Rightarrow> string \<Rightarrow> 'w \<Rightarrow> source result \<times> 'w" where
  "ensured_source env key content m_resolve m_ensure w =
     (case manifestSource env key w of
        (Inl e, w1) \<Rightarrow> (Inl (AppendError m_resolve e), w1)
      | (Inr src, w1) \<Rightarrow>
          (case EnsureSourceWithDefault (ce_io env) src content w1 of
             (Some e, w2) \<Rightarrow> (Inl (AppendError m_ensure e), w2)
           | (None, w2) \<Rightarrow> (Ok src, w2)))"

definition defaultCLIAgentConfig :: string where
  "defaultCLIAgentConfig = ''apiVersion: v1'' @ [CHR 0x0A] @ ''agents:'' @ [CHR 0x0A]"

definition defaultAgentConfig :: string where
  "defaultAgentConfig = ''apiVersion: v1'' @ [CHR 0x0A] @ ''clients:'' @ [CHR 0x0A]"

definition cliConfigSource :: "('w, 'u) config_env \<Rightarrow> 'w \<Rightarrow> source result \<times> 'w" where
  "cliConfigSource env =
     ensured_source env SourceKeyCLIAgentConfig defaultCLIAgentConfig
       ''failed to resolve CLI agent config source'' ''failed to ensure CLI agent config exists''"

definition dbSource :: "('w, 'u) config_env \<Rightarrow> 'w \<Rightarrow> source result \<times> 'w" where
  "dbSource env =
     ensured_source env SourceKeyDB ''{}'' ''failed to resolve db source'' ''failed to ensure db file exists''"

definition profileSource :: "('w, 'u) config_env \<Rightarrow> 'w \<Rightarrow> source result \<times> 'w" where
  "profileSource env w =
     (case manifestSource env SourceKeyProfile w of
        (Inl e, w1) \<Rightarrow> (Inl (AppendError ''failed to resolve profile source'' e), w1)
      | (Inr src, w1) \<Rightarrow> (Ok src, w1))"

definition OptionalProfileReader :: "('w, 'u) config_env \<Rightarrow> 'w \<Rightarrow> string option result \<times> 'w" where
  "OptionalProfileReader env w =
     (case profileSource env w of
        (Inl e, w1) \<Rightarrow> (Inl e, w1)
      | (Inr src, w1) \<Rightarrow>
          (bind_ok (source_Exists (ce_io env) src w1) (\<lambda>ex.
             if \<not> ex then Ok None else bind_ok (source_Read (ce_io env) src w1) (\<lambda>r. Ok (Some r))), w1))"

end
