(* ===== verification/AgentRegistry.thy ===== *)
theory AgentRegistry
  imports Config
begin

text \<open>
  The client's registry of agents (\<open>internal/config/cli.go\<close>) and the agent's registry of
  clients (\<open>internal/config/agent.go\<close>), read from and written to their source at each
  operation. The registry is one list: its rows are found by the exact address or by the
  host of the address.
\<close>

section \<open>Reading and writing\<close>

definition normalizeAgent :: "'u url_lib \<Rightarrow> agent \<Rightarrow> agent result" where
  "normalizeAgent lib a = bind_ok (normalizeTargetServer lib (ag_TargetSrv a)) (\<lambda>t. Ok (a\<lparr>ag_TargetSrv := t\<rparr>))"

definition agent_host :: "'u url_lib \<Rightarrow> agent \<Rightarrow> string" where
  "agent_host lib a = targetServerHostname lib (ag_TargetSrv a)"

text \<open>The loop: a row whose host is known takes the place of the earlier one.\<close>

definition replaceAgent :: "agent \<Rightarrow> agent \<Rightarrow> agent" where "replaceAgent old new = new"

fun sanitize_from :: "'u url_lib \<Rightarrow> (string, agent) indexed \<Rightarrow> agent list \<Rightarrow> agent list result" where
  "sanitize_from lib st [] = Ok (fst st)"
| "sanitize_from lib st (a # as) =
     bind_ok (wrap_error ''failed to normalize CLI agent config'' (normalizeAgent lib a)) (\<lambda>n.
       sanitize_from lib (index_put (agent_host lib) replaceAgent st n) as)"

interpretation agents_ix: index_table "agent_host lib" replaceAgent
  by unfold_locales (simp add: replaceAgent_def)

definition sanitizeCLIAgentData :: "'u url_lib \<Rightarrow> cliAgentData \<Rightarrow> cliAgentData result" where
  "sanitizeCLIAgentData lib d =
     bind_ok (sanitize_from lib empty_index (cd_Agents d)) (\<lambda>agents.
       Ok \<lparr>cd_APIVersion = (if cd_APIVersion d = [] then ''v1'' else cd_APIVersion d), cd_Agents = agents\<rparr>)"

definition readCLIAgentData :: "('w, 'u) config_env \<Rightarrow> 'w \<Rightarrow> cliAgentData result \<times> 'w" where
  "readCLIAgentData env w =
     (case cliConfigSource env w of
        (Inl e, w1) \<Rightarrow> (Inl e, w1)
      | (Inr src, w1) \<Rightarrow>
          (bind_ok (wrap_error ''failed to read CLI agent config'' (source_Read (ce_io env) src w1)) (\<lambda>r.
           bind_ok (wrap_error ''failed to parse CLI agent config'' (y_read_cli (ce_yaml env) r)) (\<lambda>d.
             sanitizeCLIAgentData (ce_url env) d)), w1))"

definition writeCLIAgentData :: "('w, 'u) config_env \<Rightarrow> cliAgentData \<Rightarrow> 'w \<Rightarrow> err option \<times> 'w" where
  "writeCLIAgentData env d w =
     (case cliConfigSource env w of
        (Inl e, w1) \<Rightarrow> (Some e, w1)
      | (Inr src, w1) \<Rightarrow>
          (case bind_ok (sanitizeCLIAgentData (ce_url env) d) (\<lambda>d'.
                  wrap_error ''failed to serialize CLI agent config'' (y_write_cli (ce_yaml env) d')) of
             Inl e \<Rightarrow> (Some e, w1)
           | Inr bytes \<Rightarrow> source_Write (ce_io env) src bytes w1))"

definition updateCLIAgentData ::
  "('w, 'u) config_env \<Rightarrow> (cliAgentData \<Rightarrow> cliAgentData result) \<Rightarrow> 'w \<Rightarrow> err option \<times> 'w" where
  "updateCLIAgentData env f w =
     (case readCLIAgentData env w of
        (Inl e, w1) \<Rightarrow> (Some e, w1)
      | (Inr d, w1) \<Rightarrow> (case f d of Inl e \<Rightarrow> (Some e, w1) | Inr d' \<Rightarrow> writeCLIAgentData env d' w1))"

definition invokeWithCLIAgentData ::
  "('w, 'u) config_env \<Rightarrow> (cliAgentData \<Rightarrow> 'a result) \<Rightarrow> 'w \<Rightarrow> 'a result \<times> 'w" where
  "invokeWithCLIAgentData env f w =
     (case readCLIAgentData env w of (Inl e, w1) \<Rightarrow> (Inl e, w1) | (Inr d, w1) \<Rightarrow> (f d, w1))"

definition normalizeCLIAgentConfig :: "('w, 'u) config_env \<Rightarrow> 'w \<Rightarrow> err option \<times> 'w" where
  "normalizeCLIAgentConfig env = updateCLIAgentData env Ok"

section \<open>Operations on the rows\<close>

text \<open>\<open>slices.IndexFunc\<close>: the first index, if any.\<close>

fun IndexFunc :: "'a list \<Rightarrow> ('a \<Rightarrow> bool) \<Rightarrow> nat option" where
  "IndexFunc [] P = None"
| "IndexFunc (x # xs) P = (if P x then Some 0 else map_option Suc (IndexFunc xs P))"

definition findAgentIndex :: "agent list \<Rightarrow> string \<Rightarrow> nat option" where
  "findAgentIndex agents targetServer = IndexFunc agents (\<lambda>a. TrimSpace (ag_TargetSrv a) = targetServer)"

definition findAgentHostIndex :: "'u url_lib \<Rightarrow> agent list \<Rightarrow> string \<Rightarrow> nat option" where
  "findAgentHostIndex lib agents hostname = IndexFunc agents (\<lambda>a. targetServerHostname lib (ag_TargetSrv a) = hostname)"

definition with_agents :: "agent list \<Rightarrow> cliAgentData \<Rightarrow> cliAgentData" where
  "with_agents as d = d\<lparr>cd_Agents := as\<rparr>"

definition agent_missing :: "string \<Rightarrow> err" where
  "agent_missing t = NewError (''agent '' @ Quote t @ '' does not exist'')"

definition agent_exists :: "string \<Rightarrow> err" where
  "agent_exists t = NewError (''agent '' @ Quote t @ '' already exists'')"

definition agent_host_exists :: "string \<Rightarrow> err" where
  "agent_host_exists h = NewError (''agent host '' @ Quote h @ '' already exists'')"

definition create_agent :: "'u url_lib \<Rightarrow> agent \<Rightarrow> cliAgentData \<Rightarrow> cliAgentData result" where
  "create_agent lib a d =
     (if findAgentIndex (cd_Agents d) (ag_TargetSrv a) \<noteq> None then Inl (agent_exists (ag_TargetSrv a))
      else if findAgentHostIndex lib (cd_Agents d) (agent_host lib a) \<noteq> None
      then Inl (agent_host_exists (agent_host lib a))
      else Ok (with_agents (cd_Agents d @ [a]) d))"

definition upsert_agent :: "'u url_lib \<Rightarrow> string \<Rightarrow> agent \<Rightarrow> cliAgentData \<Rightarrow> cliAgentData result" where
  "upsert_agent lib hostname a d =
     (case findAgentHostIndex lib (cd_Agents d) hostname of
        Some i \<Rightarrow> Ok (with_agents ((cd_Agents d)[i := a]) d)
      | None \<Rightarrow> Ok (with_agents (cd_Agents d @ [a]) d))"

definition elsewhere :: "nat option \<Rightarrow> nat \<Rightarrow> bool" where
  "elsewhere j i = (case j of None \<Rightarrow> False | Some k \<Rightarrow> k \<noteq> i)"

definition update_agent :: "'u url_lib \<Rightarrow> string \<Rightarrow> agent \<Rightarrow> cliAgentData \<Rightarrow> cliAgentData result" where
  "update_agent lib target a d =
     (case findAgentIndex (cd_Agents d) target of
        None \<Rightarrow> Inl (agent_missing target)
      | Some i \<Rightarrow>
          if elsewhere (findAgentIndex (cd_Agents d) (ag_TargetSrv a)) i then Inl (agent_exists (ag_TargetSrv a))
          else if elsewhere (findAgentHostIndex lib (cd_Agents d) (agent_host lib a)) i
          then Inl (agent_host_exists (agent_host lib a))
          else Ok (with_agents ((cd_Agents d)[i := a]) d))"

definition delete_agent :: "'u url_lib \<Rightarrow> string \<Rightarrow> cliAgentData \<Rightarrow> cliAgentData result" where
  "delete_agent lib target d =
     (case (case findAgentIndex (cd_Agents d) target of
              Some i \<Rightarrow> Some i
            | None \<Rightarrow> findAgentHostIndex lib (cd_Agents d) (targetServerHostname lib target)) of
        None \<Rightarrow> Inl (agent_missing target)
      | Some i \<Rightarrow> Ok (with_agents (take i (cd_Agents d) @ drop (Suc i) (cd_Agents d)) d))"

section \<open>The exported functions\<close>

text \<open>An error of normalising the arguments comes before the registry is read.\<close>

definition or_error :: "'a result \<Rightarrow> ('a \<Rightarrow> 'w \<Rightarrow> err option \<times> 'w) \<Rightarrow> 'w \<Rightarrow> err option \<times> 'w" where
  "or_error r f w = (case r of Inl e \<Rightarrow> (Some e, w) | Inr x \<Rightarrow> f x w)"

definition AddAgentToConfig :: "('w, 'u) config_env \<Rightarrow> agent \<Rightarrow> 'w \<Rightarrow> err option \<times> 'w" where
  "AddAgentToConfig env a = updateCLIAgentData env (\<lambda>d. Ok (with_agents (cd_Agents d @ [a]) d))"

definition RegisteredAgents :: "('w, 'u) config_env \<Rightarrow> 'w \<Rightarrow> agent list result \<times> 'w" where
  "RegisteredAgents env = invokeWithCLIAgentData env (\<lambda>d. Ok (cd_Agents d))"

definition RegisteredAgent :: "('w, 'u) config_env \<Rightarrow> string \<Rightarrow> 'w \<Rightarrow> agent result \<times> 'w" where
  "RegisteredAgent env targetServer w =
     (case normalizeTargetServer (ce_url env) targetServer of
        Inl e \<Rightarrow> (Inl e, w)
      | Inr t \<Rightarrow> invokeWithCLIAgentData env (\<lambda>d.
          case findAgentIndex (cd_Agents d) t of
            None \<Rightarrow> Inl (agent_missing t)
          | Some i \<Rightarrow> Ok (cd_Agents d ! i)) w)"

definition CreateAgentInConfig :: "('w, 'u) config_env \<Rightarrow> agent \<Rightarrow> 'w \<Rightarrow> err option \<times> 'w" where
  "CreateAgentInConfig env a =
     or_error (normalizeAgent (ce_url env) a) (\<lambda>n. updateCLIAgentData env (create_agent (ce_url env) n))"

definition UpsertAgentForHostInConfig :: "('w, 'u) config_env \<Rightarrow> string \<Rightarrow> agent \<Rightarrow> 'w \<Rightarrow> err option \<times> 'w" where
  "UpsertAgentForHostInConfig env hostname a =
     or_error (normalizeAgent (ce_url env) a) (\<lambda>n.
       updateCLIAgentData env (upsert_agent (ce_url env) (cfg_normalizeHostName (ce_url env) hostname) n))"

definition UpdateAgentInConfig :: "('w, 'u) config_env \<Rightarrow> string \<Rightarrow> agent \<Rightarrow> 'w \<Rightarrow> err option \<times> 'w" where
  "UpdateAgentInConfig env targetServer updated =
     or_error (normalizeTargetServer (ce_url env) targetServer) (\<lambda>t.
       or_error (normalizeAgent (ce_url env) updated) (\<lambda>n.
         updateCLIAgentData env (update_agent (ce_url env) t n)))"

definition DeleteAgentFromConfig :: "('w, 'u) config_env \<Rightarrow> string \<Rightarrow> 'w \<Rightarrow> err option \<times> 'w" where
  "DeleteAgentFromConfig env targetServer =
     or_error (normalizeTargetServer (ce_url env) targetServer) (\<lambda>t.
       updateCLIAgentData env (delete_agent (ce_url env) t))"

fun address_of :: "'u url_lib \<Rightarrow> string \<Rightarrow> agent list \<Rightarrow> string" where
  "address_of lib h [] = []"
| "address_of lib h (a # as) =
     (if targetServerHostname lib (ag_TargetSrv a) = h then ag_TargetSrv a else address_of lib h as)"

definition AgentAddressIfRegistered :: "('w, 'u) config_env \<Rightarrow> string \<Rightarrow> 'w \<Rightarrow> (string \<times> bool) result \<times> 'w" where
  "AgentAddressIfRegistered env hostname =
     invokeWithCLIAgentData env (\<lambda>d.
       let address = address_of (ce_url env) (cfg_normalizeHostName (ce_url env) hostname) (cd_Agents d)
       in Ok (address, address \<noteq> []))"

definition AgentAddress :: "('w, 'u) config_env \<Rightarrow> string \<Rightarrow> 'w \<Rightarrow> string result \<times> 'w" where
  "AgentAddress env hostname w =
     (case AgentAddressIfRegistered env hostname w of
        (Inl e, w1) \<Rightarrow> (Inl e, w1)
      | (Inr (address, found), w1) \<Rightarrow>
          (if found then Ok address else Fail (''No agent found with hostname '' @ Quote hostname), w1))"

section \<open>The agent's clients\<close>

definition kAgentFileName :: string where "kAgentFileName = ''aconfig.yaml''"

definition agentConfigSource :: "('w, 'u) config_env \<Rightarrow> 'w \<Rightarrow> source result \<times> 'w" where
  "agentConfigSource env w =
     (case wrap_error ''failed to create agent config source'' (NewLocalSource (ce_io env) (ce_ConfigFile env kAgentFileName)) of
        Inl e \<Rightarrow> (Inl e, w)
      | Inr src \<Rightarrow>
          (case EnsureSourceWithDefault (ce_io env) src defaultAgentConfig w of
             (Some e, w1) \<Rightarrow> (Inl (AppendError ''failed to ensure agent config exists'' e), w1)
           | (None, w1) \<Rightarrow> (Ok src, w1)))"

definition readAgentData :: "('w, 'u) config_env \<Rightarrow> 'w \<Rightarrow> agentClientData result \<times> 'w" where
  "readAgentData env w =
     (case agentConfigSource env w of
        (Inl e, w1) \<Rightarrow> (Inl e, w1)
      | (Inr src, w1) \<Rightarrow>
          (bind_ok (wrap_error ''failed to read agent config'' (source_Read (ce_io env) src w1)) (\<lambda>r.
             wrap_error ''failed to parse agent config'' (y_read_agent (ce_yaml env) r)), w1))"

definition writeAgentData :: "('w, 'u) config_env \<Rightarrow> agentClientData \<Rightarrow> 'w \<Rightarrow> err option \<times> 'w" where
  "writeAgentData env d w =
     (case agentConfigSource env w of
        (Inl e, w1) \<Rightarrow> (Some e, w1)
      | (Inr src, w1) \<Rightarrow>
          (case wrap_error ''failed to serialize agent config''
             (y_write_agent (ce_yaml env) (if acd_APIVersion d = [] then d\<lparr>acd_APIVersion := ''v1''\<rparr> else d)) of
             Inl e \<Rightarrow> (Some e, w1)
           | Inr bytes \<Rightarrow> source_Write (ce_io env) src bytes w1))"

definition RegisteredClients :: "('w, 'u) config_env \<Rightarrow> 'w \<Rightarrow> client list result \<times> 'w" where
  "RegisteredClients env w =
     (case readAgentData env w of (Inl e, w1) \<Rightarrow> (Inl e, w1) | (Inr d, w1) \<Rightarrow> (Ok (acd_Clients d), w1))"

definition AddClientToConfig :: "('w, 'u) config_env \<Rightarrow> client \<Rightarrow> 'w \<Rightarrow> err option \<times> 'w" where
  "AddClientToConfig env c w =
     (case readAgentData env w of
        (Inl e, w1) \<Rightarrow> (Some e, w1)
      | (Inr d, w1) \<Rightarrow> writeAgentData env (d\<lparr>acd_Clients := acd_Clients d @ [c]\<rparr>) w1)"

section \<open>Starting up\<close>

text \<open>The removal of a list of paths, stopping at the first failure.\<close>

fun remove_paths :: "'w fs_io \<Rightarrow> string \<Rightarrow> string list \<Rightarrow> 'w \<Rightarrow> err option \<times> 'w" where
  "remove_paths io m [] w = (None, w)"
| "remove_paths io m (p # ps) w =
     (case fs_RemoveAll io p w of
        (Some e, w1) \<Rightarrow> (Some (AppendError (m @ p) e), w1)
      | (None, w1) \<Rightarrow> remove_paths io m ps w1)"

definition move_legacy :: "('w, 'u) config_env \<Rightarrow> string \<Rightarrow> string \<Rightarrow> 'w \<Rightarrow> err option \<times> 'w" where
  "move_legacy env legacy current w =
     (let io = ce_io env in
      if fs_Exists io legacy w \<and> \<not> fs_Exists io current w then
        (case fs_ReadFile io legacy w of
           Inl e \<Rightarrow> (Some (AppendError (''failed to read legacy agent config '' @ legacy) e), w)
         | Inr content \<Rightarrow>
             (let dir = path_Clean (trim_right (\<lambda>c. c \<noteq> CHR ''/'') current) in
              case fs_EnsureConfigDir io dir w of
                (Some e, w1) \<Rightarrow> (Some (AppendError (''failed to create agent config directory '' @ dir) e), w1)
              | (None, w1) \<Rightarrow>
                  (case fs_WriteFile io current content w1 of
                     (Some e, w2) \<Rightarrow> (Some (AppendError (''failed to migrate legacy agent config to '' @ current) e), w2)
                   | (None, w2) \<Rightarrow> (None, w2))))
      else (None, w))"

definition migrateLegacyAgentConfig :: "('w, 'u) config_env \<Rightarrow> 'w \<Rightarrow> err option \<times> 'w" where
  "migrateLegacyAgentConfig env w =
     (let legacy = ce_ClientConfigDir env kAgentFileName; current = ce_AgentConfigDir env kAgentFileName in
      case move_legacy env legacy current w of
        (Some e, w1) \<Rightarrow> (Some e, w1)
      | (None, w1) \<Rightarrow> remove_paths (ce_io env) ''failed to remove legacy agent config '' [legacy, ce_ClientConfigDir env ''aconfig''] w1)"

definition cleanupObsoleteAgentState :: "('w, 'u) config_env \<Rightarrow> 'w \<Rightarrow> err option \<times> 'w" where
  "cleanupObsoleteAgentState env =
     remove_paths (ce_io env) ''failed to remove obsolete agent state ''
       (map (ce_AgentConfigDir env) [''aconfig'', ''artifacts'', ''containers'', ''certsjson''])"

text \<open>\<open>cenv.CleanupStaleTempFiles\<close> is the parameter \<open>cleanup\<close>.\<close>

definition err_seq :: "('w \<Rightarrow> err option \<times> 'w) \<Rightarrow> ('w \<Rightarrow> err option \<times> 'w) \<Rightarrow> 'w \<Rightarrow> err option \<times> 'w" where
  "err_seq f g w = (case f w of (Some e, w1) \<Rightarrow> (Some e, w1) | (None, w1) \<Rightarrow> g w1)"

definition ignore_value :: "('w \<Rightarrow> 'a result \<times> 'w) \<Rightarrow> 'w \<Rightarrow> err option \<times> 'w" where
  "ignore_value f w = (case f w of (Inl e, w1) \<Rightarrow> (Some e, w1) | (Inr _, w1) \<Rightarrow> (None, w1))"

definition InitCLIConfig :: "('w, 'u) config_env \<Rightarrow> ('w \<Rightarrow> err option \<times> 'w) \<Rightarrow> 'w \<Rightarrow> err option \<times> 'w" where
  "InitCLIConfig env cleanup =
     err_seq (migrateLegacyAgentConfig env) (err_seq cleanup
       (err_seq (ignore_value (cliConfigSource env)) (err_seq (ignore_value (dbSource env)) (normalizeCLIAgentConfig env))))"

definition InitAgentConfig :: "('w, 'u) config_env \<Rightarrow> ('w \<Rightarrow> err option \<times> 'w) \<Rightarrow> 'w \<Rightarrow> err option \<times> 'w" where
  "InitAgentConfig env cleanup =
     err_seq (migrateLegacyAgentConfig env) (err_seq (cleanupObsoleteAgentState env)
       (err_seq cleanup (ignore_value (agentConfigSource env))))"

end
