(* ===== verification/RegistryProps.thy ===== *)
theory RegistryProps
  imports AgentRegistry
begin

text \<open>
  The registry of agents as a map from host to agent: normalising an address is idempotent
  and keeps its host, every write leaves one row per host with a normal address, and the
  operations are the map's operations.
\<close>

section \<open>Splitting and joining\<close>

text \<open>Lower case touches no separator.\<close>

lemma lower_sep: "lower_char c = CHR '':'' \<longleftrightarrow> c = CHR '':''" "lower_char c = CHR ''['' \<longleftrightarrow> c = CHR ''[''"
  "lower_char c = CHR '']'' \<longleftrightarrow> c = CHR '']''"
proof -
  have k: "char_code (CHR '':'') = 58" by code_simp
  have l: "char_code (CHR ''['') = 91" by code_simp
  have m: "char_code (CHR '']'') = 93" by code_simp
  have "lower_char c = d \<longleftrightarrow> c = d" if d: "char_code d \<in> {58, 91, 93}" for d
  proof (cases "65 \<le> char_code c \<and> char_code c \<le> 90")
    case True
    then have "char_code (lower_char c) = char_code c + 32" by (simp add: lower_code)
    then show ?thesis using True d by auto
  next
    case False
    then show ?thesis by (simp add: lower_char_other)
  qed
  then show "lower_char c = CHR '':'' \<longleftrightarrow> c = CHR '':''" "lower_char c = CHR ''['' \<longleftrightarrow> c = CHR ''[''"
    "lower_char c = CHR '']'' \<longleftrightarrow> c = CHR '']''" using k l m by simp_all
qed

lemma sep_in_lower [simp]: "CHR '':'' \<in> set (ToLower s) \<longleftrightarrow> CHR '':'' \<in> set s"
  "CHR ''['' \<in> set (ToLower s) \<longleftrightarrow> CHR ''['' \<in> set s" "CHR '']'' \<in> set (ToLower s) \<longleftrightarrow> CHR '']'' \<in> set s"
  by (simp_all only: ToLower_def set_map image_iff lower_sep eq_commute [of _ "lower_char _"]) blast+

lemma takeWhile_lower:
  "takeWhile (\<lambda>c. c \<noteq> CHR '':'') (ToLower s) = ToLower (takeWhile (\<lambda>c. c \<noteq> CHR '':'') s)"
  "takeWhile (\<lambda>c. c \<noteq> CHR '']'') (ToLower s) = ToLower (takeWhile (\<lambda>c. c \<noteq> CHR '']'') s)"
  by (simp_all only: ToLower_def takeWhile_map comp_def lower_sep)

lemma ToLower_list: "rev (ToLower s) = ToLower (rev s)" "take n (ToLower s) = ToLower (take n s)"
  "drop n (ToLower s) = ToLower (drop n s)" "length (ToLower s) = length s" "ToLower (s @ t) = ToLower s @ ToLower t"
  "tl (ToLower s) = ToLower (tl s)"
  by (simp_all add: ToLower_def rev_map take_map drop_map map_tl)

lemma lower_parts:
  "after_last_colon (ToLower s) = ToLower (after_last_colon s)"
  "before_last_colon (ToLower s) = ToLower (before_last_colon s)"
proof -
  show a: "after_last_colon (ToLower s) = ToLower (after_last_colon s)"
    by (simp only: after_last_colon_def ToLower_list takeWhile_lower)
  then show "before_last_colon (ToLower s) = ToLower (before_last_colon s)"
    by (simp only: before_last_colon_def ToLower_list)
qed

lemma last_colon_parts:
  assumes "CHR '':'' \<notin> set p"
  shows "after_last_colon (h @ CHR '':'' # p) = p" "before_last_colon (h @ CHR '':'' # p) = h"
proof -
  have "takeWhile (\<lambda>c. c \<noteq> CHR '':'') (rev p @ CHR '':'' # rev h) = rev p @ takeWhile (\<lambda>c. c \<noteq> CHR '':'') (CHR '':'' # rev h)"
    by (rule takeWhile_append2) (use assms in auto)
  then show a: "after_last_colon (h @ CHR '':'' # p) = p" by (simp add: after_last_colon_def)
  show "before_last_colon (h @ CHR '':'' # p) = h" by (simp add: before_last_colon_def a)
qed

lemma colon_split:
  assumes "CHR '':'' \<in> set s"
  shows "s = before_last_colon s @ CHR '':'' # after_last_colon s" "CHR '':'' \<notin> set (after_last_colon s)"
proof -
  obtain h p where "s = h @ CHR '':'' # p" "CHR '':'' \<notin> set p" using split_list_last [OF assms] by blast
  then show "s = before_last_colon s @ CHR '':'' # after_last_colon s" "CHR '':'' \<notin> set (after_last_colon s)"
    by (simp_all add: last_colon_parts)
qed

lemma split_plain:
  assumes "CHR ''['' \<notin> set s"
  shows "SplitHostPort s =
    (if CHR '':'' \<notin> set s then Inl missingPort
     else if CHR '':'' \<in> set (before_last_colon s) then Inl tooManyColons
     else if CHR '']'' \<in> set s then Fail ''unexpected ']' in address''
     else Ok (before_last_colon s, after_last_colon s))"
proof (cases "CHR '':'' \<in> set s")
  case True
  then have "hd s \<noteq> CHR ''[''" using assms by (cases s) auto
  then show ?thesis using assms True by (simp add: SplitHostPort_def Let_def)
qed (simp add: SplitHostPort_def)

definition bracketed :: "string \<Rightarrow> string \<Rightarrow> string" where
  "bracketed h p = CHR ''['' # h @ CHR '']'' # CHR '':'' # p"

definition bracket_free :: "string \<Rightarrow> bool" where
  "bracket_free s = (CHR ''['' \<notin> set s \<and> CHR '']'' \<notin> set s)"

lemma split_bracketed:
  assumes "bracket_free h" "bracket_free p" "CHR '':'' \<notin> set p"
  shows "SplitHostPort (bracketed h p) = Ok (h, p)"
proof -
  have "takeWhile (\<lambda>c. c \<noteq> CHR '']'') (h @ CHR '']'' # CHR '':'' # p) = h"
    using assms(1) by (subst takeWhile_append2) (auto simp: bracket_free_def)
  moreover have "after_last_colon (bracketed h p) = p"
    using last_colon_parts(1) [OF assms(3), of "CHR ''['' # h @ [CHR '']'']"] by (simp add: bracketed_def)
  ultimately show ?thesis
    using assms by (simp add: SplitHostPort_def Let_def bracketed_def bracket_free_def)
qed

lemma trimmed_ends: "TrimSpace s = s \<longleftrightarrow> s = [] \<or> \<not> is_space (hd s) \<and> \<not> is_space (last s)"
proof
  assume t: "TrimSpace s = s"
  have l: "dropWhile is_space s = s"
    using trim_left_trim_by [of is_space s] t by (simp add: TrimSpace_def trim_left_def)
  then have "rev (dropWhile is_space (rev s)) = s"
    using t by (simp add: TrimSpace_def trim_by_def trim_left_def trim_right_def)
  then have "dropWhile is_space (rev s) = rev s" by (metis rev_rev_ident)
  with l show "s = [] \<or> \<not> is_space (hd s) \<and> \<not> is_space (last s)"
    by (cases "s = []") (metis hd_dropWhile hd_rev rev_is_Nil_conv)+
qed (simp add: TrimSpace_def trim_by_id)

lemma HasPrefix_one: "HasPrefix x [c] \<longleftrightarrow> x \<noteq> [] \<and> hd x = c"
  by (cases x) auto

section \<open>Normal addresses\<close>

text \<open>
  What the code relies on in \<open>net/url\<close>: whether a text is a URL with a host does not depend on
  case, a text that starts with a colon is none, and printing a parsed URL with its host in
  lower case and parsing it again gives that URL.
\<close>

definition url_contract :: "'u url_lib \<Rightarrow> bool" where
  "url_contract lib =
     ((\<forall>s t. ToLower s = ToLower t \<longrightarrow> (url_of lib s = None \<longleftrightarrow> url_of lib t = None)) \<and>
      (\<forall>s. HasPrefix s '':'' \<longrightarrow> url_of lib s = None) \<and>
      (\<forall>s u. url_of lib s = Some u \<longrightarrow> (let v = url_lower_host lib u; r = url_String lib v in
         url_of lib r = Some v \<and> url_lower_host lib v = v \<and> ToLower (url_Hostname lib v) = ToLower (url_Hostname lib u) \<and>
         TrimSpace r = r \<and> r \<noteq> [])))"

text \<open>An address as people write it: a URL, a host or host and port, or a bracketed IPv6 address with its port.\<close>

definition good_address :: "'u url_lib \<Rightarrow> string \<Rightarrow> bool" where
  "good_address lib t =
     (let s = TrimSpace t in url_of lib s \<noteq> None \<or> CHR ''['' \<notin> set s \<or>
       (\<exists>h p. s = bracketed h p \<and> bracket_free h \<and> bracket_free p \<and> CHR '':'' \<in> set h \<and> CHR '':'' \<notin> set p))"

definition address_ok :: "'u url_lib \<Rightarrow> string \<Rightarrow> string \<Rightarrow> bool" where
  "address_ok lib t u = (normalizeTargetServer lib u = Inr u \<and> targetServerHostname lib u = targetServerHostname lib t \<and>
     good_address lib u \<and> u \<noteq> [] \<and> TrimSpace u = u)"

lemma lower_hd_last: "s \<noteq> [] \<Longrightarrow> hd (ToLower s) = lower_char (hd s)" "s \<noteq> [] \<Longrightarrow> last (ToLower s) = lower_char (last s)"
  by (simp_all add: ToLower_def hd_map last_map)

lemma colon_not_space: "\<not> is_space (CHR '':'')" "\<not> is_space (CHR ''['')"
  by code_simp+

lemma address_ok_url:
  assumes "url_contract lib" "url_of lib (TrimSpace t) = Some w" "normalizeTargetServer lib t = Inr u"
  shows "address_ok lib t u"
proof -
  let ?v = "url_lower_host lib w"
  have u: "u = url_String lib ?v" using assms(2,3) by (auto simp: normalizeTargetServer_def Let_def split: if_splits)
  have c: "url_of lib u = Some ?v" "url_lower_host lib ?v = ?v" "ToLower (url_Hostname lib ?v) = ToLower (url_Hostname lib w)"
    "TrimSpace u = u" "u \<noteq> []" using assms(1,2) unfolding url_contract_def u Let_def by blast+
  have nc: "\<not> HasPrefix u '':''" "\<not> HasPrefix (TrimSpace t) '':''"
    using assms(1,2) c(1) unfolding url_contract_def by (metis option.distinct(1))+
  have "TrimSpace t \<noteq> []" using assms(2) by (auto simp: url_of_def split: if_splits)
  with c nc assms(2) show ?thesis
    by (simp add: address_ok_def normalizeTargetServer_def targetServerHostname_def good_address_def Let_def u [symmetric])
qed

lemma address_ok_plain:
  assumes "url_contract lib" "url_of lib (TrimSpace t) = None" "CHR ''['' \<notin> set (TrimSpace t)"
    "normalizeTargetServer lib t = Inr u"
  shows "address_ok lib t u"
proof -
  define s where "s = TrimSpace t"
  have s: "s \<noteq> []" "TrimSpace s = s" "url_of lib s = None" "CHR ''['' \<notin> set s"
    using assms by (auto simp: s_def normalizeTargetServer_def Let_def)
  have ends: "\<not> is_space (hd s)" "\<not> is_space (last s)" using s(1,2) trimmed_ends [of s] by auto
  have no_url: "url_of lib x = None" if "ToLower x = ToLower s" for x
    using assms(1) s(3) that unfolding url_contract_def by metis
  show ?thesis
  proof (cases "SplitHostPort s")
    case (Inl e)
    then have u: "u = ToLower s" using assms(4) s by (simp add: normalizeTargetServer_def Let_def s_def [symmetric])
    have "SplitHostPort u = Inl e"
      using Inl s(4) unfolding u by (simp add: split_plain lower_parts split: if_splits)
    moreover have "TrimSpace u = u" "u \<noteq> []" using ends s(1) by (simp_all add: u trimmed_ends lower_hd_last)
    moreover have "HasPrefix u '':'' = HasPrefix s '':''" using s(1) by (cases s) (simp_all add: u ToLower_def lower_sep)
    ultimately show ?thesis
      using Inl s no_url [of u]
      by (simp add: address_ok_def normalizeTargetServer_def targetServerHostname_def good_address_def Let_def s_def [symmetric]) (simp add: u)
  next
    case (Inr hp)
    then obtain h p where hp: "hp = (h, p)" "SplitHostPort s = Inr (h, p)" by (cases hp) auto
    then have c: "CHR '':'' \<in> set s" "h = before_last_colon s" "p = after_last_colon s" "CHR '':'' \<notin> set h" "CHR '']'' \<notin> set s"
      using s(4) by (auto simp: split_plain split: if_splits)
    then have sp: "s = h @ CHR '':'' # p" "CHR '':'' \<notin> set p" using colon_split [of s] by auto
    have b: "CHR ''['' \<notin> set h" "CHR ''['' \<notin> set p" "CHR '']'' \<notin> set h" "CHR '']'' \<notin> set p" using s(4) c(5) sp by auto
    show ?thesis
    proof (cases "h = []")
      case True
      then have "u = s" using assms(4) s hp by (simp add: normalizeTargetServer_def Let_def s_def [symmetric])
      then show ?thesis using True hp s
        by (simp add: address_ok_def normalizeTargetServer_def targetServerHostname_def good_address_def Let_def s_def [symmetric])
    next
      case False
      then have u: "u = ToLower h @ CHR '':'' # p"
        using assms(4) s hp c(4) by (simp add: normalizeTargetServer_def Let_def s_def [symmetric] JoinHostPort_def)
      have hds: "hd s \<noteq> CHR '':''" "hd u \<noteq> CHR '':''"
      proof -
        obtain x xs where h: "h = x # xs" "x \<noteq> CHR '':''" using False c(4) by (cases h) auto
        then have "hd s = x" "hd u = lower_char x" by (simp_all add: sp(1) u ToLower_def)
        then show "hd s \<noteq> CHR '':''" "hd u \<noteq> CHR '':''" using h(2) lower_sep(1) by metis+
      qed
      have "SplitHostPort u = Inr (ToLower h, p)"
        using b c(4) sp(2) last_colon_parts [OF sp(2), of "ToLower h"] unfolding u by (simp add: split_plain)
      moreover have "TrimSpace u = u"
      proof -
        have "hd u = lower_char (hd s)" using False by (cases h) (simp_all add: u sp(1) ToLower_def)
        moreover have "last u = last s" by (simp add: u sp(1))
        ultimately show ?thesis using ends by (simp add: trimmed_ends)
      qed
      moreover have "\<not> HasPrefix s '':''" "\<not> HasPrefix u '':''"
        using hds unfolding HasPrefix_one by blast+
      moreover have "url_of lib u = None" by (rule no_url) (simp add: u sp(1) ToLower_list)
      moreover have "JoinHostPort (ToLower h) p = u" using c(4) by (simp add: JoinHostPort_def u)
      moreover have "CHR ''['' \<notin> set u" using b by (simp add: u)
      ultimately show ?thesis
        using False s hp
        by (simp add: address_ok_def normalizeTargetServer_def targetServerHostname_def good_address_def Let_def s_def [symmetric])
          (simp add: u)
    qed
  qed
qed

lemma address_ok_ipv6:
  assumes "url_contract lib" "url_of lib (TrimSpace t) = None" "TrimSpace t = bracketed h p"
    "bracket_free h" "bracket_free p" "CHR '':'' \<in> set h" "CHR '':'' \<notin> set p" "normalizeTargetServer lib t = Inr u"
  shows "address_ok lib t u"
proof -
  have f: "bracket_free (ToLower h)" using assms(4) by (simp add: bracket_free_def)
  have hp: "SplitHostPort (TrimSpace t) = Inr (h, p)" "h \<noteq> []" using assms(3-7) by (auto simp: split_bracketed)
  then have u: "u = bracketed (ToLower h) p"
    using assms(2,3,6,8) by (simp add: normalizeTargetServer_def Let_def JoinHostPort_def bracketed_def)
  have split: "SplitHostPort u = Inr (ToLower h, p)" using f assms(5,7) by (simp add: u split_bracketed)
  have join: "JoinHostPort (ToLower h) p = u" using assms(6) by (simp add: JoinHostPort_def u bracketed_def)
  have "TrimSpace (TrimSpace t) = TrimSpace t" by simp
  then have "\<not> is_space (last (bracketed h p))" unfolding assms(3) trimmed_ends by (simp add: bracketed_def)
  then have trim: "TrimSpace u = u"
    using colon_not_space by (cases p rule: rev_cases) (auto simp: u bracketed_def trimmed_ends)
  have "ToLower u = ToLower (bracketed h p)" by (simp add: u bracketed_def ToLower_def)
  then have url: "url_of lib u = None" using assms(1-3) unfolding url_contract_def by metis
  have "\<not> HasPrefix u '':''" "u \<noteq> []" "\<not> HasPrefix (TrimSpace t) '':''" "TrimSpace t \<noteq> []"
    by (simp_all add: u assms(3) bracketed_def)
  moreover have "good_address lib u"
    using f assms(5-7) trim unfolding good_address_def Let_def u by (metis sep_in_lower(1))
  ultimately show ?thesis
    using split join trim url hp assms(2)
    by (simp add: address_ok_def normalizeTargetServer_def targetServerHostname_def Let_def)
qed

lemma address_normalized:
  assumes "url_contract lib" "good_address lib t" "normalizeTargetServer lib t = Inr u"
  shows "address_ok lib t u"
proof (cases "url_of lib (TrimSpace t)")
  case (Some w)
  then show ?thesis by (rule address_ok_url [OF assms(1) _ assms(3)])
next
  case None
  then show ?thesis
    using assms address_ok_plain [OF assms(1) None _ assms(3)] address_ok_ipv6 [OF assms(1) None _ _ _ _ _ assms(3)]
    unfolding good_address_def Let_def by blast
qed

section \<open>One row per host\<close>

definition registry_map :: "'u url_lib \<Rightarrow> agent list \<Rightarrow> string \<rightharpoonup> agent" where
  "registry_map lib as h = find (\<lambda>a. agent_host lib a = h) as"

definition normal_agent :: "'u url_lib \<Rightarrow> agent \<Rightarrow> bool" where
  "normal_agent lib a = address_ok lib (ag_TargetSrv a) (ag_TargetSrv a)"

definition wf_registry :: "'u url_lib \<Rightarrow> agent list \<Rightarrow> bool" where
  "wf_registry lib as = (distinct (map (agent_host lib) as) \<and> (\<forall>a \<in> set as. normal_agent lib a))"

lemma normalizeAgent_Inr:
  assumes "url_contract lib" "good_address lib (ag_TargetSrv a)" "normalizeAgent lib a = Inr n"
  shows "normal_agent lib n" "agent_host lib n = agent_host lib a"
proof -
  obtain u where u: "normalizeTargetServer lib (ag_TargetSrv a) = Inr u" "n = a\<lparr>ag_TargetSrv := u\<rparr>"
    using assms(3) by (auto simp: normalizeAgent_def bind_ok_def split: sum.splits)
  with address_normalized [OF assms(1,2) u(1)] show "normal_agent lib n" "agent_host lib n = agent_host lib a"
    by (simp_all add: normal_agent_def address_ok_def agent_host_def)
qed

lemma normal_agent_fix: "normal_agent lib a \<Longrightarrow> normalizeAgent lib a = Inr a"
  by (simp add: normal_agent_def address_ok_def normalizeAgent_def)

lemma registry_map_None: "registry_map lib as h = None \<longleftrightarrow> h \<notin> agent_host lib ` set as"
  by (auto simp: registry_map_def find_None_set)

lemma registry_map_Some:
  "distinct (map (agent_host lib) as) \<Longrightarrow> registry_map lib as h = Some a \<longleftrightarrow> a \<in> set as \<and> agent_host lib a = h"
  by (induction as) (auto simp: registry_map_def rev_image_eqI)

lemma registry_map_nth:
  "distinct (map (agent_host lib) as) \<Longrightarrow> i < length as \<Longrightarrow> registry_map lib as (agent_host lib (as ! i)) = Some (as ! i)"
  by (simp add: registry_map_Some)

lemma registry_map_eqI:
  assumes "distinct (map (agent_host lib) as)" "\<And>h a. m h = Some a \<longleftrightarrow> a \<in> set as \<and> agent_host lib a = h"
  shows "registry_map lib as = m"
proof
  fix h show "registry_map lib as h = m h"
    using registry_map_Some [OF assms(1), of h] assms(2) [of h] by (metis option.exhaust)
qed

text \<open>The three changes of the list that the operations make.\<close>

lemma registry_map_put:
  assumes "distinct (map (agent_host lib) bs)" "distinct (map (agent_host lib) cs)"
    "set cs = insert n (set bs)" "agent_host lib n \<notin> agent_host lib ` set bs"
  shows "registry_map lib cs = (registry_map lib bs)(agent_host lib n \<mapsto> n)"
proof (rule registry_map_eqI [OF assms(2)])
  fix h a
  show "((registry_map lib bs)(agent_host lib n \<mapsto> n)) h = Some a \<longleftrightarrow> a \<in> set cs \<and> agent_host lib a = h"
  proof (cases "h = agent_host lib n")
    case True
    have "\<forall>x \<in> set bs. agent_host lib x \<noteq> agent_host lib n" using assms(4) by (metis imageI)
    then show ?thesis using True assms(3) by auto
  next
    case False
    then show ?thesis using assms(3) registry_map_Some [OF assms(1), of h a] by auto
  qed
qed

lemma wf_append:
  assumes "wf_registry lib as" "normal_agent lib n" "agent_host lib n \<notin> agent_host lib ` set as"
  shows "wf_registry lib (as @ [n])" "registry_map lib (as @ [n]) = (registry_map lib as)(agent_host lib n \<mapsto> n)"
proof -
  show wf: "wf_registry lib (as @ [n])" using assms by (auto simp: wf_registry_def)
  show "registry_map lib (as @ [n]) = (registry_map lib as)(agent_host lib n \<mapsto> n)"
    by (rule registry_map_put) (use wf assms in \<open>auto simp: wf_registry_def\<close>)
qed

lemma wf_remove:
  assumes "wf_registry lib as" "i < length as"
  shows "wf_registry lib (take i as @ drop (Suc i) as)"
    "registry_map lib (take i as @ drop (Suc i) as) = (registry_map lib as)(agent_host lib (as ! i) := None)"
proof -
  let ?bs = "take i as @ drop (Suc i) as" and ?host = "agent_host lib"
  have split: "as = take i as @ as ! i # drop (Suc i) as" using assms(2) by (rule id_take_nth_drop)
  then have d: "distinct (map ?host (take i as @ as ! i # drop (Suc i) as))" using assms(1) by (simp add: wf_registry_def)
  have mem: "set as = insert (as ! i) (set ?bs)" by (subst split) auto
  have host: "?host (as ! i) \<notin> ?host ` set ?bs" using d by auto
  have "distinct (map ?host ?bs)" using d by auto
  then show wf: "wf_registry lib ?bs" using assms(1) mem unfolding wf_registry_def by blast
  have "registry_map lib as = (registry_map lib ?bs)(?host (as ! i) \<mapsto> as ! i)"
    by (rule registry_map_put) (use wf assms(1) mem host in \<open>auto simp: wf_registry_def\<close>)
  moreover have "registry_map lib ?bs (?host (as ! i)) = None" using host by (simp only: registry_map_None) simp
  ultimately show "registry_map lib ?bs = (registry_map lib as)(?host (as ! i) := None)" by auto
qed

lemma wf_replace:
  assumes "wf_registry lib as" "i < length as" "normal_agent lib n"
    "agent_host lib n = agent_host lib (as ! i) \<or> agent_host lib n \<notin> agent_host lib ` set as"
  shows "wf_registry lib (as[i := n])"
    "registry_map lib (as[i := n]) = (registry_map lib as)(agent_host lib (as ! i) := None, agent_host lib n \<mapsto> n)"
proof -
  let ?bs = "take i as @ drop (Suc i) as" and ?host = "agent_host lib"
  have upd: "as[i := n] = take i as @ n # drop (Suc i) as" by (rule upd_conv_take_nth_drop [OF assms(2)])
  have split: "as = take i as @ as ! i # drop (Suc i) as" using assms(2) by (rule id_take_nth_drop)
  note bs = wf_remove [OF assms(1,2)]
  have "distinct (map ?host (take i as @ as ! i # drop (Suc i) as))" using assms(1) split by (simp add: wf_registry_def)
  then have "?host (as ! i) \<notin> ?host ` set ?bs" by auto
  moreover have "set ?bs \<subseteq> set as" by (auto dest: in_set_takeD in_set_dropD)
  ultimately have host: "?host n \<notin> ?host ` set ?bs" using assms(4) by auto
  have mem: "set (as[i := n]) = insert n (set ?bs)" by (simp add: upd)
  show wf: "wf_registry lib (as[i := n])" using bs(1) host assms(3) by (auto simp: wf_registry_def upd)
  show "registry_map lib (as[i := n]) = (registry_map lib as)(?host (as ! i) := None, ?host n \<mapsto> n)"
    unfolding bs(2) [symmetric]
    by (rule registry_map_put) (use wf bs(1) mem host in \<open>auto simp: wf_registry_def\<close>)
qed

section \<open>Sanitising\<close>

definition fill :: "'u url_lib \<Rightarrow> agent list \<Rightarrow> agent list" where
  "fill lib ns = fst (foldl (index_put (agent_host lib) replaceAgent) empty_index ns)"

lemma sanitize_fold:
  assumes "url_contract lib"
  shows "\<forall>a \<in> set as. good_address lib (ag_TargetSrv a) \<Longrightarrow> sanitize_from lib st as = Inr bs \<Longrightarrow>
    \<exists>ns. (\<forall>n \<in> set ns. normal_agent lib n) \<and> map (agent_host lib) ns = map (agent_host lib) as \<and>
      bs = fst (foldl (index_put (agent_host lib) replaceAgent) st ns)"
proof (induction as arbitrary: st)
  case (Cons a as)
  then obtain n where n: "normalizeAgent lib a = Inr n" by (cases "normalizeAgent lib a") auto
  then have "sanitize_from lib (index_put (agent_host lib) replaceAgent st n) as = Inr bs" using Cons.prems(2) by simp
  moreover have "\<forall>a \<in> set as. good_address lib (ag_TargetSrv a)" using Cons.prems(1) by simp
  ultimately obtain ns where ns: "\<forall>n \<in> set ns. normal_agent lib n" "map (agent_host lib) ns = map (agent_host lib) as"
    "bs = fst (foldl (index_put (agent_host lib) replaceAgent) (index_put (agent_host lib) replaceAgent st n) ns)"
    using Cons.IH by blast
  have "good_address lib (ag_TargetSrv a)" using Cons.prems(1) by simp
  from normalizeAgent_Inr [OF assms this n] ns show ?case by (intro exI [of _ "n # ns"]) simp
qed simp

lemma fill_wf: "\<forall>n \<in> set ns. normal_agent lib n \<Longrightarrow> wf_registry lib (fill lib ns)"
proof -
  assume a: "\<forall>n \<in> set ns. normal_agent lib n"
  let ?f = "foldl (index_put (agent_host lib) replaceAgent) empty_index ns"
  have "\<forall>y \<in> set (fst ?f). normal_agent lib y"
    using agents_ix.fold_rows [of "normal_agent lib" lib empty_index ns] a by (simp add: replaceAgent_def)
  moreover have "idx_inv (agent_host lib) ?f" by (rule agents_ix.fold_inv) simp
  ultimately show ?thesis by (simp add: wf_registry_def fill_def idx_inv_def)
qed

lemma sanitize_wf:
  assumes "url_contract lib" "\<forall>a \<in> set as. good_address lib (ag_TargetSrv a)" "sanitize_from lib empty_index as = Inr bs"
  shows "wf_registry lib bs"
proof -
  obtain ns where "\<forall>n \<in> set ns. normal_agent lib n" "bs = fill lib ns"
    using sanitize_fold [OF assms] by (auto simp: fill_def)
  then show ?thesis using fill_wf by simp
qed

lemma sanitize_id: "wf_registry lib as \<Longrightarrow> sanitize_from lib empty_index as = Inr as"
proof -
  assume wf: "wf_registry lib as"
  have "sanitize_from lib st bs = Inr (fst (foldl (index_put (agent_host lib) replaceAgent) st bs))"
    if "\<forall>b \<in> set bs. normal_agent lib b" for st bs
    using that by (induction bs arbitrary: st) (simp_all add: normal_agent_fix)
  moreover have "fst (foldl (index_put (agent_host lib) replaceAgent) empty_index as) = as"
    using agents_ix.fold_distinct_id [of lib empty_index as] wf by (simp add: wf_registry_def)
  ultimately show ?thesis using wf by (simp add: wf_registry_def)
qed

text \<open>A row added at the end takes the place of the one with its host.\<close>

lemma sanitize_add:
  assumes "wf_registry lib as" "normalizeAgent lib a = Inr n" "normal_agent lib n"
  shows "\<exists>bs. sanitize_from lib empty_index (as @ [a]) = Inr bs \<and> wf_registry lib bs \<and>
    registry_map lib bs = (registry_map lib as)(agent_host lib n \<mapsto> n)"
proof -
  let ?put = "index_put (agent_host lib) replaceAgent" and ?st = "foldl (index_put (agent_host lib) replaceAgent) empty_index as"
  have fold: "sanitize_from lib st (bs @ [a]) = Inr (fst (?put (foldl ?put st bs) n))"
    if "\<forall>b \<in> set bs. normal_agent lib b" for st bs
    using that by (induction bs arbitrary: st) (simp_all add: normal_agent_fix assms(2))
  have st: "fst ?st = as" "idx_inv (agent_host lib) ?st"
    using agents_ix.fold_distinct_id [of lib empty_index as] agents_ix.fold_inv [of lib empty_index as] assms(1)
    by (simp_all add: wf_registry_def)
  have res: "sanitize_from lib empty_index (as @ [a]) = Inr (fst (?put ?st n))"
    using fold assms(1) by (simp add: wf_registry_def)
  show ?thesis
  proof (cases "agent_host lib n \<in> agent_host lib ` set as")
    case False
    then have "fst (?put ?st n) = as @ [n]" using agents_ix.put_fresh(1) [OF st(2)] st(1) by simp
    then show ?thesis using res wf_append [OF assms(1,3) False] by simp
  next
    case True
    then have "agent_host lib n \<in> agent_host lib ` set (fst ?st)" using st(1) by simp
    from agents_ix.put_known [OF st(2) this] obtain i where i': "i < length (fst ?st)" "agent_host lib (fst ?st ! i) = agent_host lib n"
      "?put ?st n = ((fst ?st)[i := replaceAgent (fst ?st ! i) n], snd ?st)" by metis
    then have i: "i < length as" "agent_host lib (as ! i) = agent_host lib n" "fst (?put ?st n) = as[i := n]"
      by (simp_all only: st(1) replaceAgent_def fst_conv)
    then show ?thesis using res wf_replace [OF assms(1) i(1) assms(3)] by simp
  qed
qed

section \<open>The registry on disk\<close>

text \<open>
  What is relied on: the registry's source resolves, reading gives its content, a write that
  succeeds makes the bytes its content, and the YAML package reads back what it wrote.
\<close>

definition cli_store :: "('w, 'u) config_env \<Rightarrow> ('w \<Rightarrow> string) \<Rightarrow> bool" where
  "cli_store env content =
     (\<forall>w. \<exists>src. cliConfigSource env w = (Inr src, w) \<and> source_Read (ce_io env) src w = Inr (content w) \<and>
        (\<forall>b w'. source_Write (ce_io env) src b w = (None, w') \<longrightarrow> content w' = b))"

definition yaml_reads_back :: "('w, 'u) config_env \<Rightarrow> bool" where
  "yaml_reads_back env = (\<forall>d b. y_write_cli (ce_yaml env) d = Inr b \<longrightarrow> y_read_cli (ce_yaml env) b = Inr d)"

lemma read_content:
  assumes "cli_store env content"
  shows "readCLIAgentData env w =
    (bind_ok (wrap_error ''failed to parse CLI agent config'' (y_read_cli (ce_yaml env) (content w))) (sanitizeCLIAgentData (ce_url env)), w)"
proof -
  obtain src where "cliConfigSource env w = (Inr src, w)" "source_Read (ce_io env) src w = Inr (content w)"
    using assms unfolding cli_store_def by blast
  then show ?thesis by (simp add: readCLIAgentData_def)
qed

lemma write_content:
  assumes "cli_store env content" "yaml_reads_back env" "writeCLIAgentData env d w = (None, w')"
  shows "\<exists>d'. sanitizeCLIAgentData (ce_url env) d = Inr d' \<and> y_read_cli (ce_yaml env) (content w') = Inr d'"
proof -
  obtain src where src: "cliConfigSource env w = (Inr src, w)"
    "\<forall>b w'. source_Write (ce_io env) src b w = (None, w') \<longrightarrow> content w' = b"
    using assms(1) by (metis cli_store_def)
  then obtain d' b where "sanitizeCLIAgentData (ce_url env) d = Inr d'" "y_write_cli (ce_yaml env) d' = Inr b"
    "source_Write (ce_io env) src b w = (None, w')"
    using assms(3) by (auto simp: writeCLIAgentData_def bind_ok_def wrap_error_def split: sum.splits)
  with src(2) assms(2) show ?thesis by (auto simp: yaml_reads_back_def)
qed

lemma write_reads:
  assumes "cli_store env content" "yaml_reads_back env" "writeCLIAgentData env d1 w = (None, w')"
    "sanitizeCLIAgentData (ce_url env) d1 = Inr d2" "sanitizeCLIAgentData (ce_url env) d2 = Inr d2"
  shows "readCLIAgentData env w' = (Inr d2, w')"
proof -
  have "y_read_cli (ce_yaml env) (content w') = Inr d2" using write_content [OF assms(1-3)] assms(4) by auto
  then show ?thesis using assms(5) by (simp add: read_content [OF assms(1)])
qed

lemma update_reads:
  assumes "cli_store env content" "yaml_reads_back env" "readCLIAgentData env w = (Inr d, w1)"
  shows "f d = Inl e \<Longrightarrow> updateCLIAgentData env f w = (Some e, w)"
    "\<lbrakk>f d = Inr d1; sanitizeCLIAgentData (ce_url env) d1 = Inr d2; sanitizeCLIAgentData (ce_url env) d2 = Inr d2;
      updateCLIAgentData env f w = (None, w')\<rbrakk> \<Longrightarrow> readCLIAgentData env w' = (Inr d2, w')"
proof -
  have w: "w1 = w" using assms(3) read_content [OF assms(1), of w] by simp
  then show "f d = Inl e \<Longrightarrow> updateCLIAgentData env f w = (Some e, w)"
    using assms(3) by (simp add: updateCLIAgentData_def)
  assume "f d = Inr d1" "sanitizeCLIAgentData (ce_url env) d1 = Inr d2" "sanitizeCLIAgentData (ce_url env) d2 = Inr d2"
    "updateCLIAgentData env f w = (None, w')"
  then show "readCLIAgentData env w' = (Inr d2, w')"
    using assms(3) w by (intro write_reads [OF assms(1,2), of d1 w]) (simp_all add: updateCLIAgentData_def)
qed

section \<open>The operations on the map\<close>

datatype registry_op = AddOp agent | CreateOp agent | UpsertOp string agent | UpdateOp string agent | DeleteOp string

fun run_registry :: "('w, 'u) config_env \<Rightarrow> registry_op \<Rightarrow> 'w \<Rightarrow> err option \<times> 'w" where
  "run_registry env (AddOp a) = AddAgentToConfig env a"
| "run_registry env (CreateOp a) = CreateAgentInConfig env a"
| "run_registry env (UpsertOp h a) = UpsertAgentForHostInConfig env h a"
| "run_registry env (UpdateOp t a) = UpdateAgentInConfig env t a"
| "run_registry env (DeleteOp t) = DeleteAgentFromConfig env t"

text \<open>What each operation is for the map; \<open>None\<close> is a refusal.\<close>

definition with_normal :: "'u url_lib \<Rightarrow> agent \<Rightarrow> (agent \<Rightarrow> 'a option) \<Rightarrow> 'a option" where
  "with_normal lib a f = (case normalizeAgent lib a of Inl e \<Rightarrow> None | Inr n \<Rightarrow> f n)"

fun registry_spec :: "'u url_lib \<Rightarrow> registry_op \<Rightarrow> (string \<rightharpoonup> agent) \<Rightarrow> (string \<rightharpoonup> agent) option" where
  "registry_spec lib (AddOp a) m = with_normal lib a (\<lambda>n. Some (m(agent_host lib n \<mapsto> n)))"
| "registry_spec lib (CreateOp a) m =
     with_normal lib a (\<lambda>n. if agent_host lib n \<in> dom m then None else Some (m(agent_host lib n \<mapsto> n)))"
| "registry_spec lib (UpsertOp h a) m = with_normal lib a (\<lambda>n. Some (m(agent_host lib n \<mapsto> n)))"
| "registry_spec lib (UpdateOp t a) m =
     (case normalizeTargetServer lib t of
        Inl e \<Rightarrow> None
      | Inr u \<Rightarrow> with_normal lib a (\<lambda>n. let h = targetServerHostname lib u in
          if map_option ag_TargetSrv (m h) = Some u \<and> (agent_host lib n = h \<or> agent_host lib n \<notin> dom m)
          then Some (m(h := None, agent_host lib n \<mapsto> n)) else None))"
| "registry_spec lib (DeleteOp t) m =
     (case normalizeTargetServer lib t of
        Inl e \<Rightarrow> None
      | Inr u \<Rightarrow> let h = targetServerHostname lib u in if h \<in> dom m then Some (m(h := None)) else None)"

text \<open>The addresses are such as people write them, and an upsert is for the host of its address.\<close>

fun op_good :: "'u url_lib \<Rightarrow> registry_op \<Rightarrow> bool" where
  "op_good lib (AddOp a) = good_address lib (ag_TargetSrv a)"
| "op_good lib (CreateOp a) = good_address lib (ag_TargetSrv a)"
| "op_good lib (UpsertOp h a) = (good_address lib (ag_TargetSrv a) \<and> cfg_normalizeHostName lib h = agent_host lib a)"
| "op_good lib (UpdateOp t a) = (good_address lib t \<and> good_address lib (ag_TargetSrv a))"
| "op_good lib (DeleteOp t) = good_address lib t"

lemma IndexFunc_None: "IndexFunc xs P = None \<longleftrightarrow> (\<forall>x \<in> set xs. \<not> P x)"
  by (induction xs) auto

lemma IndexFunc_Some: "IndexFunc xs P = Some i \<Longrightarrow> i < length xs \<and> P (xs ! i)"
  by (induction xs arbitrary: i) (auto split: if_splits)

lemma host_index_None: "findAgentHostIndex lib as h = None \<longleftrightarrow> registry_map lib as h = None"
  by (auto simp: findAgentHostIndex_def IndexFunc_None registry_map_None agent_host_def)

lemma host_index_Some: "findAgentHostIndex lib as h = Some i \<Longrightarrow> i < length as \<and> agent_host lib (as ! i) = h"
  by (auto simp: findAgentHostIndex_def agent_host_def dest: IndexFunc_Some)

text \<open>In a registry of normal rows a row is found by its address exactly when its host's row has that address.\<close>

lemma address_index:
  assumes "wf_registry lib as"
  shows "findAgentIndex as u = Some i \<Longrightarrow> i < length as \<and> ag_TargetSrv (as ! i) = u \<and> agent_host lib (as ! i) = targetServerHostname lib u"
    "findAgentIndex as u \<noteq> None \<longleftrightarrow> map_option ag_TargetSrv (registry_map lib as (targetServerHostname lib u)) = Some u"
proof -
  have trim: "\<forall>a \<in> set as. TrimSpace (ag_TargetSrv a) = ag_TargetSrv a"
    using assms by (simp add: wf_registry_def normal_agent_def address_ok_def)
  show s: "findAgentIndex as u = Some i \<Longrightarrow> i < length as \<and> ag_TargetSrv (as ! i) = u \<and> agent_host lib (as ! i) = targetServerHostname lib u"
    for i using trim by (auto simp: findAgentIndex_def agent_host_def dest!: IndexFunc_Some)
  have d: "distinct (map (agent_host lib) as)" using assms by (simp add: wf_registry_def)
  show "findAgentIndex as u \<noteq> None \<longleftrightarrow> map_option ag_TargetSrv (registry_map lib as (targetServerHostname lib u)) = Some u"
  proof
    assume "findAgentIndex as u \<noteq> None"
    then obtain i where "findAgentIndex as u = Some i" by blast
    from s [OF this] show "map_option ag_TargetSrv (registry_map lib as (targetServerHostname lib u)) = Some u"
      using registry_map_nth [OF d, of i] by auto
  next
    assume "map_option ag_TargetSrv (registry_map lib as (targetServerHostname lib u)) = Some u"
    then obtain a where "a \<in> set as" "ag_TargetSrv a = u" using registry_map_Some [OF d] by auto
    then show "findAgentIndex as u \<noteq> None" using trim by (auto simp: findAgentIndex_def IndexFunc_None)
  qed
qed

lemma sanitize_add_fails:
  "\<forall>b \<in> set bs. normal_agent lib b \<Longrightarrow> normalizeAgent lib a = Inl e \<Longrightarrow> \<exists>e'. sanitize_from lib st (bs @ [a]) = Inl e'"
  by (induction bs arbitrary: st) (simp_all add: normal_agent_fix)

lemma sanitize_data:
  assumes "sanitize_from lib empty_index bs = Inr cs" "wf_registry lib cs"
  shows "\<exists>d2. sanitizeCLIAgentData lib (with_agents bs d) = Inr d2 \<and> sanitizeCLIAgentData lib d2 = Inr d2 \<and> cd_Agents d2 = cs"
  using assms sanitize_id [OF assms(2)] by (simp add: sanitizeCLIAgentData_def with_agents_def)

definition refines :: "('w, 'u) config_env \<Rightarrow> 'w \<Rightarrow> err option \<times> 'w \<Rightarrow> (string \<rightharpoonup> agent) option \<Rightarrow> bool" where
  "refines env w res spec =
     ((spec = None \<longrightarrow> (\<exists>e. res = (Some e, w))) \<and>
      (\<forall>w'. res = (None, w') \<longrightarrow> (\<exists>m d'. spec = Some m \<and> readCLIAgentData env w' = (Inr d', w') \<and>
         registry_map (ce_url env) (cd_Agents d') = m \<and> wf_registry (ce_url env) (cd_Agents d'))))"

lemma refines_refused: "spec = None \<Longrightarrow> res = (Some e, w) \<Longrightarrow> refines env w res spec"
  by (simp add: refines_def)

lemma refines_change:
  assumes "cli_store env content" "yaml_reads_back env" "readCLIAgentData env w = (Inr d, w1)"
    and "f d = Inr (with_agents bs d)" "sanitize_from (ce_url env) empty_index bs = Inr cs" "wf_registry (ce_url env) cs"
    and "registry_map (ce_url env) cs = m"
  shows "refines env w (updateCLIAgentData env f w) (Some m)"
proof -
  obtain d2 where d2: "sanitizeCLIAgentData (ce_url env) (with_agents bs d) = Inr d2" "sanitizeCLIAgentData (ce_url env) d2 = Inr d2"
    "cd_Agents d2 = cs" using sanitize_data [OF assms(5,6), of d] by blast
  show ?thesis
    unfolding refines_def using update_reads(2) [where f = f, OF assms(1-3) assms(4) d2(1,2)] d2(3) assms(6,7) by auto
qed

lemma address_of_map:
  "wf_registry lib as \<Longrightarrow> (registry_map lib as h = None \<longrightarrow> address_of lib h as = []) \<and>
    (\<forall>a. registry_map lib as h = Some a \<longrightarrow> address_of lib h as = ag_TargetSrv a \<and> ag_TargetSrv a \<noteq> [])"
  by (induction as) (auto simp: registry_map_def wf_registry_def normal_agent_def address_ok_def agent_host_def)

text \<open>
  Each operation in a registry that reads as normal rows. \<open>ready\<close> collects what they share;
  an operation with an address that cannot be normalised is refused before the registry is read.
\<close>

definition ready :: "('w, 'u) config_env \<Rightarrow> ('w \<Rightarrow> string) \<Rightarrow> 'w \<Rightarrow> cliAgentData \<Rightarrow> bool" where
  "ready env content w d = (url_contract (ce_url env) \<and> cli_store env content \<and> yaml_reads_back env \<and>
     readCLIAgentData env w = (Inr d, w) \<and> wf_registry (ce_url env) (cd_Agents d))"

lemma ready_change:
  assumes "ready env content w d" "f d = Inr (with_agents bs d)" "sanitize_from (ce_url env) empty_index bs = Inr cs"
    "wf_registry (ce_url env) cs" "registry_map (ce_url env) cs = m"
  shows "refines env w (updateCLIAgentData env f w) (Some m)"
  using assms(1) refines_change [where f = f, OF _ _ _ assms(2-5), of content w] by (simp add: ready_def)

lemma ready_keep:
  assumes "ready env content w d" "f d = Inr (with_agents bs d)" "wf_registry (ce_url env) bs" "registry_map (ce_url env) bs = m"
  shows "refines env w (updateCLIAgentData env f w) (Some m)"
  using ready_change [where f = f, OF assms(1,2) sanitize_id [OF assms(3)] assms(3,4)] .

lemma ready_reject: "ready env content w d \<Longrightarrow> f d = Inl e \<Longrightarrow> refines env w (updateCLIAgentData env f w) None"
  using update_reads(1) [of env content w d w f e] by (simp add: ready_def refines_def)

lemma normalized:
  assumes "ready env content w d" "good_address (ce_url env) (ag_TargetSrv a)" "normalizeAgent (ce_url env) a = Inr n"
  shows "normal_agent (ce_url env) n" "agent_host (ce_url env) n = agent_host (ce_url env) a"
  using assms normalizeAgent_Inr by (auto simp: ready_def)

lemma add_refines:
  assumes r: "ready env content w d" and "good_address (ce_url env) (ag_TargetSrv a)"
  shows "refines env w (AddAgentToConfig env a w) (registry_spec (ce_url env) (AddOp a) (registry_map (ce_url env) (cd_Agents d)))"
proof (cases "normalizeAgent (ce_url env) a")
  case (Inl e)
  have "\<forall>b \<in> set (cd_Agents d). normal_agent (ce_url env) b" using r by (simp add: ready_def wf_registry_def)
  then obtain e' where "sanitize_from (ce_url env) empty_index (cd_Agents d @ [a]) = Inl e'"
    using sanitize_add_fails [OF _ Inl] by blast
  then have "sanitizeCLIAgentData (ce_url env) (with_agents (cd_Agents d @ [a]) d) = Inl e'"
    by (simp add: sanitizeCLIAgentData_def with_agents_def)
  moreover obtain src where "cliConfigSource env w = (Inr src, w)" using r unfolding ready_def cli_store_def by blast
  ultimately have "AddAgentToConfig env a w = (Some e', w)"
    using r by (simp add: ready_def AddAgentToConfig_def updateCLIAgentData_def writeCLIAgentData_def)
  then show ?thesis using Inl by (simp add: refines_def with_normal_def)
next
  case (Inr n)
  have "wf_registry (ce_url env) (cd_Agents d)" using r by (simp add: ready_def)
  then obtain cs where "sanitize_from (ce_url env) empty_index (cd_Agents d @ [a]) = Inr cs" "wf_registry (ce_url env) cs"
    "registry_map (ce_url env) cs = (registry_map (ce_url env) (cd_Agents d))(agent_host (ce_url env) n \<mapsto> n)"
    using sanitize_add [OF _ Inr normalized(1) [OF assms Inr]] by blast
  then show ?thesis using Inr ready_change [OF r] by (simp add: AddAgentToConfig_def with_normal_def)
qed

lemma create_refines:
  assumes r: "ready env content w d" and "good_address (ce_url env) (ag_TargetSrv a)"
  shows "refines env w (CreateAgentInConfig env a w) (registry_spec (ce_url env) (CreateOp a) (registry_map (ce_url env) (cd_Agents d)))"
proof (cases "normalizeAgent (ce_url env) a")
  case (Inl e)
  then show ?thesis by (simp add: CreateAgentInConfig_def or_error_def with_normal_def refines_def)
next
  case (Inr n)
  let ?lib = "ce_url env" and ?as = "cd_Agents d"
  have wf: "wf_registry ?lib ?as" using r by (simp add: ready_def)
  have run: "CreateAgentInConfig env a w = updateCLIAgentData env (create_agent ?lib n) w"
    using Inr by (simp add: CreateAgentInConfig_def or_error_def)
  show ?thesis
  proof (cases "agent_host ?lib n \<in> dom (registry_map ?lib ?as)")
    case True
    then have "findAgentHostIndex ?lib ?as (agent_host ?lib n) \<noteq> None" using host_index_None [of ?lib ?as] by auto
    then obtain e where "create_agent ?lib n d = Inl e"
      by (cases "findAgentIndex ?as (ag_TargetSrv n) = None") (auto simp: create_agent_def)
    then show ?thesis using True Inr ready_reject [OF r] unfolding run by (simp add: with_normal_def)
  next
    case False
    then have "findAgentIndex ?as (ag_TargetSrv n) = None"
      using address_index(2) [OF wf, of "ag_TargetSrv n"] by (auto simp: agent_host_def)
    then have "create_agent ?lib n d = Inr (with_agents (?as @ [n]) d)" "agent_host ?lib n \<notin> agent_host ?lib ` set ?as"
      using False by (auto simp: create_agent_def host_index_None registry_map_None)
    then show ?thesis
      using False Inr ready_keep [OF r] wf_append [OF wf normalized(1) [OF assms Inr]] unfolding run by (simp add: with_normal_def)
  qed
qed

lemma upsert_refines:
  assumes r: "ready env content w d" and g: "good_address (ce_url env) (ag_TargetSrv a)"
    and h: "cfg_normalizeHostName (ce_url env) h = agent_host (ce_url env) a"
  shows "refines env w (UpsertAgentForHostInConfig env h a w) (registry_spec (ce_url env) (UpsertOp h a) (registry_map (ce_url env) (cd_Agents d)))"
proof (cases "normalizeAgent (ce_url env) a")
  case (Inl e)
  then show ?thesis by (simp add: UpsertAgentForHostInConfig_def or_error_def with_normal_def refines_def)
next
  case (Inr n)
  let ?lib = "ce_url env" and ?as = "cd_Agents d"
  have wf: "wf_registry ?lib ?as" using r by (simp add: ready_def)
  note n = normalized [OF r g Inr]
  have run: "UpsertAgentForHostInConfig env h a w = updateCLIAgentData env (upsert_agent ?lib (agent_host ?lib n) n) w"
    using Inr h n(2) by (simp add: UpsertAgentForHostInConfig_def or_error_def)
  show ?thesis
  proof (cases "findAgentHostIndex ?lib ?as (agent_host ?lib n)")
    case None
    then have "upsert_agent ?lib (agent_host ?lib n) n d = Inr (with_agents (?as @ [n]) d)"
      "agent_host ?lib n \<notin> agent_host ?lib ` set ?as"
      using host_index_None [of ?lib ?as "agent_host ?lib n"] by (simp_all add: upsert_agent_def registry_map_None)
    then show ?thesis using Inr ready_keep [OF r] wf_append [OF wf n(1)] unfolding run by (simp add: with_normal_def)
  next
    case (Some i)
    then have i: "i < length ?as" "agent_host ?lib (?as ! i) = agent_host ?lib n" using host_index_Some by blast+
    have "upsert_agent ?lib (agent_host ?lib n) n d = Inr (with_agents (?as[i := n]) d)" using Some by (simp add: upsert_agent_def)
    then show ?thesis using Inr ready_keep [OF r] wf_replace [OF wf i(1) n(1)] i(2) unfolding run by (simp add: with_normal_def)
  qed
qed

lemma delete_refines:
  assumes r: "ready env content w d"
  shows "refines env w (DeleteAgentFromConfig env t w) (registry_spec (ce_url env) (DeleteOp t) (registry_map (ce_url env) (cd_Agents d)))"
proof (cases "normalizeTargetServer (ce_url env) t")
  case (Inl e)
  then show ?thesis by (simp add: DeleteAgentFromConfig_def or_error_def refines_def)
next
  case (Inr u)
  let ?lib = "ce_url env" and ?as = "cd_Agents d" and ?h = "targetServerHostname (ce_url env) u"
  have wf: "wf_registry ?lib ?as" using r by (simp add: ready_def)
  have run: "DeleteAgentFromConfig env t w = updateCLIAgentData env (delete_agent ?lib u) w"
    using Inr by (simp add: DeleteAgentFromConfig_def or_error_def)
  let ?found = "case findAgentIndex ?as u of Some i \<Rightarrow> Some i | None \<Rightarrow> findAgentHostIndex ?lib ?as ?h"
  show ?thesis
  proof (cases ?found)
    case None
    then have "registry_map ?lib ?as ?h = None" by (simp add: host_index_None split: option.splits)
    moreover have "delete_agent ?lib u d = Inl (agent_missing u)" using None by (simp add: delete_agent_def)
    ultimately show ?thesis using Inr ready_reject [OF r] unfolding run by (simp add: domIff)
  next
    case (Some i)
    then have i: "i < length ?as" "agent_host ?lib (?as ! i) = ?h"
      using address_index(1) [OF wf, of u] host_index_Some [of ?lib ?as ?h] by (auto split: option.splits)
    have "registry_map ?lib ?as ?h = Some (?as ! i)" using registry_map_nth [OF _ i(1), of ?lib] wf i(2) by (simp add: wf_registry_def)
    moreover have "delete_agent ?lib u d = Inr (with_agents (take i ?as @ drop (Suc i) ?as) d)" using Some by (simp add: delete_agent_def)
    ultimately show ?thesis using Inr ready_keep [OF r] wf_remove [OF wf i(1)] i(2) unfolding run by (simp add: domIff)
  qed
qed

lemma update_refines:
  assumes r: "ready env content w d" and g: "good_address (ce_url env) (ag_TargetSrv a)"
  shows "refines env w (UpdateAgentInConfig env t a w) (registry_spec (ce_url env) (UpdateOp t a) (registry_map (ce_url env) (cd_Agents d)))"
proof (cases "normalizeTargetServer (ce_url env) t")
  case (Inl e)
  then show ?thesis by (simp add: UpdateAgentInConfig_def or_error_def refines_def)
next
  case u: (Inr u)
  show ?thesis
  proof (cases "normalizeAgent (ce_url env) a")
    case (Inl e)
    then show ?thesis using u by (simp add: UpdateAgentInConfig_def or_error_def with_normal_def refines_def)
  next
    case (Inr n)
    let ?lib = "ce_url env" and ?as = "cd_Agents d" and ?h = "targetServerHostname (ce_url env) u"
    let ?m = "registry_map ?lib ?as" and ?k = "agent_host ?lib n"
    have wf: "wf_registry ?lib ?as" using r by (simp add: ready_def)
    note n = normalized(1) [OF r g Inr]
    have run: "UpdateAgentInConfig env t a w = updateCLIAgentData env (update_agent ?lib u n) w"
      using u Inr by (simp add: UpdateAgentInConfig_def or_error_def)
    have spec: "registry_spec ?lib (UpdateOp t a) ?m =
      (if map_option ag_TargetSrv (?m ?h) = Some u \<and> (?k = ?h \<or> ?k \<notin> dom ?m) then Some (?m(?h := None, ?k \<mapsto> n)) else None)"
      using u Inr by (simp add: with_normal_def Let_def)
    show ?thesis
    proof (cases "findAgentIndex ?as u")
      case None
      then have "map_option ag_TargetSrv (?m ?h) \<noteq> Some u" using address_index(2) [OF wf, of u] by blast
      moreover have "update_agent ?lib u n d = Inl (agent_missing u)" using None by (simp add: update_agent_def)
      ultimately show ?thesis using ready_reject [OF r] unfolding run spec by (simp only: simp_thms if_False)
    next
      case (Some i)
      have i: "i < length ?as" "agent_host ?lib (?as ! i) = ?h" using address_index(1) [OF wf Some] by auto
      have found: "map_option ag_TargetSrv (?m ?h) = Some u" using address_index(2) [OF wf, of u] Some by blast
      have same: "?m (agent_host ?lib (?as ! j)) = Some (?as ! j)" if "j < length ?as" for j
        using wf registry_map_nth [OF _ that, of ?lib] unfolding wf_registry_def by blast
      have at: "j = i" if "j < length ?as" "agent_host ?lib (?as ! j) = ?h" for j
      proof -
        have "distinct (map (agent_host ?lib) ?as)" using wf by (simp add: wf_registry_def)
        from nth_eq_iff_index_eq [OF this, of j i] show ?thesis using i that by simp
      qed
      have host: "elsewhere (findAgentHostIndex ?lib ?as ?k) i \<longleftrightarrow> ?k \<in> dom ?m \<and> ?k \<noteq> ?h"
      proof (cases "findAgentHostIndex ?lib ?as ?k")
        case None
        then have "?k \<notin> dom ?m" by (simp add: host_index_None domIff)
        with None show ?thesis by (simp add: elsewhere_def)
      next
        case (Some j)
        then have j: "j < length ?as" "agent_host ?lib (?as ! j) = ?k" using host_index_Some by blast+
        have "?k \<in> dom ?m" using same [OF j(1)] j(2) by (simp add: domIff)
        moreover have "j \<noteq> i \<longleftrightarrow> ?k \<noteq> ?h" using at [OF j(1)] i(2) j(2) by metis
        ultimately show ?thesis using Some by (simp add: elsewhere_def)
      qed
      have address: "elsewhere (findAgentIndex ?as (ag_TargetSrv n)) i \<Longrightarrow> ?k \<in> dom ?m \<and> ?k \<noteq> ?h"
      proof -
        assume e: "elsewhere (findAgentIndex ?as (ag_TargetSrv n)) i"
        then obtain j where j: "findAgentIndex ?as (ag_TargetSrv n) = Some j" "j \<noteq> i" by (auto simp: elsewhere_def split: option.splits)
        then have jj: "j < length ?as" "agent_host ?lib (?as ! j) = ?k"
          using address_index(1) [OF wf j(1)] by (simp_all add: agent_host_def)
        have "?k \<in> dom ?m" using same [OF jj(1)] jj(2) by (simp add: domIff)
        moreover have "?k \<noteq> ?h" using at [OF jj(1)] jj(2) j(2) by metis
        ultimately show ?thesis by blast
      qed
      show ?thesis
      proof (cases "?k \<in> dom ?m \<and> ?k \<noteq> ?h")
        case True
        then obtain e where "update_agent ?lib u n d = Inl e"
          using Some host by (cases "elsewhere (findAgentIndex ?as (ag_TargetSrv n)) i") (auto simp: update_agent_def)
        then show ?thesis using True ready_reject [OF r] unfolding run spec by simp
      next
        case False
        then have "update_agent ?lib u n d = Inr (with_agents (?as[i := n]) d)" using Some host address by (auto simp: update_agent_def)
        moreover have "?k = agent_host ?lib (?as ! i) \<or> ?k \<notin> agent_host ?lib ` set ?as"
          using False i(2) by (auto simp: domIff registry_map_None)
        ultimately show ?thesis
          using False found ready_keep [OF r] wf_replace [OF wf i(1) n] i(2) unfolding run spec by auto
      qed
    qed
  qed
qed


text \<open>A client's disk that holds the registry as one text, with a YAML package for two registries.\<close>

definition sample_agent :: agent where
  "sample_agent = \<lparr>ag_Certs = \<lparr>tls_CA = [], tls_Cert = [], tls_Key = []\<rparr>, ag_SshTunnel = False, ag_TargetSrv = ''Dev:80''\<rparr>"

definition sample_registry :: "agent list \<Rightarrow> cliAgentData" where
  "sample_registry as = \<lparr>cd_APIVersion = ''v1'', cd_Agents = as\<rparr>"

definition sample_yaml :: yaml where
  "sample_yaml = \<lparr>y_read_manifest = \<lambda>_. Ok (defaultManifest (\<lambda>f. CHR ''/'' # f)), y_write_manifest = \<lambda>_. Fail [],
     y_read_cli = \<lambda>b. Ok (sample_registry (if b = [] then [] else [sample_agent\<lparr>ag_TargetSrv := ''dev:80''\<rparr>])),
     y_write_cli = \<lambda>d. if d = sample_registry [] then Ok []
       else if d = sample_registry [sample_agent\<lparr>ag_TargetSrv := ''dev:80''\<rparr>] then Ok ''a'' else Fail [],
     y_read_agent = \<lambda>_. Fail [], y_write_agent = \<lambda>_. Fail []\<rparr>"

definition sample_config :: "(string, unit) config_env" where
  "sample_config = \<lparr>ce_io = \<lparr>fs_Abs = Ok, fs_IsDir = \<lambda>_ _. Ok False, fs_Exists = \<lambda>_ _. True, fs_ReadFile = \<lambda>_ w. Ok w,
       fs_EnsureDir = \<lambda>_ w. (None, w), fs_WriteFile = \<lambda>_ c w. (None, c), fs_RemoveAll = \<lambda>_ w. (None, w),
       fs_EnsureConfigDir = \<lambda>_ w. (None, w)\<rparr>,
     ce_yaml = sample_yaml,
     ce_url = \<lparr>url_Parse = \<lambda>_. None, url_Hostname = \<lambda>_. [], url_lower_host = id, url_String = \<lambda>_. []\<rparr>,
     ce_ConfigFile = \<lambda>f. CHR ''/'' # f, ce_ClientConfigDir = id, ce_AgentConfigDir = id\<rparr>"

lemma sample_config_works:
  "url_contract (ce_url sample_config)" "cli_store sample_config id" "yaml_reads_back sample_config"
  "readCLIAgentData sample_config [] = (Inr (sample_registry []), [])"
  "run_registry sample_config (CreateOp sample_agent) [] = (None, ''a'')"
  "cfg_normalizeHostName (ce_url sample_config) '' DEV '' = ''dev''"
  "good_address (ce_url sample_config) (ag_TargetSrv sample_agent)"
  "normalizeAgent (ce_url sample_config) sample_agent = Inr (sample_agent\<lparr>ag_TargetSrv := ''dev:80''\<rparr>)"
proof -
  have u: "url_of (ce_url sample_config) s = None" for s by (simp add: url_of_def sample_config_def)
  then show "url_contract (ce_url sample_config)" by (simp add: url_contract_def)
  have "cliConfigSource sample_config w = (Inr (localSource ''/cliconfig.yaml''), w)" for w
    by (simp add: cliConfigSource_def ensured_source_def manifestSource_def LoadManifest_def sample_config_def sample_yaml_def
        NewLocalSource_def Manifest_Resolve_def defaultManifest_def SourceKeyCLIAgentConfig_def SourceKeyProfile_def SourceKeyDB_def
        SourceTypeFromString_def EnsureSourceWithDefault_def) (code_simp)
  then show "cli_store sample_config id" by (simp add: cli_store_def) (simp add: sample_config_def)
  show "yaml_reads_back sample_config" by (simp add: yaml_reads_back_def sample_config_def sample_yaml_def)
  show "readCLIAgentData sample_config [] = (Inr (sample_registry []), [])" by code_simp
  show "run_registry sample_config (CreateOp sample_agent) [] = (None, ''a'')" by code_simp
  show "cfg_normalizeHostName (ce_url sample_config) '' DEV '' = ''dev''" by code_simp
  show "normalizeAgent (ce_url sample_config) sample_agent = Inr (sample_agent\<lparr>ag_TargetSrv := ''dev:80''\<rparr>)" by code_simp
  have "TrimSpace ''Dev:80'' = ''Dev:80''" by code_simp
  then show "good_address (ce_url sample_config) (ag_TargetSrv sample_agent)" by (simp add: good_address_def sample_agent_def)
qed


end
