(* ===== verification/SshConfig.thy ===== *)
theory SshConfig
  imports Format Identifier Bo
begin

text \<open>
  The client's SSH configuration file (\<open>internal/command/project_ssh_config.go\<close>): every
  container has a block of its own between two marker lines, which is written, replaced and
  removed without touching the rest of the file.

  The file is the state: \<open>None\<close> while it does not exist. What the file system does is the
  record \<open>ssh_io\<close>; a write that fails leaves what \<open>sio_Write\<close> says.
\<close>

section \<open>The block of a host\<close>

record sshHostConfigEntry =
  sh_alias :: string
  sh_hostName :: string
  sh_port :: int
  sh_user :: string
  sh_identityFile :: string

definition managedSSHHostBlockStartPrefix :: string where
  "managedSSHHostBlockStartPrefix = ''# >>> CDS managed host ''"

definition managedSSHHostBlockEndPrefix :: string where
  "managedSSHHostBlockEndPrefix = ''# <<< CDS managed host ''"

definition ContainsAny :: "string \<Rightarrow> string \<Rightarrow> bool" where
  "ContainsAny s chars = (\<exists>c \<in> set s. c \<in> set chars)"

definition CR :: char where "CR = CHR 0x0D"

definition validateSSHConfigToken :: "string \<Rightarrow> string \<Rightarrow> err option" where
  "validateSSHConfigToken label value =
     (let v = TrimSpace value in
      if v = [] \<or> ContainsAny v [CHR '' '', TAB, CR, NL]
      then Some (NewError (label @ '' '' @ Quote v @ '' is not valid for SSH config'')) else None)"

definition sshConfigValue :: "string \<Rightarrow> string" where
  "sshConfigValue value =
     (if \<not> ContainsAny value [CHR '' '', TAB, DQ, BSL] then value
      else [DQ] @ ReplaceAll (ReplaceAll value [BSL] [BSL, BSL]) [DQ] [BSL, DQ] @ [DQ])"

text \<open>The lines of a block, and the text: every line ends with a newline.\<close>

definition block_lines :: "sshHostConfigEntry \<Rightarrow> string list" where
  "block_lines e =
     [managedSSHHostBlockStartPrefix @ sh_alias e, ''Host '' @ sh_alias e, ''    HostName '' @ sh_hostName e,
      ''    Port '' @ Itoa (sh_port e), ''    User '' @ sh_user e]
     @ (if sh_identityFile e \<noteq> [] then [''    IdentityFile '' @ sshConfigValue (sh_identityFile e), ''    IdentitiesOnly yes''] else [])
     @ [''    StrictHostKeyChecking accept-new'', managedSSHHostBlockEndPrefix @ sh_alias e]"

definition renderManagedSSHHostBlock :: "sshHostConfigEntry \<Rightarrow> string" where
  "renderManagedSSHHostBlock e = concat (map (\<lambda>l. l @ [NL]) (block_lines e))"

text \<open>The loop over the lines: the kept lines, and whether a block is being skipped.\<close>

definition strip_cr :: "string \<Rightarrow> string" where
  "strip_cr line = trim_right (\<lambda>c. c = CR) line"

fun keep_lines :: "string \<Rightarrow> string \<Rightarrow> bool \<Rightarrow> string list \<Rightarrow> string list" where
  "keep_lines start stop skipping [] = []"
| "keep_lines start stop skipping (l # ls) =
     (if strip_cr l = start then keep_lines start stop True ls
      else if skipping \<and> strip_cr l = stop then keep_lines start stop False ls
      else if \<not> skipping then l # keep_lines start stop skipping ls
      else keep_lines start stop skipping ls)"

definition trim_newlines :: "string \<Rightarrow> string" where
  "trim_newlines s = dropWhile (\<lambda>c. c = NL) s"

definition removeManagedSSHHostBlock :: "string \<Rightarrow> string \<Rightarrow> string" where
  "removeManagedSSHHostBlock content alias =
     trim_newlines (Join (keep_lines (managedSSHHostBlockStartPrefix @ alias) (managedSSHHostBlockEndPrefix @ alias) False
       (split_on NL content)) [NL])"

section \<open>The file\<close>

record ssh_io =
  sio_Ensure :: "err option"
  sio_HomeDir :: "string result"
  sio_ReadErr :: "err option"
  sio_Write :: "string \<Rightarrow> string \<Rightarrow> err option \<times> string"
  sio_IsFile :: "string \<Rightarrow> bool"

type_synonym ssh_file = "string option"

definition defaultSSHConfigPath :: "ssh_io \<Rightarrow> string result" where
  "defaultSSHConfigPath io =
     bind_ok (wrap_error ''Failed to determine user home directory'' (sio_HomeDir io)) (\<lambda>h. Ok (path_Join [h, ''.ssh'', ''config'']))"

definition file_text :: "ssh_file \<Rightarrow> string" where
  "file_text f = (case f of None \<Rightarrow> [] | Some c \<Rightarrow> c)"

text \<open>\<open>cenv.EnsureSSHClientConfig\<close> creates the file when it is missing, so it exists afterwards.\<close>

definition readSSHConfig :: "ssh_io \<Rightarrow> ssh_file \<Rightarrow> (string \<times> string) result \<times> ssh_file" where
  "readSSHConfig io f =
     (case sio_Ensure io of
        Some e \<Rightarrow> (Inl e, f)
      | None \<Rightarrow>
          (case defaultSSHConfigPath io of
             Inl e \<Rightarrow> (Inl e, Some (file_text f))
           | Inr p \<Rightarrow>
               (case sio_ReadErr io of
                  Some e \<Rightarrow> (Inl (AppendError (''Failed to read SSH config '' @ p) e), Some (file_text f))
                | None \<Rightarrow> (Ok (p, file_text f), Some (file_text f)))))"

definition writeSSHConfig :: "ssh_io \<Rightarrow> string \<Rightarrow> string \<Rightarrow> ssh_file \<Rightarrow> err option \<times> ssh_file" where
  "writeSSHConfig io configPath content f =
     (let content = (if content \<noteq> [] \<and> \<not> HasSuffix content [NL] then content @ [NL] else content);
          (e, left) = sio_Write io configPath content
      in (case e of
            Some e \<Rightarrow> (Some (AppendError (''Failed to write SSH config '' @ configPath) e), Some left)
          | None \<Rightarrow> (None, Some content)))"

definition upserted :: "string \<Rightarrow> sshHostConfigEntry \<Rightarrow> string" where
  "upserted content e =
     (let cleaned = removeManagedSSHHostBlock content (sh_alias e)
      in renderManagedSSHHostBlock e @ (if TrimSpace cleaned \<noteq> [] then [NL] @ trim_newlines cleaned else []))"

definition invalid_entry :: "sshHostConfigEntry \<Rightarrow> err option" where
  "invalid_entry e =
     (case validateSSHConfigToken ''SSH host alias'' (sh_alias e) of Some x \<Rightarrow> Some x
      | None \<Rightarrow> (case validateSSHConfigToken ''SSH host name'' (sh_hostName e) of Some x \<Rightarrow> Some x
      | None \<Rightarrow> (case validateSSHConfigToken ''SSH user'' (sh_user e) of Some x \<Rightarrow> Some x
      | None \<Rightarrow> if sh_port e \<le> 0
          then Some (NewError (''Invalid SSH port '' @ Itoa (sh_port e) @ '' for host '' @ Quote (sh_alias e))) else None)))"

definition upsertManagedSSHHostEntry :: "ssh_io \<Rightarrow> sshHostConfigEntry \<Rightarrow> ssh_file \<Rightarrow> err option \<times> ssh_file" where
  "upsertManagedSSHHostEntry io e f =
     (case invalid_entry e of
        Some x \<Rightarrow> (Some x, f)
      | None \<Rightarrow>
          (case readSSHConfig io f of
             (Inl x, f1) \<Rightarrow> (Some x, f1)
           | (Inr (configPath, content), f1) \<Rightarrow> writeSSHConfig io configPath (upserted content e) f1))"

definition removeManagedSSHHostEntry :: "ssh_io \<Rightarrow> string \<Rightarrow> ssh_file \<Rightarrow> err option \<times> ssh_file" where
  "removeManagedSSHHostEntry io alias f =
     (if TrimSpace alias = [] then (None, f)
      else case validateSSHConfigToken ''SSH host alias'' alias of
        Some x \<Rightarrow> (Some x, f)
      | None \<Rightarrow>
          (case readSSHConfig io f of
             (Inl x, f1) \<Rightarrow> (Some x, f1)
           | (Inr (configPath, content), f1) \<Rightarrow> writeSSHConfig io configPath (removeManagedSSHHostBlock content alias) f1))"

text \<open>The first default key whose private and public files exist.\<close>

definition defaultSSHIdentityFile :: "ssh_io \<Rightarrow> string" where
  "defaultSSHIdentityFile io =
     (case sio_HomeDir io of
        Inl _ \<Rightarrow> []
      | Inr h \<Rightarrow>
          (case find (\<lambda>p. sio_IsFile io p \<and> sio_IsFile io (p @ ''.pub''))
             (map (\<lambda>n. path_Join [h, ''.ssh'', n]) [''id_rsa'', ''id_ed25519'']) of
             None \<Rightarrow> [] | Some p \<Rightarrow> p))"

section \<open>The entry of a container\<close>

text \<open>\<open>hostName\<close> is the host of the project's agent (\<open>projectContainerSSHHostName\<close>).\<close>

definition container_entry :: "ssh_io \<Rightarrow> string \<Rightarrow> Container \<Rightarrow> sshHostConfigEntry" where
  "container_entry io hostName c =
     \<lparr>sh_alias = TrimSpace (ct_Name c), sh_hostName = hostName,
      sh_port = (case ct_Pmapping c KSSHPortMapping of None \<Rightarrow> 0 | Some p \<Rightarrow> p),
      sh_user = (if TrimSpace (ct_RemoteUser c) = [] then ''root'' else TrimSpace (ct_RemoteUser c)),
      sh_identityFile = defaultSSHIdentityFile io\<rparr>"

definition upsertProjectContainerSSHConfig ::
  "ssh_io \<Rightarrow> string \<Rightarrow> Container \<Rightarrow> bool \<Rightarrow> ssh_file \<Rightarrow> err option \<times> ssh_file" where
  "upsertProjectContainerSSHConfig io hostName c requirePort f =
     (let e = container_entry io hostName c in
      if sh_port e \<le> 0 then
        (case removeManagedSSHHostEntry io (sh_alias e) f of
           (Some x, f1) \<Rightarrow> (Some x, f1)
         | (None, f1) \<Rightarrow>
             (if requirePort then Some (NewError (''Container '' @ Quote (sh_alias e) @ '' does not expose an SSH port mapping''))
              else None, f1))
      else upsertManagedSSHHostEntry io e f)"

end
