(* ===== verification/ProjectSync.thy ===== *)
theory ProjectSync
  imports Db AgentContainers Upload Address SshConfig
begin

text \<open>
  The client's side of the container operations (\<open>internal/command/project_agent.go\<close>,
  \<open>project_access.go\<close>): what \<open>project sync\<close>, \<open>start\<close>, \<open>stop\<close>, \<open>clear\<close> and
  \<open>run\<close> do with the agent, the project store and the SSH configuration.

  The state of the client is the store, the SSH configuration and the world of the agent it
  talks to. The agent's services are a record of the calls that are made; \<open>served\<close> is the
  record for an agent that runs the handlers of \<open>AgentContainers\<close> in the same world.
\<close>

section \<open>The services of an agent\<close>

record 'a agentServices =
  as_List :: "'a \<Rightarrow> pb_Container list result \<times> 'a"
  as_Get :: "string \<Rightarrow> 'a \<Rightarrow> pb_Container result \<times> 'a"
  as_Start :: "string \<Rightarrow> 'a \<Rightarrow> err option \<times> 'a"
  as_Stop :: "string \<Rightarrow> 'a \<Rightarrow> err option \<times> 'a"
  as_Delete :: "string \<Rightarrow> string \<Rightarrow> 'a \<Rightarrow> err option \<times> 'a"
  as_Rename :: "string \<Rightarrow> string \<Rightarrow> 'a \<Rightarrow> err option \<times> 'a"
  as_Execute :: "string \<Rightarrow> string \<Rightarrow> string \<Rightarrow> 'a \<Rightarrow> (string \<times> int) result \<times> 'a"
  as_Stage :: "string \<Rightarrow> artifactCandidate list \<Rightarrow> 'a \<Rightarrow> err option \<times> 'a"
  as_Deploy :: "DeployContainerRequest \<Rightarrow> 'a \<Rightarrow> (deploy_event list \<times> err option) result \<times> 'a"

record 'a client_state =
  cs_data :: data
  cs_ssh :: ssh_file
  cs_agent :: 'a

record 'u command_env =
  ce_url :: "'u url_lib"
  ce_ssh :: ssh_io

text \<open>A call of the agent, on the client's state.\<close>

definition on_agent :: "('a \<Rightarrow> 'b \<times> 'a) \<Rightarrow> 'a client_state \<Rightarrow> 'b \<times> 'a client_state" where
  "on_agent call st = (let (r, a) = call (cs_agent st) in (r, st\<lparr>cs_agent := a\<rparr>))"

text \<open>An update of the SSH configuration, and one of the store.\<close>

definition on_ssh :: "(ssh_file \<Rightarrow> err option \<times> ssh_file) \<Rightarrow> 'a client_state \<Rightarrow> err option \<times> 'a client_state" where
  "on_ssh f st = (let (e, s) = f (cs_ssh st) in (e, st\<lparr>cs_ssh := s\<rparr>))"

definition on_data :: "(data \<Rightarrow> data result) \<Rightarrow> 'a client_state \<Rightarrow> err option \<times> 'a client_state" where
  "on_data f st = (case f (cs_data st) of Inl e \<Rightarrow> (Some e, st) | Inr d \<Rightarrow> (None, st\<lparr>cs_data := d\<rparr>))"

definition projectAgentHost :: "'u url_lib \<Rightarrow> data \<Rightarrow> string \<Rightarrow> string" where
  "projectAgentHost lib d projectName =
     (let hostName = TrimSpace (ProjectHostName d projectName)
      in if hostName = [] then KLocalhost else addressHost lib hostName)"

definition projectContainerSSHHostName :: "'u url_lib \<Rightarrow> data \<Rightarrow> string \<Rightarrow> string" where
  "projectContainerSSHHostName lib d projectName =
     (let hostName = TrimSpace (projectAgentHost lib d projectName)
      in if hostName = [] then KLocalhost else hostName)"

text \<open>\<open>upsertProjectContainerSSHConfig\<close> with the host of the project, as the store has it.\<close>

definition upsert_container_ssh ::
  "'u command_env \<Rightarrow> string \<Rightarrow> Container \<Rightarrow> bool \<Rightarrow> 'a client_state \<Rightarrow> err option \<times> 'a client_state" where
  "upsert_container_ssh env projectName c requirePort st =
     on_ssh (upsertProjectContainerSSHConfig (ce_ssh env)
       (projectContainerSSHHostName (ce_url env) (cs_data st) projectName) c requirePort) st"

section \<open>Synchronising with the agent\<close>

text \<open>Trimmed names without the empty one, the first of equal names kept.\<close>

fun unique_from :: "string list \<Rightarrow> string list \<Rightarrow> string list" where
  "unique_from seen [] = []"
| "unique_from seen (n # ns) =
     (let n = TrimSpace n
      in if n = [] \<or> n \<in> set seen then unique_from seen ns else n # unique_from (n # seen) ns)"

definition uniqueContainerNames :: "string list \<Rightarrow> string list" where
  "uniqueContainerNames containerNames = unique_from [] containerNames"

definition containers_by_name :: "pb_Container list \<Rightarrow> string \<rightharpoonup> pb_Container" where
  "containers_by_name cs = foldl (\<lambda>m c. if pb_Name c \<noteq> [] then m(pb_Name c \<mapsto> c) else m) (\<lambda>_. None) cs"

definition listAgentContainersByName ::
  "'a agentServices \<Rightarrow> 'a client_state \<Rightarrow> (string \<rightharpoonup> pb_Container) result \<times> 'a client_state" where
  "listAgentContainersByName client st =
     (case on_agent (as_List client) st of
        (Inl e, st1) \<Rightarrow> (Inl (AppendError ''Failed to list containers from agent'' e), st1)
      | (Inr cs, st1) \<Rightarrow> (Ok (containers_by_name cs), st1))"

text \<open>The ports of the listed container are replaced by those of \<open>GetContainer\<close>, when it has any.\<close>

definition enriched :: "pb_Container \<Rightarrow> string \<Rightarrow> pb_Container result \<Rightarrow> Container" where
  "enriched listed remoteUser detailed =
     (let info = protoContainerToBO listed remoteUser
      in case detailed of
           Inl _ \<Rightarrow> info
         | Inr d \<Rightarrow>
             (let ports = ct_Pmapping (protoContainerToBO d remoteUser)
              in if ports \<noteq> Map.empty then info\<lparr>ct_Pmapping := ports\<rparr> else info))"

definition with_expected :: "ContainerStatus option \<Rightarrow> Container \<Rightarrow> Container" where
  "with_expected expected c = (case expected of None \<Rightarrow> c | Some s \<Rightarrow> c\<lparr>ct_ExpectedStatus := s\<rparr>)"

text \<open>
  The loop over the names; it collects the names that are absent on the agent when they are
  to be removed. \<open>expected\<close> is \<open>None\<close> when \<open>overrideExpected\<close> is false.
\<close>

fun sync_containers ::
  "'u command_env \<Rightarrow> 'a agentServices \<Rightarrow> string \<Rightarrow> bool \<Rightarrow> ContainerStatus option \<Rightarrow> (string \<rightharpoonup> pb_Container) \<Rightarrow>
   string list \<Rightarrow> string list \<Rightarrow> 'a client_state \<Rightarrow> (string list \<times> err option) \<times> 'a client_state" where
  "sync_containers env client proj removeAbsent expected byName [] absent st = ((absent, None), st)"
| "sync_containers env client proj removeAbsent expected byName (n # ns) absent st =
     (let remoteUser = ProjectContainerRemoteUser (cs_data st) proj n in
      case byName n of
        None \<Rightarrow> sync_containers env client proj removeAbsent expected byName ns (if removeAbsent then absent @ [n] else absent) st
      | Some listed \<Rightarrow>
          (let (detailed, st1) = on_agent (as_Get client n) st;
               info = with_expected expected (enriched listed remoteUser detailed)
           in case on_data (UpsertProjectContainer proj info) st1 of
                (Some e, st2) \<Rightarrow> ((absent, Some (AppendError (''Failed to synchronize project container '' @ n @ '' in configuration'') e)), st2)
              | (None, st2) \<Rightarrow>
                  (case upsert_container_ssh env proj info False st2 of
                     (Some e, st3) \<Rightarrow> ((absent, Some (AppendError (''Failed to synchronize SSH config for project container '' @ n) e)), st3)
                   | (None, st3) \<Rightarrow> sync_containers env client proj removeAbsent expected byName ns absent st3)))"

fun remove_ssh_entries :: "'u command_env \<Rightarrow> string list \<Rightarrow> 'a client_state \<Rightarrow> err option \<times> 'a client_state" where
  "remove_ssh_entries env [] st = (None, st)"
| "remove_ssh_entries env (n # ns) st =
     (case on_ssh (removeManagedSSHHostEntry (ce_ssh env) n) st of
        (Some e, st1) \<Rightarrow> (Some (AppendError (''Failed to remove SSH config for project container '' @ n) e), st1)
      | (None, st1) \<Rightarrow> remove_ssh_entries env ns st1)"

definition remove_absent :: "'u command_env \<Rightarrow> string \<Rightarrow> string list \<Rightarrow> 'a client_state \<Rightarrow> err option \<times> 'a client_state" where
  "remove_absent env proj absent st =
     (if absent = [] then (None, st)
      else case on_data (RemoveProjectContainers proj absent) st of
        (Some e, st1) \<Rightarrow> (Some (AppendError ''Failed to remove absent project containers from configuration'' e), st1)
      | (None, st1) \<Rightarrow> remove_ssh_entries env absent st1)"

definition syncProjectContainersFromAgentWithExpected ::
  "'u command_env \<Rightarrow> 'a agentServices \<Rightarrow> string \<Rightarrow> string list \<Rightarrow> bool \<Rightarrow> ContainerStatus option \<Rightarrow>
   'a client_state \<Rightarrow> err option \<times> 'a client_state" where
  "syncProjectContainersFromAgentWithExpected env client proj containerNames removeAbsent expected st =
     (let names = uniqueContainerNames containerNames in
      if names = [] then (None, st)
      else case listAgentContainersByName client st of
        (Inl e, st1) \<Rightarrow> (Some e, st1)
      | (Inr byName, st1) \<Rightarrow>
          (case sync_containers env client proj removeAbsent expected byName names [] st1 of
             ((absent, Some e), st2) \<Rightarrow> (Some e, st2)
           | ((absent, None), st2) \<Rightarrow> remove_absent env proj absent st2))"

definition syncProjectContainersFromAgent ::
  "'u command_env \<Rightarrow> 'a agentServices \<Rightarrow> string \<Rightarrow> string list \<Rightarrow> bool \<Rightarrow> 'a client_state \<Rightarrow> err option \<times> 'a client_state" where
  "syncProjectContainersFromAgent env client proj containerNames removeAbsent =
     syncProjectContainersFromAgentWithExpected env client proj containerNames removeAbsent None"

text \<open>A container of the agent read into the store and the SSH configuration.\<close>

definition store_container ::
  "'u command_env \<Rightarrow> string \<Rightarrow> Container \<Rightarrow> bool \<Rightarrow> 'a client_state \<Rightarrow> err option \<times> 'a client_state" where
  "store_container env proj c requirePort st =
     (case on_data (UpsertProjectContainer proj c) st of
        (Some e, st1) \<Rightarrow> (Some e, st1)
      | (None, st1) \<Rightarrow> upsert_container_ssh env proj c requirePort st1)"

definition setProjectContainerFromAgent ::
  "'u command_env \<Rightarrow> 'a agentServices \<Rightarrow> string \<Rightarrow> string \<Rightarrow> string \<Rightarrow> ContainerStatus \<Rightarrow> 'a client_state \<Rightarrow> err option \<times> 'a client_state" where
  "setProjectContainerFromAgent env client proj n remoteUser expectedStatus st =
     (case on_agent (as_Get client n) st of
        (Inl e, st1) \<Rightarrow> (Some (AppendError (''Failed to get deployed container '' @ n) e), st1)
      | (Inr c, st1) \<Rightarrow> store_container env proj ((protoContainerToBO c remoteUser)\<lparr>ct_ExpectedStatus := expectedStatus\<rparr>) True st1)"

definition setProjectContainerFromAgentCurrentStatus ::
  "'u command_env \<Rightarrow> 'a agentServices \<Rightarrow> string \<Rightarrow> string \<Rightarrow> string \<Rightarrow> 'a client_state \<Rightarrow> err option \<times> 'a client_state" where
  "setProjectContainerFromAgentCurrentStatus env client proj n remoteUser st =
     (case on_agent (as_Get client n) st of
        (Inl e, st1) \<Rightarrow> (Some (AppendError (''Failed to get container '' @ n) e), st1)
      | (Inr c, st1) \<Rightarrow> store_container env proj (protoContainerToBO c remoteUser) False st1)"

section \<open>Starting, stopping and clearing\<close>

fun change_containers ::
  "(string \<Rightarrow> ContainerStatus \<Rightarrow> 'a client_state \<Rightarrow> err option \<times> 'a client_state) \<Rightarrow> (string \<rightharpoonup> pb_Container) \<Rightarrow>
   string list \<Rightarrow> 'a client_state \<Rightarrow> err option \<times> 'a client_state" where
  "change_containers change byName [] st = (None, st)"
| "change_containers change byName (n # ns) st =
     (case byName n of
        None \<Rightarrow> (Some (NewError (''container '' @ Quote n @ '' was not found on agent host'')), st)
      | Some found \<Rightarrow>
          (case change n (SContainerStatus (pb_Status found)) st of
             (Some e, st1) \<Rightarrow> (Some (AppendError (''Failed to change state for container '' @ n) e), st1)
           | (None, st1) \<Rightarrow> change_containers change byName ns st1))"

definition changeProjectContainersState ::
  "'u command_env \<Rightarrow> 'a agentServices \<Rightarrow> string \<Rightarrow> ContainerStatus \<Rightarrow>
   (string \<Rightarrow> ContainerStatus \<Rightarrow> 'a client_state \<Rightarrow> err option \<times> 'a client_state) \<Rightarrow> 'a client_state \<Rightarrow> err option \<times> 'a client_state" where
  "changeProjectContainersState env client proj expectedStatus change st =
     (let names = ProjectContainersName (cs_data st) proj in
      if names = [] then (Some (NewError (''Project '' @ Quote proj @ '' has no containers configured'')), st)
      else case listAgentContainersByName client st of
        (Inl e, st1) \<Rightarrow> (Some e, st1)
      | (Inr byName, st1) \<Rightarrow>
          (case change_containers change byName names st1 of
             (Some e, st2) \<Rightarrow> (Some e, st2)
           | (None, st2) \<Rightarrow> syncProjectContainersFromAgentWithExpected env client proj names False (Some expectedStatus) st2))"

definition startProjectContainersOnAgent ::
  "'u command_env \<Rightarrow> 'a agentServices \<Rightarrow> string \<Rightarrow> 'a client_state \<Rightarrow> err option \<times> 'a client_state" where
  "startProjectContainersOnAgent env client proj =
     changeProjectContainersState env client proj KContainerStatusRunning
       (\<lambda>n status st. if status = KContainerStatusRunning then (None, st) else on_agent (as_Start client n) st)"

definition stopProjectContainersOnAgent ::
  "'u command_env \<Rightarrow> 'a agentServices \<Rightarrow> string \<Rightarrow> 'a client_state \<Rightarrow> err option \<times> 'a client_state" where
  "stopProjectContainersOnAgent env client proj =
     changeProjectContainersState env client proj KContainerStatusExited
       (\<lambda>n status st. if status = KContainerStatusExited \<or> status = KContainerStatusDeleted then (None, st)
          else on_agent (as_Stop client n) st)"

text \<open>The deletions: every container that the agent has is tried, whatever failed before.\<close>

fun delete_containers ::
  "'a agentServices \<Rightarrow> string \<Rightarrow> (string \<rightharpoonup> pb_Container) \<Rightarrow> string list \<Rightarrow> 'a client_state \<Rightarrow>
   (string list \<times> err list) \<times> 'a client_state" where
  "delete_containers client proj byName [] st = (([], []), st)"
| "delete_containers client proj byName (n # ns) st =
     (case byName n of
        None \<Rightarrow> delete_containers client proj byName ns st
      | Some _ \<Rightarrow>
          (let (e, st1) = on_agent (as_Delete client n proj) st;
               ((candidates, errors), st2) = delete_containers client proj byName ns st1
           in ((n # candidates, (case e of None \<Rightarrow> errors | Some e \<Rightarrow> AppendError (''Failed to delete container '' @ n) e # errors)), st2)))"

definition clearProjectContainersOnAgent ::
  "'u command_env \<Rightarrow> 'a agentServices \<Rightarrow> string \<Rightarrow> string list \<Rightarrow> 'a client_state \<Rightarrow> err option \<times> 'a client_state" where
  "clearProjectContainersOnAgent env client proj additionalContainerNames st =
     (let names = uniqueContainerNames (ProjectContainersName (cs_data st) proj @ additionalContainerNames) in
      if names = [] then (None, st)
      else case listAgentContainersByName client st of
        (Inl e, st1) \<Rightarrow> (Some e, st1)
      | (Inr byName, st1) \<Rightarrow>
          (let ((candidates, errors), st2) = delete_containers client proj byName names st1;
               (e, st3) = syncProjectContainersFromAgent env client proj candidates True st2
           in case e of
                Some e \<Rightarrow> (Some (if errors = [] then e
                   else AppendMultipleErrors ''Failed to clear all project containers'' (errors @ [e])), st3)
              | None \<Rightarrow> (if errors = [] then None
                   else Some (AppendMultipleErrors ''Failed to clear all project containers'' errors), st3)))"

section \<open>Using the primary container\<close>

definition projectPrimaryContainer :: "data \<Rightarrow> string \<Rightarrow> (string \<times> string) result" where
  "projectPrimaryContainer d proj =
     (case ProjectContainersName d proj of
        [] \<Rightarrow> Fail (''Project '' @ Quote proj @ '' has no containers configured'')
      | n # _ \<Rightarrow>
          (let remoteUser = ProjectContainerRemoteUser d proj n
           in if remoteUser = [] then Fail (''Container '' @ Quote n @ '' does not have a configured remote user'')
              else Ok (n, remoteUser)))"

definition executeProjectContainerCommand ::
  "'a agentServices \<Rightarrow> string \<Rightarrow> string \<Rightarrow> string \<Rightarrow> 'a client_state \<Rightarrow> (string \<times> err option) \<times> 'a client_state" where
  "executeProjectContainerCommand client proj command user st =
     (case projectPrimaryContainer (cs_data st) proj of
        Inl e \<Rightarrow> (([], Some e), st)
      | Inr (n, remoteUser) \<Rightarrow>
          (case on_agent (as_Execute client n command user) st of
             (Inl e, st1) \<Rightarrow> (([], Some (AppendError (''Failed to execute command in container '' @ n) e)), st1)
           | (Inr (out, code), st1) \<Rightarrow>
               (if code \<noteq> 0
                then ((out, Some (NewError (''command in container '' @ n @ '' failed with exit code '' @ Itoa code @ '': '' @ out))), st1)
                else ((out, None), st1))))"

definition syncProjectContainers ::
  "'u command_env \<Rightarrow> 'a agentServices \<Rightarrow> string \<Rightarrow> 'a client_state \<Rightarrow> err option \<times> 'a client_state" where
  "syncProjectContainers env client proj st =
     syncProjectContainersFromAgent env client proj (ProjectContainersName (cs_data st) proj) False st"

section \<open>An agent that serves its handlers\<close>

text \<open>What the client sees of a status error is its text.\<close>

fun status_error :: "rpc_error \<Rightarrow> err" where
  "status_error (RpcErr code m) = NewError m"

definition served_result :: "(rpc_error + 'b) \<times> 's \<Rightarrow> 'b result \<times> 's" where
  "served_result r = (case r of (Inl e, st) \<Rightarrow> (Inl (status_error e), st) | (Inr x, st) \<Rightarrow> (Ok x, st))"

definition served_error :: "(rpc_error + 'b) \<times> 's \<Rightarrow> err option \<times> 's" where
  "served_error r = (case r of (Inl e, st) \<Rightarrow> (Some (status_error e), st) | (Inr x, st) \<Rightarrow> (None, st))"

text \<open>
  The services of an agent with the operations \<open>ops\<close>: the client's call runs the handler.
  The stream of a deployment ends with the handler's error, if any. Staging is a parameter
  here, its model is \<open>stageProjectArtifacts\<close> in the theory \<open>Upload\<close>.
\<close>

definition served ::
  "'w ContainerOps \<Rightarrow> string \<Rightarrow> (string \<Rightarrow> 'w \<Rightarrow> err option \<times> 'w) \<Rightarrow> string \<Rightarrow> (string \<Rightarrow> Config result) \<Rightarrow>
   (string \<Rightarrow> resourceProvider) \<Rightarrow> (string \<Rightarrow> artifactCandidate list \<Rightarrow> 'w engine_state \<Rightarrow> err option \<times> 'w engine_state) \<Rightarrow>
   'w engine_state agentServices" where
  "served ops hostname rmAll stagingDir parse provider stage =
     \<lparr>as_List = (\<lambda>st. served_result (ListContainers ops hostname st)),
      as_Get = (\<lambda>n st. served_result (GetContainer ops hostname n st)),
      as_Start = (\<lambda>n st. served_error (rpc_StartContainer ops n st)),
      as_Stop = (\<lambda>n st. served_error (rpc_StopContainer ops n st)),
      as_Delete = (\<lambda>n proj st. served_error (rpc_DeleteContainer ops rmAll stagingDir n proj st)),
      as_Rename = (\<lambda>n n' st. served_error (rpc_RenameContainer ops n n' st)),
      as_Execute = (\<lambda>n command user st. served_result (rpc_ExecuteInContainer ops n command user st)),
      as_Stage = stage,
      as_Deploy = (\<lambda>req st. let (e, (st1, sent)) = rpc_DeployContainer ops parse provider (\<lambda>_ _. None) req st
         in (Ok (sent, map_option status_error e), st1))\<rparr>"

end
