(* ===== verification/ProjectKeys.thy ===== *)
theory ProjectKeys
  imports ProjectSync
begin

text \<open>
  The key pair of a project's host (\<open>internal/command/project_ssh_key.go\<close>) and the key
  files (\<open>internal/shexec/keys.go\<close>): a registered pair, a default pair of the user, or a
  pair that is generated once and registered.

  The state is the store and the files of the client. The cryptographic library is a record:
  what a new key is, what a private key parses to, and the encodings of both.
\<close>

section \<open>Files and keys\<close>

record sshKeyPair =
  PathToPub :: string
  PathToPrv :: string

datatype key_algorithm = ECDSA | ED25519 | OtherKey

text \<open>
  A private key file parses to its algorithm and the public key in authorized-keys form;
  \<open>kl_NewPublic\<close> is the error of \<open>ssh.NewPublicKey\<close>. \<open>kl_Generated\<close> is the new key: its PEM text
  and its authorized-keys text. A failed write leaves what \<open>kl_Left\<close> says.
\<close>

record key_lib =
  kl_HomeDir :: string
  kl_EnvUser :: string
  kl_CurrentUser :: "string result"
  kl_Hostname :: "string result"
  kl_Generated :: "string \<times> string"
  kl_Parse :: "string \<Rightarrow> (key_algorithm \<times> string) result"
  kl_NewPublic :: "string \<Rightarrow> err option"
  kl_ReadError :: "string \<Rightarrow> err option"
  kl_WriteError :: "string \<Rightarrow> err option"
  kl_Left :: "string \<Rightarrow> string option"
  kl_IsDir :: "string \<Rightarrow> bool"

definition read_file :: "key_lib \<Rightarrow> files \<Rightarrow> string \<Rightarrow> string result" where
  "read_file lib fs p =
     (case kl_ReadError lib p of Some e \<Rightarrow> Inl e
      | None \<Rightarrow> (case fs p of None \<Rightarrow> Fail (''open '' @ p @ '': no such file or directory'') | Some c \<Rightarrow> Ok c))"

definition writeKeyTofile :: "key_lib \<Rightarrow> string \<Rightarrow> string \<Rightarrow> files \<Rightarrow> err option \<times> files" where
  "writeKeyTofile lib key path fs =
     (case kl_WriteError lib path of
        Some e \<Rightarrow> (Some (AppendError (''Failed to write key to file ('' @ path @ '')'') e), fs(path := kl_Left lib path))
      | None \<Rightarrow> (None, fs(path \<mapsto> key)))"

text \<open>Without a user or a host name the key stays as it is.\<close>

definition addCdsWatermarkToPublicKey :: "key_lib \<Rightarrow> string \<Rightarrow> string result" where
  "addCdsWatermarkToPublicKey lib publicBytes =
     bind_ok (kl_CurrentUser lib) (\<lambda>usr. bind_ok (kl_Hostname lib) (\<lambda>hostname.
       Ok (trim_right (\<lambda>c. c = CR \<or> c = NL) publicBytes @ '' generated by CDS: '' @ usr @ ''@'' @ hostname @ [NL])))"

definition marked :: "key_lib \<Rightarrow> string \<Rightarrow> string" where
  "marked lib publicBytes = ok_or publicBytes (addCdsWatermarkToPublicKey lib publicBytes)"

definition GenerateKeyPair :: "key_lib \<Rightarrow> string \<Rightarrow> files \<Rightarrow> sshKeyPair result \<times> files" where
  "GenerateKeyPair lib suffix fs =
     (let pub = path_Join [kl_HomeDir lib, ''.ssh'', ''./id_rsa_'' @ suffix @ ''.pub''];
          prv = path_Join [kl_HomeDir lib, ''.ssh'', ''./id_rsa_'' @ suffix]
      in case writeKeyTofile lib (fst (kl_Generated lib)) prv fs of
           (Some e, fs1) \<Rightarrow> (Inl (AppendError (''Failed to write private key to file ('' @ prv @ '')'') e), fs1)
         | (None, fs1) \<Rightarrow>
             (case writeKeyTofile lib (marked lib (snd (kl_Generated lib))) pub fs1 of
                (Some e, fs2) \<Rightarrow> (Inl (AppendError (''Failed to write public key to file ('' @ pub @ '')'') e), fs2)
              | (None, fs2) \<Rightarrow> (Ok \<lparr>PathToPub = pub, PathToPrv = prv\<rparr>, fs2)))"

definition GeneratePublicKey :: "key_lib \<Rightarrow> string \<Rightarrow> files \<Rightarrow> string result \<times> files" where
  "GeneratePublicKey lib pathToPrv fs =
     (let pub = pathToPrv @ ''.pub'' in
      if fs pub \<noteq> None \<or> kl_IsDir lib pub then (Ok pub, fs)
      else case read_file lib fs pathToPrv of
        Inl e \<Rightarrow> (Inl (AppendError (''Failed to read private key from file ('' @ pathToPrv @ '')'') e), fs)
      | Inr pem \<Rightarrow>
          (case kl_Parse lib pem of
             Inl e \<Rightarrow> (Inl (AppendError (''Failed to parse private key in file ('' @ pathToPrv @ '')'') e), fs)
           | Inr (alg, publicBytes) \<Rightarrow>
               (if alg = OtherKey
                then (Fail ''Supports ecdsa/ed25519 algorithm. Use for example: \"ssh-keygen -t ecdsa -b <256, 384 or 521>\"'', fs)
                else case kl_NewPublic lib pem of
                  Some e \<Rightarrow> (Inl (AppendError ''Failed to generate new public key'' e), fs)
                | None \<Rightarrow>
                    (case writeKeyTofile lib (marked lib publicBytes) pub fs of
                       (Some e, fs1) \<Rightarrow> (Inl (AppendError (''Failed to write public key to file ('' @ pub @ '')'') e), fs1)
                     | (None, fs1) \<Rightarrow> (Ok pub, fs1)))))"

section \<open>The pair of a host\<close>

definition regularFileExists :: "key_lib \<Rightarrow> files \<Rightarrow> string \<Rightarrow> bool" where
  "regularFileExists lib fs p = (fs p \<noteq> None \<and> \<not> kl_IsDir lib p)"

definition suffix_char :: "char \<Rightarrow> char" where
  "suffix_char c =
     (let n = char_code c in
      if 97 \<le> n \<and> n \<le> 122 \<or> 65 \<le> n \<and> n \<le> 90 \<or> 48 \<le> n \<and> n \<le> 57 \<or> c = CHR ''-'' \<or> c = CHR ''_'' then c else CHR ''_'')"

text \<open>The host name is ASCII here; beyond it \<open>strings.Map\<close> works on code points.\<close>

definition managedHostKeySuffix :: "string \<Rightarrow> string" where
  "managedHostKeySuffix hostName =
     (let sanitized = map suffix_char hostName in
      if trim_by (\<lambda>c. c = CHR ''_'' \<or> c = CHR ''-'') sanitized = [] then ''cds_host'' else ''cds_'' @ sanitized)"

definition managedHostKeyPairPaths :: "key_lib \<Rightarrow> string \<Rightarrow> sshKeyPair" where
  "managedHostKeyPairPaths lib hostName =
     (let suffix = managedHostKeySuffix hostName in
      \<lparr>PathToPub = path_Join [kl_HomeDir lib, ''.ssh'', ''id_rsa_'' @ suffix @ ''.pub''],
       PathToPrv = path_Join [kl_HomeDir lib, ''.ssh'', ''id_rsa_'' @ suffix]\<rparr>)"

definition ensureManagedHostKeyPair :: "key_lib \<Rightarrow> string \<Rightarrow> files \<Rightarrow> sshKeyPair result \<times> files" where
  "ensureManagedHostKeyPair lib hostName fs =
     (let keyPair = managedHostKeyPairPaths lib hostName in
      if regularFileExists lib fs (PathToPrv keyPair) then
        (case GeneratePublicKey lib (PathToPrv keyPair) fs of
           (Inl e, fs1) \<Rightarrow> (Inl e, fs1)
         | (Inr pub, fs1) \<Rightarrow> (Ok (keyPair\<lparr>PathToPub := pub\<rparr>), fs1))
      else
        (case GenerateKeyPair lib (managedHostKeySuffix hostName) fs of
           (Inl e, fs1) \<Rightarrow> (Inl (AppendError ''Failed to generate SSH key pair'' e), fs1)
         | (Inr kp, fs1) \<Rightarrow> (Ok kp, fs1)))"

definition GetUsernameFromEnv :: "key_lib \<Rightarrow> string" where
  "GetUsernameFromEnv lib = (if kl_EnvUser lib = [] then ''cdsanonymous'' else kl_EnvUser lib)"

definition persistHostKeyPair :: "key_lib \<Rightarrow> string \<Rightarrow> string \<Rightarrow> string \<Rightarrow> data \<Rightarrow> err option \<times> data" where
  "persistHostKeyPair lib hostName prv pub d =
     (let d1 = (if HasHost d hostName then d else AddHost hostName (GetUsernameFromEnv lib) d)
      in case UpdateHostKey (zero_Host\<lparr>bh_Name := hostName, bh_KeyPair := \<lparr>kp_PathToPub = pub, kp_PathToPrv = prv\<rparr>\<rparr>) d1 of
           Inl e \<Rightarrow> (Some e, d1) | Inr d2 \<Rightarrow> (None, d2))"

definition defaultSSHKeyNames :: "string list" where
  "defaultSSHKeyNames = [''id_rsa'', ''id_ed25519'']"

text \<open>The result is the private and the public path.\<close>

definition ensureProjectSSHKeyPair ::
  "'u url_lib \<Rightarrow> key_lib \<Rightarrow> string \<Rightarrow> data \<times> files \<Rightarrow> (string \<times> string) result \<times> data \<times> files" where
  "ensureProjectSSHKeyPair url lib proj st =
     (let (d, fs) = st; hostName = projectAgentHost url d proj; prv = GetHostKey d hostName; pub = GetHostPubKey d hostName in
      if prv \<noteq> [] \<and> pub \<noteq> [] \<and> regularFileExists lib fs prv \<and> regularFileExists lib fs pub then (Ok (prv, pub), st)
      else case find (\<lambda>p. regularFileExists lib fs p \<and> regularFileExists lib fs (p @ ''.pub''))
          (map (\<lambda>n. path_Join [path_Join [kl_HomeDir lib, ''.ssh''], n]) defaultSSHKeyNames) of
        Some p \<Rightarrow>
          (case persistHostKeyPair lib hostName p (p @ ''.pub'') d of
             (Some e, d1) \<Rightarrow> (Inl e, (d1, fs)) | (None, d1) \<Rightarrow> (Ok (p, p @ ''.pub''), (d1, fs)))
      | None \<Rightarrow>
          (case ensureManagedHostKeyPair lib hostName fs of
             (Inl e, fs1) \<Rightarrow> (Inl e, (d, fs1))
           | (Inr kp, fs1) \<Rightarrow>
               (case persistHostKeyPair lib hostName (PathToPrv kp) (PathToPub kp) d of
                  (Some e, d1) \<Rightarrow> (Inl e, (d1, fs1)) | (None, d1) \<Rightarrow> (Ok (PathToPrv kp, PathToPub kp), (d1, fs1)))))"

end
