(* ===== verification/ProjectDeploy.thy ===== *)
theory ProjectDeploy
  imports ProjectKeys
begin

text \<open>
  The deployment of a project by the client (\<open>internal/command/project_agent.go\<close>): the plan
  (configuration, container name, user, labels, artifacts), staging, the deployment stream
  and the container that is read back.

  Besides the client's state there are the files of the client and, for the variables of the
  configuration, the state of the engine package. JSON, the configuration parser, the hash
  and the content type are parameters.
\<close>

section \<open>The plan\<close>

record projectDeployPlan =
  dp_projectName :: string
  dp_configDir :: string
  dp_config :: Config
  dp_configBytes :: string
  dp_containerName :: string
  dp_remoteUser :: string
  dp_labels :: "(string \<times> string) list"
  dp_artifacts :: "artifactCandidate list"

text \<open>
  \<open>json_Unmarshal\<close> reads a \<open>map[string]any\<close>: \<open>Ok None\<close> is the nil map that the text \<open>null\<close>
  leaves. The members of the map are of the type \<open>'v\<close>.
\<close>

record 'v json_lib =
  json_Unmarshal :: "string \<Rightarrow> (string \<rightharpoonup> 'v) option result"
  json_Marshal :: "(string \<rightharpoonup> 'v) \<Rightarrow> string result"
  json_String :: "string \<Rightarrow> 'v"

record ('u, 'v, 'w) deploy_env =
  de_command :: "'u command_env"
  de_keys :: key_lib
  de_engine :: "'w engine_env"
  de_json :: "'v json_lib"
  de_Parse :: "string \<Rightarrow> Config result"
  de_Collect :: "files \<Rightarrow> client_env"
  de_sha :: "string \<Rightarrow> string"
  de_DetectContentType :: "string \<Rightarrow> string"
  de_Timestamp :: string

record ('a, 'w) deploy_client =
  dc_client :: "'a client_state"
  dc_files :: files
  dc_engine :: "'w engine_state"

definition projectConfigFile :: "string \<Rightarrow> string" where
  "projectConfigFile configDir = path_Join [configDir, ''devcontainer.json'']"

definition stripFullLineJSONComments :: "string \<Rightarrow> string" where
  "stripFullLineJSONComments d = Join (filter (\<lambda>l. \<not> HasPrefix (TrimSpace l) ''//'') (split_on NL d)) [NL]"

text \<open>An assignment to an entry of the nil map panics.\<close>

definition nil_map_assignment :: err where
  "nil_map_assignment = NewError ''assignment to entry in nil map''"

definition applyProjectConfigOverrides :: "'v json_lib \<Rightarrow> data \<Rightarrow> string \<Rightarrow> string \<Rightarrow> string result" where
  "applyProjectConfigOverrides lib d proj rawConfig =
     (let overrideTag = TrimSpace (db_OverrideImageTag d proj) in
      if overrideTag = [] then Ok rawConfig
      else bind_ok (wrap_error ''Failed to apply image tag override to devcontainer configuration''
             (json_Unmarshal lib (stripFullLineJSONComments rawConfig))) (\<lambda>config.
        case config of
          None \<Rightarrow> Inl nil_map_assignment
        | Some m \<Rightarrow> wrap_error ''Failed to serialize devcontainer configuration with image tag override''
            (json_Marshal lib (m(''overrideImageTag'' \<mapsto> json_String lib overrideTag)))))"

definition bootstrapHostName :: "'u url_lib \<Rightarrow> string \<Rightarrow> string result" where
  "bootstrapHostName lib targetServer =
     (let normalizedTarget = TrimSpace targetServer;
          without_url = (case SplitHostPort normalizedTarget of
             Inr (host, port) \<Rightarrow> Ok (if host = [] then KLocalhost else host)
           | Inl _ \<Rightarrow> Ok normalizedTarget)
      in if normalizedTarget = [] \<or> HasPrefix normalizedTarget '':'' then Ok KLocalhost
         else if Contains normalizedTarget ''://'' then
           (case url_Parse lib normalizedTarget of
              None \<Rightarrow> Fail ''failed to parse target server for bootstrap''
            | Some u \<Rightarrow> if url_Hostname lib u \<noteq> [] then Ok (url_Hostname lib u) else without_url)
         else without_url)"

text \<open>\<open>buildDevContainerName\<close>: the name of the configuration, or the time, which is a parameter.\<close>

definition GetDevcontainerNameForConfig :: "string result \<Rightarrow> string \<Rightarrow> string \<Rightarrow> Config option \<Rightarrow> string" where
  "GetDevcontainerNameForConfig os_hostname timestamp proj config =
     (let hostname = ok_or [] os_hostname in
      case (case config of None \<Rightarrow> None | Some c \<Rightarrow> c [''name'']) of
        Some (CfgString n) \<Rightarrow> proj @ ''-'' @ n @ ''-'' @ hostname
      | _ \<Rightarrow> proj @ ''-'' @ hostname @ ''-'' @ timestamp)"

definition deploy_host_name :: "'u url_lib \<Rightarrow> string result \<Rightarrow> string \<Rightarrow> string" where
  "deploy_host_name lib os_hostname hostName =
     (let agentHostName = (case bootstrapHostName lib hostName of Inl _ \<Rightarrow> hostName | Inr h \<Rightarrow> if h = [] then hostName else h)
      in if agentHostName = KLocalhost
         then (case os_hostname of Inr h \<Rightarrow> if h \<noteq> [] then h else agentHostName | Inl _ \<Rightarrow> agentHostName)
         else agentHostName)"

definition buildProjectDeployContainerName ::
  "'u url_lib \<Rightarrow> string result \<Rightarrow> string \<Rightarrow> string \<Rightarrow> string \<Rightarrow> Config option \<Rightarrow> string" where
  "buildProjectDeployContainerName lib os_hostname timestamp proj hostName config =
     (case (case config of None \<Rightarrow> None | Some c \<Rightarrow> c [''name'']) of
        Some (CfgString n) \<Rightarrow>
          if TrimSpace n \<noteq> [] then proj @ ''-'' @ TrimSpace n @ ''-'' @ deploy_host_name lib os_hostname hostName
          else GetDevcontainerNameForConfig os_hostname timestamp proj config
      | _ \<Rightarrow> GetDevcontainerNameForConfig os_hostname timestamp proj config)"

definition projectContainerLabels :: "data \<Rightarrow> string \<Rightarrow> (string \<times> string) list" where
  "projectContainerLabels d proj =
     [(''io.cds'', ''cds''), (''io.cds.project'', proj)]
     @ (if ProjectFlavourName d proj \<noteq> [] then [(''io.cds.flavour'', ProjectFlavourName d proj)] else [])"

section \<open>Artifacts\<close>

definition artifactSourceData :: "key_lib \<Rightarrow> files \<Rightarrow> SourceRef \<Rightarrow> string result" where
  "artifactSourceData lib fs source =
     (case sr_Type source of SourceTypeLocalFS \<Rightarrow> read_file lib fs (sr_Ref source) | SourceTypeInline \<Rightarrow> Ok (sr_Data source))"

definition artifactContentType :: "('u, 'v, 'w) deploy_env \<Rightarrow> string \<Rightarrow> string" where
  "artifactContentType env d = (if d = [] then ''application/octet-stream'' else de_DetectContentType env d)"

definition candidate :: "('u, 'v, 'w) deploy_env \<Rightarrow> string \<Rightarrow> string \<Rightarrow> artifactCandidate" where
  "candidate env identifier d =
     \<lparr>ac_descriptor = \<lparr>ad_Identifier = identifier, ad_Type = artifactContentType env d,
        ad_Size = int (length d), ad_Digest = de_sha env d\<rparr>, ac_data = d\<rparr>"

fun read_candidates ::
  "('u, 'v, 'w) deploy_env \<Rightarrow> files \<Rightarrow> string \<Rightarrow> RequiredArtifact list \<Rightarrow> artifactCandidate list result" where
  "read_candidates env fs pubKey [] = Ok []"
| "read_candidates env fs pubKey (r # rs) =
     (if ra_Identifier r = pubKey then read_candidates env fs pubKey rs
      else bind_ok (wrap_error (''Failed to read artifact '' @ ra_Identifier r) (artifactSourceData (de_keys env) fs (ra_Source r))) (\<lambda>d.
        bind_ok (read_candidates env fs pubKey rs) (\<lambda>cs. Ok (candidate env (ra_Identifier r) d # cs))))"

definition managedPublicKeyArtifact ::
  "('u, 'v, 'w) deploy_env \<Rightarrow> string \<Rightarrow> string \<Rightarrow> data \<times> files \<Rightarrow> artifactCandidate result \<times> data \<times> files" where
  "managedPublicKeyArtifact env proj identifier st =
     (case ensureProjectSSHKeyPair (ce_url (de_command env)) (de_keys env) proj st of
        (Inl e, st1) \<Rightarrow> (Inl (AppendError ''Failed to resolve project SSH key pair'' e), st1)
      | (Inr (prv, pub), st1) \<Rightarrow>
          (case read_file (de_keys env) (snd st1) pub of
             Inl e \<Rightarrow> (Inl (AppendError (''Failed to read SSH public key '' @ pub) e), st1)
           | Inr publicKey \<Rightarrow> (Ok (candidate env identifier (TrimSpace publicKey @ [NL])), st1)))"

definition collectArtifactCandidates ::
  "('u, 'v, 'w) deploy_env \<Rightarrow> string \<Rightarrow> Config \<Rightarrow> string \<Rightarrow> data \<times> files \<Rightarrow> artifactCandidate list result \<times> data \<times> files" where
  "collectArtifactCandidates env proj config configDir st =
     (case CollectArtifacts (de_Collect env (snd st)) config configDir of
        Inl e \<Rightarrow> (Inl e, st)
      | Inr required \<Rightarrow>
          (case SingletonIdentifier KindPubKey of
             Inl e \<Rightarrow> (Inl e, st)
           | Inr pubKey \<Rightarrow>
               (case read_candidates env (snd st) pubKey required of
                  Inl e \<Rightarrow> (Inl e, st)
                | Inr cs \<Rightarrow>
                    (case managedPublicKeyArtifact env proj pubKey st of
                       (Inl e, st1) \<Rightarrow> (Inl e, st1)
                     | (Inr c, st1) \<Rightarrow> (Ok (cs @ [c]), st1)))))"

section \<open>Building and running the plan\<close>

definition buildProjectDeployPlan ::
  "('u, 'v, 'w) deploy_env \<Rightarrow> string \<Rightarrow> ('a, 'w) deploy_client \<Rightarrow> projectDeployPlan result \<times> ('a, 'w) deploy_client" where
  "buildProjectDeployPlan env proj st =
     (let d = cs_data (dc_client st); configDir = ProjectConfig d proj in
      if TrimSpace configDir = [] then (Fail (''Project '' @ Quote proj @ '' has no devcontainer configuration directory''), st)
      else case bind_ok (wrap_error (''Failed to read devcontainer configuration for project '' @ proj)
              (read_file (de_keys env) (dc_files st) (projectConfigFile configDir))) (applyProjectConfigOverrides (de_json env) d proj) of
        Inl e \<Rightarrow> (Inl e, st)
      | Inr configBytes \<Rightarrow>
          (case wrap_error ''Failed to parse devcontainer configuration'' (de_Parse env configBytes) of
             Inl e \<Rightarrow> (Inl e, st)
           | Inr config \<Rightarrow>
               (case collectArtifactCandidates env proj config configDir (d, dc_files st) of
                  (Inl e, d1, fs1) \<Rightarrow>
                    (Inl (AppendError ''Failed to collect deployment artifacts'' e),
                     st\<lparr>dc_client := (dc_client st)\<lparr>cs_data := d1\<rparr>, dc_files := fs1\<rparr>)
                | (Inr artifacts, d1, fs1) \<Rightarrow>
                    (let (remoteUser, eng1) = ResolveRemoteUserFromConfig (de_engine env) (Some config) (dc_engine st)
                     in (Ok \<lparr>dp_projectName = proj, dp_configDir = configDir, dp_config = config, dp_configBytes = configBytes,
                           dp_containerName = buildProjectDeployContainerName (ce_url (de_command env)) (kl_Hostname (de_keys env))
                              (de_Timestamp env) proj (projectAgentHost (ce_url (de_command env)) d1 proj) (Some config),
                           dp_remoteUser = remoteUser, dp_labels = projectContainerLabels d1 proj, dp_artifacts = artifacts\<rparr>,
                         \<lparr>dc_client = (dc_client st)\<lparr>cs_data := d1\<rparr>, dc_files = fs1, dc_engine = eng1\<rparr>)))))"

text \<open>The name that the agent answers with is used when there is one.\<close>

definition deployProjectPlanOnAgent ::
  "'u command_env \<Rightarrow> 'a agentServices \<Rightarrow> projectDeployPlan \<Rightarrow> 'a client_state \<Rightarrow> string result \<times> 'a client_state" where
  "deployProjectPlanOnAgent env services plan st =
     (case on_agent (as_Stage services (dp_projectName plan) (dp_artifacts plan)) st of
        (Some e, st1) \<Rightarrow> (Inl (AppendError ''Failed to stage deployment artifacts'' e), st1)
      | (None, st1) \<Rightarrow>
          (case on_agent (as_Deploy services \<lparr>dq_ProjectName = dp_projectName plan, dq_ContainerName = dp_containerName plan,
                 dq_Labels = dp_labels plan, dq_DevcontainerConfig = dp_configBytes plan\<rparr>) st1 of
             (Inl e, st2) \<Rightarrow> (Inl (AppendError ''Failed to deploy container through agent'' e), st2)
           | (Inr (events, stream_end), st2) \<Rightarrow>
               (case receiveDeployResponse events stream_end of
                  Inl e \<Rightarrow> (Inl e, st2)
                | Inr (replied, out, deploy_err) \<Rightarrow>
                    (if deploy_err \<noteq> [] then (Fail deploy_err, st2)
                     else
                       let containerName = (if replied = [] then dp_containerName plan else replied) in
                       case setProjectContainerFromAgent env services (dp_projectName plan) containerName (dp_remoteUser plan)
                              KContainerStatusRunning st2 of
                         (Some e, st3) \<Rightarrow> (Inl (AppendError ''Failed to synchronize deployed container state'' e), st3)
                       | (None, st3) \<Rightarrow> (Ok containerName, st3)))))"

definition deployProjectOnAgent ::
  "('u, 'v, 'w) deploy_env \<Rightarrow> 'a agentServices \<Rightarrow> string \<Rightarrow> ('a, 'w) deploy_client \<Rightarrow> string result \<times> ('a, 'w) deploy_client" where
  "deployProjectOnAgent env services proj st =
     (case buildProjectDeployPlan env proj st of
        (Inl e, st1) \<Rightarrow> (Inl e, st1)
      | (Inr plan, st1) \<Rightarrow>
          (let (r, c) = deployProjectPlanOnAgent (de_command env) services plan (dc_client st1) in (r, st1\<lparr>dc_client := c\<rparr>)))"

end
