(* ===== verification/ProjectCommands.thy ===== *)
theory ProjectCommands
  imports ProjectDeploy
begin

text \<open>
  The project commands of the client (\<open>internal/command/project_*.go\<close>): choosing and
  validating the project, \<open>init\<close>, \<open>run\<close>, \<open>rebuild\<close>, \<open>rename\<close>, \<open>clear\<close>, \<open>drain\<close>, \<open>delete\<close>,
  \<open>sync\<close>, \<open>start\<close>, \<open>stop\<close> and \<open>use\<close>. A command is a function of its flags, its arguments and
  the state of the client; what it prints is not modelled.

  Reaching an agent is the record \<open>agent_link\<close>: starting it (\<open>bootstrap.StartAgent\<close>, whose
  error for an agent that already runs is not an error here) and connecting to it.
\<close>

section \<open>Reaching the agent\<close>

datatype start_outcome = Started | StartOnRun | StartFailed err

record 'a agent_link =
  al_StartAgent :: "string \<Rightarrow> 'a client_state \<Rightarrow> start_outcome \<times> 'a client_state"
  al_Connect :: "string \<Rightarrow> 'a client_state \<Rightarrow> 'a agentServices result \<times> 'a client_state"

definition ensureAgentStarted :: "'a agent_link \<Rightarrow> string \<Rightarrow> 'a client_state \<Rightarrow> err option \<times> 'a client_state" where
  "ensureAgentStarted link hostName st =
     (case al_StartAgent link hostName st of
        (StartFailed e, st1) \<Rightarrow> (Some e, st1) | (_, st1) \<Rightarrow> (None, st1))"

definition withProjectAgent ::
  "'u url_lib \<Rightarrow> 'a agent_link \<Rightarrow> string \<Rightarrow> ('a agentServices \<Rightarrow> 'a client_state \<Rightarrow> err option \<times> 'a client_state) \<Rightarrow>
   'a client_state \<Rightarrow> err option \<times> 'a client_state" where
  "withProjectAgent lib link proj callback st =
     (let hostName = projectAgentHost lib (cs_data st) proj in
      case ensureAgentStarted link hostName st of
        (Some e, st1) \<Rightarrow> (Some e, st1)
      | (None, st1) \<Rightarrow>
          (case al_Connect link hostName st1 of (Inl e, st2) \<Rightarrow> (Some e, st2) | (Inr services, st2) \<Rightarrow> callback services st2))"

section \<open>Names and tags\<close>

definition alnum :: "char \<Rightarrow> bool" where
  "alnum c = (let n = char_code c in 97 \<le> n \<and> n \<le> 122 \<or> 65 \<le> n \<and> n \<le> 90 \<or> 48 \<le> n \<and> n \<le> 57)"

text \<open>\<open>containerNamesRegex\<close>, and \<open>kImageTagRegex\<close>.\<close>

definition isValidProjectName :: "string \<Rightarrow> bool" where
  "isValidProjectName n = (n \<noteq> [] \<and> alnum (hd n) \<and> list_all (\<lambda>c. alnum c \<or> c = CHR ''_'' \<or> c = CHR ''.'' \<or> c = CHR ''-'') n)"

definition word_char :: "char \<Rightarrow> bool" where "word_char c = (alnum c \<or> c = CHR ''_'')"

definition validateImageTagSyntax :: "string \<Rightarrow> err option" where
  "validateImageTagSyntax tag =
     (if tag \<noteq> [] \<and> word_char (hd tag) \<and> length tag \<le> 128 \<and> list_all (\<lambda>c. word_char c \<or> c = CHR ''.'' \<or> c = CHR ''-'') tag
      then None
      else Some (NewError (''Failed to override image tag. Tag doesn't match corresponding regexp: '' @ tag)))"

definition KDefaultProjectName :: string where "KDefaultProjectName = ''default''"

definition defaultProjectNameFromContext :: "data \<Rightarrow> string" where
  "defaultProjectNameFromContext d =
     (if GetCurrentProject d \<noteq> [] then GetCurrentProject d
      else if HasProject d KDefaultProjectName then KDefaultProjectName else [])"

text \<open>\<open>help_error\<close> is the error of printing the usage.\<close>

definition validateProjectNameFromArgsOrContext :: "err option \<Rightarrow> data \<Rightarrow> string list \<Rightarrow> err option" where
  "validateProjectNameFromArgsOrContext help_error d args =
     (if args = [] \<and> defaultProjectNameFromContext d = []
      then Some (NewError ''Could not identify project to run the command. No project is set!'')
      else if length args > 1
      then (case help_error of
              Some e \<Rightarrow> Some (AppendError ''Incorrect command usage, CDS also failed to display usage'' e)
            | None \<Rightarrow> Some (NewError ''Incorrect command usage, expected only project name as the one argument of the command!''))
      else let n = (if args = [] then defaultProjectNameFromContext d else hd args)
           in if HasProject d n then None
              else Some (NewError (''Project '' @ [SQ] @ n @ [SQ] @ '' is not defined in cds configuration!'')))"

definition getProjectNameFromArgsOrContext :: "data \<Rightarrow> string list \<Rightarrow> string" where
  "getProjectNameFromArgsOrContext d args = (if length args = 1 then hd args else defaultProjectNameFromContext d)"

definition validateCurrentProjectName :: "data \<Rightarrow> string \<Rightarrow> err option" where
  "validateCurrentProjectName d n =
     (if n = [] then Some (NewError (''CDS is not set on a project yet, cannot deploy nothing!'' @ [NL]
        @ ''Consider using '' @ [SQ] @ ''cds project list'' @ [SQ] @ '' and '' @ [SQ] @ ''cds project use <project-name>'' @ [SQ]
        @ '' before running this command!''))
      else if \<not> HasProject d n then Some (NewError (''Project '' @ [SQ] @ n @ [SQ] @ '' is not defined in CDS configuration!'' @ [NL]
        @ ''Consider using '' @ [SQ] @ ''cds project list'' @ [SQ] @ '' and '' @ [SQ] @ ''cds project use <project-name>'' @ [SQ] @ '' to switch project!''))
      else None)"

definition confInUse :: "data \<Rightarrow> string \<Rightarrow> bool" where
  "confInUse d path = (GetProjectsUsingConfigDir d path \<noteq> [])"

definition toAbsolute :: "(string \<Rightarrow> string result) \<Rightarrow> string \<Rightarrow> string result" where
  "toAbsolute abs_path path =
     (if HasPrefix path ''/'' \<or> HasPrefix path ''~'' then Ok path
      else wrap_error ''Failed to get absolute path'' (abs_path path))"

section \<open>init\<close>

record projectInit =
  pi_confDir :: string
  pi_projectName :: string
  pi_flavour :: string
  pi_overrideDir :: string
  pi_pullLatest :: bool
  pi_overrideImageTag :: string
  pi_nonInteractive :: bool

definition init_checkMutualExclusiveness :: "projectInit \<Rightarrow> err option" where
  "init_checkMutualExclusiveness i =
     (if pi_confDir i \<noteq> [] \<and> (pi_flavour i \<noteq> [] \<or> pi_overrideDir i \<noteq> [])
      then Some (NewError (if pi_flavour i \<noteq> [] then ''--conf-dir and --flavour are mutually exclusive''
                           else ''--conf-dir and --override-conf are mutually exclusive''))
      else if pi_overrideImageTag i \<noteq> [] \<and> pi_pullLatest i
      then Some (NewError ''--override-dir and --pull-latest are mutually exclusive'')
      else None)"

definition handleConfDir :: "(string \<Rightarrow> string result) \<Rightarrow> data \<Rightarrow> projectInit \<Rightarrow> projectInit result" where
  "handleConfDir abs_path d i =
     bind_ok (wrap_error ''Failed to transform dir!'' (toAbsolute abs_path (pi_confDir i))) (\<lambda>dir.
       if confInUse d dir then Fail ''Specified directory is already in use!'' else Ok (i\<lparr>pi_confDir := dir\<rparr>))"

text \<open>The prompts are a parameter; they are not shown when there is nothing to choose from.\<close>

definition setFlavourInteractively :: "(string list \<Rightarrow> string \<times> string) \<Rightarrow> string list \<Rightarrow> string \<times> string" where
  "setFlavourInteractively ask options = (if options = [] then ([], []) else ask options)"

definition handleFlavour :: "(string list \<Rightarrow> string \<times> string) \<Rightarrow> projectInit \<Rightarrow> projectInit result" where
  "handleFlavour ask i =
     (let i = (if pi_flavour i = [] \<and> pi_overrideDir i \<noteq> [] then i\<lparr>pi_overrideDir := []\<rparr> else i); flavoursNames = [] in
      if pi_flavour i = [] then
        (if pi_nonInteractive i
         then Fail ''No flavour specified and running in non-interactive mode. Please specify a flavour using --flavour flag''
         else let (f, dir) = setFlavourInteractively ask flavoursNames in Ok (i\<lparr>pi_flavour := f, pi_overrideDir := dir\<rparr>))
      else Ok i)"

text \<open>The name is matched against the naming rule, and the answer is dropped.\<close>

definition init_preRunE ::
  "(string \<Rightarrow> string result) \<Rightarrow> (string list \<Rightarrow> string \<times> string) \<Rightarrow> data \<Rightarrow> projectInit \<Rightarrow> projectInit result" where
  "init_preRunE abs_path ask d i =
     (let i = (if pi_projectName i = [] then i\<lparr>pi_projectName := KDefaultProjectName\<rparr> else i) in
      if HasProject d (pi_projectName i)
      then Fail (''Project '' @ Quote (pi_projectName i) @ '' is defined in the space configuration. Use a different name with --name'')
      else case init_checkMutualExclusiveness i of
        Some e \<Rightarrow> Inl e
      | None \<Rightarrow>
          (case (if pi_overrideImageTag i \<noteq> [] then validateImageTagSyntax (pi_overrideImageTag i) else None) of
             Some e \<Rightarrow> Inl e
           | None \<Rightarrow>
               (if pi_confDir i \<noteq> [] then handleConfDir abs_path d i
                else bind_ok (wrap_error ''Failed to determine flavour'' (handleFlavour ask i)) (\<lambda>i.
                  if pi_overrideDir i \<noteq> [] then
                    bind_ok (wrap_error ''Failed to transform dir!'' (toAbsolute abs_path (pi_overrideDir i)))
                      (\<lambda>dir. Ok (i\<lparr>pi_overrideDir := dir\<rparr>))
                  else Ok i))))"

definition kLatestTag :: string where "kLatestTag = ''latest''"

text \<open>An update of the store that keeps the old store on an error.\<close>

definition or_keep :: "data result \<Rightarrow> data \<Rightarrow> err option \<times> data" where
  "or_keep r d = (case r of Inl e \<Rightarrow> (Some e, d) | Inr d' \<Rightarrow> (None, d'))"

definition init_handleImageTag :: "projectInit \<Rightarrow> data \<Rightarrow> err option \<times> data" where
  "init_handleImageTag i d =
     (if pi_overrideImageTag i \<noteq> [] then or_keep (SetOverrideImageTag (pi_projectName i) (pi_overrideImageTag i) d) d
      else if pi_pullLatest i then or_keep (SetOverrideImageTag (pi_projectName i) kLatestTag d) d
      else (None, d))"

definition KCdsProjectDefaultDir :: string where "KCdsProjectDefaultDir = ''.devcontainer''"

definition init_register :: "projectInit \<Rightarrow> data \<Rightarrow> data result" where
  "init_register i d =
     (if pi_confDir i \<noteq> [] then
        (let pathToConfDir = path_Join [pi_confDir i, KCdsProjectDefaultDir] in
         wrap_error (''Failed to update configuration (project: '' @ pi_projectName i @ '', config path: '' @ pathToConfDir @ '')'')
           (AddProjectUsingConfDir (pi_projectName i) pathToConfDir d))
      else wrap_error ''Failed to initialize project with flavour''
        (wrap_error (''Failed to update configuration (project: '' @ pi_projectName i @ '', flavour: '' @ pi_flavour i @
            '', override path: '' @ pi_overrideDir i @ '')'')
          (AddProjectUsingFlavour (pi_projectName i) (pi_flavour i) (pi_overrideDir i) d)))"

definition init_runE :: "projectInit \<Rightarrow> data \<Rightarrow> err option \<times> data" where
  "init_runE i d =
     (case init_register i d of
        Inl e \<Rightarrow> (Some e, d)
      | Inr d1 \<Rightarrow>
          (case (if GetCurrentProject d1 = []
                 then wrap_error ''Failed to set project to newly initialized project'' (SetProject (pi_projectName i) d1) else Ok d1) of
             Inl e \<Rightarrow> (Some e, d1)
           | Inr d2 \<Rightarrow> init_handleImageTag i d2))"

section \<open>run\<close>

record projectRun =
  pr_targetServer :: string
  pr_path :: string
  pr_srcRepo :: string
  pr_setSshTunnel :: bool
  pr_overrideImageTag :: string
  pr_pullLatest :: bool
  pr_pullGiven :: bool

text \<open>The three flags of the image tag; \<open>rebuild\<close> has the same check.\<close>

definition tag_flags_conflict :: "string \<Rightarrow> bool \<Rightarrow> bool \<Rightarrow> err option" where
  "tag_flags_conflict tag latest given =
     (if tag \<noteq> [] \<and> (latest \<or> given) \<or> latest \<and> (tag \<noteq> [] \<or> given) \<or> given \<and> (tag \<noteq> [] \<or> latest)
      then Some (NewError ''--override-tag, --pull-latest and --pull-given are mutually exclusive'') else None)"

definition run_checkMutualExclusiveness :: "projectRun \<Rightarrow> string list \<Rightarrow> err option" where
  "run_checkMutualExclusiveness r args =
     (if pr_path r \<noteq> [] \<and> length args > 0
      then Some (NewError ''the --path option and the projectName argument are mutually exclusive'')
      else if pr_path r \<noteq> [] \<and> pr_srcRepo r \<noteq> []
      then Some (NewError ''the --path and the --src-repo options are mutually exclusive'')
      else if pr_srcRepo r \<noteq> [] \<and> length args > 0
      then Some (NewError ''the --src-repo option and the projectName argument are mutually exclusive'')
      else tag_flags_conflict (pr_overrideImageTag r) (pr_pullLatest r) (pr_pullGiven r))"

definition checkCommandSemantic :: "string \<Rightarrow> err option" where
  "checkCommandSemantic tag = (if tag \<noteq> [] then validateImageTagSyntax tag else None)"

definition handleImageTag :: "string \<Rightarrow> bool \<Rightarrow> bool \<Rightarrow> string \<Rightarrow> data \<Rightarrow> err option \<times> data" where
  "handleImageTag tag latest given proj d =
     (if tag \<noteq> [] then or_keep (SetOverrideImageTag proj tag d) d
      else if latest then or_keep (SetOverrideImageTag proj kLatestTag d) d
      else if given then or_keep (SetOverrideImageTag proj [] d) d
      else (None, d))"

definition handlePath :: "(string \<Rightarrow> string result) \<Rightarrow> projectRun \<Rightarrow> data \<Rightarrow> string result \<times> data" where
  "handlePath abs_path r d =
     (case wrap_error ''Failed to resolve path'' (toAbsolute abs_path (pr_path r)) of
        Inl e \<Rightarrow> (Inl e, d)
      | Inr absPath \<Rightarrow>
          (let devcontainerPath = path_Join [absPath, KCdsProjectDefaultDir];
               names = GetProjectsUsingConfigDir d devcontainerPath; projectName = path_Base absPath
           in if names \<noteq> []
              then (Fail (''The following projects already use this devcontainer.json configuration: ['' @ Join names '' '' @ '']'' @ [NL] @ ''Aborting.''), d)
              else if HasProject d projectName
              then (Fail (''Project name '' @ [SQ] @ projectName @ [SQ] @ '' is already configured''), d)
              else case wrap_error (''Failed to register project at given path ('' @ absPath @ '')'')
                  (AddProjectUsingConfDir projectName devcontainerPath d) of
                Inl e \<Rightarrow> (Inl e, d) | Inr d1 \<Rightarrow> (Ok projectName, d1)))"

definition handleSrcRepo :: "string result" where
  "handleSrcRepo = Fail ''source repository deployment is not available through the current agent API; use --path or a configured project''"

definition buildProjectInfo ::
  "(string \<Rightarrow> string result) \<Rightarrow> err option \<Rightarrow> projectRun \<Rightarrow> string list \<Rightarrow> data \<Rightarrow> string result \<times> data" where
  "buildProjectInfo abs_path help_error r args d =
     (if pr_path r \<noteq> [] then handlePath abs_path r d
      else if pr_srcRepo r \<noteq> [] then (handleSrcRepo, d)
      else case validateProjectNameFromArgsOrContext help_error d args of
        Some e \<Rightarrow> (Inl e, d) | None \<Rightarrow> (Ok (getProjectNameFromArgsOrContext d args), d))"

text \<open>Which host a project runs on: its own when it has one, and no other may be asked for.\<close>

definition project_host_choice :: "data \<Rightarrow> string \<Rightarrow> string \<Rightarrow> string result" where
  "project_host_choice d proj desired =
     (let current = ProjectHostName d proj in
      if current = [] then Ok (if desired = [] then ''localhost'' else desired)
      else if desired \<noteq> [] \<and> desired \<noteq> current
      then Fail (''project '' @ Quote proj @ '' is mapped to '' @ Quote current @ '' server while requesting a deployment on '' @ desired)
      else Ok (if desired = [] then current else desired))"

definition identifyProjectHost :: "string \<Rightarrow> string \<Rightarrow> data \<Rightarrow> err option \<times> data" where
  "identifyProjectHost proj desired d =
     (case project_host_choice d proj desired of
        Inl e \<Rightarrow> (Some e, d)
      | Inr hostName \<Rightarrow>
          (let d1 = (if HasHost d hostName then d else AddHost hostName [] d)
           in or_keep (wrap_error (''Failed to set project ('' @ proj @ '')'') (SetProjectHost proj hostName d1)) d1))"

text \<open>Without a target the default host is asked for.\<close>

definition run_target :: "'u url_lib \<Rightarrow> projectRun \<Rightarrow> data \<Rightarrow> string result" where
  "run_target lib r d =
     bind_ok (if pr_targetServer r \<noteq> [] then bootstrapHostName lib (pr_targetServer r) else Ok []) (\<lambda>t.
       Ok (if t = [] then GetDefaultHostName d else t))"

definition buildProjectHostInfoAndConfig :: "'u url_lib \<Rightarrow> projectRun \<Rightarrow> string \<Rightarrow> data \<Rightarrow> err option \<times> data" where
  "buildProjectHostInfoAndConfig lib r proj d =
     (case run_target lib r d of
        Inl e \<Rightarrow> (Some e, d)
      | Inr target \<Rightarrow>
          (case identifyProjectHost proj target d of
             (Some e, d1) \<Rightarrow> (Some (AppendError (''Failed to identify host for project ('' @ proj @ '')'') e), d1)
           | (None, d1) \<Rightarrow> (None, d1)))"

text \<open>The tip at the end of the message is \<open>getTipClear\<close>.\<close>

definition getTipClear :: "data \<Rightarrow> string \<Rightarrow> string" where
  "getTipClear d proj = ''  (use '' @ Quote (''cds project clear'' @ (if IsCurrentProject d proj then [] else '' '' @ proj)) @ '' to delete your container(s))''"

definition checkCandidateForRun :: "data \<Rightarrow> string \<Rightarrow> err option" where
  "checkCandidateForRun d proj =
     (if ProjectContainersName d proj \<noteq> []
      then Some (NewError (''Containers have been found to be already configured for this project.'' @ [NL] @ getTipClear d proj))
      else None)"

definition ensureContext :: "projectRun \<Rightarrow> string \<Rightarrow> data \<Rightarrow> err option \<times> data" where
  "ensureContext r proj d =
     (if GetCurrentProject d = [] \<and> (pr_path r \<noteq> [] \<or> pr_srcRepo r \<noteq> [])
      then or_keep (wrap_error (''Failed to set project ('' @ proj @ '') for container project'') (SetProject proj d)) d
      else (None, d))"

text \<open>The steps of the preparation on the store, each with the store as the one before left it.\<close>

definition then_step :: "err option \<times> data \<Rightarrow> (data \<Rightarrow> err option \<times> data) \<Rightarrow> err option \<times> data" where
  "then_step r f = (case r of (Some e, d) \<Rightarrow> (Some e, d) | (None, d) \<Rightarrow> f d)"

definition run_prepare :: "'u url_lib \<Rightarrow> projectRun \<Rightarrow> string \<Rightarrow> data \<Rightarrow> err option \<times> data" where
  "run_prepare lib r proj d =
     then_step (then_step (then_step (then_step (buildProjectHostInfoAndConfig lib r proj d)
       (\<lambda>d. if pr_setSshTunnel r then or_keep (wrap_error ''Failed to update project'' (SetProjectSshTunnelNeeded proj d)) d else (None, d)))
       (handleImageTag (pr_overrideImageTag r) (pr_pullLatest r) (pr_pullGiven r) proj))
       (\<lambda>d. (checkCandidateForRun d proj, d)))
       (ensureContext r proj)"

definition run_preRunE ::
  "'u url_lib \<Rightarrow> (string \<Rightarrow> string result) \<Rightarrow> err option \<Rightarrow> projectRun \<Rightarrow> string list \<Rightarrow> data \<Rightarrow> string result \<times> data" where
  "run_preRunE lib abs_path help_error r args d =
     (case run_checkMutualExclusiveness r args of
        Some e \<Rightarrow> (Inl e, d)
      | None \<Rightarrow>
          (case checkCommandSemantic (pr_overrideImageTag r) of
             Some e \<Rightarrow> (Inl e, d)
           | None \<Rightarrow>
               (case buildProjectInfo abs_path help_error r args d of
                  (Inl e, d1) \<Rightarrow> (Inl e, d1)
                | (Inr proj, d1) \<Rightarrow>
                    (case run_prepare lib r proj d1 of (Some e, d2) \<Rightarrow> (Inl e, d2) | (None, d2) \<Rightarrow> (Ok proj, d2)))))"

text \<open>A callback on the client's state and its files, for the commands that deploy.\<close>

definition deploy_with_agent ::
  "('u, 'v, 'w) deploy_env \<Rightarrow> 'a agent_link \<Rightarrow> string \<Rightarrow>
   ('a agentServices \<Rightarrow> ('a, 'w) deploy_client \<Rightarrow> string result \<times> ('a, 'w) deploy_client) \<Rightarrow>
   ('a, 'w) deploy_client \<Rightarrow> string result \<times> ('a, 'w) deploy_client" where
  "deploy_with_agent env link proj callback st =
     (let hostName = projectAgentHost (ce_url (de_command env)) (cs_data (dc_client st)) proj;
          (e, c1) = ensureAgentStarted link hostName (dc_client st); st1 = st\<lparr>dc_client := c1\<rparr>
      in case e of
           Some e \<Rightarrow> (Inl e, st1)
         | None \<Rightarrow>
             (case al_Connect link hostName c1 of
                (Inl e, c2) \<Rightarrow> (Inl e, st\<lparr>dc_client := c2\<rparr>)
              | (Inr services, c2) \<Rightarrow> callback services (st\<lparr>dc_client := c2\<rparr>)))"

definition run_runE ::
  "('u, 'v, 'w) deploy_env \<Rightarrow> 'a agent_link \<Rightarrow> string \<Rightarrow> ('a, 'w) deploy_client \<Rightarrow> string result \<times> ('a, 'w) deploy_client" where
  "run_runE env link proj = deploy_with_agent env link proj (\<lambda>services. deployProjectOnAgent env services proj)"

section \<open>rebuild\<close>

definition rebuild_preRunE :: "string \<Rightarrow> bool \<Rightarrow> bool \<Rightarrow> string list \<Rightarrow> data \<Rightarrow> err option \<times> data" where
  "rebuild_preRunE tag latest given args d =
     (case tag_flags_conflict tag latest given of
        Some e \<Rightarrow> (Some e, d)
      | None \<Rightarrow> (case checkCommandSemantic tag of
          Some e \<Rightarrow> (Some e, d)
        | None \<Rightarrow> handleImageTag tag latest given (getProjectNameFromArgsOrContext d args) d))"

text \<open>The plan comes first, so that a plan that cannot be made clears nothing.\<close>

definition rebuild_with ::
  "('u, 'v, 'w) deploy_env \<Rightarrow> string \<Rightarrow> 'a agentServices \<Rightarrow> ('a, 'w) deploy_client \<Rightarrow> string result \<times> ('a, 'w) deploy_client" where
  "rebuild_with env proj services st =
     (case buildProjectDeployPlan env proj st of
        (Inl e, st1) \<Rightarrow> (Inl e, st1)
      | (Inr plan, st1) \<Rightarrow>
          (case clearProjectContainersOnAgent (de_command env) services proj [dp_containerName plan] (dc_client st1) of
             (Some e, c2) \<Rightarrow> (Inl e, st1\<lparr>dc_client := c2\<rparr>)
           | (None, c2) \<Rightarrow>
               (let (r, c3) = deployProjectPlanOnAgent (de_command env) services plan c2 in (r, st1\<lparr>dc_client := c3\<rparr>))))"

definition rebuild_runE ::
  "('u, 'v, 'w) deploy_env \<Rightarrow> 'a agent_link \<Rightarrow> string \<Rightarrow> ('a, 'w) deploy_client \<Rightarrow> string result \<times> ('a, 'w) deploy_client" where
  "rebuild_runE env link proj = deploy_with_agent env link proj (rebuild_with env proj)"

section \<open>rename\<close>

definition rename_check :: "data \<Rightarrow> string list \<Rightarrow> (string \<times> string) result" where
  "rename_check d args =
     (if args = [] then Fail ''No arguments given. Rename needs at least the new container name''
      else let (proj, newName) = (if length args = 1 then (GetCurrentProject d, args ! 0)
                                  else if length args = 2 then (args ! 0, args ! 1) else ([], []))
       in case validateCurrentProjectName d proj of
            Some e \<Rightarrow> Inl e
          | None \<Rightarrow>
              (if ProjectContainersName d proj = [] then Fail ''A project has to have containers in order for it to be renamed''
               else if newName = [] then Fail ''New container name cannot be empty''
               else Ok (proj, newName)))"

definition rename_with ::
  "'u command_env \<Rightarrow> string \<Rightarrow> string \<Rightarrow> 'a agentServices \<Rightarrow> 'a client_state \<Rightarrow> err option \<times> 'a client_state" where
  "rename_with env proj newName services st =
     (case syncProjectContainersFromAgent env services proj (ProjectContainersName (cs_data st) proj) False st of
        (Some e, st1) \<Rightarrow> (Some e, st1)
      | (None, st1) \<Rightarrow>
          (case projectPrimaryContainer (cs_data st1) proj of
             Inl e \<Rightarrow> (Some e, st1)
           | Inr (oldName, remoteUser) \<Rightarrow>
               (if oldName = newName then (None, st1)
                else case on_agent (as_Rename services oldName newName) st1 of
                  (Some e, st2) \<Rightarrow> (Some (AppendError (''Failed to rename container '' @ oldName @ '' to '' @ newName) e), st2)
                | (None, st2) \<Rightarrow>
                    (case setProjectContainerFromAgentCurrentStatus env services proj newName remoteUser st2 of
                       (Some e, st3) \<Rightarrow> (Some (AppendError ''Failed to synchronize renamed container state'' e), st3)
                     | (None, st3) \<Rightarrow> (None, st3)))))"

definition rename_execute ::
  "'u command_env \<Rightarrow> 'a agent_link \<Rightarrow> string \<Rightarrow> string \<Rightarrow> 'a client_state \<Rightarrow> err option \<times> 'a client_state" where
  "rename_execute env link proj newName = withProjectAgent (ce_url env) link proj (rename_with env proj newName)"

section \<open>sync, start, stop, clear, drain\<close>

definition syncProject :: "'u command_env \<Rightarrow> 'a agent_link \<Rightarrow> string \<Rightarrow> 'a client_state \<Rightarrow> err option \<times> 'a client_state" where
  "syncProject env link proj st =
     (let containers = ProjectContainersName (cs_data st) proj in
      if containers = [] then (None, st)
      else withProjectAgent (ce_url env) link proj (\<lambda>services. syncProjectContainersFromAgent env services proj containers False) st)"

fun sync_each :: "'u command_env \<Rightarrow> 'a agent_link \<Rightarrow> string list \<Rightarrow> 'a client_state \<Rightarrow> err option \<times> 'a client_state" where
  "sync_each env link [] st = (None, st)"
| "sync_each env link (p # names) st =
     (case syncProject env link p st of (Some e, st1) \<Rightarrow> (Some e, st1) | (None, st1) \<Rightarrow> sync_each env link names st1)"

definition syncAllProjects :: "'u command_env \<Rightarrow> 'a agent_link \<Rightarrow> 'a client_state \<Rightarrow> err option \<times> 'a client_state" where
  "syncAllProjects env link st = sync_each env link (ListProjects (cs_data st)) st"

definition getTipRun :: "data \<Rightarrow> string \<Rightarrow> string" where
  "getTipRun d proj =
     (let hostname = (if ProjectHostName d proj \<noteq> [] then ProjectHostName d proj
                      else case ListHostNames d of h # _ \<Rightarrow> h | [] \<Rightarrow> ''<target-host>'')
      in ''  (use '' @ Quote (''cds project run '' @ (if IsCurrentProject d proj then [] else proj) @ '' -t '' @ hostname)
         @ '' to create and start a container)'')"

definition start_runE :: "'u command_env \<Rightarrow> 'a agent_link \<Rightarrow> string \<Rightarrow> 'a client_state \<Rightarrow> err option \<times> 'a client_state" where
  "start_runE env link proj st =
     (if ProjectContainersName (cs_data st) proj = []
      then (Some (NewError (''Project '' @ [SQ] @ proj @ [SQ] @ '' has no containers to start.'' @ [NL] @ getTipRun (cs_data st) proj)), st)
      else withProjectAgent (ce_url env) link proj (\<lambda>services. startProjectContainersOnAgent env services proj) st)"

definition stop_runE :: "'u command_env \<Rightarrow> 'a agent_link \<Rightarrow> string \<Rightarrow> 'a client_state \<Rightarrow> err option \<times> 'a client_state" where
  "stop_runE env link proj st =
     (if ProjectContainersName (cs_data st) proj = [] then (None, st)
      else withProjectAgent (ce_url env) link proj (\<lambda>services. stopProjectContainersOnAgent env services proj) st)"

definition projectClearMain :: "'u command_env \<Rightarrow> 'a agent_link \<Rightarrow> string \<Rightarrow> 'a client_state \<Rightarrow> err option \<times> 'a client_state" where
  "projectClearMain env link proj st =
     (if ProjectContainersName (cs_data st) proj = [] then (None, st)
      else withProjectAgent (ce_url env) link proj (\<lambda>services. clearProjectContainersOnAgent env services proj []) st)"

definition unregisterFromHostWithAssertError :: "string \<Rightarrow> data \<Rightarrow> data" where
  "unregisterFromHostWithAssertError proj d =
     (let hostName = ProjectHostName d proj in
      if hostName = [] then d else case RemoveProjectFromHost hostName proj d of Inl _ \<Rightarrow> d | Inr d' \<Rightarrow> d')"

text \<open>An error of the last step is only a warning.\<close>

definition drain_execute :: "'u command_env \<Rightarrow> 'a agent_link \<Rightarrow> string \<Rightarrow> 'a client_state \<Rightarrow> err option \<times> 'a client_state" where
  "drain_execute env link proj st =
     (case projectClearMain env link proj st of
        (Some e, st1) \<Rightarrow> (Some e, st1)
      | (None, st1) \<Rightarrow>
          (let d = unregisterFromHostWithAssertError proj (cs_data st1)
           in (None, st1\<lparr>cs_data := snd (or_keep (RemoveHostAndContainersFromProject proj d) d)\<rparr>)))"

section \<open>delete and use\<close>

definition delete_row :: "string \<Rightarrow> 'a client_state \<Rightarrow> err option \<times> 'a client_state" where
  "delete_row proj = on_data (\<lambda>d. map_sum id snd (DeleteProject proj d))"

definition deleteProjectFromConfig :: "'u command_env \<Rightarrow> 'a agent_link \<Rightarrow> string \<Rightarrow> 'a client_state \<Rightarrow> err option \<times> 'a client_state" where
  "deleteProjectFromConfig env link proj st =
     (case projectClearMain env link proj st of (Some e, st1) \<Rightarrow> (Some e, st1) | (None, st1) \<Rightarrow> delete_row proj st1)"

definition handleForceDelete :: "'u command_env \<Rightarrow> 'a agent_link \<Rightarrow> string \<Rightarrow> 'a client_state \<Rightarrow> err option \<times> 'a client_state" where
  "handleForceDelete env link proj st =
     (case deleteProjectFromConfig env link proj st of (None, st1) \<Rightarrow> (None, st1) | (Some e, st1) \<Rightarrow> delete_row proj st1)"

fun delete_each ::
  "(string \<Rightarrow> 'a client_state \<Rightarrow> err option \<times> 'a client_state) \<Rightarrow> string list \<Rightarrow> 'a client_state \<Rightarrow> err list \<times> 'a client_state" where
  "delete_each deleteOption [] st = ([], st)"
| "delete_each deleteOption (p # names) st =
     (let (e, st1) = deleteOption p st; (errors, st2) = delete_each deleteOption names st1
      in ((case e of None \<Rightarrow> errors | Some e \<Rightarrow> e # errors), st2))"

definition handleDeleteAllOrForceAll ::
  "(string \<Rightarrow> 'a client_state \<Rightarrow> err option \<times> 'a client_state) \<Rightarrow> string \<Rightarrow> 'a client_state \<Rightarrow> err option \<times> 'a client_state" where
  "handleDeleteAllOrForceAll deleteOption errorMessage st =
     (let (errors, st1) = delete_each deleteOption (ListProjects (cs_data st)) st
      in (if errors = [] then None else Some (AppendMultipleErrors errorMessage errors), st1))"

definition getDeletor ::
  "'u command_env \<Rightarrow> 'a agent_link \<Rightarrow> bool \<Rightarrow> bool \<Rightarrow> string \<Rightarrow> 'a client_state \<Rightarrow> err option \<times> 'a client_state" where
  "getDeletor env link force all proj =
     (if all \<and> force then handleDeleteAllOrForceAll (handleForceDelete env link) ''Error report after force project delete all:''
      else if all then handleDeleteAllOrForceAll (deleteProjectFromConfig env link) ''Error report after project delete all:''
      else if force then handleForceDelete env link proj
      else deleteProjectFromConfig env link proj)"

text \<open>The context moves to the first remaining project when the current one was deleted, and is cleared otherwise.\<close>

definition delete_execute ::
  "'u command_env \<Rightarrow> 'a agent_link \<Rightarrow> bool \<Rightarrow> bool \<Rightarrow> string list \<Rightarrow> 'a client_state \<Rightarrow> err option \<times> 'a client_state" where
  "delete_execute env link force all args st =
     (let current = GetCurrentProject (cs_data st); proj = getProjectNameFromArgsOrContext (cs_data st) args in
      case getDeletor env link force all proj st of
        (Some e, st1) \<Rightarrow> (Some e, st1)
      | (None, st1) \<Rightarrow>
          (case ListProjects (cs_data st1) of
             first # _ \<Rightarrow>
               (if proj = current
                then (case SetProject first (cs_data st1) of
                        Inl e \<Rightarrow> (Some (AppendError ''Failed to switch to remaining project'' e), st1)
                      | Inr d \<Rightarrow> (None, st1\<lparr>cs_data := d\<rparr>))
                else (None, st1\<lparr>cs_data := FlushContext (cs_data st1)\<rparr>))
           | [] \<Rightarrow> (None, st1\<lparr>cs_data := FlushContext (cs_data st1)\<rparr>)))"

definition use_execute :: "data \<Rightarrow> string list \<Rightarrow> err option \<times> data" where
  "use_execute d args =
     (let proj = getProjectNameFromArgsOrContext d args
      in or_keep (wrap_error (''Failed to set project ('' @ proj @ '') for container project'') (SetProject proj d)) d)"

end
