(* ===== verification/SshConfigProps.thy ===== *)
theory SshConfigProps
  imports SshConfig
begin

text \<open>
  The SSH configuration as a list of segments: lines of the user and blocks of containers.
  Writing and removing an entry are operations on that list; nothing of the user's lines or
  of another container's block is lost.
\<close>

section \<open>Segments\<close>

datatype seg = Plain string | Block string "string list"

definition start_line :: "string \<Rightarrow> string" where "start_line a = managedSSHHostBlockStartPrefix @ a"
definition end_line :: "string \<Rightarrow> string" where "end_line a = managedSSHHostBlockEndPrefix @ a"

fun seg_lines :: "seg \<Rightarrow> string list" where
  "seg_lines (Plain l) = [l]"
| "seg_lines (Block a body) = start_line a # body @ [end_line a]"

definition all_lines :: "seg list \<Rightarrow> string list" where
  "all_lines segs = concat (map seg_lines segs)"

definition print_config :: "seg list \<Rightarrow> string" where
  "print_config segs = Join (all_lines segs) [NL]"

text \<open>A line that opens no block, and an alias that is one word of a line.\<close>

definition ordinary :: "string \<Rightarrow> bool" where
  "ordinary l = (NL \<notin> set l \<and> \<not> HasPrefix l managedSSHHostBlockStartPrefix)"

definition alias_word :: "string \<Rightarrow> bool" where
  "alias_word a = (a \<noteq> [] \<and> NL \<notin> set a \<and> CR \<notin> set a)"

fun wf_seg :: "seg \<Rightarrow> bool" where
  "wf_seg (Plain l) = ordinary l"
| "wf_seg (Block a body) = (alias_word a \<and> (\<forall>l \<in> set body. ordinary l \<and> strip_cr l \<noteq> end_line a))"

definition not_block :: "string \<Rightarrow> seg \<Rightarrow> bool" where
  "not_block a s = (case s of Plain l \<Rightarrow> True | Block b body \<Rightarrow> b \<noteq> a)"

section \<open>Removing a block\<close>

lemma prefixes: "HasPrefix (start_line a) managedSSHHostBlockStartPrefix" "\<not> HasPrefix (end_line a) managedSSHHostBlockStartPrefix"
  by (simp_all add: start_line_def end_line_def HasPrefix_iff) (simp add: managedSSHHostBlockStartPrefix_def managedSSHHostBlockEndPrefix_def)

lemma strip_cr_prefix: "\<exists>r. l = strip_cr l @ r"
proof -
  have "rev l = takeWhile (\<lambda>c. c = CR) (rev l) @ dropWhile (\<lambda>c. c = CR) (rev l)" by simp
  then have "l = strip_cr l @ rev (takeWhile (\<lambda>c. c = CR) (rev l))"
    unfolding strip_cr_def trim_right_def by (metis rev_append rev_rev_ident)
  then show ?thesis by blast
qed

lemma strip_cr_id: "l = [] \<or> last l \<noteq> CR \<Longrightarrow> strip_cr l = l"
  by (cases l rule: rev_cases) (simp_all add: strip_cr_def trim_right_def)

lemma ordinary_no_start: "ordinary l \<Longrightarrow> strip_cr l \<noteq> start_line a"
  using prefixes(1) [of a] strip_cr_prefix [of l] unfolding ordinary_def HasPrefix_iff by (metis append_assoc)

lemma markers:
  assumes "alias_word a"
  shows "strip_cr (start_line a) = start_line a" "strip_cr (end_line a) = end_line a"
proof -
  have "last a \<noteq> CR" using assms unfolding alias_word_def by (metis last_in_set)
  then show "strip_cr (start_line a) = start_line a" "strip_cr (end_line a) = end_line a"
    using assms by (auto intro!: strip_cr_id simp: alias_word_def start_line_def end_line_def)
qed

lemma marker_eq: "start_line a = start_line b \<longleftrightarrow> a = b" "end_line a \<noteq> start_line b"
  using prefixes by (auto simp: start_line_def) (metis start_line_def)

lemma keep_plain: "\<forall>l \<in> set ls. strip_cr l \<noteq> start \<Longrightarrow> keep_lines start stop False (ls @ rest) = ls @ keep_lines start stop False rest"
  by (induction ls) auto

lemma keep_skip:
  "\<forall>l \<in> set ls. strip_cr l \<noteq> start \<and> strip_cr l \<noteq> stop \<Longrightarrow> keep_lines start stop True (ls @ rest) = keep_lines start stop True rest"
  by (induction ls) auto

lemma keep_seg:
  assumes "wf_seg s" "alias_word a"
  shows "keep_lines (start_line a) (end_line a) False (seg_lines s @ rest) =
    (if not_block a s then seg_lines s else []) @ keep_lines (start_line a) (end_line a) False rest"
proof (cases s)
  case (Plain l)
  then show ?thesis using assms ordinary_no_start [of l a] by (simp add: not_block_def)
next
  case (Block b body)
  then have b: "alias_word b" "\<forall>l \<in> set body. ordinary l \<and> strip_cr l \<noteq> end_line b" using assms by auto
  show ?thesis
  proof (cases "b = a")
    case True
    then have "keep_lines (start_line a) (end_line a) True (body @ end_line a # rest) = keep_lines (start_line a) (end_line a) True (end_line a # rest)"
      using b ordinary_no_start by (intro keep_skip) auto
    then show ?thesis using Block True markers [OF assms(2)] marker_eq by (simp add: not_block_def)
  next
    case False
    then have "\<forall>l \<in> set (start_line b # body @ [end_line b]). strip_cr l \<noteq> start_line a"
      using b markers [OF b(1)] marker_eq ordinary_no_start by auto
    from keep_plain [OF this, of "end_line a" rest] show ?thesis using Block False by (simp add: not_block_def)
  qed
qed

lemma keep_all:
  "\<forall>s \<in> set segs. wf_seg s \<Longrightarrow> alias_word a \<Longrightarrow>
   keep_lines (start_line a) (end_line a) False (all_lines segs) = all_lines (filter (not_block a) segs)"
proof (induction segs)
  case (Cons s segs)
  then show ?case using keep_seg [of s a "all_lines segs"] by (simp add: all_lines_def)
qed (simp add: all_lines_def)

lemma seg_lines_NL: "wf_seg s \<Longrightarrow> l \<in> set (seg_lines s) \<Longrightarrow> NL \<notin> set l"
proof (cases s)
  case (Block a body)
  assume "wf_seg s" "l \<in> set (seg_lines s)"
  moreover have "NL \<notin> set managedSSHHostBlockStartPrefix" "NL \<notin> set managedSSHHostBlockEndPrefix"
    by (simp_all add: managedSSHHostBlockStartPrefix_def managedSSHHostBlockEndPrefix_def)
  ultimately show ?thesis using Block by (auto simp: ordinary_def alias_word_def start_line_def end_line_def)
qed (simp add: ordinary_def)

lemma split_print:
  "\<forall>s \<in> set segs. wf_seg s \<Longrightarrow> split_on NL (print_config segs) = (if segs = [] then [[]] else all_lines segs)"
proof (cases "segs = []")
  case False
  assume "\<forall>s \<in> set segs. wf_seg s"
  then have "\<forall>l \<in> set (all_lines segs). NL \<notin> set l" using seg_lines_NL by (auto simp: all_lines_def)
  moreover have "seg_lines s \<noteq> []" for s by (cases s) simp_all
  then have "all_lines segs \<noteq> []" using False by (cases segs) (simp_all add: all_lines_def)
  ultimately show ?thesis using False by (simp add: print_config_def Join_split_on)
qed (simp add: print_config_def all_lines_def)

lemma trim_Join:
  "\<forall>l \<in> set ls. NL \<notin> set l \<Longrightarrow> trim_newlines (Join ls [NL]) = Join (dropWhile (\<lambda>l. l = []) ls) [NL]"
proof (induction ls "[NL]" rule: Join.induct)
  case (2 w)
  then show ?case by (cases w) (auto simp: trim_newlines_def)
next
  case (3 w v ws)
  then show ?case by (cases w) (auto simp: trim_newlines_def)
qed (simp add: trim_newlines_def)

lemma drop_blank_lines:
  "dropWhile (\<lambda>l. l = []) (all_lines segs) = all_lines (dropWhile (\<lambda>s. s = Plain []) segs)"
proof (induction segs)
  case (Cons s segs)
  have "start_line a \<noteq> []" for a by (simp add: start_line_def managedSSHHostBlockStartPrefix_def)
  then show ?case using Cons by (cases s) (auto simp: all_lines_def)
qed (simp add: all_lines_def)

text \<open>What is left after removing the block of a host.\<close>

definition removed :: "string \<Rightarrow> seg list \<Rightarrow> seg list" where
  "removed a segs = dropWhile (\<lambda>s. s = Plain []) (filter (not_block a) segs)"

lemma remove_print:
  assumes "\<forall>s \<in> set segs. wf_seg s" "alias_word a"
  shows "removeManagedSSHHostBlock (print_config segs) a = print_config (removed a segs)"
proof -
  have "removeManagedSSHHostBlock (print_config segs) a =
      trim_newlines (Join (keep_lines (start_line a) (end_line a) False (if segs = [] then [[]] else all_lines segs)) [NL])"
    by (simp add: removeManagedSSHHostBlock_def split_print [OF assms(1)] start_line_def end_line_def)
  also have "\<dots> = trim_newlines (Join (all_lines (filter (not_block a) segs)) [NL])"
  proof (cases "segs = []")
    case True
    have "[] \<noteq> start_line a" by (simp add: start_line_def managedSSHHostBlockStartPrefix_def)
    then show ?thesis using True by (simp add: all_lines_def strip_cr_def trim_right_def trim_newlines_def)
  qed (simp add: keep_all [OF assms])
  also have "\<dots> = print_config (removed a segs)"
  proof -
    have "\<forall>l \<in> set (all_lines (filter (not_block a) segs)). NL \<notin> set l"
      using assms(1) seg_lines_NL by (auto simp: all_lines_def)
    then show ?thesis unfolding removed_def print_config_def drop_blank_lines [symmetric] by (rule trim_Join)
  qed
  finally show ?thesis .
qed

section \<open>The file after writing an entry\<close>

definition blocks :: "seg list \<Rightarrow> (string \<times> string list) list" where
  "blocks segs = List.map_filter (\<lambda>s. case s of Plain l \<Rightarrow> None | Block a body \<Rightarrow> Some (a, body)) segs"

text \<open>The lines of the user that hold text.\<close>

definition user_lines :: "seg list \<Rightarrow> string list" where
  "user_lines segs = List.map_filter (\<lambda>s. case s of Plain l \<Rightarrow> if TrimSpace l = [] then None else Some l | Block a body \<Rightarrow> None) segs"

lemma blocks_simps [simp]:
  "blocks [] = []" "blocks (Plain l # segs) = blocks segs" "blocks (Block a body # segs) = (a, body) # blocks segs"
  "blocks (segs @ segs') = blocks segs @ blocks segs'"
  by (simp_all add: blocks_def List.map_filter_simps map_filter_def)

lemma user_lines_simps [simp]:
  "user_lines [] = []" "user_lines (Plain l # segs) = (if TrimSpace l = [] then user_lines segs else l # user_lines segs)"
  "user_lines (Block a body # segs) = user_lines segs" "user_lines (segs @ segs') = user_lines segs @ user_lines segs'"
  by (simp_all add: user_lines_def List.map_filter_simps map_filter_def)

lemma blocks_filter: "blocks (filter (not_block a) segs) = filter (\<lambda>b. fst b \<noteq> a) (blocks segs)"
  by (induction segs) (auto simp: not_block_def split: seg.splits)

lemma user_lines_filter: "user_lines (filter (not_block a) segs) = user_lines segs"
proof (induction segs)
  case (Cons s segs)
  then show ?case by (cases s) (simp_all add: not_block_def)
qed simp

lemma drop_blank: "blocks (dropWhile (\<lambda>s. s = Plain []) segs) = blocks segs"
  "user_lines (dropWhile (\<lambda>s. s = Plain []) segs) = user_lines segs"
  by (induction segs) auto

lemma removed_blocks:
  "blocks (removed a segs) = filter (\<lambda>b. fst b \<noteq> a) (blocks segs)" "user_lines (removed a segs) = user_lines segs"
  by (simp_all add: removed_def drop_blank blocks_filter user_lines_filter)

lemma removed_wf: "\<forall>s \<in> set segs. wf_seg s \<Longrightarrow> \<forall>s \<in> set (removed a segs). wf_seg s"
  by (auto simp: removed_def dest: set_dropWhileD)

lemma Join_append_nl: "as \<noteq> [] \<Longrightarrow> bs \<noteq> [] \<Longrightarrow> Join (as @ bs) [NL] = Join as [NL] @ NL # Join bs [NL]"
proof (induction as)
  case (Cons a as)
  show ?case
  proof (cases "as = []")
    case True
    then show ?thesis using Cons.prems by (cases bs) simp_all
  next
    case False
    then have "Join (a # as) [NL] = a @ NL # Join as [NL]" "Join (a # as @ bs) [NL] = a @ NL # Join (as @ bs) [NL]"
      by (cases as; simp)+
    with Cons False show ?thesis by simp
  qed
qed simp

lemma all_lines_ne: "segs \<noteq> [] \<Longrightarrow> all_lines segs \<noteq> []"
proof -
  have "seg_lines s \<noteq> []" for s by (cases s) simp_all
  then show "segs \<noteq> [] \<Longrightarrow> all_lines segs \<noteq> []" by (cases segs) (simp_all add: all_lines_def)
qed

lemma print_append: "segs \<noteq> [] \<Longrightarrow> segs' \<noteq> [] \<Longrightarrow> print_config (segs @ segs') = print_config segs @ NL # print_config segs'"
  using Join_append_nl [OF all_lines_ne all_lines_ne] by (simp add: print_config_def all_lines_def)

text \<open>The final newline that \<open>writeSSHConfig\<close> adds.\<close>

definition ended :: "string \<Rightarrow> string" where
  "ended c = (if c \<noteq> [] \<and> \<not> HasSuffix c [NL] then c @ [NL] else c)"

lemma ended_print:
  assumes "\<forall>s \<in> set segs. wf_seg s"
  shows "\<exists>segs'. ended (print_config segs) = print_config segs' \<and> (\<forall>s \<in> set segs'. wf_seg s) \<and>
    blocks segs' = blocks segs \<and> user_lines segs' = user_lines segs"
proof (cases "print_config segs \<noteq> [] \<and> \<not> HasSuffix (print_config segs) [NL]")
  case True
  then have "segs \<noteq> []" by (auto simp: print_config_def all_lines_def)
  then have "ended (print_config segs) = print_config (segs @ [Plain []])"
    using True print_append [of segs "[Plain []]"] by (simp add: ended_def) (simp add: print_config_def all_lines_def)
  moreover have "wf_seg (Plain [])" by (simp add: ordinary_def managedSSHHostBlockStartPrefix_def)
  ultimately show ?thesis using assms by (intro exI [of _ "segs @ [Plain []]"]) auto
qed (use assms in \<open>auto simp: ended_def\<close>)

section \<open>The block that is written\<close>

definition body_lines :: "sshHostConfigEntry \<Rightarrow> string list" where
  "body_lines e = butlast (tl (block_lines e))"

lemma block_lines_body: "block_lines e = start_line (sh_alias e) # body_lines e @ [end_line (sh_alias e)]"
  by (simp add: block_lines_def body_lines_def start_line_def end_line_def butlast_append)

text \<open>An entry as \<open>container_entry\<close> makes it: trimmed words, and a key file without a newline.\<close>

definition clean_entry :: "sshHostConfigEntry \<Rightarrow> bool" where
  "clean_entry e = (TrimSpace (sh_alias e) = sh_alias e \<and> TrimSpace (sh_hostName e) = sh_hostName e \<and>
     TrimSpace (sh_user e) = sh_user e \<and> NL \<notin> set (sh_identityFile e))"

lemma token_word: "validateSSHConfigToken label v = None \<Longrightarrow> TrimSpace v = v \<Longrightarrow> alias_word v"
  by (auto simp: validateSSHConfigToken_def ContainsAny_def alias_word_def Let_def split: if_splits)

lemma config_value_NL: "NL \<notin> set v \<Longrightarrow> NL \<notin> set (sshConfigValue v)"
  by (auto simp: sshConfigValue_def ReplaceAll_char split: if_splits)

lemma entry_block_wf:
  assumes "clean_entry e" "invalid_entry e = None"
  shows "wf_seg (Block (sh_alias e) (body_lines e))"
proof -
  have w: "alias_word (sh_alias e)" "alias_word (sh_hostName e)" "alias_word (sh_user e)"
    using assms token_word by (auto simp: clean_entry_def invalid_entry_def split: option.splits)
  have "NL \<notin> set (Itoa i)" for i using Itoa_digits [of NL i] by (auto simp: is_digit_def)
  then have nl: "\<forall>l \<in> set (body_lines e). NL \<notin> set l"
    using w assms(1) config_value_NL
    by (auto simp: body_lines_def block_lines_def alias_word_def clean_entry_def)
  have hd: "\<forall>l \<in> set (body_lines e). l \<noteq> [] \<and> hd l \<noteq> CHR ''#''"
    by (auto simp: body_lines_def block_lines_def)
  have "ordinary l \<and> strip_cr l \<noteq> end_line (sh_alias e)" if l: "l \<in> set (body_lines e)" for l
  proof -
    have h: "l \<noteq> []" "hd l \<noteq> CHR ''#''" using hd l by auto
    obtain r where r: "l = strip_cr l @ r" using strip_cr_prefix by blast
    have "strip_cr l \<noteq> end_line (sh_alias e)"
    proof
      assume "strip_cr l = end_line (sh_alias e)"
      then have "l = end_line (sh_alias e) @ r" using r by simp
      then show False using h by (simp add: end_line_def managedSSHHostBlockEndPrefix_def)
    qed
    moreover have "\<not> HasPrefix l managedSSHHostBlockStartPrefix"
      using h by (cases l) (auto simp: managedSSHHostBlockStartPrefix_def)
    ultimately show ?thesis using nl l by (simp add: ordinary_def)
  qed
  then show ?thesis using w(1) by simp
qed

lemma render_print: "renderManagedSSHHostBlock e = print_config [Block (sh_alias e) (body_lines e), Plain []]"
proof -
  have "concat (map (\<lambda>l. l @ [NL]) ls) = Join (ls @ [[]]) [NL]" for ls
  proof (induction ls)
    case (Cons l ls)
    then show ?case by (cases ls) simp_all
  qed simp
  then show ?thesis
    by (simp only: renderManagedSSHHostBlock_def print_config_def all_lines_def block_lines_body) simp
qed

lemma TrimSpace_blank: "TrimSpace s = [] \<longleftrightarrow> (\<forall>c \<in> set s. is_space c)"
proof -
  have "\<not> (\<forall>c \<in> set s. is_space c) \<Longrightarrow> \<exists>c \<in> set (dropWhile is_space s). \<not> is_space c"
    by (induction s) auto
  then show ?thesis
    by (auto simp: TrimSpace_def trim_by_def trim_left_def trim_right_def dropWhile_eq_Nil_conv dest: set_dropWhileD)
qed

lemma set_Join_lines: "l \<in> set ls \<Longrightarrow> set l \<subseteq> set (Join ls [NL])"
proof (induction ls)
  case (Cons x ls)
  then show ?case by (cases ls) auto
qed simp

text \<open>A text of blanks holds no block and no line of the user.\<close>

lemma blank_config:
  assumes "\<forall>s \<in> set segs. wf_seg s" "TrimSpace (print_config segs) = []"
  shows "blocks segs = [] \<and> user_lines segs = []"
proof -
  have sp: "\<forall>c \<in> set l. is_space c" if "s \<in> set segs" "l \<in> set (seg_lines s)" for s l
    using assms(2) that set_Join_lines [of l "all_lines segs"] unfolding TrimSpace_blank print_config_def
    by (auto simp: all_lines_def)
  have "\<exists>l. s = Plain l \<and> TrimSpace l = []" if s: "s \<in> set segs" for s
  proof (cases s)
    case (Plain l)
    then show ?thesis using sp [OF s] by (simp add: TrimSpace_blank)
  next
    case (Block a body)
    then have "\<forall>c \<in> set (start_line a). is_space c" using sp [OF s, of "start_line a"] by simp
    then show ?thesis by (simp add: start_line_def managedSSHHostBlockStartPrefix_def is_space_def)
  qed
  then show ?thesis by (induction segs) force+
qed

lemma upserted_print:
  assumes "\<forall>s \<in> set segs. wf_seg s" "clean_entry e" "invalid_entry e = None"
  shows "\<exists>segs'. upserted (print_config segs) e = print_config segs' \<and> (\<forall>s \<in> set segs'. wf_seg s) \<and>
    blocks segs' = (sh_alias e, body_lines e) # filter (\<lambda>b. fst b \<noteq> sh_alias e) (blocks segs) \<and> user_lines segs' = user_lines segs"
proof -
  let ?a = "sh_alias e" and ?b = "Block (sh_alias e) (body_lines e)"
  have wf: "wf_seg ?b" by (rule entry_block_wf [OF assms(2,3)])
  then have a: "alias_word ?a" by simp
  note rem = remove_print [OF assms(1) a] and rwf = removed_wf [OF assms(1), of ?a]
  have blank: "wf_seg (Plain [])" by (simp add: ordinary_def managedSSHHostBlockStartPrefix_def)
  have trim: "trim_newlines (print_config (removed ?a segs)) = print_config (removed ?a segs)"
  proof -
    have "trim_newlines (trim_newlines s) = trim_newlines s" for s by (simp add: trim_newlines_def dropWhile_idem)
    then show ?thesis using rem by (metis removeManagedSSHHostBlock_def)
  qed
  show ?thesis
  proof (cases "TrimSpace (print_config (removed ?a segs)) = []")
    case False
    then have "removed ?a segs \<noteq> []" by (auto simp: print_config_def all_lines_def)
    then have "upserted (print_config segs) e = print_config ([?b, Plain []] @ removed ?a segs)"
      using False print_append [of "[?b, Plain []]" "removed ?a segs"] by (simp add: upserted_def rem trim render_print)
    then show ?thesis using wf blank rwf removed_blocks [of ?a segs] by (intro exI [of _ "[?b, Plain []] @ removed ?a segs"]) auto
  next
    case True
    then have none: "blocks (removed ?a segs) = []" "user_lines (removed ?a segs) = []"
      using blank_config [OF rwf] by auto
    have "upserted (print_config segs) e = print_config [?b, Plain []]"
      using True by (simp add: upserted_def rem render_print)
    then show ?thesis using wf blank none removed_blocks [of ?a segs] by (intro exI [of _ "[?b, Plain []]"]) auto
  qed
qed

section \<open>The operations on the file\<close>

text \<open>The state: a well-formed configuration that lists these blocks and these lines of the user.\<close>

definition ssh_state :: "ssh_file \<Rightarrow> (string \<times> string list) list \<Rightarrow> string list \<Rightarrow> bool" where
  "ssh_state f bs ls = (\<exists>segs. f = Some (print_config segs) \<and> (\<forall>s \<in> set segs. wf_seg s) \<and> blocks segs = bs \<and> user_lines segs = ls)"

lemma written_ended: "fst (writeSSHConfig io p c f) = None \<Longrightarrow> snd (writeSSHConfig io p c f) = Some (ended c)"
proof -
  have "writeSSHConfig io p c f = (case sio_Write io p (ended c) of
      (Some e, left) \<Rightarrow> (Some (AppendError (''Failed to write SSH config '' @ p) e), Some left) | (None, left) \<Rightarrow> (None, Some (ended c)))"
    unfolding writeSSHConfig_def ended_def Let_def by (simp split: prod.splits option.splits)
  then show "fst (writeSSHConfig io p c f) = None \<Longrightarrow> snd (writeSSHConfig io p c f) = Some (ended c)"
    by (cases "sio_Write io p (ended c)") (auto split: option.splits)
qed

lemma written_state:
  assumes "\<forall>s \<in> set segs. wf_seg s" "fst (writeSSHConfig io p (print_config segs) f) = None"
  shows "ssh_state (snd (writeSSHConfig io p (print_config segs) f)) (blocks segs) (user_lines segs)"
proof -
  have "snd (writeSSHConfig io p (print_config segs) f) = Some (ended (print_config segs))"
    by (rule written_ended [OF assms(2)])
  moreover obtain segs' where "ended (print_config segs) = print_config segs'" "\<forall>s \<in> set segs'. wf_seg s"
      "blocks segs' = blocks segs" "user_lines segs' = user_lines segs"
    using ended_print [OF assms(1)] by blast
  ultimately show ?thesis unfolding ssh_state_def by metis
qed

lemma readSSHConfig_content: "readSSHConfig io (Some c) = (Inr (p, content), f1) \<Longrightarrow> content = c"
  by (auto simp: readSSHConfig_def file_text_def split: option.splits sum.splits)

lemma upsert_entry_state:
  assumes "ssh_state f bs ls" "clean_entry e" "fst (upsertManagedSSHHostEntry io e f) = None"
  shows "ssh_state (snd (upsertManagedSSHHostEntry io e f)) ((sh_alias e, body_lines e) # filter (\<lambda>b. fst b \<noteq> sh_alias e) bs) ls"
proof -
  obtain segs where segs: "f = Some (print_config segs)" "\<forall>s \<in> set segs. wf_seg s" "blocks segs = bs" "user_lines segs = ls"
    using assms(1) by (auto simp: ssh_state_def)
  have e: "invalid_entry e = None" using assms(3) by (simp add: upsertManagedSSHHostEntry_def split: option.splits)
  obtain p f1 where w: "upsertManagedSSHHostEntry io e f = writeSSHConfig io p (upserted (print_config segs) e) f1"
    using assms(3) e segs(1) by (auto simp: upsertManagedSSHHostEntry_def dest: readSSHConfig_content split: prod.splits sum.splits)
  show ?thesis using upserted_print [OF segs(2) assms(2) e] assms(3) segs w by (metis written_state)
qed

lemma remove_entry_state:
  assumes "ssh_state f bs ls" "a \<noteq> []" "TrimSpace a = a" "fst (removeManagedSSHHostEntry io a f) = None"
  shows "ssh_state (snd (removeManagedSSHHostEntry io a f)) (filter (\<lambda>b. fst b \<noteq> a) bs) ls"
proof -
  obtain segs where segs: "f = Some (print_config segs)" "\<forall>s \<in> set segs. wf_seg s" "blocks segs = bs" "user_lines segs = ls"
    using assms(1) by (auto simp: ssh_state_def)
  have v: "validateSSHConfigToken ''SSH host alias'' a = None"
    using assms(2-4) by (simp add: removeManagedSSHHostEntry_def split: option.splits)
  obtain p f1 where w: "removeManagedSSHHostEntry io a f = writeSSHConfig io p (removeManagedSSHHostBlock (print_config segs) a) f1"
    using assms(2-4) v segs(1) by (auto simp: removeManagedSSHHostEntry_def dest: readSSHConfig_content split: prod.splits sum.splits)
  note removed = remove_print [OF segs(2) token_word [OF v assms(3)]] removed_wf [OF segs(2), of a] removed_blocks [of a segs]
  show ?thesis using written_state [OF removed(2), of io p f1] assms(4) removed segs w by simp
qed


text \<open>A file with a host of the user and an old block of \<open>dev\<close>, on a disk that works.\<close>

definition sample_ssh_io :: ssh_io where
  "sample_ssh_io = \<lparr>sio_Ensure = None, sio_HomeDir = Ok ''/home/me'', sio_ReadErr = None,
     sio_Write = \<lambda>p c. (None, c), sio_IsFile = \<lambda>p. False\<rparr>"

definition sample_ssh_config :: ssh_file where
  "sample_ssh_config = Some (print_config [Plain ''Host work'', Block ''dev'' [''Host dev'', ''    Port 22''], Plain []])"

definition sample_entry :: sshHostConfigEntry where
  "sample_entry = \<lparr>sh_alias = ''dev'', sh_hostName = ''localhost'', sh_port = 2222, sh_user = ''root'', sh_identityFile = []\<rparr>"

lemma sample_ssh_state: "ssh_state sample_ssh_config [(''dev'', [''Host dev'', ''    Port 22''])] [''Host work'']"
proof -
  let ?segs = "[Plain ''Host work'', Block ''dev'' [''Host dev'', ''    Port 22''], Plain []]"
  have "\<forall>s \<in> set ?segs. wf_seg s" by code_simp
  moreover have "blocks ?segs = [(''dev'', [''Host dev'', ''    Port 22''])]" "user_lines ?segs = [''Host work'']"
    by code_simp+
  ultimately show ?thesis unfolding ssh_state_def sample_ssh_config_def by blast
qed


end
