(* ===== verification/ProjectSyncProps.thy ===== *)
theory ProjectSyncProps
  imports ProjectSync DbProps SshConfigProps
begin

text \<open>
  What the store and the SSH configuration hold after the client has talked to an agent,
  stated on the container rows of a project and on the blocks of the SSH configuration.
\<close>

section \<open>Container rows\<close>

definition container_row :: "data \<Rightarrow> string \<Rightarrow> string \<Rightarrow> containerInfo option" where
  "container_row d proj n =
     (case find_project proj (d_Projects d) of
        None \<Rightarrow> None | Some p \<Rightarrow> find (\<lambda>c. TrimSpace (c_Name c) = TrimSpace n) (p_Containers p))"

lemma read_container_row:
  "ContainerSSHPort d proj n = (case container_row d proj n of None \<Rightarrow> nilPort | Some c \<Rightarrow> c_PortSSH c)"
  "ProjectContainerRemoteUser d proj n = (case container_row d proj n of None \<Rightarrow> [] | Some c \<Rightarrow> c_RemoteUser c)"
  by (simp_all add: ContainerSSHPort_def ProjectContainerRemoteUser_def container_row_def get_project_def getProject_def
      getProjectContainer_def ok_or_def split: option.splits)

lemma upsert_row:
  assumes "UpsertProjectContainer proj c d = Inr d'"
  shows "container_row d' q m = (if normalizeProjectName q = normalizeProjectName proj \<and> TrimSpace m = TrimSpace (ct_Name c)
    then Some (toContainerInfo c) else container_row d q m)"
proof -
  let ?f = "\<lambda>p. p\<lparr>p_Containers := replace_or_append (toContainerInfo c) (p_Containers p)\<rparr>"
  from assms have up: "update_project ?f proj d = Inr d'" by (simp add: UpsertProjectContainer_def)
  then obtain p where p: "find_project proj (d_Projects d) = Some p"
    by (cases "find_project proj (d_Projects d)") (simp_all add: update_project_def getProject_def)
  have "normalizeProjectName q = normalizeProjectName proj \<Longrightarrow> find_project q (d_Projects d) = Some p"
    using p by (simp add: find_project_def)
  then show ?thesis
    using update_project_find [OF up, of q] p find_replace_or_append [of "toContainerInfo c" m]
    by (auto simp: container_row_def) (simp_all add: toContainerInfo_def)
qed

lemma remove_rows:
  assumes "RemoveProjectContainers proj ns d = Inr d'"
  shows "container_row d' q m = (if normalizeProjectName q = normalizeProjectName proj \<and> TrimSpace m \<in> set (map TrimSpace ns)
    then None else container_row d q m)"
proof -
  let ?keep = "\<lambda>c. TrimSpace (c_Name c) \<notin> set (map TrimSpace ns)"
  let ?f = "\<lambda>p. p\<lparr>p_Containers := filter ?keep (p_Containers p)\<rparr>"
  from assms have up: "update_project ?f proj d = Inr d'" by (simp add: RemoveProjectContainers_def)
  then obtain p where p: "find_project proj (d_Projects d) = Some p"
    by (cases "find_project proj (d_Projects d)") (simp_all add: update_project_def getProject_def)
  have same: "normalizeProjectName q = normalizeProjectName proj \<Longrightarrow> find_project q (d_Projects d) = Some p"
    using p by (simp add: find_project_def)
  have gone: "find (\<lambda>c. TrimSpace (c_Name c) = TrimSpace m) (filter ?keep cs) =
      (if TrimSpace m \<in> set (map TrimSpace ns) then None else find (\<lambda>c. TrimSpace (c_Name c) = TrimSpace m) cs)" for cs
    by (induction cs) auto
  then show ?thesis
    using update_project_find [OF up, of q] p same by (simp add: container_row_def gone del: set_map)
qed

section \<open>Frames\<close>

lemma on_agent_frame: "on_agent f st = (r, st') \<Longrightarrow> cs_data st' = cs_data st \<and> cs_ssh st' = cs_ssh st"
  by (auto simp: on_agent_def split: prod.splits)

lemma on_ssh_frame: "on_ssh f st = (r, st') \<Longrightarrow> cs_data st' = cs_data st \<and> cs_agent st' = cs_agent st"
  by (auto simp: on_ssh_def split: prod.splits)

lemma on_data_ok: "on_data f st = (None, st') \<Longrightarrow> \<exists>d. f (cs_data st) = Inr d \<and> st' = st\<lparr>cs_data := d\<rparr>"
  by (auto simp: on_data_def split: sum.splits)

lemma upsert_ssh_frame: "upsert_container_ssh env proj c b st = (r, st') \<Longrightarrow> cs_data st' = cs_data st \<and> cs_agent st' = cs_agent st"
  unfolding upsert_container_ssh_def by (rule on_ssh_frame)

lemma remove_ssh_frame: "remove_ssh_entries env ns st = (r, st') \<Longrightarrow> cs_data st' = cs_data st"
proof (induction ns arbitrary: st)
  case (Cons n ns)
  obtain e st1 where s: "on_ssh (removeManagedSSHHostEntry (ce_ssh env) n) st = (e, st1)" by (metis surj_pair)
  then show ?case using Cons on_ssh_frame [OF s] by (cases e) auto
qed simp

lemma delete_frame:
  "cs_data (snd (delete_containers client proj byName ns st)) = cs_data st \<and>
   fst (fst (delete_containers client proj byName ns st)) = filter (\<lambda>n. byName n \<noteq> None) ns"
proof (induction ns arbitrary: st)
  case (Cons n ns)
  show ?case
  proof (cases "byName n")
    case None
    then show ?thesis using Cons.IH [of st] by simp
  next
    case (Some c)
    obtain e st1 where s: "on_agent (as_Delete client n proj) st = (e, st1)" by (metis surj_pair)
    obtain c errs st2 where d: "delete_containers client proj byName ns st1 = ((c, errs), st2)" by (metis surj_pair)
    show ?thesis using Some s d on_agent_frame [OF s] Cons.IH [of st1] by simp
  qed
qed simp

section \<open>Names\<close>

lemma unique_from_set:
  "set (unique_from seen ns) = {n. n \<noteq> [] \<and> n \<notin> set seen \<and> n \<in> TrimSpace ` set ns} \<and> distinct (unique_from seen ns)"
  by (induction ns arbitrary: seen) (auto simp: Let_def)

lemma uniqueContainerNames_set:
  "set (uniqueContainerNames ns) = TrimSpace ` set ns - {[]}" "distinct (uniqueContainerNames ns)"
  using unique_from_set [of "[]" ns] by (auto simp: uniqueContainerNames_def)

lemma by_name_snoc:
  "containers_by_name (cs @ [c]) = (if pb_Name c \<noteq> [] then (containers_by_name cs)(pb_Name c \<mapsto> c) else containers_by_name cs)"
  by (simp add: containers_by_name_def)

lemma by_name_Some: "containers_by_name cs n = Some c \<Longrightarrow> pb_Name c = n \<and> c \<in> set cs"
  by (induction cs rule: rev_induct) (auto simp: by_name_snoc containers_by_name_def split: if_splits)

lemma by_name_None: "containers_by_name cs n = None \<longleftrightarrow> n = [] \<or> n \<notin> pb_Name ` set cs"
  by (induction cs rule: rev_induct) (auto simp: by_name_snoc containers_by_name_def)

section \<open>A row that mirrors the agent\<close>

definition mirrors :: "ContainerStatus option \<Rightarrow> pb_Container \<Rightarrow> string \<Rightarrow> containerInfo \<Rightarrow> bool" where
  "mirrors expected c user r \<longleftrightarrow>
     c_Id r = pb_Id c \<and> c_Name r = TrimSpace (pb_Name c) \<and> c_State r = FContainerStatus (SContainerStatus (pb_Status c)) \<and>
     c_ExpectedState r = FContainerStatus (case expected of None \<Rightarrow> SContainerStatus (pb_Status c) | Some s \<Rightarrow> s) \<and>
     c_RemoteUser r = TrimSpace user"

lemma enriched_mirrors: "mirrors expected c user (toContainerInfo (with_expected expected (enriched c user detailed)))"
  by (simp add: mirrors_def toContainerInfo_def with_expected_def enriched_def protoContainerToBO_def Let_def
      split: option.splits sum.splits)

lemma enriched_name [simp]: "ct_Name (with_expected expected (enriched c user detailed)) = pb_Name c"
  by (simp add: with_expected_def enriched_def protoContainerToBO_def Let_def split: option.splits sum.splits)

text \<open>One container of the loop, when the loop ends without an error.\<close>

lemma sync_step:
  assumes "sync_containers env client proj rm expected byName (n # ns) absent st = ((absent', None), st')"
    and "\<forall>n c. byName n = Some c \<longrightarrow> pb_Name c = n"
  obtains "byName n = None"
      "sync_containers env client proj rm expected byName ns (if rm then absent @ [n] else absent) st = ((absent', None), st')"
    | c st3 info where "byName n = Some c"
      "sync_containers env client proj rm expected byName ns absent st3 = ((absent', None), st')"
      "UpsertProjectContainer proj info (cs_data st) = Inr (cs_data st3)" "ct_Name info = n"
      "mirrors expected c (ProjectContainerRemoteUser (cs_data st) proj n) (toContainerInfo info)"
proof (cases "byName n")
  case None
  then show ?thesis using assms(1) that(1) by (simp add: Let_def split: if_splits)
next
  case (Some c)
  let ?user = "ProjectContainerRemoteUser (cs_data st) proj n"
  obtain detailed st1 where g: "on_agent (as_Get client n) st = (detailed, st1)" by (metis surj_pair)
  let ?info = "with_expected expected (enriched c ?user detailed)"
  obtain e2 st2 where u: "on_data (UpsertProjectContainer proj ?info) st1 = (e2, st2)" by (metis surj_pair)
  obtain e3 st3 where s: "upsert_container_ssh env proj ?info False st2 = (e3, st3)" by (metis surj_pair)
  have "e2 = None" "e3 = None" and rest: "sync_containers env client proj rm expected byName ns absent st3 = ((absent', None), st')"
    using assms(1) Some g u s by (auto split: option.splits)
  then have "UpsertProjectContainer proj ?info (cs_data st) = Inr (cs_data st3)"
    using on_agent_frame [OF g] on_data_ok u upsert_ssh_frame [OF s] by fastforce
  moreover have "ct_Name ?info = n" using assms(2) Some by simp
  ultimately show ?thesis using that(2) [OF Some rest] enriched_mirrors by blast
qed

lemma sync_containers_absent:
  assumes "sync_containers env client proj rm expected byName ns absent st = ((absent', None), st')"
    and "\<forall>n c. byName n = Some c \<longrightarrow> pb_Name c = n"
  shows "absent' = absent @ (if rm then filter (\<lambda>n. byName n = None) ns else [])"
  using assms(1)
proof (induction ns arbitrary: absent st)
  case (Cons n ns)
  from Cons.prems assms(2) show ?case
  proof (cases rule: sync_step)
    case 1
    then show ?thesis using Cons.IH [OF 1(2)] by simp
  next
    case (2 c st3 info)
    then show ?thesis using Cons.IH [OF 2(2)] by simp
  qed
qed simp

text \<open>What the loop leaves in the row of \<open>m\<close> of the project \<open>q\<close>.\<close>

definition synced_row ::
  "ContainerStatus option \<Rightarrow> (string \<rightharpoonup> pb_Container) \<Rightarrow> string \<Rightarrow> string list \<Rightarrow> data \<Rightarrow> string \<Rightarrow> string \<Rightarrow> containerInfo option \<Rightarrow> bool" where
  "synced_row expected byName proj ns d q m r =
     (if normalizeProjectName q = normalizeProjectName proj \<and> TrimSpace m \<in> set ns \<and> byName (TrimSpace m) \<noteq> None
      then \<exists>row. r = Some row \<and> mirrors expected (the (byName (TrimSpace m))) (ProjectContainerRemoteUser d proj m) row
      else r = container_row d q m)"

lemma synced_row_skip: "byName n = None \<Longrightarrow> synced_row expected byName proj (n # ns) d q m r = synced_row expected byName proj ns d q m r"
  by (auto simp: synced_row_def)

lemma synced_row_step:
  assumes "byName n = Some c" "UpsertProjectContainer proj info d = Inr d1" "ct_Name info = n" "TrimSpace n = n" "n \<notin> set ns"
    and "mirrors expected c (ProjectContainerRemoteUser d proj n) (toContainerInfo info)" "synced_row expected byName proj ns d1 q m r"
  shows "synced_row expected byName proj (n # ns) d q m r"
proof (cases "TrimSpace m = n")
  case True
  then have "ProjectContainerRemoteUser d proj m = ProjectContainerRemoteUser d proj n"
    by (simp add: read_container_row(2) container_row_def assms(4) cong: option.case_cong)
  then show ?thesis using assms True upsert_row [OF assms(2), of q m] by (simp add: synced_row_def)
next
  case False
  then have "container_row d1 q m = container_row d q m" "container_row d1 proj m = container_row d proj m"
    using upsert_row [OF assms(2)] assms(3,4) by simp_all
  moreover from this(2) have "ProjectContainerRemoteUser d1 proj m = ProjectContainerRemoteUser d proj m"
    by (simp add: read_container_row)
  ultimately show ?thesis using assms(7) False by (auto simp: synced_row_def split: if_splits)
qed

lemma sync_containers_rows:
  assumes "sync_containers env client proj rm expected byName ns absent st = ((absent', None), st')"
    and "\<forall>n c. byName n = Some c \<longrightarrow> pb_Name c = n" "\<forall>n \<in> set ns. TrimSpace n = n" "distinct ns"
  shows "synced_row expected byName proj ns (cs_data st) q m (container_row (cs_data st') q m)"
  using assms(1,3,4)
proof (induction ns arbitrary: absent st)
  case Nil
  then show ?case by (simp add: synced_row_def)
next
  case (Cons n ns)
  from Cons.prems(1) assms(2) show ?case
  proof (cases rule: sync_step)
    case 1
    then show ?thesis using Cons.IH [OF 1(2)] Cons.prems by (simp add: synced_row_skip)
  next
    case (2 c st3 info)
    have n: "TrimSpace n = n" "n \<notin> set ns" using Cons.prems(2,3) by simp_all
    have IH: "synced_row expected byName proj ns (cs_data st3) q m (container_row (cs_data st') q m)"
      using Cons.IH [OF 2(2)] Cons.prems(2,3) by simp
    show ?thesis using synced_row_step 2(1,3,4) n 2(5) IH by blast
  qed
qed

section \<open>A whole synchronisation\<close>

text \<open>
  The row of a container after a synchronisation: it mirrors the agent's when the agent has
  the container; when it has not, the row is gone or kept, as the caller asked; a container
  or a project that was not named is as before.
\<close>

definition after_sync ::
  "ContainerStatus option \<Rightarrow> bool \<Rightarrow> pb_Container list \<Rightarrow> string \<Rightarrow> string list \<Rightarrow> data \<Rightarrow> string \<Rightarrow> string \<Rightarrow> containerInfo option \<Rightarrow> bool" where
  "after_sync expected rm cs proj names d q m r =
     (if normalizeProjectName q \<noteq> normalizeProjectName proj \<or> TrimSpace m = [] \<or> TrimSpace m \<notin> TrimSpace ` set names
      then r = container_row d q m
      else case containers_by_name cs (TrimSpace m) of
          None \<Rightarrow> r = (if rm then None else container_row d q m)
        | Some c \<Rightarrow> \<exists>row. r = Some row \<and> mirrors expected c (ProjectContainerRemoteUser d proj m) row)"

lemma remove_absent_rows:
  assumes "remove_absent env proj absent st = (None, st')"
  shows "container_row (cs_data st') q m = (if normalizeProjectName q = normalizeProjectName proj \<and> TrimSpace m \<in> set (map TrimSpace absent)
    then None else container_row (cs_data st) q m)"
proof (cases "absent = []")
  case False
  obtain e st1 where r: "on_data (RemoveProjectContainers proj absent) st = (e, st1)" by (metis surj_pair)
  then have "e = None" and rest: "remove_ssh_entries env absent st1 = (None, st')"
    using assms False by (auto simp: remove_absent_def split: option.splits)
  with r obtain d where "RemoveProjectContainers proj absent (cs_data st) = Inr d" "cs_data st1 = d" using on_data_ok by fastforce
  then show ?thesis using remove_rows [of proj absent "cs_data st" d q m] remove_ssh_frame [OF rest] by simp
qed (use assms in \<open>simp add: remove_absent_def\<close>)

lemma sync_rows:
  assumes "syncProjectContainersFromAgentWithExpected env client proj names rm expected st = (None, st')"
    and "as_List client (cs_agent st) = (Ok cs, a1)"
  shows "after_sync expected rm cs proj names (cs_data st) q m (container_row (cs_data st') q m)"
proof (cases "uniqueContainerNames names = []")
  case True
  then have "TrimSpace m = [] \<or> TrimSpace m \<notin> TrimSpace ` set names" using uniqueContainerNames_set(1) [of names] by auto
  then show ?thesis using assms(1) True by (simp add: after_sync_def syncProjectContainersFromAgentWithExpected_def)
next
  case False
  let ?ns = "uniqueContainerNames names" and ?by = "containers_by_name cs" and ?st = "st\<lparr>cs_agent := a1\<rparr>"
  obtain absent e st2 where loop: "sync_containers env client proj rm expected ?by ?ns [] ?st = ((absent, e), st2)" by (metis surj_pair)
  then have "e = None" and rest: "remove_absent env proj absent st2 = (None, st')"
    using assms False by (auto simp: syncProjectContainersFromAgentWithExpected_def listAgentContainersByName_def on_agent_def split: option.splits)
  with loop have loop: "sync_containers env client proj rm expected ?by ?ns [] ?st = ((absent, None), st2)" by simp
  have names: "\<forall>n c. ?by n = Some c \<longrightarrow> pb_Name c = n" using by_name_Some by blast
  have trimmed: "\<forall>n \<in> set ?ns. TrimSpace n = n" using uniqueContainerNames_set(1) [of names] by auto
  have absent: "absent = (if rm then filter (\<lambda>n. ?by n = None) ?ns else [])"
    using sync_containers_absent [OF loop names] by simp
  have "set (map TrimSpace absent) = set absent" using absent trimmed by (auto simp: image_iff)
  then show ?thesis
    using sync_containers_rows [OF loop names trimmed uniqueContainerNames_set(2), of q m] remove_absent_rows [OF rest, of q m]
      absent uniqueContainerNames_set(1) [of names]
    by (auto simp: after_sync_def synced_row_def split: if_splits option.splits)
qed


text \<open>
  \<open>project clear\<close> only looks at the containers the agent lists: after it has succeeded,
  each of those is gone from the store exactly when the agent no longer lists it after the
  deletions, but the row of a container that was already absent on the agent stays, however
  often the command is run.
\<close>

theorem clear_keeps_absent_rows:
  assumes "clearProjectContainersOnAgent env client proj extra st = (None, st')"
    and "as_List client (cs_agent st) = (Ok cs, a1)" "TrimSpace m = m" "m \<noteq> []"
    and "m \<in> set (ProjectContainersName (cs_data st) proj)"
  shows "(m \<notin> pb_Name ` set cs \<longrightarrow> container_row (cs_data st') proj m = container_row (cs_data st) proj m) \<and>
    (m \<in> pb_Name ` set cs \<longrightarrow>
      (let deleted = snd (delete_containers client proj (containers_by_name cs)
         (uniqueContainerNames (ProjectContainersName (cs_data st) proj @ extra)) (st\<lparr>cs_agent := a1\<rparr>))
       in \<exists>cs' a'. as_List client (cs_agent deleted) = (Ok cs', a') \<and>
         (container_row (cs_data st') proj m = None \<longleftrightarrow> m \<notin> pb_Name ` set cs')))"
proof -
  let ?ns = "uniqueContainerNames (ProjectContainersName (cs_data st) proj @ extra)"
  let ?by = "containers_by_name cs" and ?st = "st\<lparr>cs_agent := a1\<rparr>"
  have m: "m \<in> set ?ns" using assms(3-5) by (auto simp: uniqueContainerNames_set(1) intro!: image_eqI [of m TrimSpace m])
  obtain candidates errors st2 where del: "delete_containers client proj ?by ?ns ?st = ((candidates, errors), st2)" by (metis surj_pair)
  have cand: "candidates = filter (\<lambda>n. ?by n \<noteq> None) ?ns" and data: "cs_data st2 = cs_data st"
    using delete_frame [of client proj ?by ?ns ?st] del by simp_all
  have ne: "?ns \<noteq> []" using m by auto
  have list: "listAgentContainersByName client st = (Ok ?by, ?st)"
    using assms(2) by (simp add: listAgentContainersByName_def on_agent_def)
  obtain e st3 where s: "syncProjectContainersFromAgent env client proj candidates True st2 = (e, st3)" by (metis surj_pair)
  have "e = None" "st3 = st'"
    using assms(1) by (auto simp: clearProjectContainersOnAgent_def Let_def ne list del s split: option.splits)
  with s have sync: "syncProjectContainersFromAgentWithExpected env client proj candidates True None st2 = (None, st')"
    by (simp add: syncProjectContainersFromAgent_def)
  have "\<forall>n \<in> set candidates. TrimSpace n = n" by (auto simp: cand uniqueContainerNames_set(1))
  then have tc: "TrimSpace ` set candidates = set candidates" by force
  have in_cand: "m \<in> set candidates \<longleftrightarrow> m \<in> pb_Name ` set cs"
    using m by_name_None [of cs m] assms(4) by (auto simp: cand)
  show ?thesis
  proof (cases "candidates = []")
    case True
    then have "st' = st2" using sync by (simp add: syncProjectContainersFromAgentWithExpected_def uniqueContainerNames_def)
    then show ?thesis using in_cand True data by simp
  next
    case False
    obtain r a' where l: "as_List client (cs_agent st2) = (r, a')" by (metis surj_pair)
    have "set (uniqueContainerNames candidates) = set candidates"
      unfolding uniqueContainerNames_set(1) tc by (auto simp: cand uniqueContainerNames_set(1))
    then have "uniqueContainerNames candidates \<noteq> []" using False by auto
    with l sync obtain cs' where r: "r = Ok cs'"
      by (cases r) (simp_all add: syncProjectContainersFromAgentWithExpected_def listAgentContainersByName_def on_agent_def Let_def)
    have after: "after_sync None True cs' proj candidates (cs_data st) proj m (container_row (cs_data st') proj m)"
      using sync_rows [OF sync l [unfolded r]] data by simp
    show ?thesis
      using after in_cand l r assms(3,4) by_name_None [of cs' m] del unfolding after_sync_def tc by (auto split: option.splits)
  qed
qed

section \<open>A deployed container\<close>

lemma host_name_trimmed: "TrimSpace (projectContainerSSHHostName lib d proj) = projectContainerSSHHostName lib d proj"
proof -
  have "TrimSpace KLocalhost = KLocalhost" by code_simp
  then show ?thesis by (simp add: projectContainerSSHHostName_def Let_def TrimSpace_idem)
qed

lemma entry_clean:
  assumes "NL \<notin> set (defaultSSHIdentityFile io)" "TrimSpace host = host"
  shows "clean_entry (container_entry io host c)"
proof -
  have "TrimSpace ''root'' = ''root''" by code_simp
  then show ?thesis using assms by (simp add: clean_entry_def container_entry_def TrimSpace_idem)
qed

text \<open>
  C9. When \<open>setProjectContainerFromAgent\<close> succeeds, the last step of a deployment, the
  container can be reached: the store has a positive SSH port for it and the remote user of
  the deployment, and the SSH configuration has exactly one block for it, with that port,
  the host of the project and that user; the other blocks and the lines of the user are kept.
\<close>

theorem deployed_container_is_reachable:
  assumes "setProjectContainerFromAgent env client proj n user expected st = (None, st')"
    and "as_Get client n (cs_agent st) = (Ok c, a1)" "pb_Name c = n"
    and "ssh_state (cs_ssh st) bs ls" "NL \<notin> set (defaultSSHIdentityFile (ce_ssh env))"
  shows "\<exists>e. sh_alias e = TrimSpace n \<and> sh_port e = ContainerSSHPort (cs_data st') proj n \<and> sh_port e > 0 \<and>
      sh_hostName e = projectContainerSSHHostName (ce_url env) (cs_data st') proj \<and>
      sh_user e = (if TrimSpace user = [] then ''root'' else ProjectContainerRemoteUser (cs_data st') proj n) \<and>
      ssh_state (cs_ssh st') ((sh_alias e, body_lines e) # filter (\<lambda>b. fst b \<noteq> sh_alias e) bs) ls"
proof -
  let ?c = "(protoContainerToBO c user)\<lparr>ct_ExpectedStatus := expected\<rparr>" and ?io = "ce_ssh env"
  have name: "ct_Name ?c = n" "ct_RemoteUser ?c = user" using assms(3) by (simp_all add: protoContainerToBO_def Let_def)
  obtain e1 st1 where up: "on_data (UpsertProjectContainer proj ?c) (st\<lparr>cs_agent := a1\<rparr>) = (e1, st1)" by (metis surj_pair)
  then have e1: "e1 = None" and ssh: "upsert_container_ssh env proj ?c True st1 = (None, st')"
    using assms(1,2) by (auto simp: setProjectContainerFromAgent_def store_container_def on_agent_def split: option.splits)
  have upd: "UpsertProjectContainer proj ?c (cs_data st) = Inr (cs_data st1)" and same: "cs_ssh st1 = cs_ssh st"
    using on_data_ok up e1 by fastforce+
  have data: "cs_data st' = cs_data st1" using upsert_ssh_frame [OF ssh] by simp
  have row: "container_row (cs_data st') proj n = Some (toContainerInfo ?c)" using upsert_row [OF upd, of proj n] name data by simp
  define host where "host = projectContainerSSHHostName (ce_url env) (cs_data st1) proj"
  define e where "e = container_entry ?io host ?c"
  have port: "sh_port e = ContainerSSHPort (cs_data st') proj n"
    using row by (simp add: read_container_row e_def container_entry_def toContainerInfo_def)
  have written: "upsertProjectContainerSSHConfig ?io host ?c True (cs_ssh st) = (None, cs_ssh st')"
    using ssh same by (auto simp: upsert_container_ssh_def on_ssh_def host_def split: prod.splits)
  then have pos: "sh_port e > 0" and up_file: "upsertManagedSSHHostEntry ?io e (cs_ssh st) = (None, cs_ssh st')"
    by (auto simp: upsertProjectContainerSSHConfig_def e_def Let_def split: if_splits prod.splits option.splits)
  have clean: "clean_entry e" unfolding e_def by (rule entry_clean [OF assms(5)]) (simp add: host_def host_name_trimmed)
  have stored: "ProjectContainerRemoteUser (cs_data st') proj n = TrimSpace user"
    using row name by (simp add: read_container_row toContainerInfo_def)
  have fields: "sh_alias e = TrimSpace n" "sh_hostName e = projectContainerSSHHostName (ce_url env) (cs_data st') proj"
    "sh_user e = (if TrimSpace user = [] then ''root'' else TrimSpace user)"
    using name by (simp_all add: e_def container_entry_def host_def data)
  show ?thesis
    using upsert_entry_state [OF assms(4) clean, of ?io] up_file pos port fields stored by (intro exI [of _ e]) simp
qed

section \<open>An agent with one container\<close>

definition sample_pb :: pb_Container where
  "sample_pb = \<lparr>pb_Id = ''42'', pb_Name = ''dev'', pb_Status = ''exited'', pb_Host = ''box'', pb_PortMapping = [''22/tcp'' \<mapsto> 2222]\<rparr>"

text \<open>Its world is the list of its containers; deleting removes one.\<close>

definition sample_services :: "pb_Container list agentServices" where
  "sample_services = \<lparr>as_List = (\<lambda>a. (Ok a, a)),
     as_Get = (\<lambda>n a. (case find (\<lambda>c. pb_Name c = n) a of None \<Rightarrow> Fail ''no such container'' | Some c \<Rightarrow> Ok c, a)),
     as_Start = (\<lambda>n a. (None, a)), as_Stop = (\<lambda>n a. (None, a)),
     as_Delete = (\<lambda>n p a. (None, filter (\<lambda>c. pb_Name c \<noteq> n) a)), as_Rename = (\<lambda>n n' a. (None, a)),
     as_Execute = (\<lambda>n c u a. (Ok ([], 0), a)), as_Stage = (\<lambda>p cs a. (None, a)), as_Deploy = (\<lambda>r a. (Ok ([], None), a))\<rparr>"

definition sample_command_env :: "unit command_env" where
  "sample_command_env = \<lparr>ce_url = \<lparr>url_Parse = \<lambda>s. None, url_Hostname = \<lambda>u. [], url_lower_host = \<lambda>u. u, url_String = \<lambda>u. []\<rparr>,
     ce_ssh = sample_ssh_io\<rparr>"

text \<open>The store has the rows \<open>dev\<close>, which the agent has too, and \<open>old\<close>, which it has not.\<close>

definition sample_store :: data where
  "sample_store = ok_or sample_db (bind_ok (UpsertProjectContainer ''web'' (zero_Container\<lparr>ct_Name := ''dev''\<rparr>) sample_db)
     (UpsertProjectContainer ''web'' (zero_Container\<lparr>ct_Name := ''old''\<rparr>)))"

definition sample_client :: "pb_Container list client_state" where
  "sample_client = \<lparr>cs_data = sample_store, cs_ssh = sample_ssh_config, cs_agent = [sample_pb]\<rparr>"

lemma sample_listed: "on_agent (as_List sample_services) sample_client = (Ok [sample_pb], sample_client)"
  "as_List sample_services (cs_agent sample_client) = (Ok [sample_pb], [sample_pb])"
  by (simp_all add: sample_services_def sample_client_def on_agent_def)

lemma sample_got: "on_agent (as_Get sample_services ''dev'') sample_client = (Ok sample_pb, sample_client)"
  "as_Get sample_services ''dev'' (cs_agent sample_client) = (Ok sample_pb, [sample_pb])"
  by (simp_all add: sample_services_def sample_client_def on_agent_def sample_pb_def)

lemma sample_by_name: "containers_by_name [sample_pb] = [''dev'' \<mapsto> sample_pb]"
  by (simp add: containers_by_name_def sample_pb_def)

theorem deployed_container_is_reachable_witness:
  "\<exists>e. sh_alias e = ''dev'' \<and> sh_port e = 2222 \<and>
    ssh_state (cs_ssh (snd (setProjectContainerFromAgent sample_command_env sample_services ''web'' ''dev'' ''me'' KContainerStatusRunning sample_client)))
      [(''dev'', body_lines e)] [''Host work'']"
proof -
  let ?run = "setProjectContainerFromAgent sample_command_env sample_services ''web'' ''dev'' ''me'' KContainerStatusRunning sample_client"
  have ok: "fst ?run = None" and port: "ContainerSSHPort (cs_data (snd ?run)) ''web'' ''dev'' = 2222" by code_simp+
  have key: "NL \<notin> set (defaultSSHIdentityFile (ce_ssh sample_command_env))" and name: "pb_Name sample_pb = ''dev''"
    and trim: "TrimSpace ''dev'' = ''dev''" by code_simp+
  have state: "ssh_state (cs_ssh sample_client) [(''dev'', [''Host dev'', ''    Port 22''])] [''Host work'']"
    using sample_ssh_state by (simp add: sample_client_def)
  have run: "?run = (None, snd ?run)" using ok by (metis prod.collapse)
  from deployed_container_is_reachable [OF run sample_got(2) name state key] show ?thesis
    unfolding port trim by (elim exE conjE) (rule exI, auto)
qed

text \<open>Clearing removes the row of \<open>dev\<close>, and keeps the one of \<open>old\<close>.\<close>

theorem clear_keeps_absent_rows_witness:
  "container_row (cs_data (snd (clearProjectContainersOnAgent sample_command_env sample_services ''web'' [] sample_client))) ''web'' ''old'' =
   container_row sample_store ''web'' ''old''"
proof -
  let ?run = "clearProjectContainersOnAgent sample_command_env sample_services ''web'' [] sample_client"
  have names: "uniqueContainerNames (ProjectContainersName (cs_data sample_client) ''web'') = [''dev'', ''old'']" by code_simp
  have del: "delete_containers sample_services ''web'' [''dev'' \<mapsto> sample_pb] [''dev'', ''old''] sample_client = (([''dev''], []), sample_client\<lparr>cs_agent := []\<rparr>)"
    by (simp add: on_agent_def sample_services_def sample_client_def sample_pb_def)
  have run: "?run = (case syncProjectContainersFromAgent sample_command_env sample_services ''web'' [''dev''] True (sample_client\<lparr>cs_agent := []\<rparr>) of
      (e, st3) \<Rightarrow> (e, st3))"
    unfolding clearProjectContainersOnAgent_def append_Nil2 names listAgentContainersByName_def sample_listed
    by (simp add: sample_by_name del del: delete_containers.simps split: prod.splits option.splits)
  have "uniqueContainerNames [''dev''] = [''dev'']" by code_simp
  then have sync: "syncProjectContainersFromAgent sample_command_env sample_services ''web'' [''dev''] True (sample_client\<lparr>cs_agent := []\<rparr>) =
      remove_absent sample_command_env ''web'' [''dev''] (sample_client\<lparr>cs_agent := []\<rparr>)"
    by (simp add: syncProjectContainersFromAgent_def syncProjectContainersFromAgentWithExpected_def listAgentContainersByName_def
        on_agent_def sample_services_def containers_by_name_def)
  have "fst (remove_absent sample_command_env ''web'' [''dev''] (sample_client\<lparr>cs_agent := []\<rparr>)) = None" by code_simp
  then have "?run = (None, snd ?run)" using run sync by (metis (no_types, lifting) case_prod_conv prod.collapse)
  moreover have "TrimSpace ''old'' = ''old''" "''old'' \<in> set (ProjectContainersName (cs_data sample_client) ''web'')" by code_simp+
  ultimately show ?thesis
    using clear_keeps_absent_rows [of sample_command_env sample_services "''web''" "[]" sample_client "snd ?run" "[sample_pb]" "[sample_pb]" "''old''"]
      sample_listed(2) by (simp add: sample_pb_def sample_client_def)
qed


end
