(* ===== verification/DeployProps.thy ===== *)
theory DeployProps
  imports ProjectDeploy ProjectSyncProps
begin

text \<open>
  The key that a deployment installs is the key that connects, and the plan of a deployment
  is one that staging accepts.
\<close>

section \<open>An upload ends\<close>

definition chunk_count :: "nat \<Rightarrow> nat" where
  "chunk_count n = (if n = 0 then 1 else (n + artifactUploadChunkSize - 1) div artifactUploadChunkSize)"

lemma chunk_count_step: "n > artifactUploadChunkSize \<Longrightarrow> chunk_count n = Suc (chunk_count (n - artifactUploadChunkSize))"
proof -
  assume n: "n > artifactUploadChunkSize"
  have pos: "artifactUploadChunkSize > 0" by (simp add: artifactUploadChunkSize_def)
  have "n + artifactUploadChunkSize - 1 = (n - artifactUploadChunkSize + artifactUploadChunkSize - 1) + artifactUploadChunkSize" using n pos by simp
  then have "(n + artifactUploadChunkSize - 1) div artifactUploadChunkSize =
      Suc ((n - artifactUploadChunkSize + artifactUploadChunkSize - 1) div artifactUploadChunkSize)"
    using pos by (metis add.commute div_add_self1 less_numeral_extra(3) plus_1_eq_Suc)
  then show ?thesis using n by (simp add: chunk_count_def)
qed

lemma chunk_count_small: "n \<le> artifactUploadChunkSize \<Longrightarrow> chunk_count n = 1"
proof (cases "n = 0")
  case False
  assume "n \<le> artifactUploadChunkSize"
  then have e: "n + artifactUploadChunkSize - 1 = artifactUploadChunkSize + (n - 1)" "n - 1 < artifactUploadChunkSize" using False by auto
  have "artifactUploadChunkSize \<noteq> 0" by (simp add: artifactUploadChunkSize_def)
  then have "(artifactUploadChunkSize + (n - 1)) div artifactUploadChunkSize = 1" using e(2) by (simp add: div_add_self1)
  then show ?thesis using False unfolding chunk_count_def e(1) by simp
qed (simp add: chunk_count_def)

lemma client_chunks_shape:
  assumes "offset \<le> length (ac_data cand)"
  shows "length (client_chunks proj uid cand offset) = chunk_count (length (ac_data cand) - offset) \<and>
    concat (map ch_Content (client_chunks proj uid cand offset)) = drop offset (ac_data cand) \<and>
    map ch_Finish (client_chunks proj uid cand offset) =
      replicate (chunk_count (length (ac_data cand) - offset) - 1) False @ [True] \<and>
    (\<forall>c \<in> set (client_chunks proj uid cand offset). length (ch_Content c) \<le> artifactUploadChunkSize)"
  using assms
proof (induction proj uid cand offset rule: client_chunks.induct)
  case (1 proj uid cand offset)
  let ?n = "length (ac_data cand)" and ?stop = "min (offset + artifactUploadChunkSize) (length (ac_data cand))"
  show ?case
  proof (cases "?stop = ?n")
    case True
    then have "?n - offset \<le> artifactUploadChunkSize" by simp
    then show ?thesis using True 1(2) chunk_count_small [of "?n - offset"]
      by (subst (1 2 3 4) client_chunks.simps) (simp add: Let_def)
  next
    case False
    then have e: "?stop = offset + artifactUploadChunkSize" "?stop \<le> ?n" "?n - offset > artifactUploadChunkSize" by auto
    have IH: "length (client_chunks proj uid cand ?stop) = chunk_count (?n - ?stop)"
      "concat (map ch_Content (client_chunks proj uid cand ?stop)) = drop ?stop (ac_data cand)"
      "map ch_Finish (client_chunks proj uid cand ?stop) = replicate (chunk_count (?n - ?stop) - 1) False @ [True]"
      "\<forall>c \<in> set (client_chunks proj uid cand ?stop). length (ch_Content c) \<le> artifactUploadChunkSize"
      using 1(1) [OF refl refl refl _ e(2)] False by simp_all
    have count: "chunk_count (?n - offset) = Suc (chunk_count (?n - ?stop))"
      using chunk_count_step [OF e(3)] e(1) by simp
    have pos: "chunk_count (?n - ?stop) > 0" using arg_cong [OF IH(3), of length] IH(1) by simp
    have glue: "drop offset (take ?stop (ac_data cand)) @ drop ?stop (ac_data cand) = drop offset (ac_data cand)"
      using e(1) by (metis append_take_drop_id drop_append drop_take le_add1 length_take min.absorb2 min_def
          drop_drop add.commute le_add_diff_inverse)
    show ?thesis
      unfolding client_chunks.simps [of proj uid cand offset] Let_def
      using False IH glue pos e(1) unfolding count by (cases "chunk_count (?n - ?stop)") simp_all
  qed
qed

text \<open>
  C36. The upload loop of the client ends: for data of \<open>n\<close> bytes it sends
  \<open>chunk_count n\<close> chunks, which is \<open>n\<close> divided by one mebibyte and rounded up, and one for
  empty data; together they hold exactly the data, none is longer than the chunk size, and
  the last one, and no other, says that it is the last.
\<close>

theorem client_upload_ends:
  "length (client_chunks proj uid cand 0) = chunk_count (length (ac_data cand)) \<and>
   concat (map ch_Content (client_chunks proj uid cand 0)) = ac_data cand \<and>
   map ch_Finish (client_chunks proj uid cand 0) = replicate (chunk_count (length (ac_data cand)) - 1) False @ [True] \<and>
   list_all (\<lambda>c. length (ch_Content c) \<le> artifactUploadChunkSize) (client_chunks proj uid cand 0)"
  using client_chunks_shape [of 0 cand proj uid] by (simp add: list_all_iff)

section \<open>The key pair of a host is stable\<close>

text \<open>A file that was written is not a directory.\<close>

definition plain_writes :: "key_lib \<Rightarrow> bool" where
  "plain_writes lib = (\<forall>p. kl_WriteError lib p = None \<longrightarrow> \<not> kl_IsDir lib p)"

lemma find_host_keys:
  assumes "UpdateHostKey (zero_Host\<lparr>bh_Name := n, bh_KeyPair := \<lparr>kp_PathToPub = pub, kp_PathToPrv = prv\<rparr>\<rparr>) d = Inr d'"
  shows "GetHostKey d' n = prv" "GetHostPubKey d' n = pub" "HasHost d' n" "d_Projects d' = d_Projects d"
proof -
  let ?same = "\<lambda>h. normalizeHostName (h_Name h) = normalizeHostName n"
  let ?f = "\<lambda>h. h\<lparr>h_UseKey := True, h_PathToKey := prv, h_PathToPubKey := pub\<rparr>"
  have up: "update_host ?f n d = Inr d'" using assms by (simp add: UpdateHostKey_def)
  then obtain h where h: "find ?same (d_Hosts d) = Some h" and d': "d' = d\<lparr>d_Hosts := update_first ?same ?f (d_Hosts d)\<rparr>"
    by (auto simp: update_host_def getHost_def FindElemFromSlice_find bind_ok_def split: option.splits)
  have "find ?same (update_first ?same ?f (d_Hosts d)) = Some (?f h)"
    using find_update_first_same [of ?same ?f "d_Hosts d"] h by simp
  then show "GetHostKey d' n = prv" "GetHostPubKey d' n = pub" "HasHost d' n" "d_Projects d' = d_Projects d"
    by (simp_all add: GetHostKey_def GetHostPubKey_def HasHost_def get_host_def getHost_def FindElemFromSlice_find d' ok_or_def)
qed

lemma persisted:
  assumes "persistHostKeyPair lib n prv pub d = (None, d')"
  shows "GetHostKey d' n = prv" "GetHostPubKey d' n = pub" "d_Projects d' = d_Projects d"
    "\<exists>d''. persistHostKeyPair lib n prv pub d' = (None, d'')"
proof -
  let ?d1 = "if HasHost d n then d else AddHost n (GetUsernameFromEnv lib) d"
  have up: "UpdateHostKey (zero_Host\<lparr>bh_Name := n, bh_KeyPair := \<lparr>kp_PathToPub = pub, kp_PathToPrv = prv\<rparr>\<rparr>) ?d1 = Inr d'"
    using assms by (auto simp: persistHostKeyPair_def Let_def split: sum.splits if_splits)
  note found = find_host_keys [OF up]
  have "d_Projects ?d1 = d_Projects d" by (simp add: AddHost_def Let_def split: option.splits)
  then show "GetHostKey d' n = prv" "GetHostPubKey d' n = pub" "d_Projects d' = d_Projects d" using found by simp_all
  obtain h where "getHost d' n = Inr h" using found(3) by (auto simp: HasHost_def is_ok_iff)
  then show "\<exists>d''. persistHostKeyPair lib n prv pub d' = (None, d'')"
    using found(3) by (simp add: persistHostKeyPair_def UpdateHostKey_def update_host_def zero_Host_def Let_def)
qed

lemma projectAgentHost_cong: "d_Projects d' = d_Projects d \<Longrightarrow> projectAgentHost url d' proj = projectAgentHost url d proj"
  by (simp add: projectAgentHost_def ProjectHostName_def get_project_def getProject_def)

lemma written_regular:
  assumes "plain_writes lib" "writeKeyTofile lib key p fs = (None, fs')"
  shows "regularFileExists lib fs' p" "regularFileExists lib fs q \<Longrightarrow> regularFileExists lib fs' q"
  using assms by (auto simp: writeKeyTofile_def regularFileExists_def plain_writes_def split: option.splits)

lemma key_paths_ne: "path_Join [x, y, c # s] \<noteq> []"
  by (auto simp: path_Join_def)

text \<open>The managed pair is on disk, or its public half is a directory and nothing was written.\<close>

lemma managed_pair:
  assumes "plain_writes lib" "ensureManagedHostKeyPair lib n fs = (Ok kp, fs')"
  shows "(regularFileExists lib fs' (PathToPrv kp) \<and> regularFileExists lib fs' (PathToPub kp) \<or> fs' = fs) \<and>
    PathToPrv kp \<noteq> [] \<and> PathToPub kp \<noteq> []"
proof (cases "regularFileExists lib fs (PathToPrv (managedHostKeyPairPaths lib n))")
  case True
  let ?prv = "PathToPrv (managedHostKeyPairPaths lib n)"
  have g: "GeneratePublicKey lib ?prv fs = (Ok (PathToPub kp), fs')" "PathToPrv kp = ?prv"
    using assms(2) True by (auto simp: ensureManagedHostKeyPair_def Let_def split: sum.splits prod.splits)
  have ne: "?prv \<noteq> []" by (simp add: managedHostKeyPairPaths_def Let_def key_paths_ne)
  have "PathToPub kp = ?prv @ ''.pub''"
    using g(1) by (auto simp: GeneratePublicKey_def Let_def split: if_splits sum.splits prod.splits option.splits)
  moreover have "fs' = fs \<or> (\<exists>key. writeKeyTofile lib key (PathToPub kp) fs = (None, fs'))"
    using g(1) by (auto simp: GeneratePublicKey_def Let_def split: if_splits sum.splits prod.splits option.splits)
  ultimately show ?thesis using True g(2) ne written_regular [OF assms(1)] by auto
next
  case False
  then have "GenerateKeyPair lib (managedHostKeySuffix n) fs = (Ok kp, fs')"
    using assms(2) by (auto simp: ensureManagedHostKeyPair_def Let_def split: sum.splits prod.splits)
  then obtain fs1 where w: "writeKeyTofile lib (fst (kl_Generated lib)) (PathToPrv kp) fs = (None, fs1)"
      "writeKeyTofile lib (marked lib (snd (kl_Generated lib))) (PathToPub kp) fs1 = (None, fs')"
      and ne: "PathToPrv kp \<noteq> []" "PathToPub kp \<noteq> []"
    by (auto simp: GenerateKeyPair_def Let_def key_paths_ne split: prod.splits option.splits)
  then show ?thesis using written_regular [OF assms(1) w(1)] written_regular [OF assms(1) w(2)] by blast
qed

lemma key_pair_again:
  assumes "plain_writes lib" "ensureProjectSSHKeyPair url lib proj (d, fs) = (Ok (prv, pub), d', fs')"
  shows "fst (ensureProjectSSHKeyPair url lib proj (d', fs')) = Ok (prv, pub)"
proof -
  let ?n = "projectAgentHost url d proj"
  let ?registered = "GetHostKey d ?n \<noteq> [] \<and> GetHostPubKey d ?n \<noteq> [] \<and>
    regularFileExists lib fs (GetHostKey d ?n) \<and> regularFileExists lib fs (GetHostPubKey d ?n)"
  let ?default = "find (\<lambda>p. regularFileExists lib fs p \<and> regularFileExists lib fs (p @ ''.pub''))
    (map (\<lambda>n. path_Join [path_Join [kl_HomeDir lib, ''.ssh''], n]) defaultSSHKeyNames)"
  consider "?registered" | p where "\<not> ?registered" "?default = Some p" | "\<not> ?registered" "?default = None" by fastforce
  then show ?thesis
  proof cases
    case 1
    then show ?thesis using assms(2) by (auto simp: ensureProjectSSHKeyPair_def Let_def)
  next
    case 2
    then have per: "persistHostKeyPair lib ?n p (p @ ''.pub'') d = (None, d')" and eq: "prv = p" "pub = p @ ''.pub''" "fs' = fs"
      using assms(2) by (auto simp: ensureProjectSSHKeyPair_def Let_def split: prod.splits option.splits)
    note host = projectAgentHost_cong [OF persisted(3) [OF per], of url proj]
    obtain d'' where "persistHostKeyPair lib ?n p (p @ ''.pub'') d' = (None, d'')" using persisted(4) [OF per] by blast
    then show ?thesis
      using persisted(1,2) [OF per] 2(2) by (simp add: ensureProjectSSHKeyPair_def host eq Let_def)
  next
    case 3
    then obtain kp where m: "ensureManagedHostKeyPair lib ?n fs = (Ok kp, fs')"
        and per: "persistHostKeyPair lib ?n (PathToPrv kp) (PathToPub kp) d = (None, d')" and eq: "prv = PathToPrv kp" "pub = PathToPub kp"
      using assms(2) by (auto simp: ensureProjectSSHKeyPair_def Let_def split: prod.splits option.splits sum.splits)
    note host = projectAgentHost_cong [OF persisted(3) [OF per], of url proj]
    obtain d'' where again: "persistHostKeyPair lib ?n (PathToPrv kp) (PathToPub kp) d' = (None, d'')" using persisted(4) [OF per] by blast
    from managed_pair [OF assms(1) m] show ?thesis
    proof (elim conjE disjE)
      assume "regularFileExists lib fs' (PathToPrv kp)" "regularFileExists lib fs' (PathToPub kp)"
        "PathToPrv kp \<noteq> []" "PathToPub kp \<noteq> []"
      then show ?thesis using persisted(1,2) [OF per] by (simp add: ensureProjectSSHKeyPair_def host eq Let_def)
    next
      assume "fs' = fs"
      then show ?thesis using persisted(1,2) [OF per] 3(2) m again by (simp add: ensureProjectSSHKeyPair_def host eq Let_def)
    qed
  qed
qed

section \<open>The artifacts of a plan\<close>

lemma read_candidates_Ok:
  "read_candidates env fs pubKey rs = Ok cs \<Longrightarrow>
   map (\<lambda>c. ad_Identifier (ac_descriptor c)) cs = filter (\<lambda>i. i \<noteq> pubKey) (map ra_Identifier rs) \<and>
   (\<forall>c \<in> set cs. \<exists>i x. c = candidate env i x)"
proof (induction rs arbitrary: cs)
  case (Cons r rs)
  show ?case
  proof (cases "ra_Identifier r = pubKey")
    case False
    then obtain x cs1 where "read_candidates env fs pubKey rs = Ok cs1" "cs = candidate env (ra_Identifier r) x # cs1"
      using Cons.prems by (auto simp: bind_ok_Inr)
    then show ?thesis using Cons.IH False by (auto simp: candidate_def)
  qed (use Cons in simp)
qed simp

lemma pub_key_identifier:
  "SingletonIdentifier KindPubKey = Ok ''resource/pub_key/pub_key''"
  "NormalizeIdentifier ''resource/pub_key/pub_key'' = Ok ''resource/pub_key/pub_key''"
  by code_simp+

lemma managed_artifact:
  assumes "managedPublicKeyArtifact env proj i (d, fs) = (Ok c, d', fs')"
  obtains prv pub content where "ensureProjectSSHKeyPair (ce_url (de_command env)) (de_keys env) proj (d, fs) = (Ok (prv, pub), d', fs')"
    "fs' pub = Some content" "c = candidate env i (TrimSpace content @ [NL])"
  using assms by (auto simp: managedPublicKeyArtifact_def read_file_def split: prod.splits sum.splits option.splits)

lemma collected:
  assumes "collectArtifactCandidates env proj config configDir (d, fs) = (Ok cands, d', fs')"
  obtains required cs c where "CollectArtifacts (de_Collect env fs) config configDir = Ok required"
    "read_candidates env fs ''resource/pub_key/pub_key'' required = Ok cs" "cands = cs @ [c]"
    "managedPublicKeyArtifact env proj ''resource/pub_key/pub_key'' (d, fs) = (Ok c, d', fs')"
  using assms by (auto simp: collectArtifactCandidates_def pub_key_identifier split: sum.splits prod.splits)

lemma candidate_good:
  assumes "validateAgentName ''project_name'' proj = None" "NormalizeIdentifier i = Ok i"
  shows "\<exists>dest. good_candidate dir (de_sha env) proj (candidate env i x) dest"
proof -
  obtain a where "resolveProjectArtifact dir proj i = Ok a" using staged_path_total [OF assms] by blast
  then show ?thesis using assms by (auto simp: good_candidate_def candidate_def artifactPath_def)
qed

text \<open>
  C3. The artifacts a client collects for a deployment are a plan that staging accepts
  (distinct normal identifiers, sizes and digests of the data), provided no Dockerfile path
  ends in \<open>..\<close>; the last artifact, and no other, is the public key, and its text is that of
  the key pair the client gets from then on when it connects to a container of the project.
\<close>

theorem deployment_installs_the_key_that_connects:
  assumes "collectArtifactCandidates env proj config configDir (d, fs) = (Ok cands, d', fs')"
    and "plain_writes (de_keys env)" "validateAgentName ''project_name'' proj = None"
    and "\<forall>c \<in> set cands. ad_Identifier (ac_descriptor c) \<noteq> ''resource''"
  shows "good_plan dir (de_sha env) proj cands \<and>
    (\<exists>cs c prv pub content. cands = cs @ [c] \<and> ad_Identifier (ac_descriptor c) = ''resource/pub_key/pub_key'' \<and>
       (\<forall>c' \<in> set cs. ad_Identifier (ac_descriptor c') \<noteq> ''resource/pub_key/pub_key'') \<and>
       fst (ensureProjectSSHKeyPair (ce_url (de_command env)) (de_keys env) proj (d', fs')) = Ok (prv, pub) \<and>
       fs' pub = Some content \<and> ac_data c = TrimSpace content @ [NL])"
proof -
  let ?pk = "''resource/pub_key/pub_key''" and ?id = "\<lambda>c. ad_Identifier (ac_descriptor c)"
  obtain required cs c where req: "CollectArtifacts (de_Collect env fs) config configDir = Ok required"
      and cs: "read_candidates env fs ?pk required = Ok cs" and cands: "cands = cs @ [c]"
      and pk: "managedPublicKeyArtifact env proj ?pk (d, fs) = (Ok c, d', fs')"
    using collected [OF assms(1)] by blast
  obtain prv pub content where key: "ensureProjectSSHKeyPair (ce_url (de_command env)) (de_keys env) proj (d, fs) = (Ok (prv, pub), d', fs')"
      and content: "fs' pub = Some content" and c: "c = candidate env ?pk (TrimSpace content @ [NL])"
    using managed_artifact [OF pk] by blast
  note ids = read_candidates_Ok [OF cs]
  have dist: "distinct (map ra_Identifier required)"
    and norm: "\<forall>a \<in> set required. NormalizeIdentifier (ra_Identifier a) = Ok (ra_Identifier a) \<or> ra_Identifier a = ''resource''"
    using collected_shape [OF req] by simp_all
  have sub: "?id ` set cs \<subseteq> ra_Identifier ` set required - {?pk}"
    using arg_cong [OF conjunct1 [OF ids], of set] by auto
  have "distinct (map ?id cands)" using ids dist sub by (auto simp: cands c candidate_def)
  moreover have "\<exists>dest. good_candidate dir (de_sha env) proj c' dest" if c': "c' \<in> set cands" for c'
  proof -
    have n: "NormalizeIdentifier (?id c') = Ok (?id c')"
    proof (cases "c' = c")
      case False
      then have "?id c' \<in> ra_Identifier ` set required" using c' sub by (auto simp: cands)
      then show ?thesis using norm assms(4) c' by auto
    qed (simp add: c candidate_def pub_key_identifier)
    obtain i x where i: "c' = candidate env i x" using c' ids c by (auto simp: cands)
    then show ?thesis using candidate_good [OF assms(3), where i = i and env = env and dir = dir and x = x] n by (simp add: candidate_def)
  qed
  ultimately have "good_plan dir (de_sha env) proj cands" by (simp add: good_plan_def)
  moreover have "?id c = ?pk" "ac_data c = TrimSpace content @ [NL]" by (simp_all add: c candidate_def)
  ultimately show ?thesis using cands sub key_pair_again [OF assms(2) key] content by blast
qed

text \<open>A project with a Dockerfile and an authentication file, on a host without a key.\<close>

definition sample_keys :: key_lib where
  "sample_keys = \<lparr>kl_HomeDir = ''/h'', kl_EnvUser = ''me'', kl_CurrentUser = Ok ''me'', kl_Hostname = Ok ''box'',
     kl_Generated = (''PEM'', ''ecdsa AAAA''), kl_Parse = (\<lambda>p. Fail ''bad key''), kl_NewPublic = (\<lambda>p. None),
     kl_ReadError = (\<lambda>p. None), kl_WriteError = (\<lambda>p. None), kl_Left = (\<lambda>p. None), kl_IsDir = (\<lambda>p. False)\<rparr>"

definition sample_engine_env :: "unit engine_env" where
  "sample_engine_env = \<lparr>env_bash = \<lambda>c w. (([], [], None), w), env_CreateTempFile = \<lambda>_ w. (Fail [], w), env_RemoveTempFile = \<lambda>_ w. (None, w),
     env_WriteFile = \<lambda>_ _ w. (None, w), env_HomeDir = [], env_parseRepo = \<lambda>_. Fail []\<rparr>"

definition sample_deploy_env :: "(unit, string, unit) deploy_env" where
  "sample_deploy_env = \<lparr>de_command = sample_command_env, de_keys = sample_keys, de_engine = sample_engine_env,
     de_json = \<lparr>json_Unmarshal = \<lambda>s. Fail ''bad'', json_Marshal = \<lambda>m. Fail ''bad'', json_String = \<lambda>s. s\<rparr>,
     de_Parse = \<lambda>s. Ok sample_config, de_Collect = \<lambda>fs. sample_env, de_sha = rev, de_DetectContentType = \<lambda>s. ''text/plain'', de_Timestamp = ''T''\<rparr>"

definition sample_files :: files where
  "sample_files = [''/D'' \<mapsto> ''FROM x'', ''/c/auth.json'' \<mapsto> ''{}'']"

theorem deployment_installs_the_key_that_connects_witness:
  "\<exists>cands d' fs'. collectArtifactCandidates sample_deploy_env ''web'' sample_config ''/p'' (sample_db, sample_files) = (Ok cands, d', fs') \<and>
     length cands = 3 \<and> good_plan ''/s'' rev ''web'' cands"
proof -
  let ?run = "collectArtifactCandidates sample_deploy_env ''web'' sample_config ''/p'' (sample_db, sample_files)"
  have "case fst ?run of Inl e \<Rightarrow> False | Inr cs \<Rightarrow> length cs = 3 \<and> list_all (\<lambda>c. ad_Identifier (ac_descriptor c) \<noteq> ''resource'') cs"
    by code_simp
  then obtain cands d' fs' where run: "?run = (Ok cands, d', fs')" "length cands = 3"
      "\<forall>c \<in> set cands. ad_Identifier (ac_descriptor c) \<noteq> ''resource''"
    by (cases ?run) (auto simp: list_all_iff split: sum.splits)
  have "plain_writes (de_keys sample_deploy_env)" by (simp add: plain_writes_def sample_deploy_env_def sample_keys_def)
  moreover have "validateAgentName ''project_name'' ''web'' = None" by code_simp
  moreover have "de_sha sample_deploy_env = rev" by (simp add: sample_deploy_env_def)
  ultimately show ?thesis
    using deployment_installs_the_key_that_connects [OF run(1) _ _ run(3), of "''/s''"] run(1,2) by auto
qed

end
