(* ===== verification/CommandProps.thy ===== *)
theory CommandProps
  imports ProjectCommands DeployProps
begin

text \<open>
  What the commands do to the store: which projects there are after a deletion, which host a
  project runs on, which container is the primary one after a rename, and when two projects
  share a configuration directory.
\<close>

section \<open>The projects and the context are kept\<close>

definition keeps_projects :: "data \<Rightarrow> data \<Rightarrow> bool" where
  "keeps_projects d d' = (ListProjects d' = ListProjects d \<and> GetCurrentProject d' = GetCurrentProject d)"

lemma keeps_refl [simp]: "keeps_projects d d"
  by (simp add: keeps_projects_def)

lemma keeps_trans: "keeps_projects d d1 \<Longrightarrow> keeps_projects d1 d2 \<Longrightarrow> keeps_projects d d2"
  by (simp add: keeps_projects_def)

lemma update_keeps: "update_project f n d = Inr d' \<Longrightarrow> (\<And>p. p_Name (f p) = p_Name p) \<Longrightarrow> keeps_projects d d'"
  by (auto simp: update_project_def keeps_projects_def ListProjects_def GetCurrentProject_def bind_ok_Inr update_first_map)

lemma container_ops_keep:
  "UpsertProjectContainer n c d = Inr d' \<Longrightarrow> keeps_projects d d'"
  "RemoveProjectContainers n ns d = Inr d' \<Longrightarrow> keeps_projects d d'"
  by (auto simp: UpsertProjectContainer_def RemoveProjectContainers_def elim!: update_keeps)

lemma on_data_keeps:
  "(\<And>d d'. f d = Inr d' \<Longrightarrow> keeps_projects d d') \<Longrightarrow> keeps_projects (cs_data st) (cs_data (snd (on_data f st)))"
  by (auto simp: on_data_def split: sum.splits)

lemma agent_keeps [simp]: "cs_data (snd (on_agent f st)) = cs_data st" "cs_data (snd (on_ssh g st)) = cs_data st"
  by (simp_all add: on_agent_def on_ssh_def split: prod.splits)

lemma sync_containers_keep:
  "keeps_projects (cs_data st) (cs_data (snd (sync_containers env client proj rm expected byName ns absent st)))"
proof (induction ns arbitrary: absent st)
  case (Cons n ns)
  show ?case
  proof (cases "byName n")
    case None
    then show ?thesis using Cons.IH by (simp add: Let_def)
  next
    case (Some c)
    obtain detailed st1 where g: "on_agent (as_Get client n) st = (detailed, st1)" by (metis surj_pair)
    let ?info = "with_expected expected (enriched c (ProjectContainerRemoteUser (cs_data st) proj n) detailed)"
    obtain e2 st2 where u: "on_data (UpsertProjectContainer proj ?info) st1 = (e2, st2)" by (metis surj_pair)
    obtain e3 st3 where s: "upsert_container_ssh env proj ?info False st2 = (e3, st3)" by (metis surj_pair)
    have "keeps_projects (cs_data st1) (cs_data st2)"
      using on_data_keeps [of "UpsertProjectContainer proj ?info" st1] container_ops_keep(1) u by simp
    then have k: "keeps_projects (cs_data st) (cs_data st2)" "keeps_projects (cs_data st) (cs_data st3)"
      using on_agent_frame [OF g] upsert_ssh_frame [OF s] by simp_all
    show ?thesis
      using Some g u s k keeps_trans [OF k(2) Cons.IH [of st3 absent]] by (simp split: option.split)
  qed
qed simp

lemma remove_ssh_keeps: "cs_data (snd (remove_ssh_entries env ns st)) = cs_data st"
  using remove_ssh_frame by (metis surj_pair snd_conv)

lemma remove_absent_keeps: "keeps_projects (cs_data st) (cs_data (snd (remove_absent env proj absent st)))"
proof -
  have "keeps_projects (cs_data st) (cs_data (snd (on_data (RemoveProjectContainers proj absent) st)))"
    by (rule on_data_keeps) (rule container_ops_keep(2))
  then show ?thesis
    by (auto simp: remove_absent_def remove_ssh_keeps split: prod.split option.split)
qed

lemma sync_keeps:
  "keeps_projects (cs_data st) (cs_data (snd (syncProjectContainersFromAgentWithExpected env client proj names rm expected st)))"
proof (cases "uniqueContainerNames names = []")
  case False
  obtain r st1 where l: "listAgentContainersByName client st = (r, st1)" by (metis surj_pair)
  then have d: "cs_data st1 = cs_data st"
    by (auto simp: listAgentContainersByName_def dest: on_agent_frame split: prod.splits sum.splits)
  show ?thesis
  proof (cases r)
    case (Inr byName)
    obtain absent e st2 where s: "sync_containers env client proj rm expected byName (uniqueContainerNames names) [] st1 = ((absent, e), st2)"
      by (metis surj_pair)
    have k: "keeps_projects (cs_data st) (cs_data st2)"
      using sync_containers_keep [of st1 env client proj rm expected byName "uniqueContainerNames names" "[]"] s d by simp
    show ?thesis
      using False l Inr s k keeps_trans [OF k remove_absent_keeps [of st2 env proj absent]] by (simp add: syncProjectContainersFromAgentWithExpected_def Let_def split: option.split)
  qed (use False l d in \<open>simp add: syncProjectContainersFromAgentWithExpected_def Let_def\<close>)
qed (simp add: syncProjectContainersFromAgentWithExpected_def)

lemma clear_keeps: "keeps_projects (cs_data st) (cs_data (snd (clearProjectContainersOnAgent env client proj extra st)))"
proof (cases "uniqueContainerNames (ProjectContainersName (cs_data st) proj @ extra) = []")
  case False
  let ?ns = "uniqueContainerNames (ProjectContainersName (cs_data st) proj @ extra)"
  obtain r st1 where l: "listAgentContainersByName client st = (r, st1)" by (metis surj_pair)
  then have d: "cs_data st1 = cs_data st"
    by (auto simp: listAgentContainersByName_def dest: on_agent_frame split: prod.splits sum.splits)
  show ?thesis
  proof (cases r)
    case (Inr byName)
    obtain candidates errors st2 where del: "delete_containers client proj byName ?ns st1 = ((candidates, errors), st2)" by (metis surj_pair)
    obtain e st3 where s: "syncProjectContainersFromAgent env client proj candidates True st2 = (e, st3)" by (metis surj_pair)
    have "cs_data st2 = cs_data st" using delete_frame [of client proj byName ?ns st1] del d by simp
    then have "keeps_projects (cs_data st) (cs_data st3)"
      using sync_keeps [of st2 env client proj candidates True None] s by (simp add: syncProjectContainersFromAgent_def)
    then show ?thesis using False l Inr del s by (simp add: clearProjectContainersOnAgent_def Let_def split: option.split)
  qed (use False l d in \<open>simp add: clearProjectContainersOnAgent_def Let_def\<close>)
qed (simp add: clearProjectContainersOnAgent_def)

text \<open>Reaching an agent may write what the store knows of hosts, not its projects.\<close>

definition start_keeps_projects :: "'a agent_link \<Rightarrow> bool" where
  "start_keeps_projects link = (\<forall>h st. keeps_projects (cs_data st) (cs_data (snd (al_StartAgent link h st))) \<and>
     keeps_projects (cs_data st) (cs_data (snd (al_Connect link h st))))"

lemma with_agent_keeps:
  assumes "start_keeps_projects link"
    and "\<And>services st. keeps_projects (cs_data st) (cs_data (snd (callback services st)))"
  shows "keeps_projects (cs_data st) (cs_data (snd (withProjectAgent lib link proj callback st)))"
proof -
  let ?h = "projectAgentHost lib (cs_data st) proj"
  obtain o1 st1 where s: "al_StartAgent link ?h st = (o1, st1)" by (metis surj_pair)
  obtain r st2 where c: "al_Connect link ?h st1 = (r, st2)" by (metis surj_pair)
  have k: "keeps_projects (cs_data st) (cs_data st1)" using assms(1) s by (metis start_keeps_projects_def snd_conv)
  have "keeps_projects (cs_data st1) (cs_data st2)" using assms(1) c by (metis start_keeps_projects_def snd_conv)
  then have k2: "keeps_projects (cs_data st) (cs_data st2)" using k keeps_trans by blast
  show ?thesis
    using s c k k2 keeps_trans [OF k2 assms(2)]
    by (simp add: withProjectAgent_def ensureAgentStarted_def Let_def split: start_outcome.split sum.split)
qed

lemma clear_main_keeps:
  "start_keeps_projects link \<Longrightarrow> keeps_projects (cs_data st) (cs_data (snd (projectClearMain env link proj st)))"
  by (auto simp: projectClearMain_def intro!: with_agent_keeps clear_keeps)

section \<open>Deleting a project\<close>

definition other_projects :: "string \<Rightarrow> string list \<Rightarrow> string list" where
  "other_projects proj ns = filter (\<lambda>n. normalizeProjectName n \<noteq> normalizeProjectName proj) ns"

lemma delete_row_effect:
  assumes "delete_row proj st = (None, st')"
  shows "ListProjects (cs_data st') = other_projects proj (ListProjects (cs_data st)) \<and>
    GetCurrentProject (cs_data st') = GetCurrentProject (cs_data st)"
proof -
  obtain d where "map_sum id snd (DeleteProject proj (cs_data st)) = Inr d" "st' = st\<lparr>cs_data := d\<rparr>"
    using on_data_ok assms unfolding delete_row_def by blast
  then have "d = removeProjectFromList proj (cs_data st)" "st' = st\<lparr>cs_data := d\<rparr>"
    by (auto simp: DeleteProject_def split: sum.splits)
  then show ?thesis
    by (simp add: removeProjectFromList_def ListProjects_def GetCurrentProject_def other_projects_def filter_map comp_def)
qed

lemma delete_one_effect:
  assumes "start_keeps_projects link" "getDeletor env link force False proj st = (None, st')"
  shows "ListProjects (cs_data st') = other_projects proj (ListProjects (cs_data st)) \<and>
    GetCurrentProject (cs_data st') = GetCurrentProject (cs_data st)"
proof -
  obtain e st1 where c: "projectClearMain env link proj st = (e, st1)" by (metis surj_pair)
  then have k: "keeps_projects (cs_data st) (cs_data st1)" using clear_main_keeps [OF assms(1), of st env proj] by simp
  obtain e2 st2 where d: "deleteProjectFromConfig env link proj st = (e2, st2)" by (metis surj_pair)
  show ?thesis
  proof (cases e)
    case None
    obtain e3 st3 where r: "delete_row proj st1 = (e3, st3)" by (metis surj_pair)
    show ?thesis
    proof (cases e3)
      case None
      then have "st' = st3"
        using assms(2) c \<open>e = None\<close> r by (simp add: getDeletor_def deleteProjectFromConfig_def handleForceDelete_def split: if_splits)
      then show ?thesis using delete_row_effect [of proj st1 st3] r None k by (simp add: keeps_projects_def)
    next
      case (Some x)
      then have "st3 = st1" using r by (auto simp: delete_row_def on_data_def split: sum.splits)
      then show ?thesis
        using assms(2) c \<open>e = None\<close> r Some by (simp add: getDeletor_def deleteProjectFromConfig_def handleForceDelete_def split: if_splits)
    qed
  next
    case (Some x)
    then have "delete_row proj st1 = (None, st')"
      using assms(2) c by (simp add: getDeletor_def deleteProjectFromConfig_def handleForceDelete_def split: if_splits)
    then show ?thesis using delete_row_effect [of proj st1 st'] k by (simp add: keeps_projects_def)
  qed
qed

text \<open>
  C37. A successful \<open>project delete NAME\<close>, forced or not, removes exactly that project; when
  it was the current one the first remaining project becomes current; but deleting any other
  project leaves no project current, whatever was selected before.
\<close>

theorem delete_removes_one_project:
  assumes "start_keeps_projects link" "delete_execute env link force False [proj] st = (None, st')"
  shows "ListProjects (cs_data st') = other_projects proj (ListProjects (cs_data st)) \<and>
    GetCurrentProject (cs_data st') =
      (if proj = GetCurrentProject (cs_data st)
       then (case other_projects proj (ListProjects (cs_data st)) of [] \<Rightarrow> [] | n # _ \<Rightarrow> n) else [])"
proof -
  obtain e st1 where g: "getDeletor env link force False proj st = (e, st1)" by (metis surj_pair)
  then have e: "e = None" using assms(2)
    by (auto simp: delete_execute_def getProjectNameFromArgsOrContext_def Let_def split: option.splits)
  note one = delete_one_effect [OF assms(1) g [unfolded e]]
  show ?thesis
  proof (cases "ListProjects (cs_data st1)")
    case Nil
    then show ?thesis
      using assms(2) g e one by (auto simp: delete_execute_def getProjectNameFromArgsOrContext_def FlushContext_def GetCurrentProject_def ListProjects_def)
  next
    case (Cons n ns)
    show ?thesis
    proof (cases "proj = GetCurrentProject (cs_data st)")
      case True
      then obtain d where "SetProject n (cs_data st1) = Inr d" "st' = st1\<lparr>cs_data := d\<rparr>"
        using assms(2) g e Cons by (auto simp: delete_execute_def getProjectNameFromArgsOrContext_def Let_def split: sum.splits)
      then have "cs_data st' = (cs_data st1)\<lparr>d_ProjectContext := n\<rparr>" by (auto simp: SetProject_def bind_ok_Inr)
      then show ?thesis using True one Cons by (simp add: GetCurrentProject_def ListProjects_def)
    next
      case False
      then have "cs_data st' = FlushContext (cs_data st1)"
        using assms(2) g e Cons by (auto simp: delete_execute_def getProjectNameFromArgsOrContext_def Let_def)
      then show ?thesis using False one by (simp add: FlushContext_def GetCurrentProject_def ListProjects_def)
    qed
  qed
qed

section \<open>The host of a project\<close>

text \<open>
  C38. Preparing a run never moves a project that has a host to another one: its host is the
  same afterwards, whatever target is asked for, and a target other than it is refused. Without a
  target the default host counts as the one asked for, so a project on another host than
  the default one cannot be run without naming its host.
\<close>

theorem run_keeps_project_host:
  assumes "projects_ok (d_Projects d)" "ProjectHostName d proj = h" "h \<noteq> []"
  shows "ProjectHostName (snd (buildProjectHostInfoAndConfig lib r proj d)) proj = h \<and>
    (fst (buildProjectHostInfoAndConfig lib r proj d) = None \<longrightarrow> run_target lib r d = Ok h \<or> run_target lib r d = Ok []) \<and>
    (pr_targetServer r = [] \<and> GetDefaultHostName d \<noteq> [] \<and> GetDefaultHostName d \<noteq> h \<longrightarrow>
      fst (buildProjectHostInfoAndConfig lib r proj d) \<noteq> None)"
proof (cases "run_target lib r d")
  case (Inr target)
  obtain p where p: "find_project proj (d_Projects d) = Some p" "p_Host p = h"
    using assms(2,3) by (auto simp: ProjectHostName_def get_project_def getProject_def ok_or_def split: option.splits)
  have norm: "normalizeHostName h = h"
    using assms(1) p find_Some_set by (fastforce simp: projects_ok_def project_ok_def find_project_def)
  show ?thesis
  proof (cases "target = [] \<or> target = h")
    case True
    then have choice: "project_host_choice d proj target = Ok h" using assms(2,3) by (auto simp: project_host_choice_def)
    let ?d1 = "if HasHost d h then d else AddHost h [] d"
    have same: "d_Projects ?d1 = d_Projects d" by (simp add: AddHost_def Let_def split: option.splits)
    then have p1: "find_project proj (d_Projects ?d1) = Some p" using p by simp
    then obtain d2 where up: "update_project (\<lambda>p. p\<lparr>p_Host := normalizeHostName h\<rparr>) proj ?d1 = Inr d2"
      by (cases "update_project (\<lambda>p. p\<lparr>p_Host := normalizeHostName h\<rparr>) proj ?d1") (auto simp: update_project_def getProject_def)
    have id: "identifyProjectHost proj target d = (None, d2)"
      using up by (simp add: identifyProjectHost_def choice Let_def SetProjectHost_def project_setter_def or_keep_def)
    have "find_project proj (d_Projects d2) = Some (p\<lparr>p_Host := h\<rparr>)"
      using update_project_find [OF up, of proj] p1 norm by simp
    then have "ProjectHostName d2 proj = h" by (simp add: ProjectHostName_def get_project_def getProject_def ok_or_def)
    then show ?thesis
      using Inr True id by (auto simp: buildProjectHostInfoAndConfig_def run_target_def split: if_splits)
  next
    case False
    then have "project_host_choice d proj target = Inl (NewError (''project '' @ Quote proj @ '' is mapped to '' @ Quote h @
        '' server while requesting a deployment on '' @ target))"
      using assms(2,3) by (simp add: project_host_choice_def)
    then show ?thesis using Inr False assms(2) by (simp add: buildProjectHostInfoAndConfig_def identifyProjectHost_def)
  qed
next
  case (Inl e)
  then show ?thesis using assms(2) by (simp add: buildProjectHostInfoAndConfig_def)
qed

section \<open>The primary container after a rename\<close>

definition live_row :: "containerInfo \<Rightarrow> bool" where
  "live_row c = (\<not> (c_State c = FContainerStatus KContainerStatusDeleted \<or> c_ExpectedState c = FContainerStatus KContainerStatusDeleted))"

lemma new_row_appended:
  "find (\<lambda>c. TrimSpace (c_Name c) = c_Name u) cs = None \<Longrightarrow> replace_or_append u cs = cs @ [u]"
  by (induction cs) (auto split: if_splits)

lemma new_row_names:
  assumes "UpsertProjectContainer proj c d = Inr d'" "container_row d proj (ct_Name c) = None"
  shows "\<exists>ns. ProjectContainersName d' proj = ProjectContainersName d proj @ ns"
proof -
  let ?f = "\<lambda>p. p\<lparr>p_Containers := replace_or_append (toContainerInfo c) (p_Containers p)\<rparr>"
  from assms(1) have up: "update_project ?f proj d = Inr d'" by (simp add: UpsertProjectContainer_def)
  then obtain p where p: "find_project proj (d_Projects d) = Some p"
    by (cases "find_project proj (d_Projects d)") (simp_all add: update_project_def getProject_def)
  have "find (\<lambda>x. TrimSpace (c_Name x) = c_Name (toContainerInfo c)) (p_Containers p) = None"
    using assms(2) p by (simp add: container_row_def toContainerInfo_def)
  from new_row_appended [OF this] have "find_project proj (d_Projects d') = Some (p\<lparr>p_Containers := p_Containers p @ [toContainerInfo c]\<rparr>)"
    using update_project_find [OF up, of proj] p by simp
  then show ?thesis using p by (simp add: ProjectContainersName_def get_project_def getProject_def ok_or_def)
qed

text \<open>
  A rename adds the new name and keeps the old one: after it has succeeded the primary
  container of the project, the one every other command talks to, is still the old name,
  which the agent no longer has.
\<close>

theorem rename_keeps_old_primary:
  assumes "syncProjectContainersFromAgent env services proj (ProjectContainersName (cs_data st) proj) False st = (None, st1)"
    and "projectPrimaryContainer (cs_data st1) proj = Ok (old, user)"
    and "rename_with env proj newName services st = (None, st')"
    and "\<forall>a c a'. as_Get services newName a = (Ok c, a') \<longrightarrow> pb_Name c = newName"
    and "container_row (cs_data st1) proj newName = None"
  shows "projectPrimaryContainer (cs_data st') proj = Ok (old, user)"
proof (cases "old = newName")
  case True
  then show ?thesis using assms(1-3) by (simp add: rename_with_def)
next
  case False
  obtain e st2 where r: "on_agent (as_Rename services old newName) st1 = (e, st2)" by (metis surj_pair)
  then have set: "setProjectContainerFromAgentCurrentStatus env services proj newName user st2 = (None, st')" and data: "cs_data st2 = cs_data st1"
    using assms(1-3) False on_agent_frame [OF r] by (auto simp: rename_with_def split: option.splits prod.splits)
  obtain g st3 where get: "on_agent (as_Get services newName) st2 = (g, st3)" by (metis surj_pair)
  obtain c where c: "g = Ok c" and store: "store_container env proj (protoContainerToBO c user) False st3 = (None, st')"
    using set get by (cases g) (auto simp: setProjectContainerFromAgentCurrentStatus_def)
  have name: "ct_Name (protoContainerToBO c user) = newName"
    using assms(4) get c by (auto simp: on_agent_def protoContainerToBO_def Let_def split: prod.splits)
  obtain e4 st4 where u: "on_data (UpsertProjectContainer proj (protoContainerToBO c user)) st3 = (e4, st4)" by (metis surj_pair)
  then have e4: "e4 = None" and ssh: "upsert_container_ssh env proj (protoContainerToBO c user) False st4 = (None, st')"
    using store by (auto simp: store_container_def split: option.splits)
  have d3: "cs_data st3 = cs_data st1" using on_agent_frame [OF get] data by simp
  have up: "UpsertProjectContainer proj (protoContainerToBO c user) (cs_data st1) = Inr (cs_data st4)"
    using on_data_ok u e4 d3 by fastforce
  have d': "cs_data st' = cs_data st4" using upsert_ssh_frame [OF ssh] by simp
  obtain ns where ns: "ProjectContainersName (cs_data st4) proj = ProjectContainersName (cs_data st1) proj @ ns"
    using new_row_names [OF up] assms(5) name by auto
  obtain names where old: "ProjectContainersName (cs_data st1) proj = old # names" "ProjectContainerRemoteUser (cs_data st1) proj old = user" "user \<noteq> []"
    using assms(2) by (auto simp: projectPrimaryContainer_def Let_def split: list.splits if_splits)
  have "TrimSpace old \<noteq> TrimSpace newName"
  proof
    assume "TrimSpace old = TrimSpace newName"
    then have "container_row (cs_data st1) proj old = None" using assms(5) by (simp add: container_row_def cong: option.case_cong)
    then show False using old(2,3) by (simp add: read_container_row)
  qed
  then have "ProjectContainerRemoteUser (cs_data st4) proj old = user"
    using upsert_row [OF up, of proj old] name old(2) by (simp add: read_container_row)
  then show ?thesis using ns old by (simp add: projectPrimaryContainer_def d' Let_def)
qed

section \<open>Configuration directories\<close>

definition config_dirs :: "prj \<Rightarrow> string \<times> string" where
  "config_dirs p = (p_ConfDir p, f_LocalConfDir (p_Flavour p))"

lemma confInUse_dirs: "confInUse d q \<longleftrightarrow> (\<exists>x \<in> set (map config_dirs (d_Projects d)). fst x = q \<or> snd x = q)"
proof -
  have "slices_Compact xs = [] \<longleftrightarrow> xs = []" for xs :: "string list"
    by (induction xs rule: slices_Compact.induct) auto
  then show ?thesis by (auto simp: confInUse_def GetProjectsUsingConfigDir_def config_dirs_def)
qed

lemma tag_keeps_dirs: "init_handleImageTag i d = (None, d') \<Longrightarrow> map config_dirs (d_Projects d') = map config_dirs (d_Projects d)"
  by (auto simp: init_handleImageTag_def or_keep_def SetOverrideImageTag_def project_setter_def update_project_def bind_ok_def wrap_error_def
      config_dirs_def update_first_map simp del: map_eq_conv split: if_splits sum.splits)

text \<open>
  \<open>init --conf-dir\<close> checks the directory that is given and registers the
  \<open>.devcontainer\<close> directory in it, so the check never sees an earlier registration of the
  same directory: a directory that was free before an \<open>init\<close> is still free after it.
\<close>

theorem init_never_sees_its_own_directory:
  assumes "init_runE i d = (None, d')" "pi_confDir i = dir" "dir \<noteq> []" "path_Join [dir, KCdsProjectDefaultDir] \<noteq> dir"
  shows "confInUse d' (path_Join [dir, KCdsProjectDefaultDir]) \<and> confInUse d' dir = confInUse d dir"
proof -
  let ?row = "zero_project\<lparr>p_Name := normalizeProjectName (pi_projectName i), p_ConfDir := path_Join [dir, KCdsProjectDefaultDir]\<rparr>"
  obtain d1 where reg: "init_register i d = Inr d1" using assms(1) by (auto simp: init_runE_def split: sum.splits)
  then have d1: "d_Projects d1 = d_Projects d @ [?row]"
    using assms(2,3) by (auto simp: init_register_def Let_def AddProjectUsingConfDir_def add_project_row_def split: if_splits sum.splits)
  have "\<exists>d2. d_Projects d2 = d_Projects d1 \<and> init_handleImageTag i d2 = (None, d')"
  proof (cases "GetCurrentProject d1 = []")
    case True
    then obtain d2 where "SetProject (pi_projectName i) d1 = Inr d2" "init_handleImageTag i d2 = (None, d')"
      using assms(1) reg by (auto simp: init_runE_def wrap_error_def split: sum.splits)
    then show ?thesis by (intro exI [of _ d2]) (auto simp: SetProject_def bind_ok_Inr)
  next
    case False
    then show ?thesis using assms(1) reg by (intro exI [of _ d1]) (simp add: init_runE_def)
  qed
  then obtain d2 where d2: "d_Projects d2 = d_Projects d1" and tag: "init_handleImageTag i d2 = (None, d')" by blast
  then show ?thesis
    using assms(3,4) d1 tag_keeps_dirs [OF tag] unfolding confInUse_dirs
    by (auto simp: config_dirs_def zero_project_def zero_flavourInfo_def)
qed

section \<open>Examples\<close>

definition sample_link :: "pb_Container list agent_link" where
  "sample_link = \<lparr>al_StartAgent = \<lambda>h st. (StartOnRun, st), al_Connect = \<lambda>h st. (Ok sample_services, st)\<rparr>"

text \<open>Two projects, the second of them current.\<close>

definition sample_two :: "pb_Container list client_state" where
  "sample_two = \<lparr>cs_data = (db_step (OpAddProjectUsingConfDir ''api'' ''/a'') sample_db)\<lparr>d_ProjectContext := ''api''\<rparr>,
     cs_ssh = None, cs_agent = []\<rparr>"

text \<open>Deleting the project that is not current.\<close>

theorem delete_removes_one_project_witness:
  "\<exists>st. delete_execute sample_command_env sample_link False False [''web''] sample_two = (None, st) \<and>
     ListProjects (cs_data st) = [''api''] \<and> GetCurrentProject (cs_data sample_two) = ''api'' \<and> GetCurrentProject (cs_data st) = []"
proof -
  have "ProjectContainersName (cs_data sample_two) ''web'' = []" and row: "fst (delete_row ''web'' sample_two) = None"
    and first: "ListProjects (cs_data (snd (delete_row ''web'' sample_two))) = [''api'']"
    and cur: "GetCurrentProject (cs_data sample_two) = ''api''" by code_simp+
  then have "projectClearMain sample_command_env sample_link ''web'' sample_two = (None, sample_two)" by (simp add: projectClearMain_def)
  moreover obtain st1 where "delete_row ''web'' sample_two = (None, st1)" using row by (metis prod.collapse)
  ultimately have "getDeletor sample_command_env sample_link False False ''web'' sample_two = (None, st1)" "ListProjects (cs_data st1) = [''api'']"
    using first by (simp_all add: getDeletor_def deleteProjectFromConfig_def)
  then obtain st where run: "delete_execute sample_command_env sample_link False False [''web''] sample_two = (None, st)"
    using cur by (simp add: delete_execute_def getProjectNameFromArgsOrContext_def Let_def)
  have "start_keeps_projects sample_link" by (simp add: start_keeps_projects_def sample_link_def)
  moreover have "other_projects ''web'' (ListProjects (cs_data sample_two)) = [''api'']" by code_simp
  ultimately show ?thesis using delete_removes_one_project [OF _ run] run cur by auto
qed

definition sample_run :: projectRun where
  "sample_run = \<lparr>pr_targetServer = [], pr_path = [], pr_srcRepo = [], pr_setSshTunnel = False, pr_overrideImageTag = [],
     pr_pullLatest = False, pr_pullGiven = False\<rparr>"

text \<open>The project runs on \<open>box\<close>, and \<open>lab\<close> is the default host.\<close>

definition sample_hosts :: data where
  "sample_hosts = SetHostToDefault ''lab'' (AddHost ''lab'' [] (db_step (OpSetProjectHost ''web'' ''box'') sample_db))"

theorem run_keeps_project_host_witness:
  "fst (buildProjectHostInfoAndConfig (ce_url sample_command_env) sample_run ''web'' sample_hosts) \<noteq> None \<and>
   ProjectHostName (snd (buildProjectHostInfoAndConfig (ce_url sample_command_env) sample_run ''web'' sample_hosts)) ''web'' = ''box''"
proof -
  have "projects_ok (d_Projects sample_hosts)" "ProjectHostName sample_hosts ''web'' = ''box''" "GetDefaultHostName sample_hosts = ''lab''"
    by code_simp+
  then show ?thesis using run_keeps_project_host [of sample_hosts "''web''" "''box''" "ce_url sample_command_env" sample_run]
    by (simp add: sample_run_def)
qed

text \<open>The agent knows the renamed container only; the store knows the old name.\<close>

definition sample_renamed :: "pb_Container list client_state" where
  "sample_renamed = sample_client\<lparr>cs_agent := [sample_pb\<lparr>pb_Name := ''new''\<rparr>],
     cs_data := ok_or sample_db (UpsertProjectContainer ''web'' (zero_Container\<lparr>ct_Name := ''old'', ct_RemoteUser := ''me''\<rparr>) sample_db)\<rparr>"

theorem rename_keeps_old_primary_witness:
  "\<exists>st. rename_with sample_command_env ''web'' ''new'' sample_services sample_renamed = (None, st) \<and>
     projectPrimaryContainer (cs_data st) ''web'' = Ok (''old'', ''me'')"
proof -
  have names: "ProjectContainersName (cs_data sample_renamed) ''web'' = [''old'']" "uniqueContainerNames [''old''] = [''old'']"
    and primary: "projectPrimaryContainer (cs_data sample_renamed) ''web'' = Ok (''old'', ''me'')"
    and free: "container_row (cs_data sample_renamed) ''web'' ''new'' = None" by code_simp+
  have list: "on_agent (as_List sample_services) sample_renamed = (Ok [sample_pb\<lparr>pb_Name := ''new''\<rparr>], sample_renamed)"
    and rename: "on_agent (as_Rename sample_services ''old'' ''new'') sample_renamed = (None, sample_renamed)"
    by (simp_all add: on_agent_def sample_services_def sample_renamed_def)
  have "containers_by_name [sample_pb\<lparr>pb_Name := ''new''\<rparr>] ''old'' = None" by (simp add: by_name_None)
  then have sync: "syncProjectContainersFromAgent sample_command_env sample_services ''web''
      (ProjectContainersName (cs_data sample_renamed) ''web'') False sample_renamed = (None, sample_renamed)"
    by (simp add: names syncProjectContainersFromAgent_def syncProjectContainersFromAgentWithExpected_def listAgentContainersByName_def list
        remove_absent_def)
  have "fst (setProjectContainerFromAgentCurrentStatus sample_command_env sample_services ''web'' ''new'' ''me'' sample_renamed) = None" by code_simp
  then obtain st where "setProjectContainerFromAgentCurrentStatus sample_command_env sample_services ''web'' ''new'' ''me'' sample_renamed = (None, st)"
    by (metis prod.collapse)
  then have run: "rename_with sample_command_env ''web'' ''new'' sample_services sample_renamed = (None, st)"
    by (simp add: rename_with_def sync primary rename)
  have "\<forall>a c a'. as_Get sample_services ''new'' a = (Ok c, a') \<longrightarrow> pb_Name c = ''new''"
    by (auto simp: sample_services_def split: option.splits dest: find_Some_set)
  from rename_keeps_old_primary [OF sync primary run this free] run show ?thesis by blast
qed

definition sample_init :: projectInit where
  "sample_init = \<lparr>pi_confDir = ''/p'', pi_projectName = ''api'', pi_flavour = [], pi_overrideDir = [], pi_pullLatest = True,
     pi_overrideImageTag = [], pi_nonInteractive = False\<rparr>"

theorem init_never_sees_its_own_directory_witness:
  "\<not> confInUse (snd (init_runE sample_init sample_db)) ''/p'' \<and> confInUse (snd (init_runE sample_init sample_db)) ''/p/.devcontainer''"
proof -
  have ok: "fst (init_runE sample_init sample_db) = None" "\<not> confInUse sample_db ''/p''"
    and join: "path_Join [''/p'', KCdsProjectDefaultDir] = ''/p/.devcontainer''" by code_simp+
  obtain d' where run: "init_runE sample_init sample_db = (None, d')" using ok(1) by (metis prod.collapse)
  have "pi_confDir sample_init = ''/p''" by (simp add: sample_init_def)
  from init_never_sees_its_own_directory [OF run this] show ?thesis using ok(2) run join by simp
qed

end
