(* ===== verification/AgentBinary.thy ===== *)
theory AgentBinary
  imports Db Format
begin

text \<open>
  Finding the program of an agent and stopping the one that was started
  (\<open>internal/bootstrap/bin.go\<close>, \<open>agent_stop.go\<close>, and the resolution of the command in
  \<open>local_agent.go\<close>).

  The operating system is the record \<open>os_lib\<close>, on a world \<open>'w\<close>: environment, search path,
  file information, processes.
\<close>

section \<open>The operating system\<close>

text \<open>\<open>oe_missing\<close>: the error is \<open>exec.ErrNotFound\<close>, or satisfies \<open>os.IsNotExist\<close>.\<close>

record os_error =
  oe_err :: err
  oe_missing :: bool

record file_info =
  fi_IsDir :: bool
  fi_Executable :: bool

record 'w os_lib =
  os_windows :: bool
  os_Getenv :: "string \<Rightarrow> string"
  os_Executable :: "string result"
  os_Getwd :: "string result"
  os_LookPath :: "string \<Rightarrow> 'w \<Rightarrow> os_error + string"
  os_Stat :: "string \<Rightarrow> 'w \<Rightarrow> os_error + file_info"
  os_ReadFile :: "string \<Rightarrow> 'w \<Rightarrow> string result"
  os_ProcessName :: "int \<Rightarrow> 'w \<Rightarrow> string result"
  os_Signal :: "int \<Rightarrow> 'w \<Rightarrow> err option \<times> 'w"

section \<open>The parent of a path\<close>

definition up_to_slash :: "string \<Rightarrow> string" where
  "up_to_slash p = trim_right (\<lambda>c. c \<noteq> CHR ''/'') p"

definition path_Dir :: "string \<Rightarrow> string" where
  "path_Dir p = path_Clean (up_to_slash p)"

text \<open>Cleaning does not make a path longer: a weight of one for each segment beside its length.\<close>

definition seg_weight :: "string list \<Rightarrow> nat" where
  "seg_weight segs = (\<Sum>s \<leftarrow> segs. if s = [] then 0 else Suc (length s))"

lemma seg_weight_simps [simp]:
  "seg_weight [] = 0" "seg_weight (s # ss) = (if s = [] then 0 else Suc (length s)) + seg_weight ss"
  "seg_weight (xs @ ys) = seg_weight xs + seg_weight ys" "seg_weight (rev xs) = seg_weight xs"
  by (simp_all add: seg_weight_def sum_list_rev flip: rev_map)

lemma clean_step_weight: "seg_weight (clean_step r st s) \<le> seg_weight st + seg_weight [s]"
  by (cases st) (simp_all add: clean_step_def)

lemma clean_fold_weight: "seg_weight (foldl (clean_step r) st segs) \<le> seg_weight st + seg_weight segs"
proof (induction segs arbitrary: st)
  case (Cons s segs)
  show ?case using Cons [of "clean_step r st s"] clean_step_weight [of r st s] by simp
qed simp

lemma clean_segs_weight: "seg_weight (clean_segs r segs) \<le> seg_weight segs"
  using clean_fold_weight [of r "[]" segs] by (simp add: clean_segs_def)

lemma split_total: "(\<Sum>w \<leftarrow> split_on c s. Suc (length w)) = Suc (length s)"
  by (induction c s rule: split_on.induct) (auto split: list.splits)

lemma split_weight: "seg_weight (split_on c s) \<le> Suc (length s)"
proof -
  have "seg_weight ws \<le> (\<Sum>w \<leftarrow> ws. Suc (length w))" for ws by (induction ws) auto
  from this [of "split_on c s"] show ?thesis by (simp add: split_total)
qed

lemma split_slash: "split_on c (s @ [c]) = split_on c s @ [[]]"
  by (induction c s rule: split_on.induct) (auto split: list.splits)

lemma Join_weight: "[] \<notin> set segs \<Longrightarrow> segs \<noteq> [] \<Longrightarrow> Suc (length (Join segs ''/'')) = seg_weight segs"
proof (induction segs)
  case (Cons s ss)
  show ?case
  proof (cases "ss = []")
    case False
    then show ?thesis using Cons.IH Cons.prems(1) by (cases s) (simp_all add: Join_Cons)
  qed (use Cons.prems in simp)
qed simp

lemma path_segs_ne: "[] \<notin> set (path_segs p)"
proof -
  obtain k ns where "path_segs p = replicate k ''..'' @ ns" "\<forall>s \<in> set ns. normal_seg s"
    using path_segs_shape [of p] by blast
  then show ?thesis by (auto dest: normal_segD)
qed

text \<open>Cleaning a path that ends in a slash makes it shorter, except the root.\<close>

lemma clean_shorter:
  assumes "r \<noteq> []"
  shows "length (path_Clean (r @ ''/'')) \<le> length r"
proof -
  let ?q = "r @ ''/''" and ?segs = "path_segs (r @ ''/'')"
  have root: "rooted ?q = rooted r" using assms by (cases r) (auto simp: rooted_def)
  have "seg_weight ?segs \<le> seg_weight (split_on (CHR ''/'') r)"
    using clean_segs_weight [of "rooted ?q" "split_on (CHR ''/'') ?q"] by (simp add: path_segs_def split_slash)
  moreover have "seg_weight (split_on (CHR ''/'') r) \<le> (if rooted r then length r else Suc (length r))"
    using split_weight [of "CHR ''/''" r] split_weight [of "CHR ''/''" "tl r"] assms by (cases r) (auto simp: rooted_def)
  ultimately have w: "seg_weight ?segs \<le> (if rooted r then length r else Suc (length r))" by simp
  have eq: "path_Clean ?q = of_segs (rooted r) ?segs" by (simp add: path_Clean_def path_segs_def root)
  show ?thesis
  proof (cases "?segs = []")
    case True
    then show ?thesis using assms unfolding eq by (cases r) (simp_all add: of_segs_def)
  next
    case False
    then show ?thesis using Join_weight [OF path_segs_ne False] w unfolding eq by (simp add: of_segs_def split: if_splits)
  qed
qed

lemma up_to_slash_shape: "up_to_slash p = [] \<or> (\<exists>r t. up_to_slash p = r @ ''/'' \<and> p = r @ ''/'' @ t)"
proof -
  let ?P = "\<lambda>c. c \<noteq> CHR ''/''"
  have p: "p = rev (dropWhile ?P (rev p)) @ rev (takeWhile ?P (rev p))"
    by (metis rev_append rev_rev_ident takeWhile_dropWhile_id)
  show ?thesis
  proof (cases "dropWhile ?P (rev p)")
    case Nil then show ?thesis by (simp add: up_to_slash_def trim_right_def)
  next
    case (Cons c cs)
    then have "c = CHR ''/''" using hd_dropWhile [of ?P "rev p"] by simp
    then have "up_to_slash p = rev cs @ ''/''" "p = rev cs @ ''/'' @ rev (takeWhile ?P (rev p))"
      using p by (simp_all add: up_to_slash_def trim_right_def Cons)
    then show ?thesis by blast
  qed
qed

lemma path_Dir_cases: "path_Dir p = ''.'' \<or> path_Dir p = ''/'' \<and> HasPrefix p ''/'' \<or> length (path_Dir p) < length p"
  using up_to_slash_shape [of p]
proof (elim disjE exE conjE)
  assume "up_to_slash p = []"
  then show ?thesis by (simp add: path_Dir_def path_Clean_def of_segs_def clean_segs_def clean_step_def rooted_def)
next
  fix r t assume r: "up_to_slash p = r @ ''/''" "p = r @ ''/'' @ t"
  show ?thesis
  proof (cases "r = []")
    case True
    then show ?thesis using r by (simp add: path_Dir_def path_Clean_def of_segs_def clean_segs_def clean_step_def rooted_def)
  next
    case False
    then show ?thesis using clean_shorter [OF False] r by (simp add: path_Dir_def)
  qed
qed

text \<open>The measure of the walk to the root: \<open>.\<close> is below every other path of its length.\<close>

definition dir_measure :: "string \<Rightarrow> nat" where
  "dir_measure p = (if p = [] then 4 else if p = ''.'' then 1 else if p = ''/'' then 2 else length p + 2)"

lemma path_Dir_ne: "path_Dir p \<noteq> []"
proof -
  have "Join (w # ws) ''/'' \<noteq> []" if "w \<noteq> []" for w ws using Join_ne [of "w # ws"] that by simp
  then show ?thesis using path_segs_ne [of "up_to_slash p"]
    by (cases "path_segs (up_to_slash p)") (auto simp: path_Dir_def path_Clean_def of_segs_def path_segs_def)
qed

lemma path_Dir_decreases:
  assumes "path_Dir p \<noteq> p"
  shows "dir_measure (path_Dir p) < dir_measure p"
  using path_Dir_cases [of p]
proof (elim disjE conjE)
  assume "path_Dir p = ''.''"
  then show ?thesis using assms by (simp add: dir_measure_def)
next
  assume "path_Dir p = ''/''" "HasPrefix p ''/''"
  then show ?thesis using assms by (cases p) (auto simp: dir_measure_def)
next
  assume "length (path_Dir p) < length p"
  then show ?thesis using path_Dir_ne [of p] by (auto simp: dir_measure_def)
qed

section \<open>Programs\<close>

definition isExecutableFile :: "'w os_lib \<Rightarrow> string \<Rightarrow> 'w \<Rightarrow> bool" where
  "isExecutableFile os p w =
     (case os_Stat os p w of
        Inl _ \<Rightarrow> False
      | Inr info \<Rightarrow> \<not> fi_IsDir info \<and> (os_windows os \<or> fi_Executable info))"

definition isFile :: "'w os_lib \<Rightarrow> string \<Rightarrow> 'w \<Rightarrow> bool" where
  "isFile os p w = (case os_Stat os p w of Inl _ \<Rightarrow> False | Inr info \<Rightarrow> \<not> fi_IsDir info)"

definition validateExecutableFile :: "'w os_lib \<Rightarrow> string \<Rightarrow> 'w \<Rightarrow> string result" where
  "validateExecutableFile os p w =
     (case os_Stat os p w of
        Inl e \<Rightarrow> Inl (oe_err e)
      | Inr info \<Rightarrow>
          if fi_IsDir info then Fail (p @ '' is a directory'')
          else if \<not> os_windows os \<and> \<not> fi_Executable info then Fail (p @ '' is not executable'')
          else Ok p)"

datatype binary = cfsslbin string | cfssljsonbin string | cdsagentbin string

fun binary_name :: "binary \<Rightarrow> string" where
  "binary_name (cfsslbin n) = n"
| "binary_name (cfssljsonbin n) = n"
| "binary_name (cdsagentbin n) = n"

text \<open>The walks to the root of the file system.\<close>

function repo_from :: "(string \<Rightarrow> bool) \<Rightarrow> string \<Rightarrow> string option" where
  "repo_from P dir =
     (if P dir then Some dir
      else if path_Dir dir = dir then None
      else repo_from P (path_Dir dir))"
  by auto
termination by (relation "measure (\<lambda>(P, dir). dir_measure dir)") (auto intro: path_Dir_decreases)

declare repo_from.simps [simp del]

definition is_repo :: "'w os_lib \<Rightarrow> 'w \<Rightarrow> string \<Rightarrow> bool" where
  "is_repo os w dir =
     (isFile os (path_Join [dir, ''go.mod'']) w \<and>
      isFile os (path_Join [dir, ''cmd'', ''api-agent'', ''cds-api-agent.go'']) w)"

definition findCDSRepo :: "'w os_lib \<Rightarrow> string \<Rightarrow> 'w \<Rightarrow> string option" where
  "findCDSRepo os start w = repo_from (is_repo os w) (path_Clean start)"

definition isCDSGoModule :: "'w os_lib \<Rightarrow> string \<Rightarrow> 'w \<Rightarrow> bool" where
  "isCDSGoModule os goModPath w =
     (case os_ReadFile os goModPath w of
        Inl _ \<Rightarrow> False | Inr content \<Rightarrow> Contains content ''module github.com/amadeusitgroup/cds'')"

definition findCDSRepositoryRoot :: "'w os_lib \<Rightarrow> string \<Rightarrow> 'w \<Rightarrow> string" where
  "findCDSRepositoryRoot os startDir w =
     (if startDir = [] then []
      else case repo_from (\<lambda>dir. isCDSGoModule os (path_Join [dir, ''go.mod'']) w) startDir of
        None \<Rightarrow> [] | Some dir \<Rightarrow> dir)"

fun unique_paths_from :: "string set \<Rightarrow> string list \<Rightarrow> string list" where
  "unique_paths_from seen [] = []"
| "unique_paths_from seen (p # rest) =
     (if p \<in> seen then unique_paths_from seen rest else p # unique_paths_from (insert p seen) rest)"

definition uniquePaths :: "string list \<Rightarrow> string list" where
  "uniquePaths paths = unique_paths_from {} paths"

definition kAPIAgentBinaryName :: string where "kAPIAgentBinaryName = ''cds-api-agent''"
definition kAPIAgentPathEnvVar :: string where "kAPIAgentPathEnvVar = ''CDS_API_AGENT_PATH''"
definition agentBinaryEnv :: string where "agentBinaryEnv = ''CDS_API_AGENT_BIN''"

definition localAgentBinaryCandidates :: "'w os_lib \<Rightarrow> 'w \<Rightarrow> string list" where
  "localAgentBinaryCandidates os w =
     (let first = (case os_Executable os of
                     Inl _ \<Rightarrow> [] | Inr executable \<Rightarrow> [path_Join [path_Dir executable, kAPIAgentBinaryName]])
      in case os_Getwd os of
           Inl _ \<Rightarrow> first
         | Inr workingDir \<Rightarrow>
             (let root = findCDSRepositoryRoot os workingDir w
              in uniquePaths (first @ [path_Join [workingDir, kAPIAgentBinaryName]] @
                   (if root \<noteq> [] then [path_Join [root, kAPIAgentBinaryName]] else []))))"

fun first_executable :: "'w os_lib \<Rightarrow> string list \<Rightarrow> 'w \<Rightarrow> string option" where
  "first_executable os [] w = None"
| "first_executable os (candidate # rest) w =
     (case validateExecutableFile os candidate w of Inr p \<Rightarrow> Some p | Inl _ \<Rightarrow> first_executable os rest w)"

definition invalid_value :: "string \<Rightarrow> string" where
  "invalid_value v = ''invalid '' @ kAPIAgentPathEnvVar @ '' value '' @ Quote v"

definition resolveAgentBinaryPath :: "'w os_lib \<Rightarrow> 'w \<Rightarrow> string result" where
  "resolveAgentBinaryPath os w =
     (let override = TrimSpace (os_Getenv os kAPIAgentPathEnvVar) in
      if override \<noteq> [] then wrap_error (invalid_value override) (validateExecutableFile os override w)
      else case os_LookPath os kAPIAgentBinaryName w of
        Inr p \<Rightarrow> Ok p
      | Inl e \<Rightarrow>
          if \<not> oe_missing e then Inl (AppendError (''failed to resolve '' @ kAPIAgentBinaryName @ '' from PATH'') (oe_err e))
          else case first_executable os (localAgentBinaryCandidates os w) w of
            Some p \<Rightarrow> Ok p
          | None \<Rightarrow> Fail (kAPIAgentBinaryName @ '' binary not found. Run `make build-api-agent-fast`, set '' @
              kAPIAgentPathEnvVar @ '', or put '' @ kAPIAgentBinaryName @ '' on PATH''))"

text \<open>\<open>install\<close> of the two certificate tools only warns.\<close>

fun binary_install :: "'w os_lib \<Rightarrow> binary \<Rightarrow> 'w \<Rightarrow> err option" where
  "binary_install os (cfsslbin _) w = None"
| "binary_install os (cfssljsonbin _) w = None"
| "binary_install os (cdsagentbin _) w = (case resolveAgentBinaryPath os w of Inl e \<Rightarrow> Some e | Inr _ \<Rightarrow> None)"

definition ensureBinary :: "'w os_lib \<Rightarrow> binary \<Rightarrow> 'w \<Rightarrow> err option" where
  "ensureBinary os bin w =
     (case os_LookPath os (binary_name bin) w of
        Inr _ \<Rightarrow> None
      | Inl e \<Rightarrow>
          if oe_missing e then binary_install os bin w
          else Some (NewError (''Neither found nor managed to install '' @ binary_name bin @ '' binary'')))"

definition localAgentRequiredBinaries :: "binary list" where
  "localAgentRequiredBinaries = [cfsslbin ''cfssl'', cfssljsonbin ''cfssljson'']"

text \<open>The loop that \<open>fireLocalAgent\<close> and \<open>ensureRuntimeCerts\<close> share.\<close>

fun ensure_binaries :: "'w os_lib \<Rightarrow> binary list \<Rightarrow> 'w \<Rightarrow> err option" where
  "ensure_binaries os [] w = None"
| "ensure_binaries os (bin # bins) w =
     (case ensureBinary os bin w of
        Some e \<Rightarrow> Some (AppendError (''Failed to install binary '' @ binary_name bin) e)
      | None \<Rightarrow> ensure_binaries os bins w)"

section \<open>The command that starts a local agent\<close>

record agentCommand =
  cmd_name :: string
  cmd_args :: "string list"
  cmd_dir :: string

definition withPort :: "agentCommand \<Rightarrow> string \<Rightarrow> agentCommand" where
  "withPort c port = c\<lparr>cmd_args := cmd_args c @ [''-port'', port]\<rparr>"

definition plain_command :: "string \<Rightarrow> agentCommand" where
  "plain_command n = \<lparr>cmd_name = n, cmd_args = [], cmd_dir = []\<rparr>"

text \<open>A file beside the executable or in the working directory, with \<open>.exe\<close> on Windows.\<close>

definition agent_beside :: "'w os_lib \<Rightarrow> string \<Rightarrow> 'w \<Rightarrow> agentCommand option" where
  "agent_beside os dir w =
     (let candidate = path_Join [dir, kAPIAgentBinaryName] in
      if isExecutableFile os candidate w then Some (plain_command candidate)
      else if os_windows os \<and> isExecutableFile os (candidate @ ''.exe'') w
      then Some (plain_command (candidate @ ''.exe''))
      else None)"

definition agent_from_source :: "'w os_lib \<Rightarrow> string \<Rightarrow> 'w \<Rightarrow> agentCommand option" where
  "agent_from_source os cwd w =
     (case findCDSRepo os cwd w of
        None \<Rightarrow> None
      | Some repoDir \<Rightarrow>
          (case os_LookPath os ''go'' w of
             Inl _ \<Rightarrow> None
           | Inr goBinary \<Rightarrow>
               Some \<lparr>cmd_name = goBinary, cmd_args = [''run'', ''./cmd/api-agent/cds-api-agent.go''], cmd_dir = repoDir\<rparr>))"

fun or_else :: "'a option \<Rightarrow> 'a option \<Rightarrow> 'a option" where
  "or_else (Some x) y = Some x"
| "or_else None y = y"

definition resolveAgentCommand :: "'w os_lib \<Rightarrow> 'w \<Rightarrow> agentCommand result" where
  "resolveAgentCommand os w =
     (let configured = TrimSpace (os_Getenv os agentBinaryEnv) in
      if configured \<noteq> [] then Ok (plain_command configured)
      else case os_LookPath os kAPIAgentBinaryName w of
        Inr p \<Rightarrow> Ok (plain_command p)
      | Inl _ \<Rightarrow>
          (case or_else (case os_Executable os of Inl _ \<Rightarrow> None | Inr exe \<Rightarrow> agent_beside os (path_Dir exe) w)
                 (case os_Getwd os of
                    Inl _ \<Rightarrow> None
                  | Inr cwd \<Rightarrow> or_else (agent_beside os cwd w) (agent_from_source os cwd w)) of
             Some c \<Rightarrow> Ok c
           | None \<Rightarrow> Fail (kAPIAgentBinaryName @ '' not found; build it with `make build-api-agent` or set '' @ agentBinaryEnv)))"

section \<open>Stopping the agent that was started\<close>

definition isProcessManagedAgent :: "AgentOwnership \<Rightarrow> bool" where
  "isProcessManagedAgent ow = (ao_Manager ow = ''process'' \<and> ao_PID ow > 0 \<and> ao_Binary ow \<noteq> [])"

definition matchesOwnedAgentProcess :: "string \<Rightarrow> AgentOwnership \<Rightarrow> bool" where
  "matchesOwnedAgentProcess n ow = (path_Base (TrimSpace n) = path_Base (TrimSpace (ao_Binary ow)))"

definition StopManagedAgent :: "'w os_lib \<Rightarrow> AgentOwnership \<Rightarrow> 'w \<Rightarrow> err option \<times> 'w" where
  "StopManagedAgent os ow w =
     (if \<not> isProcessManagedAgent ow then (None, w)
      else case os_ProcessName os (ao_PID ow) w of
        Inl _ \<Rightarrow> (None, w)
      | Inr n \<Rightarrow>
          if \<not> matchesOwnedAgentProcess n ow then (None, w)
          else case os_Signal os (ao_PID ow) w of
            (Some e, w1) \<Rightarrow> (Some (AppendError (''failed to stop local agent process '' @ Itoa (ao_PID ow)) e), w1)
          | (None, w1) \<Rightarrow> (None, w1))"

definition StopAgent :: "'w os_lib \<Rightarrow> data \<Rightarrow> string \<Rightarrow> 'w \<Rightarrow> err option \<times> 'w" where
  "StopAgent os d hostname w =
     (if hostname \<noteq> ''localhost'' then (None, w)
      else if os_windows os then (None, w)
      else if \<not> isProcessManagedAgent (GetHostAgentOwnership d hostname) then (None, w)
      else StopManagedAgent os (GetHostAgentOwnership d hostname) w)"

end
