(* ===== verification/Bootstrap.thy ===== *)
theory Bootstrap
  imports AgentBinary AgentRegistry ProjectCommands
begin

text \<open>
  Starting and reaching agents (\<open>internal/bootstrap\<close>: \<open>boot.go\<close>, \<open>local_agent.go\<close>,
  \<open>remote_agent.go\<close>), and what the client does with a host (\<open>internal/command\<close>:
  \<open>client_grpc.go\<close>, \<open>space_host_add.go\<close>, \<open>space_host_delete.go\<close>).

  Processes, sockets, the ssh programs and the clock are the record \<open>boot_env\<close>, on the world
  \<open>'w\<close> in which the configuration files are, too. The state of a client is its store and
  the world: \<open>'w client_state\<close>, with the world in the place of the agent's.
\<close>

section \<open>Ports and addresses\<close>

definition localAgentAddress :: string where "localAgentAddress = '':8087''"
definition remoteAgentPort :: string where "remoteAgentPort = ''8087''"

text \<open>The two operations on URLs that \<open>url_lib\<close> does not have are the port, and parsing with its error.\<close>

record 'u url_more =
  url_Port :: "'u \<Rightarrow> string"
  url_ParseError :: "string \<Rightarrow> err"

definition validateAgentPort :: "string \<Rightarrow> string result" where
  "validateAgentPort port =
     (case Atoi port of
        Some v \<Rightarrow> if v < 1 \<or> v > 65535 then Fail (''invalid agent port '' @ Quote port) else Ok port
      | None \<Rightarrow> Fail (''invalid agent port '' @ Quote port))"

definition agentPort :: "'u url_lib \<Rightarrow> 'u url_more \<Rightarrow> string \<Rightarrow> string result" where
  "agentPort lib m address =
     (let normalized = TrimSpace address in
      if normalized = [] \<or> HasPrefix normalized '':'' then
        if HasPrefix normalized '':'' \<and> length normalized > 1
        then validateAgentPort (TrimPrefix normalized '':'') else Ok remoteAgentPort
      else if Contains normalized ''://'' then
        (case url_Parse lib normalized of
           Some u \<Rightarrow> if url_Port m u \<noteq> [] then validateAgentPort (url_Port m u) else Ok remoteAgentPort
         | None \<Rightarrow> Ok remoteAgentPort)
      else case SplitHostPort normalized of
        Inr (_, port) \<Rightarrow> if port \<noteq> [] then validateAgentPort port else Ok remoteAgentPort
      | Inl _ \<Rightarrow> Ok remoteAgentPort)"

definition agentTCPAddress :: "'u url_lib \<Rightarrow> 'u url_more \<Rightarrow> string \<Rightarrow> string result" where
  "agentTCPAddress lib m address =
     (let normalized = TrimSpace address in
      if normalized = [] then Fail ''agent address is required''
      else if HasPrefix normalized '':'' then Ok normalized
      else if Contains normalized ''://'' then
        (case url_Parse lib normalized of
           None \<Rightarrow> Inl (AppendError ''failed to parse agent address'' (url_ParseError m normalized))
         | Some u \<Rightarrow>
             if url_Hostname lib u = [] then Fail ''agent address host is required''
             else bind_ok (agentPort lib m normalized) (\<lambda>port. Ok (JoinHostPort (url_Hostname lib u) port)))
      else case SplitHostPort normalized of
        Inr (host, port) \<Rightarrow>
          bind_ok (validateAgentPort port) (\<lambda>_. Ok (if host = [] then '':'' @ port else JoinHostPort host port))
      | Inl _ \<Rightarrow> Ok (JoinHostPort normalized remoteAgentPort))"

definition isLocalHost :: "'u url_lib \<Rightarrow> string \<Rightarrow> bool" where
  "isLocalHost lib hostName =
     (let normalized = TrimSpace hostName in
      if normalized = [] \<or> normalized = KLocalhost \<or> HasPrefix normalized '':'' then True
      else if Contains normalized ''://'' then
        (case url_Parse lib normalized of None \<Rightarrow> False | Some u \<Rightarrow> url_Hostname lib u = KLocalhost)
      else case SplitHostPort normalized of
        Inr (host, _) \<Rightarrow> host = [] \<or> host = KLocalhost
      | Inl _ \<Rightarrow> False)"

section \<open>The environment\<close>

datatype listen_addr = TCPAddr nat | OtherAddr string

record agentTLSFiles =
  atf_caFile :: string
  atf_certFile :: string
  atf_keyFile :: string

text \<open>
  \<open>bt_Listen\<close> gives the address of a listener that is closed at once; \<open>bt_Start\<close> the process
  id; \<open>bt_Run\<close> is \<open>CombinedOutput\<close> of a program with its arguments, directory and added
  environment. Times are in milliseconds.
\<close>

record ('w, 'u) boot_env =
  bt_os :: "'w os_lib"
  bt_cfg :: "('w, 'u) config_env"
  bt_url :: "'u url_more"
  bt_ConfigDir :: "string \<Rightarrow> string"
  bt_Listen :: "string \<Rightarrow> 'w \<Rightarrow> listen_addr result \<times> 'w"
  bt_ResolveTCPAddr :: "string \<Rightarrow> string result"
  bt_Dial :: "string \<Rightarrow> 'w \<Rightarrow> err option \<times> 'w"
  bt_SetupTLS :: "agentTLSFiles \<Rightarrow> 'w \<Rightarrow> err option"
  bt_NewClient :: "string \<Rightarrow> err option"
  bt_GetVersion :: "string \<Rightarrow> agentTLSFiles \<Rightarrow> 'w \<Rightarrow> string result \<times> 'w"
  bt_Start :: "agentCommand \<Rightarrow> 'w \<Rightarrow> int result \<times> 'w"
  bt_Run :: "string list \<Rightarrow> string \<Rightarrow> string list \<Rightarrow> 'w \<Rightarrow> (string \<times> err option) \<times> 'w"
  bt_MkdirTemp :: "string \<Rightarrow> 'w \<Rightarrow> string result \<times> 'w"
  bt_RemoveAll :: "string \<Rightarrow> 'w \<Rightarrow> 'w"
  bt_BuildCerts :: "'w \<Rightarrow> err option \<times> 'w"
  bt_now :: "'w \<Rightarrow> nat"
  bt_Sleep :: "nat \<Rightarrow> 'w \<Rightarrow> 'w"

definition bt_lib :: "('w, 'u) boot_env \<Rightarrow> 'u url_lib" where "bt_lib env = config_env.ce_url (bt_cfg env)"

text \<open>A fallible step whose value the rest uses.\<close>

definition and_then :: "'a result \<times> 'w \<Rightarrow> ('a \<Rightarrow> 'w \<Rightarrow> 'b result \<times> 'w) \<Rightarrow> 'b result \<times> 'w" where
  "and_then r f = (case r of (Inl e, w) \<Rightarrow> (Inl e, w) | (Inr x, w) \<Rightarrow> f x w)"

definition and_run :: "'a result \<times> 'w \<Rightarrow> ('a \<Rightarrow> 'w \<Rightarrow> err option \<times> 'w) \<Rightarrow> err option \<times> 'w" where
  "and_run r f = (case r of (Inl e, w) \<Rightarrow> (Some e, w) | (Inr x, w) \<Rightarrow> f x w)"

definition wrap_step :: "string \<Rightarrow> err option \<times> 'w \<Rightarrow> err option \<times> 'w" where
  "wrap_step m r = (map_option (AppendError m) (fst r), snd r)"

lemma step_simps [simp]:
  "and_then (Inl e, w) f = (Inl e, w)" "and_then (Inr x, w) f = f x w"
  "and_run (Inl e, w) g = (Some e, w)" "and_run (Inr x, w) g = g x w"
  "wrap_step m (None, w) = (None, w)" "wrap_step m (Some e, w) = (Some (AppendError m e), w)"
  by (simp_all add: and_then_def and_run_def wrap_step_def)

section \<open>Certificates\<close>

definition certFilePath :: "('w, 'u) boot_env \<Rightarrow> string \<Rightarrow> string" where
  "certFilePath env filename = path_Join [bt_ConfigDir env ''certs'', filename]"

definition CAFilePath :: "('w, 'u) boot_env \<Rightarrow> string" where "CAFilePath env = certFilePath env ''ca.pem''"
definition ClientCertFilePath :: "('w, 'u) boot_env \<Rightarrow> string" where "ClientCertFilePath env = certFilePath env ''client.pem''"
definition ClientKeyFilePath :: "('w, 'u) boot_env \<Rightarrow> string" where "ClientKeyFilePath env = certFilePath env ''client-key.pem''"

definition client_secret :: "('w, 'u) boot_env \<Rightarrow> tlssecret" where
  "client_secret env = \<lparr>tls_CA = CAFilePath env, tls_Cert = ClientCertFilePath env, tls_Key = ClientKeyFilePath env\<rparr>"

definition agent_at :: "('w, 'u) boot_env \<Rightarrow> string \<Rightarrow> agent" where
  "agent_at env address = \<lparr>ag_Certs = client_secret env, ag_SshTunnel = False, ag_TargetSrv = address\<rparr>"

definition requiredRuntimeCerts :: "('w, 'u) config_env \<Rightarrow> string list" where
  "requiredRuntimeCerts cfg =
     (let clientCertsDir = ce_ClientConfigDir cfg ''certs''; agentCertsDir = ce_AgentConfigDir cfg ''certs'' in
      [path_Join [clientCertsDir, ''ca.pem''], path_Join [clientCertsDir, ''client.pem''],
       path_Join [clientCertsDir, ''client-key.pem''], path_Join [agentCertsDir, ''ca.pem''],
       path_Join [agentCertsDir, ''agent-srv.pem''], path_Join [agentCertsDir, ''agent-srv-key.pem'']])"

fun ensure_certs :: "('w, 'u) boot_env \<Rightarrow> string list \<Rightarrow> 'w \<Rightarrow> err option \<times> 'w" where
  "ensure_certs env [] w = (None, w)"
| "ensure_certs env (certPath # rest) w =
     (case os_Stat (bt_os env) certPath w of
        Inr _ \<Rightarrow> ensure_certs env rest w
      | Inl e \<Rightarrow>
          if \<not> oe_missing e then (Some (AppendError (''Failed to inspect certificate '' @ certPath) (oe_err e)), w)
          else case ensure_binaries (bt_os env) localAgentRequiredBinaries w of
            Some e2 \<Rightarrow> (Some e2, w)
          | None \<Rightarrow> wrap_step ''Failed to build certs'' (bt_BuildCerts env w))"

definition ensureRuntimeCerts :: "('w, 'u) boot_env \<Rightarrow> 'w \<Rightarrow> err option \<times> 'w" where
  "ensureRuntimeCerts env = ensure_certs env (requiredRuntimeCerts (bt_cfg env))"

definition agentRuntimeCertFiles :: "('w, 'u) config_env \<Rightarrow> string list" where
  "agentRuntimeCertFiles cfg =
     map (\<lambda>n. path_Join [ce_AgentConfigDir cfg ''certs'', n]) [''ca.pem'', ''agent-srv.pem'', ''agent-srv-key.pem'']"

section \<open>Is the agent there\<close>

text \<open>The certificates of the registered row, each with a default. An error of reading the registry is ignored.\<close>

definition agentTLSMaterialForAddress :: "('w, 'u) boot_env \<Rightarrow> string \<Rightarrow> 'w \<Rightarrow> agentTLSFiles \<times> 'w" where
  "agentTLSMaterialForAddress env address w =
     (let pick = \<lambda>own default. if own \<noteq> [] then own else default in
      case RegisteredAgent (bt_cfg env) address w of
        (Inl _, w1) \<Rightarrow>
          (\<lparr>atf_caFile = CAFilePath env, atf_certFile = ClientCertFilePath env, atf_keyFile = ClientKeyFilePath env\<rparr>, w1)
      | (Inr a, w1) \<Rightarrow>
          (\<lparr>atf_caFile = pick (tls_CA (ag_Certs a)) (CAFilePath env),
            atf_certFile = pick (tls_Cert (ag_Certs a)) (ClientCertFilePath env),
            atf_keyFile = pick (tls_Key (ag_Certs a)) (ClientKeyFilePath env)\<rparr>, w1))"

definition verifyAgentHealth :: "('w, 'u) boot_env \<Rightarrow> string \<Rightarrow> 'w \<Rightarrow> err option \<times> 'w" where
  "verifyAgentHealth env address w =
     (case agentTCPAddress (bt_lib env) (bt_url env) address of
        Inl e \<Rightarrow> (Some e, w)
      | Inr tcpAddress \<Rightarrow>
          (let (target, w1) = agentTLSMaterialForAddress env address w in
           case bt_SetupTLS env target w1 of
             Some e \<Rightarrow> (Some (AppendError ''Failed to setup agent TLS verification'' e), w1)
           | None \<Rightarrow>
               (case bt_NewClient env tcpAddress of
                  Some e \<Rightarrow> (Some (AppendError ''Failed to create agent health client'' e), w1)
                | None \<Rightarrow> ignore_value (bt_GetVersion env tcpAddress target) w1)))"

text \<open>The loop of \<open>waitForHealthyAgent\<close>; it is \<open>None\<close> when the loop does not end.\<close>

partial_function (option) poll_until ::
  "('w, 'u) boot_env \<Rightarrow> string \<Rightarrow> nat \<Rightarrow> 'w \<Rightarrow> (err option \<times> 'w) option" where
  "poll_until env address deadline w =
     (case verifyAgentHealth env address w of
        (None, w1) \<Rightarrow> Some (None, w1)
      | (Some lastErr, w1) \<Rightarrow>
          if bt_now env w1 > deadline
          then Some (Some (AppendError (''agent did not pass TLS verification on '' @ address) lastErr), w1)
          else poll_until env address deadline (bt_Sleep env 100 w1))"

definition localAgentStartDeadline :: nat where "localAgentStartDeadline = 30 * 1000"

definition waitForHealthyAgent :: "('w, 'u) boot_env \<Rightarrow> string \<Rightarrow> 'w \<Rightarrow> (err option \<times> 'w) option" where
  "waitForHealthyAgent env address w = poll_until env address (bt_now env w + localAgentStartDeadline) w"

definition isAgentRunning :: "('w, 'u) boot_env \<Rightarrow> string \<Rightarrow> 'w \<Rightarrow> (bool \<times> string) result \<times> 'w" where
  "isAgentRunning env hostName w =
     (case AgentAddressIfRegistered (bt_cfg env) hostName w of
        (Inl e, w1) \<Rightarrow> (Inl (AppendError ''failed to resolve agent address'' e), w1)
      | (Inr (registered, found), w1) \<Rightarrow>
          if \<not> found \<and> \<not> isLocalHost (bt_lib env) hostName then (Ok (False, []), w1)
          else (let address = if found then registered else localAgentAddress in
            case agentTCPAddress (bt_lib env) (bt_url env) address of
              Inl e \<Rightarrow> (Inl e, w1)
            | Inr tcpAddress \<Rightarrow>
                (case bt_Dial env tcpAddress w1 of
                   (Some _, w2) \<Rightarrow> (Ok (False, address), w2)
                 | (None, w2) \<Rightarrow>
                     (case verifyAgentHealth env address w2 of
                        (Some _, w3) \<Rightarrow> (Ok (False, address), w3)
                      | (None, w3) \<Rightarrow> (Ok (True, address), w3)))))"

section \<open>A local agent\<close>

definition nextLocalAgentAddress :: "('w, 'u) boot_env \<Rightarrow> 'w \<Rightarrow> string result \<times> 'w" where
  "nextLocalAgentAddress env w =
     (case bt_Listen env localAgentAddress w of
        (Inr _, w1) \<Rightarrow> (Ok localAgentAddress, w1)
      | (Inl _, w1) \<Rightarrow>
          (case bt_Listen env ''127.0.0.1:0'' w1 of
             (Inl e, w2) \<Rightarrow> (Inl (AppendError ''Failed to allocate local agent port'' e), w2)
           | (Inr (TCPAddr port), w2) \<Rightarrow> (Ok ('':'' @ Itoa (int port)), w2)
           | (Inr (OtherAddr s), w2) \<Rightarrow> (Fail (''unexpected local listener address '' @ s), w2)))"

definition registerLocalAgent :: "('w, 'u) boot_env \<Rightarrow> string \<Rightarrow> 'w \<Rightarrow> err option \<times> 'w" where
  "registerLocalAgent env address w =
     (case bt_ResolveTCPAddr env address of
        Inl e \<Rightarrow> (Some (AppendError ''Failed to parse agent address'' e), w)
      | Inr addr \<Rightarrow>
          wrap_step ''failed to register local agent in CLI config''
            (UpsertAgentForHostInConfig (bt_cfg env) KLocalhost (agent_at env addr) w))"

text \<open>An error of recording the process is ignored.\<close>

definition recordManagedAgentOwnership :: "string \<Rightarrow> string \<Rightarrow> int \<Rightarrow> data \<Rightarrow> data" where
  "recordManagedAgentOwnership address binary pid d =
     (case SetHostAgentOwnership KLocalhost
             \<lparr>ao_PID = pid, ao_Address = address, ao_Binary = binary, ao_Manager = ''process''\<rparr> d of
        Inl _ \<Rightarrow> d | Inr d1 \<Rightarrow> d1)"

text \<open>The steps on the world come first; \<open>None\<close> again is a loop that does not end.\<close>

definition launch_agent :: "('w, 'u) boot_env \<Rightarrow> 'w \<Rightarrow> (agentCommand \<times> string \<times> int) result \<times> 'w" where
  "launch_agent env w =
     (case resolveAgentCommand (bt_os env) w of
        Inl e \<Rightarrow> (Inl e, w)
      | Inr agentCmd \<Rightarrow>
          and_then (nextLocalAgentAddress env w) (\<lambda>address w1.
            case agentPort (bt_lib env) (bt_url env) address of
              Inl e \<Rightarrow> (Inl e, w1)
            | Inr port \<Rightarrow>
                (case bt_Start env (withPort agentCmd port) w1 of
                   (Inl e, w2) \<Rightarrow> (Inl (AppendError ''Failed to start agent'' e), w2)
                 | (Inr pid, w2) \<Rightarrow> (Ok (withPort agentCmd port, address, pid), w2))))"

definition startAgent :: "('w, 'u) boot_env \<Rightarrow> 'w client_state \<Rightarrow> (string result \<times> 'w client_state) option" where
  "startAgent env st =
     (case launch_agent env (cs_agent st) of
        (Inl e, w1) \<Rightarrow> Some (Inl e, st\<lparr>cs_agent := w1\<rparr>)
      | (Inr (agentCmd, address, pid), w1) \<Rightarrow>
          (case waitForHealthyAgent env address w1 of
             None \<Rightarrow> None
           | Some (Some e, w2) \<Rightarrow> Some (Inl e, st\<lparr>cs_agent := w2\<rparr>)
           | Some (None, w2) \<Rightarrow>
               Some (Ok address, st\<lparr>cs_agent := w2,
                 cs_data := recordManagedAgentOwnership address (cmd_name agentCmd) pid (cs_data st)\<rparr>)))"

definition fireLocalAgent :: "('w, 'u) boot_env \<Rightarrow> 'w client_state \<Rightarrow> (err option \<times> 'w client_state) option" where
  "fireLocalAgent env st =
     (case ensure_binaries (bt_os env) localAgentRequiredBinaries (cs_agent st) of
        Some e \<Rightarrow> Some (Some e, st)
      | None \<Rightarrow>
          (case ensureRuntimeCerts env (cs_agent st) of
             (Some e, w1) \<Rightarrow> Some (Some e, st\<lparr>cs_agent := w1\<rparr>)
           | (None, w1) \<Rightarrow>
               (case startAgent env (st\<lparr>cs_agent := w1\<rparr>) of
                  None \<Rightarrow> None
                | Some (Inl e, st2) \<Rightarrow> Some (Some (AppendError ''Failed to start agent'' e), st2)
                | Some (Inr server, st2) \<Rightarrow> Some (on_agent (registerLocalAgent env server) st2))))"

section \<open>A remote agent\<close>

definition remoteAgentBinaryPath :: string where "remoteAgentBinaryPath = ''~/.local/bin/cds-api-agent''"
definition remoteAgentCertDir :: string where "remoteAgentCertDir = ''~/.xcds-agent/certs''"
definition remoteAgentLogPath :: string where "remoteAgentLogPath = ''~/.xcds-agent/agent.log''"

definition commandError :: "string \<Rightarrow> string \<Rightarrow> err \<Rightarrow> err" where
  "commandError message output e =
     (let trimmed = TrimSpace output
      in AppendError (if trimmed \<noteq> [] then message @ '': '' @ trimmed else message) e)"

definition defaultSSHArgs :: "string \<Rightarrow> string list" where
  "defaultSSHArgs hostName = [''-o'', ''BatchMode=yes'', ''-o'', ''ConnectTimeout=10'', hostName]"

definition remoteOutput :: "('w, 'u) boot_env \<Rightarrow> string \<Rightarrow> string \<Rightarrow> 'w \<Rightarrow> string result \<times> 'w" where
  "remoteOutput env hostName command w =
     (case bt_Run env (''ssh'' # defaultSSHArgs hostName @ [command]) [] [] w of
        ((output, Some e), w1) \<Rightarrow> (Inl (commandError ''failed to run remote command'' output e), w1)
      | ((output, None), w1) \<Rightarrow> (Ok (TrimSpace output), w1))"

definition remoteRun :: "('w, 'u) boot_env \<Rightarrow> string \<Rightarrow> string \<Rightarrow> 'w \<Rightarrow> err option \<times> 'w" where
  "remoteRun env hostName command w =
     (case bt_Run env (''ssh'' # defaultSSHArgs hostName @ [command]) [] [] w of
        ((output, Some e), w1) \<Rightarrow> (Some (commandError ''failed to run remote command'' output e), w1)
      | ((output, None), w1) \<Rightarrow> (None, w1))"

definition runSCP :: "('w, 'u) boot_env \<Rightarrow> string list \<Rightarrow> 'w \<Rightarrow> err option \<times> 'w" where
  "runSCP env args w =
     (case bt_Run env ([''scp'', ''-q'', ''-o'', ''BatchMode=yes'', ''-o'', ''ConnectTimeout=10''] @ args) [] [] w of
        ((output, Some e), w1) \<Rightarrow> (Some (commandError ''failed to copy file to remote host'' output e), w1)
      | ((output, None), w1) \<Rightarrow> (None, w1))"

definition remotePath :: "string \<Rightarrow> string \<Rightarrow> string" where
  "remotePath hostName path = hostName @ '':'' @ path"

definition scpToRemote :: "('w, 'u) boot_env \<Rightarrow> string \<Rightarrow> string \<Rightarrow> string \<Rightarrow> 'w \<Rightarrow> err option \<times> 'w" where
  "scpToRemote env hostName source destination = runSCP env [source, remotePath hostName destination]"

definition mapRemoteGOArch :: "string \<Rightarrow> string result" where
  "mapRemoteGOArch machine =
     (let m = ToLower (TrimSpace machine) in
      if m = ''x86_64'' \<or> m = ''amd64'' then Ok ''amd64''
      else if m = ''aarch64'' \<or> m = ''arm64'' then Ok ''arm64''
      else Fail (''unsupported remote CPU architecture '' @ Quote machine))"

definition remoteGOArch :: "('w, 'u) boot_env \<Rightarrow> string \<Rightarrow> 'w \<Rightarrow> string result \<times> 'w" where
  "remoteGOArch env hostName w =
     (case remoteOutput env hostName ''uname -m'' w of
        (Inl e, w1) \<Rightarrow> (Inl (AppendError (''Failed to detect CPU architecture on remote host '' @ hostName) e), w1)
      | (Inr output, w1) \<Rightarrow> (mapRemoteGOArch (TrimSpace output), w1))"

definition repositoryRootForRemoteBuild :: "'w os_lib \<Rightarrow> 'w \<Rightarrow> string result" where
  "repositoryRootForRemoteBuild os w =
     (case or_else (case os_Getwd os of Inl _ \<Rightarrow> None | Inr cwd \<Rightarrow> findCDSRepo os cwd w)
            (case os_Executable os of Inl _ \<Rightarrow> None | Inr executable \<Rightarrow> findCDSRepo os (path_Dir executable) w) of
        Some repoDir \<Rightarrow> Ok repoDir
      | None \<Rightarrow> Fail (''CDS repository root not found; set '' @ kAPIAgentPathEnvVar @ '' to a Linux '' @
          kAPIAgentBinaryName @ '' binary''))"

text \<open>The result is the binary and the directory that the returned \<open>cleanup\<close> removes, if any.\<close>

definition build_agent :: "('w, 'u) boot_env \<Rightarrow> string \<Rightarrow> string \<Rightarrow> 'w \<Rightarrow> (string \<times> string option) result \<times> 'w" where
  "build_agent env repositoryRoot goarch w =
     (case bt_MkdirTemp env ''cds-agent-'' w of
        (Inl e, w1) \<Rightarrow> (Inl (AppendError ''Failed to create temp dir'' e), w1)
      | (Inr workDir, w1) \<Rightarrow>
          (let binaryPath = path_Join [workDir, ''cds-api-agent''] in
           case bt_Run env [''go'', ''build'', ''-o'', binaryPath, ''./cmd/api-agent/cds-api-agent.go'']
                  repositoryRoot [''GOOS=linux'', ''GOARCH='' @ goarch] w1 of
             ((output, Some e), w2) \<Rightarrow>
               (Inl (commandError ''failed to build Linux agent binary'' output e), bt_RemoveAll env workDir w2)
           | ((output, None), w2) \<Rightarrow> (Ok (binaryPath, Some workDir), w2)))"

definition prepareRemoteAgentBinary ::
  "('w, 'u) boot_env \<Rightarrow> string \<Rightarrow> 'w \<Rightarrow> (string \<times> string option) result \<times> 'w" where
  "prepareRemoteAgentBinary env hostName w =
     (let os = bt_os env; configured = TrimSpace (os_Getenv os kAPIAgentPathEnvVar) in
      if configured \<noteq> [] then
        (bind_ok (wrap_error (invalid_value configured) (validateExecutableFile os configured w)) (\<lambda>p. Ok (p, None)), w)
      else case repositoryRootForRemoteBuild os w of
        Inl e \<Rightarrow> (Inl e, w)
      | Inr repositoryRoot \<Rightarrow> and_then (remoteGOArch env hostName w) (\<lambda>goarch. build_agent env repositoryRoot goarch))"

definition copyRemoteAgentAssets :: "('w, 'u) boot_env \<Rightarrow> string \<Rightarrow> string \<Rightarrow> 'w \<Rightarrow> err option \<times> 'w" where
  "copyRemoteAgentAssets env hostName agentBinaryPath =
     err_seq (remoteRun env hostName (''mkdir -p ~/.local/bin '' @ remoteAgentCertDir))
     (err_seq (\<lambda>w. wrap_step ''Failed to copy agent binary to remote host''
                     (scpToRemote env hostName agentBinaryPath remoteAgentBinaryPath w))
     (err_seq (\<lambda>w. wrap_step ''Failed to copy agent certificates to remote host''
                     (runSCP env (agentRuntimeCertFiles (bt_cfg env) @ [remotePath hostName (remoteAgentCertDir @ ''/'')]) w))
       (remoteRun env hostName (''chmod 755 '' @ remoteAgentBinaryPath @ '' && chmod 700 ~/.xcds-agent '' @
          remoteAgentCertDir @ '' && chmod 600 '' @ remoteAgentCertDir @ ''/*''))))"

definition startRemoteAgentProcess :: "('w, 'u) boot_env \<Rightarrow> string \<Rightarrow> string \<Rightarrow> 'w \<Rightarrow> err option \<times> 'w" where
  "startRemoteAgentProcess env hostName port =
     remoteRun env hostName (''nohup '' @ remoteAgentBinaryPath @ '' -port '' @ port @ '' > '' @ remoteAgentLogPath @
       '' 2>&1 < /dev/null &'')"

definition stop_script :: "string \<Rightarrow> string" where
  \<open>stop_script port = Join [
     ''port='' @ port,
     ''pid=""'',
     ''if command -v lsof >/dev/null 2>&1; then'',
     ''  pid="$(lsof -tiTCP:"$port" -sTCP:LISTEN 2>/dev/null | head -n 1)"'',
     ''fi'',
     ''if [ -z "$pid" ] && command -v ss >/dev/null 2>&1; then'',
     ''  pid="$(ss -ltnp "sport = :$port" 2>/dev/null | sed -n '' @ [SQ] @ ''s/.*pid='' @ [BSL] @ ''([0-9][0-9]*'' @ [BSL] @
       '').*/'' @ [BSL] @ ''1/p'' @ [SQ] @ '' | head -n 1)"'',
     ''fi'',
     ''if [ -n "$pid" ]; then'',
     ''  kill "$pid"'',
     ''  for i in 1 2 3 4 5 6 7 8 9 10; do'',
     ''    kill -0 "$pid" 2>/dev/null || exit 0'',
     ''    sleep 0.1'',
     ''  done'',
     ''  exit 1'',
     ''fi''] [NL]\<close>

definition stopRemoteAgentProcess :: "('w, 'u) boot_env \<Rightarrow> string \<Rightarrow> string \<Rightarrow> 'w \<Rightarrow> err option \<times> 'w" where
  "stopRemoteAgentProcess env hostName port = remoteRun env hostName (stop_script port)"

definition ensureRemoteAgentRegistered :: "('w, 'u) boot_env \<Rightarrow> string \<Rightarrow> 'w \<Rightarrow> string result \<times> 'w" where
  "ensureRemoteAgentRegistered env hostName w =
     (case AgentAddressIfRegistered (bt_cfg env) hostName w of
        (Inl e, w1) \<Rightarrow> (Inl e, w1)
      | (Inr (address, True), w1) \<Rightarrow> (Ok address, w1)
      | (Inr (_, False), w1) \<Rightarrow>
          (let address = JoinHostPort hostName remoteAgentPort in
           case UpsertAgentForHostInConfig (bt_cfg env) hostName (agent_at env address) w1 of
             (Some e, w2) \<Rightarrow> (Inl e, w2) | (None, w2) \<Rightarrow> (Ok address, w2)))"

text \<open>Up to the start of the process; the clean-up is due once the binary was built.\<close>

definition restart_remote :: "('w, 'u) boot_env \<Rightarrow> string \<Rightarrow> string \<Rightarrow> string \<Rightarrow> 'w \<Rightarrow> err option \<times> 'w" where
  "restart_remote env hostName address agentBinaryPath =
     err_seq (copyRemoteAgentAssets env hostName agentBinaryPath) (\<lambda>w.
       case agentPort (bt_lib env) (bt_url env) address of
         Inl e \<Rightarrow> (Some e, w)
       | Inr port \<Rightarrow> err_seq (stopRemoteAgentProcess env hostName port) (startRemoteAgentProcess env hostName port) w)"

definition wait_remote :: "('w, 'u) boot_env \<Rightarrow> string \<Rightarrow> string \<Rightarrow> 'w \<Rightarrow> (err option \<times> 'w) option" where
  "wait_remote env hostName address w =
     (case agentTCPAddress (bt_lib env) (bt_url env) address of
        Inl e \<Rightarrow> Some (Some e, w)
      | Inr tcpAddress \<Rightarrow>
          map_option (wrap_step (''remote agent did not start on '' @ tcpAddress @ ''; check '' @ remoteAgentLogPath @
            '' on the remote host'')) (waitForHealthyAgent env address w))"

definition cleaned :: "('w, 'u) boot_env \<Rightarrow> string option \<Rightarrow> err option \<times> 'w \<Rightarrow> err option \<times> 'w" where
  "cleaned env workDir r = (fst r, (case workDir of None \<Rightarrow> snd r | Some dir \<Rightarrow> bt_RemoveAll env dir (snd r)))"

definition startRemoteAgent :: "('w, 'u) boot_env \<Rightarrow> string \<Rightarrow> 'w \<Rightarrow> (err option \<times> 'w) option" where
  "startRemoteAgent env hostName w =
     (case ensureRemoteAgentRegistered env hostName w of
        (Inl e, w1) \<Rightarrow> Some (Some e, w1)
      | (Inr address, w1) \<Rightarrow>
     (case ensureRuntimeCerts env w1 of
        (Some e, w2) \<Rightarrow> Some (Some e, w2)
      | (None, w2) \<Rightarrow>
     (case prepareRemoteAgentBinary env hostName w2 of
        (Inl e, w3) \<Rightarrow> Some (Some e, w3)
      | (Inr (agentBinaryPath, workDir), w3) \<Rightarrow>
          map_option (cleaned env workDir)
            (case restart_remote env hostName address agentBinaryPath w3 of
               (Some e, w4) \<Rightarrow> Some (Some e, w4)
             | (None, w4) \<Rightarrow> wait_remote env hostName address w4))))"

section \<open>Starting an agent\<close>

definition outcome_of :: "err option \<Rightarrow> start_outcome" where
  "outcome_of e = (case e of None \<Rightarrow> Started | Some x \<Rightarrow> StartFailed x)"

definition started_host :: "string \<Rightarrow> string" where
  "started_host hostname = (if TrimSpace hostname = [] then KLocalhost else TrimSpace hostname)"

definition StartAgent :: "('w, 'u) boot_env \<Rightarrow> string \<Rightarrow> 'w client_state \<Rightarrow> (start_outcome \<times> 'w client_state) option" where
  "StartAgent env hostname st =
     (let hostName = started_host hostname; lib = bt_lib env
      in case isAgentRunning env hostName (cs_agent st) of
        (Inl e, w1) \<Rightarrow> Some (StartFailed (AppendError (''failed to check for agent running on '' @ hostName) e), st\<lparr>cs_agent := w1\<rparr>)
      | (Inr (True, address), w1) \<Rightarrow>
          if isLocalHost lib hostName then
            (case registerLocalAgent env address w1 of
               (Some e, w2) \<Rightarrow> Some (StartFailed e, st\<lparr>cs_agent := w2\<rparr>)
             | (None, w2) \<Rightarrow> Some (StartOnRun, st\<lparr>cs_agent := w2\<rparr>))
          else Some (StartOnRun, st\<lparr>cs_agent := w1\<rparr>)
      | (Inr (False, address), w1) \<Rightarrow>
          if isLocalHost lib hostName then map_option (apfst outcome_of) (fireLocalAgent env (st\<lparr>cs_agent := w1\<rparr>))
          else map_option (\<lambda>(e, w2). (outcome_of e, st\<lparr>cs_agent := w2\<rparr>)) (startRemoteAgent env hostName w1))"

end
