(* ===== verification/HostCommands.thy ===== *)
theory HostCommands
  imports Bootstrap
begin

text \<open>
  Hosts as the client sees them: connecting to an agent (\<open>client_grpc.go\<close>), detecting the
  container runtime (\<open>internal/containerruntime\<close>), and \<open>space host add\<close>, \<open>delete\<close>, \<open>list\<close>
  and \<open>get\<close> (\<open>internal/command\<close>). \<open>boot_link\<close> is the way to an agent that the project
  commands take.
\<close>

section \<open>Connecting\<close>

record agentTarget =
  at_hostName :: string
  at_address :: string
  at_files :: agentTLSFiles
  at_serverName :: string

definition agentServerName :: "string \<Rightarrow> string" where "agentServerName _ = KLocalhost"

definition getAgentServerAddressForHost :: "('w, 'u) boot_env \<Rightarrow> string \<Rightarrow> 'w \<Rightarrow> string result \<times> 'w" where
  "getAgentServerAddressForHost env hostName w =
     and_then (AgentAddress (bt_cfg env) (normalizeAgentHostName hostName) w) (\<lambda>addr w1.
       (if addr = [] then Fail ''agent target server is not configured'' else Ok addr, w1))"

definition getAgentServerAddress :: "('w, 'u) boot_env \<Rightarrow> 'w \<Rightarrow> string result \<times> 'w" where
  "getAgentServerAddress env = getAgentServerAddressForHost env KLocalhost"

definition getAgentTarget :: "('w, 'u) boot_env \<Rightarrow> string \<Rightarrow> 'w \<Rightarrow> agentTarget result \<times> 'w" where
  "getAgentTarget env hostName w =
     (let normalizedHost = normalizeAgentHostName hostName; pick = \<lambda>own default. if own = [] then default else own in
      and_then (getAgentServerAddressForHost env normalizedHost w) (\<lambda>addr w1.
      and_then (RegisteredAgent (bt_cfg env) addr w1) (\<lambda>a w2.
        (Ok \<lparr>at_hostName = normalizedHost, at_address = addr,
           at_files = \<lparr>atf_caFile = pick (tls_CA (ag_Certs a)) (CAFilePath env),
             atf_certFile = pick (tls_Cert (ag_Certs a)) (ClientCertFilePath env),
             atf_keyFile = pick (tls_Key (ag_Certs a)) (ClientKeyFilePath env)\<rparr>,
           at_serverName = agentServerName addr\<rparr>, w2))))"

text \<open>The services of a connection are those of the agent that listens at the address.\<close>

definition connectAgentServices ::
  "('w, 'u) boot_env \<Rightarrow> (agentTarget \<Rightarrow> 'w agentServices) \<Rightarrow> string \<Rightarrow> 'w \<Rightarrow> 'w agentServices result \<times> 'w" where
  "connectAgentServices env services hostName w =
     (case getAgentTarget env hostName w of
        (Inl e, w1) \<Rightarrow> (Inl (AppendError ''Failed to get agent target'' e), w1)
      | (Inr target, w1) \<Rightarrow>
          (case bt_SetupTLS env (at_files target) w1 of
             Some e \<Rightarrow> (Inl (AppendError ''Failed to setup TLS config'' e), w1)
           | None \<Rightarrow>
               (case bt_NewClient env (at_address target) of
                  Some e \<Rightarrow> (Inl (AppendError ''Failed to create agent gRPC client'' e), w1)
                | None \<Rightarrow> (Ok (services target), w1))))"

text \<open>
  The link of the project commands. That \<open>StartAgent\<close> gives a result is shown where the
  clock runs; the error that stands for its absence does not occur there.
\<close>

definition start_total :: "('w, 'u) boot_env \<Rightarrow> string \<Rightarrow> 'w client_state \<Rightarrow> start_outcome \<times> 'w client_state" where
  "start_total env hostName st =
     (case StartAgent env hostName st of Some r \<Rightarrow> r | None \<Rightarrow> (StartFailed (NewError ''no result''), st))"

definition connect_in :: "('w, 'u) boot_env \<Rightarrow> (agentTarget \<Rightarrow> 'w agentServices) \<Rightarrow> string \<Rightarrow>
    'w client_state \<Rightarrow> 'w agentServices result \<times> 'w client_state" where
  "connect_in env services hostName = on_agent (connectAgentServices env services hostName)"

definition boot_link :: "('w, 'u) boot_env \<Rightarrow> (agentTarget \<Rightarrow> 'w agentServices) \<Rightarrow> 'w agent_link" where
  "boot_link env services = \<lparr>al_StartAgent = start_total env, al_Connect = connect_in env services\<rparr>"

section \<open>The container runtime\<close>

record podmanMachine =
  pm_Name :: string
  pm_Running :: bool

text \<open>Programs, the two JSON readers, and the operating system.\<close>

record 'w runtime_lib =
  rl_goos :: string
  rl_lookPath :: "string \<Rightarrow> 'w \<Rightarrow> bool"
  rl_runCommand :: "string list \<Rightarrow> 'w \<Rightarrow> string result"
  rl_machines :: "string \<Rightarrow> podmanMachine list result"
  rl_version :: "string \<Rightarrow> string result"

definition EnginePodman :: string where "EnginePodman = ''podman''"
definition ErrRuntimeNotFound :: err where "ErrRuntimeNotFound = NewError ''container runtime not found''"
definition ErrMachineNotRunning :: err where "ErrMachineNotRunning = NewError ''container runtime machine is not running''"
definition ErrRuntimeUnavailable :: err where "ErrRuntimeUnavailable = NewError ''container runtime is not responding''"

text \<open>\<open>fmt.Errorf\<close> with \<open>%w\<close>: the sentinel stays the cause, for \<open>errors.Is\<close>.\<close>

definition sentinel :: "err \<Rightarrow> string \<Rightarrow> err" where
  "sentinel s hint = Err (err_message s @ '': '' @ hint) (Some s)"

definition podmanUsesMachine :: "string \<Rightarrow> bool" where
  "podmanUsesMachine os = (os = ''darwin'' \<or> os = ''windows'')"

definition podmanMachineRunning :: "'w runtime_lib \<Rightarrow> 'w \<Rightarrow> bool result" where
  "podmanMachineRunning lib w =
     (case rl_runCommand lib [EnginePodman, ''machine'', ''list'', ''--format'', ''json''] w of
        Inl e \<Rightarrow> Inl (sentinel ErrMachineNotRunning (''`podman machine list` failed ('' @ err_message e @ '')''))
      | Inr raw \<Rightarrow>
          (let out = TrimSpace raw in
           if out = [] \<or> out = ''[]'' then Ok False
           else case rl_machines lib out of
             Inl e \<Rightarrow> Inl (sentinel ErrMachineNotRunning
               (''failed to parse `podman machine list` output ('' @ err_message e @ '')''))
           | Inr machines \<Rightarrow> Ok (list_ex pm_Running machines)))"

definition podmanVersion :: "'w runtime_lib \<Rightarrow> 'w \<Rightarrow> string result" where
  "podmanVersion lib w =
     bind_ok (rl_runCommand lib [EnginePodman, ''info'', ''--format'', ''json''] w) (\<lambda>out.
       wrap_error ''failed to parse `podman info` output'' (rl_version lib out))"

definition Detect :: "'w runtime_lib \<Rightarrow> 'w \<Rightarrow> RuntimeInfo result" where
  "Detect lib w =
     (if \<not> rl_lookPath lib EnginePodman w
      then Inl (sentinel ErrRuntimeNotFound ''install Podman (e.g. `brew install podman`) and run `podman machine init`'')
      else bind_ok (if podmanUsesMachine (rl_goos lib) then podmanMachineRunning lib w else Ok True) (\<lambda>running.
        if \<not> running
        then Inl (sentinel ErrMachineNotRunning
          ''start it with `podman machine start` (initialise first with `podman machine init` if needed)'')
        else case podmanVersion lib w of
          Inl e \<Rightarrow> Inl (sentinel ErrRuntimeUnavailable (''`podman info` failed ('' @ err_message e @ '')''))
        | Inr version \<Rightarrow> Ok \<lparr>rt_Engine = EnginePodman, rt_Version = version\<rparr>))"

section \<open>Adding a host\<close>

record 'w host_env =
  he_runtime :: "'w runtime_lib"
  he_user :: string

definition isLocalTarget :: "string \<Rightarrow> bool" where
  "isLocalTarget hostName = (hostName = KLocalhost)"

text \<open>The boolean is \<open>AlreadyRegistered\<close>.\<close>

definition registerLocalHost ::
  "'w host_env \<Rightarrow> string \<Rightarrow> 'w \<Rightarrow> data \<Rightarrow> (RuntimeInfo \<times> bool) result \<times> data" where
  "registerLocalHost henv hostName w d =
     (let known = GetHostRuntime d hostName in
      if HasHost d hostName \<and> (rt_Engine known \<noteq> [] \<or> rt_Version known \<noteq> []) then (Ok (known, True), d)
      else case Detect (he_runtime henv) w of
        Inl e \<Rightarrow> (Inl e, d)
      | Inr info \<Rightarrow>
          (let d1 = (if \<not> HasHost d hostName then AddHost hostName (he_user henv) d else d) in
           case SetHostRuntime hostName info d1 of
             Inl e \<Rightarrow> (Inl e, d1) | Inr d2 \<Rightarrow> (Ok (info, False), d2)))"

definition defaultAgentTargetAddress :: "string \<Rightarrow> string \<Rightarrow> string" where
  "defaultAgentTargetAddress targetServer hostName =
     (let normalizedTarget = TrimSpace targetServer in
      if normalizedTarget = [] \<or> HasPrefix normalizedTarget '':'' then '':8087''
      else if Contains normalizedTarget ''://'' then normalizedTarget
      else if is_ok (SplitHostPort normalizedTarget) then normalizedTarget
      else if hostName = KLocalhost then '':8087''
      else JoinHostPort hostName ''8087'')"

definition ensureAgentRegistered :: "('w, 'u) boot_env \<Rightarrow> string \<Rightarrow> string \<Rightarrow> 'w \<Rightarrow> err option \<times> 'w" where
  "ensureAgentRegistered env targetServer hostName w =
     (case AgentAddress (bt_cfg env) hostName w of
        (Inr _, w1) \<Rightarrow> (None, w1)
      | (Inl _, w1) \<Rightarrow>
          CreateAgentInConfig (bt_cfg env) (agent_at env (defaultAgentTargetAddress targetServer hostName)) w1)"

text \<open>The result is the error, or whether the agent was running and what is known of the runtime.\<close>

definition host_add ::
  "('w, 'u) boot_env \<Rightarrow> 'w host_env \<Rightarrow> string \<Rightarrow> 'w client_state \<Rightarrow>
   (((RuntimeInfo \<times> bool) option \<times> bool) result \<times> 'w client_state) option" where
  "host_add env henv target st =
     (case bootstrapHostName (bt_lib env) target of
        Inl e \<Rightarrow> Some (Inl e, st)
      | Inr hostName \<Rightarrow>
     (case (if isLocalTarget hostName
            then map_prod (map_sum id Some) id (registerLocalHost henv hostName (cs_agent st) (cs_data st))
            else (Ok None, cs_data st)) of
        (Inl e, d1) \<Rightarrow> Some (Inl e, st\<lparr>cs_data := d1\<rparr>)
      | (Inr registration, d1) \<Rightarrow>
     (case ensureAgentRegistered env target hostName (cs_agent st) of
        (Some e, w1) \<Rightarrow> Some (Inl e, st\<lparr>cs_data := d1, cs_agent := w1\<rparr>)
      | (None, w1) \<Rightarrow>
          map_option (\<lambda>(outcome, st2).
              (case outcome of StartFailed e \<Rightarrow> Inl e | StartOnRun \<Rightarrow> Ok (registration, True)
               | Started \<Rightarrow> Ok (registration, False), st2))
            (StartAgent env hostName (st\<lparr>cs_data := d1, cs_agent := w1\<rparr>)))))"

section \<open>Deleting, listing and showing hosts\<close>

definition host_delete :: "('w, 'u) boot_env \<Rightarrow> string \<Rightarrow> 'w client_state \<Rightarrow> err option \<times> 'w client_state" where
  "host_delete env target st =
     (case bootstrapHostName (bt_lib env) target of
        Inl e \<Rightarrow> (Some e, st)
      | Inr hostName \<Rightarrow>
          (case err_seq (if isLocalTarget hostName then StopAgent (bt_os env) (cs_data st) hostName else Pair None)
                  (DeleteAgentFromConfig (bt_cfg env) target) (cs_agent st) of
             (Some e, w1) \<Rightarrow> (Some e, st\<lparr>cs_agent := w1\<rparr>)
           | (None, w1) \<Rightarrow>
               (None, st\<lparr>cs_agent := w1,
                 cs_data := (if isLocalTarget hostName \<and> HasHost (cs_data st) hostName
                             then RemoveHostFromHostList hostName (cs_data st) else cs_data st)\<rparr>)))"

record agentListEntry =
  ale_Hostname :: string
  ale_SSHTunnel :: bool
  ale_TLS :: bool

definition displayAgentTarget :: "string \<Rightarrow> string" where
  "displayAgentTarget targetServer =
     (if length targetServer > 0 \<and> hd targetServer = CHR '':'' then KLocalhost @ targetServer else targetServer)"

definition host_list :: "('w, 'u) config_env \<Rightarrow> 'w \<Rightarrow> agentListEntry list result \<times> 'w" where
  "host_list cfg w =
     (case RegisteredAgents cfg w of
        (Inl e, w1) \<Rightarrow> (Inl e, w1)
      | (Inr agents, w1) \<Rightarrow>
          (Ok (map (\<lambda>a. \<lparr>ale_Hostname = displayAgentTarget (ag_TargetSrv a), ale_SSHTunnel = ag_SshTunnel a,
             ale_TLS = (tls_CA (ag_Certs a) \<noteq> [])\<rparr>) agents), w1))"

definition prepareHostListOutput :: "agentListEntry list \<Rightarrow> string list \<times> string list list" where
  "prepareHostListOutput agents =
     ([''HOSTNAME'', ''SSH TUNNEL'', ''TLS''],
      map (\<lambda>a. [ale_Hostname a, if ale_SSHTunnel a then ''yes'' else ''no'', if ale_TLS a then ''yes'' else ''no'']) agents)"

text \<open>The address as it is registered, and the version when the agent answers.\<close>

definition agentVersionForHost :: "('w, 'u) boot_env \<Rightarrow> string \<Rightarrow> 'w \<Rightarrow> string result \<times> 'w" where
  "agentVersionForHost env hostName w =
     (case getAgentTarget env hostName w of
        (Inl e, w1) \<Rightarrow> (Inl (AppendError ''Failed to get agent target'' e), w1)
      | (Inr target, w1) \<Rightarrow>
          (case bt_SetupTLS env (at_files target) w1 of
             Some e \<Rightarrow> (Inl (AppendError ''Failed to setup TLS config'' e), w1)
           | None \<Rightarrow>
               (case bt_NewClient env (at_address target) of
                  Some e \<Rightarrow> (Inl (AppendError ''Failed to create agent gRPC client'' e), w1)
                | None \<Rightarrow>
                    (case bt_GetVersion env (at_address target) (at_files target) w1 of
                       (Inl e, w2) \<Rightarrow> (Inl (AppendError ''Failed to get agent version'' e), w2)
                     | (Inr version, w2) \<Rightarrow> (Ok version, w2)))))"

record spaceHostGetResult =
  shg_Hostname :: string
  shg_Reachable :: bool
  shg_Version :: string

definition shg_HumanReadable :: "spaceHostGetResult \<Rightarrow> string" where
  "shg_HumanReadable r =
     ''Host:    '' @ shg_Hostname r @ [NL] @ ''Status:  '' @ (if shg_Reachable r then ''reachable'' else ''unreachable'') @ [NL] @
     (if shg_Version r \<noteq> [] then ''Version: '' @ shg_Version r @ [NL] else [])"

definition host_get :: "('w, 'u) boot_env \<Rightarrow> string \<Rightarrow> 'w \<Rightarrow> spaceHostGetResult result \<times> 'w" where
  "host_get env target w =
     (case bootstrapHostName (bt_lib env) target of
        Inl e \<Rightarrow> (Inl e, w)
      | Inr hostName \<Rightarrow>
          and_then (AgentAddress (bt_cfg env) hostName w) (\<lambda>targetAddress w1.
          and_then (RegisteredAgent (bt_cfg env) targetAddress w1) (\<lambda>a w2.
            (case agentVersionForHost env hostName w2 of
               (Inl _, w3) \<Rightarrow> (Ok \<lparr>shg_Hostname = ag_TargetSrv a, shg_Reachable = False, shg_Version = []\<rparr>, w3)
             | (Inr version, w3) \<Rightarrow> (Ok \<lparr>shg_Hostname = ag_TargetSrv a, shg_Reachable = True, shg_Version = version\<rparr>, w3)))))"

end
