(* ===== verification/BootstrapProps.thy ===== *)
theory BootstrapProps
  imports HostCommands RegistryProps CommandProps
begin

text \<open>
  Starting, reaching and stopping agents: the port that is dialled is the port that is started,
  waiting ends, a started agent is registered where it answered, only an owned process is
  signalled, and reaching an agent leaves the projects of the store alone.
\<close>

section \<open>Ports\<close>

lemma Atoi_chars: "Atoi s = Some v \<Longrightarrow> c \<in> set s \<Longrightarrow> is_digit c \<or> c = CHR ''-'' \<or> c = CHR ''+''"
  by (cases s) (auto simp: Atoi_def Let_def parse_digits_def list_all_iff split: option.splits if_splits)

lemma validated_port:
  assumes "validateAgentPort p = Ok q"
  shows "q = p" "p \<noteq> []" "CHR '':'' \<notin> set p"
proof -
  obtain v where v: "Atoi p = Some v" "q = p" using assms by (auto simp: validateAgentPort_def split: option.splits if_splits)
  then show "q = p" by simp
  show "p \<noteq> []" using v(1) by (auto simp: Atoi_def parse_digits_def)
  show "CHR '':'' \<notin> set p" using Atoi_chars [OF v(1), of "CHR '':''"] by (auto simp: is_digit_def)
qed

lemma joined_port:
  assumes "validateAgentPort p = Ok q"
  shows "after_last_colon (JoinHostPort h p) = p" "after_last_colon (CHR '':'' # p) = p"
proof -
  note last = last_colon_parts(1) [OF validated_port(3) [OF assms]]
  show "after_last_colon (JoinHostPort h p) = p" "after_last_colon (CHR '':'' # p) = p"
    using last [of "''['' @ h @ '']''"] last [of h] last [of "[]"] by (simp_all add: JoinHostPort_def)
qed


section \<open>Waiting ends\<close>

text \<open>A pause lasts as long as it says, and a check of health does not turn the clock back.\<close>

definition clock_runs :: "('w, 'u) boot_env \<Rightarrow> bool" where
  "clock_runs env =
     ((\<forall>w n. bt_now env w + n \<le> bt_now env (bt_Sleep env n w)) \<and>
      (\<forall>a w. bt_now env w \<le> bt_now env (snd (verifyAgentHealth env a w))))"

lemma poll_ends:
  assumes "clock_runs env"
  shows "\<exists>r. poll_until env a deadline w = Some r"
proof (induction "Suc deadline - bt_now env w" arbitrary: w rule: less_induct)
  case less
  obtain e w1 where v: "verifyAgentHealth env a w = (e, w1)" by (metis surj_pair)
  then have t1: "bt_now env w \<le> bt_now env w1" using assms by (metis clock_runs_def snd_conv)
  let ?w2 = "bt_Sleep env 100 w1"
  have t2: "bt_now env w1 + 100 \<le> bt_now env ?w2" using assms by (simp add: clock_runs_def)
  show ?case
  proof (cases "e = None \<or> bt_now env w1 > deadline")
    case True
    then show ?thesis using v by (subst poll_until.simps) (auto split: option.split)
  next
    case False
    then have "bt_now env w1 \<le> deadline" by auto
    then have "Suc deadline - bt_now env ?w2 < Suc deadline - bt_now env w" using t1 t2 by arith
    from less.hyps [OF this] show ?thesis using v False by (subst poll_until.simps) auto
  qed
qed

lemma wait_ends: "clock_runs env \<Longrightarrow> \<exists>r. waitForHealthyAgent env a w = Some r"
  unfolding waitForHealthyAgent_def by (rule poll_ends)

text \<open>
  C16. Starting an agent ends, whatever the host, the registry and the agent do: as long as the
  clock runs, the wait for a healthy agent gives up after its deadline.
\<close>

theorem start_agent_ends:
  assumes "clock_runs env"
  shows "\<exists>outcome st'. StartAgent env hostname st = Some (outcome, st')"
proof -
  have wait: "waitForHealthyAgent env a w \<noteq> None" for a w using wait_ends [OF assms] by simp
  then have start: "startAgent env st \<noteq> None" for st
    by (simp add: startAgent_def del: not_None_eq split: prod.split sum.split option.split)
  have fire: "fireLocalAgent env st \<noteq> None" for st
    by (simp add: fireLocalAgent_def start del: not_None_eq split: prod.split sum.split option.split)
  have remote: "startRemoteAgent env h w \<noteq> None" for h w
    by (simp add: startRemoteAgent_def wait_remote_def wait del: not_None_eq split: prod.split sum.split option.split)
  obtain r w1 where r: "isAgentRunning env (started_host hostname) (cs_agent st) = (r, w1)" by (metis surj_pair)
  have "StartAgent env hostname st \<noteq> None"
  proof (cases r)
    case (Inr ra)
    then show ?thesis by (cases ra; cases "fst ra")
        (simp_all add: StartAgent_def Let_def r fire remote del: not_None_eq split: prod.split option.split)
  qed (simp add: StartAgent_def r)
  then show ?thesis by auto
qed

section \<open>What starting leaves in the registry\<close>

text \<open>Processes, sockets and the clock leave the registry's file alone.\<close>

definition quiet :: "('w, 'u) boot_env \<Rightarrow> ('w \<Rightarrow> string) \<Rightarrow> bool" where
  "quiet env content =
     (\<forall>w. (\<forall>a. content (snd (bt_Listen env a w)) = content w) \<and> (\<forall>a. content (snd (bt_Dial env a w)) = content w) \<and>
       (\<forall>a f. content (snd (bt_GetVersion env a f w)) = content w) \<and> (\<forall>c. content (snd (bt_Start env c w)) = content w) \<and>
       content (snd (bt_BuildCerts env w)) = content w \<and> (\<forall>n. content (bt_Sleep env n w) = content w))"

lemma quietD:
  assumes "quiet env content"
  shows "bt_Listen env a w = (l, w') \<Longrightarrow> content w' = content w" "bt_Dial env a w = (e, w') \<Longrightarrow> content w' = content w"
    "bt_GetVersion env a f w = (v, w') \<Longrightarrow> content w' = content w" "bt_Start env c w = (p, w') \<Longrightarrow> content w' = content w"
    "content (snd (bt_BuildCerts env w)) = content w" "content (bt_Sleep env n w) = content w"
  using assms unfolding quiet_def by (metis snd_conv)+

lemma read_world: "cli_store cfg content \<Longrightarrow> snd (readCLIAgentData cfg w) = w"
  by (simp add: read_content)

lemma read_same: "cli_store cfg content \<Longrightarrow> content w' = content w \<Longrightarrow> readCLIAgentData cfg w' = (fst (readCLIAgentData cfg w), w')"
  by (simp add: read_content)

lemma material_world: "cli_store (bt_cfg env) content \<Longrightarrow> snd (agentTLSMaterialForAddress env a w) = w"
  using read_world [of "bt_cfg env" content w]
  by (auto simp: agentTLSMaterialForAddress_def RegisteredAgent_def invokeWithCLIAgentData_def Let_def split: prod.split sum.split)

lemma verify_content:
  assumes "cli_store (bt_cfg env) content" "quiet env content" "verifyAgentHealth env a w = (e, w')"
  shows "content w' = content w"
  using assms(3) material_world [OF assms(1), of a w] quietD(3) [OF assms(2)]
  by (auto simp: verifyAgentHealth_def ignore_value_def split: prod.splits sum.splits option.splits)

lemma verify_world:
  assumes "cli_store (bt_cfg env) content" "\<And>a f w. snd (bt_GetVersion env a f w) = w"
  shows "snd (verifyAgentHealth env a w) = w"
proof -
  obtain target where m: "agentTLSMaterialForAddress env a w = (target, w)"
    using material_world [OF assms(1), of a w] by (metis surjective_pairing)
  have "snd (ignore_value (bt_GetVersion env t target) w) = w" for t
    using assms(2) [of t target w] by (auto simp: ignore_value_def split: prod.split sum.split)
  then show ?thesis by (simp add: verifyAgentHealth_def m split: sum.split option.split)
qed

lemma poll_result:
  assumes "poll_until env a deadline w = Some r" "cli_store (bt_cfg env) content" "quiet env content"
  shows "content (snd r) = content w \<and> (fst r = None \<longrightarrow> (\<exists>w0. verifyAgentHealth env a w0 = (None, snd r)))"
  using assms
proof (induction env a deadline w r rule: poll_until.raw_induct [rotated, consumes 1, case_names step])
  case (step poll env a deadline w r)
  obtain e w1 where v: "verifyAgentHealth env a w = (e, w1)" by (metis surj_pair)
  note same = verify_content [OF step(3,4) v]
  show ?case
  proof (cases "e = None \<or> bt_now env w1 > deadline")
    case True
    then have "r = (map_option (AppendError (''agent did not pass TLS verification on '' @ a)) e, w1)"
      using step(2) v by (cases e) auto
    then show ?thesis using same v by auto
  next
    case False
    then have "poll env a deadline (bt_Sleep env 100 w1) = Some r" using step(2) v by auto
    from step(1) [OF this step(3,4)] show ?thesis using same quietD(6) [OF step(4)] by simp
  qed
qed

lemma wait_result:
  assumes "cli_store (bt_cfg env) content" "quiet env content" "waitForHealthyAgent env a w = Some (e, w')"
  shows "content w' = content w" "e = None \<Longrightarrow> \<exists>w0. verifyAgentHealth env a w0 = (None, w')"
  using poll_result [OF assms(3) [unfolded waitForHealthyAgent_def] assms(1,2)] by simp_all

lemma ensure_certs_content:
  assumes "quiet env content" "ensure_certs env paths w = (e, w')"
  shows "content w' = content w"
  using assms(2)
  by (induction paths arbitrary: w)
    (auto simp: wrap_step_def quietD(5) [OF assms(1)] split: sum.splits if_splits option.splits)

lemma next_address_content:
  assumes "quiet env content" "nextLocalAgentAddress env w = (r, w')"
  shows "content w' = content w"
  using assms(2) quietD(1) [OF assms(1)]
  by (auto simp: nextLocalAgentAddress_def split: prod.splits sum.splits listen_addr.splits)

text \<open>The address that a local agent is started on.\<close>

definition port_address :: "string \<Rightarrow> bool" where
  "port_address a = (a \<noteq> [] \<and> hd a = CHR '':'' \<and> list_all is_digit (tl a))"

lemma next_address_port: "nextLocalAgentAddress env w = (Ok a, w') \<Longrightarrow> port_address a"
proof -
  have numbered: "port_address (CHR '':'' # Itoa (int n))" for n
    using nat_text_digits [of n] by (simp add: port_address_def Itoa_def)
  have "port_address localAgentAddress" by code_simp
  then show "nextLocalAgentAddress env w = (Ok a, w') \<Longrightarrow> port_address a"
    using numbered by (auto simp: nextLocalAgentAddress_def split: prod.splits sum.splits listen_addr.splits)
qed

lemma launched:
  assumes "quiet env content" "launch_agent env w = (r, w')"
  shows "content w' = content w" "r = Ok (c, a, pid) \<Longrightarrow> port_address a"
  using assms(2) next_address_content [OF assms(1)] quietD(4) [OF assms(1)] next_address_port [of env w a]
  by (auto simp: launch_agent_def and_then_def split: sum.splits prod.splits)

lemma started_local:
  assumes "quiet env content" "cli_store (bt_cfg env) content" "startAgent env st = Some (Ok a, st')"
  shows "port_address a" "content (cs_agent st') = content (cs_agent st)"
    "\<exists>w0. verifyAgentHealth env a w0 = (None, cs_agent st')"
proof -
  obtain c pid w1 w2 where l: "launch_agent env (cs_agent st) = (Ok (c, a, pid), w1)"
    and v: "waitForHealthyAgent env a w1 = Some (None, w2)" "cs_agent st' = w2"
    using assms(3) by (auto simp: startAgent_def split: prod.splits sum.splits option.splits)
  show "port_address a" "content (cs_agent st') = content (cs_agent st)" "\<exists>w0. verifyAgentHealth env a w0 = (None, cs_agent st')"
    using launched [OF assms(1) l] wait_result [OF assms(2,1) v(1)] v(2) by auto
qed

lemma port_address_shape:
  assumes "port_address a"
  shows "HasPrefix a '':''" "TrimSpace a = a" "CHR ''['' \<notin> set a" "CHR '']'' \<notin> set a" "CHR '':'' \<notin> set (tl a)" "a \<noteq> []"
proof -
  obtain p where a: "a = CHR '':'' # p" "list_all is_digit p" using assms by (cases a) (auto simp: port_address_def)
  then show "HasPrefix a '':''" "CHR ''['' \<notin> set a" "CHR '']'' \<notin> set a" "CHR '':'' \<notin> set (tl a)" "a \<noteq> []"
    by (auto simp: list_all_iff is_digit_def)
  have "\<not> is_space (last a)"
    using a bspec [OF a(2) [unfolded list_all_iff], OF last_in_set] by (cases "p = []") (auto simp: is_digit_def is_space_def)
  then show "TrimSpace a = a" using a(1) colon_not_space(1) trimmed_ends [of a] by simp
qed

text \<open>The row for \<open>localhost\<close> of a port on this machine.\<close>

lemma port_address_row:
  assumes "url_contract lib" "port_address a"
  shows "normalizeTargetServer lib a = Ok a" "targetServerHostname lib a = KLocalhost" "good_address lib a"
    "cfg_normalizeHostName lib KLocalhost = KLocalhost"
proof -
  note s = port_address_shape [OF assms(2)]
  have u: "url_of lib a = None" using assms(1) s(1) by (simp add: url_contract_def)
  obtain p where a: "a = CHR '':'' # p" using s(1) by (cases a) auto
  have "SplitHostPort a = Ok ([], p)"
    using s(3-5) split_plain [of a] unfolding a by (simp add: SplitHostPort_def last_colon_parts [of p "[]", simplified])
  then show "normalizeTargetServer lib a = Ok a"
    using s(2,6) u by (simp add: normalizeTargetServer_def)
  show "targetServerHostname lib a = KLocalhost" using s by (simp add: targetServerHostname_def)
  show "good_address lib a" using s by (simp add: good_address_def)
  have "TrimSpace KLocalhost = KLocalhost" "ToLower KLocalhost = KLocalhost" "\<not> HasPrefix KLocalhost '':''" "KLocalhost \<noteq> []"
    "\<not> Contains KLocalhost ''://''" "SplitHostPort KLocalhost = Inl missingPort" by code_simp+
  then show "cfg_normalizeHostName lib KLocalhost = KLocalhost"
    by (simp add: cfg_normalizeHostName_def targetServerHostname_def url_of_def)
qed

text \<open>\<open>net.ResolveTCPAddr\<close> of a port alone has no host to resolve.\<close>

definition resolves_ports :: "('w, 'u) boot_env \<Rightarrow> bool" where
  "resolves_ports env = (\<forall>a x. port_address a \<longrightarrow> bt_ResolveTCPAddr env a = Ok x \<longrightarrow> x = a)"

lemma register_port:
  assumes r: "ready (bt_cfg env) content w d" and p: "port_address a" "resolves_ports env"
    and run: "registerLocalAgent env a w = (None, w')"
  shows "AgentAddressIfRegistered (bt_cfg env) KLocalhost w' = (Ok (a, True), w')"
proof -
  let ?lib = "config_env.ce_url (bt_cfg env)"
  have c: "url_contract ?lib" using r by (simp add: ready_def)
  note row = port_address_row [OF c p(1)]
  have up: "UpsertAgentForHostInConfig (bt_cfg env) KLocalhost (agent_at env a) w = (None, w')"
    using run p by (auto simp: registerLocalAgent_def resolves_ports_def wrap_step_def prod_eq_iff split: sum.splits)
  have host: "agent_host ?lib (agent_at env a) = KLocalhost" using row(2) by (simp add: agent_host_def agent_at_def)
  have "good_address ?lib (ag_TargetSrv (agent_at env a))" using row(3) by (simp add: agent_at_def)
  from upsert_refines [OF r this, of KLocalhost] host row(4) up
  obtain m d' where m: "registry_spec ?lib (UpsertOp KLocalhost (agent_at env a)) (registry_map ?lib (cd_Agents d)) = Some m"
    "readCLIAgentData (bt_cfg env) w' = (Inr d', w')" "registry_map ?lib (cd_Agents d') = m" "wf_registry ?lib (cd_Agents d')"
    unfolding refines_def by auto
  have "normalizeAgent ?lib (agent_at env a) = Ok (agent_at env a)" using row(1) by (simp add: normalizeAgent_def agent_at_def)
  then have "m KLocalhost = Some (agent_at env a)" using m(1) host by (auto simp: with_normal_def)
  then have "address_of ?lib KLocalhost (cd_Agents d') = a" using address_of_map [OF m(4), of KLocalhost] m(3) by (simp add: agent_at_def)
  then show ?thesis
    using m(2) row(4) port_address_shape(6) [OF p(1)] by (simp add: AgentAddressIfRegistered_def invokeWithCLIAgentData_def)
qed

lemma ready_same: "ready cfg content w d \<Longrightarrow> content w' = content w \<Longrightarrow> ready cfg content w' d"
  using read_same [of cfg content w' w] by (simp add: ready_def)

lemma running_content:
  assumes "cli_store (bt_cfg env) content" "quiet env content" "isAgentRunning env h w = (r, w')"
  shows "content w' = content w"
  using assms(3) read_world [OF assms(1), of w] verify_content [OF assms(1,2)] quietD(2) [OF assms(2)]
  by (auto simp: isAgentRunning_def AgentAddressIfRegistered_def invokeWithCLIAgentData_def Let_def
      split: prod.splits sum.splits if_splits option.splits)

text \<open>
  C10. A local agent that was started is the one that is registered: when the start succeeds,
  the registry's address for \<open>localhost\<close> is an address at which an agent passed verification.
\<close>

theorem started_agent_is_registered:
  assumes "ready (bt_cfg env) content (cs_agent st) d" "quiet env content" "resolves_ports env"
    and "isLocalHost (bt_lib env) (started_host hostname)" "StartAgent env hostname st = Some (Started, st')"
  shows "\<exists>a w0 w1. AgentAddressIfRegistered (bt_cfg env) KLocalhost (cs_agent st') = (Ok (a, True), cs_agent st') \<and>
    verifyAgentHealth env a w0 = (None, w1)"
proof -
  have store: "cli_store (bt_cfg env) content" using assms(1) by (simp add: ready_def)
  obtain r w1 where run: "isAgentRunning env (started_host hostname) (cs_agent st) = (r, w1)" by (metis surj_pair)
  then have fire: "fireLocalAgent env (st\<lparr>cs_agent := w1\<rparr>) = Some (None, st')"
    using assms(4,5) by (auto simp: StartAgent_def Let_def outcome_of_def split: sum.splits prod.splits bool.splits option.splits)
  obtain w2 where certs: "ensureRuntimeCerts env w1 = (None, w2)" "ensure_binaries (bt_os env) localAgentRequiredBinaries w1 = None"
    using fire by (auto simp: fireLocalAgent_def split: option.splits prod.splits)
  obtain a st2 where start: "startAgent env (st\<lparr>cs_agent := w2\<rparr>) = Some (Ok a, st2)"
    and reg: "registerLocalAgent env a (cs_agent st2) = (None, cs_agent st')"
    using fire certs by (auto simp: fireLocalAgent_def on_agent_def split: option.splits prod.splits sum.splits)
  have "content (cs_agent st2) = content (cs_agent st)"
    using started_local(2) [OF assms(2) store start] running_content [OF store assms(2) run]
      ensure_certs_content [OF assms(2) certs(1) [unfolded ensureRuntimeCerts_def]] by simp
  from register_port [OF ready_same [OF assms(1) this] started_local(1) [OF assms(2) store start] assms(3) reg]
  show ?thesis using started_local(3) [OF assms(2) store start] by blast
qed

section \<open>What reaching an agent leaves in the store\<close>

text \<open>A start writes the recorded process at most: no project, no selection, nothing of the SSH configuration.\<close>

definition same_store :: "'w client_state \<Rightarrow> 'w client_state \<Rightarrow> bool" where
  "same_store st st' = (cs_ssh st' = cs_ssh st \<and> d_Projects (cs_data st') = d_Projects (cs_data st) \<and>
     d_ProjectContext (cs_data st') = d_ProjectContext (cs_data st))"

lemma ownership_projects [simp]:
  "d_Projects (recordManagedAgentOwnership a b p d) = d_Projects d"
  "d_ProjectContext (recordManagedAgentOwnership a b p d) = d_ProjectContext d"
  by (simp_all add: recordManagedAgentOwnership_def SetHostAgentOwnership_def update_host_def bind_ok_def wrap_error_def split: option.split sum.split)

lemma start_store: "startAgent env st = Some (r, st') \<Longrightarrow> same_store st st'"
  by (auto simp: startAgent_def same_store_def split: prod.splits sum.splits option.splits)

lemma fire_store: "fireLocalAgent env st = Some (e, st') \<Longrightarrow> same_store st st'"
  by (auto simp: fireLocalAgent_def same_store_def on_agent_def dest!: start_store split: prod.splits sum.splits option.splits)

lemma start_agent_store: "StartAgent env hostname st = Some (outcome, st') \<Longrightarrow> same_store st st'"
  by (auto simp: StartAgent_def Let_def same_store_def dest!: fire_store
      split: prod.splits sum.splits bool.splits if_splits option.splits)

section \<open>Stopping\<close>


lemma ownership_reads_back:
  assumes "HasHost d KLocalhost"
  shows "GetHostAgentOwnership (recordManagedAgentOwnership a b p d) KLocalhost =
    \<lparr>ao_PID = p, ao_Address = a, ao_Binary = b, ao_Manager = ''process''\<rparr>"
proof -
  let ?same = "\<lambda>h. normalizeHostName (h_Name h) = normalizeHostName KLocalhost"
  let ?f = "\<lambda>h. h\<lparr>h_AgentOwnership := \<lparr>a_PID = p, a_Address = a, a_Binary = b, a_Manager = ''process''\<rparr>\<rparr>"
  obtain h where h: "find ?same (d_Hosts d) = Some h"
    using assms by (auto simp: HasHost_def get_host_def getHost_def FindElemFromSlice_find ok_or_def bind_ok_def split: option.splits)
  then have "recordManagedAgentOwnership a b p d = d\<lparr>d_Hosts := update_first ?same ?f (d_Hosts d)\<rparr>"
    by (simp add: recordManagedAgentOwnership_def SetHostAgentOwnership_def update_host_def getHost_def FindElemFromSlice_find)
  moreover have "find ?same (update_first ?same ?f (d_Hosts d)) = Some (?f h)"
    using find_update_first_same [of ?same ?f "d_Hosts d"] h by simp
  ultimately show ?thesis by (simp add: GetHostAgentOwnership_def get_host_def getHost_def FindElemFromSlice_find ok_or_def)
qed

text \<open>
  C15. An agent that was started can be stopped: when the store knows the local host, what the
  start records is enough for a later stop to signal the process that was started, as long as
  that process still runs the program; when it does not know the host, nothing is recorded and
  a stop does nothing of its own.
\<close>

theorem started_agent_can_be_stopped:
  assumes "launch_agent env (cs_agent st) = (Ok (c, a, pid), w1)" "startAgent env st = Some (Ok a, st')"
    and "\<not> os_windows os" "pid > 0" "cmd_name c \<noteq> []"
    and "os_ProcessName os pid w = Ok n" "path_Base (TrimSpace n) = path_Base (TrimSpace (cmd_name c))"
  shows "(if HasHost (cs_data st) KLocalhost
    then snd (StopAgent os (cs_data st') KLocalhost w) = snd (os_Signal os pid w) \<and>
      (fst (StopAgent os (cs_data st') KLocalhost w) = None \<longleftrightarrow> fst (os_Signal os pid w) = None)
    else cs_data st' = cs_data st)"
proof -
  have d: "cs_data st' = recordManagedAgentOwnership a (cmd_name c) pid (cs_data st)"
    using assms(1,2) by (auto simp: startAgent_def split: option.splits prod.splits)
  show ?thesis
  proof (cases "HasHost (cs_data st) KLocalhost")
    case True
    then show ?thesis
      using assms(3-7) ownership_reads_back [OF True]
      by (simp add: d StopAgent_def StopManagedAgent_def isProcessManagedAgent_def matchesOwnedAgentProcess_def KLocalhost_def
          split: prod.split option.split)
  next
    case False
    then show ?thesis
      by (simp add: d recordManagedAgentOwnership_def SetHostAgentOwnership_def update_host_def HasHost_def is_ok_def split: sum.splits)
  qed
qed

text \<open>
  Reaching an agent never changes which projects there are or which one is selected,
  whether it starts the agent, finds it running, or fails; the project commands rely on it.
\<close>

theorem reaching_agents_keeps_projects: "start_keeps_projects (boot_link env services)"
proof -
  have "keeps_projects (cs_data st) (cs_data (snd (start_total env h st)))" for h st
  proof (cases "StartAgent env h st")
    case (Some r)
    then show ?thesis using start_agent_store [of env h st "fst r" "snd r"]
      by (simp add: start_total_def same_store_def keeps_projects_def ListProjects_def GetCurrentProject_def)
  qed (simp add: start_total_def)
  moreover have "cs_data (snd (connect_in env services h st)) = cs_data st" for h st
    by (simp add: connect_in_def on_agent_def split: prod.split)
  ultimately show ?thesis by (simp add: start_keeps_projects_def boot_link_def)
qed

section \<open>Hosts\<close>

lemma detect_engine: "Detect lib w = Ok info \<Longrightarrow> rt_Engine info \<noteq> []"
  by (auto simp: Detect_def EnginePodman_def bind_ok_def split: if_splits sum.splits)

lemma runtime_reads_back:
  assumes "SetHostRuntime h info d = Ok d'"
  shows "HasHost d' h" "GetHostRuntime d' h = info"
proof -
  let ?same = "\<lambda>x. normalizeHostName (h_Name x) = normalizeHostName h"
  let ?f = "\<lambda>x. x\<lparr>h_RuntimeInfo := \<lparr>r_Engine = rt_Engine info, r_Version = rt_Version info\<rparr>\<rparr>"
  obtain x where x: "find ?same (d_Hosts d) = Some x" "d' = d\<lparr>d_Hosts := update_first ?same ?f (d_Hosts d)\<rparr>"
    using assms by (auto simp: SetHostRuntime_def update_host_def getHost_def FindElemFromSlice_find split: option.splits)
  have "find ?same (update_first ?same ?f (d_Hosts d)) = Some (?f x)"
    using find_update_first_same [of ?same ?f "d_Hosts d"] x(1) by simp
  then show "HasHost d' h" "GetHostRuntime d' h = info"
    by (simp_all add: x(2) GetHostRuntime_def HasHost_def get_host_def getHost_def FindElemFromSlice_find ok_or_def)
qed

text \<open>
  Registering the local host is idempotent: after one registration, another one reports the
  same runtime as already registered and changes nothing, even when podman is gone by then.
\<close>

theorem register_local_host_idempotent:
  assumes "registerLocalHost henv h w d = (Ok (info, again), d')"
  shows "registerLocalHost henv' h w' d' = (Ok (info, True), d')"
proof -
  have "HasHost d' h \<and> GetHostRuntime d' h = info \<and> (rt_Engine info \<noteq> [] \<or> rt_Version info \<noteq> [])"
  proof (cases "HasHost d h \<and> (rt_Engine (GetHostRuntime d h) \<noteq> [] \<or> rt_Version (GetHostRuntime d h) \<noteq> [])")
    case True
    then show ?thesis using assms by (auto simp: registerLocalHost_def Let_def)
  next
    case False
    then obtain d1 where "Detect (he_runtime henv) w = Ok info" "SetHostRuntime h info d1 = Ok d'"
      using assms by (auto simp: registerLocalHost_def Let_def split: sum.splits)
    then show ?thesis using runtime_reads_back [of h info d1 d'] detect_engine [of "he_runtime henv" w info] by simp
  qed
  then show ?thesis by (simp add: registerLocalHost_def)
qed

text \<open>
  Deleting a host takes the host's name as it was typed, while the registry ignores case:
  \<open>LOCALHOST\<close> deletes the registration of \<open>localhost\<close>, but stops no agent and leaves the row
  of the local host, with its runtime and the recorded process, in the store.
\<close>

theorem delete_host_in_capitals:
  assumes "ready (bt_cfg env) content (cs_agent st) d" "host_delete env ''LOCALHOST'' st = (None, st')"
  shows "AgentAddressIfRegistered (bt_cfg env) KLocalhost (cs_agent st') = (Ok ([], False), cs_agent st') \<and>
    cs_data st' = cs_data st \<and> (None, cs_agent st') = DeleteAgentFromConfig (bt_cfg env) ''LOCALHOST'' (cs_agent st)"
proof -
  let ?lib = "config_env.ce_url (bt_cfg env)" and ?w = "cs_agent st"
  have c: "TrimSpace ''LOCALHOST'' = ''LOCALHOST''" "\<not> HasPrefix ''LOCALHOST'' '':''" "\<not> Contains ''LOCALHOST'' ''://''"
    "SplitHostPort ''LOCALHOST'' = Inl missingPort" "ToLower ''LOCALHOST'' = KLocalhost" "''LOCALHOST'' \<noteq> KLocalhost"
    "TrimSpace KLocalhost = KLocalhost" "ToLower KLocalhost = KLocalhost" "\<not> HasPrefix KLocalhost '':''" "KLocalhost \<noteq> []"
    "\<not> Contains KLocalhost ''://''" "SplitHostPort KLocalhost = Inl missingPort" by code_simp+
  have "bootstrapHostName (bt_lib env) ''LOCALHOST'' = Ok ''LOCALHOST''" by (simp add: bootstrapHostName_def Let_def c)
  then have del: "DeleteAgentFromConfig (bt_cfg env) ''LOCALHOST'' ?w = (None, cs_agent st')" and data: "cs_data st' = cs_data st"
    using assms(2) c(6) by (auto simp: host_delete_def isLocalTarget_def err_seq_def split: prod.splits option.splits)
  have norm: "normalizeTargetServer ?lib ''LOCALHOST'' = Ok KLocalhost" "targetServerHostname ?lib KLocalhost = KLocalhost"
    "cfg_normalizeHostName ?lib KLocalhost = KLocalhost"
    by (simp_all add: normalizeTargetServer_def targetServerHostname_def cfg_normalizeHostName_def url_of_def c)
  obtain m d' where m: "registry_spec ?lib (DeleteOp ''LOCALHOST'') (registry_map ?lib (cd_Agents d)) = Some m"
    "readCLIAgentData (bt_cfg env) (cs_agent st') = (Inr d', cs_agent st')" "registry_map ?lib (cd_Agents d') = m"
    "wf_registry ?lib (cd_Agents d')"
    using delete_refines [OF assms(1), of "''LOCALHOST''"] del unfolding refines_def by auto
  have "m KLocalhost = None" using m(1) norm by (auto simp: Let_def split: if_splits)
  then have "address_of ?lib KLocalhost (cd_Agents d') = []" using address_of_map [OF m(4), of KLocalhost] m(3) by simp
  then show ?thesis
    using m(2) norm(3) del data by (simp add: AgentAddressIfRegistered_def invokeWithCLIAgentData_def)
qed

text \<open>
  When an agent already runs at \<open>localhost:9000\<close>, starting one registers the address again
  under the number that the name resolves to: the row moves to the host \<open>127.0.0.1\<close>, and the
  registry has no address for \<open>localhost\<close> any more.
\<close>

theorem running_agent_loses_its_name:
  assumes "ready (bt_cfg env) content w d" "bt_ResolveTCPAddr env ''localhost:9000'' = Ok ''127.0.0.1:9000''"
    and "url_of (bt_lib env) ''127.0.0.1:9000'' = None"
    and "registry_map (bt_lib env) (cd_Agents d) KLocalhost = Some a0" "registry_map (bt_lib env) (cd_Agents d) ''127.0.0.1'' = None"
    and "registerLocalAgent env ''localhost:9000'' w = (None, w')"
  shows "AgentAddressIfRegistered (bt_cfg env) KLocalhost w' = (Ok ([], False), w')"
proof -
  let ?lib = "config_env.ce_url (bt_cfg env)" and ?n = "agent_at env ''127.0.0.1:9000''" and ?as = "cd_Agents d"
  have c: "TrimSpace ''127.0.0.1:9000'' = ''127.0.0.1:9000''" "\<not> HasPrefix ''127.0.0.1:9000'' '':''"
    "SplitHostPort ''127.0.0.1:9000'' = Ok (''127.0.0.1'', ''9000'')" "JoinHostPort (ToLower ''127.0.0.1'') ''9000'' = ''127.0.0.1:9000''"
    "ToLower ''127.0.0.1'' = ''127.0.0.1''" "''127.0.0.1'' \<noteq> KLocalhost"
    "TrimSpace KLocalhost = KLocalhost" "ToLower KLocalhost = KLocalhost" "\<not> HasPrefix KLocalhost '':''" "KLocalhost \<noteq> []"
    "\<not> Contains KLocalhost ''://''" "SplitHostPort KLocalhost = Inl missingPort" by code_simp+
  have u: "url_of ?lib ''127.0.0.1:9000'' = None" using assms(3) by (simp add: bt_lib_def)
  have host: "cfg_normalizeHostName ?lib KLocalhost = KLocalhost" "targetServerHostname ?lib ''127.0.0.1:9000'' = ''127.0.0.1''"
    by (simp_all add: targetServerHostname_def cfg_normalizeHostName_def url_of_def c u [unfolded url_of_def])
  have norm: "normalizeAgent ?lib ?n = Ok ?n"
    using c u by (simp add: normalizeAgent_def normalizeTargetServer_def agent_at_def)
  have good: "good_address ?lib (ag_TargetSrv ?n)" by (simp add: good_address_def agent_at_def c(1))
  have n: "normal_agent ?lib ?n" "agent_host ?lib ?n = ''127.0.0.1''"
    using normalizeAgent_Inr(1) [OF _ good norm] assms(1) host(2) by (simp_all add: ready_def agent_host_def) (simp add: agent_at_def)
  have wf: "wf_registry ?lib ?as" using assms(1) by (simp add: ready_def)
  obtain i where i: "findAgentHostIndex ?lib ?as KLocalhost = Some i"
    using assms(4) host_index_None [of ?lib ?as KLocalhost] by (cases "findAgentHostIndex ?lib ?as KLocalhost") (auto simp: bt_lib_def)
  note at = host_index_Some [OF i]
  have new: "agent_host ?lib ?n \<notin> agent_host ?lib ` set ?as" using assms(5) n(2) by (simp add: registry_map_None bt_lib_def)
  note rep = wf_replace [OF wf conjunct1 [OF at] n(1) disjI2 [OF new]]
  have run: "updateCLIAgentData (bt_cfg env) (upsert_agent ?lib KLocalhost ?n) w = (None, w')"
    using assms(2,6) norm host(1)
    by (auto simp: registerLocalAgent_def UpsertAgentForHostInConfig_def or_error_def wrap_step_def prod_eq_iff)
  have "upsert_agent ?lib KLocalhost ?n d = Inr (with_agents (?as[i := ?n]) d)" using i by (simp add: upsert_agent_def)
  from ready_keep [where f = "upsert_agent ?lib KLocalhost ?n", OF assms(1) this rep(1) rep(2)] run
  obtain d' where d': "readCLIAgentData (bt_cfg env) w' = (Inr d', w')" "wf_registry ?lib (cd_Agents d')"
    "registry_map ?lib (cd_Agents d') = (registry_map ?lib ?as)(agent_host ?lib (?as ! i) := None, agent_host ?lib ?n \<mapsto> ?n)"
    unfolding refines_def by auto
  then have "registry_map ?lib (cd_Agents d') KLocalhost = None" using at n(2) c(6) by simp
  then show ?thesis using d'(1) address_of_map [OF d'(2), of KLocalhost] host(1)
    by (simp add: AgentAddressIfRegistered_def invokeWithCLIAgentData_def)
qed

section \<open>Examples\<close>

text \<open>
  A machine: the text of the registry and the clock. The YAML package knows four registries;
  nothing listens until a process is started, which the second number counts.
\<close>

type_synonym machine = "string \<times> nat \<times> nat"

definition row_at :: "string \<Rightarrow> agent" where
  "row_at a = \<lparr>ag_Certs = \<lparr>tls_CA = ''/certs/ca.pem'', tls_Cert = ''/certs/client.pem'', tls_Key = ''/certs/client-key.pem''\<rparr>,
     ag_SshTunnel = False, ag_TargetSrv = a\<rparr>"

definition boot_texts :: "(string \<times> agent list) list" where
  "boot_texts = [([], []), (''a'', [row_at '':8087'']), (''b'', [row_at ''localhost:9000'']), (''c'', [row_at ''127.0.0.1:9000''])]"

definition boot_yaml :: yaml where
  "boot_yaml = \<lparr>y_read_manifest = \<lambda>_. Ok (defaultManifest (\<lambda>f. CHR ''/'' # f)), y_write_manifest = \<lambda>_. Fail [],
     y_read_cli = \<lambda>b. case find (\<lambda>e. fst e = b) boot_texts of Some e \<Rightarrow> Ok (sample_registry (snd e)) | None \<Rightarrow> Fail [],
     y_write_cli = \<lambda>d. case find (\<lambda>e. sample_registry (snd e) = d) boot_texts of Some e \<Rightarrow> Ok (fst e) | None \<Rightarrow> Fail [],
     y_read_agent = \<lambda>_. Fail [], y_write_agent = \<lambda>_. Fail []\<rparr>"

definition boot_config :: "(machine, unit) config_env" where
  "boot_config = \<lparr>ce_io = \<lparr>fs_Abs = Ok, fs_IsDir = \<lambda>_ _. Ok False, fs_Exists = \<lambda>_ _. True, fs_ReadFile = \<lambda>_ w. Ok (fst w),
       fs_EnsureDir = \<lambda>_ w. (None, w), fs_WriteFile = \<lambda>_ c w. (None, (c, snd w)), fs_RemoveAll = \<lambda>_ w. (None, w),
       fs_EnsureConfigDir = \<lambda>_ w. (None, w)\<rparr>,
     ce_yaml = boot_yaml,
     ce_url = \<lparr>url_Parse = \<lambda>_. None, url_Hostname = \<lambda>_. [], url_lower_host = id, url_String = \<lambda>_. []\<rparr>,
     ce_ConfigFile = \<lambda>f. CHR ''/'' # f, ce_ClientConfigDir = id, ce_AgentConfigDir = id\<rparr>"

definition boot_os :: "machine os_lib" where
  "boot_os = \<lparr>os_windows = False, os_Getenv = \<lambda>_. [], os_Executable = Fail [], os_Getwd = Fail [],
     os_LookPath = \<lambda>n w. Inr (''/bin/'' @ n), os_Stat = \<lambda>p w. Inr \<lparr>fi_IsDir = False, fi_Executable = True\<rparr>,
     os_ReadFile = \<lambda>p w. Fail [], os_ProcessName = \<lambda>pid w. if pid = 7 \<and> snd (snd w) = 1 then Ok ''cds-api-agent'' else Fail [],
     os_Signal = \<lambda>pid w. (None, (fst w, fst (snd w), 0))\<rparr>"

definition boot_machine :: "(machine, unit) boot_env" where
  "boot_machine = \<lparr>bt_os = boot_os, bt_cfg = boot_config, bt_url = \<lparr>url_Port = \<lambda>_. [], url_ParseError = \<lambda>_. NewError []\<rparr>,
     bt_ConfigDir = \<lambda>f. CHR ''/'' # f,
     bt_Listen = \<lambda>a w. (Ok (TCPAddr 8087), w),
     bt_ResolveTCPAddr = \<lambda>a. Ok (if a = ''localhost:9000'' then ''127.0.0.1:9000'' else a),
     bt_Dial = \<lambda>a w. (if snd (snd w) = 1 then None else Some (NewError ''refused''), w),
     bt_SetupTLS = \<lambda>f w. None, bt_NewClient = \<lambda>a. None,
     bt_GetVersion = \<lambda>a f w. (if snd (snd w) = 1 then Ok ''v1'' else Fail ''unavailable'', w),
     bt_Start = \<lambda>c w. (Ok 7, (fst w, fst (snd w), 1)),
     bt_Run = \<lambda>c d e w. (([], Some (NewError ''no network'')), w), bt_MkdirTemp = \<lambda>p w. (Fail [], w), bt_RemoveAll = \<lambda>p w. w,
     bt_BuildCerts = \<lambda>w. (None, w), bt_now = \<lambda>w. fst (snd w), bt_Sleep = \<lambda>n w. (fst w, fst (snd w) + n, snd (snd w))\<rparr>"

definition boot_state :: "string \<Rightarrow> nat \<Rightarrow> machine client_state" where
  "boot_state reg n = \<lparr>cs_data = AddHost ''localhost'' ''me'' sample_db, cs_ssh = None, cs_agent = (reg, 0, n)\<rparr>"

lemma boot_machine_works:
  "quiet boot_machine fst" "resolves_ports boot_machine" "clock_runs boot_machine"
  "ready boot_config fst ([], w) (sample_registry [])" "ready boot_config fst (''b'', w) (sample_registry [row_at ''localhost:9000''])"
proof -
  show "quiet boot_machine fst" by (simp add: quiet_def boot_machine_def)
  show "resolves_ports boot_machine" by (auto simp: resolves_ports_def boot_machine_def port_address_def)
  have u: "url_of (config_env.ce_url boot_config) s = None" for s by (simp add: url_of_def boot_config_def)
  then have url: "url_contract (config_env.ce_url boot_config)" by (simp add: url_contract_def)
  have "cliConfigSource boot_config w = (Inr (localSource ''/cliconfig.yaml''), w)" for w
    by (simp add: cliConfigSource_def ensured_source_def manifestSource_def LoadManifest_def boot_config_def boot_yaml_def
        NewLocalSource_def Manifest_Resolve_def defaultManifest_def SourceKeyCLIAgentConfig_def SourceKeyProfile_def SourceKeyDB_def
        SourceTypeFromString_def EnsureSourceWithDefault_def) (code_simp)
  then have store: "cli_store boot_config fst" by (simp add: cli_store_def) (simp add: boot_config_def)
  have yaml: "yaml_reads_back boot_config"
    by (auto simp: yaml_reads_back_def boot_config_def boot_yaml_def boot_texts_def sample_registry_def row_at_def
        split: option.splits if_splits)
  have world: "snd (verifyAgentHealth boot_machine a w) = w" for a w
    by (rule verify_world [of _ fst]) (simp_all add: boot_machine_def store)
  show "clock_runs boot_machine" by (simp add: clock_runs_def world) (simp add: boot_machine_def)
  have trim: "TrimSpace ''localhost:9000'' = ''localhost:9000''" by code_simp
  have norm: "normalizeTargetServer (config_env.ce_url boot_config) ''localhost:9000'' = Ok ''localhost:9000''" by code_simp
  have wf: "wf_registry (config_env.ce_url boot_config) []" "wf_registry (config_env.ce_url boot_config) [row_at ''localhost:9000'']"
    using trim norm by (simp_all add: wf_registry_def normal_agent_def address_ok_def good_address_def row_at_def)
  have "readCLIAgentData boot_config ([], w) = (Inr (sample_registry []), ([], w))"
    "readCLIAgentData boot_config (''b'', w) = (Inr (sample_registry [row_at ''localhost:9000'']), (''b'', w))"
    using read_content [OF store] by (simp_all add: boot_config_def boot_yaml_def) (code_simp)+
  with url store yaml wf show "ready boot_config fst ([], w) (sample_registry [])"
    "ready boot_config fst (''b'', w) (sample_registry [row_at ''localhost:9000''])"
    by (simp_all add: ready_def sample_registry_def)
qed

definition boot_command :: agentCommand where
  "boot_command = \<lparr>cmd_name = ''/bin/cds-api-agent'', cmd_args = [''-port'', ''8087''], cmd_dir = []\<rparr>"

text \<open>The first start on the machine: nothing runs, the agent is started, answers and is registered.\<close>

lemma boot_run:
  "launch_agent boot_machine ([], 0, 0) = (Ok (boot_command, '':8087'', 7), ([], 0, 1))"
  "startAgent boot_machine (boot_state [] 0) = Some (Ok '':8087'', (boot_state [] 1)
     \<lparr>cs_data := recordManagedAgentOwnership '':8087'' ''/bin/cds-api-agent'' 7 (cs_data (boot_state [] 0))\<rparr>)"
  "StartAgent boot_machine ''localhost'' (boot_state [] 0) = Some (Started, (boot_state ''a'' 1)
     \<lparr>cs_data := recordManagedAgentOwnership '':8087'' ''/bin/cds-api-agent'' 7 (cs_data (boot_state [] 0))\<rparr>)"
proof -
  show launch: "launch_agent boot_machine ([], 0, 0) = (Ok (boot_command, '':8087'', 7), ([], 0, 1))" by code_simp
  have health: "verifyAgentHealth boot_machine '':8087'' ([], 0, 1) = (None, ([], 0, 1))" by code_simp
  then have wait: "waitForHealthyAgent boot_machine '':8087'' ([], 0, 1) = Some (None, ([], 0, 1))"
    by (simp add: waitForHealthyAgent_def poll_until.simps)
  have n: "cmd_name boot_command = ''/bin/cds-api-agent''" by (simp add: boot_command_def)
  show start: "startAgent boot_machine (boot_state [] 0) = Some (Ok '':8087'', (boot_state [] 1)
     \<lparr>cs_data := recordManagedAgentOwnership '':8087'' ''/bin/cds-api-agent'' 7 (cs_data (boot_state [] 0))\<rparr>)"
    using launch wait n by (simp add: startAgent_def boot_state_def)
  have "isAgentRunning boot_machine ''localhost'' ([], 0, 0) = (Ok (False, '':8087''), ([], 0, 0))"
    "ensureRuntimeCerts boot_machine ([], 0, 0) = (None, ([], 0, 0))"
    "ensure_binaries (bt_os boot_machine) localAgentRequiredBinaries ([], 0, 0) = None"
    "registerLocalAgent boot_machine '':8087'' ([], 0, 1) = (None, (''a'', 0, 1))"
    "isLocalHost (bt_lib boot_machine) ''localhost''" "started_host ''localhost'' = ''localhost''" by code_simp+
  then show "StartAgent boot_machine ''localhost'' (boot_state [] 0) = Some (Started, (boot_state ''a'' 1)
     \<lparr>cs_data := recordManagedAgentOwnership '':8087'' ''/bin/cds-api-agent'' 7 (cs_data (boot_state [] 0))\<rparr>)"
    using start by (simp add: StartAgent_def fireLocalAgent_def boot_state_def on_agent_def outcome_of_def)
qed

theorem started_agent_is_registered_witness:
  "\<exists>a w0 w1. AgentAddressIfRegistered (bt_cfg boot_machine) KLocalhost (''a'', 0, 1) = (Ok (a, True), (''a'', 0, 1)) \<and>
    verifyAgentHealth boot_machine a w0 = (None, w1)"
proof -
  have r: "ready (bt_cfg boot_machine) fst (cs_agent (boot_state [] 0)) (sample_registry [])"
    using boot_machine_works(4) by (simp add: boot_machine_def boot_state_def)
  have l: "isLocalHost (bt_lib boot_machine) (started_host ''localhost'')" by code_simp
  show ?thesis using started_agent_is_registered [OF r boot_machine_works(1,2) l boot_run(3)] by (simp add: boot_state_def)
qed

theorem start_agent_ends_witness: "\<exists>outcome st'. StartAgent boot_machine ''box'' (boot_state [] 0) = Some (outcome, st')"
  by (rule start_agent_ends [OF boot_machine_works(3)])


definition boot_started :: data where
  "boot_started = recordManagedAgentOwnership '':8087'' ''/bin/cds-api-agent'' 7 (cs_data (boot_state [] 0))"


theorem started_agent_can_be_stopped_witness:
  "snd (StopAgent boot_os boot_started KLocalhost (''a'', 0, 1)) = (''a'', 0, 0)"
proof -
  have c: "\<not> os_windows boot_os" "(7::int) > 0" "cmd_name boot_command \<noteq> []"
    "os_ProcessName boot_os 7 (''a'', 0, 1) = Ok ''cds-api-agent''"
    "path_Base (TrimSpace ''cds-api-agent'') = path_Base (TrimSpace (cmd_name boot_command))"
    "HasHost (cs_data (boot_state [] 0)) KLocalhost" "snd (os_Signal boot_os 7 (''a'', 0, 1)) = (''a'', 0, 0)" by code_simp+
  have l: "launch_agent boot_machine (cs_agent (boot_state [] 0)) = (Ok (boot_command, '':8087'', 7), ([], 0, 1))"
    using boot_run(1) by (simp add: boot_state_def)
  show ?thesis using started_agent_can_be_stopped [OF l boot_run(2) c(1-5)] c(6,7) by (simp add: boot_started_def)
qed

theorem running_agent_loses_its_name_witness:
  "AgentAddressIfRegistered boot_config KLocalhost (''b'', 0, 1) = (Ok (''localhost:9000'', True), (''b'', 0, 1)) \<and>
   registerLocalAgent boot_machine ''localhost:9000'' (''b'', 0, 1) = (None, (''c'', 0, 1)) \<and>
   AgentAddressIfRegistered boot_config KLocalhost (''c'', 0, 1) = (Ok ([], False), (''c'', 0, 1))"
proof -
  have cfg: "bt_cfg boot_machine = boot_config" by (simp add: boot_machine_def)
  have before: "AgentAddressIfRegistered boot_config KLocalhost (''b'', 0, 1) = (Ok (''localhost:9000'', True), (''b'', 0, 1))" by code_simp
  have r: "ready (bt_cfg boot_machine) fst (''b'', 0, 1) (sample_registry [row_at ''localhost:9000''])"
    using boot_machine_works(5) by (simp add: cfg)
  have run: "bt_ResolveTCPAddr boot_machine ''localhost:9000'' = Ok ''127.0.0.1:9000''"
    "url_of (bt_lib boot_machine) ''127.0.0.1:9000'' = None"
    "registry_map (bt_lib boot_machine) (cd_Agents (sample_registry [row_at ''localhost:9000''])) KLocalhost = Some (row_at ''localhost:9000'')"
    "registry_map (bt_lib boot_machine) (cd_Agents (sample_registry [row_at ''localhost:9000''])) ''127.0.0.1'' = None"
    "registerLocalAgent boot_machine ''localhost:9000'' (''b'', 0, 1) = (None, (''c'', 0, 1))" by code_simp+
  from running_agent_loses_its_name [OF r run] run(5) before show ?thesis by (simp add: cfg)
qed

end
