(* ===== verification/ProjectAccess.thy ===== *)
theory ProjectAccess
  imports ProjectCommands
begin

text \<open>
  Getting into a project's container (\<open>internal/command\<close>): the target of an ssh session
  (\<open>project_access.go\<close>, \<open>project_ssh.go\<close>, \<open>project_rsh.go\<close>, \<open>project_expose.go\<close>), sharing a
  container with a key pair of the project (\<open>project_share.go\<close>, \<open>project_unshare.go\<close>,
  \<open>project_share_key.go\<close>), and the registration of a host with a new key (\<open>internal/host\<close>).

  The state is that of the client with its files. An ssh session itself is not modelled: the
  result is the target that is handed to the ssh library.
\<close>

section \<open>The target of a session\<close>

record ssh_target =
  st_FQDN :: string
  st_Username :: string
  st_Port :: int
  st_PathToPrv :: string
  st_PathToPub :: string

record 'u access_env =
  ac_command :: "'u command_env"
  ac_keys :: key_lib
  ac_RemoveError :: "string \<Rightarrow> err option"

type_synonym 'a access_state = "'a client_state \<times> files"

definition project_keys :: "'u access_env \<Rightarrow> string \<Rightarrow> 'a access_state \<Rightarrow> (string \<times> string) result \<times> 'a access_state" where
  "project_keys env proj st =
     (case ensureProjectSSHKeyPair (ce_url (ac_command env)) (ac_keys env) proj (cs_data (fst st), snd st) of
        (r, d1, fs1) \<Rightarrow> (r, ((fst st)\<lparr>cs_data := d1\<rparr>, fs1)))"

text \<open>The target for a container, a user and the port that the store knows.\<close>

definition target_for :: "'u access_env \<Rightarrow> string \<Rightarrow> string \<Rightarrow> int \<Rightarrow> 'a access_state \<Rightarrow> ssh_target result \<times> 'a access_state" where
  "target_for env proj user port st =
     (case project_keys env proj st of
        (Inl e, st1) \<Rightarrow> (Inl e, st1)
      | (Inr (prv, pub), st1) \<Rightarrow>
          (Ok \<lparr>st_FQDN = projectAgentHost (ce_url (ac_command env)) (cs_data (fst st1)) proj, st_Username = user,
             st_Port = port, st_PathToPrv = prv, st_PathToPub = pub\<rparr>, st1))"

definition no_ssh_port :: "string \<Rightarrow> err" where
  "no_ssh_port n = NewError (''Container '' @ Quote n @ '' does not expose an SSH port'')"

definition projectContainerSSHTarget ::
  "'u access_env \<Rightarrow> string \<Rightarrow> 'a access_state \<Rightarrow> (ssh_target \<times> string) result \<times> 'a access_state" where
  "projectContainerSSHTarget env proj st =
     (case projectPrimaryContainer (cs_data (fst st)) proj of
        Inl e \<Rightarrow> (Inl e, st)
      | Inr (n, remoteUser) \<Rightarrow>
          (let port = ContainerSSHPort (cs_data (fst st)) proj n in
           if port \<le> 0 then (Inl (no_ssh_port n), st)
           else map_prod (map_sum id (\<lambda>t. (t, n))) id (target_for env proj remoteUser port st)))"

text \<open>Synchronising the containers the store has now.\<close>

definition sync_known :: "'u access_env \<Rightarrow> 'a agent_link \<Rightarrow> string \<Rightarrow> 'a access_state \<Rightarrow> err option \<times> 'a access_state" where
  "sync_known env link proj st =
     (let containers = ProjectContainersName (cs_data (fst st)) proj;
          (e, c) = withProjectAgent (ce_url (ac_command env)) link proj
            (\<lambda>services. syncProjectContainersFromAgent (ac_command env) services proj containers False) (fst st)
      in (e, (c, snd st)))"

definition getTipSsh :: "data \<Rightarrow> string \<Rightarrow> string" where
  "getTipSsh d proj =
     ''  (use '' @ [DQ] @ ''cds project ssh'' @ (if IsCurrentProject d proj then [] else '' '' @ proj) @ [DQ] @
     '' to access your started container)''"

definition no_containers_to_ssh :: "data \<Rightarrow> string \<Rightarrow> err" where
  "no_containers_to_ssh d proj =
     NewError (''No containers to ssh into.'' @ [NL] @ getTipRun d proj @ [NL] @ getTipSsh d proj)"

definition ssh_execute :: "'u access_env \<Rightarrow> 'a agent_link \<Rightarrow> string \<Rightarrow> 'a access_state \<Rightarrow> ssh_target result \<times> 'a access_state" where
  "ssh_execute env link proj st =
     (if ProjectContainersName (cs_data (fst st)) proj = [] then (Inl (no_containers_to_ssh (cs_data (fst st)) proj), st)
      else case sync_known env link proj st of
        (Some e, st1) \<Rightarrow> (Inl e, st1)
      | (None, st1) \<Rightarrow>
          if ProjectContainersName (cs_data (fst st1)) proj = [] then (Inl (no_containers_to_ssh (cs_data (fst st1)) proj), st1)
          else map_prod (map_sum id fst) id (projectContainerSSHTarget env proj st1))"

text \<open>\<open>user\<close> is the flag; the user of the container takes its place when it is empty.\<close>

definition rsh_execute ::
  "'u access_env \<Rightarrow> 'a agent_link \<Rightarrow> string \<Rightarrow> string \<Rightarrow> 'a access_state \<Rightarrow> ssh_target result \<times> 'a access_state" where
  "rsh_execute env link user proj st =
     (let d = cs_data (fst st) in
      if ProjectContainersName d proj = []
      then (Fail (''No containers to rsh into.'' @ [NL] @ getTipRun d proj @ [NL] @ getTipSsh d proj), st)
      else case sync_known env link proj st of
        (Some e, st1) \<Rightarrow> (Inl e, st1)
      | (None, st1) \<Rightarrow>
          (let d1 = cs_data (fst st1) in
           case ProjectContainersName d1 proj of
             [] \<Rightarrow> (Fail (''No containers to open remote shell into.'' @ [NL] @ getTipRun d1 proj), st1)
           | n # _ \<Rightarrow>
               (let port = ContainerSSHPort d1 proj n;
                    remoteUser = (if user = [] then ProjectContainerRemoteUser d1 proj n else user)
                in if port \<le> 0 then (Inl (no_ssh_port n), st1)
                   else if remoteUser = [] then (Fail (''Container '' @ Quote n @ '' does not have a configured remote user''), st1)
                   else target_for env proj remoteUser port st1)))"

text \<open>The result is the target and the remote address to forward to.\<close>

definition expose_address :: "string \<Rightarrow> string \<Rightarrow> string \<Rightarrow> string result" where
  "expose_address localAddr remoteAddr serviceName =
     (if serviceName \<noteq> [] \<and> \<not> is_ok (SplitHostPort serviceName)
      then Fail ''service name lookup is not available through the agent yet; provide --remote HOST:PORT''
      else let remote = (if serviceName \<noteq> [] then serviceName else remoteAddr) in
        if remote = [] then Fail ''remote address is required; provide --remote HOST:PORT''
        else bind_ok (wrap_error (''invalid local address '' @ Quote localAddr) (SplitHostPort localAddr)) (\<lambda>_.
             bind_ok (wrap_error (''invalid remote address '' @ Quote remote) (SplitHostPort remote)) (\<lambda>_. Ok remote)))"

definition expose_execute ::
  "'u access_env \<Rightarrow> 'a agent_link \<Rightarrow> string \<Rightarrow> string \<Rightarrow> string \<Rightarrow> string \<Rightarrow> 'a access_state \<Rightarrow>
   (ssh_target \<times> string) result \<times> 'a access_state" where
  "expose_execute env link localAddr remoteAddr serviceName proj st =
     (let d = cs_data (fst st) in
      if ProjectContainersName d proj = []
      then (Fail (''No containers to expose services from.'' @ [NL] @ getTipRun d proj), st)
      else case expose_address localAddr remoteAddr serviceName of
        Inl e \<Rightarrow> (Inl e, st)
      | Inr remote \<Rightarrow>
          (case sync_known env link proj st of
             (Some e, st1) \<Rightarrow> (Inl e, st1)
           | (None, st1) \<Rightarrow> map_prod (map_sum id (\<lambda>t. (fst t, remote))) id (projectContainerSSHTarget env proj st1)))"

section \<open>The key pair that shares a project\<close>

definition projectSharedKeyUser :: string where "projectSharedKeyUser = ''root''"

definition projectSharedKeySuffix :: "string \<Rightarrow> string" where
  "projectSharedKeySuffix projectName =
     (let sanitized = map suffix_char projectName in
      if trim_by (\<lambda>c. c = CHR ''_'' \<or> c = CHR ''-'') sanitized = [] then ''cds_share_project'' else ''cds_share_'' @ sanitized)"

definition projectSharedKeyPairPaths :: "key_lib \<Rightarrow> string \<Rightarrow> sshKeyPair" where
  "projectSharedKeyPairPaths lib projectName =
     (let suffix = projectSharedKeySuffix projectName in
      \<lparr>PathToPub = path_Join [kl_HomeDir lib, ''.ssh'', ''id_rsa_'' @ suffix @ ''.pub''],
       PathToPrv = path_Join [kl_HomeDir lib, ''.ssh'', ''id_rsa_'' @ suffix]\<rparr>)"

definition stat_ok :: "key_lib \<Rightarrow> files \<Rightarrow> string \<Rightarrow> bool" where
  "stat_ok lib fs p = (fs p \<noteq> None \<or> kl_IsDir lib p)"

definition ensureProjectSharedKeyPair :: "key_lib \<Rightarrow> string \<Rightarrow> files \<Rightarrow> sshKeyPair result \<times> files" where
  "ensureProjectSharedKeyPair lib projectName fs =
     (let keyPair = projectSharedKeyPairPaths lib projectName in
      if stat_ok lib fs (PathToPrv keyPair) then
        if stat_ok lib fs (PathToPub keyPair) then (Ok keyPair, fs)
        else (case GeneratePublicKey lib (PathToPrv keyPair) fs of
            (Inl e, fs1) \<Rightarrow> (Inl e, fs1)
          | (Inr pub, fs1) \<Rightarrow> (Ok (keyPair\<lparr>PathToPub := pub\<rparr>), fs1))
      else GenerateKeyPair lib (projectSharedKeySuffix projectName) fs)"

definition shared_key_text :: "key_lib \<Rightarrow> sshKeyPair \<Rightarrow> files \<Rightarrow> (string \<times> sshKeyPair) result" where
  "shared_key_text lib keyPair fs =
     bind_ok (wrap_error (''Failed to read shared public key '' @ PathToPub keyPair) (read_file lib fs (PathToPub keyPair)))
       (\<lambda>publicKey. Ok (TrimSpace publicKey, keyPair))"

definition projectSharedPublicKey :: "key_lib \<Rightarrow> string \<Rightarrow> files \<Rightarrow> (string \<times> sshKeyPair) result \<times> files" where
  "projectSharedPublicKey lib projectName fs =
     (case ensureProjectSharedKeyPair lib projectName fs of
        (Inl e, fs1) \<Rightarrow> (Inl e, fs1) | (Inr keyPair, fs1) \<Rightarrow> (shared_key_text lib keyPair fs1, fs1))"

definition existingProjectSharedPublicKey :: "key_lib \<Rightarrow> string \<Rightarrow> files \<Rightarrow> (string \<times> sshKeyPair) result" where
  "existingProjectSharedPublicKey lib projectName fs =
     (let keyPair = projectSharedKeyPairPaths lib projectName in
      if \<not> stat_ok lib fs (PathToPub keyPair)
      then Inl (AppendError (''Shared public key '' @ PathToPub keyPair @ '' is not available'')
        (NewError (''stat '' @ PathToPub keyPair @ '': no such file or directory'')))
      else shared_key_text lib keyPair fs)"

text \<open>A file that cannot be removed only gives a warning.\<close>

fun remove_files :: "(string \<Rightarrow> err option) \<Rightarrow> string list \<Rightarrow> files \<Rightarrow> files" where
  "remove_files failing [] fs = fs"
| "remove_files failing (p # paths) fs = remove_files failing paths (if failing p = None then fs(p := None) else fs)"

definition removeProjectSharedKeyPair :: "'u access_env \<Rightarrow> string \<Rightarrow> files \<Rightarrow> files" where
  "removeProjectSharedKeyPair env projectName fs =
     (let keyPair = projectSharedKeyPairPaths (ac_keys env) projectName
      in remove_files (ac_RemoveError env) [PathToPrv keyPair, PathToPub keyPair] fs)"

definition shellQuote :: "string \<Rightarrow> string" where
  "shellQuote value = [SQ] @ ReplaceAll value [SQ] [SQ, BSL, SQ, SQ] @ [SQ]"

definition installSharedKeyCommand :: "string \<Rightarrow> string \<Rightarrow> string" where
  \<open>installSharedKeyCommand remoteUser publicKey =
     ''set -e; user='' @ shellQuote remoteUser @ ''; key='' @ shellQuote publicKey @
     ''; if ! id "$user" >/dev/null 2>&1; then if command -v useradd >/dev/null 2>&1; then useradd -m -s /bin/bash "$user"; elif command -v adduser >/dev/null 2>&1; then adduser -D "$user"; fi; fi; home_dir="$(getent passwd "$user" | cut -d: -f6)"; if [ -z "$home_dir" ]; then home_dir="/home/$user"; fi; group="$(id -gn "$user")"; mkdir -p "$home_dir/.ssh"; chmod 700 "$home_dir/.ssh"; touch "$home_dir/.ssh/authorized_keys"; grep -Fxq "$key" "$home_dir/.ssh/authorized_keys" || echo "$key" >> "$home_dir/.ssh/authorized_keys"; chmod 600 "$home_dir/.ssh/authorized_keys"; chown -R "$user:$group" "$home_dir/.ssh"''\<close>

definition removeSharedKeyCommand :: "string \<Rightarrow> string \<Rightarrow> string" where
  \<open>removeSharedKeyCommand remoteUser publicKey =
     ''set -e; user='' @ shellQuote remoteUser @ ''; key='' @ shellQuote publicKey @
     ''; home_dir="$(getent passwd "$user" | cut -d: -f6)"; if [ -z "$home_dir" ]; then home_dir="/home/$user"; fi; auth="$home_dir/.ssh/authorized_keys"; if [ -f "$auth" ]; then tmp="$(mktemp)"; grep -Fxv "$key" "$auth" > "$tmp" || true; cat "$tmp" > "$auth"; rm -f "$tmp"; chmod 600 "$auth"; if id "$user" >/dev/null 2>&1; then chown "$user:$(id -gn "$user")" "$auth"; fi; fi''\<close>

section \<open>Sharing\<close>

text \<open>The step on the agent that \<open>share\<close> and \<open>unshare\<close> have in common: a command with the key, run as root.\<close>

definition run_key_command ::
  "string \<Rightarrow> (string \<Rightarrow> string \<Rightarrow> string) \<Rightarrow> string \<Rightarrow> string \<Rightarrow> 'a agentServices \<Rightarrow> 'a client_state \<Rightarrow> err option \<times> 'a client_state" where
  "run_key_command m command publicKey proj services st =
     (case projectPrimaryContainer (cs_data st) proj of
        Inl e \<Rightarrow> (Some e, st)
      | Inr (n, remoteUser) \<Rightarrow>
          (case executeProjectContainerCommand services proj (command remoteUser publicKey) projectSharedKeyUser st of
             ((_, Some e), st1) \<Rightarrow> (Some (AppendError (m @ n) e), st1)
           | ((_, None), st1) \<Rightarrow> (None, st1)))"

definition share_execute :: "'u access_env \<Rightarrow> 'a agent_link \<Rightarrow> string \<Rightarrow> 'a access_state \<Rightarrow> err option \<times> 'a access_state" where
  "share_execute env link proj st =
     (let d = cs_data (fst st) in
      if ProjectContainersName d proj = [] then (Some (NewError (''No containers to share.'' @ [NL] @ getTipRun d proj)), st)
      else case sync_known env link proj st of
        (Some e, st1) \<Rightarrow> (Some e, st1)
      | (None, st1) \<Rightarrow>
          (case projectSharedPublicKey (ac_keys env) proj (snd st1) of
             (Inl e, fs1) \<Rightarrow> (Some e, (fst st1, fs1))
           | (Inr (publicKey, _), fs1) \<Rightarrow>
               (let (e, c) = withProjectAgent (ce_url (ac_command env)) link proj
                  (run_key_command ''Failed to install shared SSH key in container '' installSharedKeyCommand publicKey proj) (fst st1)
                in (e, (c, fs1)))))"

text \<open>The key files are removed when the key is out of the container.\<close>

definition unshare_execute :: "'u access_env \<Rightarrow> 'a agent_link \<Rightarrow> string \<Rightarrow> 'a access_state \<Rightarrow> err option \<times> 'a access_state" where
  "unshare_execute env link proj st =
     (let d = cs_data (fst st) in
      if ProjectContainersName d proj = [] then (Some (NewError (''No containers to unshare.'' @ [NL] @ getTipRun d proj)), st)
      else case sync_known env link proj st of
        (Some e, st1) \<Rightarrow> (Some e, st1)
      | (None, st1) \<Rightarrow>
          (case existingProjectSharedPublicKey (ac_keys env) proj (snd st1) of
             Inl e \<Rightarrow> (Some e, st1)
           | Inr (publicKey, _) \<Rightarrow>
               (let (e, c) = withProjectAgent (ce_url (ac_command env)) link proj
                  (run_key_command ''Failed to remove shared SSH key from container '' removeSharedKeyCommand publicKey proj) (fst st1)
                in (e, (c, if e = None then removeProjectSharedKeyPair env proj (snd st1) else snd st1)))))"

section \<open>Registering a host with a new key\<close>

record host_spec =
  hs_name :: string
  hs_username :: string
  hs_isDefault :: bool
  hs_password :: string
  hs_port :: int

record build_env =
  be_keys :: key_lib
  be_EnsureSSHClientConfig :: "err option"
  be_CopyKey :: "string \<Rightarrow> err option"

definition build_key :: "build_env \<Rightarrow> host_spec \<Rightarrow> string \<Rightarrow> data \<times> files \<Rightarrow> err option \<times> data \<times> files" where
  "build_key env h username st =
     (case be_EnsureSSHClientConfig env of
        Some e \<Rightarrow> (Some (AppendError ''Failed to ensure SSH directory existence'' e), st)
      | None \<Rightarrow>
     (case GenerateKeyPair (be_keys env) (hs_name h) (snd st) of
        (Inl e, fs1) \<Rightarrow> (Some (AppendError (''Unable to generate key pair for '' @ hs_name h) e), (fst st, fs1))
      | (Inr keys, fs1) \<Rightarrow>
     (case UpdateHostKey (zero_Host\<lparr>bh_Name := hs_name h, bh_Username := username, bh_Password := hs_password h,
               bh_KeyPair := \<lparr>kp_PathToPub = PathToPub keys, kp_PathToPrv = PathToPrv keys\<rparr>, bh_Port := hs_port h,
               bh_IsDefault := hs_isDefault h\<rparr>) (fst st) of
        Inl e \<Rightarrow> (Some (AppendError (''Unable to update host '' @ hs_name h @ '' with key path'') e), (fst st, fs1))
      | Inr d1 \<Rightarrow>
          (if hs_name h \<noteq> KLocalhost then
             case be_CopyKey env (PathToPub keys) of
               Some e \<Rightarrow> (Some (AppendError (''Unable to copy public key to '' @ hs_name h) e), (d1, fs1))
             | None \<Rightarrow> (None, (d1, fs1))
           else (None, (d1, fs1))))))"

text \<open>The deferred clean-up removes the host on any error.\<close>

definition host_Build :: "build_env \<Rightarrow> host_spec \<Rightarrow> data \<times> files \<Rightarrow> err option \<times> data \<times> files" where
  "host_Build env h st =
     (let username = (if hs_username h = [] then GetUsernameFromEnv (be_keys env) else hs_username h);
          d1 = AddHost (hs_name h) username (fst st);
          d2 = (if hs_isDefault h then SetHostToDefault (hs_name h) d1 else d1)
      in case build_key env h username (d2, snd st) of
           (Some e, (d3, fs3)) \<Rightarrow> (Some e, (RemoveHostFromHostList (hs_name h) d3, fs3))
         | (None, st3) \<Rightarrow> (None, st3))"

end
