(* ===== verification/AccessProps.thy ===== *)
theory AccessProps
  imports ProjectAccess DeployProps CommandProps
begin

text \<open>
  What getting into a container rests on: the target of a session is what the store has of
  the container and of its host's key, the key that is shared is the key that is unshared,
  and which projects share one key.
\<close>

section \<open>The target of a session\<close>

lemma key_pair_registered:
  assumes "ensureProjectSSHKeyPair url lib proj (d, fs) = (Ok (prv, pub), d', fs')"
  shows "GetHostKey d' (projectAgentHost url d' proj) = prv" "GetHostPubKey d' (projectAgentHost url d' proj) = pub"
    "d_Projects d' = d_Projects d"
proof -
  let ?n = "projectAgentHost url d proj"
  consider "d' = d" "GetHostKey d ?n = prv" "GetHostPubKey d ?n = pub" | "persistHostKeyPair lib ?n prv pub d = (None, d')"
    using assms by (auto simp: ensureProjectSSHKeyPair_def Let_def split: if_splits option.splits prod.splits sum.splits)
  then have "GetHostKey d' ?n = prv \<and> GetHostPubKey d' ?n = pub \<and> d_Projects d' = d_Projects d"
  proof cases
    case 2 then show ?thesis using persisted [OF 2] by simp
  qed simp
  then show "GetHostKey d' (projectAgentHost url d' proj) = prv" "GetHostPubKey d' (projectAgentHost url d' proj) = pub"
    "d_Projects d' = d_Projects d" using projectAgentHost_cong [of d' d url proj] by simp_all
qed

lemma rows_cong:
  assumes "d_Projects d' = d_Projects d"
  shows "ProjectContainersName d' proj = ProjectContainersName d proj" "ContainerSSHPort d' proj n = ContainerSSHPort d proj n"
    "ProjectContainerRemoteUser d' proj n = ProjectContainerRemoteUser d proj n"
  using assms
  by (simp_all add: ProjectContainersName_def ContainerSSHPort_def ProjectContainerRemoteUser_def get_project_def getProject_def)

text \<open>
  C31. A session goes to the container that the store has: when \<open>project ssh\<close> reaches the ssh
  library, the target has the port (a positive one) and the user (not an empty one) of the
  project's first container, the project's host, and the key pair that is registered for it.
\<close>

theorem session_target_is_stored:
  assumes "ssh_execute env link proj st = (Ok t, (c, fs))"
  shows "\<exists>n rest. ProjectContainersName (cs_data c) proj = n # rest \<and>
    st_Port t = ContainerSSHPort (cs_data c) proj n \<and> st_Port t > 0 \<and>
    st_Username t = ProjectContainerRemoteUser (cs_data c) proj n \<and> st_Username t \<noteq> [] \<and>
    st_FQDN t = projectAgentHost (ce_url (ac_command env)) (cs_data c) proj \<and>
    st_PathToPrv t = GetHostKey (cs_data c) (st_FQDN t) \<and> st_PathToPub t = GetHostPubKey (cs_data c) (st_FQDN t)"
proof -
  obtain c1 fs1 n user prv pub d2 where p: "projectPrimaryContainer (cs_data c1) proj = Ok (n, user)"
    and port: "ContainerSSHPort (cs_data c1) proj n > 0"
    and k: "ensureProjectSSHKeyPair (ce_url (ac_command env)) (ac_keys env) proj (cs_data c1, fs1) = (Ok (prv, pub), d2, fs)"
    and c: "c = c1\<lparr>cs_data := d2\<rparr>"
    and t: "t = \<lparr>st_FQDN = projectAgentHost (ce_url (ac_command env)) d2 proj, st_Username = user,
      st_Port = ContainerSSHPort (cs_data c1) proj n, st_PathToPrv = prv, st_PathToPub = pub\<rparr>"
    using assms
    by (auto simp: ssh_execute_def projectContainerSSHTarget_def target_for_def project_keys_def Let_def
        split: if_splits option.splits prod.splits sum.splits)
  note key = key_pair_registered [OF k]
  obtain rest where "ProjectContainersName (cs_data c1) proj = n # rest" "user = ProjectContainerRemoteUser (cs_data c1) proj n" "user \<noteq> []"
    using p by (auto simp: projectPrimaryContainer_def Let_def split: list.splits if_splits)
  then show ?thesis using port key(1,2) rows_cong [OF key(3)] by (simp add: c t)
qed

section \<open>Paths of the shared key\<close>

lemma clean_dot: "clean_segs r (xs @ ''.'' # ys) = clean_segs r (xs @ ys)"
  by (simp add: clean_segs_def clean_step_def)

lemma Clean_dot: "path_Clean (x @ ''/./'' @ y) = path_Clean (x @ ''/'' @ y)"
proof -
  have root: "rooted (x @ ''/./'' @ y) = rooted (x @ ''/'' @ y)" by (cases x) (simp_all add: rooted_def)
  have "split_on (CHR ''/'') (x @ CHR ''/'' # ''.'' @ CHR ''/'' # y) = split_on (CHR ''/'') x @ ''.'' # split_on (CHR ''/'') y"
    by (simp only: split_glue) simp
  moreover have "split_on (CHR ''/'') (x @ CHR ''/'' # y) = split_on (CHR ''/'') x @ split_on (CHR ''/'') y" by (rule split_glue)
  ultimately show ?thesis using root by (simp add: path_Clean_def clean_dot)
qed

lemma join_dot: "path_Join [h, ''.ssh'', CHR ''.'' # CHR ''/'' # s] = path_Join [h, ''.ssh'', s]" if "s \<noteq> []"
  using Clean_dot [of "h @ ''/.ssh''" s] Clean_dot [of "''.ssh''" s] that by (simp add: path_Join_def)

lemma generated_paths:
  assumes "GenerateKeyPair lib (projectSharedKeySuffix p) fs = (Ok kp, fs')"
  shows "kp = projectSharedKeyPairPaths lib p \<and> fs' (PathToPub kp) \<noteq> None"
proof -
  have "kp = projectSharedKeyPairPaths lib p"
    using assms join_dot [of "''id_rsa_'' @ projectSharedKeySuffix p" "kl_HomeDir lib"]
      join_dot [of "''id_rsa_'' @ projectSharedKeySuffix p @ ''.pub''" "kl_HomeDir lib"]
    by (auto simp: GenerateKeyPair_def projectSharedKeyPairPaths_def Let_def split: prod.splits option.splits)
  moreover have "fs' (PathToPub kp) \<noteq> None"
    using assms by (auto simp: GenerateKeyPair_def writeKeyTofile_def Let_def split: prod.splits option.splits)
  ultimately show ?thesis by simp
qed

text \<open>The public half of a generated pair is beside the private one.\<close>

lemma public_beside: "PathToPub (projectSharedKeyPairPaths lib p) = PathToPrv (projectSharedKeyPairPaths lib p) @ ''.pub''"
proof -
  let ?k = "''id_rsa_'' @ projectSharedKeySuffix p"
  have free: "CHR ''/'' \<notin> set (projectSharedKeySuffix p)"
    by (auto simp: projectSharedKeySuffix_def suffix_char_def Let_def split: if_splits)
  have clean: "path_Clean (x @ ''/'' @ ?k @ t) = of_segs (rooted (x @ ''/'')) (clean_segs (rooted (x @ ''/'')) (split_on (CHR ''/'') x) @ [?k @ t])"
    if t: "CHR ''/'' \<notin> set t" for x t
  proof -
    have "split_on (CHR ''/'') (x @ CHR ''/'' # ?k @ t) = split_on (CHR ''/'') x @ [?k @ t]"
      using t free by (simp only: split_glue) (simp add: split_on_free del: split_on.simps)
    moreover have "rooted (x @ ''/'' @ ?k @ t) = rooted (x @ ''/'')" by (cases x) (simp_all add: rooted_def)
    moreover have "normal_seg (?k @ t)" using t free by (auto simp: normal_seg_def)
    ultimately show ?thesis by (simp add: path_Clean_def clean_segs_def)
  qed
  have last: "of_segs r (xs @ [a @ b]) = of_segs r (xs @ [a]) @ b" for r xs a b
    by (cases "xs = []") (simp_all add: of_segs_def Join_append)
  have "path_Clean (x @ ''/'' @ ?k @ ''.pub'') = path_Clean (x @ ''/'' @ ?k) @ ''.pub''" for x
    using clean [of "''.pub''" x] clean [of "[]" x] last [of _ _ ?k "''.pub''"] by simp
  from this [of "kl_HomeDir lib @ ''/.ssh''"] this [of "''.ssh''"] show ?thesis
    by (simp add: projectSharedKeyPairPaths_def path_Join_def Let_def)
qed

section \<open>Sharing and unsharing\<close>

lemma shell_quote: "shellQuote v = shellSingleQuote v"
  by (simp add: shellQuote_def shellSingleQuote_def)

lemma ensured_pair:
  assumes "ensureProjectSharedKeyPair lib p fs = (Ok kp, fs')"
  shows "kp = projectSharedKeyPairPaths lib p \<and> stat_ok lib fs' (PathToPub kp)"
proof (cases "stat_ok lib fs (PathToPrv (projectSharedKeyPairPaths lib p))")
  case True
  then show ?thesis
    using assms public_beside [of lib p]
    by (auto simp: ensureProjectSharedKeyPair_def GeneratePublicKey_def writeKeyTofile_def stat_ok_def Let_def
        split: if_splits sum.splits prod.splits option.splits)
next
  case False
  then show ?thesis using assms generated_paths [of lib p fs kp fs'] by (auto simp: ensureProjectSharedKeyPair_def stat_ok_def)
qed

text \<open>
  C32. The key that is taken out of a container is the key that was put into it: after the key
  pair of a project was made ready for sharing, unsharing reads the same text from the same
  pair; in both commands the shell reads it, and the user, as one word, whatever bytes it has.
\<close>

theorem unshared_key_is_shared_key:
  assumes "projectSharedPublicKey lib p fs = (Ok (key, kp), fs')"
  shows "existingProjectSharedPublicKey lib p fs' = Ok (key, kp) \<and>
    (\<exists>rest. installSharedKeyCommand user key = ''set -e; user='' @ shellQuote user @ ''; key='' @ shellQuote key @ rest) \<and>
    (\<exists>rest. removeSharedKeyCommand user key = ''set -e; user='' @ shellQuote user @ ''; key='' @ shellQuote key @ rest) \<and>
    sh_words (shellQuote key) = Some [key] \<and> sh_words (shellQuote user) = Some [user]"
proof -
  obtain kp0 where k: "ensureProjectSharedKeyPair lib p fs = (Ok kp0, fs')" "shared_key_text lib kp0 fs' = Ok (key, kp)"
    using assms by (auto simp: projectSharedPublicKey_def split: prod.splits sum.splits)
  then have "existingProjectSharedPublicKey lib p fs' = Ok (key, kp)"
    using ensured_pair [OF k(1)] by (auto simp: existingProjectSharedPublicKey_def)
  then show ?thesis
    by (simp add: installSharedKeyCommand_def removeSharedKeyCommand_def shell_quote sh_words_def sh_words_quoted)
qed

text \<open>
  Projects whose names differ only in characters that are replaced in the name of the key
  share one key pair: when \<open>a.b\<close> is unshared, the files that \<open>a_b\<close> shares with are gone, and
  \<open>a_b\<close> can no longer be unshared; its container keeps the key.
\<close>

theorem unshare_takes_the_key_of_another_project:
  assumes "unshare_execute env link p st = (None, (c, fs))" "map suffix_char q = map suffix_char p"
    and "ac_RemoveError env (PathToPub (projectSharedKeyPairPaths (ac_keys env) p)) = None"
    and "\<not> kl_IsDir (ac_keys env) (PathToPub (projectSharedKeyPairPaths (ac_keys env) p))"
  shows "projectSharedKeyPairPaths (ac_keys env) q = projectSharedKeyPairPaths (ac_keys env) p \<and>
    (\<exists>e. existingProjectSharedPublicKey (ac_keys env) q fs = Inl e) \<and> fst (unshare_execute env link q (c, fs)) \<noteq> None"
proof -
  let ?kp = "projectSharedKeyPairPaths (ac_keys env) p"
  have same: "projectSharedKeyPairPaths (ac_keys env) q = ?kp"
    using assms(2) by (simp add: projectSharedKeyPairPaths_def projectSharedKeySuffix_def)
  have "fs (PathToPub ?kp) = None"
    using assms(1,3) by (auto simp: unshare_execute_def removeProjectSharedKeyPair_def Let_def split: if_splits option.splits prod.splits sum.splits)
  then have gone: "\<exists>e. existingProjectSharedPublicKey (ac_keys env) q fs = Inl e"
    using assms(4) by (simp add: existingProjectSharedPublicKey_def stat_ok_def same Let_def)
  have "snd (snd (sync_known env link q (c, fs))) = fs" by (simp add: sync_known_def Let_def split: prod.split)
  then have "fst (unshare_execute env link q (c, fs)) \<noteq> None"
    using gone by (auto simp: unshare_execute_def Let_def split: option.splits prod.splits sum.splits)
  with same gone show ?thesis by simp
qed

section \<open>Registering a host\<close>

text \<open>
  A registration of a host that fails removes the host, whether it was there before or not:
  its keys, its default mark and what else the store had of it are lost, while the projects
  that name it stay as they were.
\<close>

theorem failed_build_forgets_host:
  assumes "host_Build env h (d, fs) = (Some e, (d', fs'))"
  shows "\<not> HasHost d' (hs_name h) \<and> d_Projects d' = d_Projects d"
proof -
  let ?u = "if hs_username h = [] then GetUsernameFromEnv (be_keys env) else hs_username h"
  let ?d1 = "AddHost (hs_name h) ?u d"
  let ?d2 = "if hs_isDefault h then SetHostToDefault (hs_name h) ?d1 else ?d1"
  obtain e1 d3 where b: "build_key env h ?u (?d2, fs) = (Some e1, (d3, fs'))" "d' = RemoveHostFromHostList (hs_name h) d3"
    using assms by (auto simp: host_Build_def Let_def split: prod.splits option.splits)
  have "d_Projects ?d1 = d_Projects d" by (simp add: AddHost_def Let_def split: option.split)
  then have two: "d_Projects ?d2 = d_Projects d" by (simp add: SetHostToDefault_def Let_def split: option.split)
  have up: "UpdateHostKey x y = Inr z \<Longrightarrow> d_Projects z = d_Projects y" for x y z
    by (auto simp: UpdateHostKey_def update_host_def bind_ok_def split: sum.splits)
  have keep: "build_key env h u (x, fs) = (Some e1, (y, fs')) \<Longrightarrow> d_Projects y = d_Projects x" for u x y
    using up by (auto simp: build_key_def split: option.splits prod.splits sum.splits if_splits)
  have "d_Projects d3 = d_Projects d" using keep [OF b(1)] two by simp
  then show ?thesis
    by (auto simp: b(2) RemoveHostFromHostList_def HasHost_def getHost_def FindElemFromSlice_find is_ok_def find_None_iff split: option.splits)
qed

section \<open>Examples\<close>

text \<open>An agent that lists nothing leaves the rows as they are.\<close>

lemma sync_nothing:
  "sync_containers env client proj False expected (\<lambda>_. None) ns absent st = ((absent, None), st)"
  by (induction ns) simp_all

lemma sample_sync:
  fixes env :: "'b access_env"
  assumes "cs_agent (fst st) = []"
  shows "sync_known env sample_link proj st = (None, st)"
proof -
  have "as_List sample_services [] = (Ok [], [])" by (simp add: sample_services_def)
  then have "on_agent (as_List sample_services) (fst st) = (Ok [], fst st)" using assms by (simp add: on_agent_def)
  then have "listAgentContainersByName sample_services (fst st) = (Ok (\<lambda>_. None), fst st)"
    by (simp add: listAgentContainersByName_def containers_by_name_def)
  then have none: "syncProjectContainersFromAgent e sample_services proj ns False (fst st) = (None, fst st)" for e :: "'b command_env" and ns
    by (simp add: syncProjectContainersFromAgent_def syncProjectContainersFromAgentWithExpected_def sync_nothing remove_absent_def Let_def)
  show ?thesis by (simp add: sync_known_def withProjectAgent_def ensureAgentStarted_def sample_link_def none)
qed

definition sample_access :: "unit access_env" where
  "sample_access = \<lparr>ac_command = sample_command_env, ac_keys = sample_keys, ac_RemoveError = \<lambda>_. None\<rparr>"

definition sample_shared :: "pb_Container list access_state" where
  "sample_shared = (\<lparr>cs_data = ok_or sample_db (bind_ok (AddProjectUsingConfDir ''a.b'' ''/p'' sample_db)
       (UpsertProjectContainer ''a.b'' (zero_Container\<lparr>ct_Name := ''dev'', ct_RemoteUser := ''me'', ct_Pmapping := [''22/tcp'' \<mapsto> 2222]\<rparr>))),
     cs_ssh = None, cs_agent = []\<rparr>,
     [''/h/.ssh/id_rsa_cds_share_a_b'' \<mapsto> ''PEM'', ''/h/.ssh/id_rsa_cds_share_a_b.pub'' \<mapsto> ''key ''])"

theorem session_target_is_stored_witness:
  "\<exists>t st. ssh_execute sample_access sample_link ''a.b'' sample_shared = (Ok t, st) \<and> st_Port t = 2222 \<and> st_Username t = ''me'' \<and>
     st_PathToPrv t = GetHostKey (cs_data (fst st)) (st_FQDN t)"
proof -
  let ?st = "sample_shared" and ?d = "cs_data (fst sample_shared)"
  have sync: "sync_known sample_access sample_link ''a.b'' ?st = (None, ?st)" by (rule sample_sync) (simp add: sample_shared_def)
  have rows: "ProjectContainersName ?d ''a.b'' = [''dev'']" by code_simp
  have "map_prod (map_sum id (\<lambda>x. (st_Port (fst x), st_Username (fst x)))) (\<lambda>_. ()) (projectContainerSSHTarget sample_access ''a.b'' ?st)
      = (Ok (2222, ''me''), ())" by code_simp
  then obtain t n st where t: "projectContainerSSHTarget sample_access ''a.b'' ?st = (Ok (t, n), st)" "st_Port t = 2222" "st_Username t = ''me''"
    by (cases "projectContainerSSHTarget sample_access ''a.b'' ?st"; cases "fst (projectContainerSSHTarget sample_access ''a.b'' ?st)") auto
  then have run: "ssh_execute sample_access sample_link ''a.b'' sample_shared = (Ok t, (fst st, snd st))"
    using sync rows by (simp add: ssh_execute_def)
  from session_target_is_stored [OF run] t run show ?thesis by auto
qed

theorem unshared_key_is_shared_key_witness:
  "existingProjectSharedPublicKey sample_keys ''web'' (snd (projectSharedPublicKey sample_keys ''web'' Map.empty)) =
    Ok (''ecdsa AAAA generated by CDS: me@box'', projectSharedKeyPairPaths sample_keys ''web'')"
proof -
  have "fst (projectSharedPublicKey sample_keys ''web'' Map.empty) =
    Ok (''ecdsa AAAA generated by CDS: me@box'', projectSharedKeyPairPaths sample_keys ''web'')" by code_simp
  then have "projectSharedPublicKey sample_keys ''web'' Map.empty = (Ok (''ecdsa AAAA generated by CDS: me@box'',
    projectSharedKeyPairPaths sample_keys ''web''), snd (projectSharedPublicKey sample_keys ''web'' Map.empty))"
    by (metis surjective_pairing)
  from unshared_key_is_shared_key [OF this] show ?thesis by blast
qed

theorem unshare_takes_the_key_of_another_project_witness:
  "\<exists>st. unshare_execute sample_access sample_link ''a.b'' sample_shared = (None, st) \<and>
     (\<exists>e. existingProjectSharedPublicKey sample_keys ''a_b'' (snd st) = Inl e)"
proof -
  let ?st = "sample_shared" and ?d = "cs_data (fst sample_shared)"
  have sync: "sync_known sample_access sample_link ''a.b'' ?st = (None, ?st)" by (rule sample_sync) (simp add: sample_shared_def)
  have rows: "ProjectContainersName ?d ''a.b'' = [''dev'']" "projectPrimaryContainer ?d ''a.b'' = Ok (''dev'', ''me'')" by code_simp+
  have key: "existingProjectSharedPublicKey (ac_keys sample_access) ''a.b'' (snd ?st) = Ok (''key'', projectSharedKeyPairPaths sample_keys ''a.b'')"
    by code_simp
  have "as_Execute sample_services n c u [] = (Ok ([], 0), [])" for n c u by (simp add: sample_services_def)
  then have step: "run_key_command m cmd ''key'' ''a.b'' sample_services (fst ?st) = (None, fst ?st)" for m cmd
    using rows(2) by (simp add: run_key_command_def executeProjectContainerCommand_def on_agent_def sample_shared_def)
  have agent: "withProjectAgent url sample_link ''a.b'' (run_key_command m cmd ''key'' ''a.b'') (fst ?st) = (None, fst ?st)" for url :: "unit url_lib" and m cmd
    using step by (simp add: withProjectAgent_def ensureAgentStarted_def sample_link_def)
  have run: "unshare_execute sample_access sample_link ''a.b'' ?st =
      (None, (fst ?st, removeProjectSharedKeyPair sample_access ''a.b'' (snd ?st)))"
    using sync rows(1) key by (simp add: unshare_execute_def agent)
  have "map suffix_char ''a_b'' = map suffix_char ''a.b''" by code_simp
  moreover have "ac_RemoveError sample_access p = None" "\<not> kl_IsDir (ac_keys sample_access) p" "ac_keys sample_access = sample_keys" for p
    by (simp_all add: sample_access_def sample_keys_def)
  ultimately show ?thesis using unshare_takes_the_key_of_another_project [OF run, of "''a_b''"] run by auto
qed

end
