(* ===== verification/EnvFiles.thy ===== *)
theory EnvFiles
  imports AgentBinary "HOL-Library.AList" "HOL-Library.List_Lexorder" "HOL-Library.Char_ord" "HOL-Library.Word"
begin

text \<open>
  The directories of a process and the files in them (\<open>internal/cenv\<close>, \<open>internal/cos\<close>):
  where the configuration is, making sure that a directory or a file exists, copying, and
  the temporary files: their creation, their removal and the cleaning of old ones.

  The file system is a list of cleaned paths with what is there. An operation of the system
  may fail for a reason of its own, which the record \<open>fs_lib\<close> gives; where it gives none the
  operation does what POSIX says: \<open>mkdir\<close> and \<open>open\<close> take bits away with the umask and need the
  parent directory, \<open>chmod\<close> sets the mode, \<open>remove\<close> takes a file or an empty directory.
  Symbolic links are not modelled.
\<close>

unbundle bit_operations_syntax

section \<open>The file system\<close>

type_synonym mode = "32 word"

datatype fs_entry =
  DirEntry (fe_mode: mode)
| FileEntry (fe_mode: mode) (fe_text: string) (fe_time: int)

primrec fe_IsDir :: "fs_entry \<Rightarrow> bool" where
  "fe_IsDir (DirEntry m) = True" | "fe_IsDir (FileEntry m c i) = False"

type_synonym tree = "(string \<times> fs_entry) list"

text \<open>\<open>fl_TempName\<close> is the name that \<open>TempFile\<close> draws; \<open>fl_CopyError\<close> the error of \<open>io.Copy\<close> into a file and what it has written.\<close>

record fs_lib =
  fl_Getenv :: "string \<Rightarrow> string"
  fl_HomeDir :: "string result"
  fl_Umask :: mode
  fl_Now :: int
  fl_StatError :: "string \<Rightarrow> tree \<Rightarrow> err option"
  fl_ChmodError :: "string \<Rightarrow> tree \<Rightarrow> err option"
  fl_MkdirError :: "string \<Rightarrow> tree \<Rightarrow> err option"
  fl_OpenError :: "string \<Rightarrow> tree \<Rightarrow> err option"
  fl_RemoveError :: "string \<Rightarrow> tree \<Rightarrow> err option"
  fl_ReadDirError :: "string \<Rightarrow> tree \<Rightarrow> err option"
  fl_CopyError :: "string \<Rightarrow> tree \<Rightarrow> (string \<times> err) option"
  fl_CloseError :: "string \<Rightarrow> tree \<Rightarrow> err option"
  fl_TempName :: "string \<Rightarrow> string \<Rightarrow> tree \<Rightarrow> string result"

definition at :: "tree \<Rightarrow> string \<Rightarrow> fs_entry option" where
  "at t p = map_of t (path_Clean p)"

definition put :: "string \<Rightarrow> fs_entry \<Rightarrow> tree \<Rightarrow> tree" where
  "put p e t = AList.update (path_Clean p) e t"

definition without :: "string \<Rightarrow> tree \<Rightarrow> tree" where
  "without p t = AList.delete (path_Clean p) t"

definition not_found :: "string \<Rightarrow> string \<Rightarrow> os_error" where
  "not_found op p = \<lparr>oe_err = NewError (op @ '' '' @ p @ '': no such file or directory''), oe_missing = True\<rparr>"

definition refused :: "err \<Rightarrow> os_error" where
  "refused e = \<lparr>oe_err = e, oe_missing = False\<rparr>"

definition os_stat :: "fs_lib \<Rightarrow> string \<Rightarrow> tree \<Rightarrow> os_error + fs_entry" where
  "os_stat lib p t =
     (case fl_StatError lib p t of
        Some e \<Rightarrow> Inl (refused e)
      | None \<Rightarrow>
          (if p = [] then Inl (not_found ''stat'' p)
           else case at t p of None \<Rightarrow> Inl (not_found ''stat'' p) | Some e \<Rightarrow> Inr e))"

definition set_mode :: "mode \<Rightarrow> fs_entry \<Rightarrow> fs_entry" where
  "set_mode m e = (case e of DirEntry _ \<Rightarrow> DirEntry m | FileEntry _ c i \<Rightarrow> FileEntry m c i)"

definition os_chmod :: "fs_lib \<Rightarrow> string \<Rightarrow> mode \<Rightarrow> tree \<Rightarrow> err option \<times> tree" where
  "os_chmod lib p m t =
     (case fl_ChmodError lib p t of
        Some e \<Rightarrow> (Some e, t)
      | None \<Rightarrow> (case at t p of None \<Rightarrow> (Some (oe_err (not_found ''chmod'' p)), t) | Some e \<Rightarrow> (None, put p (set_mode m e) t)))"

definition parent_ok :: "string \<Rightarrow> tree \<Rightarrow> bool" where
  "parent_ok p t =
     (path_Dir (path_Clean p) = path_Clean p \<or>
      (case at t (path_Dir (path_Clean p)) of Some e \<Rightarrow> fe_IsDir e | None \<Rightarrow> False))"

definition os_mkdir :: "fs_lib \<Rightarrow> string \<Rightarrow> mode \<Rightarrow> tree \<Rightarrow> err option \<times> tree" where
  "os_mkdir lib p m t =
     (case fl_MkdirError lib p t of
        Some e \<Rightarrow> (Some e, t)
      | None \<Rightarrow>
          if p = [] \<or> \<not> parent_ok p t then (Some (oe_err (not_found ''mkdir'' p)), t)
          else if at t p \<noteq> None then (Some (NewError (''mkdir '' @ p @ '': file exists'')), t)
          else (None, put p (DirEntry (m AND NOT (fl_Umask lib))) t))"

text \<open>\<open>os.Create\<close>: an existing file is emptied, a new one is readable and writable up to the umask.\<close>

definition os_create :: "fs_lib \<Rightarrow> string \<Rightarrow> tree \<Rightarrow> err option \<times> tree" where
  "os_create lib p t =
     (case fl_OpenError lib p t of
        Some e \<Rightarrow> (Some e, t)
      | None \<Rightarrow>
          if p = [] \<or> \<not> parent_ok p t then (Some (oe_err (not_found ''open'' p)), t)
          else case at t p of
            None \<Rightarrow> (None, put p (FileEntry (0x1B6 AND NOT (fl_Umask lib)) [] (fl_Now lib)) t)
          | Some (DirEntry m) \<Rightarrow> (Some (NewError (''open '' @ p @ '': is a directory'')), t)
          | Some (FileEntry m c i) \<Rightarrow> (None, put p (FileEntry m [] (fl_Now lib)) t))"

text \<open>The entries of a directory, sorted by name, as \<open>ReadDir\<close> lists them.\<close>

definition listed :: "string \<Rightarrow> tree \<Rightarrow> (string \<times> fs_entry) list" where
  "listed dir t =
     sort_key fst (map (\<lambda>(p, e). (path_Base p, e)) (filter (\<lambda>(p, e). p \<noteq> path_Clean dir \<and> path_Join [dir, path_Base p] = p) t))"

definition os_readdir :: "fs_lib \<Rightarrow> string \<Rightarrow> tree \<Rightarrow> os_error + (string \<times> fs_entry) list" where
  "os_readdir lib dir t =
     (case fl_ReadDirError lib dir t of
        Some e \<Rightarrow> Inl (refused e)
      | None \<Rightarrow>
          (case at t dir of
             None \<Rightarrow> Inl (not_found ''open'' dir)
           | Some e \<Rightarrow> if fe_IsDir e then Inr (listed dir t) else Inl (refused (NewError (''readdir '' @ dir @ '': not a directory'')))))"

definition os_remove :: "fs_lib \<Rightarrow> string \<Rightarrow> tree \<Rightarrow> os_error option \<times> tree" where
  "os_remove lib p t =
     (case fl_RemoveError lib p t of
        Some e \<Rightarrow> (Some (refused e), t)
      | None \<Rightarrow>
          (case at t p of
             None \<Rightarrow> (Some (not_found ''remove'' p), t)
           | Some e \<Rightarrow>
               if fe_IsDir e \<and> listed p t \<noteq> [] then (Some (refused (NewError (''remove '' @ p @ '': directory not empty''))), t)
               else (None, without p t)))"

section \<open>Directories of the configuration\<close>

definition kConfigPathEnvVar :: string where "kConfigPathEnvVar = ''CDS_CONFIG_PATH''"
definition kClientConfigDirName :: string where "kClientConfigDirName = ''.xcds''"
definition kAgentConfigDirName :: string where "kAgentConfigDirName = ''.xcds-agent''"
definition kCacheDirName :: string where "kCacheDirName = ''cache''"

text \<open>An error of \<open>UserHomeDir\<close> is a panic.\<close>

definition configPathFor :: "fs_lib \<Rightarrow> string \<Rightarrow> string \<Rightarrow> string result" where
  "configPathFor lib dataDir filename =
     (if fl_Getenv lib kConfigPathEnvVar \<noteq> [] then Ok (path_Join [fl_Getenv lib kConfigPathEnvVar, dataDir, filename])
      else bind_ok (fl_HomeDir lib) (\<lambda>homedir. Ok (path_Join [homedir, dataDir, filename])))"

text \<open>\<open>sDataDir\<close>, the one variable of the package, is the argument \<open>dataDir\<close>.\<close>

definition SetConfigDirForClient :: "string \<Rightarrow> string" where "SetConfigDirForClient dataDir = kClientConfigDirName"
definition SetConfigDirForAgent :: "string \<Rightarrow> string" where "SetConfigDirForAgent dataDir = kAgentConfigDirName"

definition configPath :: "fs_lib \<Rightarrow> string \<Rightarrow> string \<Rightarrow> string result" where
  "configPath lib dataDir filename = configPathFor lib dataDir filename"

definition ClientConfigDir :: "fs_lib \<Rightarrow> string \<Rightarrow> string result" where
  "ClientConfigDir lib dirname = configPathFor lib kClientConfigDirName dirname"

definition AgentConfigDir :: "fs_lib \<Rightarrow> string \<Rightarrow> string result" where
  "AgentConfigDir lib dirname = configPathFor lib kAgentConfigDirName dirname"

definition ConfigFile :: "fs_lib \<Rightarrow> string \<Rightarrow> string \<Rightarrow> string result" where
  "ConfigFile lib dataDir filename = configPath lib dataDir filename"

definition ConfigDir :: "fs_lib \<Rightarrow> string \<Rightarrow> string \<Rightarrow> string result" where
  "ConfigDir lib dataDir dirname = configPath lib dataDir dirname"

definition GlobalConfigPath :: "fs_lib \<Rightarrow> string \<Rightarrow> string result" where
  "GlobalConfigPath lib dataDir = ConfigDir lib dataDir []"

definition CacheDir :: "fs_lib \<Rightarrow> string \<Rightarrow> string result" where
  "CacheDir lib dataDir = ConfigDir lib dataDir kCacheDirName"

section \<open>Making sure that a path exists\<close>

text \<open>The octal numbers 600 and 700; an error prints the permission bits as \<open>FileMode.String\<close> does.\<close>

definition KPermFile :: mode where "KPermFile = 0x180"
definition KPermDir :: mode where "KPermDir = 0x1C0"

definition mode_String :: "mode \<Rightarrow> string" where
  "mode_String m = CHR ''-'' # map2 (\<lambda>c i. if bit m i then c else CHR ''-'') ''rwxrwxrwx'' (rev [0..<9])"

definition fs_Exists :: "fs_lib \<Rightarrow> string \<Rightarrow> tree \<Rightarrow> bool" where
  "fs_Exists lib p t = (case os_stat lib p t of Inl _ \<Rightarrow> False | Inr _ \<Rightarrow> True)"

definition wrapped :: "string \<Rightarrow> err option \<times> tree \<Rightarrow> err option \<times> tree" where
  "wrapped m r = (case r of (None, t) \<Rightarrow> (None, t) | (Some e, t) \<Rightarrow> (Some (AppendError m e), t))"

text \<open>What \<open>EnsureDir\<close> and \<open>EnsureFile\<close> do with a path that exists.\<close>

definition ensured_mode :: "fs_lib \<Rightarrow> bool \<Rightarrow> string \<Rightarrow> mode \<Rightarrow> tree \<Rightarrow> err option \<times> tree" where
  "ensured_mode lib isDir path perm t =
     (case os_stat lib path t of
        Inl e \<Rightarrow> (Some (AppendError (''Failed to determine '' @ (if isDir then ''directory'' else ''file'') @ '' information for '' @ [SQ] @ path @ [SQ]) (oe_err e)), t)
      | Inr info \<Rightarrow>
          if fe_IsDir info \<noteq> isDir
          then (Some (NewError (''Target path '' @ [SQ] @ path @ [SQ] @
                  (if isDir then '' already exist and is not a directory '' else '' is a directory, cannot create file at this path''))), t)
          else if fe_mode info \<noteq> perm
          then wrapped (''Failed to apply permissions ('' @ mode_String perm @ '') for '' @ (if isDir then ''directory '' else ''file '') @ [SQ] @ path @ [SQ]) (os_chmod lib path perm t)
          else (None, t))"

function EnsureDir :: "fs_lib \<Rightarrow> string \<Rightarrow> mode \<Rightarrow> tree \<Rightarrow> err option \<times> tree" where
  "EnsureDir lib path perm t =
     (if fs_Exists lib path t then ensured_mode lib True path perm t
      else case (if path \<noteq> path_Dir path then EnsureDir lib (path_Dir path) perm t else (None, t)) of
        (Some e, t1) \<Rightarrow> (Some (AppendError (''Failed to create parent directory for directory '' @ [SQ] @ path @ [SQ]) e), t1)
      | (None, t1) \<Rightarrow> wrapped (''Failed to create directory for path '' @ [SQ] @ path @ [SQ]) (os_mkdir lib path perm t1))"
  by pat_completeness auto

termination by (relation "measure (\<lambda>(lib, path, perm, t). dir_measure path)") (auto intro!: path_Dir_decreases dest: not_sym)

declare EnsureDir.simps [simp del]

definition EnsureFile :: "fs_lib \<Rightarrow> string \<Rightarrow> mode \<Rightarrow> tree \<Rightarrow> err option \<times> tree" where
  "EnsureFile lib path perm t =
     (if fs_Exists lib path t then ensured_mode lib False path perm t
      else case EnsureDir lib (path_Dir path) KPermDir t of
        (Some e, t1) \<Rightarrow> (Some (AppendError (''Failed to create parent directory for file '' @ [SQ] @ path @ [SQ]) e), t1)
      | (None, t1) \<Rightarrow>
          (case os_create lib path t1 of
             (Some e, t2) \<Rightarrow> (Some (AppendError (''Failed to create directory for path '' @ [SQ] @ path @ [SQ]) e), t2)
           | (None, t2) \<Rightarrow>
               wrapped (''Failed to apply permissions ('' @ mode_String perm @ '') for file '' @ [SQ] @ path @ [SQ]) (os_chmod lib path perm t2)))"

text \<open>\<open>EnsureSSHClientConfig\<close>: without paths the two files of the user; \<open>GetUserHomeDir\<close> logs an error and goes on with no directory.\<close>

definition GetUserHomeDir :: "fs_lib \<Rightarrow> string" where
  "GetUserHomeDir lib = (case fl_HomeDir lib of Inl _ \<Rightarrow> [] | Inr h \<Rightarrow> h)"

definition sshDefaultConfigPath :: "fs_lib \<Rightarrow> string" where
  "sshDefaultConfigPath lib = path_Join [GetUserHomeDir lib, ''.ssh'', ''config'']"

definition sshDefaultKnownHostPath :: "fs_lib \<Rightarrow> string" where
  "sshDefaultKnownHostPath lib = path_Join [GetUserHomeDir lib, ''.ssh'', ''known_hosts'']"

fun ensure_files :: "fs_lib \<Rightarrow> string list \<Rightarrow> tree \<Rightarrow> err option \<times> tree" where
  "ensure_files lib [] t = (None, t)"
| "ensure_files lib (path # paths) t =
     (case EnsureFile lib path KPermFile t of
        (Some e, t1) \<Rightarrow> (Some (AppendError (''Failed to ensure presence of ssh config at '' @ [SQ] @ path @ [SQ]) e), t1)
      | (None, t1) \<Rightarrow> ensure_files lib paths t1)"

definition EnsureSSHClientConfig :: "fs_lib \<Rightarrow> string list option \<Rightarrow> tree \<Rightarrow> err option \<times> tree" where
  "EnsureSSHClientConfig lib paths t =
     ensure_files lib (case paths of None \<Rightarrow> [sshDefaultConfigPath lib, sshDefaultKnownHostPath lib] | Some ps \<Rightarrow> ps) t"

section \<open>Copying\<close>

text \<open>\<open>io.Copy\<close> into an open file: the whole text, or what was written before the error.\<close>

definition write_text :: "fs_lib \<Rightarrow> string \<Rightarrow> string \<Rightarrow> tree \<Rightarrow> err option \<times> tree" where
  "write_text lib p c t =
     (case at t p of
        Some (FileEntry m _ _) \<Rightarrow>
          (case fl_CopyError lib p t of
             None \<Rightarrow> (None, put p (FileEntry m c (fl_Now lib)) t)
           | Some (part, e) \<Rightarrow> (Some e, put p (FileEntry m part (fl_Now lib)) t))
      | _ \<Rightarrow> (Some (NewError (''write '' @ p)), t))"

text \<open>The error of the second \<open>Stat\<close> is dropped: without the information the mode cannot be read.\<close>

definition nil_dereference_fs :: err where "nil_dereference_fs = NewError ''nil pointer dereference''"

definition CopyFile :: "fs_lib \<Rightarrow> string \<Rightarrow> string \<Rightarrow> tree \<Rightarrow> err option \<times> tree" where
  "CopyFile lib src dst t =
     (case (case fl_OpenError lib src t of Some e \<Rightarrow> Inl (refused e) | None \<Rightarrow> os_stat lib src t) of
        Inl e \<Rightarrow> (Some (oe_err e), t)
      | Inr _ \<Rightarrow>
          (case os_create lib dst t of
             (Some e, t1) \<Rightarrow> (Some e, t1)
           | (None, t1) \<Rightarrow>
               (case os_stat lib src t1 of
                  Inl _ \<Rightarrow> (Some nil_dereference_fs, t1)
                | Inr info \<Rightarrow>
                    (case os_chmod lib dst (fe_mode info) t1 of
                       (Some e, t2) \<Rightarrow> (Some e, t2)
                     | (None, t2) \<Rightarrow>
                         (case at t2 src of
                            Some (FileEntry _ c _) \<Rightarrow> write_text lib dst c t2
                          | _ \<Rightarrow> (Some (NewError (''read '' @ src)), t2))))))"

section \<open>Temporary files\<close>

definition kTmp :: string where "kTmp = ''tmp''"
definition kTmpPattern :: string where "kTmpPattern = ''tmp-file-*''"
definition kTmpMaxAge :: int where "kTmpMaxAge = 24 * 60 * 60 * 1000000000"
definition managedTmpPrefixes :: "string list" where
  "managedTmpPrefixes = [TrimSuffix kTmpPattern ''*'', ''cds-tmp-'']"

fun isManagedTempFile_in :: "string list \<Rightarrow> string \<Rightarrow> bool" where
  "isManagedTempFile_in [] n = False"
| "isManagedTempFile_in (p # ps) n = (if HasPrefix n p then True else isManagedTempFile_in ps n)"

definition isManagedTempFile :: "string \<Rightarrow> bool" where
  "isManagedTempFile n = isManagedTempFile_in managedTmpPrefixes n"

text \<open>\<open>TempFile\<close> opens a new file that only its owner can read and write.\<close>

definition cos_CreateTempFile :: "fs_lib \<Rightarrow> string \<Rightarrow> string \<Rightarrow> tree \<Rightarrow> string result \<times> tree" where
  "cos_CreateTempFile lib dir pattern t =
     (case fl_TempName lib dir pattern t of
        Inl e \<Rightarrow> (Inl e, t)
      | Inr n \<Rightarrow>
          (case fl_OpenError lib n t of
             Some e \<Rightarrow> (Inl e, t)
           | None \<Rightarrow>
               if \<not> parent_ok n t \<or> at t n \<noteq> None then (Inl (NewError (''open '' @ n)), t)
               else (Ok n, put n (FileEntry (0x180 AND NOT (fl_Umask lib)) [] (fl_Now lib)) t)))"

definition cos_CreateTempFileWithContent :: "fs_lib \<Rightarrow> string \<Rightarrow> string \<Rightarrow> string \<Rightarrow> tree \<Rightarrow> string result \<times> tree" where
  "cos_CreateTempFileWithContent lib dir pattern content t =
     (case cos_CreateTempFile lib dir pattern t of
        (Inl e, t1) \<Rightarrow> (Inl e, t1)
      | (Inr n, t1) \<Rightarrow>
          (case write_text lib n content t1 of
             (Some e, t2) \<Rightarrow> (Inl e, snd (os_remove lib n t2))
           | (None, t2) \<Rightarrow>
               (case fl_CloseError lib n t2 of
                  Some e \<Rightarrow> (Inl e, snd (os_remove lib n t2))
                | None \<Rightarrow> (Ok n, t2))))"

definition CreateTempFileWithContent :: "fs_lib \<Rightarrow> string \<Rightarrow> string \<Rightarrow> tree \<Rightarrow> string result \<times> tree" where
  "CreateTempFileWithContent lib dataDir content t =
     (case ConfigDir lib dataDir kTmp of
        Inl e \<Rightarrow> (Inl e, t)
      | Inr tmpDir \<Rightarrow>
          (case EnsureDir lib tmpDir KPermDir t of
             (Some e, t1) \<Rightarrow> (Inl (AppendError (''Failed ensuring tmp directory '' @ tmpDir) e), t1)
           | (None, t1) \<Rightarrow>
               (case cos_CreateTempFileWithContent lib tmpDir kTmpPattern content t1 of
                  (Inl e, t2) \<Rightarrow> (Inl (AppendError (''Failed creating tmp file in local ('' @ tmpDir @ '','' @ kTmpPattern @ '')'') e), t2)
                | (Inr n, t2) \<Rightarrow> (Ok n, t2))))"

text \<open>An \<open>os_error\<close> that says that nothing is there is not an error of a removal.\<close>

definition removal_error :: "string \<Rightarrow> os_error option \<Rightarrow> err option" where
  "removal_error m e = (case e of None \<Rightarrow> None | Some e \<Rightarrow> if oe_missing e then None else Some (AppendError m (oe_err e)))"

definition RemoveTempFile :: "fs_lib \<Rightarrow> string \<Rightarrow> string \<Rightarrow> tree \<Rightarrow> err option \<times> tree" where
  "RemoveTempFile lib dataDir path t =
     (case ConfigDir lib dataDir kTmp of
        Inl e \<Rightarrow> (Some e, t)
      | Inr dir \<Rightarrow>
          (let tmpDir = path_Clean dir; cleanPath = path_Clean path; relPath = filepath_Rel tmpDir cleanPath
           in case relPath of
             None \<Rightarrow> (Some (NewError (''refusing to remove non-temp file '' @ path)), t)
           | Some rel \<Rightarrow>
               if rel = ''.'' \<or> HasPrefix rel ''../'' \<or> rel = ''..'' \<or> rooted rel
               then (Some (NewError (''refusing to remove non-temp file '' @ path)), t)
               else map_prod (removal_error (''Failed to remove temporary file '' @ cleanPath)) id (os_remove lib cleanPath t)))"

fun remove_stale :: "fs_lib \<Rightarrow> string \<Rightarrow> int \<Rightarrow> (string \<times> fs_entry) list \<Rightarrow> tree \<Rightarrow> err option \<times> tree" where
  "remove_stale lib tmpDir cutoff [] t = (None, t)"
| "remove_stale lib tmpDir cutoff ((n, e) # es) t =
     (if fe_IsDir e \<or> \<not> isManagedTempFile n \<or> cutoff < fe_time e then remove_stale lib tmpDir cutoff es t
      else case map_prod (removal_error (''Failed to remove stale temporary file '' @ n)) id (os_remove lib (path_Join [tmpDir, n]) t) of
        (Some err, t1) \<Rightarrow> (Some err, t1)
      | (None, t1) \<Rightarrow> remove_stale lib tmpDir cutoff es t1)"

definition cleanupStaleTempFiles :: "fs_lib \<Rightarrow> string \<Rightarrow> int \<Rightarrow> int \<Rightarrow> tree \<Rightarrow> err option \<times> tree" where
  "cleanupStaleTempFiles lib dataDir now maxAge t =
     (case ConfigDir lib dataDir kTmp of
        Inl e \<Rightarrow> (Some e, t)
      | Inr tmpDir \<Rightarrow>
          (case os_readdir lib tmpDir t of
             Inl e \<Rightarrow> (if oe_missing e then None else Some (AppendError (''Failed to read temporary directory '' @ tmpDir) (oe_err e)), t)
           | Inr entries \<Rightarrow> remove_stale lib tmpDir (now - maxAge) entries t))"

definition CleanupStaleTempFiles :: "fs_lib \<Rightarrow> string \<Rightarrow> tree \<Rightarrow> err option \<times> tree" where
  "CleanupStaleTempFiles lib dataDir t = cleanupStaleTempFiles lib dataDir (fl_Now lib) kTmpMaxAge t"

end
