(* ===== verification/EnvFilesProps.thy ===== *)
theory EnvFilesProps
  imports EnvFiles
begin

text \<open>
  What the file operations of \<open>EnvFiles\<close> leave: the directories that a path needs, and the mode
  of an ancestor that was there before; temporary files that are read back, removed and
  cleaned without touching another file.
\<close>

section \<open>Single operations\<close>

lemma at_put [simp]: "at (put p e t) q = (if path_Clean p = path_Clean q then Some e else at t q)"
  by (auto simp: at_def put_def update_conv)

lemma at_without [simp]: "at (without p t) q = (if path_Clean p = path_Clean q then None else at t q)"
  by (auto simp: at_def without_def delete_conv)

lemma clean_idem [simp]: "path_Clean (path_Clean p) = path_Clean p"
proof -
  have "path_Clean (path_Clean p) = of_segs (rooted p) (path_segs p)" by (subst path_Clean_segs) simp
  then show ?thesis by (simp only: path_Clean_segs [of p])
qed

lemma at_Clean [simp]: "at t (path_Clean p) = at t p"
  by (simp add: at_def)

lemma stat_at: "os_stat lib p t = Inr e \<Longrightarrow> at t p = Some e"
  by (auto simp: os_stat_def split: option.splits if_splits)

lemma chmod_at: "os_chmod lib p m t = (None, t') \<Longrightarrow> \<exists>e. at t p = Some e \<and> t' = put p (set_mode m e) t"
  by (auto simp: os_chmod_def split: option.splits)

lemma mkdir_at: "os_mkdir lib p m t = (None, t') \<Longrightarrow> at t p = None \<and> t' = put p (DirEntry (m AND NOT (fl_Umask lib))) t"
  by (auto simp: os_mkdir_def split: option.splits if_splits)

lemma wrapped_None [simp]: "wrapped m r = (None, t) \<longleftrightarrow> r = (None, t)"
  by (cases r) (auto simp: wrapped_def split: option.split)

section \<open>Directories\<close>

lemma ensured_dir_mode:
  assumes "ensured_mode lib True p perm t = (None, t')"
  shows "\<exists>m. at t p = Some (DirEntry m) \<and> at t' p = Some (DirEntry perm) \<and> (\<forall>q. path_Clean q \<noteq> path_Clean p \<longrightarrow> at t' q = at t q)"
proof -
  obtain info where i: "os_stat lib p t = Inr info" "fe_IsDir info" "if fe_mode info = perm then t' = t else os_chmod lib p perm t = (None, t')"
    using assms by (auto simp: ensured_mode_def split: sum.splits if_splits)
  then obtain m where m: "info = DirEntry m" by (cases info) auto
  show ?thesis
    using stat_at [OF i(1)] i(3) m chmod_at [of lib p perm t t'] by (auto simp: set_mode_def split: if_splits)
qed

text \<open>The path and the directories above it.\<close>

definition above :: "string \<Rightarrow> string \<Rightarrow> bool" where
  "above p q \<longleftrightarrow> (\<exists>n. path_Clean ((path_Dir ^^ n) p) = path_Clean q)"

lemma above_self: "path_Clean p = path_Clean q \<Longrightarrow> above p q"
  unfolding above_def by (rule exI [of _ 0]) simp

lemma above_Dir: "above (path_Dir p) q \<Longrightarrow> above p q"
  unfolding above_def by (metis funpow_Suc_right o_apply)

definition ensured :: "fs_lib \<Rightarrow> string \<Rightarrow> mode \<Rightarrow> tree \<Rightarrow> tree \<Rightarrow> string \<Rightarrow> bool" where
  "ensured lib p perm t t' q \<longleftrightarrow>
     (if at t' q = at t q then True
      else above p q \<and>
        (case at t q of None \<Rightarrow> at t' q = Some (DirEntry (perm AND NOT (fl_Umask lib)))
         | Some e \<Rightarrow> fe_IsDir e \<and> at t' q = Some (DirEntry perm)))"

lemma ensure_dir_changes:
  "EnsureDir lib p perm t = (None, t') \<Longrightarrow>
    (\<exists>m. at t' p = Some (DirEntry m)) \<and> (\<forall>q. ensured lib p perm t t' q)"
proof (induction lib p perm t arbitrary: t' rule: EnsureDir.induct)
  case (1 lib p perm t)
  show ?case
  proof (cases "fs_Exists lib p t")
    case True
    then have "ensured_mode lib True p perm t = (None, t')" using 1(2) by (subst (asm) EnsureDir.simps) simp
    then obtain m where m: "at t p = Some (DirEntry m)" "at t' p = Some (DirEntry perm)"
      "\<forall>q. path_Clean q \<noteq> path_Clean p \<longrightarrow> at t' q = at t q" using ensured_dir_mode by blast
    have "ensured lib p perm t t' q" for q
    proof (cases "path_Clean q = path_Clean p")
      case True
      then have "at t q = at t p" "at t' q = at t' p" by (simp_all add: at_def)
      then show ?thesis using m True by (simp add: ensured_def above_self)
    qed (use m(3) in \<open>simp add: ensured_def\<close>)
    then show ?thesis using m(2) by blast
  next
    case False
    obtain t1 where t1: "(if p \<noteq> path_Dir p then EnsureDir lib (path_Dir p) perm t else (None, t)) = (None, t1)"
      "os_mkdir lib p perm t1 = (None, t')"
      using 1(2) False by (subst (asm) EnsureDir.simps) (auto split: prod.splits option.splits)
    have before: "ensured lib p perm t t1 q" for q
    proof (cases "p = path_Dir p")
      case True
      then show ?thesis using t1(1) by (auto simp: ensured_def split: if_splits)
    next
      case d: False
      then have "ensured lib (path_Dir p) perm t t1 q" using 1(1) [OF False] t1(1) by simp
      then show ?thesis using above_Dir by (auto simp: ensured_def split: if_splits)
    qed
    have new: "at t1 p = None" "t' = put p (DirEntry (perm AND NOT (fl_Umask lib))) t1" using mkdir_at [OF t1(2)] by auto
    have none: "at t p = None" using before [of p] new(1) by (auto simp: ensured_def split: if_splits option.splits)
    have "ensured lib p perm t t' q" for q
    proof (cases "path_Clean q = path_Clean p")
      case True
      then have "at t q = at t p" by (simp add: at_def)
      then show ?thesis using none new True by (simp add: ensured_def above_self)
    qed (use before [of q] new(2) in \<open>auto simp: ensured_def split: if_splits option.splits\<close>)
    then show ?thesis using new(2) by simp
  qed
qed


lemma ensure_dir_ancestor:
  "EnsureDir lib p perm t = (None, t') \<Longrightarrow> fl_StatError lib = (\<lambda>_ _. None) \<Longrightarrow> p \<noteq> [] \<Longrightarrow>
    (\<And>k. k < n \<Longrightarrow> at t ((path_Dir ^^ k) p) = None) \<Longrightarrow> at t ((path_Dir ^^ n) p) = Some (DirEntry m) \<Longrightarrow>
    at t' ((path_Dir ^^ n) p) = Some (DirEntry perm)"
proof (induction lib p perm t arbitrary: t' n rule: EnsureDir.induct)
  case (1 lib p perm t)
  have ex: "fs_Exists lib p t \<longleftrightarrow> at t p \<noteq> None"
    using 1(3,4) by (auto simp: fs_Exists_def os_stat_def split: option.splits)
  show ?case
  proof (cases n)
    case 0
    then have "ensured_mode lib True p perm t = (None, t')" using 1(2,6) ex by (subst (asm) EnsureDir.simps) simp
    then show ?thesis using ensured_dir_mode 0 by fastforce
  next
    case (Suc k)
    have none: "at t p = None" using 1(5) [of 0] Suc by simp
    have up: "at t ((path_Dir ^^ k) (path_Dir p)) = Some (DirEntry m)" "\<And>j. j < k \<Longrightarrow> at t ((path_Dir ^^ j) (path_Dir p)) = None"
      using 1(5) [of "Suc _"] 1(6) Suc by (simp_all add: funpow_swap1)
    have ne: "p \<noteq> path_Dir p"
    proof
      assume "p = path_Dir p"
      then have "(path_Dir ^^ j) p = p" for j by (induction j) (simp_all add: funpow_swap1)
      from this [of n] show False using none 1(6) by simp
    qed
    obtain t1 where t1: "EnsureDir lib (path_Dir p) perm t = (None, t1)" "os_mkdir lib p perm t1 = (None, t')"
      using 1(2) none ex ne by (subst (asm) EnsureDir.simps) (auto split: prod.splits option.splits)
    have "at t1 ((path_Dir ^^ k) (path_Dir p)) = Some (DirEntry perm)"
      using 1(1) [OF _ ne t1(1) 1(3) path_Dir_ne up(2) up(1)] ex none by simp
    moreover from this have "path_Clean ((path_Dir ^^ k) (path_Dir p)) \<noteq> path_Clean p"
      using mkdir_at [OF t1(2)] by (auto simp: at_def)
    ultimately show ?thesis using mkdir_at [OF t1(2)] Suc by (simp add: funpow_swap1)
  qed
qed

text \<open>
  \<open>EnsureDir\<close> makes the path a directory and touches only the path and what is above it:
  what was missing there is a directory with the mode that is asked for, less the umask; what
  was there is a directory before and after.
\<close>

theorem ensured_directory:
  assumes "EnsureDir lib p perm t = (None, t')"
  shows "(\<exists>m. at t' p = Some (DirEntry m)) \<and>
    (\<forall>q. if at t' q = at t q then True
      else above p q \<and>
        (case at t q of None \<Rightarrow> at t' q = Some (DirEntry (perm AND NOT (fl_Umask lib)))
         | Some e \<Rightarrow> fe_IsDir e \<and> at t' q = Some (DirEntry perm)))"
  using ensure_dir_changes [OF assms] by (simp add: ensured_def)

text \<open>
  C40. Making sure of a directory changes the mode of a directory that was there before: the
  closest ancestor that exists, which can be the home directory or one that all users share,
  has exactly the mode that was asked for the new directory when the call has succeeded.
\<close>

theorem ensure_dir_takes_over_ancestor:
  assumes "EnsureDir lib p perm t = (None, t')" "fl_StatError lib = (\<lambda>_ _. None)" "p \<noteq> []"
    and "\<And>k. k < n \<Longrightarrow> at t ((path_Dir ^^ k) p) = None" "at t ((path_Dir ^^ n) p) = Some (DirEntry m)"
  shows "at t' ((path_Dir ^^ n) p) = Some (DirEntry perm)"
  by (rule ensure_dir_ancestor [OF assms])

section \<open>Temporary files\<close>

lemma rel_inside:
  "rel_segs bs ts = Some rs \<Longrightarrow> ts = bs @ rs \<or> (\<exists>r. rs = ''..'' # r)"
  by (induction bs ts rule: rel_segs.induct) (auto split: if_splits)

lemma removed: "os_remove lib p t = (e, t') \<Longrightarrow> t' = t \<or> t' = without p t"
  by (auto simp: os_remove_def split: option.splits if_splits)

lemma dotdot_refused: "of_segs False (''..'' # r) = ''..'' \<or> HasPrefix (of_segs False (''..'' # r)) ''../''"
  by (cases r) (simp_all add: of_segs_def)

text \<open>
  C27. Removing a temporary file cannot touch anything else: whatever text is given as the path,
  dots and slashes included, when the file system changes at all, one entry is gone, and it
  lies strictly inside the directory for temporary files of this process.
\<close>

theorem temp_removal_stays_inside:
  assumes "RemoveTempFile lib dataDir p t = (e, t')" "t' \<noteq> t"
  shows "\<exists>dir rest. ConfigDir lib dataDir kTmp = Ok dir \<and> path_segs p = path_segs dir @ rest \<and> rest \<noteq> [] \<and>
    rooted p = rooted dir \<and> t' = without p t"
proof -
  obtain dir rel e1 where d: "ConfigDir lib dataDir kTmp = Ok dir" "filepath_Rel (path_Clean dir) (path_Clean p) = Some rel"
    "rel \<noteq> ''.''" "\<not> HasPrefix rel ''../''" "rel \<noteq> ''..''" "os_remove lib (path_Clean p) t = (e1, t')"
    using assms by (cases "os_remove lib (path_Clean p) t") (auto simp: RemoveTempFile_def Let_def split: sum.splits option.splits if_splits)
  obtain rs where rs: "rel_segs (path_segs dir) (path_segs p) = Some rs" "rel = of_segs False rs" "rooted dir = rooted p"
    using d(2) by (auto simp: filepath_Rel_def split: if_splits)
  have "path_segs p = path_segs dir @ rs" using rel_inside [OF rs(1)] d(4,5) rs(2) dotdot_refused by auto
  moreover have "rs \<noteq> []" using d(3) rs(2) by (auto simp: of_segs_def)
  moreover have "t' = without p t" using removed [OF d(6)] assms(2) by (simp add: without_def)
  ultimately show ?thesis using d(1) rs(3) by auto
qed


lemma Base_child:
  assumes "normal_seg n" "dir \<noteq> []"
  shows "path_Base (path_Join [dir, n]) = n" "path_Join [dir, n] \<noteq> path_Clean dir" "path_Clean (path_Join [dir, n]) = path_Join [dir, n]"
proof -
  have n: "n \<noteq> []" "CHR ''/'' \<notin> set n" using normal_segD [OF assms(1)] by auto
  have j: "path_Join [dir, n] = of_segs (rooted dir) (path_segs dir @ [n])" using path_Join_normal [of "[n]" dir] assms by simp
  have shape: "\<exists>x. path_Join [dir, n] = x @ n \<and> (x = [] \<or> last x = CHR ''/'')"
    unfolding j by (cases "path_segs dir = []") (auto simp: of_segs_def Join_append)
  have free: "split_on (CHR ''/'') n = [n]" using n(2) by (induction n) auto
  have right: "trim_right (\<lambda>c. c = CHR ''/'') (x @ n) = x @ n" for x
    using n by (cases n rule: rev_cases) (auto simp: trim_right_def)
  obtain x where x: "path_Join [dir, n] = x @ n" "x = [] \<or> last x = CHR ''/''" using shape by blast
  have "last (split_on (CHR ''/'') (x @ n)) = n"
    using x(2) split_glue [of "CHR ''/''" "butlast x" n] free by (cases x rule: rev_cases) auto
  then show "path_Base (path_Join [dir, n]) = n" using n(1) right [of x] by (simp add: x(1) path_Base_def)
  have "path_segs (path_Join [dir, n]) = path_segs dir @ [n]"
    using segs_append(1) [of "[n]" dir] assms by (simp add: path_Join_def)
  then show "path_Join [dir, n] \<noteq> path_Clean dir" by auto
  show "path_Clean (path_Join [dir, n]) = path_Join [dir, n]" using assms(2) by (simp add: path_Join_def)
qed

lemma tmp_dir:
  assumes "ConfigDir lib dataDir kTmp = Ok dir"
  shows "dir \<noteq> []" "path_Clean dir = dir"
  using assms by (auto simp: ConfigDir_def configPath_def configPathFor_def bind_ok_Inr kTmp_def path_Join_def split: if_splits list.splits)

text \<open>What a listing contains, on a file system with one entry per path.\<close>

lemma listed_at:
  assumes "distinct (map fst t)"
  shows "(n, e) \<in> set (listed dir t) \<Longrightarrow> path_Clean (path_Join [dir, n]) = path_Join [dir, n] \<Longrightarrow> at t (path_Join [dir, n]) = Some e"
    and "normal_seg n \<Longrightarrow> dir \<noteq> [] \<Longrightarrow> at t (path_Join [dir, n]) = Some e \<Longrightarrow> (n, e) \<in> set (listed dir t)"
  using assms Base_child [of n dir] by (auto simp: listed_def at_def image_iff dest: map_of_SomeD)

text \<open>The name of a file that may be removed because of its age.\<close>

definition stale :: "int \<Rightarrow> string \<Rightarrow> fs_entry \<Rightarrow> bool" where
  "stale cutoff n e \<longleftrightarrow> \<not> fe_IsDir e \<and> isManagedTempFile n \<and> fe_time e \<le> cutoff"

text \<open>One step of the loop.\<close>

lemma remove_stale_step:
  assumes "remove_stale lib tmp cutoff ((m, f) # es) t = (r, t')"
  obtains (keep) "\<not> stale cutoff m f" "remove_stale lib tmp cutoff es t = (r, t')"
    | (removed) t1 where "stale cutoff m f" "at t1 (path_Join [tmp, m]) = None" "remove_stale lib tmp cutoff es t1 = (r, t')"
        "\<And>q. at t1 q = at t q \<or> at t1 q = None \<and> path_Clean (path_Join [tmp, m]) = path_Clean q"
    | (failed) "stale cutoff m f" "r \<noteq> None" "\<And>q. at t' q = at t q \<or> at t' q = None \<and> path_Clean (path_Join [tmp, m]) = path_Clean q"
proof (cases "stale cutoff m f")
  case False
  then show ?thesis using assms keep by (auto simp: stale_def not_le split: if_splits)
next
  case True
  obtain e1 t1 where rm: "os_remove lib (path_Join [tmp, m]) t = (e1, t1)" by (metis surj_pair)
  have r: "(case removal_error (''Failed to remove stale temporary file '' @ m) e1 of Some e \<Rightarrow> (Some e, t1)
      | None \<Rightarrow> remove_stale lib tmp cutoff es t1) = (r, t')"
    using assms True rm by (auto simp: stale_def split: if_splits option.splits)
  have one: "at t1 q = at t q \<or> at t1 q = None \<and> path_Clean (path_Join [tmp, m]) = path_Clean q" for q
    using EnvFilesProps.removed [OF rm] by (auto split: if_splits)
  show ?thesis
  proof (cases "removal_error (''Failed to remove stale temporary file '' @ m) e1")
    case None
    then have "at t1 (path_Join [tmp, m]) = None"
      using rm by (auto simp: os_remove_def removal_error_def refused_def split: option.splits if_splits)
    then show ?thesis using removed True r None one by simp
  next
    case (Some e2)
    have "(Some e2, t1) = (r, t')" using r [unfolded Some] by simp
    then have "t1 = t'" "r \<noteq> None" by auto
    then show ?thesis using failed True one by simp
  qed
qed

lemma remove_stale_only:
  "remove_stale lib tmp cutoff es t = (r, t') \<Longrightarrow>
    at t' q = at t q \<or> at t' q = None \<and> (\<exists>n e. (n, e) \<in> set es \<and> stale cutoff n e \<and> path_Clean (path_Join [tmp, n]) = path_Clean q)"
proof (induction es arbitrary: t)
  case (Cons x es)
  obtain m f where x: "x = (m, f)" by (cases x)
  from Cons.prems [unfolded x] show ?case
  proof (cases rule: remove_stale_step)
    case keep
    then show ?thesis using Cons.IH [OF keep(2)] x by auto
  next
    case (removed t1)
    have "at t1 q = at t q \<or> at t1 q = None \<and> path_Clean (path_Join [tmp, m]) = path_Clean q" by (rule removed(4))
    then show ?thesis using Cons.IH [OF removed(3)] removed(1) x by auto
  next
    case failed
    have "at t' q = at t q \<or> at t' q = None \<and> path_Clean (path_Join [tmp, m]) = path_Clean q" by (rule failed(3))
    then show ?thesis using failed(1) x by auto
  qed
qed simp

lemma remove_stale_all:
  "remove_stale lib tmp cutoff es t = (None, t') \<Longrightarrow> (n, e) \<in> set es \<Longrightarrow> stale cutoff n e \<Longrightarrow> at t' (path_Join [tmp, n]) = None"
proof (induction es arbitrary: t)
  case (Cons x es)
  obtain m f where x: "x = (m, f)" by (cases x)
  from Cons.prems(1) [unfolded x] show ?case
  proof (cases rule: remove_stale_step)
    case keep
    then show ?thesis using Cons x by auto
  next
    case (removed t1)
    then show ?thesis using Cons.IH [OF removed(3)] remove_stale_only [OF removed(3), of "path_Join [tmp, n]"] Cons.prems(2,3) x by auto
  qed auto
qed simp

text \<open>
  Cleaning removes old temporary files and nothing else: whatever its outcome, what is
  gone was a file in the directory for temporary files, with a name that a temporary file
  has and a time that is not after the cutoff, and everything else is as before; when it
  succeeds, every such file is gone.
\<close>

theorem cleanup_removes_stale_files:
  assumes "cleanupStaleTempFiles lib dataDir now maxAge t = (r, t')" "distinct (map fst t)" "ConfigDir lib dataDir kTmp = Ok dir"
  shows "(\<forall>q. if at t' q = at t q then True
      else at t' q = None \<and> (\<exists>m c i. path_Clean q = path_Join [dir, path_Base (path_Clean q)] \<and> at t q = Some (FileEntry m c i) \<and>
        isManagedTempFile (path_Base (path_Clean q)) \<and> i \<le> now - maxAge)) \<and>
    (if r = None \<and> at t dir \<noteq> None
     then \<forall>n m c i. at t (path_Join [dir, n]) = Some (FileEntry m c i) \<longrightarrow> normal_seg n \<longrightarrow> isManagedTempFile n \<longrightarrow> i \<le> now - maxAge \<longrightarrow>
       at t' (path_Join [dir, n]) = None
     else True)"
proof (cases "os_readdir lib dir t")
  case (Inl e)
  then show ?thesis
    using assms by (auto simp: cleanupStaleTempFiles_def os_readdir_def refused_def split: option.splits if_splits)
next
  case (Inr es)
  have run: "remove_stale lib dir (now - maxAge) (listed dir t) t = (r, t')"
    using assms(1,3) Inr by (auto simp: cleanupStaleTempFiles_def os_readdir_def split: option.splits if_splits)
  have ne: "dir \<noteq> []" using tmp_dir(1) [OF assms(3)] .
  have clean: "path_Clean (path_Join [dir, n]) = path_Join [dir, n]" for n using ne by (simp add: path_Join_def)
  let ?gone = "\<lambda>q. \<exists>m c i. path_Clean q = path_Join [dir, path_Base (path_Clean q)] \<and> at t q = Some (FileEntry m c i) \<and>
      isManagedTempFile (path_Base (path_Clean q)) \<and> i \<le> now - maxAge"
  have old: "at t' q = at t q \<or> at t' q = None \<and> ?gone q" for q
  proof -
    have "at t q = Some e" "path_Clean q = path_Join [dir, n]" "path_Base (path_Clean q) = n"
      if "(n, e) \<in> set (listed dir t)" "path_Clean (path_Join [dir, n]) = path_Clean q" for n e
      using listed_at(1) [OF assms(2) that(1) clean] that clean [of n] by (auto simp: at_def listed_def)
    moreover have "\<exists>m c i. e = FileEntry m c i \<and> i \<le> now - maxAge" "isManagedTempFile n" if "stale (now - maxAge) n e" for n e
      using that by (cases e; simp add: stale_def)+
    ultimately show ?thesis using remove_stale_only [OF run, of q] by metis
  qed
  have new: "at t' (path_Join [dir, n]) = None"
    if "r = None" "at t (path_Join [dir, n]) = Some (FileEntry m c i)" "normal_seg n" "isManagedTempFile n" "i \<le> now - maxAge" for n m c i
    using remove_stale_all [OF run [unfolded that(1)] listed_at(2) [OF assms(2) that(3) ne that(2)]] that by (simp add: stale_def)
  have "if at t' q = at t q then True else at t' q = None \<and> ?gone q" for q using old [of q] by presburger
  then show ?thesis using new by (metis (full_types))
qed


lemma write_text_at:
  "write_text lib n c t = (None, t') \<Longrightarrow> \<exists>m c0 i. at t n = Some (FileEntry m c0 i) \<and> t' = put n (FileEntry m c (fl_Now lib)) t"
  by (auto simp: write_text_def split: option.splits fs_entry.splits)

lemma created_temp:
  assumes "cos_CreateTempFileWithContent lib dir pat c t = (Ok n, t')"
  shows "fl_TempName lib dir pat t = Ok n" "at t n = None" "\<exists>m. at t' n = Some (FileEntry m c (fl_Now lib))"
    "path_Clean q \<noteq> path_Clean n \<Longrightarrow> at t' q = at t q"
proof -
  obtain t1 where t1: "cos_CreateTempFile lib dir pat t = (Ok n, t1)" "write_text lib n c t1 = (None, t')"
    using assms by (auto simp: cos_CreateTempFileWithContent_def split: prod.splits sum.splits option.splits)
  have one: "fl_TempName lib dir pat t = Ok n" "at t n = None" "t1 = put n (FileEntry (0x180 AND NOT (fl_Umask lib)) [] (fl_Now lib)) t"
    using t1(1) by (auto simp: cos_CreateTempFile_def split: sum.splits option.splits if_splits)
  then show "fl_TempName lib dir pat t = Ok n" "at t n = None" by simp_all
  show "\<exists>m. at t' n = Some (FileEntry m c (fl_Now lib))" "path_Clean q \<noteq> path_Clean n \<Longrightarrow> at t' q = at t q"
    using write_text_at [OF t1(2)] one(3) by auto
qed



section \<open>Witnesses\<close>

definition sample_fs :: fs_lib where
  "sample_fs = \<lparr>fl_Getenv = (\<lambda>_. []), fl_HomeDir = Ok ''/home/u'', fl_Umask = 0x12, fl_Now = 100,
     fl_StatError = (\<lambda>_ _. None), fl_ChmodError = (\<lambda>_ _. None), fl_MkdirError = (\<lambda>_ _. None), fl_OpenError = (\<lambda>_ _. None),
     fl_RemoveError = (\<lambda>_ _. None), fl_ReadDirError = (\<lambda>_ _. None), fl_CopyError = (\<lambda>_ _. None), fl_CloseError = (\<lambda>_ _. None),
     fl_TempName = (\<lambda>dir pattern _. Ok (path_Join [dir, ''tmp-file-1'']))\<rparr>"

definition sample_tree :: tree where
  "sample_tree = [(''/'', DirEntry 0x1ED), (''/home'', DirEntry 0x1ED), (''/home/u'', DirEntry 0x1ED)]"

definition used_tree :: tree where
  "used_tree = sample_tree @ [(''/home/u/.xcds'', DirEntry 0x1C0), (''/home/u/.xcds/tmp'', DirEntry 0x1C0),
     (''/home/u/.xcds/tmp/tmp-file-7'', FileEntry 0x180 ''old'' 5), (''/home/u/.xcds/tmp/notes'', FileEntry 0x180 ''mine'' 5)]"

lemma sample_ensured:
  "EnsureDir sample_fs ''/home/u/.ssh'' KPermDir sample_tree =
    (None, [(''/'', DirEntry 0x1ED), (''/home'', DirEntry 0x1ED), (''/home/u'', DirEntry 0x1C0), (''/home/u/.ssh'', DirEntry 0x1C0)])"
  by code_simp

theorem ensured_directory_witness:
  "\<exists>t'. EnsureDir sample_fs ''/home/u/.ssh'' KPermDir sample_tree = (None, t') \<and> (\<exists>m. at t' ''/home/u/.ssh'' = Some (DirEntry m))"
  using ensured_directory [OF sample_ensured] sample_ensured by blast

theorem ensure_dir_takes_over_ancestor_witness:
  "\<exists>t'. EnsureDir sample_fs ''/home/u/.ssh'' KPermDir sample_tree = (None, t') \<and>
     at sample_tree ''/home/u'' = Some (DirEntry 0x1ED) \<and> at t' ''/home/u'' = Some (DirEntry 0x1C0)"
proof -
  have up: "(path_Dir ^^ 1) ''/home/u/.ssh'' = ''/home/u''" by code_simp
  have c: "fl_StatError sample_fs = (\<lambda>_ _. None)" "at sample_tree ''/home/u/.ssh'' = None" "at sample_tree ''/home/u'' = Some (DirEntry 0x1ED)"
    "KPermDir = 0x1C0"
    by (simp add: sample_fs_def) code_simp+
  have "at [(''/'', DirEntry 0x1ED), (''/home'', DirEntry 0x1ED), (''/home/u'', DirEntry 0x1C0), (''/home/u/.ssh'', DirEntry 0x1C0)]
      ((path_Dir ^^ 1) ''/home/u/.ssh'') = Some (DirEntry KPermDir)"
    by (rule ensure_dir_takes_over_ancestor [OF sample_ensured c(1)]) (simp_all add: c up [simplified])
  then show ?thesis using sample_ensured c(3,4) up by metis
qed

theorem temp_removal_stays_inside_witness:
  "\<exists>t'. RemoveTempFile sample_fs ''.xcds'' ''/home/u/.xcds/x/../tmp//tmp-file-7'' used_tree = (None, t') \<and>
     t' = without ''/home/u/.xcds/x/../tmp//tmp-file-7'' used_tree \<and>
     fst (RemoveTempFile sample_fs ''.xcds'' ''/home/u/.xcds/tmp/../../.ssh'' used_tree) \<noteq> None"
proof -
  let ?p = "''/home/u/.xcds/x/../tmp//tmp-file-7''"
  obtain t' where run: "RemoveTempFile sample_fs ''.xcds'' ?p used_tree = (None, t')" "length t' = 6"
    by (rule that [of "snd (RemoveTempFile sample_fs ''.xcds'' ?p used_tree)"]) code_simp+
  have "length used_tree = 7" by code_simp
  then have "t' \<noteq> used_tree" using run(2) by auto
  then have "t' = without ?p used_tree" using temp_removal_stays_inside [OF run(1)] by blast
  moreover have "fst (RemoveTempFile sample_fs ''.xcds'' ''/home/u/.xcds/tmp/../../.ssh'' used_tree) \<noteq> None" by code_simp
  ultimately show ?thesis using run(1) by blast
qed

theorem cleanup_removes_stale_files_witness:
  "\<exists>t'. cleanupStaleTempFiles sample_fs ''.xcds'' 100 50 used_tree = (None, t') \<and>
     at t' ''/home/u/.xcds/tmp/tmp-file-7'' = None \<and> at t' ''/home/u/.xcds/tmp/notes'' = at used_tree ''/home/u/.xcds/tmp/notes''"
proof -
  obtain t' where run: "cleanupStaleTempFiles sample_fs ''.xcds'' 100 50 used_tree = (None, t')"
    by (rule that [of "snd (cleanupStaleTempFiles sample_fs ''.xcds'' 100 50 used_tree)"]) code_simp
  have c: "distinct (map fst used_tree)" "ConfigDir sample_fs ''.xcds'' kTmp = Ok ''/home/u/.xcds/tmp''"
    "at used_tree ''/home/u/.xcds/tmp'' \<noteq> None" "path_Join [''/home/u/.xcds/tmp'', ''tmp-file-7''] = ''/home/u/.xcds/tmp/tmp-file-7''"
    "at used_tree ''/home/u/.xcds/tmp/tmp-file-7'' = Some (FileEntry 0x180 ''old'' 5)" "normal_seg ''tmp-file-7''" "isManagedTempFile ''tmp-file-7''"
    "path_Clean ''/home/u/.xcds/tmp/notes'' = ''/home/u/.xcds/tmp/notes''" "at used_tree ''/home/u/.xcds/tmp/notes'' = Some (FileEntry 0x180 ''mine'' 5)"
    "path_Base ''/home/u/.xcds/tmp/notes'' = ''notes''" "\<not> isManagedTempFile ''notes''"
    by code_simp+
  note clean = cleanup_removes_stale_files [OF run c(1,2)]
  have gone: "at t' ''/home/u/.xcds/tmp/tmp-file-7'' = None"
    using conjunct2 [OF clean] c(3-7) by (force simp: c(4) dest: spec [of _ "''tmp-file-7''"])
  have "at t' ''/home/u/.xcds/tmp/notes'' = at used_tree ''/home/u/.xcds/tmp/notes''"
    using spec [OF conjunct1 [OF clean], of "''/home/u/.xcds/tmp/notes''"] c(8,10,11) by (auto split: if_splits)
  with gone run show ?thesis by blast
qed


end
