(* ===== verification/Regex.thy ===== *)
theory Regex
  imports Prelude
begin

text \<open>
  The part of the standard package \<open>regexp\<close> that \<open>internal/scm\<close> needs: classes of characters,
  sequence, greedy repetition, greedy option and named groups, searched from the left, the
  preferred match first. \<open>re_all\<close> lists every match at the start of a text in the order in which
  a backtracking search finds them, with what is left of the text and what the groups hold.
\<close>

datatype re =
  Cls "char \<Rightarrow> bool"
| Seq re re
| Star re
| Opt re
| Group string re

fun re_size :: "re \<Rightarrow> nat" where
  "re_size (Cls P) = 1"
| "re_size (Seq a b) = Suc (re_size a + re_size b)"
| "re_size (Star a) = Suc (re_size a)"
| "re_size (Opt a) = Suc (re_size a)"
| "re_size (Group n a) = Suc (re_size a)"

type_synonym re_match = "string \<times> string \<times> (string \<times> string) list"

definition then_match :: "re_match \<Rightarrow> re_match \<Rightarrow> re_match" where
  "then_match m k = (fst m @ fst k, fst (snd k), snd (snd m) @ snd (snd k))"

function re_all :: "re \<Rightarrow> string \<Rightarrow> re_match list" where
  "re_all (Cls P) s = (case s of [] \<Rightarrow> [] | c # cs \<Rightarrow> if P c then [([c], cs, [])] else [])"
| "re_all (Seq a b) s = concat (map (\<lambda>m. map (then_match m) (re_all b (fst (snd m)))) (re_all a s))"
| "re_all (Star a) s =
     concat (map (\<lambda>m. if length (fst (snd m)) < length s then map (then_match m) (re_all (Star a) (fst (snd m))) else [])
       (re_all a s)) @ [([], s, [])]"
| "re_all (Opt a) s = re_all a s @ [([], s, [])]"
| "re_all (Group n a) s = map (\<lambda>(c, r, g). (c, r, (n, c) # g)) (re_all a s)"
  by pat_completeness auto

termination by (relation "measures [\<lambda>(r, s). re_size r, \<lambda>(r, s). length s]") auto

declare re_all.simps(3) [simp del]

text \<open>\<open>FindStringSubmatch\<close>, \<open>MatchString\<close> and the text of a group; \<open>SubexpIndex\<close> asks whether there is a group.\<close>

fun re_find :: "re \<Rightarrow> string \<Rightarrow> re_match option" where
  "re_find r s =
     (case re_all r s of
        m # _ \<Rightarrow> Some m
      | [] \<Rightarrow> (case s of [] \<Rightarrow> None | c # cs \<Rightarrow> re_find r cs))"

declare re_find.simps [simp del]

definition re_matches :: "re \<Rightarrow> string \<Rightarrow> bool" where
  "re_matches r s = (re_find r s \<noteq> None)"

fun re_groups :: "re \<Rightarrow> string list" where
  "re_groups (Cls P) = []"
| "re_groups (Seq a b) = re_groups a @ re_groups b"
| "re_groups (Star a) = re_groups a"
| "re_groups (Opt a) = re_groups a"
| "re_groups (Group n a) = n # re_groups a"

definition re_text :: "string \<Rightarrow> re_match \<Rightarrow> string" where
  "re_text n m = (case map_of (snd (snd m)) n of None \<Rightarrow> [] | Some t \<Rightarrow> t)"

text \<open>Literal text, one or more, and a sequence.\<close>

definition re_Plus :: "re \<Rightarrow> re" where "re_Plus a = Seq a (Star a)"

fun re_seq :: "re list \<Rightarrow> re" where
  "re_seq [] = Opt (Cls (\<lambda>_. False))"
| "re_seq [a] = a"
| "re_seq (a # b # rs) = Seq a (re_seq (b # rs))"

definition re_lit :: "string \<Rightarrow> re" where
  "re_lit s = re_seq (map (\<lambda>c. Cls (\<lambda>d. d = c)) s)"

definition is_word :: "char \<Rightarrow> bool" where
  "is_word c \<longleftrightarrow> (let n = char_code c in 48 \<le> n \<and> n \<le> 57 \<or> 65 \<le> n \<and> n \<le> 90 \<or> 97 \<le> n \<and> n \<le> 122 \<or> n = 95)"

definition re_dot :: re where "re_dot = Cls (\<lambda>c. char_code c \<noteq> 10)"

section \<open>The preferred match\<close>

definition first_match :: "re \<Rightarrow> string \<Rightarrow> re_match \<Rightarrow> bool" where
  "first_match r s m \<longleftrightarrow> (case re_all r s of [] \<Rightarrow> False | k # _ \<Rightarrow> k = m)"

lemma first_matchD: "first_match r s m \<Longrightarrow> \<exists>ms. re_all r s = m # ms"
  by (auto simp: first_match_def split: list.splits)

lemma first_match_find: "first_match r s m \<Longrightarrow> re_find r s = Some m"
  by (auto simp: re_find.simps dest!: first_matchD)

lemma first_Cls [simp]: "first_match (Cls P) (c # cs) m \<longleftrightarrow> P c \<and> m = ([c], cs, [])"
  by (auto simp: first_match_def)

lemma first_Seq:
  assumes "first_match a s (c, r, g)" "first_match b r (c', r', g')"
  shows "first_match (Seq a b) s (c @ c', r', g @ g')"
  using first_matchD [OF assms(1)] first_matchD [OF assms(2)] by (auto simp: first_match_def then_match_def)

lemma first_Group: "first_match a s (c, r, g) \<Longrightarrow> first_match (Group n a) s (c, r, (n, c) # g)"
  by (drule first_matchD) (auto simp: first_match_def)

lemma first_Opt: "first_match a s m \<Longrightarrow> first_match (Opt a) s m"
  by (drule first_matchD) (auto simp: first_match_def)

lemma first_Opt_none: "re_all a s = [] \<Longrightarrow> first_match (Opt a) s ([], s, [])"
  by (simp add: first_match_def)

text \<open>Greedy repetition of a class takes the longest run of its characters.\<close>

lemma first_Star_Cls: "first_match (Star (Cls P)) s (takeWhile P s, dropWhile P s, [])"
proof (induction s)
  case Nil
  show ?case by (simp add: first_match_def re_all.simps(3))
next
  case (Cons c s)
  obtain ms where "re_all (Star (Cls P)) s = (takeWhile P s, dropWhile P s, []) # ms" using first_matchD [OF Cons] by blast
  then show ?case by (simp add: first_match_def re_all.simps(3) [of _ "c # s"] then_match_def)
qed

lemma first_Plus_Cls:
  assumes "s = w @ r" "w \<noteq> []" "list_all P w" "case r of [] \<Rightarrow> True | c # _ \<Rightarrow> \<not> P c"
  shows "first_match (re_Plus (Cls P)) s (w, r, [])"
proof -
  obtain c v where w: "w = c # v" using assms(2) by (cases w) auto
  have run: "takeWhile P (v @ r) = v \<and> dropWhile P (v @ r) = r"
  proof -
    have "takeWhile P r = [] \<and> dropWhile P r = r" using assms(4) by (cases r) auto
    moreover have "\<forall>x \<in> set v. P x" using assms(3) w by (auto simp: list_all_iff)
    ultimately show ?thesis by (simp add: takeWhile_append2 dropWhile_append2)
  qed
  have "first_match (Cls P) s ([c], v @ r, [])" using assms(1,3) w by simp
  from first_Seq [OF this first_Star_Cls [of P]] show ?thesis using run w by (simp add: re_Plus_def)
qed

lemma first_lit: "s \<noteq> [] \<Longrightarrow> first_match (re_lit s) (s @ r) (s, r, [])"
proof (induction s)
  case (Cons c s)
  show ?case
  proof (cases s)
    case Nil
    then show ?thesis by (simp add: re_lit_def)
  next
    case (Cons d t)
    then have "first_match (Seq (Cls (\<lambda>x. x = c)) (re_lit s)) (c # s @ r) ([c] @ s, r, [] @ [])"
      using Cons.IH by (intro first_Seq [where r = "s @ r"]) auto
    then show ?thesis using Cons by (simp add: re_lit_def)
  qed
qed simp

end
