(* ===== verification/Scm.thy ===== *)
theory Scm
  imports Regex Address EngineCore
begin

text \<open>
  The client of Bitbucket (\<open>internal/scm\<close>): the HTTP requests and how they are authenticated
  (\<open>http.go\<close>), the stored credentials (\<open>auth.go\<close>), the instances and their clients
  (\<open>bitbucket_instances.go\<close>, \<open>bitbucket.go\<close>), the calls of the REST interface
  (\<open>bitbucket_api.go\<close>), repositories with their submodules (\<open>bitbucket_repository.go\<close>) and the
  entry points (\<open>git.go\<close>, \<open>remote.go\<close>).

  The server, the stored secrets and the JSON and INI decoders are the record \<open>scm_env\<close> on a world
  \<open>'w\<close>. The state is the table of clients and the world. A call has type \<open>('a, 's) call\<close>: \<open>None\<close>
  when it does not return, because it panics (a nil pointer is used) or because it calls
  itself for ever; otherwise a result and the new state.
\<close>

section \<open>Calls\<close>

type_synonym ('a, 's) call = "'s \<Rightarrow> ('a result \<times> 's) option"

definition panic :: "('a, 's) call" where "panic s = None"
definition give :: "'a result \<Rightarrow> ('a, 's) call" where "give r s = Some (r, s)"

text \<open>\<open>if err != nil\<close> with the error wrapped in a message; \<open>then_do\<close> returns it as it is.\<close>

definition or_wrap :: "string \<Rightarrow> ('a, 's) call \<Rightarrow> ('a \<Rightarrow> ('b, 's) call) \<Rightarrow> ('b, 's) call" where
  "or_wrap m c f s =
     (case c s of
        None \<Rightarrow> None
      | Some (Inl e, s1) \<Rightarrow> Some (Inl (AppendError m e), s1)
      | Some (Inr x, s1) \<Rightarrow> f x s1)"

definition then_do :: "('a, 's) call \<Rightarrow> ('a \<Rightarrow> ('b, 's) call) \<Rightarrow> ('b, 's) call" where
  "then_do c f s =
     (case c s of None \<Rightarrow> None | Some (Inl e, s1) \<Rightarrow> Some (Inl e, s1) | Some (Inr x, s1) \<Rightarrow> f x s1)"

section \<open>HTTP\<close>

record HttpAuth =
  ha_Username :: string
  ha_Password :: string
  ha_AccessToken :: string

definition no_auth :: HttpAuth where
  "no_auth = \<lparr>ha_Username = [], ha_Password = [], ha_AccessToken = []\<rparr>"

datatype authorization = NoAuth | BasicAuth string string | BearerAuth string

text \<open>A query that is set replaces the one in the text of the URL.\<close>

record http_url =
  hu_Text :: string
  hu_Query :: "(string \<times> string) list option"

record http_request =
  rq_Method :: string
  rq_Url :: http_url
  rq_Auth :: authorization
  rq_Json :: bool
  rq_Body :: string

text \<open>An answer may have no body; reading a body may fail.\<close>

datatype http_answer = NoAnswer err | BrokenAnswer int err | Answer int "string result option"

record HttpResponse =
  hr_code :: int
  hr_body :: string

record TokenListing =
  tl_ID :: string
  tl_Name :: string

record bitbucketToken =
  bt_Id :: string
  bt_token :: string

record bitbucketSubmodule =
  sm_Branch :: string
  sm_Path :: string
  sm_Url :: string

record scm_url =
  su_Scheme :: string
  su_Host :: string
  su_Hostname :: string
  su_Path :: string

text \<open>The handlers that the command line sets; without one a dummy answers.\<close>

record 'w authHandle =
  ah_User :: "string \<Rightarrow> 'w \<Rightarrow> string \<times> 'w"
  ah_Password :: "string \<Rightarrow> 'w \<Rightarrow> string \<times> 'w"
  ah_Save :: "string \<Rightarrow> string \<Rightarrow> 'w \<Rightarrow> err option \<times> 'w"
  ah_SaveInfo :: "string \<Rightarrow> string \<Rightarrow> 'w \<Rightarrow> err option \<times> 'w"

record 'w tokenHandle =
  th_Token :: "string \<Rightarrow> 'w \<Rightarrow> string \<times> 'w"
  th_TokenInfo :: "string \<Rightarrow> 'w \<Rightarrow> string \<times> 'w"

record 'w scm_env =
  sc_BitbucketUser :: string
  sc_Auth :: "'w authHandle option"
  sc_Tokens :: "'w tokenHandle option"
  sc_Parse :: "string \<Rightarrow> scm_url result"
  sc_UrlString :: "http_url \<Rightarrow> string"
  sc_RequestError :: "http_url \<Rightarrow> err option"
  sc_Do :: "http_request \<Rightarrow> 'w \<Rightarrow> http_answer \<times> 'w"
  sc_Clone :: "string \<Rightarrow> string \<Rightarrow> string \<Rightarrow> HttpAuth \<Rightarrow> 'w \<Rightarrow> err option \<times> 'w"
  js_Errors :: "string \<Rightarrow> string list result"
  js_Files :: "string \<Rightarrow> string list result"
  js_Type :: "string \<Rightarrow> string result"
  js_Active :: "string \<Rightarrow> bool result"
  js_Tokens :: "string \<Rightarrow> TokenListing list result"
  js_NewToken :: "string \<Rightarrow> bitbucketToken result"
  js_Commits :: "string \<Rightarrow> string list result"
  js_TokenRequest :: "string \<Rightarrow> string list \<Rightarrow> int \<Rightarrow> string result"
  js_ReadInfo :: "string \<Rightarrow> string result"
  js_WriteInfo :: "string \<Rightarrow> string result"
  ini_Load :: "string \<Rightarrow> (string \<times> (string \<Rightarrow> string)) list result"

definition authenticateRequest :: "'w scm_env \<Rightarrow> HttpAuth \<Rightarrow> authorization result" where
  "authenticateRequest env a =
     (if ha_Username a = sc_BitbucketUser env then Ok (BasicAuth (ha_Username a) (ha_AccessToken a))
      else if length (ha_Username a) > 0 \<and> length (ha_Password a) > 0 then Ok (BasicAuth (ha_Username a) (ha_Password a))
      else if length (ha_AccessToken a) > 0 then Ok (BearerAuth (ha_AccessToken a))
      else Fail ''No authentication method available, aborting !'')"

text \<open>The code, and the reader of the body: nil for an empty answer.\<close>

definition doRequest :: "'w scm_env \<Rightarrow> http_request \<Rightarrow> bool \<Rightarrow> 'w \<Rightarrow> (string result option result \<times> int) \<times> 'w" where
  "doRequest env req emptyResponse w =
     (case sc_Do env req w of
        (NoAnswer e, w1) \<Rightarrow> ((Inl (AppendError ''Failed to make HTTP request'' e), -1), w1)
      | (BrokenAnswer code e, w1) \<Rightarrow> ((Inl (AppendError ''Failed to make HTTP request'' e), code), w1)
      | (Answer code body, w1) \<Rightarrow>
          if code > 499 then ((Fail (''Request failed with HTTP code: '' @ Itoa code), code), w1)
          else if emptyResponse \<or> code = 204 then ((Ok None, code), w1)
          else case body of
            None \<Rightarrow> ((Fail (''Empty response to HTTP request (code '' @ Itoa code @ '')''), code), w1)
          | Some _ \<Rightarrow> ((Ok body, code), w1))"

definition request_auth :: "'w scm_env \<Rightarrow> HttpAuth \<Rightarrow> authorization result" where
  "request_auth env a =
     (if a \<noteq> no_auth then wrap_error ''Failed to authenticate request'' (authenticateRequest env a) else Ok NoAuth)"

text \<open>Reading from a nil reader is a panic; the response beside an error is not used by any caller.\<close>

definition read_answer :: "'w scm_env \<Rightarrow> http_url \<Rightarrow> string result option result \<times> int \<Rightarrow> (HttpResponse, 'w) call" where
  "read_answer env url a =
     (case a of
        (Inl e, code) \<Rightarrow> give (Inl (AppendError (''Failed to make GET request to ('' @ sc_UrlString env url @ '')'') e))
      | (Inr None, code) \<Rightarrow> panic
      | (Inr (Some (Inl e)), code) \<Rightarrow> give (Inl (AppendError (''Failed to read response to GET request to ('' @ sc_UrlString env url @ '')'') e))
      | (Inr (Some (Inr body)), code) \<Rightarrow> give (Ok \<lparr>hr_code = code, hr_body = body\<rparr>))"

definition create_error :: "'w scm_env \<Rightarrow> http_url \<Rightarrow> err \<Rightarrow> err" where
  "create_error env url e = AppendError (''Failed to create GET request to ('' @ sc_UrlString env url @ '')'') e"

definition http_Get :: "'w scm_env \<Rightarrow> HttpAuth \<Rightarrow> http_url \<Rightarrow> (HttpResponse, 'w) call" where
  "http_Get env a url w =
     (case sc_RequestError env url of
        Some e \<Rightarrow> Some (Inl (create_error env url e), w)
      | None \<Rightarrow>
          (case request_auth env a of
             Inl e \<Rightarrow> Some (Inl e, w)
           | Inr auth \<Rightarrow>
               (case doRequest env \<lparr>rq_Method = ''GET'', rq_Url = url, rq_Auth = auth, rq_Json = False, rq_Body = []\<rparr> False w of
                  (r, w1) \<Rightarrow> read_answer env url r w1)))"

definition http_Delete :: "'w scm_env \<Rightarrow> HttpAuth \<Rightarrow> http_url \<Rightarrow> (HttpResponse, 'w) call" where
  "http_Delete env a url w =
     (case sc_RequestError env url of
        Some e \<Rightarrow> Some (Inl (create_error env url e), w)
      | None \<Rightarrow>
          (case request_auth env a of
             Inl e \<Rightarrow> Some (Inl e, w)
           | Inr auth \<Rightarrow>
               (case doRequest env \<lparr>rq_Method = ''DELETE'', rq_Url = url, rq_Auth = auth, rq_Json = False, rq_Body = []\<rparr> False w of
                  (r, w1) \<Rightarrow>
                    if is_ok (fst r) \<and> snd r = 204 then Some (Ok \<lparr>hr_code = 204, hr_body = []\<rparr>, w1)
                    else read_answer env url r w1)))"

definition http_Put :: "'w scm_env \<Rightarrow> HttpAuth \<Rightarrow> http_url \<Rightarrow> string \<Rightarrow> (HttpResponse, 'w) call" where
  "http_Put env a url content w =
     (case sc_RequestError env url of
        Some e \<Rightarrow> Some (Inl (create_error env url e), w)
      | None \<Rightarrow>
          (case request_auth env a of
             Inl e \<Rightarrow> Some (Inl e, w)
           | Inr auth \<Rightarrow>
               (case doRequest env \<lparr>rq_Method = ''PUT'', rq_Url = url, rq_Auth = auth, rq_Json = True, rq_Body = content\<rparr> False w of
                  (r, w1) \<Rightarrow> read_answer env url r w1)))"

definition bitBucketAPIError :: "string \<Rightarrow> err" where
  "bitBucketAPIError message = NewError (''Bitbucket API error: '' @ message)"

definition parseError :: "'w scm_env \<Rightarrow> HttpResponse \<Rightarrow> err option" where
  "parseError env hr =
     (if hr_code hr \<ge> 200 \<and> hr_code hr < 300 then None
      else case js_Errors env (hr_body hr) of
        Inl _ \<Rightarrow> Some (bitBucketAPIError ''Failed to parse the error'')
      | Inr messages \<Rightarrow>
          Some (bitBucketAPIError (concat (map (\<lambda>m. ''HTTP code '' @ Itoa (hr_code hr) @ '' - '' @ m @ [NL]) messages))))"

section \<open>Stored credentials\<close>

definition authDefaultImp :: "'w authHandle" where
  "authDefaultImp = \<lparr>ah_User = (\<lambda>_ w. ([], w)), ah_Password = (\<lambda>_ w. ([], w)),
     ah_Save = (\<lambda>_ _ w. (None, w)), ah_SaveInfo = (\<lambda>_ _ w. (None, w))\<rparr>"

definition tokenDefaultImp :: "'w tokenHandle" where
  "tokenDefaultImp = \<lparr>th_Token = (\<lambda>_ w. ([], w)), th_TokenInfo = (\<lambda>_ w. ([], w))\<rparr>"

definition authenticationHandler :: "'w scm_env \<Rightarrow> 'w authHandle" where
  "authenticationHandler env = (case sc_Auth env of None \<Rightarrow> authDefaultImp | Some h \<Rightarrow> h)"

definition tokenHandler :: "'w scm_env \<Rightarrow> 'w tokenHandle" where
  "tokenHandler env = (case sc_Tokens env of None \<Rightarrow> tokenDefaultImp | Some h \<Rightarrow> h)"

definition tokenKey :: "string \<Rightarrow> string" where "tokenKey inst = ''bb-tkn-'' @ inst"
definition passwordKey :: "string \<Rightarrow> string" where "passwordKey inst = ''bb-pwd-'' @ inst"
definition userKey :: "string \<Rightarrow> string" where "userKey inst = ''bb-usr-'' @ inst"

definition getBitbucketUser :: "'w scm_env \<Rightarrow> string \<Rightarrow> 'w \<Rightarrow> string \<times> 'w" where
  "getBitbucketUser env inst w = ah_User (authenticationHandler env) (userKey inst) w"

definition getBitbucketPassword :: "'w scm_env \<Rightarrow> string \<Rightarrow> 'w \<Rightarrow> string \<times> 'w" where
  "getBitbucketPassword env inst w = ah_Password (authenticationHandler env) (passwordKey inst) w"

definition getBitbucketToken :: "'w scm_env \<Rightarrow> string \<Rightarrow> 'w \<Rightarrow> bitbucketToken result \<times> 'w" where
  "getBitbucketToken env inst w =
     (let key = tokenKey inst; (tokenInfo, w1) = th_TokenInfo (tokenHandler env) key w
      in case js_ReadInfo env tokenInfo of
        Inl e \<Rightarrow> (Inl (AppendError (''Failed read and deserialize token '' @ key @ '' info'') e), w1)
      | Inr i \<Rightarrow> (let (raw, w2) = th_Token (tokenHandler env) key w1 in (Ok \<lparr>bt_Id = i, bt_token = raw\<rparr>, w2)))"

definition setBitbucketPassword :: "'w scm_env \<Rightarrow> string \<Rightarrow> string \<Rightarrow> 'w \<Rightarrow> err option \<times> 'w" where
  "setBitbucketPassword env inst password w =
     (case ah_Save (authenticationHandler env) (passwordKey inst) password w of
        (Some e, w1) \<Rightarrow> (Some (AppendError (''Failed to save password '' @ passwordKey inst) e), w1)
      | (None, w1) \<Rightarrow> (None, w1))"

definition setBitbucketToken :: "'w scm_env \<Rightarrow> string \<Rightarrow> bitbucketToken \<Rightarrow> 'w \<Rightarrow> err option \<times> 'w" where
  "setBitbucketToken env inst bt w =
     (let key = tokenKey inst in
      case js_WriteInfo env (bt_Id bt) of
        Inl e \<Rightarrow> (Some (AppendError (''Failed to serialize token '' @ key @ '' info'') e), w)
      | Inr info \<Rightarrow>
          (case ah_Save (authenticationHandler env) key (bt_token bt) w of
             (Some e, w1) \<Rightarrow> (Some (AppendError (''Failed to save token '' @ key) e), w1)
           | (None, w1) \<Rightarrow>
               (case ah_SaveInfo (authenticationHandler env) key info w1 of
                  (Some e, w2) \<Rightarrow> (Some (AppendError (''Failed to save token '' @ key @ '' info'') e), w2)
                | (None, w2) \<Rightarrow> (None, w2))))"

section \<open>Instances\<close>

record bitbucketInstance =
  bi_name :: string
  bi_httpHost :: string
  bi_httpPort :: nat
  bi_sshHost :: string
  bi_sshPort :: nat
  bi_err :: "err option"

definition KMainBitbucketInstanceName :: string where "KMainBitbucketInstanceName = ''central''"
definition KMainBitbucketHttpHost :: string where "KMainBitbucketHttpHost = ''FixMe''"
definition KSspBitbucketInstanceName :: string where "KSspBitbucketInstanceName = ''FixMe''"
definition KSspBitbucketHttpHost :: string where "KSspBitbucketHttpHost = ''FixMe''"

definition bitbucketInstances :: "bitbucketInstance list" where
  "bitbucketInstances =
     [\<lparr>bi_name = KMainBitbucketInstanceName, bi_httpHost = KMainBitbucketHttpHost, bi_httpPort = 443, bi_sshHost = ''git.rnd.fix.me'', bi_sshPort = 22, bi_err = None\<rparr>,
      \<lparr>bi_name = KSspBitbucketInstanceName, bi_httpHost = KSspBitbucketHttpHost, bi_httpPort = 443, bi_sshHost = KSspBitbucketHttpHost, bi_sshPort = 7999, bi_err = None\<rparr>,
      \<lparr>bi_name = ''local_unittesting'', bi_httpHost = ''127.0.0.1'', bi_httpPort = 443, bi_sshHost = ''127.0.0.1'', bi_sshPort = 22, bi_err = None\<rparr>]"

definition BaseHttpUrl :: "bitbucketInstance \<Rightarrow> string" where
  "BaseHttpUrl bi = ''https://'' @ bi_httpHost bi @ '':'' @ Itoa (int (bi_httpPort bi)) @ ''/git''"

definition bi_HttpUrl :: "bitbucketInstance \<Rightarrow> string" where
  "bi_HttpUrl bi = BaseHttpUrl bi @ ''/scm''"

definition bi_SshUrl :: "bitbucketInstance \<Rightarrow> string" where
  "bi_SshUrl bi = ''ssh://git@'' @ bi_httpHost bi @ '':'' @ Itoa (int (bi_httpPort bi))"

text \<open>\<open>strings.EqualFold\<close> on ASCII.\<close>

definition EqualFold :: "string \<Rightarrow> string \<Rightarrow> bool" where
  "EqualFold a b = (ToLower a = ToLower b)"

definition hostBelongsToInstance :: "bitbucketInstance \<Rightarrow> string \<Rightarrow> bool" where
  "hostBelongsToInstance bi host = (EqualFold (bi_httpHost bi) host \<or> EqualFold (bi_sshHost bi) host)"

fun first_instance :: "(bitbucketInstance \<Rightarrow> bool) \<Rightarrow> bitbucketInstance list \<Rightarrow> bitbucketInstance option" where
  "first_instance P [] = None"
| "first_instance P (i # is) = (if P i then Some i else first_instance P is)"

definition bitbucketInstanceFromHostname :: "string \<Rightarrow> bitbucketInstance result" where
  "bitbucketInstanceFromHostname host =
     (case first_instance (\<lambda>i. hostBelongsToInstance i host) bitbucketInstances of
        Some i \<Rightarrow> Ok i
      | None \<Rightarrow> Fail (''Failed to identify bitbucket instance for host ('' @ host @ '')''))"

definition BitbucketInstanceFromName :: "string \<Rightarrow> bitbucketInstance" where
  "BitbucketInstanceFromName n =
     (case first_instance (\<lambda>i. EqualFold n (bi_name i)) bitbucketInstances of
        Some i \<Rightarrow> i
      | None \<Rightarrow> \<lparr>bi_name = [], bi_httpHost = [], bi_httpPort = 0, bi_sshHost = [], bi_sshPort = 0,
          bi_err = Some (NewError (''Failed to identify bitbucket instance ('' @ n @ '')''))\<rparr>)"

section \<open>The client of an instance\<close>

record bitbucketClient =
  bc_Auth :: HttpAuth
  bc_instancePath :: string
  bc_instance :: string
  bc_token :: bitbucketToken
  bc_err :: "err option"

definition setUsername :: "string \<Rightarrow> bitbucketClient \<Rightarrow> bitbucketClient" where
  "setUsername user bc = bc\<lparr>bc_Auth := (bc_Auth bc)\<lparr>ha_Username := user\<rparr>\<rparr>"

definition setPassword :: "string \<Rightarrow> bitbucketClient \<Rightarrow> bitbucketClient" where
  "setPassword password bc = bc\<lparr>bc_Auth := (bc_Auth bc)\<lparr>ha_Password := password\<rparr>\<rparr>"

definition setToken :: "bitbucketToken \<Rightarrow> bitbucketClient \<Rightarrow> bitbucketClient" where
  "setToken tok bc = bc\<lparr>bc_Auth := (bc_Auth bc)\<lparr>ha_AccessToken := bt_token tok\<rparr>, bc_token := tok\<rparr>"

definition getUsername :: "bitbucketClient \<Rightarrow> string" where "getUsername bc = ha_Username (bc_Auth bc)"

text \<open>A URL from its text, or the error of \<open>url.Parse\<close>; a query may replace the one in the text.\<close>

definition parsed :: "'w scm_env \<Rightarrow> string \<Rightarrow> (string \<times> string) list option \<Rightarrow> http_url result" where
  "parsed env txt query = bind_ok (sc_Parse env txt) (\<lambda>_. Ok \<lparr>hu_Text = txt, hu_Query = query\<rparr>)"

definition client_failed :: "string \<Rightarrow> bitbucketClient \<Rightarrow> ('a, 'w) call \<Rightarrow> ('a, 'w) call" where
  "client_failed m bc c = (case bc_err bc of Some e \<Rightarrow> give (Inl (AppendError m e)) | None \<Rightarrow> c)"

definition ValidateAuthentication :: "'w scm_env \<Rightarrow> bitbucketClient \<Rightarrow> (bool, 'w) call" where
  "ValidateAuthentication env bc =
     client_failed ''Failed to validate authentication to bitbucket, an error occurred in bitbucket client'' bc
      (case parsed env (bc_instancePath bc @ ''/rest/api/1.0/users/'' @ getUsername bc) None of
         Inl e \<Rightarrow> give (Inl (AppendError (''Failed to build url to check bitbucket credentials '' @ getUsername bc) e))
       | Inr url \<Rightarrow>
           or_wrap ''Failed to determine credential validity, unable to perform a request against bitbucket !''
             (http_Get env (bc_Auth bc) url) (\<lambda>resp.
               if hr_code resp \<in> {200, 204} then
                 (case js_Active env (hr_body resp) of
                    Inl e \<Rightarrow> give (Inl (AppendError ''Failed to decode response to authentication request'' e))
                  | Inr active \<Rightarrow>
                      if \<not> active then give (Fail ''Specified user is not active on Bitbucket !'') else give (Ok True))
               else if hr_code resp = 401 then give (Fail ''Failed to validate bitbucket credentials, HTTP code was 401'')
               else give (Fail (''Failed to make HTTP GET request to validate credentials, HTTP code was '' @ Itoa (hr_code resp)))))"

definition kExpiryDaysForToken :: int where "kExpiryDaysForToken = 365"
definition cdsTokenName :: string where "cdsTokenName = ''CDS-devenv''"

fun hasCdsToken :: "TokenListing list \<Rightarrow> bool" where
  "hasCdsToken [] = False"
| "hasCdsToken (t # ts) = (if tl_Name t = cdsTokenName then True else hasCdsToken ts)"

fun getCdsToken :: "TokenListing list \<Rightarrow> TokenListing" where
  "getCdsToken [] = \<lparr>tl_ID = [], tl_Name = []\<rparr>"
| "getCdsToken (t # ts) = (if tl_Name t = cdsTokenName then t else getCdsToken ts)"

definition token_path :: "bitbucketClient \<Rightarrow> string" where
  "token_path bc = bc_instancePath bc @ ''/rest/access-tokens/1.0/users/'' @ getUsername bc"

definition token_url :: "'w scm_env \<Rightarrow> bitbucketClient \<Rightarrow> string \<Rightarrow> http_url result" where
  "token_url env bc rest =
     wrap_error (''Failed to build url to create token for user '' @ getUsername bc) (parsed env (token_path bc @ rest) None)"

definition listTokens :: "'w scm_env \<Rightarrow> bitbucketClient \<Rightarrow> (TokenListing list, 'w) call" where
  "listTokens env bc =
     then_do (give (token_url env bc ''?limit=1000'')) (\<lambda>url.
     or_wrap ''Failed to get a new Bitbucket token'' (http_Get env (bc_Auth bc) url) (\<lambda>resp.
     or_wrap ''Failed to decode response to token creation'' (give (js_Tokens env (hr_body resp))) (\<lambda>tokens. give (Ok tokens))))"

definition deleteToken :: "'w scm_env \<Rightarrow> bitbucketClient \<Rightarrow> TokenListing \<Rightarrow> (unit, 'w) call" where
  "deleteToken env bc t =
     then_do (give (token_url env bc (CHR ''/'' # tl_ID t))) (\<lambda>url.
     or_wrap ''Failed to get a new Bitbucket token'' (http_Delete env (bc_Auth bc) url) (\<lambda>resp.
       if hr_code resp \<noteq> 200 \<and> hr_code resp \<noteq> 204 then give (Fail ''Failed to make HTTP DELETE request to delete token'')
       else give (Ok ())))"

definition deleteTokenIfAny :: "'w scm_env \<Rightarrow> bitbucketClient \<Rightarrow> (unit, 'w) call" where
  "deleteTokenIfAny env bc =
     or_wrap ''Failed to get the list of token to check if CDS already has one'' (listTokens env bc) (\<lambda>tokens.
       if hasCdsToken tokens
       then or_wrap ''Failed to delete CDS token'' (deleteToken env bc (getCdsToken tokens)) (\<lambda>_. give (Ok ()))
       else give (Ok ()))"

definition createToken :: "'w scm_env \<Rightarrow> bitbucketClient \<Rightarrow> (bitbucketClient, 'w) call" where
  "createToken env bc =
     then_do (give (token_url env bc [])) (\<lambda>url.
     or_wrap ''failed to encode token request to JSON''
       (give (js_TokenRequest env cdsTokenName [''REPO_WRITE'', ''PROJECT_READ''] kExpiryDaysForToken)) (\<lambda>content.
     or_wrap ''Failed to get a new Bitbucket token'' (http_Put env (bc_Auth bc) url content) (\<lambda>resp.
       if hr_code resp \<noteq> 200 then give (Fail (''Failed to get a new Bitbucket token, http code: '' @ Itoa (hr_code resp)))
       else or_wrap ''Failed to decode response to token creation'' (give (js_NewToken env (hr_body resp))) (\<lambda>tok.
         give (Ok (setToken tok bc))))))"

text \<open>An operation on the world that always returns.\<close>

definition run_on :: "('w \<Rightarrow> 'a \<times> 'w) \<Rightarrow> ('a, 'w) call" where
  "run_on f w = (case f w of (x, w1) \<Rightarrow> Some (Ok x, w1))"

definition run_result :: "('w \<Rightarrow> 'a result \<times> 'w) \<Rightarrow> ('a, 'w) call" where
  "run_result f w = Some (f w)"

definition run_error :: "('w \<Rightarrow> err option \<times> 'w) \<Rightarrow> (unit, 'w) call" where
  "run_error f w = (case f w of (None, w1) \<Rightarrow> Some (Ok (), w1) | (Some e, w1) \<Rightarrow> Some (Inl e, w1))"

definition fresh_client :: "bitbucketInstance \<Rightarrow> bitbucketClient" where
  "fresh_client i =
     \<lparr>bc_Auth = no_auth, bc_instancePath = BaseHttpUrl i, bc_instance = bi_name i, bc_token = \<lparr>bt_Id = [], bt_token = []\<rparr>, bc_err = None\<rparr>"

definition instance_failed :: "bitbucketInstance \<Rightarrow> ('a, 'w) call \<Rightarrow> ('a, 'w) call" where
  "instance_failed i c =
     (case bi_err i of
        Some e \<Rightarrow> give (Inl (AppendError ''Failed to create new bitbucket client, an error occurred in the instance'' e))
      | None \<Rightarrow> c)"

definition newClientUsingToken :: "'w scm_env \<Rightarrow> bitbucketInstance \<Rightarrow> (bitbucketClient \<times> bool, 'w) call" where
  "newClientUsingToken env i =
     instance_failed i
      (then_do (run_on (getBitbucketUser env (bi_name i))) (\<lambda>user.
       let bc = setUsername user (fresh_client i) in
       or_wrap ''Failed to retrieve bitbucket token to instantiate a new client'' (run_result (getBitbucketToken env (bi_name i))) (\<lambda>tok.
         if length (bt_token tok) > 0
         then or_wrap ''Failed to authenticate using provided token'' (ValidateAuthentication env (setToken tok bc)) (\<lambda>valid.
           give (Ok (setToken tok bc, valid)))
         else give (Ok (bc, False)))))"

fun try_passwords :: "'w scm_env \<Rightarrow> string \<Rightarrow> nat \<Rightarrow> bitbucketClient \<Rightarrow> bool \<Rightarrow> (bitbucketClient \<times> bool, 'w) call" where
  "try_passwords env n 0 bc authenticated = give (Ok (bc, authenticated))"
| "try_passwords env n (Suc k) bc authenticated =
     then_do (run_on (getBitbucketPassword env n)) (\<lambda>pwd.
       if length pwd = 0 then try_passwords env n k bc authenticated
       else or_wrap ''Failed to authenticate using provided password'' (ValidateAuthentication env (setPassword pwd bc)) (\<lambda>valid.
         if \<not> valid then try_passwords env n k (setPassword pwd bc) valid
         else give (Ok (setPassword pwd bc, valid))))"

definition newClientUsingCallbackPassword :: "'w scm_env \<Rightarrow> bitbucketInstance \<Rightarrow> (bitbucketClient \<times> bool, 'w) call" where
  "newClientUsingCallbackPassword env i =
     instance_failed i
      (then_do (run_on (getBitbucketUser env (bi_name i))) (\<lambda>user.
         try_passwords env (bi_name i) 3 (setUsername user (fresh_client i)) False))"

text \<open>After the password was accepted: it is saved, and a token replaces the one of an earlier run.\<close>

definition renew_token :: "'w scm_env \<Rightarrow> bitbucketInstance \<Rightarrow> bitbucketClient \<Rightarrow> (bitbucketClient, 'w) call" where
  "renew_token env i bc =
     or_wrap ''Failed to clear state of CDS token'' (deleteTokenIfAny env bc) (\<lambda>_.
     or_wrap ''Failed to generate new Bitbucket token on the fly !'' (createToken env bc) (\<lambda>bc1.
     or_wrap ''Failed to apply newly obtained token to conf'' (run_error (setBitbucketToken env (bi_name i) (bc_token bc1))) (\<lambda>_.
       give (Ok bc1))))"

definition using_password :: "'w scm_env \<Rightarrow> bitbucketInstance \<Rightarrow> (bitbucketClient, 'w) call" where
  "using_password env i =
     or_wrap (''Failed to create new bitbucket client using password for url '' @ [SQ] @ BaseHttpUrl i @ [SQ])
       (newClientUsingCallbackPassword env i) (\<lambda>(bc, valid).
         if valid
         then or_wrap ''Failed to apply newly obtained token to conf''
           (run_error (setBitbucketPassword env (bi_name i) (ha_Password (bc_Auth bc)))) (\<lambda>_. renew_token env i bc)
         else give (Fail ''Failed to create a new bitbucket client, all authentication methods failed to produce a valid client''))"

text \<open>\<open>shouldCreateToken\<close> is a variable that is never set, and true. An error of the first way is logged only.\<close>

definition newBitbucketClient :: "'w scm_env \<Rightarrow> bitbucketInstance \<Rightarrow> (bitbucketClient, 'w) call" where
  "newBitbucketClient env i =
     instance_failed i
      (\<lambda>w. case newClientUsingToken env i w of
         None \<Rightarrow> None
       | Some (Inr (bc, valid), w1) \<Rightarrow> if valid then Some (Ok bc, w1) else using_password env i w1
       | Some (Inl e, w1) \<Rightarrow> using_password env i w1)"

section \<open>The table of clients\<close>

text \<open>A client may be the nil pointer.\<close>

type_synonym 'w scm_state = "(string \<rightharpoonup> bitbucketClient option) \<times> 'w"

definition failed_client :: "err \<Rightarrow> bitbucketClient" where
  "failed_client e =
     \<lparr>bc_Auth = no_auth, bc_instancePath = [], bc_instance = [], bc_token = \<lparr>bt_Id = [], bt_token = []\<rparr>, bc_err = Some e\<rparr>"

definition GetClient :: "'w scm_env \<Rightarrow> bitbucketInstance \<Rightarrow> (bitbucketClient option, 'w scm_state) call" where
  "GetClient env i st =
     (case bi_err i of
        Some e \<Rightarrow> Some (Ok (Some (failed_client e)), st)
      | None \<Rightarrow>
          (case fst st (bi_name i) of
             Some c \<Rightarrow> Some (Ok c, st)
           | None \<Rightarrow>
               (case newBitbucketClient env i (snd st) of
                  None \<Rightarrow> None
                | Some (Inl e, w1) \<Rightarrow> Some (Ok None, ((fst st)(bi_name i \<mapsto> None), w1))
                | Some (Inr c, w1) \<Rightarrow> Some (Ok (Some c), ((fst st)(bi_name i \<mapsto> Some c), w1)))))"

definition SetClient :: "string \<Rightarrow> bitbucketClient option \<Rightarrow> 'w scm_state \<Rightarrow> err option \<times> 'w scm_state" where
  "SetClient instanceName bc st =
     (case bc of
        None \<Rightarrow> (Some (NewError (''Cannot set nil client to '' @ [SQ] @ instanceName @ [SQ] @ '' bitbucket instance'')), st)
      | Some c \<Rightarrow>
          if \<not> list_ex (\<lambda>i. bi_name i = instanceName) bitbucketInstances
          then (Some (NewError (''Invalid bitbucket instance name '' @ [SQ] @ instanceName @ [SQ] @ '', instance is unknown to cds'')), st)
          else (None, ((fst st)(instanceName \<mapsto> Some c), snd st)))"

text \<open>A method of the client of an instance; the nil client panics at its first field.\<close>

definition with_client :: "'w scm_env \<Rightarrow> bitbucketInstance \<Rightarrow> (bitbucketClient \<Rightarrow> ('a, 'w) call) \<Rightarrow> ('a, 'w scm_state) call" where
  "with_client env i f =
     then_do (GetClient env i) (\<lambda>c st.
       case c of
         None \<Rightarrow> None
       | Some bc \<Rightarrow> map_option (\<lambda>(r, w1). (r, (fst st, w1))) (f bc (snd st)))"

section \<open>The REST interface\<close>

definition kBranchRefPrefix :: string where "kBranchRefPrefix = ''refs/heads/''"
definition kLimitFileInRequest :: string where "kLimitFileInRequest = ''10000''"

definition at_ref :: "string \<Rightarrow> (string \<times> string) list" where
  "at_ref ref = (if length ref \<noteq> 0 then [(''at'', kBranchRefPrefix @ ref)] else [])"

definition repo_path :: "bitbucketClient \<Rightarrow> string \<Rightarrow> string \<Rightarrow> string" where
  "repo_path bc projectName repositoryName =
     bc_instancePath bc @ ''/rest/api/1.0/projects/'' @ projectName @ ''/repos/'' @ repositoryName"

definition slash :: "string \<Rightarrow> string \<Rightarrow> string" where "slash a b = a @ ''/'' @ b"

text \<open>The query is set on the parsed URL before the error of the parser is looked at, so an error is a panic.\<close>

definition listFiles :: "'w scm_env \<Rightarrow> string \<Rightarrow> string \<Rightarrow> string \<Rightarrow> string \<Rightarrow> bitbucketClient \<Rightarrow> (string list, 'w) call" where
  "listFiles env projectName repositoryName filepath ref bc =
     client_failed (''Failed to list files in repository '' @ [SQ] @ slash projectName repositoryName @ '':'' @ filepath @ [SQ] @
         '' exists, an error occurred in bitbucket client'') bc
      (case parsed env (repo_path bc projectName repositoryName @ ''/files'' @ filepath) (Some ((''limit'', kLimitFileInRequest) # at_ref ref)) of
         Inl _ \<Rightarrow> panic
       | Inr url \<Rightarrow>
           or_wrap (''Failed to list of files for repo '' @ slash projectName repositoryName) (http_Get env (bc_Auth bc) url) (\<lambda>resp.
             if hr_code resp \<noteq> 200
             then give (Fail (''Failed to list of files for repo '' @ slash projectName repositoryName @ '', HTTP error code '' @ Itoa (hr_code resp)))
             else or_wrap (''failed to decode list of files for repo '' @ slash projectName repositoryName)
               (give (js_Files env (hr_body resp))) (\<lambda>files. give (Ok files))))"

definition getFileType :: "'w scm_env \<Rightarrow> string \<Rightarrow> string \<Rightarrow> string \<Rightarrow> string \<Rightarrow> bitbucketClient \<Rightarrow> (string, 'w) call" where
  "getFileType env projectName repositoryName filepath ref bc =
     client_failed (''Failed to get file type in repository '' @ [SQ] @ slash projectName repositoryName @ '':'' @ filepath @ [SQ] @
         '' exists, an error occurred in bitbucket client'') bc
      (case parsed env (repo_path bc projectName repositoryName @ ''/browse/'' @ filepath) (Some ((''type'', ''true'') # at_ref ref)) of
         Inl e \<Rightarrow> give (Inl (AppendError (''Failed to build url to get file type for repo '' @ slash projectName repositoryName) e))
       | Inr url \<Rightarrow>
           or_wrap (''Failed to get file type for repo '' @ slash projectName repositoryName) (http_Get env (bc_Auth bc) url) (\<lambda>resp.
             if hr_code resp \<noteq> 200
             then give (Fail (''Failed to get file type for repo '' @ slash projectName repositoryName @ '', HTTP error code '' @ Itoa (hr_code resp)))
             else or_wrap (''failed to decode file type for repo '' @ slash projectName repositoryName)
               (give (js_Type env (hr_body resp))) (\<lambda>t. give (Ok t))))"

definition fetchFile :: "'w scm_env \<Rightarrow> string \<Rightarrow> string \<Rightarrow> string \<Rightarrow> string \<Rightarrow> bitbucketClient \<Rightarrow> (string, 'w) call" where
  "fetchFile env projectName repositoryName filepath ref bc =
     (let path = slash (slash projectName repositoryName) filepath in
      client_failed (''Failed to fetch file in repository '' @ [SQ] @ slash projectName repositoryName @ '':'' @ filepath @ [SQ] @
         '' exists, an error occurred in bitbucket client'') bc
       (case parsed env (repo_path bc projectName repositoryName @ ''/raw/'' @ filepath) (if length ref \<noteq> 0 then Some (at_ref ref) else None) of
          Inl e \<Rightarrow> if length ref \<noteq> 0 then panic else give (Inl (AppendError (''Failed to build url to fetch file '' @ path) e))
        | Inr url \<Rightarrow>
            or_wrap (''Failed to fetch file from bitbucket '' @ path) (http_Get env (bc_Auth bc) url) (\<lambda>resp.
              case parseError env resp of
                Some e \<Rightarrow> give (Inl (AppendError (''Failed to fetch file from bitbucket '' @ path) e))
              | None \<Rightarrow> give (Ok (hr_body resp)))))"

definition shallowClone :: "'w scm_env \<Rightarrow> string \<Rightarrow> string \<Rightarrow> string \<Rightarrow> bitbucketClient \<Rightarrow> (unit, 'w) call" where
  "shallowClone env repoUrl branch cloneDir bc =
     client_failed (''Failed to fetch file in repository '' @ [SQ] @ repoUrl @ ''@'' @ branch @ [SQ] @ '' exists, an error occurred in bitbucket client'') bc
      (or_wrap ''Failed to shallow clone bitbucket directory'' (run_error (sc_Clone env cloneDir repoUrl (kBranchRefPrefix @ branch) (bc_Auth bc)))
        (\<lambda>_. give (Ok ())))"

text \<open>The query of the text, with its limit and start, is replaced.\<close>

definition getCommits :: "'w scm_env \<Rightarrow> string \<Rightarrow> string \<Rightarrow> string \<Rightarrow> string \<Rightarrow> string \<Rightarrow> bitbucketClient \<Rightarrow> (string list, 'w) call" where
  "getCommits env projectName repositoryName ref since path bc =
     (let ref1 = (if ref = [] then ''HEAD'' else ref);
          params = (if path \<noteq> [] then [(''path'', path)] else []) @ (if ref = [] then [(''until'', ref1)] else []) @
            (if since \<noteq> [] then [(''since'', since)] else [])
      in client_failed (''Failed to fetch commits in repository '' @ [SQ] @ slash projectName repositoryName @ '':'' @ ref @ [SQ] @
            '', an error occurred in bitbucket client'') bc
          (case parsed env (repo_path bc projectName repositoryName @ ''/commits?&limit=0&start=0'') (Some params) of
             Inl _ \<Rightarrow> panic
           | Inr url \<Rightarrow>
               or_wrap (''Failed to fetch last commit from bitbucket '' @ slash projectName repositoryName @ '':'' @ ref1)
                 (http_Get env (bc_Auth bc) url) (\<lambda>resp.
                 if hr_code resp \<noteq> 200
                 then give (Fail (''Failed to get last commit for repo '' @ slash projectName repositoryName @ '', HTTP error code '' @ Itoa (hr_code resp)))
                 else or_wrap (''failed to decode last commit for repo '' @ slash projectName repositoryName)
                   (give (js_Commits env (hr_body resp))) (\<lambda>commits. give (Ok commits)))))"

section \<open>Repository URLs\<close>

definition kProject :: string where "kProject = ''Project''"
definition kUsername :: string where "kUsername = ''Username''"
definition kRepository :: string where "kRepository = ''Repository''"
definition kFilePath :: string where "kFilePath = ''FilePath''"

definition word_dot :: "char \<Rightarrow> bool" where "word_dot c \<longleftrightarrow> is_word c \<or> c = CHR ''.''"
definition word_dot_dash :: "char \<Rightarrow> bool" where "word_dot_dash c \<longleftrightarrow> is_word c \<or> c = CHR ''.'' \<or> c = CHR ''-''"

text \<open>\<open>~?[\w.]+\<close> and \<open>[\w.-]+\<close>, the groups of an owner and of a repository.\<close>

definition re_owner :: "string \<Rightarrow> re" where
  "re_owner n = Group n (Seq (Opt (Cls (\<lambda>c. c = CHR ''~''))) (re_Plus (Cls word_dot)))"

definition re_repository :: re where "re_repository = Group kRepository (re_Plus (Cls word_dot_dash))"

definition re_slash :: re where "re_slash = Cls (\<lambda>c. c = CHR ''/'')"

definition sshUrlRegex :: re where
  "sshUrlRegex = re_seq [Opt re_slash, re_owner kProject, re_slash, re_repository]"

definition httpUrlGitRegex :: re where
  "httpUrlGitRegex = re_seq [Opt re_slash, re_lit ''git/scm/'', re_owner kProject, re_slash, re_repository]"

text \<open>\<open>(/browse)?/?(?P<FilePath>(.+/)*.+\.?\w*)?\<close>, the end of the address of a page.\<close>

definition re_page :: "re list" where
  "re_page =
     [Opt (re_lit ''/browse''), Opt re_slash,
      Opt (Group kFilePath (re_seq [Star (Seq (re_Plus re_dot) re_slash), re_Plus re_dot, Opt (Cls (\<lambda>c. c = CHR ''.'')), Star (Cls is_word)]))]"

definition httpUrlUiRegex :: re where
  "httpUrlUiRegex = re_seq ([Opt re_slash, re_lit ''git/projects/'', re_owner kProject, re_lit ''/repos/'', re_repository] @ re_page)"

definition userUrlUiRegex :: re where
  "userUrlUiRegex = re_seq ([Opt re_slash, re_lit ''git/users/'', re_owner kUsername, re_lit ''/repos/'', re_repository] @ re_page)"

definition knownSchemes :: "string list" where "knownSchemes = [''ssh'', ''https'']"

definition getUrlRegexMatches :: "string \<Rightarrow> string \<Rightarrow> (re \<times> re_match) result" where
  "getUrlRegexMatches path scheme =
     (let failed = Fail (''Failed to parse project/repository for given path ('' @ path @ '')'');
          found = (\<lambda>r otherwise. case re_find r path of Some m \<Rightarrow> Ok (r, m) | None \<Rightarrow> otherwise)
      in if scheme = ''ssh'' then found sshUrlRegex failed
         else if scheme = ''https'' then found httpUrlGitRegex (found httpUrlUiRegex (found userUrlUiRegex failed))
         else Fail (''Unhandled transport scheme for bitbucket repository ('' @ scheme @ '')''))"

definition parseRepoPath :: "string \<Rightarrow> string \<Rightarrow> (string \<times> string) result" where
  "parseRepoPath path scheme =
     (case getUrlRegexMatches path scheme of
        Inl e \<Rightarrow> Inl (AppendError ''Url regex matching failed'' e)
      | Inr (r, m) \<Rightarrow>
          (let hasProj = kProject \<in> set (re_groups r); hasRepo = kRepository \<in> set (re_groups r); hasUser = kUsername \<in> set (re_groups r)
           in if \<not> hasProj \<and> \<not> hasUser \<or> \<not> hasRepo
              then Fail (''Failed to parse project/user/repository for given path with regex ('' @ scheme @ '')'')
              else Ok (if hasUser then CHR ''~'' # re_text kUsername m else re_text kProject m,
                       TrimSuffix (re_text kRepository m) ''.git'')))"

definition parseFilePathFromUrl :: "string \<Rightarrow> string \<Rightarrow> string result" where
  "parseFilePathFromUrl path scheme =
     (case getUrlRegexMatches path scheme of
        Inl e \<Rightarrow> Inl (AppendError ''Url regex matching failed'' e)
      | Inr (r, m) \<Rightarrow>
          if kFilePath \<notin> set (re_groups r)
          then Fail (''Failed to parse project/repository for given path with regex ('' @ scheme @ '')'')
          else Ok (re_text kFilePath m))"

record BitbucketRepository =
  br_Instance :: bitbucketInstance
  br_Project :: string
  br_Repository :: string
  br_GivenScheme :: string

definition br_String :: "BitbucketRepository \<Rightarrow> string" where
  "br_String br = ''Bitbucket instance: '' @ bi_name (br_Instance br) @ '', project: '' @ br_Project br @ '', repository '' @ br_Repository br"

definition br_Name :: "BitbucketRepository \<Rightarrow> string" where "br_Name br = br_Repository br"

definition GetGitHttpUrl :: "BitbucketRepository \<Rightarrow> string" where
  "GetGitHttpUrl br = bi_HttpUrl (br_Instance br) @ ''/'' @ br_Project br @ ''/'' @ br_Repository br @ ''.git''"

text \<open>For a scheme that is not known the error is built from a nil error, which panics.\<close>

definition parseBitbucketUrl :: "'w scm_env \<Rightarrow> string \<Rightarrow> BitbucketRepository result option" where
  "parseBitbucketUrl env repoUrl =
     (case sc_Parse env repoUrl of
        Inl e \<Rightarrow> Some (Inl (AppendError ''Failed to parse repository url'' e))
      | Inr netUrl \<Rightarrow>
          (case bitbucketInstanceFromHostname (su_Hostname netUrl) of
             Inl e \<Rightarrow> Some (Inl (AppendError (''Failed to determine bitbucket instance from given url ('' @ repoUrl @ '')'') e))
           | Inr i \<Rightarrow>
               if su_Scheme netUrl \<notin> set knownSchemes then None
               else case parseRepoPath (su_Path netUrl) (su_Scheme netUrl) of
                 Inl e \<Rightarrow> Some (Inl (AppendError (''Failed to parse bitbucket repository path given ('' @ su_Path netUrl @ '')'') e))
               | Inr (p, r) \<Rightarrow> Some (Ok \<lparr>br_Instance = i, br_Project = p, br_Repository = r, br_GivenScheme = su_Scheme netUrl\<rparr>)))"

definition ParseGitRepositoryUrl :: "'w scm_env \<Rightarrow> string \<Rightarrow> BitbucketRepository result option" where
  "ParseGitRepositoryUrl env repoUrl =
     (case parseBitbucketUrl env repoUrl of
        None \<Rightarrow> None
      | Some (Inr br) \<Rightarrow> Some (Ok br)
      | Some (Inl _) \<Rightarrow> Some (Fail (''Failed to identify git repository '' @ [SQ] @ repoUrl @ [SQ])))"

section \<open>Files of a repository and of its submodules\<close>

definition kGitmoduleFilename :: string where "kGitmoduleFilename = ''.gitmodules''"

definition parse_section :: "(string \<times> (string \<Rightarrow> string)) \<Rightarrow> (string \<rightharpoonup> bitbucketSubmodule) \<Rightarrow> (string \<rightharpoonup> bitbucketSubmodule)" where
  "parse_section sec modules =
     (if length (fst sec) = 0 then modules
      else modules(snd sec ''path'' \<mapsto> \<lparr>sm_Branch = snd sec ''branch'', sm_Path = snd sec ''path'', sm_Url = snd sec ''url''\<rparr>))"

definition parseGitModules :: "'w scm_env \<Rightarrow> string \<Rightarrow> (string \<rightharpoonup> bitbucketSubmodule) result" where
  "parseGitModules env gitModules =
     (case ini_Load env gitModules of
        Inl e \<Rightarrow> Inl (AppendError ''Failed to parse .gitmodules file'' e)
      | Inr sections \<Rightarrow> Ok (fold parse_section sections Map.empty))"

definition isFileInSubmodule :: "'w scm_env \<Rightarrow> BitbucketRepository \<Rightarrow> string \<Rightarrow> string \<Rightarrow> (bool, 'w scm_state) call" where
  "isFileInSubmodule env br repoPath ref =
     (let baseDir = GetFirstParentDir repoPath in
      if baseDir \<in> {[], ''.'', ''/''} then give (Ok False)
      else or_wrap (''Failed to get file type of '' @ [SQ] @ repoPath @ [SQ] @ '' in bitbucket repository '' @ [SQ] @ br_String br @ [SQ])
        (with_client env (br_Instance br) (getFileType env (br_Project br) (br_Repository br) baseDir ref))
        (\<lambda>fileType. give (Ok (fileType = ''SUBMODULE''))))"

definition getSubmoduleData :: "'w scm_env \<Rightarrow> BitbucketRepository \<Rightarrow> string \<Rightarrow> string \<Rightarrow> (bitbucketSubmodule, 'w scm_state) call" where
  "getSubmoduleData env br repoPath ref =
     (let baseDir = GetFirstParentDir repoPath in
      or_wrap (''Failed to get .gitmodules file from bitbucket repository '' @ [SQ] @ br_String br @ [SQ])
        (with_client env (br_Instance br) (fetchFile env (br_Project br) (br_Repository br) kGitmoduleFilename ref)) (\<lambda>gitModules.
      or_wrap ''Failed to parse .gitmodules file'' (give (parseGitModules env gitModules)) (\<lambda>submodules.
        case submodules baseDir of
          None \<Rightarrow> give (Fail (''Failed to find submodule '' @ [SQ] @ baseDir @ [SQ] @ '' in .gitmodules file''))
        | Some submodule \<Rightarrow> give (Ok submodule))))"

text \<open>The submodule that holds a path, or \<open>None\<close> inside the result when the repository holds it itself.\<close>

definition submodule_of :: "'w scm_env \<Rightarrow> BitbucketRepository \<Rightarrow> string \<Rightarrow> string \<Rightarrow> ((BitbucketRepository \<times> string) option, 'w scm_state) call" where
  "submodule_of env br repoPath ref =
     or_wrap ''Failed to check if file is in submodule'' (isFileInSubmodule env br repoPath ref) (\<lambda>isSubmodule.
       if \<not> isSubmodule then give (Ok None)
       else or_wrap (''Failed to get repository of submodule '' @ [SQ] @ repoPath @ [SQ]) (getSubmoduleData env br repoPath ref) (\<lambda>submodule.
         or_wrap ''Failed to parse submodule url'' (\<lambda>st. map_option (\<lambda>r. (r, st)) (parseBitbucketUrl env (sm_Url submodule)))
           (\<lambda>sub. give (Ok (Some (sub, sm_Branch submodule))))))"

definition get_failed :: "string \<Rightarrow> BitbucketRepository \<Rightarrow> string" where
  "get_failed repoPath br = ''Failed to get file '' @ [SQ] @ repoPath @ [SQ] @ '' in bitbucket repository '' @ [SQ] @ br_String br @ [SQ]"

definition wrap_call :: "string \<Rightarrow> 'a result \<times> 's \<Rightarrow> ('a result \<times> 's) option" where
  "wrap_call m r = Some (wrap_error m (fst r), snd r)"

partial_function (option) GetFile ::
  "'w scm_env \<Rightarrow> BitbucketRepository \<Rightarrow> string \<Rightarrow> string \<Rightarrow> 'w scm_state \<Rightarrow> (string result \<times> 'w scm_state) option" where
  "GetFile env br repoPath ref st =
     (case submodule_of env br repoPath ref st of
        None \<Rightarrow> None
      | Some (Inl e, st1) \<Rightarrow> Some (Inl e, st1)
      | Some (Inr None, st1) \<Rightarrow>
          or_wrap (get_failed repoPath br) (with_client env (br_Instance br) (fetchFile env (br_Project br) (br_Repository br) repoPath ref))
            (\<lambda>fileStr. give (Ok fileStr)) st1
      | Some (Inr (Some (sub, branch)), st1) \<Rightarrow>
          Option.bind (GetFile env sub (TrimPrefix repoPath (GetFirstParentDir repoPath @ ''/'')) branch st1) (wrap_call (get_failed repoPath br)))"

definition list_failed :: "string \<Rightarrow> BitbucketRepository \<Rightarrow> string \<Rightarrow> string \<Rightarrow> string" where
  "list_failed repoPath br what ref =
     ''Failed to list files under folder '' @ [SQ] @ repoPath @ [SQ] @ '' in bitbucket repository '' @ [SQ] @ br_String br @ [SQ] @ what @ [SQ] @ ref @ [SQ]"

partial_function (option) ListFiles ::
  "'w scm_env \<Rightarrow> BitbucketRepository \<Rightarrow> string \<Rightarrow> string \<Rightarrow> 'w scm_state \<Rightarrow> (string list result \<times> 'w scm_state) option" where
  "ListFiles env br repoPath ref st =
     (case submodule_of env br repoPath ref st of
        None \<Rightarrow> None
      | Some (Inl e, st1) \<Rightarrow> Some (Inl e, st1)
      | Some (Inr None, st1) \<Rightarrow>
          or_wrap (list_failed repoPath br '' at reference '' ref)
            (with_client env (br_Instance br) (listFiles env (br_Project br) (br_Repository br) repoPath ref)) (\<lambda>files. give (Ok files)) st1
      | Some (Inr (Some (sub, branch)), st1) \<Rightarrow>
          Option.bind (ListFiles env sub (TrimPrefix repoPath (path_Join [''/'', GetFirstParentDir repoPath])) branch st1)
            (wrap_call (list_failed repoPath br '' at '' ref)))"

definition br_ShallowClone :: "'w scm_env \<Rightarrow> BitbucketRepository \<Rightarrow> string \<Rightarrow> string \<Rightarrow> (unit, 'w scm_state) call" where
  "br_ShallowClone env br ref path =
     or_wrap (''Failed to shallow clone bitbucket repository '' @ [SQ] @ GetGitHttpUrl br @ [SQ])
       (with_client env (br_Instance br) (shallowClone env (GetGitHttpUrl br) ref path)) (\<lambda>_. give (Ok ()))"

definition HasChangedSince :: "'w scm_env \<Rightarrow> BitbucketRepository \<Rightarrow> string \<Rightarrow> string \<Rightarrow> string \<Rightarrow> (bool, 'w scm_state) call" where
  "HasChangedSince env br ref since path =
     or_wrap (''Failed to get last commit bitbucket repository '' @ [SQ] @ GetGitHttpUrl br @ [SQ] @ '' at ref '' @ ref @ '', path '' @ path)
       (with_client env (br_Instance br) (getCommits env (br_Project br) (br_Repository br) ref since path))
       (\<lambda>commits. give (Ok (length commits \<noteq> 0)))"

section \<open>Entry points\<close>

definition IsUrl :: "'w scm_env \<Rightarrow> string \<Rightarrow> bool" where
  "IsUrl env path = (case sc_Parse env path of Inl _ \<Rightarrow> False | Inr u \<Rightarrow> su_Host u \<noteq> [])"

definition GetFileByUrl :: "'w scm_env \<Rightarrow> string \<Rightarrow> (string, 'w scm_state) call" where
  "GetFileByUrl env urlToFile =
     or_wrap ''Couldn't parse git repository url'' (\<lambda>st. map_option (\<lambda>r. (r, st)) (ParseGitRepositoryUrl env urlToFile)) (\<lambda>repo.
     or_wrap (''Couldn't parse url '' @ urlToFile) (give (sc_Parse env urlToFile)) (\<lambda>parsedUrl.
       if su_Scheme parsedUrl \<notin> set knownSchemes then panic
       else or_wrap (''Couldn't find filepath from url '' @ urlToFile) (give (parseFilePathFromUrl urlToFile (su_Scheme parsedUrl))) (\<lambda>filepath.
         or_wrap ''Couldn't get file from repo'' (GetFile env repo filepath []) (\<lambda>fileContent. give (Ok fileContent)))))"

definition IsBitbucketUrl :: "string \<Rightarrow> string \<Rightarrow> bool" where
  "IsBitbucketUrl repoUrl scheme =
     (if scheme = ''ssh'' then re_matches sshUrlRegex repoUrl
      else if scheme = ''https''
      then re_matches httpUrlGitRegex repoUrl \<or> re_matches httpUrlUiRegex repoUrl \<or> re_matches userUrlUiRegex repoUrl
      else False)"

definition GetBitbucketHostname :: "'w scm_env \<Rightarrow> string \<Rightarrow> string result" where
  "GetBitbucketHostname env bbInstanceName =
     (case sc_Parse env (bi_HttpUrl (BitbucketInstanceFromName bbInstanceName)) of
        Inl e \<Rightarrow> Inl (AppendError (''Could not setup entry for Bitbucket instance '' @ bbInstanceName) e)
      | Inr u \<Rightarrow> Ok (su_Hostname u))"

end
