(* ===== verification/ScmProps.thy ===== *)
theory ScmProps
  imports Scm
begin

text \<open>
  What the client of Bitbucket does: the address of a repository reads back, a client is given
  out only after the server has accepted its credentials, a failed client stays broken,
  fetching a file through submodules ends.
\<close>

section \<open>Addresses\<close>

definition is_owner :: "string \<Rightarrow> bool" where
  "is_owner p \<longleftrightarrow> (let q = (case p of c # cs \<Rightarrow> if c = CHR ''~'' then cs else p | [] \<Rightarrow> []) in q \<noteq> [] \<and> list_all word_dot q)"

definition is_repository :: "string \<Rightarrow> bool" where
  "is_repository r \<longleftrightarrow> r \<noteq> [] \<and> list_all word_dot_dash r"

lemma not_word [simp]:
  "\<not> word_dot (CHR ''/'')" "\<not> word_dot (CHR ''~'')" "\<not> word_dot (CHR ''-'')" "\<not> word_dot_dash (CHR ''/'')"
  by (simp_all add: word_dot_def word_dot_dash_def is_word_def)

lemma first_owner:
  assumes "is_owner p"
  shows "first_match (re_owner n) (p @ CHR ''/'' # s) (p, CHR ''/'' # s, [(n, p)])"
proof -
  have run: "first_match (re_Plus (Cls word_dot)) (q @ CHR ''/'' # s) (q, CHR ''/'' # s, [])" if "q \<noteq> []" "list_all word_dot q" for q
    by (rule first_Plus_Cls) (use that in simp_all)
  show ?thesis
  proof (cases p)
    case Nil
    then show ?thesis using assms by (simp add: is_owner_def)
  next
    case (Cons c q)
    show ?thesis
    proof (cases "c = CHR ''~''")
      case True
      have o1: "first_match (Opt (Cls (\<lambda>c. c = CHR ''~''))) (c # q @ CHR ''/'' # s) ([c], q @ CHR ''/'' # s, [])"
        using True by (intro first_Opt) simp
      have q: "q \<noteq> []" "list_all word_dot q" using assms Cons True by (simp_all add: is_owner_def)
      have "first_match (Seq (Opt (Cls (\<lambda>c. c = CHR ''~''))) (re_Plus (Cls word_dot))) (p @ CHR ''/'' # s) ([c] @ q, CHR ''/'' # s, [] @ [])"
        using first_Seq [OF o1 run [OF q]] Cons by simp
      from first_Group [OF this] show ?thesis using Cons by (simp add: re_owner_def)
    next
      case False
      have o1: "first_match (Opt (Cls (\<lambda>c. c = CHR ''~''))) (p @ CHR ''/'' # s) ([], p @ CHR ''/'' # s, [])"
        using False Cons by (intro first_Opt_none) simp
      have q: "p \<noteq> []" "list_all word_dot p" using assms Cons False by (simp_all add: is_owner_def)
      have "first_match (Seq (Opt (Cls (\<lambda>c. c = CHR ''~''))) (re_Plus (Cls word_dot))) (p @ CHR ''/'' # s) ([] @ p, CHR ''/'' # s, [] @ [])"
        using first_Seq [OF o1 run [OF q]] by simp
      from first_Group [OF this] show ?thesis by (simp add: re_owner_def)
    qed
  qed
qed

lemma first_repository:
  assumes "is_repository r"
  shows "first_match re_repository r (r, [], [(kRepository, r)])"
proof -
  have "first_match (re_Plus (Cls word_dot_dash)) r (r, [], [])"
    by (rule first_Plus_Cls) (use assms in \<open>simp_all add: is_repository_def\<close>)
  from first_Group [OF this] show ?thesis by (simp add: re_repository_def)
qed

lemma first_slash: "first_match re_slash (CHR ''/'' # s) (''/'', s, [])" "first_match (Opt re_slash) (CHR ''/'' # s) (''/'', s, [])"
  by (auto simp: re_slash_def intro!: first_Opt)

lemma owner_and_repository:
  assumes "is_owner p" "is_repository r"
  shows "first_match (re_seq [re_owner kProject, re_slash, re_repository]) (p @ CHR ''/'' # r) (p @ ''/'' @ r, [], [(kProject, p), (kRepository, r)])"
proof -
  have "first_match (Seq re_slash re_repository) (CHR ''/'' # r) (''/'' @ r, [], [] @ [(kRepository, r)])"
    by (rule first_Seq [OF first_slash(1) first_repository [OF assms(2)]])
  from first_Seq [OF first_owner [OF assms(1)] this] show ?thesis by simp
qed

lemma git_repository: "is_repository r \<Longrightarrow> is_repository (r @ ''.git'')"
  by (auto simp: is_repository_def word_dot_dash_def is_word_def)

lemma TrimSuffix_append: "TrimSuffix (r @ s) s = r"
  by (simp add: TrimSuffix_def HasSuffix_def HasPrefix_iff)

lemma group_names [simp]: "kProject \<noteq> kRepository" "kRepository \<noteq> kProject" "kUsername \<noteq> kProject" "kUsername \<noteq> kRepository"
  "kProject \<noteq> kUsername" "kRepository \<noteq> kUsername"
  by (simp_all add: kProject_def kRepository_def kUsername_def)

lemma re_seq_groups [simp]: "re_groups (re_seq rs) = concat (map re_groups rs)"
  by (induction rs rule: re_seq.induct) simp_all

lemma url_groups [simp]:
  "re_groups (re_lit t) = []" "re_groups (re_owner n) = [n]" "re_groups re_repository = [kRepository]" "re_groups re_slash = []"
  by (simp_all add: re_lit_def comp_def re_owner_def re_repository_def re_slash_def re_Plus_def)

lemma regex_groups [simp]: "re_groups httpUrlGitRegex = [kProject, kRepository]" "re_groups sshUrlRegex = [kProject, kRepository]"
  by (simp_all add: httpUrlGitRegex_def sshUrlRegex_def del: re_seq.simps)

lemma path_of_https:
  assumes "is_owner p" "is_repository r"
  shows "parseRepoPath (''/git/scm/'' @ p @ ''/'' @ r @ ''.git'') ''https'' = Ok (p, r)"
proof -
  let ?t = "''git/scm/'' @ p @ CHR ''/'' # r @ ''.git''"
  let ?g = "[(kProject, p), (kRepository, r @ ''.git'')]"
  have "first_match (Seq (re_lit ''git/scm/'') (re_seq [re_owner kProject, re_slash, re_repository])) ?t
      (''git/scm/'' @ p @ ''/'' @ r @ ''.git'', [], [] @ ?g)"
    by (rule first_Seq [OF first_lit owner_and_repository [OF assms(1) git_repository [OF assms(2)]]]) simp
  then have "first_match (re_seq [re_lit ''git/scm/'', re_owner kProject, re_slash, re_repository]) ?t
      (''git/scm/'' @ p @ ''/'' @ r @ ''.git'', [], [] @ ?g)" by simp
  from first_Seq [OF first_slash(2) this]
  have "first_match httpUrlGitRegex (''/git/scm/'' @ p @ ''/'' @ r @ ''.git'')
      (''/'' @ ''git/scm/'' @ p @ ''/'' @ r @ ''.git'', [], [] @ [] @ ?g)"
    by (simp add: httpUrlGitRegex_def)
  from first_match_find [OF this] show ?thesis
    by (simp add: parseRepoPath_def getUrlRegexMatches_def re_text_def Let_def TrimSuffix_append)
qed

text \<open>The same address in the form of ssh.\<close>

lemma find_ssh:
  assumes "is_owner p" "is_repository r"
  shows "re_find sshUrlRegex (p @ CHR ''/'' # r) = Some (p @ ''/'' @ r, [], [(kProject, p), (kRepository, r)])"
    "re_find sshUrlRegex (CHR ''/'' # p @ CHR ''/'' # r) = Some (CHR ''/'' # p @ ''/'' @ r, [], [(kProject, p), (kRepository, r)])"
proof -
  note rest = owner_and_repository [OF assms]
  have "first_match (Opt re_slash) (p @ CHR ''/'' # r) ([], p @ CHR ''/'' # r, [])"
    using assms(1) by (intro first_Opt_none) (auto simp: re_slash_def is_owner_def split: list.splits)
  from first_match_find [OF first_Seq [OF this rest]]
  show "re_find sshUrlRegex (p @ CHR ''/'' # r) = Some (p @ ''/'' @ r, [], [(kProject, p), (kRepository, r)])"
    by (simp add: sshUrlRegex_def)
  from first_match_find [OF first_Seq [OF first_slash(2) rest]]
  show "re_find sshUrlRegex (CHR ''/'' # p @ CHR ''/'' # r) = Some (CHR ''/'' # p @ ''/'' @ r, [], [(kProject, p), (kRepository, r)])"
    by (simp add: sshUrlRegex_def)
qed

lemma path_of_ssh:
  assumes "is_owner p" "is_repository r"
  shows "parseRepoPath (CHR ''/'' # p @ ''/'' @ r @ ''.git'') ''ssh'' = Ok (p, r)"
  using find_ssh(2) [OF assms(1) git_repository [OF assms(2)]]
  by (simp add: parseRepoPath_def getUrlRegexMatches_def re_text_def Let_def TrimSuffix_append)


section \<open>What a match can consume\<close>

lemma re_consumes: "(c, t, g) \<in> set (re_all r s) \<Longrightarrow> s = c @ t"
proof (induction r s arbitrary: c t g rule: re_all.induct)
  case (3 a s)
  from "3.prems" consider "c = []" "t = s"
    | m k where "m \<in> set (re_all a s)" "length (fst (snd m)) < length s" "k \<in> set (re_all (Star a) (fst (snd m)))" "(c, t, g) = then_match m k"
    by (subst (asm) re_all.simps(3)) (auto split: if_splits)
  then show ?case
  proof cases
    case 2
    then show ?thesis using "3.IH"(1) [of "fst m" "fst (snd m)" "snd (snd m)"] "3.IH"(2) [of m "fst k" "fst (snd k)" "snd (snd k)"]
      by (simp add: then_match_def)
  qed simp
qed (fastforce simp: then_match_def split: list.splits if_splits)+

lemma Star_Cls_run: "(c, t, g) \<in> set (re_all (Star (Cls P)) s) \<Longrightarrow> list_all P c"
proof (induction s arbitrary: c t g)
  case Nil
  then show ?case by (simp add: re_all.simps(3))
next
  case (Cons x s)
  then show ?case by (subst (asm) re_all.simps(3)) (auto simp: then_match_def split: if_splits)
qed

lemma owner_run: "(c, t, g) \<in> set (re_all (re_owner n) s) \<Longrightarrow> c \<noteq> [] \<and> CHR ''/'' \<notin> set c \<and> CHR ''-'' \<notin> set c"
proof -
  assume "(c, t, g) \<in> set (re_all (re_owner n) s)"
  then obtain c1 t1 g1 c2 t2 g2 c3 t3 g3 where c: "(c1, t1, g1) \<in> set (re_all (Opt (Cls (\<lambda>c. c = CHR ''~''))) s)"
    "(c2, t2, g2) \<in> set (re_all (Cls word_dot) t1)" "(c3, t3, g3) \<in> set (re_all (Star (Cls word_dot)) t2)" "c = c1 @ c2 @ c3"
    by (fastforce simp: re_owner_def re_Plus_def then_match_def)
  have "set c1 \<subseteq> {CHR ''~''}" "c2 \<noteq> [] \<and> list_all word_dot c2" using c(1,2) by (auto split: list.splits if_splits)
  moreover have "list_all word_dot c3" by (rule Star_Cls_run [OF c(3)])
  ultimately show ?thesis using c(4) by (auto simp: list_all_iff)
qed

lemma re_Seq: "m \<in> set (re_all (Seq a b) s) \<Longrightarrow> \<exists>k1 k2. k1 \<in> set (re_all a s) \<and> k2 \<in> set (re_all b (fst (snd k1))) \<and> m = then_match k1 k2"
  by (simp only: re_all.simps(2) set_concat set_map image_image) blast

text \<open>A match of an ssh path begins with an owner and a slash.\<close>

lemma ssh_shape:
  assumes "m \<in> set (re_all sshUrlRegex s)"
  shows "\<exists>l p t. s = l @ p @ CHR ''/'' # t \<and> (l = [] \<or> l = ''/'') \<and> p \<noteq> [] \<and> CHR ''/'' \<notin> set p \<and> CHR ''-'' \<notin> set p"
proof -
  obtain m1 m2 m3 where m: "m1 \<in> set (re_all (Opt re_slash) s)" "m2 \<in> set (re_all (re_owner kProject) (fst (snd m1)))"
    "m3 \<in> set (re_all re_slash (fst (snd m2)))"
    using assms by (auto simp: sshUrlRegex_def simp del: re_all.simps dest!: re_Seq)
  have "fst m1 = [] \<or> fst m1 = ''/''" using m(1) by (auto simp: re_slash_def split: list.splits if_splits)
  moreover have "\<exists>t. fst (snd m2) = CHR ''/'' # t" using m(3) by (cases "fst (snd m2)") (auto simp: re_slash_def split: if_splits)
  moreover have "s = fst m1 @ fst (snd m1)" "fst (snd m1) = fst m2 @ fst (snd m2)"
    using re_consumes [of "fst m1" "fst (snd m1)" "snd (snd m1)"] re_consumes [of "fst m2" "fst (snd m2)" "snd (snd m2)"] m(1,2) by (simp_all del: re_all.simps)
  moreover have "fst m2 \<noteq> [] \<and> CHR ''/'' \<notin> set (fst m2) \<and> CHR ''-'' \<notin> set (fst m2)"
    using owner_run [of "fst m2" "fst (snd m2)" "snd (snd m2)"] m(2) by simp
  ultimately show ?thesis by (metis append.assoc)
qed

lemma find_skip: "(\<And>y z. x = z @ y \<Longrightarrow> y \<noteq> [] \<Longrightarrow> re_all r (y @ s) = []) \<Longrightarrow> re_find r (x @ s) = re_find r s"
proof (induction x)
  case (Cons c x)
  have "re_all r ((c # x) @ s) = []" using Cons.prems [of "[]" "c # x"] by simp
  moreover have "re_find r (x @ s) = re_find r s" by (rule Cons.IH) (use Cons.prems [of "c # _"] in auto)
  ultimately show ?case by (simp add: re_find.simps [of r "c # x @ s"])
qed simp

lemma no_ssh_match:
  assumes "CHR ''/'' \<notin> set a"
  shows "re_all sshUrlRegex (a @ CHR ''-'' # s) = []" "re_all sshUrlRegex (CHR ''/'' # a @ CHR ''-'' # s) = []"
proof -
  have no: False if "a @ CHR ''-'' # s = p @ CHR ''/'' # t" "CHR ''/'' \<notin> set p" "CHR ''-'' \<notin> set p" for p t
    using that assms by (auto simp: append_eq_append_conv2 append_eq_Cons_conv Cons_eq_append_conv)
  have a: False if m: "m \<in> set (re_all sshUrlRegex (a @ CHR ''-'' # s))" for m
  proof -
    obtain l p t where l: "a @ CHR ''-'' # s = l @ p @ CHR ''/'' # t" "l = [] \<or> l = ''/''" "p \<noteq> []"
      "CHR ''/'' \<notin> set p" "CHR ''-'' \<notin> set p" using ssh_shape [OF m] by blast
    then have "l = []" using assms by (cases a) auto
    then show ?thesis using l(1,4,5) no [of p t] by simp
  qed
  have b: False if m: "m \<in> set (re_all sshUrlRegex (CHR ''/'' # a @ CHR ''-'' # s))" for m
  proof -
    obtain l p t where l: "CHR ''/'' # a @ CHR ''-'' # s = l @ p @ CHR ''/'' # t" "l = [] \<or> l = ''/''" "p \<noteq> []"
      "CHR ''/'' \<notin> set p" "CHR ''-'' \<notin> set p" using ssh_shape [OF m] by blast
    then have "l = ''/''" by (cases p) auto
    then show ?thesis using l(1,4,5) no [of p t] by simp
  qed
  show "re_all sshUrlRegex (a @ CHR ''-'' # s) = []" "re_all sshUrlRegex (CHR ''/'' # a @ CHR ''-'' # s) = []"
    using a b by (metis list.set_intros(1) neq_Nil_conv)+
qed

text \<open>
  An owner with a dash is cut: the ssh address of a repository of \<open>a-b\<close> is read as one of
  the owner \<open>b\<close>, whatever \<open>a\<close> is, and no error says so.
\<close>

theorem ssh_owner_is_cut_at_dash:
  assumes "CHR ''/'' \<notin> set a" "is_owner b" "is_repository r"
  shows "parseRepoPath (CHR ''/'' # a @ CHR ''-'' # b @ CHR ''/'' # r) ''ssh'' = Ok (b, TrimSuffix r ''.git'')"
proof -
  let ?s = "b @ CHR ''/'' # r" and ?x = "CHR ''/'' # a @ ''-''"
  have "re_find sshUrlRegex (?x @ ?s) = re_find sshUrlRegex ?s"
  proof (rule find_skip)
    fix y z assume x: "?x = z @ y" "y \<noteq> []"
    show "re_all sshUrlRegex (y @ ?s) = []"
    proof (cases z)
      case Nil
      then show ?thesis using x no_ssh_match(2) [OF assms(1), of ?s] by auto
    next
      case (Cons c w)
      then have "a @ ''-'' = w @ y" using x by simp
      then obtain a' where "y = a' @ ''-''" "set a' \<subseteq> set a"
        using x(2) by (cases y rule: rev_cases) auto
      then show ?thesis using no_ssh_match(1) [of a' ?s] assms(1) by auto
    qed
  qed
  then show ?thesis using find_ssh(1) [OF assms(2,3)]
    by (simp add: parseRepoPath_def getUrlRegexMatches_def re_text_def Let_def)
qed


section \<open>Credentials\<close>

lemma or_wrap_Ok: "or_wrap m c f s = Some (Inr y, s2) \<longleftrightarrow> (\<exists>x s1. c s = Some (Inr x, s1) \<and> f x s1 = Some (Inr y, s2))"
  by (auto simp: or_wrap_def split: option.splits prod.splits sum.splits)

lemma then_do_Ok: "then_do c f s = Some (Inr y, s2) \<longleftrightarrow> (\<exists>x s1. c s = Some (Inr x, s1) \<and> f x s1 = Some (Inr y, s2))"
  by (auto simp: then_do_def split: option.splits prod.splits sum.splits)

lemma give_Ok: "give r s = Some (Inr y, s2) \<longleftrightarrow> r = Inr y \<and> s2 = s"
  by (auto simp: give_def)

lemmas call_Ok = or_wrap_Ok then_do_Ok give_Ok

lemma run_on_Ok: "run_on f w = Some (Inr x, w1) \<longleftrightarrow> f w = (x, w1)"
  by (auto simp: run_on_def split: prod.splits)

lemma instance_Ok: "instance_failed i c w = Some (Inr x, w1) \<longleftrightarrow> bi_err i = None \<and> c w = Some (Inr x, w1)"
  by (auto simp: instance_failed_def give_def split: option.splits)

text \<open>An answer of the server that is not a yes is an error, never a no.\<close>

lemma validated:
  assumes "ValidateAuthentication env bc w = Some (Inr v, w1)"
  shows "v = True"
proof -
  obtain url where none: "bc_err bc = None" and url: "parsed env (bc_instancePath bc @ ''/rest/api/1.0/users/'' @ getUsername bc) None = Inr url"
    using assms unfolding ValidateAuthentication_def client_failed_def
    by (cases "bc_err bc"; cases "parsed env (bc_instancePath bc @ ''/rest/api/1.0/users/'' @ getUsername bc) None")
      (simp_all add: give_Ok del: append.simps)
  obtain resp :: HttpResponse and w2 where "(if hr_code resp \<in> {200, 204} then
        (case js_Active env (hr_body resp) of
           Inl e \<Rightarrow> give (Inl (AppendError ''Failed to decode response to authentication request'' e))
         | Inr active \<Rightarrow> if \<not> active then give (Fail ''Specified user is not active on Bitbucket !'') else give (Ok True))
      else if hr_code resp = 401 then give (Fail ''Failed to validate bitbucket credentials, HTTP code was 401'')
      else give (Fail (''Failed to make HTTP GET request to validate credentials, HTTP code was '' @ Itoa (hr_code resp)))) w2 = Some (Inr v, w1)"
    using assms unfolding ValidateAuthentication_def client_failed_def none option.case url sum.case or_wrap_Ok by (elim exE conjE) (rule that)
  then show ?thesis by (cases "js_Active env (hr_body resp)") (simp_all add: give_Ok split: if_splits)
qed

lemma password_accepted:
  "try_passwords env n k bc False w = Some (Inr (bc', True), w1) \<Longrightarrow>
    \<exists>wa wb. ValidateAuthentication env bc' wa = Some (Inr True, wb) \<and> getUsername bc' = getUsername bc"
proof (induction k arbitrary: bc w)
  case (Suc k)
  obtain pwd wa where p: "getBitbucketPassword env n w = (pwd, wa)" by (metis surj_pair)
  show ?case
  proof (cases "pwd = []")
    case True
    then have "try_passwords env n k bc False wa = Some (Inr (bc', True), w1)" using Suc.prems p by (simp add: then_do_def run_on_def)
    then show ?thesis by (rule Suc.IH)
  next
    case False
    let ?bc = "setPassword pwd bc"
    obtain v wb where v: "ValidateAuthentication env ?bc wa = Some (Inr v, wb)"
      "(if \<not> v then try_passwords env n k ?bc v else give (Ok (?bc, v))) wb = Some (Inr (bc', True), w1)"
      using Suc.prems p False by (auto simp: then_do_def run_on_def or_wrap_Ok)
    have "v" using validated [OF v(1)] by simp
    then have "bc' = ?bc" using v(2) by (simp add: give_Ok)
    then show ?thesis using v(1) \<open>v\<close> by (auto simp: setPassword_def getUsername_def)
  qed
qed (simp add: give_Ok)

lemma renewed: "renew_token env i bc w = Some (Inr bc', w1) \<Longrightarrow>
    getUsername bc' = getUsername bc \<and> (\<exists>body tok. js_NewToken env body = Ok tok \<and> bc' = setToken tok bc)"
  by (auto simp: renew_token_def createToken_def call_Ok setToken_def getUsername_def split: if_splits)


text \<open>
  A password that the server refuses ends the attempt: although the loop is written for
  three, the password after a refused one is never asked for, and the world is left as the
  refusal left it.
\<close>

theorem refused_password_is_not_retried:
  assumes "bi_err i = None" "getBitbucketUser env (bi_name i) w = (user, w1)" "getBitbucketPassword env (bi_name i) w1 = (pwd, w2)"
    and "pwd \<noteq> []" "ValidateAuthentication env (setPassword pwd (setUsername user (fresh_client i))) w2 = Some (r, w3)" "r \<noteq> Ok True"
  shows "\<exists>e. newClientUsingCallbackPassword env i w = Some (Inl e, w3)"
proof -
  have "r \<noteq> Inr v" for v using validated [of env _ w2 v w3] assms(5,6) by auto
  then obtain e where "r = Inl e" by (cases r) auto
  then show ?thesis using assms
    by (simp add: newClientUsingCallbackPassword_def instance_failed_def then_do_def run_on_def or_wrap_def numeral_3_eq_3)
qed

text \<open>
  A client that could not be made breaks its instance for good: the nil client is kept in
  the table, and every later call through it panics.
\<close>

theorem failed_client_stays_broken:
  assumes "bi_err i = None" "fst st (bi_name i) = None" "newBitbucketClient env i (snd st) = Some (Inl e, w')"
  shows "\<exists>st'. GetClient env i st = Some (Ok None, st') \<and> fst st' (bi_name i) = Some None \<and>
    with_client env i f st = None \<and> with_client env i f st' = None"
  using assms by (auto simp: GetClient_def with_client_def then_do_def)

section \<open>Commits\<close>

text \<open>
  \<open>HasChangedSince\<close> does not look at its reference: for any two references that are not
  empty the requests are the same, so are the successful answers.
\<close>

theorem changed_since_ignores_reference:
  assumes "ref \<noteq> []" "ref' \<noteq> []" "HasChangedSince env br ref since path st = Some (Ok b, st')"
  shows "HasChangedSince env br ref' since path st = Some (Ok b, st')"
proof -
  have same: "getCommits env p r ref' since path bc w = Some (Inr x, w1)" if "getCommits env p r ref since path bc w = Some (Inr x, w1)"
    for p r bc w x w1
    using that assms(1,2)
    by (auto simp: getCommits_def client_failed_def Let_def or_wrap_Ok give_Ok split: option.splits sum.splits if_splits)
  show ?thesis using assms(3)
    by (fastforce simp: HasChangedSince_def with_client_def call_Ok dest!: same split: option.splits)
qed


section \<open>Witnesses\<close>

text \<open>A server that answers every request with one code, and a user with a stored token.\<close>

definition sample_scm :: "int \<Rightarrow> string \<Rightarrow> nat scm_env" where
  "sample_scm code tok =
     \<lparr>sc_BitbucketUser = ''robot'',
      sc_Auth = Some \<lparr>ah_User = (\<lambda>_ w. (''u'', w)), ah_Password = (\<lambda>_ w. (''secret'', w)), ah_Save = (\<lambda>_ _ w. (None, w)), ah_SaveInfo = (\<lambda>_ _ w. (None, w))\<rparr>,
      sc_Tokens = Some \<lparr>th_Token = (\<lambda>_ w. (tok, w)), th_TokenInfo = (\<lambda>_ w. (''1'', w))\<rparr>,
      sc_Parse = (\<lambda>_. Ok \<lparr>su_Scheme = ''https'', su_Host = ''127.0.0.1:443'', su_Hostname = ''127.0.0.1'', su_Path = ''/git/scm/team/tool-1.git''\<rparr>),
      sc_UrlString = hu_Text, sc_RequestError = (\<lambda>_. None),
      sc_Do = (\<lambda>_ w. (Answer code (Some (Ok ''body'')), Suc w)), sc_Clone = (\<lambda>_ _ _ _ w. (None, w)),
      js_Errors = (\<lambda>_. Ok []), js_Files = (\<lambda>_. Ok []), js_Type = (\<lambda>_. Ok ''FILE''), js_Active = (\<lambda>_. Ok True), js_Tokens = (\<lambda>_. Ok []),
      js_NewToken = (\<lambda>_. Ok \<lparr>bt_Id = ''2'', bt_token = ''new''\<rparr>), js_Commits = (\<lambda>_. Ok [''c'']), js_TokenRequest = (\<lambda>_ _ _. Ok []),
      js_ReadInfo = (\<lambda>i. Ok i), js_WriteInfo = (\<lambda>i. Ok i), ini_Load = (\<lambda>_. Ok [])\<rparr>"

definition sample_instance :: bitbucketInstance where "sample_instance = bitbucketInstances ! 2"

definition sample_repository :: BitbucketRepository where
  "sample_repository = \<lparr>br_Instance = sample_instance, br_Project = ''team'', br_Repository = ''tool-1'', br_GivenScheme = ''https''\<rparr>"


theorem ssh_owner_is_cut_at_dash_witness: "parseRepoPath ''/~jane-doe/tool.git'' ''ssh'' = Ok (''doe'', ''tool'')"
proof -
  have "is_owner ''doe''" "is_repository ''tool.git''" "TrimSuffix ''tool.git'' ''.git'' = ''tool''" by code_simp+
  then show ?thesis using ssh_owner_is_cut_at_dash [of "''~jane''" "''doe''" "''tool.git''"] by simp
qed

lemma sample_client: "\<exists>bc. newBitbucketClient (sample_scm 200 ''tok'') sample_instance 0 = Some (Ok bc, 1)"
  by (rule exI [of _ "setToken \<lparr>bt_Id = ''1'', bt_token = ''tok''\<rparr> (setUsername ''u'' (fresh_client sample_instance))"]) code_simp


lemma sample_refused:
  "ValidateAuthentication (sample_scm 401 []) (setPassword ''secret'' (setUsername ''u'' (fresh_client sample_instance))) 0 =
     Some (Fail ''Failed to validate bitbucket credentials, HTTP code was 401'', 1)"
  by code_simp

theorem refused_password_is_not_retried_witness:
  "\<exists>e. newClientUsingCallbackPassword (sample_scm 401 []) sample_instance 0 = Some (Inl e, 1)"
proof -
  have "getBitbucketUser (sample_scm 401 []) (bi_name sample_instance) 0 = (''u'', 0)"
    "getBitbucketPassword (sample_scm 401 []) (bi_name sample_instance) 0 = (''secret'', 0)" "bi_err sample_instance = None"
    by (simp_all add: getBitbucketUser_def getBitbucketPassword_def authenticationHandler_def sample_scm_def sample_instance_def bitbucketInstances_def)
  then show ?thesis using refused_password_is_not_retried [OF _ _ _ _ sample_refused] by simp
qed

theorem failed_client_stays_broken_witness:
  "\<exists>st'. GetClient (sample_scm 401 []) sample_instance (Map.empty, 0) = Some (Ok None, st') \<and>
     fst st' (bi_name sample_instance) = Some None"
proof -
  have "case newBitbucketClient (sample_scm 401 []) sample_instance 0 of Some (Inl _, _) \<Rightarrow> True | _ \<Rightarrow> False" by code_simp
  then obtain e w where "newBitbucketClient (sample_scm 401 []) sample_instance 0 = Some (Inl e, w)"
    by (auto split: option.splits prod.splits sum.splits)
  moreover have "bi_err sample_instance = None" by code_simp
  ultimately show ?thesis
    using failed_client_stays_broken [of sample_instance "(Map.empty, 0)" "sample_scm 401 []" e w "\<lambda>_. panic :: (unit, nat) call"] by simp blast
qed

theorem changed_since_ignores_reference_witness:
  "\<exists>st'. HasChangedSince (sample_scm 200 ''tok'') sample_repository ''b'' [] [] ([''local_unittesting'' \<mapsto> Some (fresh_client sample_instance)], 0) = Some (Ok True, st')"
proof -
  obtain st' where "HasChangedSince (sample_scm 200 ''tok'') sample_repository ''a'' [] [] ([''local_unittesting'' \<mapsto> Some (fresh_client sample_instance)], 0) = Some (Ok True, st')"
    using that [of "snd (the (HasChangedSince (sample_scm 200 ''tok'') sample_repository ''a'' [] [] ([''local_unittesting'' \<mapsto> Some (fresh_client sample_instance)], 0)))"]
    by (simp add: HasChangedSince_def with_client_def then_do_def GetClient_def sample_repository_def sample_instance_def bitbucketInstances_def
        fresh_client_def or_wrap_def getCommits_def client_failed_def parsed_def sample_scm_def http_Get_def request_auth_def no_auth_def doRequest_def read_answer_def give_def Let_def BaseHttpUrl_def)
  from changed_since_ignores_reference [OF _ _ this, of "''b''"] show ?thesis by auto
qed

end
