(* ===== verification/Secrets.thy ===== *)
theory Secrets
  imports ScmProps
begin

text \<open>
  Stored secrets and who uses them: the file \<open>secret.json\<close> and the prompts of
  \<open>internal/authmgr\<close>, which are the credential handlers of \<open>internal/scm\<close> and \<open>internal/ar\<close>, and
  the client of the artifact repository (\<open>internal/ar\<close>) with its token.

  What a client of the handlers relies on is the locale \<open>credential_store\<close>; it is interpreted
  on the file of \<open>authmgr\<close>.
\<close>

section \<open>The secret file\<close>

record Secret =
  se_Login :: string
  se_Metadata :: string
  se_Raw :: string

definition no_secret :: Secret where "no_secret = \<lparr>se_Login = [], se_Metadata = [], se_Raw = []\<rparr>"

type_synonym secrets = "string \<rightharpoonup> Secret"

text \<open>
  \<open>sw_repo\<close> is \<open>sRepo\<close>, nil before the first use; \<open>sw_file\<close> is what \<open>secret.json\<close> holds;
  \<open>sw_input\<close> is the terminal. A decoder that fails still leaves what it has read.
\<close>

record 'i secret_world =
  sw_repo :: "secrets option"
  sw_file :: "string option"
  sw_input :: 'i

record 'i secret_lib =
  sl_Decode :: "string \<Rightarrow> secrets \<times> err option"
  sl_Encode :: "secrets \<Rightarrow> string result"
  sl_WriteError :: "string \<Rightarrow> (string option \<times> err) option"
  sl_Prompt :: "string \<Rightarrow> 'i \<Rightarrow> string result \<times> 'i"

text \<open>An error of reading the file is logged, and the content is what was read, or nothing.\<close>

definition parseFile :: "'i secret_lib \<Rightarrow> 'i secret_world \<Rightarrow> secrets" where
  "parseFile lib w = (case sw_file w of None \<Rightarrow> Map.empty | Some txt \<Rightarrow> fst (sl_Decode lib txt))"

definition repoContent :: "'i secret_lib \<Rightarrow> 'i secret_world \<Rightarrow> secrets \<times> 'i secret_world" where
  "repoContent lib w =
     (case sw_repo w of
        Some s \<Rightarrow> (s, w)
      | None \<Rightarrow> (let s = parseFile lib w in (s, w\<lparr>sw_repo := Some s\<rparr>)))"

definition write_secrets :: "'i secret_lib \<Rightarrow> 'i secret_world \<Rightarrow> err option \<times> 'i secret_world" where
  "write_secrets lib w =
     (let (s, w1) = repoContent lib w in
      case sl_Encode lib s of
        Inl e \<Rightarrow> (Some (AppendError ''Failed serialize configuration'' e), w1)
      | Inr txt \<Rightarrow>
          (case sl_WriteError lib txt of
             Some (left, e) \<Rightarrow> (Some (AppendError ''Failed write configuration'' e), w1\<lparr>sw_file := left\<rparr>)
           | None \<Rightarrow> (None, w1\<lparr>sw_file := Some txt\<rparr>)))"

definition secretDetails :: "'i secret_lib \<Rightarrow> string \<Rightarrow> 'i secret_world \<Rightarrow> Secret \<times> 'i secret_world" where
  "secretDetails lib key w =
     (let (s, w1) = repoContent lib w in (case s key of Some d \<Rightarrow> (d, w1) | None \<Rightarrow> (no_secret, w1)))"

definition secretLogin :: "'i secret_lib \<Rightarrow> string \<Rightarrow> 'i secret_world \<Rightarrow> string \<times> 'i secret_world" where
  "secretLogin lib key w = map_prod se_Login id (secretDetails lib key w)"

definition secretMetadata :: "'i secret_lib \<Rightarrow> string \<Rightarrow> 'i secret_world \<Rightarrow> string \<times> 'i secret_world" where
  "secretMetadata lib key w = map_prod se_Metadata id (secretDetails lib key w)"

definition secretRaw :: "'i secret_lib \<Rightarrow> string \<Rightarrow> 'i secret_world \<Rightarrow> string \<times> 'i secret_world" where
  "secretRaw lib key w = map_prod se_Raw id (secretDetails lib key w)"

definition visitSecret_set :: "'i secret_lib \<Rightarrow> (Secret \<Rightarrow> Secret) \<Rightarrow> string \<Rightarrow> 'i secret_world \<Rightarrow> err option \<times> 'i secret_world" where
  "visitSecret_set lib v key w =
     (let (s, w1) = repoContent lib w; d = (case s key of Some d \<Rightarrow> d | None \<Rightarrow> no_secret)
      in case write_secrets lib (w1\<lparr>sw_repo := Some (s(key \<mapsto> v d))\<rparr>) of
           (Some e, w2) \<Rightarrow> (Some (AppendError ''Failed to save secret'' e), w2)
         | (None, w2) \<Rightarrow> (None, w2))"

definition setLogin :: "'i secret_lib \<Rightarrow> string \<Rightarrow> string \<Rightarrow> 'i secret_world \<Rightarrow> err option \<times> 'i secret_world" where
  "setLogin lib key l = visitSecret_set lib (\<lambda>s. s\<lparr>se_Login := l\<rparr>) key"

definition setMetadata :: "'i secret_lib \<Rightarrow> string \<Rightarrow> string \<Rightarrow> 'i secret_world \<Rightarrow> err option \<times> 'i secret_world" where
  "setMetadata lib key m = visitSecret_set lib (\<lambda>s. s\<lparr>se_Metadata := m\<rparr>) key"

definition setRaw :: "'i secret_lib \<Rightarrow> string \<Rightarrow> string \<Rightarrow> 'i secret_world \<Rightarrow> err option \<times> 'i secret_world" where
  "setRaw lib key r = visitSecret_set lib (\<lambda>s. s\<lparr>se_Raw := r\<rparr>) key"

section \<open>The handlers\<close>

text \<open>A login and a prompt, set by the options \<open>WithLogin\<close> and \<open>WithPrompt\<close> of \<open>New\<close>.\<close>

record am_auth =
  am_login :: string
  am_prompt :: string

definition WithLogin :: "string \<Rightarrow> am_auth \<Rightarrow> am_auth" where "WithLogin l a = a\<lparr>am_login := l\<rparr>"
definition WithPrompt :: "string \<Rightarrow> am_auth \<Rightarrow> am_auth" where "WithPrompt p a = a\<lparr>am_prompt := p\<rparr>"

definition am_New :: "(am_auth \<Rightarrow> am_auth) list \<Rightarrow> am_auth" where
  "am_New options = fold (\<lambda>f a. f a) options \<lparr>am_login = [], am_prompt = []\<rparr>"

definition am_User :: "'i secret_lib \<Rightarrow> am_auth \<Rightarrow> string \<Rightarrow> 'i secret_world \<Rightarrow> string \<times> 'i secret_world" where
  "am_User lib a secretKey w =
     (let (user, w1) = secretLogin lib secretKey w in if length user > 0 then (user, w1) else (am_login a, w1))"

definition am_Password :: "'i secret_lib \<Rightarrow> am_auth \<Rightarrow> string \<Rightarrow> 'i secret_world \<Rightarrow> string \<times> 'i secret_world" where
  "am_Password lib a secretKey w =
     (let (pwd, w1) = secretRaw lib secretKey w in
      if length pwd > 0 then (pwd, w1)
      else case sl_Prompt lib (am_prompt a) (sw_input w1) of
        (Inl _, i) \<Rightarrow> ([], w1\<lparr>sw_input := i\<rparr>)
      | (Inr line, i) \<Rightarrow> (line, w1\<lparr>sw_input := i\<rparr>))"

definition am_handle :: "'i secret_lib \<Rightarrow> am_auth \<Rightarrow> 'i secret_world authHandle" where
  "am_handle lib a =
     \<lparr>ah_User = am_User lib a, ah_Password = am_Password lib a, ah_Save = setRaw lib, ah_SaveInfo = setMetadata lib\<rparr>"

definition am_tokens :: "'i secret_lib \<Rightarrow> 'i secret_world tokenHandle" where
  "am_tokens lib = \<lparr>th_Token = secretRaw lib, th_TokenInfo = secretMetadata lib\<rparr>"

section \<open>What the clients rely on\<close>

text \<open>
  A secret that was saved is read again, the reading changes nothing, and the information
  beside it does not disturb it.
\<close>

locale credential_store =
  fixes h :: "'w authHandle" and t :: "'w tokenHandle"
  assumes save_token: "ah_Save h key r w = (None, w1) \<Longrightarrow> th_Token t key w1 = (r, w1)"
    and save_info: "ah_SaveInfo h key m w = (None, w1) \<Longrightarrow> th_TokenInfo t key w1 = (m, w1)"
    and info_keeps_token: "ah_SaveInfo h key m w = (None, w1) \<Longrightarrow> th_Token t key w = (r, w) \<Longrightarrow> th_Token t key w1 = (r, w1)"
begin

lemma saved_pair:
  assumes "ah_Save h key r w = (None, w1)" "ah_SaveInfo h key m w1 = (None, w2)"
  shows "th_TokenInfo t key w2 = (m, w2)" "th_Token t key w2 = (r, w2)"
  using save_info [OF assms(2)] info_keeps_token [OF assms(2) save_token [OF assms(1)]] .

lemma bitbucket_token_round_trip:
  assumes "sc_Auth env = Some h" "sc_Tokens env = Some t" "setBitbucketToken env inst bt w = (None, w1)"
    and "\<And>info. js_WriteInfo env (bt_Id bt) = Ok info \<Longrightarrow> js_ReadInfo env info = Ok (bt_Id bt)"
  shows "getBitbucketToken env inst w1 = (Ok bt, w1)"
proof -
  obtain info w2 where i: "js_WriteInfo env (bt_Id bt) = Ok info" "ah_Save h (tokenKey inst) (bt_token bt) w = (None, w2)"
    "ah_SaveInfo h (tokenKey inst) info w2 = (None, w1)"
    using assms(1,3) by (auto simp: setBitbucketToken_def authenticationHandler_def Let_def split: sum.splits prod.splits option.splits)
  show ?thesis using saved_pair [OF i(2,3)] assms(2) assms(4) [OF i(1)]
    by (simp add: getBitbucketToken_def tokenHandler_def Let_def)
qed

end

lemma written: "write_secrets lib w = (None, w1) \<Longrightarrow> sw_repo w = Some s \<Longrightarrow> sw_repo w1 = Some s"
  by (auto simp: write_secrets_def repoContent_def split: sum.splits option.splits)

lemma visited:
  assumes "visitSecret_set lib v key w = (None, w1)"
  shows "sw_repo w1 = Some ((fst (repoContent lib w))(key \<mapsto> v (fst (secretDetails lib key w))))"
  using assms written
  by (fastforce simp: visitSecret_set_def secretDetails_def Let_def split: prod.splits option.splits)

lemma details_loaded: "sw_repo w = Some s \<Longrightarrow> secretDetails lib key w = (case s key of Some d \<Rightarrow> d | None \<Rightarrow> no_secret, w)"
  by (simp add: secretDetails_def repoContent_def split: option.split)

text \<open>Reading does not change the world once the file was read.\<close>

interpretation secret_file: credential_store "am_handle lib a" "am_tokens lib"
  for lib :: "'i secret_lib" and a :: am_auth
proof
  fix key r m :: string and w w1 :: "'i secret_world"
  show "th_Token (am_tokens lib) key w1 = (r, w1)" if "ah_Save (am_handle lib a) key r w = (None, w1)"
    using visited that by (fastforce simp: am_handle_def am_tokens_def setRaw_def secretRaw_def details_loaded)
  assume info: "ah_SaveInfo (am_handle lib a) key m w = (None, w1)"
  then have w1: "sw_repo w1 = Some ((fst (repoContent lib w))(key \<mapsto> (fst (secretDetails lib key w))\<lparr>se_Metadata := m\<rparr>))"
    using visited by (fastforce simp: am_handle_def setMetadata_def)
  then show "th_TokenInfo (am_tokens lib) key w1 = (m, w1)" by (simp add: am_tokens_def secretMetadata_def details_loaded)
  show "th_Token (am_tokens lib) key w1 = (r, w1)" if "th_Token (am_tokens lib) key w = (r, w)"
    using that w1 by (cases "secretDetails lib key w") (simp add: am_tokens_def secretRaw_def details_loaded)
qed

section \<open>The artifact repository\<close>

record artifactoryToken =
  at_token :: string
  at_RefreshToken :: string
  at_ExpiringDate :: int

record artifactoryInstance =
  ai_name :: string
  ai_url :: string
  ai_err :: "err option"

text \<open>What a service manager is made with.\<close>

record ar_details =
  ad_Url :: string
  ad_User :: string
  ad_Password :: string
  ad_AccessToken :: string

text \<open>The library of the repository: building a configuration and a manager, and its calls.\<close>

record 'w ar_env =
  ar_Auth :: "'w authHandle option"
  ar_Tokens :: "'w tokenHandle option"
  ar_ConfigError :: "ar_details \<Rightarrow> err option"
  ar_ManagerError :: "ar_details \<Rightarrow> err option"
  ar_CreateToken :: "ar_details \<Rightarrow> string \<Rightarrow> 'w \<Rightarrow> (string \<times> string) result \<times> 'w"
  ar_RefreshToken :: "ar_details \<Rightarrow> artifactoryToken \<Rightarrow> 'w \<Rightarrow> (string \<times> string) result \<times> 'w"
  ar_ReadRemoteFile :: "ar_details \<Rightarrow> string \<Rightarrow> 'w \<Rightarrow> string result result \<times> 'w"
  ar_SearchFiles :: "ar_details \<Rightarrow> string \<Rightarrow> 'w \<Rightarrow> bool result \<times> 'w"
  ar_FolderInfo :: "ar_details \<Rightarrow> string \<Rightarrow> 'w \<Rightarrow> string list result \<times> 'w"
  ar_Now :: "'w \<Rightarrow> int"
  ar_ReadInfo :: "string \<Rightarrow> (string \<times> int) result"
  ar_WriteInfo :: "string \<Rightarrow> int \<Rightarrow> string result"

definition ar_handler :: "'w ar_env \<Rightarrow> 'w authHandle" where
  "ar_handler env = (case ar_Auth env of None \<Rightarrow> authDefaultImp | Some h \<Rightarrow> h)"

definition ar_tokenHandler :: "'w ar_env \<Rightarrow> 'w tokenHandle" where
  "ar_tokenHandler env = (case ar_Tokens env of None \<Rightarrow> tokenDefaultImp | Some h \<Rightarrow> h)"

definition ar_tokenKey :: "string \<Rightarrow> string" where "ar_tokenKey inst = ''ar-tkn-'' @ inst"
definition ar_passwordKey :: "string \<Rightarrow> string" where "ar_passwordKey inst = ''ar-pwd-'' @ inst"
definition ar_userKey :: "string \<Rightarrow> string" where "ar_userKey inst = ''ar-usr-'' @ inst"

definition getArtifactoryUser :: "'w ar_env \<Rightarrow> string \<Rightarrow> 'w \<Rightarrow> string \<times> 'w" where
  "getArtifactoryUser env inst w = ah_User (ar_handler env) (ar_userKey inst) w"

definition getArtifactoryPassword :: "'w ar_env \<Rightarrow> string \<Rightarrow> 'w \<Rightarrow> string \<times> 'w" where
  "getArtifactoryPassword env inst w = ah_Password (ar_handler env) (ar_passwordKey inst) w"

definition getArtifactoryToken :: "'w ar_env \<Rightarrow> string \<Rightarrow> 'w \<Rightarrow> artifactoryToken result \<times> 'w" where
  "getArtifactoryToken env inst w =
     (let key = ar_tokenKey inst; (tokenInfo, w1) = th_TokenInfo (ar_tokenHandler env) key w
      in case ar_ReadInfo env tokenInfo of
        Inl e \<Rightarrow> (Inl (AppendError (''Failed read and deserialize token '' @ key @ '' info'') e), w1)
      | Inr (refresh, expire) \<Rightarrow>
          (let (raw, w2) = th_Token (ar_tokenHandler env) key w1
           in (Ok \<lparr>at_token = raw, at_RefreshToken = refresh, at_ExpiringDate = expire\<rparr>, w2)))"

definition setArtifactoryToken :: "'w ar_env \<Rightarrow> string \<Rightarrow> artifactoryToken \<Rightarrow> 'w \<Rightarrow> err option \<times> 'w" where
  "setArtifactoryToken env inst tok w =
     (let key = ar_tokenKey inst in
      case ar_WriteInfo env (at_RefreshToken tok) (at_ExpiringDate tok) of
        Inl e \<Rightarrow> (Some (AppendError (''Failed to serialize token '' @ key @ '' info'') e), w)
      | Inr info \<Rightarrow>
          (case ah_Save (ar_handler env) key (at_token tok) w of
             (Some e, w1) \<Rightarrow> (Some (AppendError (''Failed to save token '' @ key) e), w1)
           | (None, w1) \<Rightarrow>
               (case ah_SaveInfo (ar_handler env) key info w1 of
                  (Some e, w2) \<Rightarrow> (Some (AppendError (''Failed to save token '' @ key @ '' info'') e), w2)
                | (None, w2) \<Rightarrow> (None, w2))))"

context credential_store
begin

lemma artifactory_token_round_trip:
  assumes "ar_Auth env = Some h" "ar_Tokens env = Some t" "setArtifactoryToken env inst tok w = (None, w1)"
    and "\<And>info. ar_WriteInfo env (at_RefreshToken tok) (at_ExpiringDate tok) = Ok info \<Longrightarrow>
      ar_ReadInfo env info = Ok (at_RefreshToken tok, at_ExpiringDate tok)"
  shows "getArtifactoryToken env inst w1 = (Ok tok, w1)"
proof -
  obtain info w2 where i: "ar_WriteInfo env (at_RefreshToken tok) (at_ExpiringDate tok) = Ok info"
    "ah_Save h (ar_tokenKey inst) (at_token tok) w = (None, w2)" "ah_SaveInfo h (ar_tokenKey inst) info w2 = (None, w1)"
    using assms(1,3) by (auto simp: setArtifactoryToken_def ar_handler_def Let_def split: sum.splits prod.splits option.splits)
  show ?thesis using saved_pair [OF i(2,3)] assms(2) assms(4) [OF i(1)]
    by (simp add: getArtifactoryToken_def ar_tokenHandler_def Let_def)
qed

end

definition artifactoryInstances :: "artifactoryInstance list" where
  "artifactoryInstances =
     [\<lparr>ai_name = ''FixMe'', ai_url = ''https://repository.fix.me/'', ai_err = None\<rparr>,
      \<lparr>ai_name = ''local_unittesting'', ai_url = ''https://127.0.0.1/'', ai_err = None\<rparr>]"

fun named_instance :: "string \<Rightarrow> artifactoryInstance list \<Rightarrow> artifactoryInstance" where
  "named_instance n [] = \<lparr>ai_name = [], ai_url = [], ai_err = Some (NewError (''Failed to identify artifactory instance ('' @ n @ '')''))\<rparr>"
| "named_instance n (i # is) = (if EqualFold n (ai_name i) then i else named_instance n is)"

definition ArtifactoryInstanceFromName :: "string \<Rightarrow> artifactoryInstance" where
  "ArtifactoryInstanceFromName n = named_instance n artifactoryInstances"

definition isExpired :: "'w ar_env \<Rightarrow> 'w \<Rightarrow> artifactoryToken \<Rightarrow> bool" where
  "isExpired env w tok = (at_ExpiringDate tok < ar_Now env w)"

definition hour :: int where "hour = 60 * 60 * 1000000000"

text \<open>A token that the server has made lasts an hour from now; an error of storing it is logged.\<close>

definition keep_token :: "'w ar_env \<Rightarrow> string \<Rightarrow> string \<times> string \<Rightarrow> 'w \<Rightarrow> artifactoryToken \<times> 'w" where
  "keep_token env inst results w =
     (let tok = \<lparr>at_token = fst results, at_RefreshToken = snd results, at_ExpiringDate = ar_Now env w + hour\<rparr>
      in (tok, snd (setArtifactoryToken env inst tok w)))"

definition manager_error :: "'w ar_env \<Rightarrow> string \<Rightarrow> ar_details \<Rightarrow> err option" where
  "manager_error env what d =
     (case ar_ConfigError env d of
        Some e \<Rightarrow> Some (AppendError (''Couldn't generate service config to '' @ what @ '' token'') e)
      | None \<Rightarrow>
          (case ar_ManagerError env d of
             Some e \<Rightarrow> Some (AppendError (''Couldn't generate manager to '' @ what @ '' token'') e)
           | None \<Rightarrow> None))"

definition generateNewToken :: "'w ar_env \<Rightarrow> string \<Rightarrow> 'w \<Rightarrow> artifactoryToken result \<times> 'w" where
  "generateNewToken env inst w =
     (let (user, w1) = getArtifactoryUser env inst w; (password, w2) = getArtifactoryPassword env inst w1;
          d = \<lparr>ad_Url = ai_url (ArtifactoryInstanceFromName inst), ad_User = user, ad_Password = password, ad_AccessToken = []\<rparr>
      in case manager_error env ''generate new'' d of
           Some e \<Rightarrow> (Inl e, w2)
         | None \<Rightarrow>
             (let (again, w3) = getArtifactoryUser env inst w2 in
              case ar_CreateToken env d again w3 of
                (Inl e, w4) \<Rightarrow> (Inl (AppendError ''Couldn't refresh token'' e), w4)
              | (Inr results, w4) \<Rightarrow> map_prod Ok id (keep_token env inst results w4)))"

definition refreshToken :: "'w ar_env \<Rightarrow> string \<Rightarrow> artifactoryToken \<Rightarrow> 'w \<Rightarrow> artifactoryToken result \<times> 'w" where
  "refreshToken env inst tok w =
     (let (user, w1) = getArtifactoryUser env inst w;
          d = \<lparr>ad_Url = ai_url (ArtifactoryInstanceFromName inst), ad_User = user, ad_Password = [], ad_AccessToken = []\<rparr>
      in case manager_error env ''refresh'' d of
           Some e \<Rightarrow> (Inl e, w1)
         | None \<Rightarrow>
             (case ar_RefreshToken env d tok w1 of
                (Inl e, w2) \<Rightarrow> (Inl (AppendError ''Couldn't refresh token'' e), w2)
              | (Inr results, w2) \<Rightarrow> map_prod Ok id (keep_token env inst results w2)))"

definition getValidArtifactoryToken :: "'w ar_env \<Rightarrow> string \<Rightarrow> 'w \<Rightarrow> artifactoryToken result \<times> 'w" where
  "getValidArtifactoryToken env inst w =
     (case getArtifactoryToken env inst w of
        (Inl _, w1) \<Rightarrow> generateNewToken env inst w1
      | (Inr tok, w1) \<Rightarrow>
          if \<not> isExpired env w1 tok then (Ok tok, w1)
          else case refreshToken env inst tok w1 of
            (Inl _, w2) \<Rightarrow> generateNewToken env inst w2
          | (Inr new, w2) \<Rightarrow> (Ok new, w2))"

text \<open>Mocks, which the tests set; a client is the mock or a manager made with its details.\<close>

record ar_mocks =
  mk_mock :: bool
  mk_fetch :: "(string \<Rightarrow> string \<Rightarrow> string result) option"
  mk_list :: "(string \<Rightarrow> string \<Rightarrow> string list result) option"
  mk_exists :: "(string \<Rightarrow> string \<Rightarrow> bool result) option"

definition SetMock ::
  "(string \<Rightarrow> string \<Rightarrow> string result) option \<Rightarrow> (string \<Rightarrow> string \<Rightarrow> string list result) option \<Rightarrow>
   (string \<Rightarrow> string \<Rightarrow> bool result) option \<Rightarrow> ar_mocks \<Rightarrow> ar_mocks" where
  "SetMock newFetch newList newExists m =
     \<lparr>mk_mock = True,
      mk_fetch = (if mk_fetch m \<noteq> None then newFetch else mk_fetch m),
      mk_list = (if newList \<noteq> None then newList else mk_list m),
      mk_exists = (if newExists \<noteq> None then newExists else mk_exists m)\<rparr>"

definition ClearMock :: "ar_mocks \<Rightarrow> ar_mocks" where
  "ClearMock m = \<lparr>mk_mock = False, mk_fetch = None, mk_list = None, mk_exists = None\<rparr>"

datatype ar_client = MockedARClient | ArtifactoryClient ar_details | FailedClient err

definition NewArtifactoryClient :: "'w ar_env \<Rightarrow> ar_mocks \<Rightarrow> string \<Rightarrow> 'w \<Rightarrow> ar_client result \<times> 'w" where
  "NewArtifactoryClient env m inst w =
     (if mk_mock m then (Ok MockedARClient, w)
      else let (user, w1) = getArtifactoryUser env inst w; (tok, w2) = getValidArtifactoryToken env inst w1;
               (password, w3) = (case tok of Inl _ \<Rightarrow> getArtifactoryPassword env inst w2 | Inr _ \<Rightarrow> ([], w2));
               d = \<lparr>ad_Url = ai_url (ArtifactoryInstanceFromName inst), ad_User = user, ad_Password = password,
                 ad_AccessToken = (case tok of Inl _ \<Rightarrow> [] | Inr k \<Rightarrow> at_token k)\<rparr>
           in case ar_ConfigError env d of
                Some e \<Rightarrow> (Inl (AppendError ''Couldn't generate service config to create new AR client'' e), w3)
              | None \<Rightarrow> (case ar_ManagerError env d of Some e \<Rightarrow> Inl e | None \<Rightarrow> Ok (ArtifactoryClient d), w3))"

text \<open>The table of clients; a client that could not be made is nil and is not kept.\<close>

definition ar_GetClient ::
  "'w ar_env \<Rightarrow> ar_mocks \<Rightarrow> artifactoryInstance \<Rightarrow> (string \<rightharpoonup> ar_client) \<times> 'w \<Rightarrow> ar_client option \<times> (string \<rightharpoonup> ar_client) \<times> 'w" where
  "ar_GetClient env m i st =
     (case ai_err i of
        Some e \<Rightarrow> (Some (FailedClient e), st)
      | None \<Rightarrow>
          (case fst st (ai_name i) of
             Some c \<Rightarrow> (Some c, st)
           | None \<Rightarrow>
               (case NewArtifactoryClient env m (ai_name i) (snd st) of
                  (Inl e, w1) \<Rightarrow> (None, (fst st, w1))
                | (Inr c, w1) \<Rightarrow> (Some c, ((fst st)(ai_name i \<mapsto> c), w1)))))"

text \<open>The calls; a client with an error has no manager, and its calls panic.\<close>

definition ar_FetchFile :: "'w ar_env \<Rightarrow> ar_mocks \<Rightarrow> ar_client \<Rightarrow> string \<Rightarrow> string \<Rightarrow> (string, 'w) call" where
  "ar_FetchFile env m c rp path w =
     (case c of
        FailedClient _ \<Rightarrow> None
      | MockedARClient \<Rightarrow> Some (case mk_fetch m of None \<Rightarrow> Ok [] | Some f \<Rightarrow> f rp path, w)
      | ArtifactoryClient d \<Rightarrow>
          (case ar_ReadRemoteFile env d (rp @ path) w of
             (Inl e, w1) \<Rightarrow> Some (Inl (AppendError ''Failed reading remote file'' e), w1)
           | (Inr r, w1) \<Rightarrow> Some (r, w1)))"

definition ar_FileExists :: "'w ar_env \<Rightarrow> ar_mocks \<Rightarrow> ar_client \<Rightarrow> string \<Rightarrow> string \<Rightarrow> (bool, 'w) call" where
  "ar_FileExists env m c rp path w =
     (case c of
        FailedClient _ \<Rightarrow> None
      | MockedARClient \<Rightarrow> Some (case mk_exists m of None \<Rightarrow> Ok False | Some f \<Rightarrow> f rp path, w)
      | ArtifactoryClient d \<Rightarrow>
          (case ar_SearchFiles env d (rp @ path) w of
             (Inl e, w1) \<Rightarrow> Some (Inl (AppendError ''Couldn't search for file'' e), w1)
           | (Inr isEmpty, w1) \<Rightarrow> Some (Ok (\<not> isEmpty), w1)))"

text \<open>The first byte of a URI is cut off; without one the slice expression panics.\<close>

definition ar_ListDirectories :: "'w ar_env \<Rightarrow> ar_mocks \<Rightarrow> ar_client \<Rightarrow> string \<Rightarrow> string \<Rightarrow> (string list, 'w) call" where
  "ar_ListDirectories env m c rp path w =
     (case c of
        FailedClient _ \<Rightarrow> None
      | MockedARClient \<Rightarrow> Some (case mk_list m of None \<Rightarrow> Ok [] | Some f \<Rightarrow> f rp path, w)
      | ArtifactoryClient d \<Rightarrow>
          (case ar_FolderInfo env d (rp @ path) w of
             (Inl e, w1) \<Rightarrow> Some (Inl (AppendError ''Couldn't get folder info'' e), w1)
           | (Inr children, w1) \<Rightarrow> if [] \<in> set children then None else Some (Ok (map tl children), w1)))"

section \<open>Properties\<close>


text \<open>
  A token of the artifact repository is never used after its hour: the one that
  \<open>getValidArtifactoryToken\<close> returns is a stored one that has not expired, or one that the
  server has made just now and that expires in an hour.
\<close>

theorem returned_token_is_valid:
  assumes "getValidArtifactoryToken env inst w = (Ok tok, w')"
  shows "(\<exists>w1. getArtifactoryToken env inst w = (Ok tok, w1) \<and> \<not> isExpired env w1 tok) \<or>
    (\<exists>w1. at_ExpiringDate tok = ar_Now env w1 + hour)"
proof -
  have kept: "\<exists>w1. at_ExpiringDate (fst (keep_token env inst r u)) = ar_Now env w1 + hour" for r u
    by (auto simp: keep_token_def Let_def)
  have new: "\<exists>w1. at_ExpiringDate tok = ar_Now env w1 + hour" if "generateNewToken env inst u = (Ok tok, w')" for u
    using that kept by (auto simp: generateNewToken_def Let_def split: prod.splits option.splits sum.splits)
      (metis fst_conv map_prod_simp sum.inject(2) surj_pair prod.inject)
  have renewed: "\<exists>w1. at_ExpiringDate tok = ar_Now env w1 + hour" if "refreshToken env inst k u = (Ok tok, w')" for k u
    using that kept by (auto simp: refreshToken_def Let_def split: prod.splits option.splits sum.splits)
      (metis fst_conv map_prod_simp sum.inject(2) surj_pair prod.inject)
  show ?thesis using assms new renewed
    by (auto simp: getValidArtifactoryToken_def split: prod.splits sum.splits if_splits)
qed

text \<open>
  A secret file that cannot be read is lost at the next save: what is written then has the
  one secret that is saved, and none of the others.
\<close>

theorem unreadable_secrets_are_overwritten:
  assumes "sw_repo w = None" "sw_file w = Some txt" "fst (sl_Decode lib txt) = Map.empty"
    and "setRaw lib key r w = (None, w')"
  shows "\<exists>out. sl_Encode lib [key \<mapsto> no_secret\<lparr>se_Raw := r\<rparr>] = Ok out \<and> sw_file w' = Some out"
proof -
  have "repoContent lib w = (Map.empty, w\<lparr>sw_repo := Some Map.empty\<rparr>)"
    using assms(1-3) by (simp add: repoContent_def parseFile_def Let_def)
  then show ?thesis using assms(4)
    by (auto simp: setRaw_def visitSecret_set_def write_secrets_def repoContent_def split: sum.splits option.splits prod.splits)
qed

section \<open>Witnesses\<close>

definition sample_secrets :: "unit secret_lib" where
  "sample_secrets = \<lparr>sl_Decode = (\<lambda>_. (Map.empty, Some (NewError ''broken''))), sl_Encode = (\<lambda>_. Ok ''{}''), sl_WriteError = (\<lambda>_. None),
     sl_Prompt = (\<lambda>_ w. (Ok ''pwd'', w))\<rparr>"

definition sample_user :: am_auth where "sample_user = am_New [WithLogin ''u'', WithPrompt ''?'']"

definition empty_secrets :: "unit secret_world" where "empty_secrets = \<lparr>sw_repo = None, sw_file = Some ''junk'', sw_input = ()\<rparr>"

definition keyed_scm :: "unit secret_world scm_env" where
  "keyed_scm =
     \<lparr>sc_BitbucketUser = [], sc_Auth = Some (am_handle sample_secrets sample_user), sc_Tokens = Some (am_tokens sample_secrets),
      sc_Parse = (\<lambda>_. Fail []), sc_UrlString = hu_Text, sc_RequestError = (\<lambda>_. None), sc_Do = (\<lambda>_ w. (NoAnswer (NewError []), w)),
      sc_Clone = (\<lambda>_ _ _ _ w. (None, w)), js_Errors = (\<lambda>_. Ok []), js_Files = (\<lambda>_. Ok []), js_Type = (\<lambda>_. Ok []), js_Active = (\<lambda>_. Ok True),
      js_Tokens = (\<lambda>_. Ok []), js_NewToken = (\<lambda>_. Fail []), js_Commits = (\<lambda>_. Ok []), js_TokenRequest = (\<lambda>_ _ _. Ok []),
      js_ReadInfo = (\<lambda>i. Ok i), js_WriteInfo = (\<lambda>i. Ok i), ini_Load = (\<lambda>_. Ok [])\<rparr>"

definition keyed_ar :: "unit secret_world ar_env" where
  "keyed_ar =
     \<lparr>ar_Auth = Some (am_handle sample_secrets sample_user), ar_Tokens = Some (am_tokens sample_secrets), ar_ConfigError = (\<lambda>_. None),
      ar_ManagerError = (\<lambda>_. None), ar_CreateToken = (\<lambda>_ _ w. (Fail [], w)), ar_RefreshToken = (\<lambda>_ _ w. (Fail [], w)),
      ar_ReadRemoteFile = (\<lambda>_ _ w. (Fail [], w)), ar_SearchFiles = (\<lambda>_ _ w. (Ok True, w)), ar_FolderInfo = (\<lambda>_ _ w. (Ok [], w)),
      ar_Now = (\<lambda>_. 0), ar_ReadInfo = (\<lambda>i. Ok (tl i, of_char (hd i))), ar_WriteInfo = (\<lambda>r d. Ok (char_of d # r))\<rparr>"


definition sample_ar :: "int ar_env" where
  "sample_ar =
     \<lparr>ar_Auth = None, ar_Tokens = None, ar_ConfigError = (\<lambda>_. None), ar_ManagerError = (\<lambda>_. None),
      ar_CreateToken = (\<lambda>_ _ w. (Ok (''t'', ''r''), w)), ar_RefreshToken = (\<lambda>_ _ w. (Fail [], w)), ar_ReadRemoteFile = (\<lambda>_ _ w. (Fail [], w)),
      ar_SearchFiles = (\<lambda>_ _ w. (Ok True, w)), ar_FolderInfo = (\<lambda>_ _ w. (Ok [], w)), ar_Now = id,
      ar_ReadInfo = (\<lambda>_. Ok (''r'', 5)), ar_WriteInfo = (\<lambda>_ _. Ok [])\<rparr>"

theorem returned_token_is_valid_witness:
  "getValidArtifactoryToken sample_ar ''local_unittesting'' 9 = (Ok \<lparr>at_token = ''t'', at_RefreshToken = ''r'', at_ExpiringDate = 9 + hour\<rparr>, 9) \<and>
     (\<exists>w. 9 + hour = ar_Now sample_ar w + hour)"
proof -
  have run: "getValidArtifactoryToken sample_ar ''local_unittesting'' 9 = (Ok \<lparr>at_token = ''t'', at_RefreshToken = ''r'', at_ExpiringDate = 9 + hour\<rparr>, 9)"
    by code_simp
  have "getArtifactoryToken sample_ar ''local_unittesting'' 9 = (Ok \<lparr>at_token = [], at_RefreshToken = ''r'', at_ExpiringDate = 5\<rparr>, 9)" by code_simp
  with run returned_token_is_valid [OF run] show ?thesis by simp
qed

theorem unreadable_secrets_are_overwritten_witness:
  "\<exists>w'. setRaw sample_secrets ''k'' ''r'' empty_secrets = (None, w') \<and> sw_file w' = Some ''{}''"
proof -
  have "fst (setRaw sample_secrets ''k'' ''r'' empty_secrets) = None"
    by (simp add: setRaw_def visitSecret_set_def write_secrets_def repoContent_def sample_secrets_def empty_secrets_def Let_def split: prod.splits)
  then obtain w' where w: "setRaw sample_secrets ''k'' ''r'' empty_secrets = (None, w')" by (metis prod.collapse)
  have "\<exists>out. sl_Encode sample_secrets [''k'' \<mapsto> no_secret\<lparr>se_Raw := ''r''\<rparr>] = Ok out \<and> sw_file w' = Some out"
    by (rule unreadable_secrets_are_overwritten [OF _ _ _ w]) (simp_all add: empty_secrets_def sample_secrets_def)
  with w show ?thesis by (simp add: sample_secrets_def)
qed

end
