(* ===== verification/RemoteShell.thy ===== *)
theory RemoteShell
  imports EngineRun ProjectKeys
begin

text \<open>
  Running commands on another host over ssh (\<open>internal/shexec\<close>): connecting with a key or a
  password, the check of the host's key, the loop that runs events, and copying files.

  The ssh library and the terminal are the record \<open>sh_env\<close> on a world \<open>'w\<close>, with \<open>'c\<close> the type of
  a connection. The variables of the package are the state: the open connections, the
  password, the number of times it was asked for, whether \<open>known_hosts\<close> was looked at, and that
  file. Connections are found by the value of their target. Forwarding a port and attaching a terminal are loops of goroutines and are not modelled.
\<close>

section \<open>State and environment\<close>

record sh_target =
  tg_FQDN :: string
  tg_HasPassword :: bool
  tg_Password :: string
  tg_PathToPrv :: string
  tg_PathToPub :: string
  tg_Port :: int
  tg_Username :: string

record ('w, 'c) sh_state =
  ss_clients :: "sh_target \<rightharpoonup> 'c"
  ss_secret :: string
  ss_validated :: bool
  ss_tries :: nat
  ss_checked :: bool
  ss_known :: "string option"
  ss_world :: 'w

text \<open>How a private key parses, and the method of authentication that comes of it.\<close>

datatype key_parse = Signer string | PassphraseMissing err | BadKey err
datatype ssh_auth = KeyAuth string | AgentAuth string | PasswordAuth string

record ('w, 'c) sh_env =
  rs_local :: "'w engine_env"
  rs_Hostname :: "string result"
  rs_Exists :: "string \<Rightarrow> 'w \<Rightarrow> bool"
  rs_ReadFile :: "string \<Rightarrow> 'w \<Rightarrow> string result"
  rs_Create :: "string \<Rightarrow> 'w \<Rightarrow> err option \<times> 'w"
  rs_Write :: "string \<Rightarrow> string \<Rightarrow> 'w \<Rightarrow> 'w"
  rs_ParseKey :: "string \<Rightarrow> key_parse"
  rs_AgentSocket :: "string option"
  rs_DialAgent :: "string \<Rightarrow> 'w \<Rightarrow> err option \<times> 'w"
  rs_IsTerminal :: bool
  rs_ReadPassphrase :: "'w \<Rightarrow> string result \<times> 'w"
  rs_ParseWithPassphrase :: "string \<Rightarrow> string \<Rightarrow> string result"
  rs_Handshake :: "string \<Rightarrow> 'w \<Rightarrow> (string \<times> string) result \<times> 'w"
  rs_Login :: "string \<Rightarrow> string \<Rightarrow> ssh_auth \<Rightarrow> 'w \<Rightarrow> 'c result \<times> 'w"
  rs_NewSession :: "'c \<Rightarrow> 'w \<Rightarrow> err option \<times> 'w"
  rs_Run :: "'c \<Rightarrow> string \<Rightarrow> string \<Rightarrow> 'w \<Rightarrow> (string \<times> string \<times> err option) \<times> 'w"
  rs_Getter :: "string \<Rightarrow> 'w \<Rightarrow> string result \<times> 'w"
  rs_Validation :: "bool \<Rightarrow> 'w \<Rightarrow> bool \<times> 'w"
  rs_ParseAuthorizedKey :: "string \<Rightarrow> string result"
  rs_Normalize :: "string \<Rightarrow> string"
  rs_KnownLine :: "string list \<Rightarrow> string \<Rightarrow> string"
  rs_OpenRead :: "err option"
  rs_OpenAppend :: "err option"
  rs_WriteError :: "(string \<times> err) option"

definition on_host :: "('w \<Rightarrow> 'a \<times> 'w) \<Rightarrow> ('w, 'c) sh_state \<Rightarrow> 'a \<times> ('w, 'c) sh_state" where
  "on_host f st = (case f (ss_world st) of (x, w) \<Rightarrow> (x, st\<lparr>ss_world := w\<rparr>))"

section \<open>The host's key\<close>

text \<open>\<open>bufio.ScanLines\<close>: the lines of a text, without the last one when it is empty (lines
  longer than the buffer of a scanner, 64 KiB, stop it and are not modelled).\<close>

definition scan_lines :: "string \<Rightarrow> string list" where
  "scan_lines s = map (\<lambda>l. TrimSuffix l [CR]) (let ls = split_on NL s in if last ls = [] then butlast ls else ls)"

fun host_key_in :: "('w, 'c) sh_env \<Rightarrow> string \<Rightarrow> string list \<Rightarrow> string option \<Rightarrow> string option result" where
  "host_key_in env host [] found = Ok found"
| "host_key_in env host (l # ls) found =
     (let flds = split_on (CHR '' '') l in
      if length flds \<noteq> 3 then host_key_in env host ls found
      else if HasPrefix (flds ! 0) host then
        (case rs_ParseAuthorizedKey env l of
           Inl e \<Rightarrow> Inl (AppendError (''Error parsing '' @ Quote (flds ! 2)) e)
         | Inr k \<Rightarrow> host_key_in env host ls (Some k))
      else host_key_in env host ls found)"

definition getHostKey :: "('w, 'c) sh_env \<Rightarrow> string \<Rightarrow> ('w, 'c) sh_state \<Rightarrow> string result" where
  "getHostKey env host st =
     (case ss_known st of
        None \<Rightarrow> Fail ''Failed to get host key, known_hosts does't not exist!''
      | Some txt \<Rightarrow>
          (case rs_OpenRead env of
             Some e \<Rightarrow> Inl (AppendError ''Failed to open known_hosts file'' e)
           | None \<Rightarrow>
               (case host_key_in env host (scan_lines txt) None of
                  Inl e \<Rightarrow> Inl e
                | Inr None \<Rightarrow> Fail (''No host key available for '' @ host)
                | Inr (Some k) \<Rightarrow> Ok k)))"

definition known_hosts_path :: "('w, 'c) sh_env \<Rightarrow> string" where
  "known_hosts_path env = path_Join [env_HomeDir (rs_local env), ''.ssh'', ''known_hosts'']"

text \<open>The callback that the library asks for the key a host shows: its error refuses the host.\<close>

definition provideHostKeyCallback ::
  "('w, 'c) sh_env \<Rightarrow> string \<Rightarrow> string \<Rightarrow> string \<Rightarrow> ('w, 'c) sh_state \<Rightarrow> err option \<times> ('w, 'c) sh_state" where
  "provideHostKeyCallback env hostname remote pubkey st =
     (if ss_checked st then (None, st)
      else let st1 = st\<lparr>ss_checked := True\<rparr> in
        case ss_known st of
          None \<Rightarrow> (None, st1)
        | Some txt \<Rightarrow>
            if getHostKey env hostname st = Ok pubkey then (None, st1)
            else let entry = rs_KnownLine env [hostname, rs_Normalize env remote] pubkey in
              case rs_OpenRead env of
                Some _ \<Rightarrow> (None, st1)
              | None \<Rightarrow>
                  if list_ex (\<lambda>l. Contains l entry) (scan_lines txt) then (None, st1)
                  else case rs_OpenAppend env of
                    Some _ \<Rightarrow> (None, st1)
                  | None \<Rightarrow>
                      (case rs_WriteError env of
                         Some (part, e) \<Rightarrow>
                           (Some (AppendError (''Failed to write hostkey to known_hosts file ('' @ known_hosts_path env @ '')'') e), st1\<lparr>ss_known := Some (txt @ part)\<rparr>)
                       | None \<Rightarrow> (None, st1\<lparr>ss_known := Some (txt @ entry @ '' '' @ '' generated by CDS'' @ [NL])\<rparr>)))"

definition CheckValidSSHKeyPairExistence :: "('w, 'c) sh_env \<Rightarrow> sh_target \<Rightarrow> 'w \<Rightarrow> err option" where
  "CheckValidSSHKeyPairExistence env t w =
     (if \<not> rs_Exists env (tg_PathToPub t) w \<or> \<not> rs_Exists env (tg_PathToPrv t) w
      then Some (NewError (''Host '' @ tg_FQDN t @ '' does not have a valid ssh key pair'')) else None)"

section \<open>Connecting\<close>

definition getAuthMethod :: "('w, 'c) sh_env \<Rightarrow> string \<Rightarrow> 'w \<Rightarrow> ssh_auth result \<times> 'w" where
  "getAuthMethod env path w =
     (case rs_ReadFile env path w of
        Inl e \<Rightarrow> (Inl (AppendError (''Cannot read private key file '' @ path) e), w)
      | Inr key \<Rightarrow>
          (case rs_ParseKey env key of
             Signer s \<Rightarrow> (Ok (KeyAuth s), w)
           | BadKey e \<Rightarrow> (Inl (AppendError (''Could not parse SSH private key '' @ path) e), w)
           | PassphraseMissing e \<Rightarrow>
               (case rs_AgentSocket env of
                  Some socket \<Rightarrow>
                    (case rs_DialAgent env socket w of
                       (Some e1, w1) \<Rightarrow> (Inl (AppendError (''Cannot connect to SSH agent at '' @ socket) e1), w1)
                     | (None, w1) \<Rightarrow> (Ok (AgentAuth socket), w1))
                | None \<Rightarrow>
                    if \<not> rs_IsTerminal env
                    then (Inl (AppendError (path @ '' requires a passphrase, and we don't have a terminal to prompt for the passphrase'') e), w)
                    else case rs_ReadPassphrase env w of
                      (Inl e1, w1) \<Rightarrow> (Inl (AppendError ''Cannot read passphrase from stdin'' e1), w1)
                    | (Inr passphrase, w1) \<Rightarrow>
                        (case rs_ParseWithPassphrase env key passphrase of
                           Inl e1 \<Rightarrow> (Inl (AppendError (''Cannot parse private key with passphrase '' @ path) e1), w1)
                         | Inr s \<Rightarrow> (Ok (KeyAuth s), w1)))))"

definition ssh_address :: "sh_target \<Rightarrow> string" where
  "ssh_address t = tg_FQDN t @ '':'' @ Itoa (if tg_Port t \<noteq> 0 then tg_Port t else 22)"

text \<open>The first part of \<open>ssh.Dial\<close>: the host shows its key, and the callback decides.\<close>

definition host_shown :: "('w, 'c) sh_env \<Rightarrow> string \<Rightarrow> ('w, 'c) sh_state \<Rightarrow> err option \<times> ('w, 'c) sh_state" where
  "host_shown env address st =
     (case on_host (rs_Handshake env address) st of
        (Inl e, st1) \<Rightarrow> (Some e, st1)
      | (Inr (remote, pubkey), st1) \<Rightarrow> provideHostKeyCallback env address remote pubkey st1)"

definition ssh_Dial :: "('w, 'c) sh_env \<Rightarrow> sh_target \<Rightarrow> ssh_auth \<Rightarrow> ('w, 'c) sh_state \<Rightarrow> 'c result \<times> ('w, 'c) sh_state" where
  "ssh_Dial env t auth st =
     (case host_shown env (ssh_address t) st of
        (Some e, st1) \<Rightarrow> (Inl e, st1)
      | (None, st1) \<Rightarrow> on_host (rs_Login env (ssh_address t) (tg_Username t) auth) st1)"

definition registerNewSSHClient :: "sh_target \<Rightarrow> 'c \<Rightarrow> ('w, 'c) sh_state \<Rightarrow> ('w, 'c) sh_state" where
  "registerNewSSHClient t c st = st\<lparr>ss_clients := (ss_clients st)(t \<mapsto> c)\<rparr>"

definition connected :: "string \<Rightarrow> sh_target \<Rightarrow> 'c result \<times> ('w, 'c) sh_state \<Rightarrow> 'c result \<times> ('w, 'c) sh_state" where
  "connected m t r =
     (case r of
        (Inl e, st) \<Rightarrow> (Inl (AppendError (m @ tg_Username t @ ''@'' @ tg_FQDN t @ '':22'') e), st)
      | (Inr c, st) \<Rightarrow> (Ok c, registerNewSSHClient t c st))"

definition connectSSHKey :: "('w, 'c) sh_env \<Rightarrow> sh_target \<Rightarrow> ('w, 'c) sh_state \<Rightarrow> 'c result \<times> ('w, 'c) sh_state" where
  "connectSSHKey env t st =
     (case ss_clients st t of
        Some c \<Rightarrow> (Ok c, st)
      | None \<Rightarrow>
          (case on_host (getAuthMethod env (tg_PathToPrv t)) st of
             (Inl e, st1) \<Rightarrow>
               (Inl (AppendError (''Could not find a suitable authentication method'' @
                  (case CheckValidSSHKeyPairExistence env t (ss_world st1) of None \<Rightarrow> [] | Some m \<Rightarrow> [NL] @ '' '' @ err_text m)) e), st1)
           | (Inr auth, st1) \<Rightarrow> connected ''Failed to open SSH connection to '' t (ssh_Dial env t auth st1)))"

definition maxPasswordTries :: nat where "maxPasswordTries = 3"

definition retryableGetSecret :: "('w, 'c) sh_env \<Rightarrow> ('w, 'c) sh_state \<Rightarrow> string result \<times> ('w, 'c) sh_state" where
  "retryableGetSecret env st =
     (if ss_tries st = maxPasswordTries
      then (Fail ''Maximum amount of authentication tries exceeded for SSH connection'', st)
      else let (canContinue, st1) =
               (if ss_tries st > 0 \<and> \<not> ss_validated st then on_host (rs_Validation env False) st else (True, st))
           in if \<not> canContinue then (Fail ''Password authentication cannot proceed further'', st1)
              else if length (ss_secret st1) = 0 \<or> \<not> ss_validated st1 then
                (case on_host (rs_Getter env ''Enter your office LDAP user password (Hint: windows account password):'') st1 of
                   (Inl e, st2) \<Rightarrow> (Inl (AppendError ''Unable to read password'' e), st2\<lparr>ss_secret := [], ss_tries := Suc (ss_tries st2)\<rparr>)
                 | (Inr s, st2) \<Rightarrow> (Ok s, st2\<lparr>ss_secret := s, ss_tries := Suc (ss_tries st2)\<rparr>))
              else (Ok (ss_secret st1), st1))"

text \<open>\<open>ssh.RetryableAuthMethod\<close>: as many times as it is told, until the server accepts or the callback fails.\<close>

fun login_retrying :: "('w, 'c) sh_env \<Rightarrow> sh_target \<Rightarrow> nat \<Rightarrow> ('w, 'c) sh_state \<Rightarrow> 'c result \<times> ('w, 'c) sh_state" where
  "login_retrying env t 0 st = (Fail ''ssh: unable to authenticate'', st)"
| "login_retrying env t (Suc n) st =
     (case retryableGetSecret env st of
        (Inl e, st1) \<Rightarrow> (Inl e, st1)
      | (Inr s, st1) \<Rightarrow>
          (case on_host (rs_Login env (ssh_address t) (tg_Username t) (PasswordAuth s)) st1 of
             (Inr c, st2) \<Rightarrow> (Ok c, st2)
           | (Inl _, st2) \<Rightarrow> login_retrying env t n st2))"

definition connectSSHPassword :: "('w, 'c) sh_env \<Rightarrow> sh_target \<Rightarrow> ('w, 'c) sh_state \<Rightarrow> 'c result \<times> ('w, 'c) sh_state" where
  "connectSSHPassword env t st =
     (case ss_clients st t of
        Some c \<Rightarrow> (Ok c, st)
      | None \<Rightarrow>
          connected ''unable to connect to '' t
            (if tg_HasPassword t then ssh_Dial env t (PasswordAuth (tg_Password t)) st
             else case host_shown env (ssh_address t) st of
               (Some e, st1) \<Rightarrow> (Inl e, st1)
             | (None, st1) \<Rightarrow> login_retrying env t maxPasswordTries st1))"

section \<open>Running events\<close>

text \<open>A session handler runs one command over a connection.\<close>

type_synonym ('w, 'c) sessionHandler = "'c \<Rightarrow> string \<Rightarrow> 'w \<Rightarrow> (string \<times> err option) \<times> 'w"

definition runSession :: "('w, 'c) sh_env \<Rightarrow> ('w, 'c) sessionHandler" where
  "runSession env client command w =
     (case rs_NewSession env client w of
        (Some e, w1) \<Rightarrow> (([], Some (AppendError ''Failed to create session'' e)), w1)
      | (None, w1) \<Rightarrow>
          (case rs_Run env client command [] w1 of
             ((stdout, stderr, Some e), w2) \<Rightarrow>
               ((stderr, Some (AppendError (''Failed to run command ('' @ command @ ''):'' @ [NL] @ ''stdout: '' @ stdout @ [NL] @ ''stderr: '' @ stderr) e)), w2)
           | ((stdout, stderr, None), w2) \<Rightarrow> ((stdout, None), w2)))"

text \<open>An \<open>*execErr\<close> has only the text of the error; \<open>*recoverErr\<close> is never made.\<close>

datatype sh_error = ExecErr string | OtherErr err

definition as_err :: "sh_error \<Rightarrow> err" where
  "as_err e = (case e of ExecErr m \<Rightarrow> NewError m | OtherErr x \<Rightarrow> x)"

text \<open>
  The loop over the events. A failure stops it only when the event says so; otherwise the
  recovery command runs, recoverable or not, and the loop goes on. The result is the outputs,
  nil when the loop was stopped, and an error or nil for each step.
\<close>

fun run_events :: "('w, 'c) sessionHandler \<Rightarrow> 'c \<Rightarrow> RunEvent list \<Rightarrow> 'w \<Rightarrow> (string list option \<times> sh_error option list) \<times> 'w" where
  "run_events sh client [] w = ((Some [], []), w)"
| "run_events sh client (ev # evs) w =
     (case sh client (re_cmd ev) w of
        ((out, None), w1) \<Rightarrow>
          (case run_events sh client evs w1 of ((outs, errs), w2) \<Rightarrow> ((map_option ((#) out) outs, None # errs), w2))
      | ((out, Some e), w1) \<Rightarrow>
          if \<not> re_continueProcess ev then ((None, [Some (ExecErr (err_text e))]), w1)
          else case sh client (re_rollback ev) w1 of
            ((_, r), w2) \<Rightarrow>
              (case run_events sh client evs w2 of
                 ((outs, errs), w3) \<Rightarrow>
                   ((map_option ((#) out) outs,
                     (case r of None \<Rightarrow> [] | Some re \<Rightarrow> [Some (OtherErr e), Some (OtherErr re)]) @ Some (OtherErr e) # errs), w3)))"

definition key_execute ::
  "('w, 'c) sh_env \<Rightarrow> sh_target \<Rightarrow> RunEvent list \<Rightarrow> ('w, 'c) sessionHandler \<Rightarrow> ('w, 'c) sh_state \<Rightarrow>
   (string list option \<times> sh_error option list) \<times> ('w, 'c) sh_state" where
  "key_execute env t evs sh st =
     (case connectSSHKey env t st of
        (Inl e, st1) \<Rightarrow> ((None, [Some (OtherErr e)]), st1)
      | (Inr client, st1) \<Rightarrow> on_host (run_events sh client evs) st1)"

definition password_execute ::
  "('w, 'c) sh_env \<Rightarrow> sh_target \<Rightarrow> RunEvent list \<Rightarrow> ('w, 'c) sessionHandler \<Rightarrow> ('w, 'c) sh_state \<Rightarrow>
   (string list option \<times> sh_error option list) \<times> ('w, 'c) sh_state" where
  "password_execute env t evs sh st =
     (case connectSSHPassword env t st of
        (Inl e, st1) \<Rightarrow> ((None, [Some (OtherErr (AppendError ''Couldn't connect to SSH using password'' e))]), st1)
      | (Inr client, st1) \<Rightarrow>
          (let st2 = st1\<lparr>ss_secret := (if tg_HasPassword t then tg_Password t else ss_secret st1), ss_validated := True\<rparr>;
               (ignored, st3) = on_host (rs_Validation env True) st2
           in on_host (run_events sh client evs) st3))"

text \<open>\<open>RemoteExecute\<close>: one of the two.\<close>

type_synonym ('w, 'c) remote_execute =
  "RunEvent list \<Rightarrow> ('w, 'c) sessionHandler \<Rightarrow> ('w, 'c) sh_state \<Rightarrow> (string list option \<times> sh_error option list) \<times> ('w, 'c) sh_state"

definition UsingKey :: "('w, 'c) sh_env \<Rightarrow> sh_target \<Rightarrow> ('w, 'c) remote_execute" where
  "UsingKey env t = key_execute env t"

definition UsingPassword :: "('w, 'c) sh_env \<Rightarrow> sh_target \<Rightarrow> ('w, 'c) remote_execute" where
  "UsingPassword env t = password_execute env t"

definition some_errors :: "sh_error option list \<Rightarrow> sh_error list" where
  "some_errors es = map the (filter (\<lambda>e. e \<noteq> None) es)"

definition report :: "string \<Rightarrow> sh_error option list \<Rightarrow> err option" where
  "report m es = (if length (some_errors es) > 0 then Some (AppendMultipleErrors m (map as_err (some_errors es))) else None)"

definition ExecuteOne ::
  "('w, 'c) sh_env \<Rightarrow> ('w, 'c) remote_execute \<Rightarrow> RunEvent \<Rightarrow> ('w, 'c) sh_state \<Rightarrow> (string \<times> err option) \<times> ('w, 'c) sh_state" where
  "ExecuteOne env method ev st =
     (case method [ev] (runSession env) st of
        ((outs, errs), st1) \<Rightarrow>
          (case report (''Failed to execute commands ('' @ re_cmd ev @ '')'') errs of
             Some e \<Rightarrow> (([], Some e), st1)
           | None \<Rightarrow> ((hd (the outs), None), st1)))"

definition ExecuteMany ::
  "('w, 'c) sh_env \<Rightarrow> ('w, 'c) remote_execute \<Rightarrow> RunEvent list \<Rightarrow> ('w, 'c) sh_state \<Rightarrow>
   (string list option \<times> sh_error option list) \<times> ('w, 'c) sh_state" where
  "ExecuteMany env method evs st = method evs (runSession env) st"

definition rs_IsLocalHost :: "('w, 'c) sh_env \<Rightarrow> string \<Rightarrow> bool" where
  "rs_IsLocalHost env hostName =
     (if hostName = KLocalhost then True
      else case rs_Hostname env of
        Inl _ \<Rightarrow> False
      | Inr runtimeHostName \<Rightarrow> ToLower runtimeHostName = ToLower (hd (split_on (CHR ''.'') hostName)))"

definition no_command :: err where "no_command = NewError ''No command to execute, incorrect internal function usage''"

definition RunCmds :: "('w, 'c) sh_env \<Rightarrow> sh_target \<Rightarrow> RunEvent list \<Rightarrow> ('w, 'c) sh_state \<Rightarrow> err option \<times> ('w, 'c) sh_state" where
  "RunCmds env t cmds st =
     (if rs_IsLocalHost env (tg_FQDN t) then on_host (RunLocalCmds (rs_local env) (map Some cmds)) st
      else case CheckValidSSHKeyPairExistence env t (ss_world st) of
        Some e \<Rightarrow> (Some e, st)
      | None \<Rightarrow>
          if cmds = [] then (Some no_command, st)
          else case ExecuteMany env (UsingKey env t) cmds st of
            ((outs, errs), st1) \<Rightarrow>
              (if some_errors errs = [] then None
               else Some (NewError (''Execution errors report:'' @ [NL] @
                 concat (map (\<lambda>(i, e). ''error '' @ nat_text 10 i @ '': '' @ err_text (as_err e) @ '' '' @ [NL]) (enumerate 0 (some_errors errs))))),
               st1))"

definition RunCmd :: "('w, 'c) sh_env \<Rightarrow> sh_target \<Rightarrow> RunEvent list \<Rightarrow> ('w, 'c) sh_state \<Rightarrow> (string \<times> err option) \<times> ('w, 'c) sh_state" where
  "RunCmd env t cmds st =
     (if rs_IsLocalHost env (tg_FQDN t) then on_host (RunLocalCmdWithOutput (rs_local env) (map Some cmds)) st
      else case CheckValidSSHKeyPairExistence env t (ss_world st) of
        Some e \<Rightarrow> (([], Some e), st)
      | None \<Rightarrow>
          (case cmds of
             [] \<Rightarrow> (([], Some no_command), st)
           | [ev] \<Rightarrow> ExecuteOne env (UsingKey env t) ev st
           | _ \<Rightarrow> (([], Some (NewError ''Multiple commands to execute, incorrect internal function usage'')), st)))"

section \<open>Files and small commands\<close>

text \<open>\<open>DefaultShEvent\<close>: no recovery, and the loop goes on after it.\<close>

definition DefaultShEvent :: "string \<Rightarrow> string \<Rightarrow> RunEvent" where
  "DefaultShEvent exeCmd descriptionCmd =
     \<lparr>re_cmd = exeCmd, re_rollback = [], re_canRecover = False, re_continueProcess = True, re_eventInfo = descriptionCmd\<rparr>"

definition file_part :: "string \<Rightarrow> string" where "file_part p = rev (takeWhile (\<lambda>c. c \<noteq> CHR ''/'') (rev p))"

definition InRemotePath :: "string \<Rightarrow> string \<Rightarrow> string \<times> string" where
  "InRemotePath srcPath dstDir = (file_part srcPath, path_Join [dstDir, file_part srcPath])"

definition NAS_ITEMS :: "string list" where
  "NAS_ITEMS = [''archive'', ''intdeliv'', ''mw'', ''obedeliv1'', ''projects'', ''projects1'', ''projteams'', ''releasing'', ''tmp'',
     ''tools'', ''tslahpdelivc'', ''tspprojteams'']"

definition NasPresent :: "('w, 'c) sh_env \<Rightarrow> sh_target \<Rightarrow> ('w, 'c) sh_state \<Rightarrow> bool \<times> ('w, 'c) sh_state" where
  "NasPresent env t st =
     (case RunCmd env t [DefaultShEvent ''ls -w 0 /remote'' ''Checking if NAS is present''] st of
        ((stdout, e), st1) \<Rightarrow> (e = None \<and> foldl (\<lambda>isNas i. isNas \<or> Contains stdout i) True NAS_ITEMS, st1))"

definition Rm :: "('w, 'c) sh_env \<Rightarrow> sh_target \<Rightarrow> string \<Rightarrow> ('w, 'c) sh_state \<Rightarrow> err option \<times> ('w, 'c) sh_state" where
  "Rm env t path st =
     (case RunCmd env t [DefaultShEvent (''rm '' @ path) (''Removing file '' @ [SQ] @ path @ [SQ])] st of
        ((_, Some e), st1) \<Rightarrow>
          (Some (AppendError (''Failed to create directory '' @ [SQ] @ path @ [SQ] @ '' on target '' @ [SQ] @ tg_FQDN t @ [SQ]) e), st1)
      | ((_, None), st1) \<Rightarrow> (None, st1))"

definition ValidateRemote :: "('w, 'c) sh_env \<Rightarrow> ('w, 'c) remote_execute \<Rightarrow> ('w, 'c) sh_state \<Rightarrow> err option \<times> ('w, 'c) sh_state" where
  "ValidateRemote env method st =
     (case method [DefaultShEvent ''exit'' ''Validate connection to remote''] (runSession env) st of
        ((_, errs), st1) \<Rightarrow> (report ''Failed to validate credentials'' errs, st1))"

text \<open>The protocol of \<open>scp -t\<close>: a line with mode, size and name, the bytes, and a zero byte.\<close>

definition copy_session :: "('w, 'c) sh_env \<Rightarrow> string \<Rightarrow> string \<Rightarrow> ('w, 'c) sessionHandler" where
  "copy_session env src dst client cmd w =
     (case rs_NewSession env client w of
        (Some e, w1) \<Rightarrow> (([], Some (AppendError ''Failed to create a session'' e)), w1)
      | (None, w1) \<Rightarrow>
          (case rs_ReadFile env src w1 of
             Inl e \<Rightarrow> (([], Some (AppendError (''Failed to read source file ('' @ src @ '')'') e)), w1)
           | Inr content \<Rightarrow>
               (let (fileName, remoteDst) = InRemotePath src dst in
                case rs_Run env client (''/usr/bin/scp -t '' @ remoteDst)
                       (''C0600 '' @ nat_text 10 (length content) @ '' '' @ fileName @ [NL] @ content @ [CHR 0x00]) w1 of
                  ((_, _, e), w2) \<Rightarrow> (([], e), w2))))"

definition copy_report :: "string \<Rightarrow> string \<Rightarrow> sh_error option list \<Rightarrow> err option" where
  "copy_report src dst errs = report (''Failed to copy file ('' @ src @ '') to '' @ dst) errs"

definition rs_CopyFile :: "('w, 'c) sh_env \<Rightarrow> ('w, 'c) remote_execute \<Rightarrow> string \<Rightarrow> string \<Rightarrow> ('w, 'c) sh_state \<Rightarrow> err option \<times> ('w, 'c) sh_state" where
  "rs_CopyFile env method src dst st =
     (case method [DefaultShEvent ''copy of file'' ''Copying file to host''] (copy_session env src dst) st of
        ((_, errs), st1) \<Rightarrow> (copy_report src dst errs, st1))"

definition CopyKey :: "('w, 'c) sh_env \<Rightarrow> ('w, 'c) remote_execute \<Rightarrow> string \<Rightarrow> string \<Rightarrow> ('w, 'c) sh_state \<Rightarrow> err option \<times> ('w, 'c) sh_state" where
  "CopyKey env method src dst st =
     (case rs_CopyFile env method src dst st of
        (Some e, st1) \<Rightarrow> (Some (AppendError (''Failed to copy SSH key ('' @ src @ '') to remote ('' @ dst @ '')'') e), st1)
      | (None, st1) \<Rightarrow>
          (let remoteDst = snd (InRemotePath src dst);
               cmd = ''mkdir -p ~/.ssh && cat '' @ remoteDst @
                 '' >> ~/.ssh/authorized_keys && chmod 600 ~/.ssh/authorized_keys && chmod 700 ~/.ssh && rm '' @ remoteDst
           in case method [DefaultShEvent cmd ''Copying SSH public key''] (runSession env) st1 of
                ((_, errs), st2) \<Rightarrow> (report ''Failed to execute commands over session'' errs, st2)))"

definition download_session :: "('w, 'c) sh_env \<Rightarrow> string \<Rightarrow> string \<Rightarrow> ('w, 'c) sessionHandler" where
  "download_session env src dst client cmd w =
     (case rs_Create env dst w of
        (Some e, w1) \<Rightarrow> (([], Some (AppendError (''Failed to create destination file ('' @ dst @ '')'') e)), w1)
      | (None, w1) \<Rightarrow>
          (case rs_NewSession env client w1 of
             (Some e, w2) \<Rightarrow> (([], Some (AppendError ''Failed to create a session'' e)), w2)
           | (None, w2) \<Rightarrow>
               (case rs_Run env client (''cat '' @ src) [] w2 of
                  ((_, _, Some e), w3) \<Rightarrow> (([], Some e), w3)
                | ((out, _, None), w3) \<Rightarrow> (([], None), rs_Write env dst out w3))))"

definition DownloadFile :: "('w, 'c) sh_env \<Rightarrow> ('w, 'c) remote_execute \<Rightarrow> string \<Rightarrow> string \<Rightarrow> ('w, 'c) sh_state \<Rightarrow> err option \<times> ('w, 'c) sh_state" where
  "DownloadFile env method src dst st =
     (case method [DefaultShEvent ''Download of file'' ''Downloading file to host''] (download_session env src dst) st of
        ((_, errs), st1) \<Rightarrow> (copy_report src dst errs, st1))"

end
