(* ===== verification/RemoteShellProps.thy ===== *)
theory RemoteShellProps
  imports RemoteShell
begin

text \<open>
  Running commands on another host: which commands a list of events runs and where it stops,
  which host keys are accepted, how often a password is asked for, and that a connection is
  used again.
\<close>

section \<open>The loop over events\<close>

text \<open>A handler that keeps the commands it was given and answers from a table.\<close>

definition logging :: "(string \<Rightarrow> string \<times> err option) \<Rightarrow> (string list, 'c) sessionHandler" where
  "logging answer client cmd log = (answer cmd, log @ [cmd])"

definition fails :: "(string \<Rightarrow> string \<times> err option) \<Rightarrow> RunEvent \<Rightarrow> bool" where
  "fails answer ev \<longleftrightarrow> snd (answer (re_cmd ev)) \<noteq> None"

definition stops :: "(string \<Rightarrow> string \<times> err option) \<Rightarrow> RunEvent \<Rightarrow> bool" where
  "stops answer ev \<longleftrightarrow> fails answer ev \<and> \<not> re_continueProcess ev"

text \<open>The commands of one event that does not stop the loop.\<close>

definition event_commands :: "(string \<Rightarrow> string \<times> err option) \<Rightarrow> RunEvent \<Rightarrow> string list" where
  "event_commands answer ev = (if fails answer ev then [re_cmd ev, re_rollback ev] else [re_cmd ev])"

text \<open>
  C25. The commands that are run on another host: those of the events in order, each failing
  one followed by its recovery command, up to the first event that fails and does not let the
  process go on, whose command is the last. Without such an event all are run, each event has
  an output, and the errors are empty exactly when no event failed.
\<close>

theorem remote_commands_in_order:
  "(case run_events (logging answer) client evs log of
     ((outs, errs), log') \<Rightarrow>
       log' = log @ concat (map (event_commands answer) (takeWhile (\<lambda>ev. \<not> stops answer ev) evs)) @
         (case dropWhile (\<lambda>ev. \<not> stops answer ev) evs of [] \<Rightarrow> [] | ev # _ \<Rightarrow> [re_cmd ev]) \<and>
       outs = (if list_ex (stops answer) evs then None else Some (map (\<lambda>ev. fst (answer (re_cmd ev))) evs)) \<and>
       (some_errors errs = []) = list_all (\<lambda>ev. \<not> fails answer ev) evs)"
proof (induction evs arbitrary: log)
  case Nil
  then show ?case by (simp add: some_errors_def)
next
  case (Cons ev evs)
  obtain out e where a: "answer (re_cmd ev) = (out, e)" by (cases "answer (re_cmd ev)")
  show ?case
  proof (cases e)
    case None
    then show ?thesis using Cons [of "log @ [re_cmd ev]"] a
      by (auto simp: logging_def stops_def fails_def event_commands_def some_errors_def split: prod.splits)
  next
    case (Some x)
    show ?thesis
    proof (cases "re_continueProcess ev")
      case False
      then show ?thesis using Some a by (simp add: logging_def stops_def fails_def some_errors_def)
    next
      case True
      then show ?thesis using Cons [of "log @ [re_cmd ev, re_rollback ev]"] Some a
        by (auto simp: logging_def stops_def fails_def event_commands_def some_errors_def split: prod.splits option.splits)
    qed
  qed
qed

section \<open>Host keys\<close>

text \<open>
  No host is refused: whatever key a host shows, also one that differs from the key in
  \<open>known_hosts\<close>, the callback accepts it unless writing that file fails. The file is looked at
  once per process: after the first host, the next ones change nothing.
\<close>

theorem every_host_key_is_accepted:
  shows "(if rs_WriteError env = None then fst (provideHostKeyCallback env hostname remote pubkey st) = None else True) \<and>
    (case provideHostKeyCallback env hostname remote pubkey st of
       (e, st1) \<Rightarrow> provideHostKeyCallback env hostname' remote' pubkey' st1 = (None, st1))"
  by (simp add: provideHostKeyCallback_def Let_def split: option.split)

text \<open>
  A new host is recorded: for a host whose key is not in \<open>known_hosts\<close>, when the file can be
  read and written, its line is at the end of the file afterwards, and what was there stays.
\<close>

theorem new_host_is_recorded:
  assumes "\<not> ss_checked st" "ss_known st = Some txt" "getHostKey env hostname st \<noteq> Ok pubkey"
    and "rs_OpenRead env = None" "rs_OpenAppend env = None" "rs_WriteError env = None"
    and "\<not> list_ex (\<lambda>l. Contains l (rs_KnownLine env [hostname, rs_Normalize env remote] pubkey)) (scan_lines txt)"
  shows "ss_known (snd (provideHostKeyCallback env hostname remote pubkey st)) =
    Some (txt @ rs_KnownLine env [hostname, rs_Normalize env remote] pubkey @ ''  generated by CDS'' @ [NL])"
  using assms by (simp add: provideHostKeyCallback_def Let_def)

section \<open>Connections\<close>

text \<open>
  The questions at the terminal, as a count in the world that only the getter changes: a step
  asks as often as it raises \<open>passwordTries\<close>.
\<close>

definition counts_questions :: "('w, 'c) sh_env \<Rightarrow> ('w \<Rightarrow> nat) \<Rightarrow> bool" where
  "counts_questions env q \<longleftrightarrow>
     (\<forall>a w. q (snd (rs_Handshake env a w)) = q w) \<and> (\<forall>a u m w. q (snd (rs_Login env a u m w)) = q w) \<and>
     (\<forall>b w. q (snd (rs_Validation env b w)) = q w) \<and> (\<forall>m w. q (snd (rs_Getter env m w)) = Suc (q w))"

definition same_account :: "('w \<Rightarrow> nat) \<Rightarrow> ('w, 'c) sh_state \<Rightarrow> ('w, 'c) sh_state \<Rightarrow> bool" where
  "same_account q st st' \<longleftrightarrow>
     q (ss_world st') + ss_tries st = q (ss_world st) + ss_tries st' \<and> (if ss_tries st \<le> maxPasswordTries then ss_tries st' \<le> maxPasswordTries else True)"

lemma same_account_refl [simp]: "same_account q st st" by (simp add: same_account_def)

lemma same_account_trans [trans]: "same_account q a b \<Longrightarrow> same_account q b c \<Longrightarrow> same_account q a c"
  by (auto simp: same_account_def split: if_splits)

lemma on_host_account:
  "on_host f st = (r, st') \<Longrightarrow> q (snd (f (ss_world st))) = q (ss_world st) \<Longrightarrow> same_account q st st'"
  by (auto simp: on_host_def same_account_def split: prod.splits)

lemma callback_account: "provideHostKeyCallback env a b c st = (e, st') \<Longrightarrow> same_account q st st'"
  by (auto simp: provideHostKeyCallback_def Let_def same_account_def split: if_splits option.splits prod.splits)

lemma shown_account:
  assumes "counts_questions env q" "host_shown env a st = (e, st')"
  shows "same_account q st st'"
proof -
  obtain r st1 where h: "on_host (rs_Handshake env a) st = (r, st1)" by fastforce
  have "same_account q st st1" by (rule on_host_account [OF h]) (use assms(1) in \<open>simp add: counts_questions_def\<close>)
  then show ?thesis using assms(2) h callback_account same_account_trans
    by (auto simp: host_shown_def split: sum.splits) blast+
qed

lemma login_account:
  "counts_questions env q \<Longrightarrow> on_host (rs_Login env a u m) st = (r, st') \<Longrightarrow> same_account q st st'"
  by (erule on_host_account) (simp add: counts_questions_def)

lemma secret_account:
  assumes c: "counts_questions env q" and s: "retryableGetSecret env st = (r, st')"
  shows "same_account q st st'"
proof (cases "ss_tries st = maxPasswordTries")
  case True
  then show ?thesis using s by (simp add: retryableGetSecret_def)
next
  case False
  obtain b st1 where v: "(if ss_tries st > 0 \<and> \<not> ss_validated st then on_host (rs_Validation env False) st else (True, st)) = (b, st1)"
    by fastforce
  have v1: "q (ss_world st1) = q (ss_world st)" "ss_tries st1 = ss_tries st"
    using v c by (auto simp: on_host_def counts_questions_def split: if_splits prod.splits) (metis snd_conv)
  obtain p st2 where g: "on_host (rs_Getter env ''Enter your office LDAP user password (Hint: windows account password):'') st1 = (p, st2)" by fastforce
  have "q (ss_world st2) = Suc (q (ss_world st1))" "ss_tries st2 = ss_tries st1"
    using g c by (auto simp: on_host_def counts_questions_def split: prod.splits) (metis snd_conv)
  then show ?thesis using s False v v1 g
    by (auto simp: retryableGetSecret_def same_account_def split: if_splits sum.splits)
qed

lemma retrying_account:
  assumes c: "counts_questions env q"
  shows "login_retrying env t n st = (r, st') \<Longrightarrow> same_account q st st'"
proof (induction n arbitrary: st)
  case (Suc n)
  obtain r1 st1 where s: "retryableGetSecret env st = (r1, st1)" by fastforce
  note one = secret_account [OF c s]
  show ?case
  proof (cases r1)
    case (Inl e)
    then show ?thesis using Suc.prems s one by auto
  next
    case (Inr pwd)
    obtain r2 st2 where l: "on_host (rs_Login env (ssh_address t) (tg_Username t) (PasswordAuth pwd)) st1 = (r2, st2)" by fastforce
    note two = same_account_trans [OF one login_account [OF c l]]
    then show ?thesis using Suc.prems Suc.IH [of st2] s Inr l same_account_trans [OF two] by (auto split: sum.splits)
  qed
qed simp

lemma connecting_account:
  assumes c: "counts_questions env q"
  shows "same_account q st (snd (connectSSHPassword env t st))"
proof -
  have kept: "same_account q st (snd (connected m t r)) = same_account q st (snd r)" for m r
    by (cases r; cases "fst r") (auto simp: connected_def registerNewSSHClient_def same_account_def split: prod.splits)
  obtain e st1 where h: "host_shown env (ssh_address t) st = (e, st1)" by fastforce
  note shown = shown_account [OF c h]
  obtain r st2 where l: "login_retrying env t maxPasswordTries st1 = (r, st2)" by fastforce
  obtain r' st3 where d: "on_host (rs_Login env (ssh_address t) (tg_Username t) (PasswordAuth (tg_Password t))) st1 = (r', st3)" by fastforce
  note same_account_trans [OF shown retrying_account [OF c l]] same_account_trans [OF shown login_account [OF c d]]
  then show ?thesis using shown h l d
    by (auto simp: connectSSHPassword_def ssh_Dial_def kept split: option.splits)
qed

lemma all_connecting_account:
  "counts_questions env q \<Longrightarrow> same_account q st (fold (\<lambda>t st. snd (connectSSHPassword env t st)) ts st)"
  by (induction ts arbitrary: st) (auto intro: same_account_trans connecting_account)

text \<open>
  C26. A password is asked for three times at most in the life of a process: however many hosts
  are connected to, in any order and with any outcome, the questions at the terminal and the
  ones that were asked before are three at most together; at three every further request fails
  without a question.
\<close>

theorem password_questions_are_bounded:
  assumes "counts_questions env q" "ss_tries st \<le> maxPasswordTries"
  shows "q (ss_world (fold (\<lambda>t st. snd (connectSSHPassword env t st)) ts st)) + ss_tries st \<le> q (ss_world st) + maxPasswordTries \<and>
    (if ss_tries st = maxPasswordTries
     then retryableGetSecret env st = (Fail ''Maximum amount of authentication tries exceeded for SSH connection'', st) else True)"
  using all_connecting_account [OF assms(1), of st ts] assms(2) by (auto simp: same_account_def retryableGetSecret_def)

text \<open>
  A connection is made once: after a connection with a key succeeded, the next one to the
  same target is the same connection, without a handshake, a login or any other effect.
\<close>

theorem connection_is_reused:
  assumes "connectSSHKey env t st = (Ok c, st')"
  shows "connectSSHKey env t st' = (Ok c, st')"
  using assms
  by (auto simp: connectSSHKey_def connected_def registerNewSSHClient_def split: option.splits prod.splits sum.splits)

section \<open>Witnesses\<close>

definition sample_shell_env :: "(string list, nat) sh_env" where
  "sample_shell_env =
     \<lparr>rs_local = \<lparr>env_bash = (\<lambda>c w. (([], [], None), w @ [c])), env_CreateTempFile = (\<lambda>_ w. (Fail [], w)), env_RemoveTempFile = (\<lambda>_ w. (None, w)),
        env_WriteFile = (\<lambda>_ _ w. (None, w)), env_HomeDir = ''/home/u'', env_parseRepo = (\<lambda>_. Fail [])\<rparr>,
      rs_Hostname = Ok ''here'', rs_Exists = (\<lambda>_ _. True), rs_ReadFile = (\<lambda>_ _. Ok ''key''), rs_Create = (\<lambda>_ w. (None, w)), rs_Write = (\<lambda>_ _ w. w),
      rs_ParseKey = Signer, rs_AgentSocket = None, rs_DialAgent = (\<lambda>_ w. (None, w)), rs_IsTerminal = False,
      rs_ReadPassphrase = (\<lambda>w. (Fail [], w)), rs_ParseWithPassphrase = (\<lambda>_ _. Fail []),
      rs_Handshake = (\<lambda>a w. (Ok (a, ''KEY''), w @ [''hello''])), rs_Login = (\<lambda>_ _ _ w. (Ok 7, w @ [''login''])),
      rs_NewSession = (\<lambda>_ w. (None, w)), rs_Run = (\<lambda>_ c _ w. (([], [], None), w @ [c])),
      rs_Getter = (\<lambda>_ w. (Ok ''pwd'', w @ [''?''])), rs_Validation = (\<lambda>_ w. (True, w)), rs_ParseAuthorizedKey = (\<lambda>_. Ok ''OLD''),
      rs_Normalize = id, rs_KnownLine = (\<lambda>hs k. Join hs '','' @ '' '' @ k), rs_OpenRead = None, rs_OpenAppend = None, rs_WriteError = None\<rparr>"

definition sample_shell_state :: "(string list, nat) sh_state" where
  "sample_shell_state = \<lparr>ss_clients = Map.empty, ss_secret = [], ss_validated = False, ss_tries = 0, ss_checked = False,
     ss_known = Some (''box:22 ssh-rsa OLD'' @ [NL]), ss_world = []\<rparr>"

definition sample_shell_target :: sh_target where
  "sample_shell_target = \<lparr>tg_FQDN = ''box'', tg_HasPassword = False, tg_Password = [], tg_PathToPrv = ''/k'', tg_PathToPub = ''/k.pub'',
     tg_Port = 0, tg_Username = ''u''\<rparr>"

theorem new_host_is_recorded_witness:
  "ss_known (snd (provideHostKeyCallback sample_shell_env ''box:22'' ''10.0.0.1:22'' ''KEY'' sample_shell_state)) =
     Some (''box:22 ssh-rsa OLD'' @ [NL] @ ''box:22,10.0.0.1:22 KEY  generated by CDS'' @ [NL])"
proof -
  have "\<not> ss_checked sample_shell_state" "ss_known sample_shell_state = Some (''box:22 ssh-rsa OLD'' @ [NL])"
    "getHostKey sample_shell_env ''box:22'' sample_shell_state \<noteq> Ok ''KEY''"
    "\<not> list_ex (\<lambda>l. Contains l (rs_KnownLine sample_shell_env [''box:22'', rs_Normalize sample_shell_env ''10.0.0.1:22''] ''KEY''))
        (scan_lines (''box:22 ssh-rsa OLD'' @ [NL]))"
    by code_simp+
  from new_host_is_recorded [OF this(1,2,3) _ _ _ this(4)] show ?thesis by (simp add: sample_shell_env_def)
qed

definition refusing_env :: "(string list, nat) sh_env" where
  "refusing_env = sample_shell_env\<lparr>rs_Login := (\<lambda>_ _ _ w. (Fail ''refused'', w))\<rparr>"

definition questions :: "string list \<Rightarrow> nat" where "questions w = length (filter (\<lambda>l. l = ''?'') w)"

theorem password_questions_are_bounded_witness:
  "questions (ss_world (fold (\<lambda>t st. snd (connectSSHPassword refusing_env t st)) [sample_shell_target, sample_shell_target] sample_shell_state)) \<le> 3 \<and>
   questions (ss_world (snd (connectSSHPassword refusing_env sample_shell_target sample_shell_state))) = 3"
proof -
  have "counts_questions refusing_env questions"
    by (simp add: counts_questions_def refusing_env_def sample_shell_env_def questions_def)
  from password_questions_are_bounded [OF this, of sample_shell_state "[sample_shell_target, sample_shell_target]"]
  have "questions (ss_world (fold (\<lambda>t st. snd (connectSSHPassword refusing_env t st)) [sample_shell_target, sample_shell_target] sample_shell_state)) \<le> 3"
    by (simp add: sample_shell_state_def maxPasswordTries_def questions_def)
  moreover have "questions (ss_world (snd (connectSSHPassword refusing_env sample_shell_target sample_shell_state))) = 3" by code_simp
  ultimately show ?thesis by blast
qed

theorem connection_is_reused_witness:
  "\<exists>st'. connectSSHKey sample_shell_env sample_shell_target sample_shell_state = (Ok 7, st') \<and>
     connectSSHKey sample_shell_env sample_shell_target st' = (Ok 7, st')"
proof -
  have "fst (connectSSHKey sample_shell_env sample_shell_target sample_shell_state) = Ok 7"
    by (simp add: connectSSHKey_def connected_def registerNewSSHClient_def ssh_Dial_def host_shown_def on_host_def getAuthMethod_def
        provideHostKeyCallback_def Let_def sample_shell_env_def sample_shell_state_def split: option.splits)
  then obtain st' where c: "connectSSHKey sample_shell_env sample_shell_target sample_shell_state = (Ok 7, st')" by (metis prod.collapse)
  from connection_is_reused [OF c] c show ?thesis by blast
qed

end
