(* ===== verification/Services.thy ===== *)
theory Services
  imports ProjectAccess RemoteShell EnvFiles
begin

text \<open>
  The service of an agent under systemd (\<open>internal/systemd\<close>), over the operations of a host as the
  interface \<open>hostOps\<close>, and those operations for a host of \<open>internal/host\<close>: a command of the
  local system or one over ssh, a copy of a file. The serialiser of units is a library; the
  order in which a Go map is ranged over is a parameter, as are files and processes.
\<close>

section \<open>Units\<close>

record unit_option =
  uo_Section :: string
  uo_Name :: string
  uo_Value :: string

definition socketUnitName :: string where "socketUnitName = ''cds.socket''"
definition serviceUnitName :: string where "serviceUnitName = ''cds.service''"

record 'w host_ops =
  ho_Defined :: "'w \<Rightarrow> bool"
  ho_Build :: "'w \<Rightarrow> err option \<times> 'w"
  ho_Execute :: "string \<Rightarrow> string list \<Rightarrow> 'w \<Rightarrow> (string \<times> err option) \<times> 'w"
  ho_Copy :: "string \<Rightarrow> string \<Rightarrow> 'w \<Rightarrow> err option \<times> 'w"

record sysD =
  sd_port :: int
  sd_binary :: string

definition WithServicePort :: "int \<Rightarrow> sysD \<Rightarrow> sysD" where "WithServicePort p s = s\<lparr>sd_port := p\<rparr>"
definition WithServiceBinary :: "string \<Rightarrow> sysD \<Rightarrow> sysD" where "WithServiceBinary b s = s\<lparr>sd_binary := b\<rparr>"

definition sysD_New :: "(sysD \<Rightarrow> sysD) list \<Rightarrow> sysD" where
  "sysD_New ops = fold (\<lambda>f s. f s) ops \<lparr>sd_port = 0, sd_binary = []\<rparr>"

record 'w sysd_env =
  sv_Home :: string
  sv_Serialize :: "unit_option list \<Rightarrow> string option"
  sv_Order :: "(string \<times> string) list \<Rightarrow> (string \<times> string) list"
  sv_MkdirTemp :: "'w \<Rightarrow> string result \<times> 'w"
  sv_WriteFile :: "string \<Rightarrow> string \<Rightarrow> 'w \<Rightarrow> err option \<times> 'w"
  sv_RemoveAll :: "string \<Rightarrow> 'w \<Rightarrow> 'w"

definition userUnitDir :: "'w sysd_env \<Rightarrow> string" where "userUnitDir env = path_Join [sv_Home env, ''.config/systemd/user'']"

definition unitPath :: "'w sysd_env \<Rightarrow> string \<Rightarrow> string" where "unitPath env n = path_Join [userUnitDir env, n]"

definition socketUnitOptions :: "int \<Rightarrow> unit_option list" where
  "socketUnitOptions port =
     [\<lparr>uo_Section = ''Unit'', uo_Name = ''Description'', uo_Value = ''cds gRPC Socket (User)''\<rparr>,
      \<lparr>uo_Section = ''Unit'', uo_Name = ''PartOf'', uo_Value = serviceUnitName\<rparr>,
      \<lparr>uo_Section = ''Socket'', uo_Name = ''ListenStream'', uo_Value = Itoa port\<rparr>,
      \<lparr>uo_Section = ''Socket'', uo_Name = ''Accept'', uo_Value = ''No''\<rparr>,
      \<lparr>uo_Section = ''Socket'', uo_Name = ''FileDescriptorName'', uo_Value = ''cds''\<rparr>,
      \<lparr>uo_Section = ''Install'', uo_Name = ''WantedBy'', uo_Value = ''sockets.target''\<rparr>]"

definition serviceUnitOptions :: "string \<Rightarrow> unit_option list" where
  "serviceUnitOptions bin =
     [\<lparr>uo_Section = ''Unit'', uo_Name = ''Description'', uo_Value = ''cds gRPC Service (User)''\<rparr>,
      \<lparr>uo_Section = ''Unit'', uo_Name = ''After'', uo_Value = ''network.target''\<rparr>,
      \<lparr>uo_Section = ''Unit'', uo_Name = ''Requires'', uo_Value = socketUnitName\<rparr>,
      \<lparr>uo_Section = ''Service'', uo_Name = ''Type'', uo_Value = ''simple''\<rparr>,
      \<lparr>uo_Section = ''Service'', uo_Name = ''ExecStart'', uo_Value = bin\<rparr>,
      \<lparr>uo_Section = ''Install'', uo_Name = ''WantedBy'', uo_Value = ''default.target''\<rparr>]"

text \<open>The files by name; nil when a unit cannot be serialised.\<close>

definition buildUnits :: "'w sysd_env \<Rightarrow> sysD \<Rightarrow> int \<Rightarrow> (string \<times> string) list" where
  "buildUnits env s port =
     (let bin = (if sd_binary s = [] then ''cdssrv'' else sd_binary s) in
      case (sv_Serialize env (socketUnitOptions port), sv_Serialize env (serviceUnitOptions bin)) of
        (Some a, Some b) \<Rightarrow> [(socketUnitName, a), (serviceUnitName, b)]
      | _ \<Rightarrow> [])"

definition createUnitFileOnTarget :: "'w sysd_env \<Rightarrow> 'w host_ops \<Rightarrow> string \<Rightarrow> string \<Rightarrow> 'w \<Rightarrow> err option \<times> 'w" where
  "createUnitFileOnTarget env h fileName content w =
     (case sv_MkdirTemp env w of
        (Inl e, w1) \<Rightarrow> (Some (AppendError ''failed to create temp dir for unit files'' e), w1)
      | (Inr tmpDir, w1) \<Rightarrow>
          (let tmpFile = path_Join [tmpDir, fileName];
               (e, w2) = (case sv_WriteFile env tmpFile content w1 of
                   (Some e, w2) \<Rightarrow> (Some (AppendError ''failed to write temp unit file'' e), w2)
                 | (None, w2) \<Rightarrow> ho_Copy h tmpFile (userUnitDir env) w2)
           in (e, sv_RemoveAll env tmpDir w2)))"

fun create_each :: "'w sysd_env \<Rightarrow> 'w host_ops \<Rightarrow> (string \<times> string) list \<Rightarrow> 'w \<Rightarrow> err option \<times> 'w" where
  "create_each env h [] w = (None, w)"
| "create_each env h ((n, b) # us) w =
     (case createUnitFileOnTarget env h n b w of
        (Some e, w1) \<Rightarrow> (Some (AppendError (''failed to build unit file '' @ n) e), w1)
      | (None, w1) \<Rightarrow> create_each env h us w1)"

definition createUnit :: "'w sysd_env \<Rightarrow> 'w host_ops \<Rightarrow> sysD \<Rightarrow> 'w \<Rightarrow> err option \<times> 'w" where
  "createUnit env h s w =
     create_each env h (sv_Order env (buildUnits env s (if sd_port s = 0 then 8087 else sd_port s))) w"

section \<open>The service\<close>

definition systemctl :: "'w host_ops \<Rightarrow> string list \<Rightarrow> 'w \<Rightarrow> (string \<times> err option) \<times> 'w" where
  "systemctl h args w = ho_Execute h ''systemctl'' (''--user'' # args) w"

definition sysD_In :: "'w host_ops \<Rightarrow> 'w \<Rightarrow> bool \<times> 'w" where
  "sysD_In h w = (case systemctl h [''--no-pager''] w of ((_, e), w1) \<Rightarrow> (e = None, w1))"

definition IsServiceUp :: "'w host_ops \<Rightarrow> 'w \<Rightarrow> bool \<times> 'w" where
  "IsServiceUp h w =
     (case systemctl h [''is-active'', serviceUnitName] w of ((out, e), w1) \<Rightarrow> (e = None \<and> TrimSpace out = ''active'', w1))"

text \<open>A host that is not defined is built when a file is missing; its error is logged.\<close>

definition build_undefined :: "'w host_ops \<Rightarrow> 'w \<Rightarrow> 'w" where
  "build_undefined h w = (if ho_Defined h w then w else snd (ho_Build h w))"

definition isUnitReady :: "'w sysd_env \<Rightarrow> 'w host_ops \<Rightarrow> 'w \<Rightarrow> bool \<times> 'w" where
  "isUnitReady env h w =
     (case ho_Execute h ''test'' [''-f'', unitPath env socketUnitName] w of
        ((_, Some _), w1) \<Rightarrow> (False, build_undefined h w1)
      | ((_, None), w1) \<Rightarrow>
     (case ho_Execute h ''test'' [''-f'', unitPath env serviceUnitName] w1 of
        ((_, Some _), w2) \<Rightarrow> (False, build_undefined h w2)
      | ((_, None), w2) \<Rightarrow>
     (case systemctl h [''is-enabled'', socketUnitName] w2 of
        ((_, Some _), w3) \<Rightarrow> (False, w3)
      | ((socketOut, None), w3) \<Rightarrow>
     (case systemctl h [''is-enabled'', serviceUnitName] w3 of
        ((_, Some _), w4) \<Rightarrow> (False, w4)
      | ((serviceOut, None), w4) \<Rightarrow> (Contains socketOut ''enabled'' \<and> Contains serviceOut ''enabled'', w4)))))"

definition startUnit :: "'w host_ops \<Rightarrow> 'w \<Rightarrow> err option \<times> 'w" where
  "startUnit h w =
     (case systemctl h [''daemon-reload''] w of
        ((_, Some e), w1) \<Rightarrow> (Some (AppendError ''failed to reload systemd daemon'' e), w1)
      | ((_, None), w1) \<Rightarrow>
          (case systemctl h [''enable'', ''now'', socketUnitName, serviceUnitName] w1 of
             ((_, Some e), w2) \<Rightarrow> (Some (AppendError ''failed to enable systemd units'' e), w2)
           | ((_, None), w2) \<Rightarrow> (None, w2)))"

definition StartService :: "'w sysd_env \<Rightarrow> 'w host_ops \<Rightarrow> sysD \<Rightarrow> 'w \<Rightarrow> err option \<times> 'w" where
  "StartService env h s w =
     (case isUnitReady env h w of
        (True, w1) \<Rightarrow> startUnit h w1
      | (False, w1) \<Rightarrow>
          (case createUnit env h s w1 of
             (Some e, w2) \<Rightarrow> (Some e, w2)
           | (None, w2) \<Rightarrow> startUnit h w2))"

definition StopService :: "'w host_ops \<Rightarrow> 'w \<Rightarrow> err option \<times> 'w" where
  "StopService h w =
     (case systemctl h [''stop'', socketUnitName, serviceUnitName] w of
        ((_, Some e), w1) \<Rightarrow> (Some (AppendError ''failed to stop systemd units'' e), w1)
      | ((_, None), w1) \<Rightarrow> (None, w1))"

section \<open>Operations of a host\<close>

text \<open>\<open>ExecuteCmd\<close> runs a program with its arguments, without a shell, and gives both outputs.\<close>

record ('w, 'c) target_env =
  he_shell :: "('w, 'c) sh_env"
  he_CombinedOutput :: "string \<Rightarrow> string list \<Rightarrow> string \<Rightarrow> 'w \<Rightarrow> (string \<times> err option) \<times> 'w"
  he_MkdirAll :: "string \<Rightarrow> 'w \<Rightarrow> err option \<times> 'w"
  he_WriteFile :: "string \<Rightarrow> string \<Rightarrow> 'w \<Rightarrow> err option \<times> 'w"

definition ExecuteCmd :: "('w, 'c) target_env \<Rightarrow> string \<Rightarrow> string list \<Rightarrow> string \<Rightarrow> 'w \<Rightarrow> (string \<times> err option) \<times> 'w" where
  "ExecuteCmd env name args workDir w = he_CombinedOutput env name args workDir w"

text \<open>The command line over ssh: name and arguments with spaces between them, as one shell command.\<close>

definition host_Execute :: "('w, 'c) target_env \<Rightarrow> sh_target \<Rightarrow> string \<Rightarrow> string list \<Rightarrow> ('w, 'c) sh_state \<Rightarrow> (string \<times> err option) \<times> ('w, 'c) sh_state" where
  "host_Execute env t name args st =
     (if rs_IsLocalHost (he_shell env) (tg_FQDN t) then on_host (ExecuteCmd env name args []) st
      else RunCmd (he_shell env) t [DefaultShEvent (name @ '' '' @ Join args '' '') []] st)"

definition host_Copy :: "('w, 'c) target_env \<Rightarrow> sh_target \<Rightarrow> string \<Rightarrow> string \<Rightarrow> ('w, 'c) sh_state \<Rightarrow> err option \<times> ('w, 'c) sh_state" where
  "host_Copy env t localPath remotePath st =
     (if rs_IsLocalHost (he_shell env) (tg_FQDN t) then
        (case rs_ReadFile (he_shell env) localPath (ss_world st) of
           Inl e \<Rightarrow> (Some (AppendError ''failed to read local file for copy'' e), st)
         | Inr content \<Rightarrow>
             (let dstPath = path_Join [remotePath, file_part localPath] in
              case on_host (he_MkdirAll env (path_Dir dstPath)) st of
                (Some e, st1) \<Rightarrow> (Some (AppendError ''failed to create target directory'' e), st1)
              | (None, st1) \<Rightarrow> on_host (he_WriteFile env dstPath content) st1))
      else rs_CopyFile (he_shell env) (UsingKey (he_shell env) t) localPath remotePath st)"

end
