(* ===== verification/ServicesProps.thy ===== *)
theory ServicesProps
  imports Services
begin

text \<open>
  The service of an agent: which commands a start runs on the host and in which order, and what a
  host of \<open>internal/host\<close> makes of them.
\<close>

section \<open>A host that keeps its commands\<close>

definition logged_host :: "(string list \<Rightarrow> string \<times> err option) \<Rightarrow> (string list) list host_ops" where
  "logged_host answer =
     \<lparr>ho_Defined = (\<lambda>_. True), ho_Build = (\<lambda>w. (None, w)), ho_Execute = (\<lambda>n args w. (answer (n # args), w @ [n # args])),
      ho_Copy = (\<lambda>a b w. (snd (answer [''copy'', a, b]), w @ [[''copy'', a, b]]))\<rparr>"

text \<open>Files of the client do not show in the log of the host.\<close>

definition local_files :: "'w sysd_env \<Rightarrow> bool" where
  "local_files env \<longleftrightarrow> (\<forall>w. snd (sv_MkdirTemp env w) = w) \<and> (\<forall>p b w. snd (sv_WriteFile env p b w) = w) \<and> (\<forall>p w. sv_RemoveAll env p w = w)"

definition unit_copy :: "'w sysd_env \<Rightarrow> string list \<Rightarrow> string \<times> string \<Rightarrow> bool" where
  "unit_copy env c u \<longleftrightarrow> (\<exists>d. c = [''copy'', path_Join [d, fst u], userUnitDir env])"

definition is_query :: "string list \<Rightarrow> bool" where
  "is_query c \<longleftrightarrow> hd c = ''test'' \<or> (\<exists>u. c = [''systemctl'', ''--user'', ''is-enabled'', u])"

lemma create_one:
  assumes "local_files env" "createUnitFileOnTarget env (logged_host answer) n b w = (None, w')"
  shows "\<exists>c. w' = w @ [c] \<and> unit_copy env c (n, b)"
  using assms by (auto simp: createUnitFileOnTarget_def logged_host_def local_files_def unit_copy_def Let_def split: prod.splits sum.splits option.splits)
    (metis snd_conv)+

lemma create_all:
  assumes "local_files env"
  shows "create_each env (logged_host answer) us w = (None, w') \<Longrightarrow> \<exists>cs. w' = w @ cs \<and> list_all2 (unit_copy env) cs us"
proof (induction us arbitrary: w)
  case (Cons u us)
  obtain n b where u: "u = (n, b)" by fastforce
  obtain w1 where 1: "createUnitFileOnTarget env (logged_host answer) n b w = (None, w1)"
    and 2: "create_each env (logged_host answer) us w1 = (None, w')"
    using Cons.prems u by (auto split: prod.splits option.splits)
  obtain c where "w1 = w @ [c]" "unit_copy env c (n, b)" using create_one [OF assms 1] by blast
  moreover obtain cs where "w' = w1 @ cs" "list_all2 (unit_copy env) cs us" using Cons.IH [OF 2] by blast
  ultimately show ?case using u by (intro exI [of _ "c # cs"]) simp
qed simp

lemma ready_queries:
  "isUnitReady env (logged_host answer) w = (r, w') \<Longrightarrow> \<exists>qs. w' = w @ qs \<and> list_all is_query qs"
  by (auto simp: isUnitReady_def logged_host_def systemctl_def build_undefined_def is_query_def split: prod.splits option.splits)

lemma started_with:
  "startUnit (logged_host answer) w = (None, w') \<Longrightarrow>
   w' = w @ [[''systemctl'', ''--user'', ''daemon-reload''], [''systemctl'', ''--user'', ''enable'', ''now'', socketUnitName, serviceUnitName]]"
  by (auto simp: startUnit_def logged_host_def systemctl_def split: prod.splits option.splits)

text \<open>
  Starting the service, when it succeeds, ran only queries first; then, unless both units were
  there and enabled, one copy of each unit file to the directory of the user's units; then a
  reload and the enabling of both units, last. The directory is the one of the client's home,
  and the word \<open>now\<close> is a unit to enable, not the option that starts them.
\<close>

theorem service_units_before_start:
  assumes "local_files env" "StartService env (logged_host answer) s log = (None, log')"
  shows "\<exists>queries copies.
    log' = log @ queries @ copies @
      [[''systemctl'', ''--user'', ''daemon-reload''], [''systemctl'', ''--user'', ''enable'', ''now'', socketUnitName, serviceUnitName]] \<and>
    list_all is_query queries \<and>
    (if fst (isUnitReady env (logged_host answer) log) then copies = []
     else list_all2 (unit_copy env) copies (sv_Order env (buildUnits env s (if sd_port s = 0 then 8087 else sd_port s))))"
proof -
  obtain r w1 where r: "isUnitReady env (logged_host answer) log = (r, w1)" by fastforce
  obtain qs where q: "w1 = log @ qs" "list_all is_query qs" using ready_queries [OF r] by blast
  show ?thesis
  proof (cases r)
    case True
    then have "startUnit (logged_host answer) w1 = (None, log')" using assms(2) r by (simp add: StartService_def)
    from started_with [OF this] show ?thesis using q r True by (intro exI [of _ qs] exI [of _ "[]"]) simp
  next
    case False
    then obtain w2 where c: "createUnit env (logged_host answer) s w1 = (None, w2)" and st: "startUnit (logged_host answer) w2 = (None, log')"
      using assms(2) r by (auto simp: StartService_def split: prod.splits option.splits)
    obtain cs where "w2 = w1 @ cs" "list_all2 (unit_copy env) cs (sv_Order env (buildUnits env s (if sd_port s = 0 then 8087 else sd_port s)))"
      using create_all [OF assms(1) c [unfolded createUnit_def]] by blast
    then show ?thesis using started_with [OF st] q r False by (intro exI [of _ qs] exI [of _ cs]) simp
  qed
qed

definition sample_sysd :: "(string list) list sysd_env" where
  "sample_sysd = \<lparr>sv_Home = ''/home/u'', sv_Serialize = (\<lambda>os. Some (concat (map uo_Value os))), sv_Order = rev, sv_MkdirTemp = (\<lambda>w. (Ok ''/tmp/x'', w)),
     sv_WriteFile = (\<lambda>_ _ w. (None, w)), sv_RemoveAll = (\<lambda>_ w. w)\<rparr>"

definition sample_answer :: "string list \<Rightarrow> string \<times> err option" where
  "sample_answer c = (if hd c = ''test'' then ([], Some (NewError ''1'')) else ([], None))"

theorem service_units_before_start_witness:
  "\<exists>log'. StartService sample_sysd (logged_host sample_answer) (sysD_New []) [] = (None, log') \<and>
     last log' = [''systemctl'', ''--user'', ''enable'', ''now'', ''cds.socket'', ''cds.service'']"
proof -
  obtain log' where run: "StartService sample_sysd (logged_host sample_answer) (sysD_New []) [] = (None, log')"
    by (simp add: StartService_def isUnitReady_def createUnit_def createUnitFileOnTarget_def startUnit_def systemctl_def build_undefined_def
        logged_host_def sample_answer_def sample_sysd_def buildUnits_def Let_def)
  have "local_files sample_sysd" by (simp add: local_files_def sample_sysd_def)
  from service_units_before_start [OF this run] show ?thesis using run
    by (auto simp: socketUnitName_def serviceUnitName_def)
qed

end
