(* ===== verification/Logging.thy ===== *)
theory Logging
  imports Format GoPath
begin

text \<open>
  The log (\<open>internal/clog\<close>, \<open>internal/cerr/format.go\<close>): the handler that writes coloured lines, its
  attributes and groups, handlers that filter by level or spread records, and the attributes an
  error becomes. A handler of the command line is a reference: \<open>WithGroup\<close> and \<open>WithAttrs\<close>
  copy a struct that holds a pointer, so that copy and original share their fields, and the
  fields are in a store. Values that log themselves (\<open>LogValuer\<close>) are taken as resolved; the
  source position of an error, the format of times and the handlers of \<open>slog\<close> are parameters.
\<close>

section \<open>Attributes\<close>

text \<open>\<open>VText\<close>: every kind that is printed as its text only (numbers, booleans, durations, other values).\<close>

datatype slog_value =
    VString string | VTime int | VText string | VNil | VError err | VGroup "(string \<times> slog_value) list"

type_synonym slog_attr = "string \<times> slog_value"

record log_lib =
  ll_FormatTime :: "string \<Rightarrow> int \<Rightarrow> string"
  ll_From :: "err \<Rightarrow> string"
  ll_Quote :: "string \<Rightarrow> string"

record CustomHandlerOption =
  lo_Level :: int
  lo_TimeFormat :: string
  lo_AddSource :: bool
  lo_ReplaceAttr :: "(string list \<Rightarrow> slog_attr \<Rightarrow> slog_attr) option"
  lo_NoColor :: bool

definition LevelDebug :: int where "LevelDebug = -4"
definition LevelInfo :: int where "LevelInfo = 0"
definition LevelWarn :: int where "LevelWarn = 4"
definition LevelError :: int where "LevelError = 8"

definition WithLevel :: "int \<Rightarrow> CustomHandlerOption \<Rightarrow> CustomHandlerOption" where
  "WithLevel l o1 = o1\<lparr>lo_Level := l\<rparr>"

definition WithTimeFormat :: "string \<Rightarrow> CustomHandlerOption \<Rightarrow> CustomHandlerOption" where
  "WithTimeFormat f o1 = o1\<lparr>lo_TimeFormat := f\<rparr>"

definition WithAddSource :: "bool \<Rightarrow> CustomHandlerOption \<Rightarrow> CustomHandlerOption" where
  "WithAddSource b o1 = o1\<lparr>lo_AddSource := b\<rparr>"

definition WithReplaceAttr :: "(string list \<Rightarrow> slog_attr \<Rightarrow> slog_attr) \<Rightarrow> CustomHandlerOption \<Rightarrow> CustomHandlerOption" where
  "WithReplaceAttr f o1 = o1\<lparr>lo_ReplaceAttr := Some f\<rparr>"

definition WithNoColor :: "bool \<Rightarrow> CustomHandlerOption \<Rightarrow> CustomHandlerOption" where
  "WithNoColor b o1 = o1\<lparr>lo_NoColor := b\<rparr>"

section \<open>Errors as attributes\<close>

definition err_String :: "log_lib \<Rightarrow> err \<Rightarrow> string" where
  "err_String lib e = err_message e @ '' at '' @ ll_From lib e"

fun traceLines :: "log_lib \<Rightarrow> err \<Rightarrow> string list" where
  "traceLines lib (Err m None) = [err_String lib (Err m None)]"
| "traceLines lib (Err m (Some c)) = err_String lib (Err m (Some c)) # traceLines lib c"

fun err_root :: "err \<Rightarrow> err" where
  "err_root (Err m None) = Err m None"
| "err_root (Err m (Some c)) = err_root c"

text \<open>The texts of an error: its own message, with its position, or with all its causes.\<close>

datatype ErrorDetail = TopLevelOnly | MessageOnly | FullChain

definition at_position :: "log_lib \<Rightarrow> err \<Rightarrow> string" where
  "at_position lib e = err_message e @ '', at ['' @ ll_From lib e @ ''].''"

fun bubbleUp :: "log_lib \<Rightarrow> err \<Rightarrow> string" where
  "bubbleUp lib (Err m None) = at_position lib (Err m None)"
| "bubbleUp lib (Err m (Some c)) = at_position lib (Err m (Some c)) @ '' From: '' @ bubbleUp lib c"

definition format_err :: "log_lib \<Rightarrow> err \<Rightarrow> ErrorDetail \<Rightarrow> string" where
  "format_err lib e detail =
     (case detail of TopLevelOnly \<Rightarrow> at_position lib e | MessageOnly \<Rightarrow> err_message e | FullChain \<Rightarrow> bubbleUp lib e)"

definition DefaultErrorDetail :: ErrorDetail where "DefaultErrorDetail = FullChain"

definition Error_text :: "log_lib \<Rightarrow> err \<Rightarrow> string" where "Error_text lib e = format_err lib e DefaultErrorDetail"

definition Message :: "log_lib \<Rightarrow> err \<Rightarrow> string" where "Message lib e = format_err lib e MessageOnly"

definition fmtErr :: "log_lib \<Rightarrow> err \<Rightarrow> slog_value" where
  "fmtErr lib e =
     VGroup [(''Root cause'', VString (err_String lib (err_root e))),
       (''Trace'', VGroup (map (\<lambda>(i, line). (CHR ''D'' # nat_text 10 i, VString line)) (enumerate 0 (traceLines lib e))))]"

definition ReplaceAttrErr :: "log_lib \<Rightarrow> string list \<Rightarrow> slog_attr \<Rightarrow> slog_attr" where
  "ReplaceAttrErr lib groups a = (case snd a of VError e \<Rightarrow> (fst a, fmtErr lib e) | _ \<Rightarrow> a)"

section \<open>Colours\<close>

definition ESC :: char where "ESC = CHR 0x1B"
definition ansiCodeReset :: string where "ansiCodeReset = ESC # ''[0m''"
definition ansiCodeFaint :: string where "ansiCodeFaint = ESC # ''[2m''"
definition ansiCodeFgBrightRed :: string where "ansiCodeFgBrightRed = ESC # ''[91m''"
definition ansiCodeFgBrightYellow :: string where "ansiCodeFgBrightYellow = ESC # ''[93m''"
definition ansiCodeFgBrightCyan :: string where "ansiCodeFgBrightCyan = ESC # ''[96m''"
definition ansiCodeBgBrightRed :: string where "ansiCodeBgBrightRed = ESC # ''[101m''"
definition ansiCodeBgBrightYellow :: string where "ansiCodeBgBrightYellow = ESC # ''[103m''"
definition ansiCodeBgBrightCyan :: string where "ansiCodeBgBrightCyan = ESC # ''[106m''"

lemmas ansi_codes = ansiCodeReset_def ansiCodeFaint_def ansiCodeFgBrightRed_def ansiCodeFgBrightYellow_def ansiCodeFgBrightCyan_def
  ansiCodeBgBrightRed_def ansiCodeBgBrightYellow_def ansiCodeBgBrightCyan_def

function stripAnsiCodes :: "string \<Rightarrow> string" where
  "stripAnsiCodes [] = []"
| "stripAnsiCodes (c # b) =
     (if c = ESC then stripAnsiCodes (drop 1 (dropWhile (\<lambda>x. x \<noteq> CHR ''m'') (c # b))) else c # stripAnsiCodes b)"
  by pat_completeness auto

termination
proof (relation "measure length", goal_cases)
  case (2 c b)
  have "length (dropWhile (\<lambda>x. x \<noteq> CHR ''m'') (c # b)) \<le> length (c # b)" by (rule length_dropWhile_le)
  then show ?case by (cases "dropWhile (\<lambda>x. x \<noteq> CHR ''m'') (c # b)") auto
qed auto

definition bufferSizeWithoutColors :: "string \<Rightarrow> nat" where "bufferSizeWithoutColors b = length (stripAnsiCodes b)"

definition coloured :: "CustomHandlerOption \<Rightarrow> string \<Rightarrow> string" where
  "coloured o1 code = (if lo_NoColor o1 then [] else code)"

section \<open>The parts of a line\<close>

definition spaces :: "nat \<Rightarrow> string" where "spaces n = replicate n (CHR '' '')"

definition kLevelWidth :: nat where "kLevelWidth = 9"
definition kMaxWidthLevelIdentifier :: nat where "kMaxWidthLevelIdentifier = 7"

definition centerText :: "string \<Rightarrow> nat \<Rightarrow> string" where
  "centerText text width =
     (if length text \<ge> width then take width text
      else let total = width - length text; left = total div 2; right = total - left
           in spaces left @ text @ spaces right)"

text \<open>\<open>slog.Level.String\<close>: the name of the level below, with the distance to it when there is one.\<close>

definition level_offset :: "string \<Rightarrow> int \<Rightarrow> string" where
  "level_offset base v = (if v = 0 then base else base @ (if v < 0 then Itoa v else CHR ''+'' # Itoa v))"

definition Level_String :: "int \<Rightarrow> string" where
  "Level_String l =
     (if l < LevelInfo then level_offset ''DEBUG'' (l - LevelDebug)
      else if l < LevelWarn then level_offset ''INFO'' (l - LevelInfo)
      else if l < LevelError then level_offset ''WARN'' (l - LevelWarn)
      else level_offset ''ERROR'' (l - LevelError))"

definition appendLevel :: "CustomHandlerOption \<Rightarrow> int \<Rightarrow> string" where
  "appendLevel o1 l =
     (let color = (if l = LevelError then ansiCodeBgBrightRed else if l = LevelWarn then ansiCodeBgBrightYellow
            else if l = LevelInfo then ansiCodeBgBrightCyan else []);
          s = centerText (take kMaxWidthLevelIdentifier (Level_String l)) kLevelWidth
      in coloured o1 color @ s @ coloured o1 ansiCodeReset)"

definition addFgColorForLevel :: "CustomHandlerOption \<Rightarrow> int \<Rightarrow> string" where
  "addFgColorForLevel o1 l =
     coloured o1 (if l = LevelError then ansiCodeFgBrightRed else if l = LevelWarn then ansiCodeFgBrightYellow
       else if l = LevelInfo then ansiCodeFgBrightCyan else [])"

definition appendTime :: "log_lib \<Rightarrow> CustomHandlerOption \<Rightarrow> int \<Rightarrow> string" where
  "appendTime lib o1 t = coloured o1 ansiCodeFaint @ ll_FormatTime lib (lo_TimeFormat o1) t @ coloured o1 ansiCodeReset"

text \<open>\<open>filepath.Split\<close>: the directory keeps its last slash.\<close>

definition split_file :: "string \<Rightarrow> string \<times> string" where
  "split_file p = (let f = rev (takeWhile (\<lambda>c. c \<noteq> CHR ''/'') (rev p)) in (take (length p - length f) p, f))"

definition appendSource :: "CustomHandlerOption \<Rightarrow> string \<Rightarrow> int \<Rightarrow> string" where
  "appendSource o1 file line =
     coloured o1 ansiCodeFaint @ ''('' @ (case split_file file of (dir, f) \<Rightarrow> path_Join [path_Base dir, f]) @ '':'' @ Itoa line @ '')'' @
     coloured o1 ansiCodeReset"

definition getGroupsFromKey :: "string \<Rightarrow> string list" where
  "getGroupsFromKey key = (let keys = split_on (CHR ''.'') key in if length keys < 2 then [] else butlast keys)"

definition value_text :: "log_lib \<Rightarrow> slog_value \<Rightarrow> string" where
  "value_text lib v = (case v of VText t \<Rightarrow> t | VError e \<Rightarrow> Error_text lib e | VNil \<Rightarrow> ''<nil>'' | _ \<Rightarrow> [])"

definition is_group :: "slog_value \<Rightarrow> bool" where
  "is_group v = (case v of VGroup _ \<Rightarrow> True | _ \<Rightarrow> False)"

definition replaced :: "CustomHandlerOption \<Rightarrow> slog_attr \<Rightarrow> slog_attr" where
  "replaced o1 a = (case lo_ReplaceAttr o1 of Some f \<Rightarrow> if is_group (snd a) then a else f (getGroupsFromKey (fst a)) a | None \<Rightarrow> a)"

text \<open>What one attribute prints, and the attributes of its group, with their indents, that are printed next.\<close>

definition attr_text :: "log_lib \<Rightarrow> CustomHandlerOption \<Rightarrow> slog_attr \<Rightarrow> nat \<Rightarrow> string \<times> (slog_attr \<times> nat) list" where
  "attr_text lib o1 a indent =
     (let key = fst a; pad = spaces indent in
      if a = ([], VNil) then ([], [])
      else case snd a of
        VString s \<Rightarrow> (pad @ (if key = ''msg'' then s @ [NL] else key @ '': '' @ ll_Quote lib s @ [NL]), [])
      | VTime t \<Rightarrow> (pad @ ll_FormatTime lib (lo_TimeFormat o1) t, [])
      | VGroup attrs \<Rightarrow>
          (if attrs = [] then (pad, [])
           else if key \<noteq> [] then (pad @ key @ '':'' @ [NL], map (\<lambda>g. (g, indent + 4)) attrs)
           else (pad, map (\<lambda>g. (g, indent)) attrs))
      | v \<Rightarrow> (pad @ key @ '': '' @ value_text lib v @ [NL], []))"

text \<open>
  \<open>appendAttr\<close>, as a loop over the attributes that are still to be printed with their indents:
  those of a group come before the rest. The replacement of a value may be a group, whose
  attributes are replaced again, so that it may not end.
\<close>

partial_function (option) append_attrs :: "log_lib \<Rightarrow> CustomHandlerOption \<Rightarrow> string \<Rightarrow> (slog_attr \<times> nat) list \<Rightarrow> string option" where
  "append_attrs lib o1 buf work =
     (if work = [] then Some buf
      else append_attrs lib o1 (buf @ fst (attr_text lib o1 (replaced o1 (fst (hd work))) (snd (hd work))))
        (snd (attr_text lib o1 (replaced o1 (fst (hd work))) (snd (hd work))) @ tl work))"

definition appendAttr :: "log_lib \<Rightarrow> CustomHandlerOption \<Rightarrow> slog_attr \<Rightarrow> nat \<Rightarrow> string \<Rightarrow> string option" where
  "appendAttr lib o1 a indent buf = append_attrs lib o1 buf [(a, indent)]"

section \<open>Records\<close>

text \<open>
  A record has no time when it is zero and no source when its program counter is zero or its
  file unknown; the text of the source is the one a \<open>slog.Source\<close> is printed with.
\<close>

record log_record =
  lr_Time :: "int option"
  lr_Source :: "(string \<times> int \<times> string) option"
  lr_Level :: int
  lr_Message :: string
  lr_Attrs :: "slog_attr list"

record groupOrAttrs =
  g_group :: string
  g_attrs :: "slog_attr list"

definition line_time :: "log_lib \<Rightarrow> CustomHandlerOption \<Rightarrow> log_record \<Rightarrow> string option" where
  "line_time lib o1 r =
     (case lr_Time r of
        None \<Rightarrow> Some []
      | Some t \<Rightarrow>
          map_option (\<lambda>s. s @ '' '')
            (case lo_ReplaceAttr o1 of
               None \<Rightarrow> Some (appendTime lib o1 t)
             | Some f \<Rightarrow>
                 (case f [] (''time'', VTime t) of
                    (key, v) \<Rightarrow>
                      if key = [] then Some []
                      else case v of VTime t' \<Rightarrow> Some (appendTime lib o1 t') | _ \<Rightarrow> appendAttr lib o1 (key, v) 0 [])))"

definition line_source :: "log_lib \<Rightarrow> CustomHandlerOption \<Rightarrow> log_record \<Rightarrow> string option" where
  "line_source lib o1 r =
     (case (if lo_AddSource o1 then lr_Source r else None) of
        None \<Rightarrow> Some []
      | Some (file, line, txt) \<Rightarrow>
          (case lo_ReplaceAttr o1 of
             None \<Rightarrow> Some (appendSource o1 file line @ '' '')
           | Some f \<Rightarrow>
               (let a = f [] (''source'', VText txt)
                in if fst a = [] then Some [] else map_option (\<lambda>s. s @ '' '') (appendAttr lib o1 a 0 []))))"

text \<open>Time, source and level: what comes before the message and gives the attributes their indent.\<close>

definition line_prefix :: "log_lib \<Rightarrow> CustomHandlerOption \<Rightarrow> log_record \<Rightarrow> string option" where
  "line_prefix lib o1 r =
     (case line_time lib o1 r of
        None \<Rightarrow> None
      | Some t \<Rightarrow> map_option (\<lambda>s. t @ s @ appendLevel o1 (lr_Level r) @ '' '') (line_source lib o1 r))"

definition line_message :: "log_lib \<Rightarrow> CustomHandlerOption \<Rightarrow> log_record \<Rightarrow> string \<Rightarrow> string option" where
  "line_message lib o1 r buf =
     (case lo_ReplaceAttr o1 of
        None \<Rightarrow> Some (buf @ lr_Message r @ '' '')
      | Some f \<Rightarrow>
          (let a = f [] (''msg'', VString (lr_Message r))
           in if fst a = [] then Some buf else appendAttr lib o1 a 0 buf))"

text \<open>The groups and attributes of the handler; the result has the number of groups that were opened.\<close>

fun line_goas :: "log_lib \<Rightarrow> CustomHandlerOption \<Rightarrow> nat \<Rightarrow> nat \<Rightarrow> groupOrAttrs list \<Rightarrow> string \<Rightarrow> (string \<times> nat) option" where
  "line_goas lib o1 align level [] buf = Some (buf, level)"
| "line_goas lib o1 align level (g # gs) buf =
     (let indent = align + level * 4 in
      if g_group g \<noteq> [] then line_goas lib o1 align (Suc level) gs (buf @ spaces indent @ g_group g @ '':'' @ [NL])
      else case append_attrs lib o1 buf (map (\<lambda>a. (a, indent)) (g_attrs g)) of
        None \<Rightarrow> None
      | Some buf1 \<Rightarrow> line_goas lib o1 align level gs buf1)"

definition used_goas :: "log_record \<Rightarrow> groupOrAttrs list \<Rightarrow> groupOrAttrs list" where
  "used_goas r goas = (if lr_Attrs r = [] then rev (dropWhile (\<lambda>g. g_group g \<noteq> []) (rev goas)) else goas)"

definition log_line :: "log_lib \<Rightarrow> CustomHandlerOption \<Rightarrow> groupOrAttrs list \<Rightarrow> log_record \<Rightarrow> string option" where
  "log_line lib o1 goas r =
     (case line_prefix lib o1 r of
        None \<Rightarrow> None
      | Some p \<Rightarrow>
     (case line_message lib o1 r (p @ addFgColorForLevel o1 (lr_Level r)) of
        None \<Rightarrow> None
      | Some b \<Rightarrow>
     (case line_goas lib o1 (bufferSizeWithoutColors p) 0 (used_goas r goas) b of
        None \<Rightarrow> None
      | Some (b1, level) \<Rightarrow>
          map_option (\<lambda>b2. b2 @ coloured o1 ansiCodeReset)
            (append_attrs lib o1 b1 (map (\<lambda>a. (a, bufferSizeWithoutColors p + level * 4)) (lr_Attrs r))))))"

section \<open>Handlers\<close>

text \<open>
  The fields behind the pointers, and what was written to each writer. A write that fails has
  its error for the record.
\<close>

record customHandler =
  ch_opts :: CustomHandlerOption
  ch_out :: nat
  ch_goas :: "groupOrAttrs list"

record log_state =
  ls_custom :: "nat \<Rightarrow> customHandler"
  ls_written :: "nat \<Rightarrow> string list"

datatype slog_handler = CliHandler nat | LevelHandler int slog_handler | FanoutHandler "slog_handler list"

definition NewCliHandler :: "nat \<Rightarrow> nat \<Rightarrow> (CustomHandlerOption \<Rightarrow> CustomHandlerOption) list \<Rightarrow> log_state \<Rightarrow> slog_handler \<times> log_state" where
  "NewCliHandler ref out options st =
     (CliHandler ref,
      st\<lparr>ls_custom := (ls_custom st)(ref :=
        \<lparr>ch_opts = fold (\<lambda>f o1. f o1) options
           \<lparr>lo_Level = LevelInfo, lo_TimeFormat = ''2006-01-02 15:04:05'', lo_AddSource = False, lo_ReplaceAttr = None, lo_NoColor = False\<rparr>,
         ch_out = out, ch_goas = []\<rparr>)\<rparr>)"

text \<open>A handler that filters by level never wraps another one of its kind.\<close>

definition NewLevelHandler :: "int \<Rightarrow> slog_handler \<Rightarrow> slog_handler" where
  "NewLevelHandler level h = LevelHandler level (case h of LevelHandler _ h1 \<Rightarrow> h1 | _ \<Rightarrow> h)"

fun Enabled :: "log_state \<Rightarrow> slog_handler \<Rightarrow> int \<Rightarrow> bool" where
  "Enabled st (CliHandler r) l = (l \<ge> lo_Level (ch_opts (ls_custom st r)))"
| "Enabled st (LevelHandler level h) l = (l \<ge> level)"
| "Enabled st (FanoutHandler hs) l = list_ex (\<lambda>h. Enabled st h l) hs"

definition withGroupOrAttrs :: "nat \<Rightarrow> groupOrAttrs \<Rightarrow> log_state \<Rightarrow> slog_handler \<times> log_state" where
  "withGroupOrAttrs r goa st =
     (CliHandler r, st\<lparr>ls_custom := (ls_custom st)(r := (ls_custom st r)\<lparr>ch_goas := ch_goas (ls_custom st r) @ [goa]\<rparr>)\<rparr>)"

fun WithGroup :: "string \<Rightarrow> slog_handler \<Rightarrow> log_state \<Rightarrow> slog_handler \<times> log_state"
  and groups_each :: "string \<Rightarrow> slog_handler list \<Rightarrow> log_state \<Rightarrow> slog_handler list \<times> log_state" where
  "WithGroup name (CliHandler r) st =
     (if name = [] then (CliHandler r, st) else withGroupOrAttrs r \<lparr>g_group = name, g_attrs = []\<rparr> st)"
| "WithGroup name (LevelHandler level h) st = map_prod (NewLevelHandler level) id (WithGroup name h st)"
| "WithGroup name (FanoutHandler hs) st =
     (if name = [] then (FanoutHandler hs, st) else map_prod FanoutHandler id (groups_each name hs st))"
| "groups_each name [] st = ([], st)"
| "groups_each name (h # hs) st =
     (case WithGroup name h st of (h1, st1) \<Rightarrow> map_prod ((#) h1) id (groups_each name hs st1))"

fun WithAttrs :: "slog_attr list \<Rightarrow> slog_handler \<Rightarrow> log_state \<Rightarrow> slog_handler \<times> log_state"
  and attrs_each :: "slog_attr list \<Rightarrow> slog_handler list \<Rightarrow> log_state \<Rightarrow> slog_handler list \<times> log_state" where
  "WithAttrs attrs (CliHandler r) st =
     (if attrs = [] then (CliHandler r, st) else withGroupOrAttrs r \<lparr>g_group = [], g_attrs = attrs\<rparr> st)"
| "WithAttrs attrs (LevelHandler level h) st = map_prod (NewLevelHandler level) id (WithAttrs attrs h st)"
| "WithAttrs attrs (FanoutHandler hs) st = map_prod FanoutHandler id (attrs_each attrs hs st)"
| "attrs_each attrs [] st = ([], st)"
| "attrs_each attrs (h # hs) st =
     (case WithAttrs attrs h st of (h1, st1) \<Rightarrow> map_prod ((#) h1) id (attrs_each attrs hs st1))"

text \<open>\<open>Handle\<close>: the errors of the writers, in order; no value when the replacement of attributes never ends.\<close>

definition cli_Handle :: "log_lib \<Rightarrow> (nat \<Rightarrow> err option) \<Rightarrow> nat \<Rightarrow> log_record \<Rightarrow> log_state \<Rightarrow> (err list \<times> log_state) option" where
  "cli_Handle lib write_error r rec st =
     (let c = ls_custom st r in
      map_option (\<lambda>line. case write_error (ch_out c) of
          Some e \<Rightarrow> ([e], st)
        | None \<Rightarrow> ([], st\<lparr>ls_written := (ls_written st)(ch_out c := ls_written st (ch_out c) @ [line])\<rparr>))
        (log_line lib (ch_opts c) (ch_goas c) rec))"

fun Handle :: "log_lib \<Rightarrow> (nat \<Rightarrow> err option) \<Rightarrow> slog_handler \<Rightarrow> log_record \<Rightarrow> log_state \<Rightarrow> (err list \<times> log_state) option"
  and handle_each :: "log_lib \<Rightarrow> (nat \<Rightarrow> err option) \<Rightarrow> slog_handler list \<Rightarrow> log_record \<Rightarrow> log_state \<Rightarrow> (err list \<times> log_state) option" where
  "Handle lib we (CliHandler r) rec st = cli_Handle lib we r rec st"
| "Handle lib we (LevelHandler level h) rec st = Handle lib we h rec st"
| "Handle lib we (FanoutHandler hs) rec st = handle_each lib we hs rec st"
| "handle_each lib we [] rec st = Some ([], st)"
| "handle_each lib we (h # hs) rec st =
     (if Enabled st h (lr_Level rec) then
        case Handle lib we h rec st of
          None \<Rightarrow> None
        | Some (es, st1) \<Rightarrow> map_option (map_prod ((@) es) id) (handle_each lib we hs rec st1)
      else handle_each lib we hs rec st)"

section \<open>Arguments of the log functions\<close>

text \<open>An argument: a value with the key it brings, an attribute of its own, or a value without a key.\<close>

datatype log_arg = Loggable string slog_value | AttrArg string slog_value | Plain slog_value

fun args_from :: "nat \<Rightarrow> log_arg list \<Rightarrow> slog_attr list" where
  "args_from i [] = []"
| "args_from i (x # xs) =
     (case x of
        AttrArg k v \<Rightarrow> (k, v)
      | Loggable k v \<Rightarrow> (if (case v of VError _ \<Rightarrow> True | _ \<Rightarrow> False) then ''Error'' else k, v)
      | Plain v \<Rightarrow> (if (case v of VError _ \<Rightarrow> True | _ \<Rightarrow> False) then ''Error'' else ''arg'' @ nat_text 10 i, v))
     # args_from (Suc i) xs"

definition prepareArgs :: "log_arg list \<Rightarrow> slog_attr list" where "prepareArgs args = args_from 0 args"

end
