(* ===== verification/LoggingProps.thy ===== *)
theory LoggingProps
  imports Logging
begin

text \<open>
  The log: colours do not change the layout of a line, printing ends for the replacement the
  client installs, a fan-out reaches exactly the handlers that are enabled, and what a derived
  handler does to its parent.
\<close>

section \<open>Colours\<close>

definition plain_text :: "string \<Rightarrow> bool" where "plain_text s \<longleftrightarrow> ESC \<notin> set s"

lemma plain_append [simp]: "plain_text (a @ b) \<longleftrightarrow> plain_text a \<and> plain_text b" by (auto simp: plain_text_def)

lemma strip_plain: "plain_text s \<Longrightarrow> stripAnsiCodes (s @ t) = s @ stripAnsiCodes t"
  by (induction s) (auto simp: plain_text_def)

lemma strip_all_plain: "plain_text s \<Longrightarrow> stripAnsiCodes s = s"
  using strip_plain [of s "[]"] by simp

lemma plain_strip: "plain_text (stripAnsiCodes s)"
  by (induction s rule: stripAnsiCodes.induct) (auto simp: plain_text_def)

lemma drop_code: "CHR ''m'' \<notin> set w \<Longrightarrow> dropWhile (\<lambda>x. x \<noteq> CHR ''m'') (w @ CHR ''m'' # t) = CHR ''m'' # t"
  by (induction w) auto

lemma strip_code: "CHR ''m'' \<notin> set w \<Longrightarrow> stripAnsiCodes (ESC # w @ CHR ''m'' # t) = stripAnsiCodes t"
  using drop_code [of "ESC # w" t] by (simp add: ESC_def)

lemma strip_codes [simp]:
  "stripAnsiCodes (ansiCodeReset @ t) = stripAnsiCodes t" "stripAnsiCodes (ansiCodeFaint @ t) = stripAnsiCodes t"
  "stripAnsiCodes (ansiCodeBgBrightRed @ t) = stripAnsiCodes t" "stripAnsiCodes (ansiCodeBgBrightYellow @ t) = stripAnsiCodes t"
  "stripAnsiCodes (ansiCodeBgBrightCyan @ t) = stripAnsiCodes t"
  using strip_code [of "''[0''" t] strip_code [of "''[2''" t] strip_code [of "''[101''" t] strip_code [of "''[103''" t]
    strip_code [of "''[106''" t]
  by (simp_all add: ansi_codes)

lemma strip_coloured [simp]:
  "stripAnsiCodes (coloured o1 ansiCodeReset @ t) = stripAnsiCodes t" "stripAnsiCodes (coloured o1 ansiCodeFaint @ t) = stripAnsiCodes t"
  by (simp_all add: coloured_def)

lemma plain_digit: "is_digit c \<or> c = CHR ''-'' \<Longrightarrow> c \<noteq> ESC"
  by (auto simp: is_digit_def ESC_def)

lemma plain_Itoa [simp]: "plain_text (Itoa i)"
  unfolding plain_text_def using Itoa_digits [of ESC i] plain_digit by blast

lemma plain_spaces [simp]: "plain_text (spaces n)" by (auto simp: plain_text_def spaces_def ESC_def)

lemma plain_take: "plain_text s \<Longrightarrow> plain_text (take n s)"
  by (auto simp: plain_text_def dest: in_set_takeD)

lemma plain_level: "plain_text (Level_String l)"
proof -
  have "plain_text (level_offset b v)" if "plain_text b" for b v
    using that plain_Itoa [of v] by (auto simp: level_offset_def plain_text_def ESC_def)
  moreover have "plain_text ''DEBUG''" "plain_text ''INFO''" "plain_text ''WARN''" "plain_text ''ERROR''" by code_simp+
  ultimately show ?thesis by (simp add: Level_String_def)
qed

lemma plain_center: "plain_text s \<Longrightarrow> plain_text (centerText s n)"
  by (simp add: centerText_def Let_def plain_take)

lemma strip_level [simp]:
  "stripAnsiCodes (appendLevel o1 l @ t) = appendLevel (o1\<lparr>lo_NoColor := True\<rparr>) l @ stripAnsiCodes t"
proof -
  have "plain_text (centerText (take kMaxWidthLevelIdentifier (Level_String l)) kLevelWidth)"
    by (rule plain_center [OF plain_take [OF plain_level]])
  from strip_plain [OF this] show ?thesis by (auto simp: appendLevel_def Let_def coloured_def)
qed

lemma strip_time [simp]:
  "plain_text (ll_FormatTime lib (lo_TimeFormat o1) t) \<Longrightarrow>
   stripAnsiCodes (appendTime lib o1 t @ u) = appendTime lib (o1\<lparr>lo_NoColor := True\<rparr>) t @ stripAnsiCodes u"
  by (simp add: appendTime_def coloured_def strip_plain)

lemma strip_source [simp]:
  assumes "plain_text (case split_file f of (dir, f) \<Rightarrow> path_Join [path_Base dir, f])"
  shows "stripAnsiCodes (appendSource o1 f n @ u) = appendSource (o1\<lparr>lo_NoColor := True\<rparr>) f n @ stripAnsiCodes u"
proof -
  have "plain_text (''('' @ (case split_file f of (dir, f) \<Rightarrow> path_Join [path_Base dir, f]) @ '':'' @ Itoa n @ '')'')"
    using assms plain_Itoa [of n] by (auto simp: plain_text_def ESC_def)
  from strip_plain [OF this] show ?thesis by (simp add: appendSource_def coloured_def)
qed

lemma not_escape [simp]: "CHR '' '' \<noteq> ESC" "ESC \<noteq> CHR '' ''" "ESC \<noteq> CHR ''m''" by (simp_all add: ESC_def)

lemma strip_space [simp]: "stripAnsiCodes (CHR '' '' # u) = CHR '' '' # stripAnsiCodes u" by (simp add: ESC_def)

text \<open>
  Colours do not change the layout: without a replacement of attributes, what comes before the
  message without its colour codes is what a handler without colours prints there, so that all
  attributes have the same indent with and without colours.
\<close>

theorem colours_keep_the_layout:
  assumes "lo_ReplaceAttr o1 = None" "line_prefix lib o1 r = Some p"
    and "\<And>t. plain_text (ll_FormatTime lib (lo_TimeFormat o1) t)"
    and "\<And>f n txt. lr_Source r = Some (f, n, txt) \<Longrightarrow> plain_text (case split_file f of (dir, f) \<Rightarrow> path_Join [path_Base dir, f])"
  shows "line_prefix lib (o1\<lparr>lo_NoColor := True\<rparr>) r = Some (stripAnsiCodes p) \<and> bufferSizeWithoutColors (stripAnsiCodes p) = bufferSizeWithoutColors p"
proof -
  have line: "line_prefix lib (o1\<lparr>lo_NoColor := True\<rparr>) r = Some (stripAnsiCodes p)"
  proof (cases "lr_Time r")
    case None
    then show ?thesis using assms
      by (auto simp: line_prefix_def line_time_def line_source_def bufferSizeWithoutColors_def split: if_splits option.splits prod.splits)
  next
    case (Some t)
    then show ?thesis using assms
      by (auto simp: line_prefix_def line_time_def line_source_def bufferSizeWithoutColors_def split: if_splits option.splits prod.splits)
  qed
  then show ?thesis by (simp add: bufferSizeWithoutColors_def strip_all_plain plain_strip)
qed

section \<open>Errors\<close>

text \<open>
  No cause is lost: the full text of an error has every message of its chain with its position, in
  order, and the attributes of the log have one line for each, the last of which is the root cause.
\<close>

fun err_chain :: "err \<Rightarrow> err list" where
  "err_chain (Err m None) = [Err m None]"
| "err_chain (Err m (Some c)) = Err m (Some c) # err_chain c"

theorem no_cause_is_lost:
  "Error_text lib e = Join (map (at_position lib) (err_chain e)) '' From: '' \<and>
   traceLines lib e = map (err_String lib) (err_chain e) \<and> err_root e = last (err_chain e)"
proof -
  have ne: "err_chain c \<noteq> []" for c by (cases c rule: err_chain.cases) auto
  have "bubbleUp lib e = Join (map (at_position lib) (err_chain e)) '' From: ''"
  proof (induction e rule: err_chain.induct)
    case (2 m c)
    then show ?case using ne [of c] by (cases "err_chain c") auto
  qed simp
  moreover have "traceLines lib e = map (err_String lib) (err_chain e)" by (induction e rule: err_chain.induct) auto
  moreover have "err_root e = last (err_chain e)" using ne by (induction e rule: err_chain.induct) auto
  ultimately show ?thesis by (simp add: Error_text_def format_err_def DefaultErrorDetail_def)
qed

section \<open>Printing ends\<close>

fun attr_weight :: "log_lib \<Rightarrow> slog_value \<Rightarrow> nat" where
  "attr_weight lib (VGroup attrs) = Suc (sum_list (map (\<lambda>a. attr_weight lib (snd a)) attrs))"
| "attr_weight lib (VError e) = 4 + length (traceLines lib e)"
| "attr_weight lib v = 1"

definition work_weight :: "log_lib \<Rightarrow> (slog_attr \<times> nat) list \<Rightarrow> nat" where
  "work_weight lib work = sum_list (map (\<lambda>x. attr_weight lib (snd (fst x))) work)"

lemma work_weight_simps [simp]:
  "work_weight lib [] = 0" "work_weight lib (x # w) = attr_weight lib (snd (fst x)) + work_weight lib w"
  "work_weight lib (v @ w) = work_weight lib v + work_weight lib w"
  "work_weight lib (map (\<lambda>g. (g, n)) attrs) = sum_list (map (\<lambda>a. attr_weight lib (snd a)) attrs)"
  by (simp_all add: work_weight_def o_def)

lemma strings_weight: "sum_list (map (\<lambda>a. attr_weight lib (snd a)) (map (\<lambda>(i, line). (f i, VString line)) ls)) = length ls"
  by (induction ls) auto

lemma attr_text_weight:
  "work_weight lib (snd (attr_text lib o1 a n)) < attr_weight lib (snd a)"
  by (cases "snd a") (auto simp: attr_text_def Let_def)

lemma error_weight:
  "work_weight lib (snd (attr_text lib o1 (ReplaceAttrErr lib gs a) n)) < attr_weight lib (snd a)"
proof (cases "snd a")
  case (VError e)
  have "work_weight lib (snd (attr_text lib o1 (fst a, fmtErr lib e) n)) \<le> 2 + length (traceLines lib e)"
    unfolding attr_text_def fmtErr_def Let_def
    by (auto simp: strings_weight simp del: map_map)
  then show ?thesis using VError by (simp add: ReplaceAttrErr_def)
qed (use attr_text_weight [of lib o1 a n] in \<open>simp_all add: ReplaceAttrErr_def\<close>)

text \<open>
  Printing the attributes of a record ends, whatever they are, groups in groups included, for
  the handler without a replacement of attributes and for the one that replaces errors by
  their traces.
\<close>

theorem printing_attributes_ends:
  assumes "lo_ReplaceAttr o1 = None \<or> lo_ReplaceAttr o1 = Some (ReplaceAttrErr lib)"
  shows "\<exists>out. append_attrs lib o1 buf work = Some out"
proof (induction "work_weight lib work" arbitrary: buf work rule: less_induct)
  case less
  show ?case
  proof (cases work)
    case Nil
    then show ?thesis by (simp add: append_attrs.simps)
  next
    case (Cons x rest)
    have "work_weight lib (snd (attr_text lib o1 (replaced o1 (fst x)) (snd x))) < attr_weight lib (snd (fst x))"
      using assms attr_text_weight [of lib o1 "fst x" "snd x"] error_weight [of lib o1 _ "fst x" "snd x"] by (auto simp: replaced_def)
    then have "work_weight lib (snd (attr_text lib o1 (replaced o1 (fst x)) (snd x)) @ rest) < work_weight lib work"
      using Cons by simp
    from less [OF this] show ?thesis by (subst append_attrs.simps) (simp add: Cons)
  qed
qed

section \<open>Handlers\<close>

text \<open>
  Deriving a logger changes the one it is derived from: \<open>WithAttrs\<close> and \<open>WithGroup\<close> return a
  copy that shares its fields with the original, so that the original prints the new
  attributes from then on, and every record of the two is the same.
\<close>

theorem derived_logger_changes_parent:
  assumes "attrs \<noteq> []" "WithAttrs attrs (CliHandler r) st = (h, st')"
  shows "Handle lib we h rec st' = Handle lib we (CliHandler r) rec st' \<and>
    ch_goas (ls_custom st' r) = ch_goas (ls_custom st r) @ [\<lparr>g_group = [], g_attrs = attrs\<rparr>]"
  using assms by (auto simp: withGroupOrAttrs_def)

lemma Handle_keeps_fields:
  "Handle lib we h rec st = Some (es, st') \<Longrightarrow> ls_custom st' = ls_custom st"
  "handle_each lib we hs rec st = Some (es, st') \<Longrightarrow> ls_custom st' = ls_custom st"
proof (induction lib we h rec st and lib we hs rec st arbitrary: es st' and es st' rule: Handle_handle_each.induct)
  case (1 lib we r rec st)
  then show ?case by (auto simp: cli_Handle_def Let_def split: option.splits)
next
  case (5 lib we h hs rec st)
  show ?case
  proof (cases "Enabled st h (lr_Level rec)")
    case True
    then obtain es1 st1 es2 where h: "Handle lib we h rec st = Some (es1, st1)" "handle_each lib we hs rec st1 = Some (es2, st')"
      using "5.prems" by (auto split: option.splits)
    show ?thesis using "5.IH"(1) [OF True h(1)] "5.IH"(2) [OF True h(1) refl h(2)] by simp
  next
    case False
    then have "handle_each lib we hs rec st = Some (es, st')" using "5.prems" by simp
    then show ?thesis using "5.IH"(3) [OF False] by simp
  qed
qed simp_all

lemma Enabled_fields: "ls_custom st' = ls_custom st \<Longrightarrow> Enabled st' h l = Enabled st h l"
  by (induction st h l rule: Enabled.induct) (auto simp: list_ex_iff)

text \<open>
  A fan-out passes a record to exactly the handlers that are enabled for its level, in order: the
  others could as well not be there. It is enabled itself when one of them is.
\<close>

theorem fanout_reaches_enabled:
  "Handle lib we (FanoutHandler hs) rec st = Handle lib we (FanoutHandler (filter (\<lambda>h. Enabled st h (lr_Level rec)) hs)) rec st \<and>
   (Enabled st (FanoutHandler hs) (lr_Level rec) = (filter (\<lambda>h. Enabled st h (lr_Level rec)) hs \<noteq> []))"
proof -
  have "handle_each lib we hs rec st1 = handle_each lib we (filter (\<lambda>h. Enabled st h (lr_Level rec)) hs) rec st1"
    if "ls_custom st1 = ls_custom st" for st1
    using that
  proof (induction hs arbitrary: st1)
    case (Cons h hs)
    note same = Enabled_fields [OF Cons.prems, of h "lr_Level rec"] Cons.IH [OF Cons.prems]
    show ?case
    proof (cases "Handle lib we h rec st1")
      case None
      then show ?thesis using same by simp
    next
      case (Some a)
      have "ls_custom (snd a) = ls_custom st"
        using Handle_keeps_fields(1) [of lib we h rec st1 "fst a" "snd a"] Some Cons.prems by simp
      from Cons.IH [OF this] show ?thesis using same Some by (simp add: split_beta)
    qed
  qed simp
  moreover have "Enabled st (FanoutHandler hs) (lr_Level rec) = (filter (\<lambda>h. Enabled st h (lr_Level rec)) hs \<noteq> [])"
    by (auto simp: list_ex_iff filter_empty_conv)
  ultimately show ?thesis by simp
qed

section \<open>Witnesses\<close>

definition sample_log_lib :: log_lib where
  "sample_log_lib = \<lparr>ll_FormatTime = (\<lambda>f t. Itoa t), ll_From = (\<lambda>_. ''f.go:1''), ll_Quote = (\<lambda>s. s)\<rparr>"

definition sample_log_options :: CustomHandlerOption where
  "sample_log_options = \<lparr>lo_Level = 0, lo_TimeFormat = [], lo_AddSource = True, lo_ReplaceAttr = None, lo_NoColor = False\<rparr>"

definition sample_record :: log_record where
  "sample_record = \<lparr>lr_Time = Some 7, lr_Source = Some (''/a/b.go'', 3, []), lr_Level = 4, lr_Message = ''m'', lr_Attrs = []\<rparr>"

theorem colours_keep_the_layout_witness:
  "line_prefix sample_log_lib (sample_log_options\<lparr>lo_NoColor := True\<rparr>) sample_record = Some ''7 (a/b.go:3)   WARN    ''"
proof -
  obtain p where p: "line_prefix sample_log_lib sample_log_options sample_record = Some p" "stripAnsiCodes p = ''7 (a/b.go:3)   WARN    ''"
    by (rule that [of "the (line_prefix sample_log_lib sample_log_options sample_record)"]) code_simp+
  have "plain_text (path_Join [path_Base ''/a/'', ''b.go''])" "split_file ''/a/b.go'' = (''/a/'', ''b.go'')" by code_simp+
  then show ?thesis using colours_keep_the_layout [OF _ p(1)] p(2)
    by (simp add: sample_log_options_def sample_log_lib_def sample_record_def)
qed

theorem printing_attributes_ends_witness:
  "\<exists>out. append_attrs sample_log_lib (sample_log_options\<lparr>lo_ReplaceAttr := Some (ReplaceAttrErr sample_log_lib)\<rparr>) []
     [((''Error'', VError (Err ''a'' (Some (NewError ''b'')))), 2)] = Some out"
  by (rule printing_attributes_ends) simp

definition sample_log_state :: log_state where
  "sample_log_state = snd (NewCliHandler 1 2 [WithNoColor True] \<lparr>ls_custom = (\<lambda>_. undefined), ls_written = (\<lambda>_. [])\<rparr>)"

theorem derived_logger_changes_parent_witness:
  "\<exists>st'. WithAttrs [(''k'', VString ''v'')] (CliHandler 1) sample_log_state = (CliHandler 1, st') \<and>
     ch_goas (ls_custom st' 1) = [\<lparr>g_group = [], g_attrs = [(''k'', VString ''v'')]\<rparr>]"
proof -
  obtain st' where w: "WithAttrs [(''k'', VString ''v'')] (CliHandler 1) sample_log_state = (CliHandler 1, st')"
    by (simp add: withGroupOrAttrs_def)
  have "ch_goas (ls_custom sample_log_state 1) = []" by (simp add: sample_log_state_def NewCliHandler_def)
  then show ?thesis using derived_logger_changes_parent [OF _ w] w by simp
qed

end
