(* ===== verification/Output.thy ===== *)
theory Output
  imports ProjectCommands
begin

text \<open>
  What the client prints: the mode of the output and its renderers (\<open>internal/output\<close>), and the
  list and the details of projects (\<open>internal/command/output_formatting.go\<close>, \<open>project_list.go\<close>,
  \<open>project_show.go\<close>). JSON, YAML and the tables and bullets of the terminal library are
  parameters; a renderer gives the text it writes.
\<close>

section \<open>Modes\<close>

datatype output_mode = ModeInteractive | ModePlain | ModeJSON | ModeQuiet | ModeUnknown

fun Mode_String :: "output_mode \<Rightarrow> string" where
  "Mode_String ModeInteractive = ''interactive''"
| "Mode_String ModePlain = ''plain''"
| "Mode_String ModeJSON = ''json''"
| "Mode_String ModeQuiet = ''quiet''"
| "Mode_String ModeUnknown = ''unknown''"

record OutputOptions =
  oo_mode :: output_mode
  oo_width :: int
  oo_noColor :: bool
  oo_verbose :: bool
  oo_command :: string

text \<open>The terminal and the environment of the process.\<close>

record term_env =
  te_Size :: "int option"
  te_IsTerminal :: bool
  te_IsCygwinTerminal :: bool
  te_NO_COLOR :: "string option"
  te_CDS_OUTPUT :: "string option"

definition resolveOutputFlag :: "term_env \<Rightarrow> string \<Rightarrow> string" where
  "resolveOutputFlag env flag =
     (if flag \<noteq> [] then ToLower flag
      else case te_CDS_OUTPUT env of Some e \<Rightarrow> ToLower e | None \<Rightarrow> ''auto'')"

definition isNoColorSet :: "term_env \<Rightarrow> bool" where "isNoColorSet env = (te_NO_COLOR env \<noteq> None)"

definition isColorable :: "term_env \<Rightarrow> bool" where
  "isColorable env = (te_IsTerminal env \<or> te_IsCygwinTerminal env)"

definition WithDetect :: "term_env \<Rightarrow> string \<Rightarrow> bool \<Rightarrow> bool \<Rightarrow> OutputOptions \<Rightarrow> OutputOptions" where
  "WithDetect env outputFlag quiet verbose o0 =
     (let o1 = o0\<lparr>oo_verbose := verbose, oo_width := (case te_Size env of Some w \<Rightarrow> w | None \<Rightarrow> oo_width o0),
            oo_noColor := isNoColorSet env \<or> \<not> isColorable env\<rparr>
      in o1\<lparr>oo_mode :=
        (if quiet then ModeQuiet
         else if resolveOutputFlag env outputFlag = ''json'' then ModeJSON
         else if resolveOutputFlag env outputFlag = ''text'' then (if oo_noColor o1 then ModePlain else ModeInteractive)
         else if \<not> isColorable env then ModeJSON
         else if oo_noColor o1 then ModePlain
         else ModeInteractive)\<rparr>)"

definition WithCommand :: "string \<Rightarrow> OutputOptions \<Rightarrow> OutputOptions" where
  "WithCommand cmd o1 = o1\<lparr>oo_command := cmd\<rparr>"

definition zero_OutputOptions :: OutputOptions where
  "zero_OutputOptions = \<lparr>oo_mode = ModeInteractive, oo_width = 0, oo_noColor = False, oo_verbose = False, oo_command = []\<rparr>"

definition NewOutputOptions :: "(OutputOptions \<Rightarrow> OutputOptions) list \<Rightarrow> OutputOptions result" where
  "NewOutputOptions ts =
     (let o1 = fold (\<lambda>t o1. t o1) ts zero_OutputOptions
      in if oo_mode o1 = ModeUnknown
         then Fail (''invalid output mode detected for command '' @ [SQ] @ oo_command o1 @ [SQ])
         else Ok o1)"

text \<open>The options in a context, nil when it has none.\<close>

definition WithOutputOptions :: "OutputOptions option \<Rightarrow> OutputOptions option \<Rightarrow> OutputOptions option" where
  "WithOutputOptions ctx octx = (case octx of None \<Rightarrow> ctx | Some o1 \<Rightarrow> Some o1)"

definition FromContext :: "OutputOptions option \<Rightarrow> OutputOptions" where
  "FromContext ctx = (case ctx of Some o1 \<Rightarrow> o1 | None \<Rightarrow> zero_OutputOptions)"

section \<open>Renderers\<close>

record 'd renderer =
  rn_HumanReadable :: "OutputOptions \<Rightarrow> string"
  rn_MachineReadable :: 'd

text \<open>\<open>encode\<close> is the JSON of an object that has the data under one key, with a line end.\<close>

definition Render :: "('d \<Rightarrow> string result) \<Rightarrow> OutputOptions \<Rightarrow> 'd renderer \<Rightarrow> string result" where
  "Render encode o1 r =
     (case oo_mode o1 of
        ModeQuiet \<Rightarrow> Ok []
      | ModeJSON \<Rightarrow> encode (rn_MachineReadable r)
      | ModeUnknown \<Rightarrow> Fail (''invalid mode given to render: '' @ Mode_String (oo_mode o1))
      | _ \<Rightarrow> Ok (rn_HumanReadable r o1))"

definition SimpleResult :: "string \<Rightarrow> string renderer" where
  "SimpleResult message = \<lparr>rn_HumanReadable = (\<lambda>_. message @ [NL]), rn_MachineReadable = message\<rparr>"

record 'd TableResult =
  tr_Headers :: "string list"
  tr_Rows :: "string list list"
  tr_Data :: 'd

fun widened :: "nat list \<Rightarrow> string list \<Rightarrow> nat list" where
  "widened [] cells = []"
| "widened ws [] = ws"
| "widened (w # ws) (c # cs) = max w (length c) # widened ws cs"

text \<open>A cell of a column is padded to its width, one without a column is written as it is.\<close>

fun padded_cells :: "string list \<Rightarrow> nat list \<Rightarrow> string list" where
  "padded_cells [] ws = []"
| "padded_cells (c # cs) [] = c # padded_cells cs []"
| "padded_cells (c # cs) (w # ws) = (c @ replicate (w - length c) (CHR '' '')) # padded_cells cs ws"

definition writePaddedRow :: "string list \<Rightarrow> nat list \<Rightarrow> string" where
  "writePaddedRow cells widths = Join (padded_cells cells widths) ''  '' @ [NL]"

definition column_widths :: "string list \<Rightarrow> string list list \<Rightarrow> nat list" where
  "column_widths headers rows = fold (\<lambda>row ws. widened ws row) rows (map length headers)"

definition renderPlainTable :: "string list \<Rightarrow> string list list \<Rightarrow> string" where
  "renderPlainTable headers rows =
     concat (map (\<lambda>row. writePaddedRow row (column_widths headers rows)) (headers # rows))"

definition table_text :: "(string list list \<Rightarrow> string result) \<Rightarrow> 'd TableResult \<Rightarrow> OutputOptions \<Rightarrow> string" where
  "table_text srender t o1 =
     (if tr_Rows t = [] then ''No results found.'' @ [NL]
      else if oo_mode o1 = ModePlain then renderPlainTable (tr_Headers t) (tr_Rows t)
      else case srender (tr_Headers t # tr_Rows t) of
        Inl _ \<Rightarrow> renderPlainTable (tr_Headers t) (tr_Rows t)
      | Inr rendered \<Rightarrow> rendered @ [NL])"

definition table_renderer :: "(string list list \<Rightarrow> string result) \<Rightarrow> 'd TableResult \<Rightarrow> 'd renderer" where
  "table_renderer srender t = \<lparr>rn_HumanReadable = table_text srender t, rn_MachineReadable = tr_Data t\<rparr>"

section \<open>Projects\<close>

definition kJson :: string where "kJson = ''json''"
definition kYaml :: string where "kYaml = ''yaml''"
definition printFormat :: "string list" where "printFormat = [kJson, kYaml, []]"

definition filterAndConvertOutputFormat :: "string list \<Rightarrow> string list" where
  "filterAndConvertOutputFormat fs = filter (\<lambda>f. f \<noteq> []) fs"

definition setCDSCommandOutputFormat :: "string \<Rightarrow> string result" where
  "setCDSCommandOutputFormat format =
     (if format \<notin> set printFormat
      then Fail (''CDS currently supports only '' @ Join (filterAndConvertOutputFormat printFormat) '', '' @
        '' as output formats. Format given was '' @ format @ ''.'')
      else Ok format)"

datatype fg_color = FgGreen | FgRed | FgYellow | FgMagenta | FgDefault

definition getProjectStyle :: "string \<Rightarrow> fg_color" where
  "getProjectStyle state =
     (if state = ''running'' then FgGreen else if state = ''deleted'' then FgRed
      else if state = ''stopped'' then FgYellow else FgMagenta)"

record bullet_item =
  bl_Level :: nat
  bl_Text :: string
  bl_Bullet :: "string option"
  bl_Style :: "fg_color option"

text \<open>What can be encoded: the details of a project, or the list of projects.\<close>

datatype dumped = TheProject ProjectInfo | TheProjects "ProjectInfo list"

text \<open>What a command prints: encoded data, a line of text, or a list of bullets.\<close>

datatype printed = Dumped string | Line string | Bullets "bullet_item list"

text \<open>\<open>dump\<close> encodes in the format given; an error is logged and nothing is printed.\<close>

definition dumpOutputFormat :: "(string \<Rightarrow> dumped \<Rightarrow> string result) \<Rightarrow> dumped \<Rightarrow> string \<Rightarrow> printed list" where
  "dumpOutputFormat dump x format = (case dump format x of Inl _ \<Rightarrow> [] | Inr out \<Rightarrow> [Dumped (out @ [NL])])"

definition project_bullet :: "string \<Rightarrow> ProjectInfo \<Rightarrow> bullet_item" where
  "project_bullet currentProject i =
     \<lparr>bl_Level = 1, bl_Text = pi_Name i, bl_Bullet = (if pi_Name i = currentProject then Some ''>'' else None),
      bl_Style = Some (getProjectStyle (GetProjStatus (pi_Containers i)))\<rparr>"

definition printProjectList :: "ProjectInfo list \<Rightarrow> string \<Rightarrow> printed list" where
  "printProjectList infos currentProject =
     [Line ''List of projects ('>' indicates current project, green: running, yellow: stopped, red: empty (drained or cleared), magenta: unknown):'',
      Bullets (map (project_bullet currentProject) infos)]"

definition formatProjectListInOutput :: "(string \<Rightarrow> dumped \<Rightarrow> string result) \<Rightarrow> string \<Rightarrow> ProjectInfo list \<Rightarrow> string \<Rightarrow> printed list" where
  "formatProjectListInOutput dump format infos currentProject =
     (if format \<noteq> [] then dumpOutputFormat dump (TheProjects infos) format else printProjectList infos currentProject)"

definition printProjectInfo :: "ProjectInfo \<Rightarrow> printed list" where
  "printProjectInfo i =
     (let status = GetProjStatus (pi_Containers i)
      in [Bullets
        ([\<lparr>bl_Level = 0, bl_Text = ''Project name: '' @ pi_Name i, bl_Bullet = None, bl_Style = Some (getProjectStyle status)\<rparr>,
          \<lparr>bl_Level = 1, bl_Text = ''Project status: '' @ status, bl_Bullet = None, bl_Style = None\<rparr>,
          \<lparr>bl_Level = 1, bl_Text = ''Deployed on host: '' @ pi_Host i, bl_Bullet = None, bl_Style = None\<rparr>] @
         (if pi_Containers i = [] then []
          else [\<lparr>bl_Level = 1, bl_Text = ''List of containers: '', bl_Bullet = None, bl_Style = None\<rparr>]) @
         map (\<lambda>c. \<lparr>bl_Level = 4, bl_Text = ci_Name c, bl_Bullet = Some ''-'', bl_Style = Some FgDefault\<rparr>)
           (filter (\<lambda>c. ci_Status c \<noteq> ''deleted'') (pi_Containers i)))])"

definition formatProjectInfoInOutput :: "(string \<Rightarrow> dumped \<Rightarrow> string result) \<Rightarrow> string \<Rightarrow> ProjectInfo \<Rightarrow> printed list" where
  "formatProjectInfoInOutput dump format i =
     (if format \<noteq> [] then dumpOutputFormat dump (TheProject i) format else printProjectInfo i)"

text \<open>\<open>project list\<close> and \<open>project show\<close>, with the check of the format that runs before them.\<close>

definition list_execute :: "(string \<Rightarrow> dumped \<Rightarrow> string result) \<Rightarrow> string \<Rightarrow> data \<Rightarrow> printed list result" where
  "list_execute dump outFlag d =
     bind_ok (setCDSCommandOutputFormat outFlag) (\<lambda>format.
       Ok (formatProjectListInOutput dump format (map (GetProjectInfo d) (ListProjects d)) (GetCurrentProject d)))"

definition show_execute ::
  "(string \<Rightarrow> dumped \<Rightarrow> string result) \<Rightarrow> err option \<Rightarrow> bool \<Rightarrow> string \<Rightarrow> data \<Rightarrow> string list \<Rightarrow> printed list result" where
  "show_execute dump help_error showAll outFlag d args =
     bind_ok (setCDSCommandOutputFormat outFlag) (\<lambda>format.
       if \<not> showAll then
         (case validateProjectNameFromArgsOrContext help_error d args of
            Some e \<Rightarrow> Inl e
          | None \<Rightarrow> Ok (formatProjectInfoInOutput dump format (GetProjectInfo d (getProjectNameFromArgsOrContext d args))))
       else if outFlag \<noteq> [] then
         Ok (formatProjectListInOutput dump format (map (GetProjectInfo d) (ListProjects d)) (GetCurrentProject d))
       else Ok (concat (map (\<lambda>n. printProjectInfo (GetProjectInfo d n)) (ListProjects d))))"

end
