(* ===== verification/OutputProps.thy ===== *)
theory OutputProps
  imports Output ProjectSyncProps
begin

text \<open>
  What is printed: the columns of a plain table are aligned, when the output is JSON, what the
  list of projects shows and which of its colours is never used.
\<close>

section \<open>Tables\<close>

lemma length_widened [simp]: "length (widened ws cells) = length ws"
  by (induction ws cells rule: widened.induct) auto

lemma widened_le: "i < length ws \<Longrightarrow> ws ! i \<le> widened ws cells ! i"
  by (induction ws cells arbitrary: i rule: widened.induct) (auto simp: nth_Cons split: nat.splits)

lemma widened_cell: "i < length ws \<Longrightarrow> i < length cells \<Longrightarrow> length (cells ! i) \<le> widened ws cells ! i"
  by (induction ws cells arbitrary: i rule: widened.induct) (auto simp: nth_Cons split: nat.splits)

lemma fold_widened:
  assumes "i < length ws"
  shows "ws ! i \<le> fold (\<lambda>row ws. widened ws row) rows ws ! i"
    and "row \<in> set rows \<Longrightarrow> i < length row \<Longrightarrow> length (row ! i) \<le> fold (\<lambda>row ws. widened ws row) rows ws ! i"
    and "length (fold (\<lambda>row ws. widened ws row) rows ws) = length ws"
  using assms
proof (induction rows arbitrary: ws)
  case (Cons r rows)
  { case 1 then show ?case using Cons.IH(1) [of "widened ws r"] widened_le [of i ws r] by simp }
  { case 2
    show ?case
    proof (cases "row = r")
      case True
      then show ?thesis using 2 Cons.IH(1) [of "widened ws r"] widened_cell [of i ws r] by simp
    next
      case False
      then show ?thesis using 2 Cons.IH(2) [of "widened ws r"] by simp
    qed }
  { case 3 then show ?case using Cons.IH(3) [of "widened ws r"] by simp }
qed auto

lemma width_of_cell:
  assumes "row \<in> set (headers # rows)" "i < length row" "i < length headers"
  shows "length (row ! i) \<le> column_widths headers rows ! i"
proof (cases "row = headers")
  case True
  then show ?thesis using fold_widened(1) [of i "map length headers" rows] assms by (simp add: column_widths_def)
next
  case False
  then show ?thesis using fold_widened(2) [of i "map length headers" row rows] assms by (simp add: column_widths_def)
qed

lemma cell_in_row:
  assumes "length ws = length cells" "i < length cells" "\<And>k. k < length cells \<Longrightarrow> length (cells ! k) \<le> ws ! k"
  shows "take (length (cells ! i)) (drop (sum_list (take i ws) + 2 * i) (Join (padded_cells cells ws) ''  '' @ t)) = cells ! i"
  using assms
proof (induction cells ws arbitrary: i rule: padded_cells.induct)
  case (3 c cs w ws)
  have w: "length c \<le> w" using 3(4) [of 0] by simp
  show ?case
  proof (cases i)
    case 0
    then show ?thesis by (cases "padded_cells cs ws") auto
  next
    case (Suc k)
    then have "padded_cells cs ws \<noteq> []" using 3(2,3) by (cases cs; cases ws) auto
    then have "Join (padded_cells (c # cs) (w # ws)) ''  '' = c @ replicate (w - length c) (CHR '' '') @ ''  '' @ Join (padded_cells cs ws) ''  ''"
      by (cases "padded_cells cs ws") auto
    moreover have "take (length (cs ! k)) (drop (sum_list (take k ws) + 2 * k) (Join (padded_cells cs ws) ''  '' @ t)) = cs ! k"
      by (rule 3(1)) (use 3(2,3) Suc 3(4) [of "Suc _"] in auto)
    ultimately show ?thesis using Suc w by (simp add: drop_Cons' add.assoc)
  qed
qed auto

text \<open>
  The columns of a plain table are aligned: in the line of every row, the header's included, the
  cell of a column begins at the same place, after the widths of the columns before it and two
  spaces for each.
\<close>

theorem table_columns_align:
  assumes "row \<in> set (headers # rows)" "length row = length headers" "i < length headers"
  shows "take (length (row ! i)) (drop (sum_list (take i (column_widths headers rows)) + 2 * i) (writePaddedRow row (column_widths headers rows))) = row ! i"
proof -
  have "length (column_widths headers rows) = length headers"
    using fold_widened(3) [of i "map length headers" rows] assms(3) by (simp add: column_widths_def)
  then show ?thesis unfolding writePaddedRow_def
    using cell_in_row [of "column_widths headers rows" row i "[NL]"] width_of_cell [OF assms(1)] assms(2,3) by simp
qed

section \<open>Modes\<close>

text \<open>
  The mode of the output is decided without an error: whatever the flag \<open>--output\<close> says, also a
  text that is no mode, options are made; and where the standard output is not a terminal they
  are JSON unless \<open>quiet\<close> or the text format is asked for.
\<close>

theorem output_flag_is_never_refused:
  "NewOutputOptions [WithDetect env flag quiet verbose, WithCommand cmd] =
     Ok (WithCommand cmd (WithDetect env flag quiet verbose zero_OutputOptions)) \<and>
   (oo_mode (WithDetect env flag quiet verbose o1) =
     (if quiet then ModeQuiet
      else if resolveOutputFlag env flag = ''text'' then if isNoColorSet env \<or> \<not> isColorable env then ModePlain else ModeInteractive
      else if resolveOutputFlag env flag = ''json'' \<or> \<not> isColorable env then ModeJSON
      else if isNoColorSet env then ModePlain else ModeInteractive))"
  by (simp add: NewOutputOptions_def WithDetect_def WithCommand_def Let_def zero_OutputOptions_def)

section \<open>Projects\<close>

text \<open>
  The list of projects has one bullet for each, in order, marks exactly the current one, and never
  uses the colour that its legend gives to empty projects: they are shown like unknown ones.
\<close>

theorem project_list_shows_each:
  assumes "list_execute dump [] d = Ok out"
  shows "\<exists>legend bs. out = [Line legend, Bullets bs] \<and> map bl_Text bs = map (\<lambda>n. pi_Name (GetProjectInfo d n)) (ListProjects d) \<and>
    (\<forall>b\<in>set bs. (bl_Bullet b = Some ''>'') = (bl_Text b = GetCurrentProject d) \<and> bl_Style b \<noteq> Some FgRed) \<and>
    getProjectStyle (GetProjStatus []) = FgMagenta"
proof -
  have "getProjectStyle (GetProjStatus cs) \<noteq> FgRed" for cs by (simp add: getProjectStyle_def GetProjStatus_def)
  then show ?thesis using assms
    by (auto simp: list_execute_def setCDSCommandOutputFormat_def printFormat_def formatProjectListInOutput_def printProjectList_def
        project_bullet_def GetProjStatus_def getProjectStyle_def)
qed

section \<open>Witnesses\<close>

theorem table_columns_align_witness:
  "writePaddedRow [''b'', ''running''] (column_widths [''NAME'', ''STATE''] [[''b'', ''running'']]) = ''b     running'' @ [NL] \<and>
   take 7 (drop 6 (writePaddedRow [''b'', ''running''] (column_widths [''NAME'', ''STATE''] [[''b'', ''running'']]))) = ''running''"
proof -
  have w: "column_widths [''NAME'', ''STATE''] [[''b'', ''running'']] = [4, 7]" by code_simp
  have "writePaddedRow [''b'', ''running''] [4, 7] = ''b     running'' @ [NL]" by code_simp
  then show ?thesis using table_columns_align [of "[''b'', ''running'']" "[''NAME'', ''STATE'']" "[[''b'', ''running'']]" 1]
    by (simp add: w numeral_eq_Suc)
qed

theorem project_list_shows_each_witness:
  "\<exists>legend bs. list_execute (\<lambda>_ _. Fail []) [] sample_store = Ok [Line legend, Bullets bs] \<and> length bs = length (ListProjects sample_store)"
proof -
  obtain out where out: "list_execute (\<lambda>_ _. Fail []) [] sample_store = Ok out"
    by (simp add: list_execute_def setCDSCommandOutputFormat_def printFormat_def)
  from project_list_shows_each [OF this] obtain legend bs where "out = [Line legend, Bullets bs]"
    "map bl_Text bs = map (\<lambda>n. pi_Name (GetProjectInfo sample_store n)) (ListProjects sample_store)" by blast
  with out show ?thesis by (metis length_map)
qed

end
