(* ===== verification/Certificates.thy ===== *)
theory Certificates
  imports EnvFilesProps
begin

text \<open>
  The certificates of the client and of the agent (\<open>internal/tls\<close>, the pipe of
  \<open>internal/shexec/pipes.go\<close>) on the file system of \<open>EnvFiles\<close>: preparing the templates, running the
  programs that make the certificates in a directory of their own, and installing them. The
  programs and the parsing of keys are parameters; a directory of certificates has no character
  in its name that means something in a pattern.
\<close>

section \<open>More operations on files\<close>

definition os_ReadFile :: "fs_lib \<Rightarrow> string \<Rightarrow> tree \<Rightarrow> string result" where
  "os_ReadFile lib p t =
     (case fl_OpenError lib p t of
        Some e \<Rightarrow> Inl e
      | None \<Rightarrow>
          (case at t p of
             None \<Rightarrow> Inl (oe_err (not_found ''open'' p))
           | Some (DirEntry m) \<Rightarrow> Fail (''read '' @ p @ '': is a directory'')
           | Some (FileEntry m c i) \<Rightarrow> Ok c))"

definition os_WriteFile :: "fs_lib \<Rightarrow> string \<Rightarrow> string \<Rightarrow> mode \<Rightarrow> tree \<Rightarrow> err option \<times> tree" where
  "os_WriteFile lib p c m t =
     (case fl_OpenError lib p t of
        Some e \<Rightarrow> (Some e, t)
      | None \<Rightarrow>
          if p = [] \<or> \<not> parent_ok p t then (Some (oe_err (not_found ''open'' p)), t)
          else case at t p of
            None \<Rightarrow> write_text lib p c (put p (FileEntry (m AND NOT (fl_Umask lib)) [] (fl_Now lib)) t)
          | Some (DirEntry _) \<Rightarrow> (Some (NewError (''open '' @ p @ '': is a directory'')), t)
          | Some (FileEntry m0 _ _) \<Rightarrow> write_text lib p c (put p (FileEntry m0 [] (fl_Now lib)) t))"

function os_MkdirAll :: "fs_lib \<Rightarrow> string \<Rightarrow> mode \<Rightarrow> tree \<Rightarrow> err option \<times> tree" where
  "os_MkdirAll lib p m t =
     (case os_stat lib p t of
        Inr e \<Rightarrow> (if fe_IsDir e then None else Some (NewError (''mkdir '' @ p @ '': not a directory'')), t)
      | Inl _ \<Rightarrow>
          (case (if p \<noteq> path_Dir p then os_MkdirAll lib (path_Dir p) m t else (None, t)) of
             (Some e, t1) \<Rightarrow> (Some e, t1)
           | (None, t1) \<Rightarrow> os_mkdir lib p m t1))"
  by pat_completeness auto

termination by (relation "measure (\<lambda>(lib, p, m, t). dir_measure p)") (auto intro!: path_Dir_decreases dest: not_sym)

declare os_MkdirAll.simps [simp del]

text \<open>\<open>os.RemoveAll\<close>: a path and everything below it.\<close>

definition inside :: "string \<Rightarrow> string \<Rightarrow> bool" where
  "inside p q \<longleftrightarrow> rooted q = rooted p \<and> take (length (path_segs p)) (path_segs q) = path_segs p"

record cert_lib =
  cf_fs :: fs_lib
  cf_RemoveAllError :: "string \<Rightarrow> err option"
  cf_TempDir :: "tree \<Rightarrow> string result"
  cf_Template :: "string \<Rightarrow> string"
  cf_Start :: "string list \<Rightarrow> string \<Rightarrow> tree \<Rightarrow> err option \<times> tree"
  cf_Left :: "string list \<Rightarrow> string \<Rightarrow> tree \<Rightarrow> (string \<times> err option) \<times> tree"
  cf_Right :: "string list \<Rightarrow> string \<Rightarrow> string \<Rightarrow> tree \<Rightarrow> (string \<times> err option) \<times> tree"

definition os_RemoveAll :: "cert_lib \<Rightarrow> string \<Rightarrow> tree \<Rightarrow> err option \<times> tree" where
  "os_RemoveAll lib p t =
     (case cf_RemoveAllError lib p of
        Some e \<Rightarrow> (Some e, t)
      | None \<Rightarrow> (None, filter (\<lambda>(q, e). \<not> inside p q) t))"

section \<open>Making certificates\<close>

definition kcertsjsonDir :: string where "kcertsjsonDir = ''certsjson''"
definition kcertsDir :: string where "kcertsDir = ''certs''"

definition certsjson :: "string \<Rightarrow> string \<Rightarrow> string" where "certsjson jsonDir filename = path_Join [jsonDir, filename]"

definition template_names :: "string list" where
  "template_names = [''ca-config.json'', ''ca-csr.json'', ''server-csr.json'', ''client-csr.json'']"

fun write_templates :: "cert_lib \<Rightarrow> string \<Rightarrow> string list \<Rightarrow> tree \<Rightarrow> err option \<times> tree" where
  "write_templates lib jsonDir [] t = (None, t)"
| "write_templates lib jsonDir (n # ns) t =
     (case os_WriteFile (cf_fs lib) (certsjson jsonDir n) (cf_Template lib n) KPermFile t of
        (Some e, t1) \<Rightarrow> (Some (AppendError (''Failed to write file '' @ n) e), t1)
      | (None, t1) \<Rightarrow> write_templates lib jsonDir ns t1)"

definition ensureCertsJsonFiles :: "cert_lib \<Rightarrow> string \<Rightarrow> tree \<Rightarrow> err option \<times> tree" where
  "ensureCertsJsonFiles lib jsonDir t =
     (case os_MkdirAll (cf_fs lib) jsonDir KPermDir t of
        (Some e, t1) \<Rightarrow> (Some (AppendError ''Failed to create certs JSON directory'' e), t1)
      | (None, t1) \<Rightarrow> write_templates lib jsonDir template_names t1)"

text \<open>A pipe: the first program runs to its end, and the second reads what it printed.\<close>

definition ExecutePipe :: "cert_lib \<Rightarrow> string list \<Rightarrow> string list \<Rightarrow> string \<Rightarrow> tree \<Rightarrow> string result \<times> tree" where
  "ExecutePipe lib left right workDir t =
     (case cf_Start lib left workDir t of
        (Some e, t1) \<Rightarrow> (Inl (AppendError (''Error to start command ('' @ Join left '' '' @ '')'') e), t1)
      | (None, t1) \<Rightarrow>
     (case cf_Left lib left workDir t1 of
        ((_, Some e), t2) \<Rightarrow> (Inl (AppendError (''Error waiting for command ('' @ Join left '' '' @ '')'') e), t2)
      | ((buf, None), t2) \<Rightarrow>
     (case cf_Right lib right workDir buf t2 of
        ((_, Some e), t3) \<Rightarrow> (Inl (AppendError ''Pipe failed:'' e), t3)
      | ((out, None), t3) \<Rightarrow> (Ok out, t3))))"

definition cert_pipes :: "string \<Rightarrow> (string list \<times> string list) list" where
  "cert_pipes jsonDir =
     [([''cfssl'', ''gencert'', ''-initca'', certsjson jsonDir ''ca-csr.json''], [''cfssljson'', ''-bare'', ''ca'']),
      ([''cfssl'', ''gencert'', ''-ca=ca.pem'', ''-ca-key=ca-key.pem'', ''-config='' @ certsjson jsonDir ''ca-config.json'', ''-profile=server'',
        certsjson jsonDir ''server-csr.json''], [''cfssljson'', ''-bare'', ''agent-srv'']),
      ([''cfssl'', ''gencert'', ''-ca=ca.pem'', ''-ca-key=ca-key.pem'', ''-config='' @ certsjson jsonDir ''ca-config.json'', ''-profile=client'',
        certsjson jsonDir ''client-csr.json''], [''cfssljson'', ''-bare'', ''client''])]"

fun run_pipes :: "cert_lib \<Rightarrow> string \<Rightarrow> nat \<Rightarrow> (string list \<times> string list) list \<Rightarrow> tree \<Rightarrow> err option \<times> tree" where
  "run_pipes lib workDir i [] t = (None, t)"
| "run_pipes lib workDir i ((l, r) # ps) t =
     (case ExecutePipe lib l r workDir t of
        (Inl e, t1) \<Rightarrow> (Some (AppendError (''Failed to execute pipe['' @ nat_text 10 i @ '']('' @ hd l @ ''...)'') e), t1)
      | (Inr _, t1) \<Rightarrow> run_pipes lib workDir (Suc i) ps t1)"

section \<open>Installing certificates\<close>

definition glob_suffix :: "string \<Rightarrow> string \<Rightarrow> tree \<Rightarrow> string list" where
  "glob_suffix dir suffix t = map (\<lambda>n. path_Join [dir, n]) (filter (\<lambda>n. HasSuffix n suffix) (map fst (listed dir t)))"

fun remove_each :: "cert_lib \<Rightarrow> string list \<Rightarrow> tree \<Rightarrow> err option \<times> tree" where
  "remove_each lib [] t = (None, t)"
| "remove_each lib (p # ps) t =
     (case map_prod (removal_error (''Failed to remove managed certificate file '' @ p)) id (os_remove (cf_fs lib) p t) of
        (Some e, t1) \<Rightarrow> (Some e, t1)
      | (None, t1) \<Rightarrow> remove_each lib ps t1)"

definition cleanManagedCertDir :: "cert_lib \<Rightarrow> string \<Rightarrow> tree \<Rightarrow> err option \<times> tree" where
  "cleanManagedCertDir lib dir t =
     (case remove_each lib (glob_suffix dir ''.pem'' t) t of
        (Some e, t1) \<Rightarrow> (Some e, t1)
      | (None, t1) \<Rightarrow> remove_each lib (glob_suffix dir ''.csr'' t1) t1)"

fun prepare_dirs :: "cert_lib \<Rightarrow> string list \<Rightarrow> tree \<Rightarrow> err option \<times> tree" where
  "prepare_dirs lib [] t = (None, t)"
| "prepare_dirs lib (d # ds) t =
     (case EnsureDir (cf_fs lib) d KPermDir t of
        (Some e, t1) \<Rightarrow> (Some e, t1)
      | (None, t1) \<Rightarrow>
          (case cleanManagedCertDir lib d t1 of
             (Some e, t2) \<Rightarrow> (Some e, t2)
           | (None, t2) \<Rightarrow> prepare_dirs lib ds t2))"

definition installed_certs :: "string \<Rightarrow> string \<Rightarrow> (string \<times> string) list" where
  "installed_certs clientDir agentDir =
     [(''ca.pem'', path_Join [clientDir, ''ca.pem'']), (''client.pem'', path_Join [clientDir, ''client.pem'']),
      (''client-key.pem'', path_Join [clientDir, ''client-key.pem'']), (''ca.pem'', path_Join [agentDir, ''ca.pem'']),
      (''agent-srv.pem'', path_Join [agentDir, ''agent-srv.pem'']), (''agent-srv-key.pem'', path_Join [agentDir, ''agent-srv-key.pem''])]"

fun copy_certs :: "cert_lib \<Rightarrow> string \<Rightarrow> (string \<times> string) list \<Rightarrow> tree \<Rightarrow> err option \<times> tree" where
  "copy_certs lib workDir [] t = (None, t)"
| "copy_certs lib workDir ((src, dst) # cs) t =
     (case os_ReadFile (cf_fs lib) (path_Join [workDir, src]) t of
        Inl e \<Rightarrow> (Some (AppendError (''Failed to read generated certificate '' @ src) e), t)
      | Inr content \<Rightarrow>
          (case os_WriteFile (cf_fs lib) dst content KPermFile t of
             (Some e, t1) \<Rightarrow> (Some (AppendError (''Failed to write certificate '' @ dst) e), t1)
           | (None, t1) \<Rightarrow> copy_certs lib workDir cs t1))"

fun remove_dirs :: "cert_lib \<Rightarrow> string list \<Rightarrow> tree \<Rightarrow> err option \<times> tree" where
  "remove_dirs lib [] t = (None, t)"
| "remove_dirs lib (d # ds) t =
     (case os_RemoveAll lib d t of
        (Some e, t1) \<Rightarrow> (Some (AppendError (''Failed to remove directory '' @ d) e), t1)
      | (None, t1) \<Rightarrow> remove_dirs lib ds t1)"

text \<open>The directories of the configuration; without a home directory the code panics.\<close>

definition both_dirs :: "cert_lib \<Rightarrow> string \<Rightarrow> (string \<times> string) result" where
  "both_dirs lib n =
     bind_ok (ClientConfigDir (cf_fs lib) n) (\<lambda>c. bind_ok (AgentConfigDir (cf_fs lib) n) (\<lambda>a. Ok (c, a)))"

definition removeObsoleteCertsJSONDirs :: "cert_lib \<Rightarrow> tree \<Rightarrow> err option \<times> tree" where
  "removeObsoleteCertsJSONDirs lib t =
     (case both_dirs lib kcertsjsonDir of Inl e \<Rightarrow> (Some e, t) | Inr (c, a) \<Rightarrow> remove_dirs lib [c, a] t)"

definition installRuntimeCerts :: "cert_lib \<Rightarrow> string \<Rightarrow> tree \<Rightarrow> err option \<times> tree" where
  "installRuntimeCerts lib workDir t =
     (case both_dirs lib kcertsDir of
        Inl e \<Rightarrow> (Some e, t)
      | Inr (clientCertsDir, agentCertsDir) \<Rightarrow>
     (case prepare_dirs lib [clientCertsDir, agentCertsDir] t of
        (Some e, t1) \<Rightarrow> (Some e, t1)
      | (None, t1) \<Rightarrow>
     (case copy_certs lib workDir (installed_certs clientCertsDir agentCertsDir) t1 of
        (Some e, t2) \<Rightarrow> (Some e, t2)
      | (None, t2) \<Rightarrow> wrapped ''Failed to remove obsolete certificate template directories'' (removeObsoleteCertsJSONDirs lib t2))))"

text \<open>What happens in the work directory.\<close>

definition build_in :: "cert_lib \<Rightarrow> string \<Rightarrow> tree \<Rightarrow> err option \<times> tree" where
  "build_in lib workDir t =
     (let jsonDir = path_Join [workDir, kcertsjsonDir] in
      case ensureCertsJsonFiles lib jsonDir t of
        (Some e, t1) \<Rightarrow> (Some (AppendError ''Failed to prepare certificate templates'' e), t1)
      | (None, t1) \<Rightarrow>
     (case run_pipes lib workDir 0 (cert_pipes jsonDir) t1 of
        (Some e, t2) \<Rightarrow> (Some e, t2)
      | (None, t2) \<Rightarrow> wrapped ''Failed to install runtime certificates'' (installRuntimeCerts lib workDir t2)))"

definition BuildCerts :: "cert_lib \<Rightarrow> tree \<Rightarrow> err option \<times> tree" where
  "BuildCerts lib t =
     (case cf_TempDir lib t of
        Inl e \<Rightarrow> (Some (AppendError ''Failed to create temp dir'' e), t)
      | Inr workDir \<Rightarrow>
          (case build_in lib workDir (put workDir (DirEntry KPermDir) t) of
             (e, t1) \<Rightarrow> (e, snd (os_RemoveAll lib workDir t1))))"

section \<open>Configurations\<close>

record TLSConfig =
  tc_CertFile :: string
  tc_KeyFile :: string
  tc_CAFile :: string
  tc_ServerAddress :: string
  tc_Server :: bool

text \<open>The part of \<open>tls.Config\<close> that is set; a certificate and a pool are what was read.\<close>

record tls_Config =
  tl_Certificates :: "string list"
  tl_ClientCAs :: "string option"
  tl_RequireAndVerifyClientCert :: bool
  tl_RootCAs :: "string option"
  tl_ServerName :: string

definition SetupTLSConfig ::
  "(string \<Rightarrow> string \<Rightarrow> string result) \<Rightarrow> (string \<Rightarrow> string option) \<Rightarrow> fs_lib \<Rightarrow> tree \<Rightarrow> TLSConfig \<Rightarrow> tls_Config result" where
  "SetupTLSConfig LoadX509KeyPair certPool lib t tcfg =
     (let c0 = \<lparr>tl_Certificates = [], tl_ClientCAs = None, tl_RequireAndVerifyClientCert = False, tl_RootCAs = None, tl_ServerName = []\<rparr> in
      bind_ok (if tc_CertFile tcfg \<noteq> [] \<and> tc_KeyFile tcfg \<noteq> [] then
          (case LoadX509KeyPair (tc_CertFile tcfg) (tc_KeyFile tcfg) of
             Inl _ \<Rightarrow> Fail (''failed to load TLS certificate using key pair: '' @ Quote (tc_CertFile tcfg) @ '', '' @ Quote (tc_KeyFile tcfg))
           | Inr cert \<Rightarrow> Ok (c0\<lparr>tl_Certificates := [cert]\<rparr>))
        else Ok c0) (\<lambda>c1.
      if tc_CAFile tcfg \<noteq> [] then
        bind_ok (os_ReadFile lib (tc_CAFile tcfg) t) (\<lambda>b.
          case certPool b of
            None \<Rightarrow> Fail (''failed to parse root certificate: '' @ Quote (tc_CAFile tcfg))
          | Some ca \<Rightarrow>
              Ok ((if tc_Server tcfg then c1\<lparr>tl_ClientCAs := Some ca, tl_RequireAndVerifyClientCert := True\<rparr>
                   else c1\<lparr>tl_RootCAs := Some ca\<rparr>)\<lparr>tl_ServerName := tc_ServerAddress tcfg\<rparr>))
      else Ok c1))"

section \<open>Properties\<close>

text \<open>
  The directory in which certificates are made does not stay: however the making of certificates
  ends, nothing is left inside it, the key of the authority included.
\<close>

theorem work_directory_is_removed:
  assumes "BuildCerts lib t = (e, t')" "cf_TempDir lib t = Ok workDir" "cf_RemoveAllError lib workDir = None" "(q, x) \<in> set t'"
  shows "\<not> inside workDir q"
  using assms by (auto simp: BuildCerts_def os_RemoveAll_def split: prod.splits)

lemma remove_each_only:
  "remove_each lib ps t = (e, t') \<Longrightarrow> at t' q = at t q \<or> at t' q = None \<and> (\<exists>p\<in>set ps. path_Clean p = path_Clean q)"
proof (induction ps arbitrary: t)
  case (Cons p ps)
  obtain r t1 where rm: "os_remove (cf_fs lib) p t = (r, t1)" by fastforce
  have one: "at t1 q = at t q \<or> at t1 q = None \<and> path_Clean p = path_Clean q"
    using EnvFilesProps.removed [OF rm] by (auto split: if_splits)
  show ?case
  proof (cases "removal_error (''Failed to remove managed certificate file '' @ p) r")
    case None
    then have "remove_each lib ps t1 = (e, t')" using Cons.prems rm by simp
    from Cons.IH [OF this] show ?thesis using one by auto
  next
    case (Some x)
    then have "t' = t1" using Cons.prems rm by simp
    then show ?thesis using one by auto
  qed
qed simp

lemma remove_each_all:
  "remove_each lib ps t = (None, t') \<Longrightarrow> p \<in> set ps \<Longrightarrow> at t' p = None"
proof (induction ps arbitrary: t)
  case (Cons a ps)
  obtain r t1 where rm: "os_remove (cf_fs lib) a t = (r, t1)" by fastforce
  then have next1: "removal_error (''Failed to remove managed certificate file '' @ a) r = None" "remove_each lib ps t1 = (None, t')"
    using Cons.prems(1) by (auto split: option.splits)
  have "at t1 a = None"
    using rm next1(1) by (auto simp: os_remove_def removal_error_def refused_def split: option.splits if_splits)
  then show ?case using Cons.IH [OF next1(2)] remove_each_only [OF next1(2), of a] Cons.prems(2) by auto
qed simp

text \<open>
  Cleaning a directory of certificates removes its keys and certificates and nothing else: what is
  gone was an entry of the directory with the suffix of one of the two patterns, and when it
  succeeds no file with such a name is left there.
\<close>

theorem cert_directory_is_cleaned:
  assumes "cleanManagedCertDir lib dir t = (e, t')" "dir \<noteq> []"
  shows "(at t' q = at t q \<or> at t' q = None \<and> (\<exists>n. (HasSuffix n ''.pem'' \<or> HasSuffix n ''.csr'') \<and> path_Clean q = path_Clean (path_Join [dir, n]))) \<and>
    (if e = None \<and> distinct (map fst t) \<and> normal_seg n \<and> HasSuffix n ''.pem'' then at t' (path_Join [dir, n]) = None else True)"
proof -
  obtain e1 t1 where 1: "remove_each lib (glob_suffix dir ''.pem'' t) t = (e1, t1)" by fastforce
  obtain e2 t2 where 2: "remove_each lib (glob_suffix dir ''.csr'' t1) t1 = (e2, t2)" by fastforce
  have r: "t' = (if e1 = None then t2 else t1)" "e = (if e1 = None then e2 else e1)"
    using assms(1) 1 2 by (auto simp: cleanManagedCertDir_def split: option.splits)
  have g: "p \<in> set (glob_suffix dir s u) \<Longrightarrow> \<exists>n. HasSuffix n s \<and> p = path_Join [dir, n]" for p s u
    by (auto simp: glob_suffix_def)
  have one: "at t1 q = at t q \<or> at t1 q = None \<and> (\<exists>n. HasSuffix n ''.pem'' \<and> path_Clean q = path_Clean (path_Join [dir, n]))" for q
    using remove_each_only [OF 1, of q] g by metis
  have two: "at t2 q = at t1 q \<or> at t2 q = None \<and> (\<exists>n. HasSuffix n ''.csr'' \<and> path_Clean q = path_Clean (path_Join [dir, n]))" for q
    using remove_each_only [OF 2, of q] g by metis
  have first: "at t' q = at t q \<or> at t' q = None \<and> (\<exists>n. (HasSuffix n ''.pem'' \<or> HasSuffix n ''.csr'') \<and> path_Clean q = path_Clean (path_Join [dir, n]))" for q
    using one [of q] two [of q] r(1) by (cases "e1 = None") auto
  have "at t' (path_Join [dir, n]) = None" if "e = None" "distinct (map fst t)" "normal_seg n" "HasSuffix n ''.pem''"
  proof -
    have none: "e1 = None" using r(2) that(1) by (auto split: if_splits)
    have "at t1 (path_Join [dir, n]) = None"
    proof (cases "at t (path_Join [dir, n])")
      case None
      then show ?thesis using one [of "path_Join [dir, n]"] by auto
    next
      case (Some x)
      then have "(n, x) \<in> set (listed dir t)" using listed_at(2) [OF that(2,3) assms(2)] by blast
      then have "path_Join [dir, n] \<in> set (glob_suffix dir ''.pem'' t)" using that(4) by (force simp: glob_suffix_def)
      then show ?thesis using remove_each_all 1 none by blast
    qed
    then show ?thesis using two [of "path_Join [dir, n]"] r(1) none by auto
  qed
  then show ?thesis using first [of q] by simp
qed

section \<open>Witnesses\<close>

definition sample_certs :: cert_lib where
  "sample_certs =
     \<lparr>cf_fs = sample_fs, cf_RemoveAllError = (\<lambda>_. None), cf_TempDir = (\<lambda>_. Ok ''/cds7''), cf_Template = (\<lambda>_. ''{}''),
      cf_Start = (\<lambda>_ _ t. (None, t)), cf_Left = (\<lambda>_ _ t. ((''out'', None), t)),
      cf_Right = (\<lambda>_ _ _ t. (([], Some (NewError ''exit status 1'')), put ''/cds7/ca-key.pem'' (FileEntry 0x180 ''secret'' 1) t))\<rparr>"

theorem work_directory_is_removed_witness:
  "\<exists>t'. BuildCerts sample_certs sample_tree = (fst (BuildCerts sample_certs sample_tree), t') \<and>
     list_all (\<lambda>(q, x). \<not> inside ''/cds7'' q) t' \<and> inside ''/cds7'' ''/cds7/ca-key.pem''"
proof -
  obtain e t' where run: "BuildCerts sample_certs sample_tree = (e, t')" by fastforce
  have "inside ''/cds7'' ''/cds7/ca-key.pem''" by code_simp
  moreover have "list_all (\<lambda>(q, x). \<not> inside ''/cds7'' q) t'"
    using work_directory_is_removed [OF run] by (auto simp: list_all_iff sample_certs_def)
  ultimately show ?thesis using run by auto
qed

definition cert_tree :: tree where
  "cert_tree = [(''/'', DirEntry 0x1ED), (''/c'', DirEntry 0x1C0), (''/c/old.pem'', FileEntry 0x180 ''o'' 1), (''/c/notes'', FileEntry 0x180 ''n'' 1)]"

theorem cert_directory_is_cleaned_witness:
  "\<exists>t'. cleanManagedCertDir sample_certs ''/c'' cert_tree = (None, t') \<and> at t' ''/c/old.pem'' = None"
proof -
  obtain t' where run: "cleanManagedCertDir sample_certs ''/c'' cert_tree = (None, t')"
    by (rule that [of "snd (cleanManagedCertDir sample_certs ''/c'' cert_tree)"]) code_simp
  have "distinct (map fst cert_tree)" "normal_seg ''old.pem''" "HasSuffix ''old.pem'' ''.pem''" "path_Join [''/c'', ''old.pem''] = ''/c/old.pem''"
    by code_simp+
  with cert_directory_is_cleaned [OF run, of "[]" "''old.pem''"] run show ?thesis by auto
qed

end
