(* ===== verification/Mains.thy ===== *)
theory Mains
  imports DbProps Format
begin

text \<open>
  The two programs. \<open>cmd/client/cds.go\<close>: the client loads the store, executes one command and saves
  the store. \<open>cmd/api-agent/cds-api-agent.go\<close> and \<open>internal/agent/agent.go\<close>: the agent finds its
  listener and serves until it is stopped; the goroutines that stop it are not modelled.
\<close>

section \<open>The client\<close>

text \<open>
  \<open>InitCLIConfig\<close> runs before \<open>main\<close>. A command is a function of the store; \<open>write\<close> is the
  file of the store. \<open>os.Exit\<close> ends the process at once: the deferred save does not run then.
  The result is the status of the process and the bytes that were written to the file, if any.
\<close>

record client_process =
  cp_Init :: "err option"
  cp_DBSource :: "source result"
  cp_decode :: decoder
  cp_encode :: "data \<Rightarrow> string result"
  cp_write :: "string \<Rightarrow> err option"
  cp_Execute :: "data \<Rightarrow> err option \<times> data"

definition client_init :: "client_process \<Rightarrow> nat option" where
  "client_init p = (case cp_Init p of Some e \<Rightarrow> Some 1 | None \<Rightarrow> None)"

definition client_main :: "client_process \<Rightarrow> nat \<times> string option" where
  "client_main p =
     (case cp_DBSource p of
        Inl e \<Rightarrow> (1, None)
      | Inr dbSrc \<Rightarrow>
     (case Load (cp_decode p) dbSrc None of
        (d, Some e) \<Rightarrow> (1, None)
      | (d, None) \<Rightarrow>
     (case cp_Execute p d of
        (Some e, d1) \<Rightarrow> (1, None)
      | (None, d1) \<Rightarrow>
          (case Save (cp_encode p) (cp_write p) (Some d1) of
             (d2, written, Some e) \<Rightarrow> (1, written)
           | (d2, written, None) \<Rightarrow> (0, written)))))"

definition client_process_run :: "client_process \<Rightarrow> nat \<times> string option" where
  "client_process_run p = (case client_init p of Some n \<Rightarrow> (n, None) | None \<Rightarrow> client_main p)"


section \<open>The agent\<close>

definition defaultAgentVersion :: string where "defaultAgentVersion = ''9.9.9''"

definition GetVersion :: "string result" where "GetVersion = Ok defaultAgentVersion"

text \<open>A listener that systemd hands over, or one that is opened at the port.\<close>

definition listener :: "'l list result \<Rightarrow> (string \<Rightarrow> 'l result) \<Rightarrow> int \<Rightarrow> 'l result" where
  "listener systemd_listeners net_Listen port =
     (case systemd_listeners of
        Inl e \<Rightarrow> Inl (AppendError ''cannot retrieve systemd listeners'' e)
      | Inr ls \<Rightarrow>
          (case ls of
             [] \<Rightarrow> net_Listen (CHR '':'' # Itoa port)
           | [lis] \<Rightarrow> Ok lis
           | _ \<Rightarrow> Fail (''expected 1 socket activation listener but got '' @ nat_text 10 (length ls))))"

text \<open>The start of the agent up to serving: an error is logged and the program returns; one of the initialisation exits.\<close>

datatype 'l agent_start = AgentExits nat | AgentReturns | AgentServes 'l

definition agent_main :: "err option \<Rightarrow> 'l result \<Rightarrow> ('l \<Rightarrow> 'c result) \<Rightarrow> 'l agent_start" where
  "agent_main init_error lis setup_tls =
     (case init_error of
        Some e \<Rightarrow> AgentExits 1
      | None \<Rightarrow>
          (case lis of
             Inl e \<Rightarrow> AgentReturns
           | Inr l \<Rightarrow> (case setup_tls l of Inl e \<Rightarrow> AgentReturns | Inr c \<Rightarrow> AgentServes l)))"

section \<open>Witness\<close>

definition sample_process :: client_process where
  "sample_process =
     \<lparr>cp_Init = None, cp_DBSource = Ok \<lparr>src_Exists = Ok False, src_Read = Fail [], src_Information = []\<rparr>, cp_decode = (\<lambda>b. Inr (raw_of zero_data)),
      cp_encode = (\<lambda>d. Ok ''{}''), cp_write = (\<lambda>_. None), cp_Execute = (\<lambda>d. (Some (NewError ''failed''), context_data ''web''))\<rparr>"


end
