(* ===== verification/ConfigLoad.thy ===== *)
theory ConfigLoad
  imports Prelude
begin

text \<open>
  Loading a devcontainer configuration from bytes (\<open>internal/containerconf/configuration.go\<close>): lines
  that are comments are dropped, then the JSON is parsed. \<open>'v\<close> is what the configuration library
  makes of the text; a configuration is that, or nothing before the first load.
\<close>

section \<open>Comments\<close>

text \<open>The class \<open>\\s\<close> of the package \<open>regexp\<close>.\<close>

definition re_space :: "char \<Rightarrow> bool" where
  "re_space c \<longleftrightarrow> c = CHR '' '' \<or> c = CHR 0x09 \<or> c = CHR 0x0A \<or> c = CHR 0x0C \<or> c = CHR 0x0D"

definition blank_line :: "string \<Rightarrow> bool" where "blank_line l \<longleftrightarrow> list_all re_space l"

definition comment_line :: "string \<Rightarrow> bool" where "comment_line l \<longleftrightarrow> HasPrefix (dropWhile re_space l) ''//''"

text \<open>
  Replacing \<open>(?m:^\\s*//.*$)\<close> by nothing: a match begins at the first of the blank lines before a
  comment, since \<open>\\s\<close> matches line ends too, and ends before the line end of the comment, so that
  they leave one empty line. The first argument has the blank lines that were just seen.
\<close>

fun uncomment :: "string list \<Rightarrow> string list \<Rightarrow> string list" where
  "uncomment blanks [] = blanks"
| "uncomment blanks (l # ls) =
     (if comment_line l then [] # uncomment [] ls
      else if blank_line l then uncomment (blanks @ [l]) ls
      else blanks @ l # uncomment [] ls)"

definition uncommented :: "string \<Rightarrow> string" where
  "uncommented text = Join (uncomment [] (split_on (CHR 0x0A) text)) [CHR 0x0A]"

section \<open>Loading\<close>

definition LoadFromBytes :: "(string \<Rightarrow> 'v result) \<Rightarrow> string result \<Rightarrow> 'v option \<Rightarrow> err option \<times> 'v option" where
  "LoadFromBytes ReadConfig reader c =
     (case reader of
        Inl e \<Rightarrow> (Some (AppendError ''Couldn't unload configuration reader'' e), c)
      | Inr bytes \<Rightarrow>
          if TrimSpace (uncommented bytes) = [] then (Some (NewError ''configuration from bytes is empty''), c)
          else case ReadConfig (uncommented bytes) of
            Inl e \<Rightarrow> (Some (AppendError ''Failed to parse configuration from bytes'' e), c)
          | Inr v \<Rightarrow> (None, Some v))"

definition ParseBytes :: "(string \<Rightarrow> 'v result) \<Rightarrow> string result \<Rightarrow> 'v option result" where
  "ParseBytes ReadConfig reader =
     (case LoadFromBytes ReadConfig reader None of (Some e, c) \<Rightarrow> Inl e | (None, c) \<Rightarrow> Ok c)"

section \<open>Properties\<close>

lemma comment_not_blank: "comment_line l \<Longrightarrow> \<not> blank_line l"
proof -
  have "blank_line l \<Longrightarrow> dropWhile re_space l = []" by (simp add: blank_line_def list_all_iff dropWhile_eq_Nil_conv)
  moreover have "comment_line l \<Longrightarrow> dropWhile re_space l \<noteq> []" by (cases "dropWhile re_space l") (simp_all add: comment_line_def)
  ultimately show "comment_line l \<Longrightarrow> \<not> blank_line l" by blast
qed

lemma uncomment_lines:
  assumes "list_all blank_line blanks"
  shows "filter (\<lambda>l. \<not> blank_line l) (uncomment blanks ls) = filter (\<lambda>l. \<not> blank_line l \<and> \<not> comment_line l) ls"
  using assms
proof (induction blanks ls rule: uncomment.induct)
  case (2 blanks l ls)
  have "filter (\<lambda>l. \<not> blank_line l) blanks = []" using 2(4) by (simp add: filter_empty_conv list_all_iff)
  moreover have "blank_line []" by (simp add: blank_line_def)
  ultimately show ?case using 2 comment_not_blank by (cases "comment_line l"; cases "blank_line l") auto
qed (simp add: filter_empty_conv list_all_iff)

lemma uncomment_none: "list_all (\<lambda>l. \<not> comment_line l) blanks \<Longrightarrow> list_all (\<lambda>l. \<not> comment_line l) (uncomment blanks ls)"
  by (induction blanks ls rule: uncomment.induct) (auto simp: comment_line_def)

lemma uncomment_id: "list_all (\<lambda>l. \<not> comment_line l) ls \<Longrightarrow> uncomment blanks ls = blanks @ ls"
  by (induction blanks ls rule: uncomment.induct) auto

text \<open>
  Comments are all that is dropped: the lines that are kept are, without the blank ones, the lines
  that are no comments, in order; none of them is a comment, and doing it again changes nothing.
\<close>

theorem only_comments_are_dropped:
  "filter (\<lambda>l. \<not> blank_line l) (uncomment [] ls) = filter (\<lambda>l. \<not> blank_line l \<and> \<not> comment_line l) ls \<and>
   uncomment [] (uncomment [] ls) = uncomment [] ls"
  using uncomment_lines [of "[]" ls] uncomment_id [OF uncomment_none [of "[]" ls], of "[]"] by simp

text \<open>A load that fails keeps the values that were loaded before.\<close>

theorem failed_parse_keeps_configuration:
  assumes "LoadFromBytes ReadConfig reader c = (Some e, c')"
  shows "c' = c"
  using assms by (auto simp: LoadFromBytes_def split: sum.splits if_splits)

theorem failed_parse_keeps_configuration_witness:
  "\<exists>e c'. LoadFromBytes (\<lambda>t. Fail t) (Ok ''  // only a comment'') (Some (7::nat)) = (Some e, c') \<and> c' = Some 7"
proof -
  have "fst (LoadFromBytes (\<lambda>t. Fail t) (Ok ''  // only a comment'') (Some (7::nat))) \<noteq> None" by (simp add: LoadFromBytes_def)
  then obtain e c' where run: "LoadFromBytes (\<lambda>t. Fail t) (Ok ''  // only a comment'') (Some (7::nat)) = (Some e, c')"
    by (metis option.exhaust prod.collapse)
  from failed_parse_keeps_configuration [OF run] run show ?thesis by blast
qed

end
