(* ===== verification/Spec2Isabelle.thy ===== *)
theory Spec2Isabelle
  imports DbProps EngineRunProps EngineOpsProps AgentProps RegistryProps CommandProps BootstrapProps AccessProps EnvFilesProps ScmProps Secrets RemoteShellProps ServicesProps LoggingProps OutputProps Certificates Mains ConfigLoad
begin

text \<open>
  CDS runs development containers on local and remote hosts. A \<^emph>\<open>client\<close> keeps a store of
  projects and hosts, and a registry of agents; an \<^emph>\<open>agent\<close> on each host receives the files of
  a deployment and drives a container engine (podman) through the shell. This library models
  the logic of both, in the order in which the code is layered; each theory opens with the
  files it models.

  \<^bold>\<open>Vocabulary.\<close> \<open>Prelude\<close>: Go strings as byte lists, results \<open>err + 'a\<close> for \<open>(T, error)\<close>,
  and two locales for patterns of the source, \<open>index_table\<close> (rows collected in a slice with a
  map from key to index) and \<open>row_table\<close> (rows found by a normalised name). \<open>Bo\<close> and \<open>Global\<close>
  are \<open>internal/bo\<close> and \<open>internal/global\<close>: container states, ports, image references.

  \<^bold>\<open>The store of the client\<close> (\<open>internal/db\<close>). \<open>DbModel\<close> has the rows, \<open>DbNormalize\<close> the pass that
  runs at every load and save, \<open>Db\<close> the operations and \<open>DbProps\<close> the results: the normal form
  is established and kept, the list of projects refines a map from name to project under
  every operation, saving and loading are inverse, and what is written reads back. \<open>row_table\<close> and
  \<open>index_table\<close> are interpreted on the project, host and container rows.

  \<^bold>\<open>Files of a deployment\<close> (\<open>internal/containerconf\<close>, \<open>internal/agent\<close>). \<open>GoPath\<close> is the part of the
  package \<open>path\<close> that is used; \<open>ConfigLoad\<close> drops the comments of a configuration;
  \<open>Identifier\<close> has the identifiers and collectors; \<open>Staging\<close> the
  paths on the agent, which never leave the directory of a project; \<open>Upload\<close> the artifact
  service and the client that uploads to it. An upload changes one file, to exactly the
  bytes that were described, or nothing; staging a plan succeeds and leaves nothing missing.

  \<^bold>\<open>The engine\<close> (\<open>internal/engine\<close>, the local shell of \<open>internal/shexec\<close>). \<open>Format\<close> has numbers and
  shell words, \<open>EngineCore\<close> the enumerations, the command table and all handlers,
  \<open>EngineExpand\<close> variables, \<open>EngineRun\<close> the devcontainer run and \<open>BuildCommands\<close>, \<open>EngineParse\<close>
  the readers of what podman prints, \<open>EngineOps\<close> the operations on containers and networks.
  \<open>EngineProps\<close>, \<open>EngineSubst\<close>, \<open>EngineRunProps\<close> and \<open>EngineOpsProps\<close> show which commands are
  built, in which order, in which container and as whom, that user text reaches the shell
  as one word, that expansion is simultaneous substitution, and that reading undoes
  printing. The shell is a function of the command and the world; \<open>sh_words\<close> is the part of
  its word splitting that the statements need.

  \<^bold>\<open>The agent\<close> (\<open>internal/agent\<close>). \<open>AgentContainers\<close>: the operations interface with its default on
  the engine, the handlers, the deployment with its event stream. \<open>AgentProps\<close>: a request
  runs one command with its names as words, a deployment stops at the first failure, the
  stream has one response (shown in the locale \<open>deployer\<close>, interpreted on the engine), and
  the provider of a deployment returns what the client staged.

  \<^bold>\<open>The registry of agents\<close> (\<open>internal/config\<close>, \<open>internal/source\<close>). \<open>Address\<close>: server addresses;
  \<open>Config\<close>: the manifest and its sources; \<open>AgentRegistry\<close>: \<open>cliconfig.yaml\<close>, the
  configuration of an agent and start-up. \<open>RegistryProps\<close>: the file refines a map from host
  to agent under every operation, refusals included.

  \<^bold>\<open>The client's commands\<close> (\<open>internal/command\<close>). \<open>SshConfig\<close>: the blocks in the SSH configuration;
  \<open>ProjectSync\<close>: listing, synchronising, starting, stopping and clearing through an agent;
  \<open>ProjectKeys\<close>: the key pair of a host (with \<open>internal/shexec/keys.go\<close>); \<open>ProjectDeploy\<close>: the
  plan of a deployment and its execution; \<open>ProjectCommands\<close>: the commands themselves.
  \<open>SshConfigProps\<close>, \<open>ProjectSyncProps\<close>, \<open>DeployProps\<close> and \<open>CommandProps\<close> show that a
  synchronisation mirrors the agent, that what a deployment leaves is enough to connect,
  that the plan is one the agent accepts and installs the key that connects, and what each
  command does to projects, hosts and the selection, defects included.

  \<^bold>\<open>Agent processes and hosts\<close> (\<open>internal/bootstrap\<close>, \<open>internal/command\<close>). \<open>AgentBinary\<close>: which
  program an agent is and which process it is (\<open>bin.go\<close>, \<open>agent_stop.go\<close>, the search for the
  repository); \<open>Bootstrap\<close>: starting a local or a remote agent, ports, certificates, health;
  \<open>HostCommands\<close>: the target of a command, the connection (\<open>boot_link\<close> is the \<open>agent_link\<close> of
  the commands above) and \<open>host add\<close>, \<open>delete\<close>, \<open>list\<close>, \<open>get\<close>; \<open>ProjectAccess\<close>: \<open>ssh\<close>, \<open>rsh\<close>,
  \<open>expose\<close>, \<open>share\<close>, \<open>unshare\<close> and the registration of a host (\<open>internal/host\<close>).
  \<open>BootstrapProps\<close> and \<open>AccessProps\<close> show that an agent is dialled at the port it is started
  on, that waiting for it ends, that what a start records is what a stop needs, that only a
  recorded process is signalled, that a session goes where the store says, and that unsharing
  removes the key that sharing installed.

  \<^bold>\<open>Files and sessions of a host\<close>. \<open>EnvFiles\<close> is \<open>internal/cenv\<close> and \<open>internal/cos\<close> on an explicit
  file system with modes: the configuration directories, making sure of directories, temporary
  files and their removal. \<open>EnvFilesProps\<close>: a removal stays inside the directory for temporary
  files, making and removing a file leaves everything as it was, and which modes change.
  \<open>Certificates\<close> is \<open>internal/tls\<close> on the same file system: nothing of the work directory stays, and
  cleaning removes keys and certificates only. \<open>RemoteShell\<close> is \<open>internal/shexec\<close> over ssh:
  authentication, the keys of hosts, connections, the loop over events, copying files; the package
  variables are its state. \<open>RemoteShellProps\<close>: the commands that run and where the loop stops, that
  every host key is accepted, how often a password is asked for, that a connection is made once.
  \<open>Services\<close> is \<open>internal/systemd\<close> over the operations of a host (\<open>internal/host\<close>); \<open>ServicesProps\<close>
  shows the commands of a start.

  \<^bold>\<open>Hosting services and secrets\<close>. \<open>Regex\<close> is a backtracking matcher with the order of choices of
  the package \<open>regexp\<close>; \<open>Scm\<close> is \<open>internal/scm\<close>: requests and their authentication, the making of
  clients and tokens, repository addresses, files of submodules. \<open>Secrets\<close> is the file of
  secrets (\<open>internal/authmgr\<close>) and the artifact repository (\<open>internal/ar\<close>); the locale
  \<open>credential_store\<close> states what both clients rely on, and is interpreted on that file. \<open>ScmProps\<close>
  and \<open>Secrets\<close> show that an address that is printed is read back, that a new client was accepted
  by the server, that a stored token reads back, and what refusals leave behind.

  \<^bold>\<open>What is printed, and the programs\<close>. \<open>Logging\<close> (\<open>internal/clog\<close>, \<open>internal/cerr/format.go\<close>): the
  lines of the log, handlers as references to shared fields; \<open>LoggingProps\<close>: colours keep the
  layout, printing ends, a fan-out reaches the enabled handlers. \<open>Output\<close> and \<open>OutputProps\<close>
  (\<open>internal/output\<close> and the list of projects): the mode of the output, aligned tables. \<open>Mains\<close>
  is the client from loading to saving the store (\<open>cmd/client\<close>), with the store's own \<open>Load\<close> and \<open>Save\<close>,
  and the start of the agent: a command that fails saves nothing.

  \<^bold>\<open>State.\<close> The store is the record \<open>data\<close> (the lock around it is not modelled: one command
  runs at a time); the engine's state is its table of variables and the world of the shell;
  the client's state is the store, the SSH configuration and the world of the agent. An
  operation takes the state and returns it updated. A panic is an error value of its own
  (\<open>nil_dereference\<close>, \<open>nil_map_assignment\<close>).

  \<^bold>\<open>Bounds and termination.\<close> No definition uses fuel. Loops over lists are structural; the
  upload loop has a measure (the bytes left) and its number of chunks is proved; the walk to
  the root of the repository has the length of the path; expansion visits the matches found at
  the start. Making sure of a directory recurses on the text of the path, which gets shorter; a match
  of a regular expression has the size of the expression and of the text as its measure. Waiting for
  an agent may run forever in a world whose clock stands still: \<open>poll_until\<close> is a partial
  function, and a start is shown to end when pauses move the clock. A submodule may name its own
  repository and a replacement of attributes may give new groups for ever, so \<open>GetFile\<close>,
  \<open>ListFiles\<close> and the printing of attributes are partial functions too; the last is shown to
  end for the replacement that the client installs.
  Integers that are converted on the wire are 32-bit words, the others are unbounded: they are
  ports, sizes and counters far below 64 bits.

  \<^bold>\<open>Parameters.\<close> What is not in the repository is an argument with named behaviour where a
  statement needs it: YAML, JSON, the configuration parser (viper), \<open>net/url\<close>, hashes, the
  cryptographic library, the shell and podman, the operating system's files, processes,
  sockets and clock.

  \<^bold>\<open>Not modelled\<close>: attached terminals, port forwarding and prompts, which are goroutines and
  terminal I/O; the goroutines that stop the agent; the declaration of flags and subcommands.
  Strings outside ASCII and concurrent access are not modelled either.
\<close>

end
